(* ===== verification/Prelude.thy ===== *)
theory Prelude
  imports Main "HOL-Library.AList" "HOL-Library.Multiset"
begin

text \<open>
  The shared vocabulary of the development: Go maps and the order in which a \<^verbatim>\<open>range\<close> loop
  visits them, Go's comparator-driven sorting, pages of a listing, strings as sequences of runes
  with \<^verbatim>\<open>strings.TrimSpace\<close>, instants and durations in nanoseconds, and 64-bit wrap-around. The
  components import this theory and add no list or map reasoning of their own.
\<close>

named_theorems table_simps \<open>reading a keyed Go map after an update\<close>
named_theorems svc_defs \<open>definitions unfolded when a service operation is executed\<close>


section \<open>Results\<close>

text \<open>A Go pair (value, error) is a sum: \<open>Inl\<close> the error, \<open>Inr\<close> the value. A lone Go \<^verbatim>\<open>error\<close> is
  an option, \<open>None\<close> for \<^verbatim>\<open>nil\<close>.\<close>

fun or_err :: "'a option \<Rightarrow> 'e \<Rightarrow> 'e + 'a" where
  "or_err None e = Inl e"
| "or_err (Some x) e = Inr x"

lemma or_err_Inr [simp]: "or_err r e = Inr x \<longleftrightarrow> r = Some x"
  by (cases r) auto

lemma or_err_Inl [simp]: "or_err r e = Inl e' \<longleftrightarrow> r = None \<and> e' = e"
  by (cases r) auto


section \<open>Go maps\<close>

text \<open>
  A Go map is an association list with distinct keys: \<^verbatim>\<open>m[k]\<close> is \<open>map_of m k\<close>, \<^verbatim>\<open>m[k] = v\<close> is
  \<open>AList.update\<close>, \<^verbatim>\<open>delete(m, k)\<close> is \<open>AList.delete\<close>. The language leaves the order of
  \<^verbatim>\<open>for k, v := range m\<close> open. A loop whose result depends on that order takes a ranking of the keys
  as an argument and visits the entries by increasing rank; since every ranking is allowed, a
  theorem about all rankings is a theorem about all orders the runtime may pick.
\<close>

type_synonym ('k, 'v) gomap = "('k \<times> 'v) list"

definition gvals :: "('k, 'v) gomap \<Rightarrow> 'v list" where
  "gvals m = map snd m"

definition grange :: "('k \<Rightarrow> nat) \<Rightarrow> ('k, 'v) gomap \<Rightarrow> 'v list" where
  "grange rank m = map snd (sort_key (\<lambda>e. rank (fst e)) m)"

definition keyed :: "('v \<Rightarrow> 'k) \<Rightarrow> ('k, 'v) gomap \<Rightarrow> bool" where
  "keyed idf m \<longleftrightarrow> distinct (map fst m) \<and> (\<forall>e \<in> set m. idf (snd e) = fst e)"

lemma set_grange [simp]: "set (grange rank m) = set (gvals m)"
  by (simp add: grange_def gvals_def)

lemma mset_grange [simp]: "mset (grange rank m) = mset (gvals m)"
  by (simp add: grange_def gvals_def)

lemma gvals_Nil [simp]: "gvals [] = []"
  by (simp add: gvals_def)

lemma gvals_Cons [simp]: "gvals (e # m) = snd e # gvals m"
  by (simp add: gvals_def)

lemma grange_Nil [simp]: "grange rank [] = []"
  by (simp add: grange_def)

lemma keyed_Nil [simp]: "keyed idf []"
  by (simp add: keyed_def)

lemma keyed_get: "keyed idf m \<Longrightarrow> map_of m k = Some v \<Longrightarrow> idf v = k"
  by (auto simp: keyed_def dest!: map_of_SomeD)

lemma keyed_mem: "keyed idf m \<Longrightarrow> v \<in> set (gvals m) \<longleftrightarrow> map_of m (idf v) = Some v"
  by (force simp: keyed_def gvals_def dest: map_of_SomeD)

lemma keyed_get_mem: "keyed idf m \<Longrightarrow> map_of m k = Some v \<Longrightarrow> v \<in> set (gvals m)"
  using keyed_get keyed_mem by metis

lemma keyed_inj:
  "keyed idf m \<Longrightarrow> x \<in> set (gvals m) \<Longrightarrow> y \<in> set (gvals m) \<Longrightarrow> idf x = idf y \<Longrightarrow> x = y"
  by (metis keyed_mem option.inject)

lemma keyed_update [simp]: "keyed idf m \<Longrightarrow> keyed idf (AList.update (idf v) v m)"
proof -
  have *: "set (AList.update k v m) \<subseteq> insert (k, v) (set m)" for k
    by (induction m) auto
  assume "keyed idf m"
  then show ?thesis
    using * [of "idf v"] by (auto simp: keyed_def AList.distinct_update)
qed

lemma keyed_update_key: "keyed idf m \<Longrightarrow> idf v = k \<Longrightarrow> keyed idf (AList.update k v m)"
  by auto

lemma keyed_gvals_update:
  "keyed idf m \<Longrightarrow>
     set (gvals (AList.update (idf v) v m)) = insert v {x \<in> set (gvals m). idf x \<noteq> idf v}"
  (is "?k \<Longrightarrow> ?l = ?r")
proof -
  assume k: ?k
  then have k': "keyed idf (AList.update (idf v) v m)" by simp
  show "?l = ?r"
    unfolding keyed_mem [OF k, symmetric] set_eq_iff
    using keyed_mem [OF k] keyed_mem [OF k'] by (auto simp: update_conv' split: if_splits)
qed

lemma keyed_distinct_vals: "keyed idf m \<Longrightarrow> distinct (map idf (gvals m))"
  by (induction m) (auto simp: keyed_def gvals_def)

lemma keyed_distinct_grange: "keyed idf m \<Longrightarrow> distinct (map idf (grange rank m))"
  by (metis keyed_distinct_vals mset_grange mset_eq_imp_distinct_iff mset_map)

text \<open>A filter over a Go map counts its entries independently of the visiting order.\<close>

lemma length_filter_grange [simp]:
  "length (filter P (grange rank m)) = length (filter P (gvals m))"
  by (metis mset_filter mset_grange size_mset)


lemma find_mem: "find P xs = Some x \<Longrightarrow> x \<in> set xs \<and> P x"
  by (auto simp: find_Some_iff)


section \<open>Sorting with a comparator\<close>

text \<open>
  \<^verbatim>\<open>sort.SliceStable(xs, lt)\<close> is insertion sort driven by the strict comparator. \<^verbatim>\<open>sort.Slice\<close> may
  permute entries its comparator does not separate; wherever the source calls it the slice was
  filled by a map range, so a stable sort of an arbitrarily ordered slice has the same outcomes.
\<close>

fun insert_by :: "('a \<Rightarrow> 'a \<Rightarrow> bool) \<Rightarrow> 'a \<Rightarrow> 'a list \<Rightarrow> 'a list" where
  "insert_by lt x [] = [x]"
| "insert_by lt x (y # ys) = (if lt y x then y # insert_by lt x ys else x # y # ys)"

definition sort_by :: "('a \<Rightarrow> 'a \<Rightarrow> bool) \<Rightarrow> 'a list \<Rightarrow> 'a list" where
  "sort_by lt xs = foldr (insert_by lt) xs []"

lemma sort_by_Nil [simp]: "sort_by lt [] = []"
  by (simp add: sort_by_def)

lemma sort_by_Cons [simp]: "sort_by lt (x # xs) = insert_by lt x (sort_by lt xs)"
  by (simp add: sort_by_def)

lemma mset_insert_by [simp]: "mset (insert_by lt x xs) = add_mset x (mset xs)"
  by (induction xs) auto

lemma mset_sort_by [simp]: "mset (sort_by lt xs) = mset xs"
  by (induction xs) auto

lemma set_sort_by [simp]: "set (sort_by lt xs) = set xs"
  by (metis mset_sort_by set_mset_mset)

lemma length_sort_by [simp]: "length (sort_by lt xs) = length xs"
  by (metis mset_sort_by size_mset)

lemma sort_by_eq_Nil [simp]: "sort_by lt xs = [] \<longleftrightarrow> xs = []"
  by (metis length_0_conv length_sort_by)

lemma insert_by_head: "(\<And>y. y \<in> set ys \<Longrightarrow> \<not> lt y x) \<Longrightarrow> insert_by lt x ys = x # ys"
  by (cases ys) auto

lemma sort_by_id:
  "sorted_wrt (\<lambda>x y. \<not> lt y x) xs \<Longrightarrow> sort_by lt xs = xs"
  by (induction xs) (auto simp: insert_by_head)

text \<open>What Go asks of a comparator, and what a sorted slice then guarantees.\<close>

locale comparator =
  fixes lt :: "'a \<Rightarrow> 'a \<Rightarrow> bool"
  assumes asym: "lt x y \<Longrightarrow> \<not> lt y x"
    and neg_trans: "\<not> lt x y \<Longrightarrow> \<not> lt y z \<Longrightarrow> \<not> lt x z"
begin

lemma insert_by_sorted:
  "sorted_wrt (\<lambda>x y. \<not> lt y x) xs \<Longrightarrow> sorted_wrt (\<lambda>x y. \<not> lt y x) (insert_by lt x xs)"
proof (induction xs)
  case Nil
  then show ?case by simp
next
  case (Cons y ys)
  have set_ins: "set (insert_by lt x ys) = insert x (set ys)"
    by (metis mset_insert_by set_mset_add_mset_insert set_mset_mset)
  show ?case
  proof (cases "lt y x")
    case True
    with Cons show ?thesis by (auto simp: set_ins dest: asym)
  next
    case False
    with Cons.prems show ?thesis by (auto dest: neg_trans)
  qed
qed

lemma sort_by_sorted: "sorted_wrt (\<lambda>x y. \<not> lt y x) (sort_by lt xs)"
  by (induction xs) (auto intro: insert_by_sorted)

lemma sort_by_head_least:
  "sort_by lt xs = y # ys \<Longrightarrow> x \<in> set xs \<Longrightarrow> \<not> lt x y"
proof -
  assume a: "sort_by lt xs = y # ys" and x: "x \<in> set xs"
  from sort_by_sorted [of xs] a have "\<forall>z \<in> set ys. \<not> lt z y" by simp
  moreover from a x have "x \<in> set (y # ys)" by (metis set_sort_by)
  moreover have "\<not> lt y y" using asym by blast
  ultimately show ?thesis by auto
qed

end


section \<open>Pages of a listing\<close>

text \<open>The offset and limit cut at the end of every listing of the stores.\<close>

definition gopage :: "int \<Rightarrow> int \<Rightarrow> 'a list \<Rightarrow> 'a list" where
  "gopage limit offset items =
     (if offset \<ge> int (length items) then []
      else let items = drop (nat offset) items
           in if limit > 0 \<and> limit < int (length items) then take (nat limit) items else items)"

lemma set_gopage: "set (gopage limit offset xs) \<subseteq> set xs"
  by (auto simp: gopage_def Let_def dest: in_set_dropD in_set_takeD)

lemma length_gopage: "0 < limit \<Longrightarrow> int (length (gopage limit offset xs)) \<le> limit"
  by (auto simp: gopage_def Let_def)

lemma gopage_all [simp]: "gopage 0 0 xs = xs"
  by (auto simp: gopage_def)


section \<open>Strings\<close>

text \<open>
  Identifiers and wire constants are \<open>string\<close>. Texts written by people are sequences of runes, the
  unit the code measures them in (\<^verbatim>\<open>len([]rune(s))\<close>); requests reach the services as JSON, which the
  decoder turns into valid UTF-8.
\<close>

type_synonym rune = int
type_synonym runes = "rune list"

text \<open>\<^verbatim>\<open>unicode.IsSpace\<close>.\<close>

definition is_space :: "rune \<Rightarrow> bool" where
  "is_space r \<longleftrightarrow>
     r \<in> {9, 10, 11, 12, 13, 32, 133, 160, 5760, 8232, 8233, 8239, 8287, 12288}
       \<or> 8192 \<le> r \<and> r \<le> 8202"

definition TrimSpace :: "runes \<Rightarrow> runes" where
  "TrimSpace s = rev (dropWhile is_space (rev (dropWhile is_space s)))"

lemma dropWhile_idem: "dropWhile P (dropWhile P xs) = dropWhile P xs"
  by (induction xs) auto

lemma hd_TrimSpace: "TrimSpace s \<noteq> [] \<Longrightarrow> \<not> is_space (hd (TrimSpace s))"
proof -
  let ?d = "dropWhile is_space s"
  assume n: "TrimSpace s \<noteq> []"
  obtain ws where ws: "rev ?d = ws @ dropWhile is_space (rev ?d)"
    by (metis takeWhile_dropWhile_id)
  then have "?d = TrimSpace s @ rev ws"
    unfolding TrimSpace_def by (metis rev_append rev_rev_ident)
  then have "hd (TrimSpace s) = hd ?d" and "?d \<noteq> []"
    using n by auto
  then show ?thesis using hd_dropWhile [of is_space s] by simp
qed

lemma last_TrimSpace: "TrimSpace s \<noteq> [] \<Longrightarrow> \<not> is_space (last (TrimSpace s))"
  by (simp add: TrimSpace_def last_rev hd_dropWhile)

lemma dropWhile_hd_keep: "xs = [] \<or> \<not> P (hd xs) \<Longrightarrow> dropWhile P xs = xs"
  by (cases xs) auto

lemma TrimSpace_idem [simp]: "TrimSpace (TrimSpace s) = TrimSpace s"
proof (cases "TrimSpace s = []")
  case True
  then show ?thesis by (simp only: True) (simp add: TrimSpace_def)
next
  case False
  let ?t = "TrimSpace s"
  have "dropWhile is_space ?t = ?t"
    using hd_TrimSpace [OF False] by (simp add: dropWhile_hd_keep)
  moreover have "dropWhile is_space (rev ?t) = rev ?t"
    using last_TrimSpace [OF False] False by (simp add: dropWhile_hd_keep hd_rev)
  ultimately show ?thesis by (simp add: TrimSpace_def [of ?t])
qed

lemma TrimSpace_Nil [simp]: "TrimSpace [] = []"
  by (simp add: TrimSpace_def)

lemma length_TrimSpace: "length (TrimSpace s) \<le> length s"
  by (metis TrimSpace_def length_dropWhile_le length_rev order_trans)

text \<open>
  The Russian literals of user-facing messages are named by an English key; a composed message is
  the list of its parts.
\<close>

datatype phrase = Lit string | Txt runes | Str string

type_synonym message = "phrase list"

text \<open>A person's text as a whole message; the empty text is the empty message.\<close>

definition mtext :: "runes \<Rightarrow> message" where
  "mtext r = (if r = [] then [] else [Txt r])"

lemma mtext_eq_Nil [simp]: "mtext r = [] \<longleftrightarrow> r = []"
  by (simp add: mtext_def)


section \<open>Time\<close>

text \<open>An instant is a number of nanoseconds since Go's zero time, the first of January of year 1 (all
  instants are UTC), a duration a number of nanoseconds.\<close>

type_synonym time = int

definition Nanosecond :: int where "Nanosecond = 1"
definition Second :: int where "Second = 1000000000"
definition Minute :: int where "Minute = 60 * Second"
definition Hour :: int where "Hour = 60 * Minute"

lemmas duration_defs = Nanosecond_def Second_def Minute_def Hour_def


section \<open>Machine integers\<close>

text \<open>Go's \<^verbatim>\<open>int64\<close> (and \<^verbatim>\<open>int\<close> on the platforms served) wraps around.\<close>

definition wrap64 :: "int \<Rightarrow> int" where
  "wrap64 x = (x + 2 ^ 63) mod 2 ^ 64 - 2 ^ 63"

definition in64 :: "int \<Rightarrow> bool" where
  "in64 x \<longleftrightarrow> - (2 ^ 63) \<le> x \<and> x < 2 ^ 63"

lemma wrap64_id [simp]: "in64 x \<Longrightarrow> wrap64 x = x"
  by (simp add: wrap64_def in64_def)

lemma in64_wrap64 [simp]: "in64 (wrap64 x)"
  by (simp add: wrap64_def in64_def)

text \<open>Go's \<^verbatim>\<open>/\<close> truncates towards zero.\<close>

definition quot64 :: "int \<Rightarrow> int \<Rightarrow> int" where
  "quot64 a b = wrap64 (sgn a * sgn b * (\<bar>a\<bar> div \<bar>b\<bar>))"

end
