(* ===== verification/Tables.thy ===== *)
theory Tables
  imports Prelude
begin

text \<open>
  The tables of the in-memory stores: rows kept by identifier, insertions guarded by a uniqueness rule.
  The interface \<open>store_table\<close> says what a read returns after a write and that a guarded insertion keeps
  the rule; the stores of orders and of identity interpret it for their tables.
\<close>

text \<open>No two rows of a table clash.\<close>

definition unique_rows :: "('v \<Rightarrow> 'v \<Rightarrow> bool) \<Rightarrow> (string, 'v) gomap \<Rightarrow> bool" where
  "unique_rows clash m \<longleftrightarrow>
     (\<forall>x \<in> set (gvals m). \<forall>y \<in> set (gvals m). x \<noteq> y \<longrightarrow> \<not> (clash x y \<and> clash y x))"

lemma unique_rows_Nil [simp]: "unique_rows clash []"
  by (simp add: unique_rows_def)

text \<open>A table in order: rows under their own identifier, no clashes, every row good.\<close>

definition table_ok :: "('v \<Rightarrow> string) \<Rightarrow> ('v \<Rightarrow> 'v \<Rightarrow> bool) \<Rightarrow> ('v \<Rightarrow> bool) \<Rightarrow> (string, 'v) gomap \<Rightarrow> bool" where
  "table_ok idf clash P t \<longleftrightarrow> keyed idf t \<and> unique_rows clash t \<and> (\<forall>v \<in> set (gvals t). P v)"

text \<open>
  The interface of a table: rows by identifier, an insertion refused when a row clashes with the new
  one, a replacement refused when there is nothing to replace, and a read by identifier.
\<close>

locale store_table =
  fixes rows :: "'s \<Rightarrow> (string, 'v) gomap"
    and idf :: "'v \<Rightarrow> string"
    and clash :: "'v \<Rightarrow> 'v \<Rightarrow> bool"
    and create :: "'v \<Rightarrow> 's \<Rightarrow> 'e + 's"
    and replace :: "'v \<Rightarrow> 's \<Rightarrow> 'e + 's"
    and fetch :: "string \<Rightarrow> 's \<Rightarrow> 'e + 'v"
  assumes fetch_Inr: "fetch k s = Inr v \<longleftrightarrow> map_of (rows s) k = Some v"
    and create_rows: "create v s = Inr s' \<Longrightarrow> rows s' = AList.update (idf v) v (rows s)"
    and create_guard: "(\<exists>s'. create v s = Inr s') \<longleftrightarrow> (\<forall>x \<in> set (gvals (rows s)). \<not> clash x v)"
    and replace_rows: "replace v s = Inr s' \<Longrightarrow> rows s' = AList.update (idf v) v (rows s)"
    and replace_guard: "(\<exists>s'. replace v s = Inr s') \<longleftrightarrow> map_of (rows s) (idf v) \<noteq> None"
begin

lemma fetch_create: "create v s = Inr s' \<Longrightarrow> fetch (idf v) s' = Inr v"
  by (simp add: fetch_Inr create_rows update_conv')

lemma fetch_create_other:
  "create v s = Inr s' \<Longrightarrow> k \<noteq> idf v \<Longrightarrow> fetch k s' = Inr x \<longleftrightarrow> fetch k s = Inr x"
  by (simp add: fetch_Inr create_rows update_conv')

lemma fetch_replace: "replace v s = Inr s' \<Longrightarrow> fetch (idf v) s' = Inr v"
  by (simp add: fetch_Inr replace_rows update_conv')

lemma fetch_replace_other:
  "replace v s = Inr s' \<Longrightarrow> k \<noteq> idf v \<Longrightarrow> fetch k s' = Inr x \<longleftrightarrow> fetch k s = Inr x"
  by (simp add: fetch_Inr replace_rows update_conv')

lemma keyed_create: "keyed idf (rows s) \<Longrightarrow> create v s = Inr s' \<Longrightarrow> keyed idf (rows s')"
  by (simp add: create_rows)

lemma keyed_replace: "keyed idf (rows s) \<Longrightarrow> replace v s = Inr s' \<Longrightarrow> keyed idf (rows s')"
  by (simp add: replace_rows)

lemma replace_succeeds:
  "keyed idf (rows s) \<Longrightarrow> fetch k s = Inr v \<Longrightarrow> idf v' = idf v \<Longrightarrow> \<exists>s'. replace v' s = Inr s'"
  by (auto simp: fetch_Inr replace_guard dest: keyed_get)

text \<open>A guarded insertion keeps the rows free of clashes.\<close>

lemma unique_create:
  assumes k: "keyed idf (rows s)" and u: "unique_rows clash (rows s)" and c: "create v s = Inr s'"
  shows "unique_rows clash (rows s')"
proof -
  have "\<forall>x \<in> set (gvals (rows s)). \<not> clash x v" using c create_guard by blast
  then show ?thesis
    using u unfolding unique_rows_def create_rows [OF c] keyed_gvals_update [OF k] by auto
qed

text \<open>A replacement keeps them so when the new row clashes with no row its predecessor did not.\<close>

lemma unique_replace:
  assumes k: "keyed idf (rows s)" and u: "unique_rows clash (rows s)" and r: "replace v s = Inr s'"
    and f: "map_of (rows s) (idf v) = Some w"
    and w: "\<And>x. clash x v \<Longrightarrow> clash v x \<Longrightarrow> clash x w \<and> clash w x"
  shows "unique_rows clash (rows s')"
proof -
  have w_mem: "w \<in> set (gvals (rows s))" using keyed_get_mem [OF k f] .
  have idw: "idf w = idf v" using keyed_get [OF k f] .
  have "\<not> (clash x v \<and> clash v x)" if "x \<in> set (gvals (rows s))" "idf x \<noteq> idf v" for x
    using u w that w_mem idw unfolding unique_rows_def by metis
  then show ?thesis
    using u unfolding unique_rows_def replace_rows [OF r] keyed_gvals_update [OF k] by auto
qed

text \<open>A table stays good under a guarded insertion, and under a replacement that makes no new clash.\<close>

lemma table_create:
  "table_ok idf clash P (rows s) \<Longrightarrow> create v s = Inr s' \<Longrightarrow> P v \<Longrightarrow> table_ok idf clash P (rows s')"
  unfolding table_ok_def
  using unique_create keyed_create by (auto simp: create_rows keyed_gvals_update)

lemma table_replace:
  assumes "table_ok idf clash P (rows s)" and "replace v s = Inr s'" and "P v"
    and "\<And>x. clash x v \<Longrightarrow> clash v x \<Longrightarrow> map_of (rows s) (idf v) = Some w \<and> clash x w \<and> clash w x"
  shows "table_ok idf clash P (rows s')"
proof -
  have k: "keyed idf (rows s)" and u: "unique_rows clash (rows s)" using assms(1) by (simp_all add: table_ok_def)
  obtain w0 where w0: "map_of (rows s) (idf v) = Some w0" using assms(2) replace_guard [of v s] by auto
  have "clash x w0 \<and> clash w0 x" if "clash x v" "clash v x" for x using assms(4) [OF that] w0 by simp
  then have "unique_rows clash (rows s')" using unique_replace [OF k u assms(2) w0] by blast
  then show ?thesis
    using assms(1,3) unfolding table_ok_def replace_rows [OF assms(2)] keyed_gvals_update [OF k] by auto
qed

end

end
