(* ===== verification/Float64.thy ===== *)
theory Float64
  imports Complex_Main "HOL-Library.Log_Nat"
begin

text \<open>
  IEEE-754 double arithmetic as the price rules use it. A finite double is a rational; every
  operation computes the exact rational result and rounds it to 53 significant bits, ties to even.
  The exponent range is not bounded: the code only handles prices, ratings and distances, whose
  magnitudes and quotients stay far inside \<open>2 powi (-1022)\<close> .. \<open>2 powi 1023\<close>. No operation
  divides by zero. The facts the components need are that rounding is monotone and exact on the
  integers a price can be.
\<close>

type_synonym float64 = rat


section \<open>Rounding to an integer, ties to even\<close>

definition rnd_even :: "rat \<Rightarrow> int" where
  "rnd_even x =
     (let n = \<lfloor>x\<rfloor>; r = x - of_int n
      in if r < 1/2 then n else if r > 1/2 then n + 1 else if even n then n else n + 1)"

lemma rnd_even_floor: "\<lfloor>x\<rfloor> \<le> rnd_even x" and rnd_even_ceil: "rnd_even x \<le> \<lfloor>x\<rfloor> + 1"
  by (auto simp: rnd_even_def Let_def)

lemma rnd_even_of_int [simp]: "rnd_even (of_int n) = n"
  by (simp add: rnd_even_def)

lemma rnd_even_mono: "x \<le> y \<Longrightarrow> rnd_even x \<le> rnd_even y"
proof -
  assume le: "x \<le> y"
  then have fl: "\<lfloor>x\<rfloor> \<le> \<lfloor>y\<rfloor>" by (rule floor_mono)
  show ?thesis
  proof (cases "\<lfloor>x\<rfloor> = \<lfloor>y\<rfloor>")
    case True
    with le show ?thesis by (auto simp: rnd_even_def Let_def)
  next
    case False
    with fl have "\<lfloor>x\<rfloor> + 1 \<le> \<lfloor>y\<rfloor>" by simp
    with rnd_even_ceil [of x] rnd_even_floor [of y] show ?thesis by linarith
  qed
qed

lemma rnd_even_ge: "of_int n \<le> x \<Longrightarrow> n \<le> rnd_even x"
  using rnd_even_mono [of "of_int n" x] by simp

lemma rnd_even_le: "x \<le> of_int n \<Longrightarrow> rnd_even x \<le> n"
  using rnd_even_mono [of x "of_int n"] by simp

lemma rnd_even_near: "\<bar>x - of_int (rnd_even x)\<bar> \<le> 1/2"
proof -
  have b: "of_int \<lfloor>x\<rfloor> \<le> x" "x < of_int \<lfloor>x\<rfloor> + 1" by linarith+
  define r where "r = x - of_int \<lfloor>x\<rfloor>"
  have x: "x = of_int \<lfloor>x\<rfloor> + r" and r: "0 \<le> r" "r < 1" using b by (simp_all add: r_def)
  have "rnd_even x = (if r < 1/2 then \<lfloor>x\<rfloor> else if r > 1/2 then \<lfloor>x\<rfloor> + 1
      else if even \<lfloor>x\<rfloor> then \<lfloor>x\<rfloor> else \<lfloor>x\<rfloor> + 1)"
    by (simp only: rnd_even_def Let_def r_def)
  then consider "rnd_even x = \<lfloor>x\<rfloor>" "r \<le> 1/2" | "rnd_even x = \<lfloor>x\<rfloor> + 1" "1/2 \<le> r"
    by (auto split: if_splits)
  then show ?thesis
  proof cases
    case 1
    then have "x - of_int (rnd_even x) = r" by (simp add: r_def)
    with 1 r show ?thesis by (simp add: abs_le_iff)
  next
    case 2
    then have "x - of_int (rnd_even x) = r - 1" by (simp add: r_def)
    with 2 r show ?thesis by (simp add: abs_le_iff)
  qed
qed


section \<open>The binade of a positive rational\<close>

definition ilog2 :: "rat \<Rightarrow> int" where
  "ilog2 x = (if 1 \<le> x then bitlen \<lfloor>x\<rfloor> - 1 else - bitlen (\<lceil>1 / x\<rceil> - 1))"

lemma bitlen_pos: "0 < n \<Longrightarrow> 1 \<le> bitlen n"
  using bitlen_eq_zero_iff [of n] bitlen_nonneg [of n] by linarith

lemma powi_nat: "0 \<le> k \<Longrightarrow> (2::rat) powi k = of_int (2 ^ nat k)"
  by (simp add: power_int_def)

lemma ilog2_bounds:
  assumes "0 < x"
  shows "2 powi ilog2 x \<le> x \<and> x < 2 powi (ilog2 x + 1)"
proof (cases "1 \<le> x")
  case True
  let ?n = "\<lfloor>x\<rfloor>"
  have n: "0 < ?n" using True by simp
  note b = bitlen_bounds [OF n] and p = bitlen_pos [OF n]
  have "(2::rat) powi (bitlen ?n - 1) = of_int (2 ^ nat (bitlen ?n - 1))"
    using p by (intro powi_nat) simp
  also have "\<dots> \<le> of_int ?n" using b by (simp only: of_int_le_iff)
  also have "\<dots> \<le> x" by simp
  finally have lo: "2 powi (bitlen ?n - 1) \<le> x" .
  have "x < of_int (?n + 1)" by (simp only: of_int_add of_int_1) linarith
  also have "\<dots> \<le> of_int (2 ^ nat (bitlen ?n))"
    using b by (simp only: of_int_le_iff add1_zle_eq)
  also have "\<dots> = (2::rat) powi bitlen ?n"
    using bitlen_nonneg [of ?n] by (intro powi_nat [symmetric])
  finally have hi: "x < 2 powi bitlen ?n" .
  show ?thesis using True lo hi by (simp add: ilog2_def)
next
  case False
  let ?y = "1 / x" let ?c = "\<lceil>?y\<rceil> - 1"
  have y: "1 < ?y" using False assms by simp
  then have c: "0 < ?c" by (simp add: less_ceiling_iff)
  note b = bitlen_bounds [OF c] and p = bitlen_pos [OF c]
  have "?y \<le> of_int (?c + 1)" by (simp add: le_of_int_ceiling)
  also have "\<dots> \<le> of_int (2 ^ nat (bitlen ?c))"
    using b by (simp only: of_int_le_iff add1_zle_eq)
  also have "\<dots> = (2::rat) powi bitlen ?c"
    using bitlen_nonneg [of ?c] by (intro powi_nat [symmetric])
  finally have hi: "?y \<le> 2 powi bitlen ?c" .
  have "(2::rat) powi (bitlen ?c - 1) = of_int (2 ^ nat (bitlen ?c - 1))"
    using p by (intro powi_nat) simp
  also have "\<dots> \<le> of_int ?c" using b by (simp only: of_int_le_iff)
  also have "\<dots> < ?y" by linarith
  finally have lo: "2 powi (bitlen ?c - 1) < ?y" .
  have "2 powi (- bitlen ?c) \<le> x"
    using hi assms by (simp add: power_int_minus field_simps)
  moreover have "x < 2 powi (- bitlen ?c + 1)"
  proof -
    have "x < 1 / 2 powi (bitlen ?c - 1)"
      using lo assms by (simp add: field_simps)
    also have "\<dots> = 2 powi (- (bitlen ?c - 1))"
      by (simp only: power_int_minus inverse_eq_divide)
    finally show ?thesis by simp
  qed
  ultimately show ?thesis using False by (simp add: ilog2_def)
qed

lemma powi_mono: "a \<le> b \<Longrightarrow> (2::rat) powi a \<le> 2 powi b"
  by (rule power_int_increasing) auto

lemma ilog2_mono: "0 < x \<Longrightarrow> x \<le> y \<Longrightarrow> ilog2 x \<le> ilog2 y"
proof (rule ccontr)
  assume x: "0 < x" "x \<le> y" and "\<not> ilog2 x \<le> ilog2 y"
  then have "(2::rat) powi (ilog2 y + 1) \<le> 2 powi ilog2 x" by (intro powi_mono) simp
  with x ilog2_bounds [of x] ilog2_bounds [of y] show False by simp
qed


section \<open>Rounding to a double\<close>

definition flp :: "rat \<Rightarrow> float64" where
  "flp x = (let e = ilog2 x - 52 in of_int (rnd_even (x / 2 powi e)) * 2 powi e)"

definition fl :: "rat \<Rightarrow> float64" where
  "fl x = (if x = 0 then 0 else if 0 < x then flp x else - flp (- x))"

lemma mantissa_bounds:
  assumes "0 < x"
  shows "of_int (2 ^ 52) \<le> x / 2 powi (ilog2 x - 52) \<and> x / 2 powi (ilog2 x - 52) < of_int (2 ^ 53)"
proof -
  let ?e = "ilog2 x - 52"
  have e: "(0::rat) < 2 powi ?e" by simp
  have "(2::rat) powi ilog2 x = of_int (2 ^ 52) * 2 powi ?e"
    by (simp add: power_int_diff)
  moreover have "(2::rat) powi (ilog2 x + 1) = of_int (2 ^ 53) * 2 powi ?e"
    by (simp add: power_int_diff power_int_add)
  ultimately show ?thesis
    using ilog2_bounds [OF assms] e by (simp add: pos_le_divide_eq pos_divide_less_eq)
qed

lemma flp_bounds:
  assumes "0 < x"
  shows "2 powi ilog2 x \<le> flp x" and "flp x \<le> 2 powi (ilog2 x + 1)"
proof -
  let ?e = "ilog2 x - 52" let ?m = "x / 2 powi ?e"
  have e: "(0::rat) < 2 powi ?e" by simp
  from mantissa_bounds [OF assms] have lo: "2 ^ 52 \<le> rnd_even ?m" and hi: "rnd_even ?m \<le> 2 ^ 53"
    by (blast intro: rnd_even_ge rnd_even_le less_imp_le)+
  have lo': "(of_int (2 ^ 52) :: rat) \<le> of_int (rnd_even ?m)" using lo by (simp only: of_int_le_iff)
  have hi': "(of_int (rnd_even ?m) :: rat) \<le> of_int (2 ^ 53)" using hi by (simp only: of_int_le_iff)
  have "(2::rat) powi ilog2 x = of_int (2 ^ 52) * 2 powi ?e"
    by (simp add: power_int_diff)
  also have "\<dots> \<le> of_int (rnd_even ?m) * 2 powi ?e"
    using lo' e by (intro mult_right_mono) auto
  finally show "2 powi ilog2 x \<le> flp x" by (simp add: flp_def Let_def)
  have "of_int (rnd_even ?m) * 2 powi ?e \<le> of_int (2 ^ 53) * (2::rat) powi ?e"
    using hi' e by (intro mult_right_mono) auto
  also have "\<dots> = 2 powi (ilog2 x + 1)" by (simp add: power_int_diff power_int_add)
  finally show "flp x \<le> 2 powi (ilog2 x + 1)" by (simp add: flp_def Let_def)
qed

lemma flp_pos: "0 < x \<Longrightarrow> 0 < flp x"
  using flp_bounds(1) [of x] zero_less_power_int [of "2::rat" "ilog2 x"] by linarith

lemma flp_mono:
  assumes "0 < x" and "x \<le> y"
  shows "flp x \<le> flp y"
proof (cases "ilog2 x = ilog2 y")
  case True
  let ?e = "ilog2 y - 52"
  have "x / 2 powi ?e \<le> y / 2 powi ?e" using assms by (simp add: divide_right_mono)
  then have "rnd_even (x / 2 powi ?e) \<le> rnd_even (y / 2 powi ?e)" by (rule rnd_even_mono)
  then show ?thesis by (simp add: flp_def Let_def True mult_right_mono)
next
  case False
  with ilog2_mono [OF assms] have "ilog2 x + 1 \<le> ilog2 y" by simp
  then have "(2::rat) powi (ilog2 x + 1) \<le> 2 powi ilog2 y" by (rule powi_mono)
  with flp_bounds(2) [of x] flp_bounds(1) [of y] assms show ?thesis by linarith
qed

lemma fl_0 [simp]: "fl 0 = 0"
  by (simp add: fl_def)

lemma fl_minus: "fl (- x) = - fl x"
  by (simp add: fl_def)

lemma fl_pos_iff [simp]: "0 < fl x \<longleftrightarrow> 0 < x"
proof (cases "0 \<le> x")
  case True
  then show ?thesis by (cases "x = 0") (auto simp: fl_def flp_pos)
next
  case False
  then show ?thesis using flp_pos [of "- x"] by (simp add: fl_def)
qed

lemma fl_mono: "x \<le> y \<Longrightarrow> fl x \<le> fl y"
proof -
  assume le: "x \<le> y"
  consider "0 < x" | "x \<le> 0" "0 \<le> y" | "y < 0" by linarith
  then show ?thesis
  proof cases
    case 1
    with le show ?thesis by (simp add: fl_def flp_mono)
  next
    case 2
    then have "fl x \<le> 0" and "0 \<le> fl y"
      using fl_pos_iff [of x] fl_pos_iff [of y] by (auto simp: fl_def not_less flp_pos less_imp_le)
    then show ?thesis by simp
  next
    case 3
    with le flp_mono [of "- y" "- x"] show ?thesis by (simp add: fl_def)
  qed
qed

lemma fl_nonneg: "0 \<le> x \<Longrightarrow> 0 \<le> fl x"
  using fl_mono [of 0 x] by simp

text \<open>A rational with at most 53 significant bits is a double: rounding leaves it alone.\<close>

lemma flp_exact:
  assumes "0 < x" and "x = of_int n * 2 powi (ilog2 x - 52)"
  shows "flp x = x"
proof -
  have "x / 2 powi (ilog2 x - 52) = of_int n" using assms(2) by (simp add: field_simps)
  then show ?thesis using assms(2) by (simp add: flp_def Let_def)
qed

lemma fl_of_int:
  assumes "\<bar>n\<bar> \<le> 2 ^ 53"
  shows "fl (of_int n) = of_int n"
proof -
  have pos: "fl (of_int n) = of_int n" if n: "0 < n" "n < 2 ^ 53" for n :: int
  proof -
    let ?x = "of_int n :: rat" let ?l = "ilog2 ?x"
    have x: "0 < ?x" using n by simp
    have l: "?l = bitlen n - 1" using n by (simp add: ilog2_def)
    from bitlen_bounds [of n] n have "(2::int) ^ nat (bitlen n - 1) < 2 ^ 53" by linarith
    then have "nat (bitlen n - 1) < 53" by (rule power_less_imp_less_exp [rotated]) simp
    then have k: "0 \<le> 52 - ?l" using l by linarith
    have "?x = of_int (n * 2 ^ nat (52 - ?l)) * 2 powi (?l - 52)"
    proof -
      have "(2::rat) powi (52 - ?l) * 2 powi (?l - 52) = 1"
        by (simp flip: power_int_add)
      then show ?thesis using powi_nat [OF k] by (simp add: mult.assoc)
    qed
    from flp_exact [OF x this] x show ?thesis by (simp add: fl_def)
  qed
  have top: "fl (of_int (2 ^ 53)) = of_int (2 ^ 53)"
  proof -
    let ?x = "of_int (2 ^ 53) :: rat"
    have b: "bitlen (2 ^ 53 :: int) = 54" by code_simp
    then have l: "ilog2 ?x = 53" by (simp add: ilog2_def)
    have "?x = of_int (2 ^ 52) * 2 powi (ilog2 ?x - 52)" by (simp only: l) simp
    then show ?thesis using flp_exact [of ?x "2 ^ 52"] by (simp add: fl_def)
  qed
  consider "n = 0" | "0 < n" "n < 2 ^ 53" | "n = 2 ^ 53" | "n < 0" "- n < 2 ^ 53" | "n = - (2 ^ 53)"
    using assms by linarith
  then show ?thesis
  proof cases
    case 1
    then show ?thesis by simp
  next
    case 2
    then show ?thesis by (rule pos)
  next
    case 3
    then show ?thesis using top by simp
  next
    case 4
    then show ?thesis using pos [of "- n"] fl_minus [of "of_int (- n)"] by simp
  next
    case 5
    then show ?thesis using top fl_minus [of "of_int (2 ^ 53)"] by simp
  qed
qed


section \<open>The operations of the source\<close>

definition f64 :: "int \<Rightarrow> float64" where  \<comment> \<open>\<^verbatim>\<open>float64(n)\<close>\<close>
  "f64 n = fl (of_int n)"

definition fadd :: "float64 \<Rightarrow> float64 \<Rightarrow> float64" where "fadd x y = fl (x + y)"
definition fsub :: "float64 \<Rightarrow> float64 \<Rightarrow> float64" where "fsub x y = fl (x - y)"
definition fmul :: "float64 \<Rightarrow> float64 \<Rightarrow> float64" where "fmul x y = fl (x * y)"
definition fdiv :: "float64 \<Rightarrow> float64 \<Rightarrow> float64" where "fdiv x y = fl (x / y)"

text \<open>\<^verbatim>\<open>int(x)\<close> truncates towards zero.\<close>

definition trunc :: "float64 \<Rightarrow> int" where
  "trunc x = (if 0 \<le> x then \<lfloor>x\<rfloor> else \<lceil>x\<rceil>)"

lemma f64_mono: "a \<le> b \<Longrightarrow> f64 a \<le> f64 b"
  by (simp add: f64_def fl_mono)

lemma f64_nonneg: "0 \<le> a \<Longrightarrow> 0 \<le> f64 a"
  by (simp add: f64_def fl_nonneg)

lemma f64_pos: "0 < a \<Longrightarrow> 0 < f64 a"
  by (simp add: f64_def)

lemma f64_exact: "\<bar>n\<bar> \<le> 2 ^ 53 \<Longrightarrow> f64 n = of_int n"
  by (simp add: f64_def fl_of_int)

lemma fadd_mono: "x \<le> x' \<Longrightarrow> fadd x y \<le> fadd x' y"
  by (simp add: fadd_def fl_mono)

lemma fmul_mono: "0 \<le> c \<Longrightarrow> x \<le> x' \<Longrightarrow> fmul c x \<le> fmul c x'"
  by (simp add: fmul_def fl_mono mult_left_mono)

lemma fdiv_mono: "0 < c \<Longrightarrow> x \<le> x' \<Longrightarrow> fdiv x c \<le> fdiv x' c"
  by (simp add: fdiv_def fl_mono divide_right_mono)


section \<open>Thirty percent of a price\<close>

text \<open>
  Both anti-dumping guards compare \<^verbatim>\<open>float64(price) < float64(start) * 0.3\<close>. Neither the constant
  nor the product is exact, yet for every starting price up to \<open>2 ^ 49\<close> the comparison decides
  exactly whether the price is below three tenths.
\<close>

lemma ilog2_unique: "2 powi k \<le> x \<Longrightarrow> x < 2 powi (k + 1) \<Longrightarrow> ilog2 x = k"
proof -
  assume a: "2 powi k \<le> x" "x < 2 powi (k + 1)"
  have x: "0 < x" using a(1) zero_less_power_int [of "2::rat" k] by linarith
  note b = ilog2_bounds [OF x]
  have "\<not> k + 1 \<le> ilog2 x" using a b powi_mono [of "k + 1" "ilog2 x"] by linarith
  moreover have "\<not> ilog2 x + 1 \<le> k" using a b powi_mono [of "ilog2 x + 1" k] by linarith
  ultimately show ?thesis by linarith
qed

lemma ilog2_scale: "0 < x \<Longrightarrow> ilog2 (x * 2 powi k) = ilog2 x + k"
proof -
  assume x: "0 < x"
  note b = ilog2_bounds [OF x]
  have k: "(0::rat) < 2 powi k" by simp
  show ?thesis
  proof (rule ilog2_unique)
    show "2 powi (ilog2 x + k) \<le> x * 2 powi k"
      using b k by (simp add: power_int_add)
    have "x * 2 powi k < 2 powi (ilog2 x + 1) * 2 powi k" using b k by simp
    also have "\<dots> = 2 powi (ilog2 x + k + 1)" by (simp add: power_int_add)
    finally show "x * 2 powi k < 2 powi (ilog2 x + k + 1)" .
  qed
qed

lemma flp_scale: "0 < x \<Longrightarrow> flp (x * 2 powi k) = flp x * 2 powi k"
proof -
  assume x: "0 < x"
  have e: "ilog2 (x * 2 powi k) - 52 = (ilog2 x - 52) + k" using ilog2_scale [OF x, of k] by simp
  have "x * 2 powi k / 2 powi (ilog2 x - 52 + k) = x / 2 powi (ilog2 x - 52)"
    by (simp add: power_int_add)
  then show ?thesis by (simp only: flp_def Let_def e) (simp add: power_int_add)
qed

lemma fl_sixteenth:
  assumes "0 < n" and "n \<le> 2 ^ 53"
  shows "fl (of_int n / 16) = of_int n / 16"
proof -
  have x: "0 < (of_int n :: rat)" using assms by simp
  have "flp (of_int n) = of_int n" using fl_of_int [of n] assms x by (simp add: fl_def)
  then have "flp (of_int n * 2 powi (-4)) = of_int n * 2 powi (-4)"
    by (simp only: flp_scale [OF x])
  moreover have "of_int n * 2 powi (-4) = (of_int n / 16 :: rat)"
    by (simp add: power_int_minus)
  ultimately show ?thesis using x by (simp add: fl_def)
qed

definition share30 :: float64 where  \<comment> \<open>the constant \<^verbatim>\<open>0.3\<close>\<close>
  "share30 = fl (3 / 10)"

lemma share30_value: "share30 = 3 / 10 - 1 / (5 * 2 ^ 54)"
proof -
  have "fl (3 / 10) = 5404319552844595 / 2 ^ 54" by code_simp
  then show ?thesis by (simp add: share30_def)
qed

definition below30 :: "int \<Rightarrow> int \<Rightarrow> bool" where
  "below30 price start \<longleftrightarrow> f64 price < fmul (f64 start) share30"

lemma below30_exact:
  assumes p: "0 < price" and s: "0 < start" "start \<le> 2 ^ 49"
  shows "below30 price start \<longleftrightarrow> 10 * price < 3 * start"
proof -
  let ?p = "of_int price :: rat" let ?s = "of_int start :: rat"
  have "(of_int start :: rat) \<le> of_int (2 ^ 49)" using s(2) by (simp only: of_int_le_iff)
  then have s49: "?s \<le> 2 ^ 49" by simp
  have fs: "f64 start = ?s" using s by (intro f64_exact) simp
  have prod: "?s * share30 = 3 * ?s / 10 - ?s / (5 * 2 ^ 54)"
    by (simp add: share30_value algebra_simps)
  show ?thesis
  proof
    assume lt: "10 * price < 3 * start"
    then have p48: "price \<le> 2 ^ 48" using s by simp
    have fp: "f64 price = ?p" using p p48 by (intro f64_exact) simp
    have "10 * price + 1 \<le> 3 * start" using lt by simp
    then have "(of_int (10 * price + 1) :: rat) \<le> of_int (3 * start)" by (simp only: of_int_le_iff)
    then have "10 * ?p + 1 \<le> 3 * ?s" by simp
    moreover have "?s / (5 * 2 ^ 54) \<le> 1 / 160" using s49 by simp
    ultimately have "of_int (16 * price + 1) / 16 \<le> ?s * share30" unfolding prod by simp
    then have "fl (of_int (16 * price + 1) / 16) \<le> fmul ?s share30"
      unfolding fmul_def by (rule fl_mono)
    moreover have "fl (of_int (16 * price + 1) / 16) = of_int (16 * price + 1) / 16"
      using p p48 by (intro fl_sixteenth) auto
    ultimately show "below30 price start" by (simp add: below30_def fs fp)
  next
    assume b: "below30 price start"
    show "10 * price < 3 * start"
    proof (rule ccontr)
      assume "\<not> 10 * price < 3 * start"
      then have "3 * start \<le> 10 * price" by simp
      then have "(of_int (3 * start) :: rat) \<le> of_int (10 * price)" by (simp only: of_int_le_iff)
      then have "3 * ?s \<le> 10 * ?p" by simp
      moreover have "0 \<le> ?s / (5 * 2 ^ 54)" using s by simp
      ultimately have "?s * share30 \<le> ?p" unfolding prod by simp
      then have "fmul ?s share30 \<le> f64 price" unfolding fmul_def f64_def by (rule fl_mono)
      with b show False by (simp add: below30_def fs)
    qed
  qed
qed

end
