(* ===== verification/Job_Model.thy ===== *)
theory Job_Model
  imports Prelude Float64
begin

text \<open>
  The job itself (\<^verbatim>\<open>services/orders/internal/job/job.go\<close>, \<^verbatim>\<open>platform.go\<close>): the wizard's fields, the
  status matrix and the check before publication, and the domain errors every operation of the
  orders service can return. The lemmas give the check a declarative reading and show that the
  matrix has no cycle, so a job's life is bounded.
\<close>


section \<open>Data\<close>

text \<open>The Go enumerations are strings; a value that is none of the constants is kept as such.\<close>

datatype OrderType = TypeJob | TypeRental | TypeTransport | TypeWorkers | OrderTypeOther string

datatype Mode = ModeFixed | ModeAuction | ModeOther string

datatype Status =
    StatusDraft | StatusPublished | StatusCollectingOffers | StatusBidding | StatusDealPending
  | StatusDeciding | StatusConfirmed | StatusInProgress | StatusWorkDone | StatusCompleted
  | StatusDisputed | StatusCancelled | StatusDeclinedAll | StatusExpired | StatusExpiredNoBids

datatype DateMode = DateASAP | DateRange | DateExact | DateModeOther string

datatype Access = AccessYes | AccessNo | AccessUnknown | AccessOther string

record Geo =
  gLat :: float64
  gLng :: float64

record Auction =
  aDurationH :: int
  aEndsAt :: "time option"
  aReserveAmount :: "int option"
  aAutoExtend :: bool
  aDecisionWindowH :: int

text \<open>A decoded JSON value (\<^verbatim>\<open>any\<close>); the job's parameters are carried, never read.\<close>

datatype json = JNull | JBool bool | JNum float64 | JStr runes | JArr "json list"
  | JObj "(runes \<times> json) list"

record Job =
  jID :: string
  jClientID :: string
  jOrderType :: OrderType
  jCategoryID :: "string option"
  jOpenToAny :: bool
  jTitle :: runes
  jDescription :: runes
  jParams :: "(string \<times> json) list"
  jPhotos :: "string list"
  jGeo :: "Geo option"
  jAddress :: runes
  jAccess :: Access
  jDateMode :: DateMode
  jDateStart :: "time option"
  jDateEnd :: "time option"
  jBudgetAmount :: "int option"
  jCurrency :: string
  jMode :: Mode
  jAuction :: "Auction option"
  jWorkersCount :: int
  jStatus :: Status
  jDraftStep :: int
  jViewsCount :: int
  jOffersCount :: int
  jWinnerBidID :: "string option"
  jDecisionDeadline :: "time option"
  jPublishedAt :: "time option"
  jCreatedAt :: time
  jUpdatedAt :: time
  jDistanceM :: "float64 option"

text \<open>The map of a \<^verbatim>\<open>ValidationError\<close>: which field is wrong and what to tell the person.\<close>

type_synonym fields = "(string, message) gomap"

text \<open>The errors of package \<^verbatim>\<open>job\<close>, in the order of its files.\<close>

datatype err =
    ErrNotFound | ErrForbidden | ErrNotDraft | ErrBadTransition | ValidationError fields
  | ErrBidNotFound | ErrNotAuction | ErrAuctionClosed | ErrBidTooLate | ErrBidNotActive
  | ErrOfferNotFound | ErrJobNotOpen | ErrOwnJob | ErrOfferExists | ErrOfferNotActive
  | ErrCounterUsed | ErrUnitForeign | ErrUnitInactive | ErrAuctionMode
  | ErrDealNotFound | ErrDealNotParty | ErrDealStep | ErrDealClosed | ErrDealWrongPerson
  | ErrReviewNotFound | ErrReviewForbidden | ErrReviewTooEarly | ErrReviewTwice | ErrReviewStars
  | ErrReviewTag | ErrReviewLong | ErrReplyTwice | ErrReplyForeign | ErrReviewFrozen
  | ErrDisputeNotFound | ErrDisputeForbidden | ErrDisputeExists | ErrDisputeClosed
  | ErrDisputeReason | ErrDisputeOutcome | ErrDisputeResolution | ErrDisputeStage
  | ErrComplaintNotFound | ErrComplaintExists | ErrComplaintClosed | ErrComplaintReason
  | ErrComplaintTarget | ErrComplaintSelf | ErrComplaintAction
  | ErrChatNotFound | ErrChatForbidden | ErrChatClosed | ErrEmptyMessage


section \<open>Publication check\<close>

definition minDescription :: nat where "minDescription = 20"
definition maxTitle :: nat where "maxTitle = 80"
definition maxPhotos :: nat where "maxPhotos = 6"
definition maxAuctionDays :: int where "maxAuctionDays = 7"

text \<open>\<^verbatim>\<open>if c { fields[k] = msg }\<close>\<close>

definition put_if :: "bool \<Rightarrow> string \<Rightarrow> message \<Rightarrow> fields \<Rightarrow> fields" where
  "put_if c k m fs = (if c then AList.update k m fs else fs)"

text \<open>\<^verbatim>\<open>if len(fields) > 0 { return &ValidationError\<dots> }; return nil\<close>\<close>

definition fields_err :: "fields \<Rightarrow> err option" where
  "fields_err fs = (if fs = [] then None else Some (ValidationError fs))"

definition geo_out :: "Geo \<Rightarrow> bool" where
  "geo_out g \<longleftrightarrow> gLat g < -90 \<or> gLat g > 90 \<or> gLng g < -180 \<or> gLng g > 180"

fun reserve_above_budget :: "int option \<Rightarrow> int option \<Rightarrow> bool" where
  "reserve_above_budget (Some r) (Some b) = (r > b)"
| "reserve_above_budget _ _ = False"

definition auction_fields :: "Job \<Rightarrow> fields \<Rightarrow> fields" where
  "auction_fields j fs =
     (case jAuction j of
        None \<Rightarrow> AList.update ''auction'' [Lit ''no auction settings''] fs
      | Some a \<Rightarrow>
          put_if (reserve_above_budget (aReserveAmount a) (jBudgetAmount j))
            ''auction.reserveAmount'' [Lit ''reserve above the starting price'']
          (put_if (aDecisionWindowH a < 1 \<or> aDecisionWindowH a > 72)
            ''auction.decisionWindowH'' [Lit ''decision window is 1 to 72 hours'']
          (put_if (aDurationH a < 1 \<or> aDurationH a > maxAuctionDays * 24)
            ''auction.durationH'' [Lit ''duration is 1 hour to 7 days''] fs)))"

definition publish_fields :: "Job \<Rightarrow> fields" where
  "publish_fields j =
     (let fs = put_if (jCategoryID j = None \<and> \<not> jOpenToAny j)
                 ''categoryId'' [Lit ''choose a category or let them offer''] [];
          title = TrimSpace (jTitle j);
          fs = (if title = [] then AList.update ''title'' [Lit ''title is required''] fs
                else put_if (length title > maxTitle) ''title'' [Lit ''title too long''] fs);
          fs = put_if (length (TrimSpace (jDescription j)) < minDescription)
                 ''description'' [Lit ''describe the task''] fs;
          fs = put_if (length (jPhotos j) > maxPhotos) ''photos'' [Lit ''too many photos''] fs;
          fs = (case jGeo j of
                  None \<Rightarrow> AList.update ''geo'' [Lit ''mark the place''] fs
                | Some g \<Rightarrow> put_if (geo_out g) ''geo'' [Lit ''coordinates out of range''] fs);
          fs = put_if (jDateMode j = DateRange \<and> (jDateStart j = None \<or> jDateEnd j = None))
                 ''dates'' [Lit ''give both ends of the range''] fs;
          fs = (case (jDateStart j, jDateEnd j) of
                  (Some s, Some e) \<Rightarrow> put_if (jDateMode j = DateRange \<and> e < s)
                     ''dates'' [Lit ''the range ends before it starts''] fs
                | _ \<Rightarrow> fs);
          fs = put_if (jDateMode j = DateExact \<and> jDateStart j = None)
                 ''dates'' [Lit ''give the start''] fs;
          fs = put_if (case jBudgetAmount j of None \<Rightarrow> True | Some b \<Rightarrow> b \<le> 0)
                 ''budgetAmount'' [Lit ''give the price''] fs;
          fs = put_if (jCurrency j = '''') ''currency'' [Lit ''no currency''] fs
      in if jMode j = ModeAuction then auction_fields j fs else fs)"

definition ValidateForPublish :: "Job \<Rightarrow> err option" where
  "ValidateForPublish j = fields_err (publish_fields j)"


section \<open>Statuses\<close>

definition StatusAfterPublish :: "Mode \<Rightarrow> Status" where
  "StatusAfterPublish m = (if m = ModeAuction then StatusBidding else StatusCollectingOffers)"

fun allowed :: "Status \<Rightarrow> Status list" where
  "allowed StatusDraft = [StatusPublished, StatusCollectingOffers, StatusBidding, StatusCancelled]"
| "allowed StatusPublished = [StatusCollectingOffers, StatusBidding, StatusCancelled]"
| "allowed StatusCollectingOffers = [StatusDealPending, StatusCancelled, StatusExpired]"
| "allowed StatusBidding = [StatusDeciding, StatusExpiredNoBids, StatusCancelled]"
| "allowed StatusDealPending = [StatusConfirmed, StatusCancelled]"
| "allowed StatusDeciding = [StatusConfirmed, StatusDeclinedAll, StatusExpired, StatusCancelled]"
| "allowed StatusConfirmed = [StatusInProgress, StatusCancelled]"
| "allowed StatusInProgress = [StatusWorkDone, StatusDisputed, StatusCancelled]"
| "allowed StatusWorkDone = [StatusCompleted, StatusDisputed]"
| "allowed StatusDisputed = [StatusCompleted, StatusCancelled]"
| "allowed _ = []"

definition CanTransition :: "Status \<Rightarrow> Status \<Rightarrow> bool" where
  "CanTransition from to \<longleftrightarrow> List.member (allowed from) to"

definition IsOpen :: "Status \<Rightarrow> bool" where
  "IsOpen s \<longleftrightarrow> s = StatusPublished \<or> s = StatusCollectingOffers \<or> s = StatusBidding"


section \<open>Platform summary\<close>

record PlatformStats =
  psFrom :: time
  psTo :: time
  psJobs :: int
  psDeals :: int
  psCompleted :: int
  psGMV :: int
  psOpenDisputes :: int
  psOpenComplaints :: int
  psUsers :: int

definition Conversion :: "PlatformStats \<Rightarrow> int" where
  "Conversion s =
     (if psJobs s = 0 then 0
      else trunc (fmul (fdiv (f64 (psDeals s)) (f64 (psJobs s))) (f64 100)))"

definition AvgCheck :: "PlatformStats \<Rightarrow> int" where
  "AvgCheck s = (if psCompleted s = 0 then 0 else quot64 (psGMV s) (psCompleted s))"


section \<open>What the check accepts\<close>

lemma put_if_eq_Nil [simp]: "put_if c k m fs = [] \<longleftrightarrow> \<not> c \<and> fs = []"
  by (auto simp: put_if_def)

lemma fields_err_None [simp]: "fields_err fs = None \<longleftrightarrow> fs = []"
  by (simp add: fields_err_def)

text \<open>A job a person may publish, field by field.\<close>

definition auction_publishable :: "Job \<Rightarrow> bool" where
  "auction_publishable j \<longleftrightarrow>
     (case jAuction j of None \<Rightarrow> False
      | Some a \<Rightarrow> 1 \<le> aDurationH a \<and> aDurationH a \<le> 168
          \<and> 1 \<le> aDecisionWindowH a \<and> aDecisionWindowH a \<le> 72
          \<and> \<not> reserve_above_budget (aReserveAmount a) (jBudgetAmount j))"

definition dates_publishable :: "Job \<Rightarrow> bool" where
  "dates_publishable j \<longleftrightarrow>
     (case jDateMode j of
        DateRange \<Rightarrow> (case (jDateStart j, jDateEnd j) of (Some s, Some e) \<Rightarrow> s \<le> e | _ \<Rightarrow> False)
      | DateExact \<Rightarrow> jDateStart j \<noteq> None
      | _ \<Rightarrow> True)"

definition publishable :: "Job \<Rightarrow> bool" where
  "publishable j \<longleftrightarrow>
     (jCategoryID j \<noteq> None \<or> jOpenToAny j)
     \<and> TrimSpace (jTitle j) \<noteq> [] \<and> length (TrimSpace (jTitle j)) \<le> 80
     \<and> 20 \<le> length (TrimSpace (jDescription j)) \<and> length (jPhotos j) \<le> 6
     \<and> (case jGeo j of None \<Rightarrow> False | Some g \<Rightarrow> \<not> geo_out g)
     \<and> dates_publishable j
     \<and> (case jBudgetAmount j of None \<Rightarrow> False | Some b \<Rightarrow> 0 < b)
     \<and> jCurrency j \<noteq> ''''
     \<and> (jMode j = ModeAuction \<longrightarrow> auction_publishable j)"

lemma auction_fields_Nil: "auction_fields j fs = [] \<longleftrightarrow> fs = [] \<and> auction_publishable j"
  by (auto simp: auction_fields_def auction_publishable_def maxAuctionDays_def split: option.splits)

lemma dates_fields:
  "(\<not> (jDateMode j = DateRange \<and> (jDateStart j = None \<or> jDateEnd j = None))
    \<and> (case (jDateStart j, jDateEnd j) of
         (Some s, Some e) \<Rightarrow> \<not> (jDateMode j = DateRange \<and> e < s) | _ \<Rightarrow> True)
    \<and> \<not> (jDateMode j = DateExact \<and> jDateStart j = None)) \<longleftrightarrow> dates_publishable j"
  by (auto simp: dates_publishable_def split: option.splits DateMode.splits)

lemma validate_publishable: "ValidateForPublish j = None \<longleftrightarrow> publishable j"
  unfolding ValidateForPublish_def publishable_def dates_fields [symmetric]
  by (auto simp: publish_fields_def Let_def auction_fields_Nil maxTitle_def minDescription_def
      maxPhotos_def split: option.splits if_splits)


section \<open>The matrix has no cycle\<close>

fun stage :: "Status \<Rightarrow> nat" where
  "stage StatusDraft = 0"
| "stage StatusPublished = 1"
| "stage StatusCollectingOffers = 2"
| "stage StatusBidding = 2"
| "stage StatusDealPending = 3"
| "stage StatusDeciding = 3"
| "stage StatusConfirmed = 4"
| "stage StatusInProgress = 5"
| "stage StatusWorkDone = 6"
| "stage StatusDisputed = 7"
| "stage _ = 8"

definition closed_status :: "Status \<Rightarrow> bool" where
  "closed_status s \<longleftrightarrow> s \<in> {StatusCompleted, StatusCancelled, StatusDeclinedAll, StatusExpired,
     StatusExpiredNoBids}"

lemma CanTransition_stage: "CanTransition a b \<Longrightarrow> stage a < stage b"
  by (cases a) (auto simp: CanTransition_def)

lemma closed_status_iff: "closed_status s \<longleftrightarrow> (\<forall>t. \<not> CanTransition s t)"
  by (cases s) (auto simp: closed_status_def CanTransition_def)

fun walk :: "Status list \<Rightarrow> bool" where
  "walk (a # b # rest) = (CanTransition a b \<and> walk (b # rest))"
| "walk _ = True"

lemma walk_stage: "walk (a # rest) \<Longrightarrow> stage a + length rest \<le> 8"
proof (induction rest arbitrary: a)
  case Nil
  then show ?case by (cases a) auto
next
  case (Cons b rest)
  from Cons.prems have "CanTransition a b" and "walk (b # rest)" by auto
  then have "stage a < stage b" and "stage b + length rest \<le> 8"
    using Cons.IH CanTransition_stage by blast+
  then show ?case by simp
qed

end
