(* ===== verification/Bid_Model.thy ===== *)
theory Bid_Model
  imports Job_Model
begin

text \<open>
  The rules of the reverse auction (\<^verbatim>\<open>services/orders/internal/job/bid.go\<close>): when a bid is admissible,
  when it prolongs the auction, when it may be withdrawn, and the score that ranks the bids at the
  finish. The lemmas show that the dumping guard is exact and that, bids differing in price only,
  the score never ranks a dearer bid above a cheaper one, whatever the rounding.
\<close>


section \<open>Data\<close>

datatype BidStatus = BidActive | BidWithdrawn | BidOutbid | BidWon | BidLost | BidExpired

record Bid =
  bID :: string
  bJobID :: string
  bOwnerID :: string
  bUnitID :: "string option"
  bPrice :: int
  bCurrency :: string
  bComment :: runes
  bStatus :: BidStatus
  bScore :: "float64 option"
  bCreatedAt :: time
  bUpdatedAt :: time
  bRank :: int

definition SnipeWindow :: int where "SnipeWindow = 5 * Minute"
definition ExtendBy :: int where "ExtendBy = 10 * Minute"
definition WithdrawLimit :: int where "WithdrawLimit = 2 * Hour"

lemmas bid_consts = SnipeWindow_def ExtendBy_def WithdrawLimit_def duration_defs


section \<open>Admission\<close>

definition ValidateBid :: "int \<Rightarrow> int \<Rightarrow> int \<Rightarrow> err option" where
  "ValidateBid price best start =
     fields_err
       (if price \<le> 0 then [(''price'', [Lit ''give the price''])]
        else if best > 0 \<and> price \<ge> best then [(''price'', [Lit ''must be below the best bid''])]
        else if start > 0 \<and> below30 price start then [(''price'', [Lit ''too low a price''])]
        else [])"

definition CanBid :: "Job \<Rightarrow> time \<Rightarrow> err option" where
  "CanBid j now =
     (if jMode j \<noteq> ModeAuction then Some ErrNotAuction
      else if jStatus j \<noteq> StatusBidding then Some ErrAuctionClosed
      else case jAuction j of
             None \<Rightarrow> None
           | Some a \<Rightarrow> (case aEndsAt a of
                 None \<Rightarrow> None
               | Some ends \<Rightarrow> if \<not> now < ends then Some ErrAuctionClosed else None))"

definition ShouldExtend :: "Job \<Rightarrow> time \<Rightarrow> bool" where
  "ShouldExtend j now =
     (case jAuction j of
        None \<Rightarrow> False
      | Some a \<Rightarrow> aAutoExtend a \<and> (case aEndsAt a of
            None \<Rightarrow> False
          | Some ends \<Rightarrow> let left = ends - now in left > 0 \<and> left \<le> SnipeWindow))"

definition CanWithdrawBid :: "Job \<Rightarrow> time \<Rightarrow> err option" where
  "CanWithdrawBid j now =
     (case jAuction j of
        None \<Rightarrow> None
      | Some a \<Rightarrow> (case aEndsAt a of
            None \<Rightarrow> None
          | Some ends \<Rightarrow> if ends - now < WithdrawLimit then Some ErrBidTooLate else None))"


section \<open>Scoring\<close>

record BidScore =
  sBid :: Bid
  sRating :: float64
  sDistanceM :: float64
  sUnitMatch :: bool

abbreviation sPrice :: "BidScore \<Rightarrow> int" where
  "sPrice it \<equiv> bPrice (sBid it)"

fun min_price :: "int \<Rightarrow> BidScore list \<Rightarrow> int" where
  "min_price m [] = m"
| "min_price m (it # its) = min_price (if sPrice it < m then sPrice it else m) its"

fun max_price :: "int \<Rightarrow> BidScore list \<Rightarrow> int" where
  "max_price m [] = m"
| "max_price m (it # its) = max_price (if sPrice it > m then sPrice it else m) its"

fun max_dist :: "float64 \<Rightarrow> BidScore list \<Rightarrow> float64" where
  "max_dist m [] = m"
| "max_dist m (it # its) = max_dist (if sDistanceM it > m then sDistanceM it else m) its"

definition price_score :: "int \<Rightarrow> int \<Rightarrow> int \<Rightarrow> float64" where
  "price_score minPrice maxPrice price =
     (if maxPrice > minPrice
      then fdiv (f64 (wrap64 (maxPrice - price))) (f64 (wrap64 (maxPrice - minPrice)))
      else 1)"

definition rating_score :: "float64 \<Rightarrow> float64" where
  "rating_score rating = (let r = fdiv rating 5 in if r < 0 then 0 else r)"

definition fit_score :: "float64 \<Rightarrow> float64 \<Rightarrow> bool \<Rightarrow> float64" where
  "fit_score maxDist distance match =
     (let fit = (if match then fadd 0 (1/2) else 0)
      in if distance \<ge> 0 \<and> maxDist > 0
         then fadd fit (fmul (1/2) (fsub 1 (fdiv distance maxDist)))
         else if distance \<ge> 0 then fadd fit (1/2) else fit)"

definition total_score :: "float64 \<Rightarrow> float64 \<Rightarrow> float64 \<Rightarrow> float64" where
  "total_score priceScore ratingScore fitScore =
     fadd (fadd (fmul (fl (6/10)) priceScore) (fmul (1/4) ratingScore)) (fmul (fl (15/100)) fitScore)"

definition score_item :: "int \<Rightarrow> int \<Rightarrow> float64 \<Rightarrow> BidScore \<Rightarrow> BidScore" where
  "score_item minPrice maxPrice maxDist it =
     it\<lparr>sBid := (sBid it)\<lparr>bScore := Some (total_score (price_score minPrice maxPrice (sPrice it))
         (rating_score (sRating it)) (fit_score maxDist (sDistanceM it) (sUnitMatch it)))\<rparr>\<rparr>"

definition below_reserve :: "int option \<Rightarrow> BidScore \<Rightarrow> bool" where
  "below_reserve reserve it = (case reserve of None \<Rightarrow> False | Some r \<Rightarrow> sPrice it < r)"

definition better_score :: "BidScore \<Rightarrow> BidScore \<Rightarrow> bool" where
  "better_score x y = (case (bScore (sBid x), bScore (sBid y)) of
     (Some a, Some b) \<Rightarrow> a > b | _ \<Rightarrow> False)"

definition Score :: "BidScore list \<Rightarrow> int option \<Rightarrow> BidScore list" where
  "Score items reserve =
     (case items of
        [] \<Rightarrow> items
      | it0 # _ \<Rightarrow>
          let minPrice = min_price (sPrice it0) items;
              maxPrice = max_price (sPrice it0) items;
              maxDist = max_dist 0 items;
              out = map (score_item minPrice maxPrice maxDist)
                      (filter (\<lambda>it. \<not> below_reserve reserve it) items)
          in sort_by better_score out)"


section \<open>Admission, read back\<close>

lemma ValidateBid_None:
  "ValidateBid price best start = None \<longleftrightarrow>
     0 < price \<and> (0 < best \<longrightarrow> price < best) \<and> \<not> (0 < start \<and> below30 price start)"
  by (auto simp: ValidateBid_def)

lemma CanBid_None:
  "CanBid j now = None \<longleftrightarrow> jMode j = ModeAuction \<and> jStatus j = StatusBidding
     \<and> (\<forall>a ends. jAuction j = Some a \<longrightarrow> aEndsAt a = Some ends \<longrightarrow> now < ends)"
  by (auto simp: CanBid_def split: option.splits)

lemma ShouldExtend_ends: "ShouldExtend j now \<Longrightarrow>
   \<exists>a ends. jAuction j = Some a \<and> aEndsAt a = Some ends \<and> now < ends \<and> ends \<le> now + SnipeWindow"
  by (auto simp: ShouldExtend_def Let_def split: option.splits)


section \<open>The ranking\<close>

lemma sPrice_score_item [simp]: "sPrice (score_item a b c it) = sPrice it"
  by (simp add: score_item_def)

lemma sBid_score_item: "sBid (score_item a b c it) =
   (sBid it)\<lparr>bScore := bScore (sBid (score_item a b c it))\<rparr>"
  by (simp add: score_item_def)

lemma bID_score_item [simp]: "bID (sBid (score_item a b c it)) = bID (sBid it)"
  by (simp add: score_item_def)

lemma min_price_le: "min_price m its \<le> m"
proof (induction its arbitrary: m)
  case (Cons it its)
  have "min_price (if sPrice it < m then sPrice it else m) its \<le> (if sPrice it < m then sPrice it else m)"
    by (rule Cons.IH)
  then show ?case by (simp split: if_splits)
qed simp

lemma max_price_ge: "m \<le> max_price m its"
proof (induction its arbitrary: m)
  case (Cons it its)
  have "(if sPrice it > m then sPrice it else m) \<le> max_price (if sPrice it > m then sPrice it else m) its"
    by (rule Cons.IH)
  then show ?case by (simp split: if_splits)
qed simp

lemma min_price_mem: "it \<in> set its \<Longrightarrow> min_price m its \<le> sPrice it"
proof (induction its arbitrary: m)
  case (Cons x xs)
  then show ?case
    using min_price_le [of "if sPrice x < m then sPrice x else m" xs] by (auto split: if_splits)
qed simp

lemma max_price_mem: "it \<in> set its \<Longrightarrow> sPrice it \<le> max_price m its"
proof (induction its arbitrary: m)
  case (Cons x xs)
  then show ?case
    using max_price_ge [of "if sPrice x > m then sPrice x else m" xs] by (auto split: if_splits)
qed simp

lemma min_price_in: "min_price m its = m \<or> (\<exists>it \<in> set its. min_price m its = sPrice it)"
proof (induction its arbitrary: m)
  case (Cons x xs)
  then show ?case
    using Cons.IH [of "if sPrice x < m then sPrice x else m"] by (auto split: if_splits)
qed simp

lemma max_price_in: "max_price m its = m \<or> (\<exists>it \<in> set its. max_price m its = sPrice it)"
proof (induction its arbitrary: m)
  case (Cons x xs)
  then show ?case
    using Cons.IH [of "if sPrice x > m then sPrice x else m"] by (auto split: if_splits)
qed simp

lemma in64_diff: "0 < a \<Longrightarrow> a < 2 ^ 63 \<Longrightarrow> 0 < b \<Longrightarrow> b < 2 ^ 63 \<Longrightarrow> wrap64 (a - b) = a - b"
  by (rule wrap64_id) (simp add: in64_def)

lemma price_score_antimono:
  assumes "0 < lo" and "hi < 2 ^ 63" and "lo \<le> p" and "p \<le> p'" and "p' \<le> hi"
  shows "price_score lo hi p' \<le> price_score lo hi p"
proof (cases "hi > lo")
  case True
  have w: "wrap64 (hi - p) = hi - p" "wrap64 (hi - p') = hi - p'" "wrap64 (hi - lo) = hi - lo"
    using assms by (intro in64_diff; simp)+
  have "0 < f64 (hi - lo)" using True by (intro f64_pos) simp
  moreover have "f64 (hi - p') \<le> f64 (hi - p)" using assms by (intro f64_mono) simp
  ultimately show ?thesis using True by (simp add: price_score_def w fdiv_mono)
qed (simp add: price_score_def)

lemma total_score_mono: "ps \<le> ps' \<Longrightarrow> total_score ps r f \<le> total_score ps' r f"
  unfolding total_score_def by (intro fadd_mono fmul_mono fl_nonneg) simp_all

text \<open>Bids that carry the same rating, distance and match are ranked by price alone.\<close>

definition alike :: "BidScore list \<Rightarrow> bool" where
  "alike its \<longleftrightarrow> (\<forall>x \<in> set its. \<forall>y \<in> set its.
     sRating x = sRating y \<and> sDistanceM x = sDistanceM y \<and> sUnitMatch x = sUnitMatch y)"

definition prices_ok :: "BidScore list \<Rightarrow> bool" where
  "prices_ok its \<longleftrightarrow> (\<forall>x \<in> set its. 0 < sPrice x \<and> sPrice x < 2 ^ 63)"

lemma cheaper_not_worse:
  assumes "alike its" and "prices_ok its" and x: "x \<in> set its" and y: "y \<in> set its"
    and le: "sPrice x \<le> sPrice y"
    and lo: "lo = min_price m its" and hi: "hi = max_price m its" and m: "0 < m" "m < 2 ^ 63"
  shows "\<not> better_score (score_item lo hi d y) (score_item lo hi d x)"
proof -
  have "0 < lo"
    using min_price_in [of m its] assms(2) m(1) unfolding lo prices_ok_def by metis
  moreover have "hi < 2 ^ 63"
    using max_price_in [of m its] assms(2) m(2) unfolding hi prices_ok_def by metis
  ultimately have "price_score lo hi (sPrice y) \<le> price_score lo hi (sPrice x)"
    using le min_price_mem [OF x, of m] max_price_mem [OF y, of m] unfolding lo hi
    by (intro price_score_antimono) auto
  moreover have "sRating x = sRating y" "sDistanceM x = sDistanceM y" "sUnitMatch x = sUnitMatch y"
    using assms(1) x y unfolding alike_def by blast+
  ultimately show ?thesis
    by (simp add: better_score_def score_item_def total_score_mono not_less)
qed

lemma Score_by_price:
  assumes al: "alike its" and ok: "prices_ok its"
    and srt: "sorted_wrt (\<lambda>x y. sPrice x \<le> sPrice y) its" and its: "its = it0 # rest"
  shows "Score its reserve =
    map (score_item (min_price (sPrice it0) its) (max_price (sPrice it0) its) (max_dist 0 its))
      (filter (\<lambda>it. \<not> below_reserve reserve it) its)"
proof -
  let ?lo = "min_price (sPrice it0) its" and ?hi = "max_price (sPrice it0) its"
  let ?f = "score_item ?lo ?hi (max_dist 0 its)" and ?ok = "\<lambda>it. \<not> below_reserve reserve it"
  have m: "0 < sPrice it0" "sPrice it0 < 2 ^ 63" using ok its by (auto simp: prices_ok_def)
  have "sorted_wrt (\<lambda>x y. \<not> better_score (?f y) (?f x)) its"
    using srt by (rule sorted_wrt_mono_rel [rotated]) (rule cheaper_not_worse [OF al ok _ _ _ refl refl m])
  then have "sorted_wrt (\<lambda>x y. \<not> better_score y x) (map ?f (filter ?ok its))"
    by (simp add: sorted_wrt_map sorted_wrt_filter)
  then have "sort_by better_score (map ?f (filter ?ok its)) = map ?f (filter ?ok its)"
    by (rule sort_by_id)
  then show ?thesis using its by (simp add: Score_def Let_def)
qed

end
