(* ===== verification/Offer_Model.thy ===== *)
theory Offer_Model
  imports Job_Model
begin

text \<open>
  Offers on fixed-price jobs (\<^verbatim>\<open>services/orders/internal/job/offer.go\<close>): the record, its states and the
  two guards run before an offer is stored.
\<close>

datatype OfferKind = OfferAccept | OfferCounter | OfferKindOther string

datatype OfferStatus = OfferActive | OfferWithdrawn | OfferDeclined | OfferAccepted
  | OfferCounterOffered

record Offer =
  oID :: string
  oJobID :: string
  oOwnerID :: string
  oKind :: OfferKind
  oPrice :: int
  oCurrency :: string
  oComment :: runes
  oETA :: runes
  oUnitID :: "string option"
  oStatus :: OfferStatus
  oDeclineReason :: message
  oClientCounterPrice :: "int option"
  oClientCounterAt :: "time option"
  oCreatedAt :: time
  oUpdatedAt :: time

definition maxComment :: nat where "maxComment = 200"

definition ValidateOffer :: "Offer \<Rightarrow> int \<Rightarrow> err option" where
  "ValidateOffer o1 jobPrice =
     (let fs = put_if (oPrice o1 \<le> 0) ''price'' [Lit ''give the price''] [];
          fs = put_if (oKind o1 = OfferAccept \<and> jobPrice > 0 \<and> oPrice o1 \<noteq> jobPrice)
                 ''price'' [Lit ''must equal the price of the job''] fs;
          fs = put_if (jobPrice > 0 \<and> oPrice o1 > 0 \<and> below30 (oPrice o1) jobPrice)
                 ''price'' [Lit ''too low a price''] fs;
          fs = put_if (length (TrimSpace (oComment o1)) > maxComment)
                 ''comment'' [Lit ''comment too long''] fs
      in fields_err fs)"

definition CanAcceptOffers :: "Job \<Rightarrow> err option" where
  "CanAcceptOffers j =
     (if jMode j = ModeAuction then Some ErrAuctionMode
      else if \<not> IsOpen (jStatus j) then Some ErrJobNotOpen else None)"

text \<open>Offers that count towards the job's counter and block a second one (\<^verbatim>\<open>isCountable\<close>).\<close>

definition isCountable :: "OfferStatus \<Rightarrow> bool" where
  "isCountable s \<longleftrightarrow> s = OfferActive \<or> s = OfferCounterOffered \<or> s = OfferAccepted"

lemma isCountable_iff: "isCountable s \<longleftrightarrow> s \<noteq> OfferWithdrawn \<and> s \<noteq> OfferDeclined"
  by (cases s) (auto simp: isCountable_def)

lemma ValidateOffer_None:
  "ValidateOffer o1 jobPrice = None \<longleftrightarrow>
     0 < oPrice o1
     \<and> (0 < jobPrice \<longrightarrow> (oKind o1 = OfferAccept \<longrightarrow> oPrice o1 = jobPrice)
                       \<and> \<not> below30 (oPrice o1) jobPrice)
     \<and> length (TrimSpace (oComment o1)) \<le> 200"
  by (auto simp: ValidateOffer_def Let_def maxComment_def)

end
