(* ===== verification/Deal_Model.thy ===== *)
theory Deal_Model
  imports Job_Model
begin

text \<open>
  The deal (\<^verbatim>\<open>services/orders/internal/job/deal.go\<close>): its steps, who may take them, the shared
  timeline, and the status the job shows meanwhile. \<open>CanAdvance\<close> is given a relational reading
  (\<open>deal_step\<close>), over which the life of a deal is analysed.
\<close>

datatype DealStatus = DealConfirmed | DealOnTheWay | DealInProgress | DealWorkDone | DealCompleted
  | DealDisputed | DealCancelled | DealStatusOther string

record TimelineEvent =
  tStatus :: DealStatus
  tAt :: time
  tByID :: string
  tNote :: message

record Deal =
  dID :: string
  dJobID :: string
  dOfferID :: "string option"
  dClientID :: string
  dOwnerID :: string
  dPrice :: int
  dCurrency :: string
  dStatus :: DealStatus
  dTimeline :: "TimelineEvent list"
  dAcceptanceDeadline :: "time option"
  dCancelReason :: message
  dCancelledBy :: "string option"
  dCreatedAt :: time
  dUpdatedAt :: time
  dClosedAt :: "time option"
  dJobTitle :: runes

definition AcceptanceWindow :: int where "AcceptanceWindow = 48 * Hour"

record dealStep =
  stTo :: DealStatus
  stByOwner :: bool
  stByClient :: bool

fun dealFlow :: "DealStatus \<Rightarrow> dealStep list" where
  "dealFlow DealConfirmed =
     [\<lparr>stTo = DealOnTheWay, stByOwner = True, stByClient = False\<rparr>,
      \<lparr>stTo = DealInProgress, stByOwner = True, stByClient = False\<rparr>,
      \<lparr>stTo = DealCancelled, stByOwner = True, stByClient = True\<rparr>]"
| "dealFlow DealOnTheWay =
     [\<lparr>stTo = DealInProgress, stByOwner = True, stByClient = False\<rparr>,
      \<lparr>stTo = DealCancelled, stByOwner = True, stByClient = True\<rparr>]"
| "dealFlow DealInProgress =
     [\<lparr>stTo = DealWorkDone, stByOwner = True, stByClient = False\<rparr>,
      \<lparr>stTo = DealDisputed, stByOwner = True, stByClient = True\<rparr>,
      \<lparr>stTo = DealCancelled, stByOwner = True, stByClient = True\<rparr>]"
| "dealFlow DealWorkDone =
     [\<lparr>stTo = DealCompleted, stByOwner = False, stByClient = True\<rparr>,
      \<lparr>stTo = DealDisputed, stByOwner = False, stByClient = True\<rparr>]"
| "dealFlow DealDisputed =
     [\<lparr>stTo = DealCompleted, stByOwner = False, stByClient = True\<rparr>,
      \<lparr>stTo = DealCancelled, stByOwner = False, stByClient = True\<rparr>]"
| "dealFlow _ = []"

text \<open>The loop over the steps of the current status; the first step to the target decides.\<close>

fun find_step :: "bool \<Rightarrow> bool \<Rightarrow> DealStatus \<Rightarrow> dealStep list \<Rightarrow> err option" where
  "find_step isOwner isClient to [] = Some ErrDealStep"
| "find_step isOwner isClient to (st # sts) =
     (if stTo st \<noteq> to then find_step isOwner isClient to sts
      else if (isOwner \<and> stByOwner st) \<or> (isClient \<and> stByClient st) then None
      else Some ErrDealWrongPerson)"

definition CanAdvance :: "Deal \<Rightarrow> DealStatus \<Rightarrow> string \<Rightarrow> err option" where
  "CanAdvance d to userID =
     (if dStatus d = DealCompleted \<or> dStatus d = DealCancelled then Some ErrDealClosed
      else let isOwner = (userID = dOwnerID d); isClient = (userID = dClientID d)
           in if \<not> isOwner \<and> \<not> isClient then Some ErrDealNotParty
              else find_step isOwner isClient to (dealFlow (dStatus d)))"

fun JobStatusForDeal :: "DealStatus \<Rightarrow> Status" where
  "JobStatusForDeal DealConfirmed = StatusConfirmed"
| "JobStatusForDeal DealOnTheWay = StatusInProgress"
| "JobStatusForDeal DealInProgress = StatusInProgress"
| "JobStatusForDeal DealWorkDone = StatusWorkDone"
| "JobStatusForDeal DealCompleted = StatusCompleted"
| "JobStatusForDeal DealDisputed = StatusDisputed"
| "JobStatusForDeal _ = StatusCancelled"


section \<open>The steps as a relation\<close>

text \<open>The two roles a person can have in a deal, and who takes which step.\<close>

datatype role = Client | Owner

inductive deal_step :: "role \<Rightarrow> DealStatus \<Rightarrow> DealStatus \<Rightarrow> bool" where
  leave: "deal_step Owner DealConfirmed DealOnTheWay"
| start: "deal_step Owner DealConfirmed DealInProgress"
| arrive: "deal_step Owner DealOnTheWay DealInProgress"
| finish: "deal_step Owner DealInProgress DealWorkDone"
| accept: "deal_step Client DealWorkDone DealCompleted"
| dispute: "deal_step r DealInProgress DealDisputed"
| reject: "deal_step Client DealWorkDone DealDisputed"
| settle: "deal_step Client DealDisputed DealCompleted"
| give_up: "deal_step Client DealDisputed DealCancelled"
| cancel_early: "deal_step r DealConfirmed DealCancelled"
| cancel_road: "deal_step r DealOnTheWay DealCancelled"
| cancel_work: "deal_step r DealInProgress DealCancelled"

inductive_simps deal_step_from [simp]:
  "deal_step r DealConfirmed t" "deal_step r DealOnTheWay t" "deal_step r DealInProgress t"
  "deal_step r DealWorkDone t" "deal_step r DealDisputed t" "deal_step r DealCompleted t"
  "deal_step r DealCancelled t" "deal_step r (DealStatusOther s) t"

inductive_cases deal_stepE: "deal_step r s t"

definition plays :: "Deal \<Rightarrow> string \<Rightarrow> role \<Rightarrow> bool" where
  "plays d u r = (case r of Client \<Rightarrow> u = dClientID d | Owner \<Rightarrow> u = dOwnerID d)"

lemma plays_simps [simp]:
  "plays d u Client \<longleftrightarrow> u = dClientID d" "plays d u Owner \<longleftrightarrow> u = dOwnerID d"
  by (simp_all add: plays_def)

lemma ex_role: "(\<exists>r. P r) \<longleftrightarrow> P Client \<or> P Owner"
  by (metis role.exhaust)

text \<open>\<open>CanAdvance\<close> admits exactly the steps of the relation, for a person who plays the role.\<close>

lemma CanAdvance_None:
  "CanAdvance d to u = None \<longleftrightarrow> (\<exists>r. plays d u r \<and> deal_step r (dStatus d) to)"
  by (cases "dStatus d") (auto simp: CanAdvance_def Let_def ex_role)

lemma CanAdvance_errors:
  "CanAdvance d to u = Some e \<Longrightarrow>
     e \<in> {ErrDealClosed, ErrDealNotParty, ErrDealStep, ErrDealWrongPerson}"
  by (cases "dStatus d") (auto simp: CanAdvance_def Let_def split: if_splits)

fun deal_rank :: "DealStatus \<Rightarrow> nat" where
  "deal_rank DealConfirmed = 0"
| "deal_rank DealOnTheWay = 1"
| "deal_rank DealInProgress = 2"
| "deal_rank DealWorkDone = 3"
| "deal_rank DealDisputed = 4"
| "deal_rank _ = 5"

lemma deal_step_rank: "deal_step r s t \<Longrightarrow> deal_rank s < deal_rank t"
  by (auto elim: deal_step.cases)

text \<open>The work is never accepted unless it was started, whoever acts.\<close>

lemma completed_needs_work:
  "deal_step r s DealCompleted \<Longrightarrow> s = DealWorkDone \<or> s = DealDisputed"
  by (auto elim: deal_stepE)

definition deal_closed :: "DealStatus \<Rightarrow> bool" where
  "deal_closed s \<longleftrightarrow> s = DealCompleted \<or> s = DealCancelled"

lemma deal_closed_final: "deal_closed s \<Longrightarrow> \<not> deal_step r s t"
  by (auto simp: deal_closed_def)

lemma deal_open_progress:
  "s \<in> {DealConfirmed, DealOnTheWay, DealInProgress, DealWorkDone, DealDisputed} \<Longrightarrow>
     \<exists>r t. deal_step r s t"
  by (auto simp: ex_role)

text \<open>A deal's step is a step of the job's matrix (or leaves the job's status as it is).\<close>

lemma deal_step_job_step:
  "deal_step r s t \<Longrightarrow> JobStatusForDeal s = JobStatusForDeal t
     \<or> CanTransition (JobStatusForDeal s) (JobStatusForDeal t)"
  by (auto simp: CanTransition_def elim!: deal_stepE)

end
