(* ===== verification/Dispute_Model.thy ===== *)
theory Dispute_Model
  imports Deal_Model
begin

text \<open>
  Disputes over a deal (\<^verbatim>\<open>services/orders/internal/job/dispute.go\<close>) and complaints about a job or a
  person (\<^verbatim>\<open>complaint.go\<close>): the records, who may open one, the checks on the texts and the closed
  lists of outcomes and actions.
\<close>


section \<open>Disputes\<close>

datatype DisputeStatus = DisputeOpen | DisputeResolved

datatype DisputeOutcome = OutcomeClient | OutcomeOwner | OutcomeCompromise | OutcomeOther string

record Dispute =
  pID :: string
  pDealID :: string
  pJobID :: string
  pOpenedBy :: string
  pClientID :: string
  pOwnerID :: string
  pReason :: runes
  pPhotos :: "string list"
  pStatus :: DisputeStatus
  pOutcome :: DisputeOutcome
  pResolution :: runes
  pResolvedBy :: string
  pResolvedAt :: "time option"
  pCreatedAt :: time
  pJobTitle :: runes

definition minReason :: nat where "minReason = 20"
definition maxReason :: nat where "maxReason = 1000"
definition minResolution :: nat where "minResolution = 20"
definition maxResolution :: nat where "maxResolution = 1000"

definition CanOpenDispute :: "Deal \<Rightarrow> string \<Rightarrow> err option" where
  "CanOpenDispute d userID =
     (if dClientID d \<noteq> userID \<and> dOwnerID d \<noteq> userID then Some ErrDealNotParty
      else case dStatus d of
             DealInProgress \<Rightarrow> None
           | DealWorkDone \<Rightarrow> None
           | DealCompleted \<Rightarrow> None
           | DealDisputed \<Rightarrow> None
           | _ \<Rightarrow> Some ErrDisputeStage)"

text \<open>The shape all three text checks share: trim, refuse a short text, cut a long one.\<close>

definition trim_between :: "nat \<Rightarrow> nat \<Rightarrow> err \<Rightarrow> runes \<Rightarrow> err + runes" where
  "trim_between lo hi e t =
     (let text = TrimSpace t
      in if length text < lo then Inl e
         else if length text > hi then Inr (take hi text) else Inr text)"

definition ValidateReason :: "runes \<Rightarrow> err + runes" where
  "ValidateReason reason = trim_between minReason maxReason ErrDisputeReason reason"

definition ValidateResolution :: "runes \<Rightarrow> err + runes" where
  "ValidateResolution text = trim_between minResolution maxResolution ErrDisputeResolution text"

definition ValidOutcome :: "DisputeOutcome \<Rightarrow> bool" where
  "ValidOutcome o1 \<longleftrightarrow> o1 = OutcomeClient \<or> o1 = OutcomeOwner \<or> o1 = OutcomeCompromise"

fun OutcomeRU :: "DisputeOutcome \<Rightarrow> message" where
  "OutcomeRU OutcomeClient = [Lit ''in favour of the client'']"
| "OutcomeRU OutcomeOwner = [Lit ''in favour of the owner'']"
| "OutcomeRU OutcomeCompromise = [Lit ''compromise'']"
| "OutcomeRU _ = []"


section \<open>Complaints\<close>

datatype ComplaintStatus = ComplaintOpen | ComplaintReviewed

datatype ComplaintAction = ActionDismissed | ActionRemoved | ActionWarned | ActionOther string

record Complaint =
  cID :: string
  cTargetKind :: string
  cTargetID :: string
  cAuthorID :: string
  cReason :: runes
  cStatus :: ComplaintStatus
  cAction :: ComplaintAction
  cNote :: runes
  cReviewedBy :: string
  cReviewedAt :: "time option"
  cCreatedAt :: time
  cTargetTitle :: runes
  cSameTarget :: int

definition TargetJob :: string where "TargetJob = ''job''"
definition TargetUser :: string where "TargetUser = ''user''"

definition minComplaint :: nat where "minComplaint = 10"
definition maxComplaint :: nat where "maxComplaint = 500"

definition ValidateComplaint :: "runes \<Rightarrow> err + runes" where
  "ValidateComplaint reason = trim_between minComplaint maxComplaint ErrComplaintReason reason"

definition ValidTarget :: "string \<Rightarrow> bool" where
  "ValidTarget kind \<longleftrightarrow> kind = TargetJob \<or> kind = TargetUser"

definition ValidAction :: "ComplaintAction \<Rightarrow> bool" where
  "ValidAction a \<longleftrightarrow> a = ActionDismissed \<or> a = ActionRemoved \<or> a = ActionWarned"

fun ActionRU :: "ComplaintAction \<Rightarrow> message" where
  "ActionRU ActionDismissed = [Lit ''the complaint was not confirmed'']"
| "ActionRU ActionRemoved = [Lit ''the content was removed'']"
| "ActionRU ActionWarned = [Lit ''a warning was issued'']"
| "ActionRU _ = []"


section \<open>Facts\<close>

lemma trim_between_ok:
  "trim_between lo hi e t = Inr text \<Longrightarrow> lo \<le> hi \<Longrightarrow> lo \<le> length text \<and> length text \<le> hi"
  by (auto simp: trim_between_def Let_def split: if_splits)

lemma trim_between_err: "trim_between lo hi e t = Inl e' \<Longrightarrow> e' = e \<and> length (TrimSpace t) < lo"
  by (auto simp: trim_between_def Let_def split: if_splits)

lemma CanOpenDispute_None:
  "CanOpenDispute d u = None \<longleftrightarrow> (\<exists>r. plays d u r) \<and>
     dStatus d \<in> {DealInProgress, DealWorkDone, DealCompleted, DealDisputed}"
  by (auto simp: CanOpenDispute_def ex_role split: DealStatus.splits)

end
