(* ===== verification/Review_Model.thy ===== *)
theory Review_Model
  imports Deal_Model
begin

text \<open>
  Mutual reviews after a deal (\<^verbatim>\<open>services/orders/internal/job/review.go\<close>): the closed lists of tags,
  the check that normalises a review, the double-blind publication rule, the single reply and the
  yearly rating.
\<close>


section \<open>Data\<close>

record Review =
  rID :: string
  rDealID :: string
  rJobID :: string
  rAuthorID :: string
  rTargetID :: string
  rAuthorRole :: string
  rStars :: int
  rTags :: "runes list"
  rText :: runes
  rIssue :: runes
  rReplyText :: runes
  rReplyAt :: "time option"
  rPublishedAt :: "time option"
  rCreatedAt :: time

definition Published :: "Review \<Rightarrow> bool" where
  "Published r \<longleftrightarrow> rPublishedAt r \<noteq> None"

record RatingSummary =
  rsUserID :: string
  rsRating :: float64
  rsCount :: int

definition RoleClient :: string where "RoleClient = ''client''"
definition RoleOwner :: string where "RoleOwner = ''owner''"

definition HoldPeriod :: int where "HoldPeriod = 7 * 24 * Hour"
definition RatingWindow :: int where "RatingWindow = 365 * 24 * Hour"
definition maxReviewText :: nat where "maxReviewText = 500"
definition maxIssueText :: nat where "maxIssueText = 500"
definition maxTags :: nat where "maxTags = 6"

text \<open>The tags are Russian words; their runes are written out because the code compares them.\<close>

definition tagPunctual :: runes where
  "tagPunctual = [1055, 1091, 1085, 1082, 1090, 1091, 1072, 1083, 1100, 1085, 1086]"
definition tagTidy :: runes where
  "tagTidy = [1040, 1082, 1082, 1091, 1088, 1072, 1090, 1085, 1086]"
definition tagMachineFine :: runes where
  "tagMachineFine = [1058, 1077, 1093, 1085, 1080, 1082, 1072, 32, 1074, 32, 1087, 1086, 1088, 1103,
     1076, 1082, 1077]"
definition tagPolite :: runes where
  "tagPolite = [1042, 1077, 1078, 1083, 1080, 1074, 1086]"
definition tagClearBrief :: runes where
  "tagClearBrief = [1063, 1105, 1090, 1082, 1086, 1077, 32, 1058, 1047]"
definition tagPaysWell :: runes where
  "tagPaysWell = [1054, 1087, 1083, 1072, 1090, 1072, 32, 1073, 1077, 1079, 32, 1087, 1088, 1086,
     1073, 1083, 1077, 1084]"
definition tagAccessAsSaid :: runes where
  "tagAccessAsSaid = [1055, 1086, 1076, 1098, 1077, 1079, 1076, 32, 1082, 1072, 1082, 32, 1086, 1087,
     1080, 1089, 1072, 1085]"

definition clientTags :: "runes list" where
  "clientTags = [tagPunctual, tagTidy, tagMachineFine, tagPolite]"

definition ownerTags :: "runes list" where
  "ownerTags = [tagClearBrief, tagPaysWell, tagAccessAsSaid, tagPolite]"

lemmas tag_defs = tagPunctual_def tagTidy_def tagMachineFine_def tagPolite_def tagClearBrief_def
  tagPaysWell_def tagAccessAsSaid_def clientTags_def ownerTags_def


section \<open>Operations\<close>

definition AllowedTags :: "string \<Rightarrow> runes list" where
  "AllowedTags authorRole =
     (if authorRole = RoleOwner
      then [tagClearBrief, tagPaysWell, tagAccessAsSaid, tagPolite]
      else [tagPunctual, tagTidy, tagMachineFine, tagPolite])"

definition CanReview :: "Deal \<Rightarrow> string \<Rightarrow> err option" where
  "CanReview d userID =
     (if dClientID d \<noteq> userID \<and> dOwnerID d \<noteq> userID then Some ErrReviewForbidden
      else if dStatus d \<noteq> DealCompleted then Some ErrReviewTooEarly else None)"

text \<open>The loop over the tags, with those already kept (\<open>seen\<close> and \<open>tags\<close> hold the same runes).\<close>

fun clean_tags :: "runes list \<Rightarrow> runes list \<Rightarrow> runes list \<Rightarrow> err + runes list" where
  "clean_tags permitted tags [] = Inr tags"
| "clean_tags permitted tags (t # ts) =
     (let t = TrimSpace t
      in if t = [] \<or> t \<in> set tags then clean_tags permitted tags ts
         else if t \<notin> set permitted then Inl ErrReviewTag
         else clean_tags permitted (tags @ [t]) ts)"

definition ValidateReview :: "Review \<Rightarrow> err + Review" where
  "ValidateReview r =
     (if rStars r < 1 \<or> rStars r > 5 then Inl ErrReviewStars
      else let r = r\<lparr>rText := TrimSpace (rText r)\<rparr>
      in if length (rText r) > maxReviewText then Inl ErrReviewLong
      else let r = r\<lparr>rIssue := TrimSpace (rIssue r)\<rparr>;
               r = (if length (rIssue r) > maxIssueText
                    then r\<lparr>rIssue := take maxIssueText (rIssue r)\<rparr> else r)
      in if length (rTags r) > maxTags then Inl ErrReviewTag
      else let permitted = (if rAuthorRole r = RoleOwner then ownerTags else clientTags)
      in case clean_tags permitted [] (rTags r) of
           Inl e \<Rightarrow> Inl e
         | Inr tags \<Rightarrow> Inr (r\<lparr>rTags := tags\<rparr>))"

definition AsksWhatWentWrong :: "int \<Rightarrow> bool" where
  "AsksWhatWentWrong stars \<longleftrightarrow> stars > 0 \<and> stars < 3"

definition ShouldPublish :: "Review option \<Rightarrow> Review option \<Rightarrow> time \<Rightarrow> bool" where
  "ShouldPublish mine theirs now =
     (case mine of
        None \<Rightarrow> False
      | Some m \<Rightarrow>
          if Published m then False
          else case theirs of
                 Some _ \<Rightarrow> True
               | None \<Rightarrow> \<not> now < rCreatedAt m + HoldPeriod)"

definition CanReply :: "Review \<Rightarrow> string \<Rightarrow> err option" where
  "CanReply r userID =
     (if rTargetID r \<noteq> userID then Some ErrReplyForeign
      else if \<not> Published r then Some ErrReviewTooEarly
      else if rReplyText r \<noteq> [] then Some ErrReplyTwice else None)"

definition ValidateReply :: "runes \<Rightarrow> err + runes" where
  "ValidateReply text =
     (let text = TrimSpace text
      in if text = [] then Inl ErrReviewLong
         else if length text > maxReviewText then Inl ErrReviewLong else Inr text)"

fun rating_loop :: "time \<Rightarrow> int \<Rightarrow> int \<Rightarrow> Review list \<Rightarrow> int \<times> int" where
  "rating_loop from sm cnt [] = (sm, cnt)"
| "rating_loop from sm cnt (r # rs) =
     (if \<not> Published r \<or> rCreatedAt r < from then rating_loop from sm cnt rs
      else rating_loop from (sm + rStars r) (cnt + 1) rs)"

definition Rating :: "Review list \<Rightarrow> time \<Rightarrow> RatingSummary" where
  "Rating reviews now =
     (case rating_loop (now - RatingWindow) 0 0 reviews of (sm, cnt) \<Rightarrow>
        if cnt = 0 then \<lparr>rsUserID = '''', rsRating = 0, rsCount = 0\<rparr>
        else let avg = fdiv (f64 sm) (f64 cnt)
             in \<lparr>rsUserID = '''',
                 rsRating = fdiv (f64 (trunc (fadd (fmul avg (f64 10)) (1/2)))) (f64 10),
                 rsCount = cnt\<rparr>)"


section \<open>A checked review\<close>

lemma AllowedTags_eq:
  "AllowedTags role = (if role = RoleOwner then ownerTags else clientTags)"
  by (simp add: AllowedTags_def ownerTags_def clientTags_def)

lemma clean_tags_ok:
  "clean_tags permitted tags ts = Inr tags' \<Longrightarrow> distinct tags \<Longrightarrow> set tags \<subseteq> set permitted \<Longrightarrow>
     distinct tags' \<and> set tags' \<subseteq> set permitted \<and> length tags' \<le> length tags + length ts"
proof (induction ts arbitrary: tags)
  case (Cons t ts)
  show ?case
  proof (cases "TrimSpace t = [] \<or> TrimSpace t \<in> set tags")
    case True
    then show ?thesis using Cons by (fastforce simp: Let_def)
  next
    case False
    with Cons.prems have "TrimSpace t \<in> set permitted"
      and "clean_tags permitted (tags @ [TrimSpace t]) ts = Inr tags'"
      by (auto simp: Let_def split: if_splits)
    with False Cons.prems show ?thesis using Cons.IH [of "tags @ [TrimSpace t]"] by simp
  qed
qed auto

definition review_wf :: "Review \<Rightarrow> bool" where
  "review_wf r \<longleftrightarrow> 1 \<le> rStars r \<and> rStars r \<le> 5 \<and> length (rText r) \<le> 500
     \<and> length (rIssue r) \<le> 500 \<and> distinct (rTags r) \<and> length (rTags r) \<le> 6
     \<and> set (rTags r) \<subseteq> set (AllowedTags (rAuthorRole r))"

lemma ValidateReview_wf: "ValidateReview r = Inr r' \<Longrightarrow> review_wf r'"
  by (auto simp: ValidateReview_def review_wf_def Let_def AllowedTags_eq maxReviewText_def
      maxIssueText_def maxTags_def split: if_splits sum.splits dest!: clean_tags_ok)

text \<open>The check touches the three texts only.\<close>

lemma ValidateReview_frame:
  "ValidateReview r = Inr r' \<Longrightarrow>
     r' = r\<lparr>rText := rText r', rIssue := rIssue r', rTags := rTags r'\<rparr>"
  by (auto simp: ValidateReview_def Let_def split: if_splits sum.splits)

lemma ValidateReview_frame_simps:
  assumes "ValidateReview r = Inr r'"
  shows "rID r' = rID r" "rDealID r' = rDealID r" "rAuthorID r' = rAuthorID r"
    "rTargetID r' = rTargetID r" "rPublishedAt r' = rPublishedAt r" "rCreatedAt r' = rCreatedAt r"
    "rStars r' = rStars r" "rReplyText r' = rReplyText r" "rJobID r' = rJobID r"
    "rAuthorRole r' = rAuthorRole r" "rReplyAt r' = rReplyAt r"
  by (subst ValidateReview_frame [OF assms], simp)+


section \<open>The rating\<close>

definition rated :: "time \<Rightarrow> Review list \<Rightarrow> Review list" where
  "rated now rs = filter (\<lambda>r. Published r \<and> now - RatingWindow \<le> rCreatedAt r) rs"

lemma rating_loop_eq:
  "rating_loop (now - RatingWindow) s c rs =
     (s + sum_list (map rStars (rated now rs)), c + int (length (rated now rs)))"
  by (induction rs arbitrary: s c) (auto simp: rated_def)

lemma rated_sum_bounds:
  "\<forall>r \<in> set rs. 1 \<le> rStars r \<and> rStars r \<le> 5 \<Longrightarrow>
     int (length rs) \<le> sum_list (map rStars rs) \<and> sum_list (map rStars rs) \<le> 5 * int (length rs)"
  by (induction rs) auto

end
