(* ===== verification/Regexp.thy ===== *)
theory Regexp
  imports Prelude
begin

text \<open>
  The fragment of Go's \<^verbatim>\<open>regexp\<close> the chat uses, as combinators. A matcher takes a text and returns
  the rests left by its matches at the front, in the order of preference of the leftmost-first rule
  (the order in which a backtracking engine finds them). \<open>ReplaceAll\<close> replaces the successive
  non-overlapping matches. The locale states what a matcher needs for a replaced text to be clean.
\<close>

type_synonym matcher = "runes \<Rightarrow> runes list"

fun cls :: "(rune \<Rightarrow> bool) \<Rightarrow> matcher" where
  "cls P [] = []"
| "cls P (x # xs) = (if P x then [xs] else [])"

definition seq :: "matcher \<Rightarrow> matcher \<Rightarrow> matcher" where
  "seq a b s = concat (map b (a s))"

definition alt :: "matcher \<Rightarrow> matcher \<Rightarrow> matcher" where
  "alt a b s = a s @ b s"

definition opt :: "matcher \<Rightarrow> matcher" where
  "opt a s = a s @ [s]"

text \<open>\<^verbatim>\<open>a{lo,hi}\<close>, greedy.\<close>

fun rep :: "matcher \<Rightarrow> nat \<Rightarrow> nat \<Rightarrow> matcher" where
  "rep a lo 0 s = (if lo = 0 then [s] else [])"
| "rep a lo (Suc hi) s = concat (map (rep a (lo - 1) hi) (a s)) @ (if lo = 0 then [s] else [])"

text \<open>\<^verbatim>\<open>a{lo,}\<close> for an \<open>a\<close> that never matches the empty text: no more rounds than runes.\<close>

definition many :: "matcher \<Rightarrow> nat \<Rightarrow> matcher" where
  "many a lo s = rep a lo (length s) s"

fun lits :: "(rune \<Rightarrow> rune \<Rightarrow> bool) \<Rightarrow> runes \<Rightarrow> matcher" where
  "lits eq [] s = [s]"
| "lits eq (c # cs) s = seq (cls (eq c)) (lits eq cs) s"

text \<open>The loop of \<^verbatim>\<open>ReplaceAllStringFunc\<close>; no pattern of the repository matches the empty text.\<close>

function ReplaceAll :: "matcher \<Rightarrow> (runes \<Rightarrow> runes) \<Rightarrow> runes \<Rightarrow> runes" where
  "ReplaceAll m f [] = []"
| "ReplaceAll m f (x # xs) =
     (case m (x # xs) of
        rest # _ \<Rightarrow>
          if length rest \<le> length xs
          then f (take (length (x # xs) - length rest) (x # xs)) @ ReplaceAll m f rest
          else x # ReplaceAll m f xs
      | [] \<Rightarrow> x # ReplaceAll m f xs)"
  by pat_completeness auto
termination
  by (relation "measure (\<lambda>(m, f, s). length s)") auto


section \<open>Properties of matchers\<close>

text \<open>A match stays a match when the text goes on, and never crosses a rune all classes reject.\<close>

definition extends :: "matcher \<Rightarrow> bool" where
  "extends m \<longleftrightarrow> (\<forall>t u r. r \<in> set (m t) \<longrightarrow> r @ u \<in> set (m (t @ u)))"

definition stops_at :: "rune \<Rightarrow> matcher \<Rightarrow> bool" where
  "stops_at c m \<longleftrightarrow>
     (\<forall>t u r. r \<in> set (m (t @ c # u)) \<longrightarrow> (\<exists>r'. r = r' @ c # u \<and> r' \<in> set (m t)))"

text \<open>Every match covers at least \<open>n\<close> runes of a class.\<close>

definition covers :: "(rune \<Rightarrow> bool) \<Rightarrow> nat \<Rightarrow> matcher \<Rightarrow> bool" where
  "covers P n m \<longleftrightarrow>
     (\<forall>s r. r \<in> set (m s) \<longrightarrow> (\<exists>p. s = p @ r \<and> n \<le> length (filter P p)))"

lemma extendsD: "extends m \<Longrightarrow> r \<in> set (m t) \<Longrightarrow> r @ u \<in> set (m (t @ u))"
  by (simp add: extends_def)

lemma stops_atD:
  "stops_at c m \<Longrightarrow> r \<in> set (m (t @ c # u)) \<Longrightarrow> \<exists>r'. r = r' @ c # u \<and> r' \<in> set (m t)"
  by (simp add: stops_at_def)

lemma coversD:
  "covers P n m \<Longrightarrow> r \<in> set (m s) \<Longrightarrow> \<exists>p. s = p @ r \<and> n \<le> length (filter P p)"
  by (simp add: covers_def)

named_theorems matcher_intros \<open>how the combinators keep the properties of matchers\<close>

lemma extends_cls [matcher_intros]: "extends (cls P)"
  unfolding extends_def
proof (intro allI impI)
  fix t u r
  assume "r \<in> set (cls P t)"
  then show "r @ u \<in> set (cls P (t @ u))" by (cases t) (auto split: if_splits)
qed

lemma extends_seq [matcher_intros]: "extends a \<Longrightarrow> extends b \<Longrightarrow> extends (seq a b)"
  unfolding extends_def seq_def by fastforce

lemma extends_opt [matcher_intros]: "extends a \<Longrightarrow> extends (opt a)"
  unfolding extends_def opt_def by auto

lemma extends_rep [matcher_intros]: "extends a \<Longrightarrow> extends (rep a lo hi)"
proof (induction hi arbitrary: lo)
  case 0
  then show ?case by (auto simp: extends_def)
next
  case (Suc hi)
  have IH: "extends (rep a (lo - 1) hi)" using Suc by blast
  show ?case unfolding extends_def
    using extendsD [OF Suc.prems] extendsD [OF IH] by (auto split: if_splits) blast+
qed

lemma stops_at_cls [matcher_intros]: "\<not> P c \<Longrightarrow> stops_at c (cls P)"
  unfolding stops_at_def
proof (intro allI impI)
  fix t u r
  assume "\<not> P c" and "r \<in> set (cls P (t @ c # u))"
  then show "\<exists>r'. r = r' @ c # u \<and> r' \<in> set (cls P t)"
    by (cases t) (auto split: if_splits)
qed

lemma stops_at_seq [matcher_intros]:
  assumes a: "stops_at c a" and b: "stops_at c b"
  shows "stops_at c (seq a b)"
  unfolding stops_at_def
proof (intro allI impI)
  fix t u r
  assume "r \<in> set (seq a b (t @ c # u))"
  then obtain q where q: "q \<in> set (a (t @ c # u))" and r: "r \<in> set (b q)"
    by (auto simp: seq_def)
  from stops_atD [OF a q] obtain q' where q': "q = q' @ c # u" "q' \<in> set (a t)" by blast
  with stops_atD [OF b] r obtain r' where "r = r' @ c # u" "r' \<in> set (b q')" by blast
  with q' show "\<exists>r'. r = r' @ c # u \<and> r' \<in> set (seq a b t)" by (auto simp: seq_def)
qed

lemma stops_at_opt [matcher_intros]: "stops_at c a \<Longrightarrow> stops_at c (opt a)"
  unfolding stops_at_def opt_def by (auto; blast)

lemma stops_at_rep [matcher_intros]: "stops_at c a \<Longrightarrow> stops_at c (rep a lo hi)"
proof (induction hi arbitrary: lo)
  case 0
  then show ?case by (auto simp: stops_at_def)
next
  case (Suc hi)
  have IH: "stops_at c (rep a (lo - 1) hi)" using Suc by blast
  then have "stops_at c (seq a (rep a (lo - 1) hi))" using Suc.prems by (intro stops_at_seq)
  then show ?case
    unfolding stops_at_def by (auto simp: seq_def split: if_splits; blast)
qed

lemma covers_cls [matcher_intros]: "(\<And>x. P x \<Longrightarrow> Q x) \<Longrightarrow> covers Q 1 (cls P)"
  unfolding covers_def
proof (intro allI impI)
  fix s r
  assume "\<And>x. P x \<Longrightarrow> Q x" and "r \<in> set (cls P s)"
  then show "\<exists>p. s = p @ r \<and> 1 \<le> length (filter Q p)"
    by (cases s) (auto split: if_splits intro!: exI [of _ "[hd s]"])
qed

lemma covers_cls0: "covers Q 0 (cls P)"
  unfolding covers_def
proof (intro allI impI)
  fix s r
  assume "r \<in> set (cls P s)"
  then show "\<exists>p. s = p @ r \<and> 0 \<le> length (filter Q p)"
    by (cases s) (auto split: if_splits intro!: exI [of _ "[hd s]"])
qed

lemma covers_seq:
  assumes a: "covers P n a" and b: "covers P k b"
  shows "covers P (n + k) (seq a b)"
  unfolding covers_def
proof (intro allI impI)
  fix s r
  assume "r \<in> set (seq a b s)"
  then obtain q where q: "q \<in> set (a s)" and r: "r \<in> set (b q)" by (auto simp: seq_def)
  from coversD [OF a q] coversD [OF b r] obtain p p' where
    "s = p @ q" "n \<le> length (filter P p)" "q = p' @ r" "k \<le> length (filter P p')" by blast
  then show "\<exists>p. s = p @ r \<and> n + k \<le> length (filter P p)"
    by (intro exI [of _ "p @ p'"]) auto
qed

lemma covers_opt: "covers P 0 a \<Longrightarrow> covers P 0 (opt a)"
  unfolding covers_def opt_def by auto

lemma covers_rep: "covers P 1 a \<Longrightarrow> covers P lo (rep a lo hi)"
proof (induction hi arbitrary: lo)
  case 0
  then show ?case by (auto simp: covers_def)
next
  case (Suc hi)
  have "covers P (1 + (lo - 1)) (seq a (rep a (lo - 1) hi))"
    using Suc by (intro covers_seq) auto
  then show ?case
    unfolding covers_def by (auto simp: seq_def split: if_splits) (fastforce)
qed


section \<open>A replaced text is clean\<close>

definition clean :: "matcher \<Rightarrow> runes \<Rightarrow> bool" where
  "clean m s \<longleftrightarrow> (\<forall>p t. s = p @ t \<longrightarrow> m t = [])"

text \<open>
  A matcher that extends, needs at least one rune and cannot pass the first rune of the replacement;
  nothing matches at a position inside the replacement either.
\<close>

locale scrubber =
  fixes m :: matcher and mark :: rune and tail :: runes and f :: "runes \<Rightarrow> runes"
  assumes m_extends: "extends m"
    and m_stops: "stops_at mark m"
    and m_covers: "covers (\<lambda>_. True) 1 m"
    and m_tail: "\<And>p t u. mark # tail = p @ t \<Longrightarrow> t \<noteq> [] \<Longrightarrow> m (t @ u) = []"
    and m_f: "\<And>p r. r \<in> set (m (p @ r)) \<Longrightarrow> f p = mark # tail"
begin

lemma rest_shorter: "m s = rest # more \<Longrightarrow> length rest < length s"
  using coversD [OF m_covers, of rest s] by fastforce

lemma nothing_at_end: "m [] = []"
proof (rule ccontr)
  assume "m [] \<noteq> []"
  then obtain r where "r \<in> set (m [])" by (cases "m []") auto
  then show False using coversD [OF m_covers] by force
qed

text \<open>Text on which nothing matches stays so when only a replacement can follow.\<close>

lemma clean_mark: "clean m s \<Longrightarrow> clean m (mark # tail @ s)"
  unfolding clean_def
proof (intro allI impI)
  fix p t
  assume c: "\<forall>p t. s = p @ t \<longrightarrow> m t = []" and e: "mark # tail @ s = p @ t"
  show "m t = []"
  proof (cases "length p \<ge> length (mark # tail)")
    case True
    with e have "s = drop (length (mark # tail)) p @ t"
      by (auto simp: append_eq_append_conv_if Cons_eq_append_conv split: if_splits)
    then show ?thesis using c by blast
  next
    case False
    with e have "mark # tail = p @ drop (length p) (mark # tail)"
      and "t = drop (length p) (mark # tail) @ s"
      by (metis append.assoc append_Cons append_eq_append_conv_if append_take_drop_id
            append_eq_conv_conj nle_le)+
    with False show ?thesis using m_tail [of p "drop (length p) (mark # tail)" s] by simp
  qed
qed

lemma ReplaceAll_match:
  assumes m: "m (x # xs) = rest # more"
  shows "ReplaceAll m f (x # xs) = mark # tail @ ReplaceAll m f rest"
proof -
  obtain p where p: "x # xs = p @ rest" using coversD [OF m_covers, of rest "x # xs"] m by auto
  then have "take (length (x # xs) - length rest) (x # xs) = p" by simp
  moreover have "f p = mark # tail" using m_f [of rest p] m p by simp
  moreover have "length rest \<le> length xs" using rest_shorter [OF m] by simp
  ultimately show ?thesis using m by simp
qed

text \<open>The result is a stretch copied from the text, then nothing or a replacement.\<close>

lemma ReplaceAll_front:
  "\<exists>q s'. s = q @ s' \<and> (ReplaceAll m f s = q \<or> (\<exists>v. ReplaceAll m f s = q @ mark # v))"
proof (induction s)
  case Nil
  then show ?case by simp
next
  case (Cons x xs)
  show ?case
  proof (cases "m (x # xs)")
    case Nil
    from Cons.IH obtain q s' where "xs = q @ s'"
      "ReplaceAll m f xs = q \<or> (\<exists>v. ReplaceAll m f xs = q @ mark # v)" by blast
    with Nil show ?thesis by (intro exI [of _ "x # q"] exI [of _ s']) auto
  next
    case (Cons rest more)
    then have "ReplaceAll m f (x # xs) = mark # tail @ ReplaceAll m f rest"
      using ReplaceAll_match by blast
    then show ?thesis by (intro exI [of _ "[]"] exI [of _ "x # xs"]) auto
  qed
qed

lemma copied_no_match:
  assumes no: "m (x # xs) = []"
  shows "m (x # ReplaceAll m f xs) = []"
proof (rule ccontr)
  assume "m (x # ReplaceAll m f xs) \<noteq> []"
  then obtain r where r: "r \<in> set (m (x # ReplaceAll m f xs))" by (metis list.set_sel(1))
  obtain q s' where xs: "xs = q @ s'"
    and R: "ReplaceAll m f xs = q \<or> (\<exists>v. ReplaceAll m f xs = q @ mark # v)"
    using ReplaceAll_front by blast
  have "\<exists>r'. r' \<in> set (m (x # q))"
    using R r stops_atD [OF m_stops, of r "x # q"] by (auto; blast)
  then show False using extendsD [OF m_extends, of _ "x # q" s'] no xs by auto
qed

lemma ReplaceAll_clean:
  "clean m (ReplaceAll m f s)"
proof (induction s rule: length_induct)
  case (1 s)
  show ?case
  proof (cases s)
    case Nil
    then show ?thesis by (simp add: clean_def nothing_at_end)
  next
    case s: (Cons x xs)
    show ?thesis
    proof (cases "m (x # xs)")
      case Nil
      with s 1 have "clean m (ReplaceAll m f xs)" by simp
      then show ?thesis
        using Nil s copied_no_match [OF Nil] by (auto simp: clean_def Cons_eq_append_conv)
    next
      case (Cons rest more)
      with s 1 have "clean m (ReplaceAll m f rest)" using rest_shorter [OF Cons] by simp
      then show ?thesis unfolding s ReplaceAll_match [OF Cons] by (rule clean_mark)
    qed
  qed
qed

end

end
