(* ===== verification/Chat_Model.thy ===== *)
theory Chat_Model
  imports Job_Model Regexp
begin

text \<open>
  Chats (\<^verbatim>\<open>services/orders/internal/job/chat.go\<close>): the records, the masking of contacts before a deal
  and the guards on a message. The lemmas show that no telephone number survives the masking.
\<close>


section \<open>Data\<close>

datatype ChatKind = ChatPreDeal | ChatDeal

datatype MessageKind = MessageText | MessagePhoto | MessageSystem

record Chat =
  hID :: string
  hJobID :: string
  hClientID :: string
  hOwnerID :: string
  hKind :: ChatKind
  hLastMessageAt :: "time option"
  hCreatedAt :: time
  hUpdatedAt :: time
  hLastText :: message
  hUnread :: int
  hJobTitle :: runes

record Message =
  mID :: string
  mChatID :: string
  mSenderID :: "string option"
  mKind :: MessageKind
  mText :: message
  mMediaURL :: "string option"
  mReadBy :: "string list"
  mCreatedAt :: time

definition maxMessageLen :: nat where "maxMessageLen = 2000"


section \<open>The patterns\<close>

definition isDigit :: "rune \<Rightarrow> bool" where "isDigit r \<longleftrightarrow> 48 \<le> r \<and> r \<le> 57"

text \<open>\<^verbatim>\<open>\s\<close>, the blanks of a pattern (not those of \<^verbatim>\<open>TrimSpace\<close>).\<close>

definition isBlank :: "rune \<Rightarrow> bool" where "isBlank r \<longleftrightarrow> r \<in> {9, 10, 12, 13, 32}"

text \<open>\<^verbatim>\<open>(?i)[a-z]\<close>: both cases, and the two letters that fold to s and k.\<close>

definition isLetterI :: "rune \<Rightarrow> bool" where
  "isLetterI r \<longleftrightarrow> 97 \<le> r \<and> r \<le> 122 \<or> 65 \<le> r \<and> r \<le> 90 \<or> r = 383 \<or> r = 8490"

text \<open>A literal under \<^verbatim>\<open>(?i)\<close>; no literal of the patterns has an s or a k.\<close>

definition foldEq :: "rune \<Rightarrow> rune \<Rightarrow> bool" where
  "foldEq c r \<longleftrightarrow> r = c \<or> 97 \<le> c \<and> c \<le> 122 \<and> r + 32 = c"

text \<open>\<^verbatim>\<open>(?:\+?\d[\s\-()]?){9,15}\<close>\<close>

definition phoneDigit :: matcher where
  "phoneDigit = seq (opt (cls (\<lambda>r. r = 43)))
     (seq (cls isDigit) (opt (cls (\<lambda>r. isBlank r \<or> r = 45 \<or> r = 40 \<or> r = 41))))"

definition phoneRe :: matcher where
  "phoneRe = rep phoneDigit 9 15"

text \<open>\<^verbatim>\<open>(?i)(@[a-z0-9_]{4,}|t\.me/\S+|wa\.me/\S+|viber:\S+|telegram\S*)\<close>\<close>

definition handleRe :: matcher where
  "handleRe =
     alt (seq (cls (\<lambda>r. r = 64)) (many (cls (\<lambda>r. isLetterI r \<or> isDigit r \<or> r = 95)) 4))
    (alt (seq (lits foldEq [116, 46, 109, 101, 47]) (many (cls (\<lambda>r. \<not> isBlank r)) 1))
    (alt (seq (lits foldEq [119, 97, 46, 109, 101, 47]) (many (cls (\<lambda>r. \<not> isBlank r)) 1))
    (alt (seq (lits foldEq [118, 105, 98, 101, 114, 58]) (many (cls (\<lambda>r. \<not> isBlank r)) 1))
         (seq (lits foldEq [116, 101, 108, 101, 103, 114, 97, 109])
              (many (cls (\<lambda>r. \<not> isBlank r)) 0)))))"

text \<open>\<^verbatim>\<open>(?i)[a-z0-9._%+\-]+@[a-z0-9.\-]+\.[a-z]{2,}\<close>\<close>

definition emailRe :: matcher where
  "emailRe =
     seq (many (cls (\<lambda>r. isLetterI r \<or> isDigit r \<or> r \<in> {46, 95, 37, 43, 45})) 1)
    (seq (cls (\<lambda>r. r = 64))
    (seq (many (cls (\<lambda>r. isLetterI r \<or> isDigit r \<or> r = 46 \<or> r = 45)) 1)
    (seq (cls (\<lambda>r. r = 46)) (many (cls isLetterI) 2))))"

text \<open>The replacement, in Russian, between square brackets.\<close>

definition hidden :: runes where
  "hidden = [91, 1082, 1086, 1085, 1090, 1072, 1082, 1090, 32, 1089, 1082, 1088, 1099, 1090, 93]"


section \<open>Operations\<close>

definition mask_phone :: "runes \<Rightarrow> runes" where
  "mask_phone m = (if length (filter (\<lambda>r. r \<ge> 48 \<and> r \<le> 57) m) < 9 then m else hidden)"

definition MaskContacts :: "runes \<Rightarrow> runes \<times> bool" where
  "MaskContacts text =
     (let masked = text;
          masked = ReplaceAll emailRe (\<lambda>_. hidden) masked;
          masked = ReplaceAll handleRe (\<lambda>_. hidden) masked;
          masked = ReplaceAll phoneRe mask_phone masked
      in (masked, masked \<noteq> text))"

definition ValidateMessage :: "runes \<Rightarrow> err option" where
  "ValidateMessage text =
     (let t = TrimSpace text
      in if t = [] then Some ErrEmptyMessage
         else if length t > maxMessageLen
              then Some (ValidationError [(''text'', [Lit ''message too long''])])
         else None)"

definition CanChat :: "Job \<Rightarrow> err option" where
  "CanChat j =
     (case jStatus j of
        StatusCancelled \<Rightarrow> Some ErrChatClosed
      | StatusExpired \<Rightarrow> Some ErrChatClosed
      | StatusExpiredNoBids \<Rightarrow> Some ErrChatClosed
      | StatusDeclinedAll \<Rightarrow> Some ErrChatClosed
      | _ \<Rightarrow> None)"


section \<open>No telephone number survives\<close>

lemma phoneDigit_extends [matcher_intros]: "extends phoneDigit"
  unfolding phoneDigit_def by (intro matcher_intros)

lemma phoneDigit_stops [matcher_intros]: "stops_at 91 phoneDigit"
  unfolding phoneDigit_def by (intro matcher_intros) (auto simp: isDigit_def isBlank_def)

lemma phoneDigit_covers: "covers isDigit 1 phoneDigit"
proof -
  have "covers isDigit (0 + (1 + 0)) phoneDigit"
    unfolding phoneDigit_def by (intro covers_seq covers_opt covers_cls covers_cls0)
  then show ?thesis by simp
qed

lemma phoneRe_covers: "covers isDigit 9 phoneRe"
  unfolding phoneRe_def by (intro covers_rep phoneDigit_covers)

text \<open>A match hides at least nine digits, so the length test in the callback never spares one.\<close>

lemma mask_phone_match: "r \<in> set (phoneRe (p @ r)) \<Longrightarrow> mask_phone p = hidden"
  using coversD [OF phoneRe_covers, of r "p @ r"]
  by (auto simp: mask_phone_def isDigit_def [abs_def])

lemma phoneDigit_start:
  "x \<noteq> 43 \<Longrightarrow> \<not> isDigit x \<Longrightarrow> phoneDigit (x # s) = []"
  by (simp add: phoneDigit_def seq_def opt_def)

lemma phoneRe_start: "x \<noteq> 43 \<Longrightarrow> \<not> isDigit x \<Longrightarrow> phoneRe (x # s) = []"
  by (simp add: phoneRe_def phoneDigit_start numeral_eq_Suc)

lemma hidden_no_phone: "hidden = p @ t \<Longrightarrow> t \<noteq> [] \<Longrightarrow> phoneRe (t @ u) = []"
proof -
  assume h: "hidden = p @ t" and t: "t \<noteq> []"
  then have "hd t \<in> set hidden" by (metis Un_iff list.set_sel(1) set_append)
  then have "hd t \<noteq> 43" and "\<not> isDigit (hd t)" by (auto simp: hidden_def isDigit_def)
  then show ?thesis using t phoneRe_start by (cases t) auto
qed

interpretation phones: scrubber phoneRe 91 "tl hidden" mask_phone
proof unfold_locales
  have h: "91 # tl hidden = hidden" by (simp add: hidden_def)
  show "extends phoneRe" unfolding phoneRe_def by (intro matcher_intros)
  show "stops_at 91 phoneRe" unfolding phoneRe_def by (intro matcher_intros)
  show "covers (\<lambda>_. True) 1 phoneRe"
    using phoneRe_covers unfolding covers_def by (metis filter_True le_trans length_filter_le one_le_numeral)
  show "phoneRe (t @ u) = []" if "91 # tl hidden = p @ t" "t \<noteq> []" for p t u
    using that hidden_no_phone unfolding h by blast
  show "mask_phone p = 91 # tl hidden" if "r \<in> set (phoneRe (p @ r))" for p r
    using that mask_phone_match unfolding h by blast
qed

lemma MaskContacts_no_phone: "clean phoneRe (fst (MaskContacts text))"
  by (simp add: MaskContacts_def Let_def phones.ReplaceAll_clean)

end
