(* ===== verification/Memory_Store.thy ===== *)
theory Memory_Store
  imports Tables Bid_Model Offer_Model Dispute_Model Review_Model Chat_Model
begin

text \<open>
  The in-memory store (\<^verbatim>\<open>services/orders/internal/store/memory.go\<close> and the \<^verbatim>\<open>*_memory.go\<close> files). Every
  method runs under the store's mutex, so it is one step: a read returns \<open>err + value\<close>, a write
  \<open>err + Memory\<close>. Reads that fill a slice from a map take the ranking that fixes the visiting order.
  Each of the eight tables is an instance \<open>memory_table\<close> of the interface \<open>store_table\<close> of the theory Tables.
\<close>


section \<open>State\<close>

record Memory =
  jobs :: "(string, Job) gomap"
  offers :: "(string, Offer) gomap"
  deals :: "(string, Deal) gomap"
  bids :: "(string, Bid) gomap"
  chats :: "(string, Chat) gomap"
  messages :: "(string, Message) gomap"
  msgSeq :: "(string, int) gomap"
  reviews :: "(string, Review) gomap"
  busyDays :: "(string, message) gomap"
  disputes :: "(string, Dispute) gomap"
  queueSeq :: "(string, int) gomap"
  complaints :: "(string, Complaint) gomap"
  views :: "(string, (string, bool) gomap) gomap"
  idemp :: "(string, string) gomap"

definition NewMemory :: Memory where
  "NewMemory = \<lparr>jobs = [], offers = [], deals = [], bids = [], chats = [], messages = [], msgSeq = [],
     reviews = [], busyDays = [], disputes = [], queueSeq = [], complaints = [], views = [], idemp = []\<rparr>"

text \<open>A counter kept in a map; a missing key reads as zero.\<close>

definition seq_of :: "(string, int) gomap \<Rightarrow> string \<Rightarrow> int" where
  "seq_of m k = (case map_of m k of None \<Rightarrow> 0 | Some n \<Rightarrow> n)"


section \<open>Jobs\<close>

definition Create :: "Job \<Rightarrow> Memory \<Rightarrow> err + Memory" where
  "Create j m = Inr (m\<lparr>jobs := AList.update (jID j) j (jobs m)\<rparr>)"

definition Update :: "Job \<Rightarrow> Memory \<Rightarrow> err + Memory" where
  "Update j m =
     (if map_of (jobs m) (jID j) = None then Inl ErrNotFound
      else Inr (m\<lparr>jobs := AList.update (jID j) j (jobs m)\<rparr>))"

definition ByID :: "string \<Rightarrow> Memory \<Rightarrow> err + Job" where
  "ByID i m = or_err (map_of (jobs m) i) ErrNotFound"

definition newer_job :: "Job \<Rightarrow> Job \<Rightarrow> bool" where
  "newer_job x y \<longleftrightarrow> jUpdatedAt x > jUpdatedAt y"

definition ListByClient :: "(string \<Rightarrow> nat) \<Rightarrow> string \<Rightarrow> int \<Rightarrow> int \<Rightarrow> Memory \<Rightarrow> err + Job list" where
  "ListByClient rank clientID limit offset m =
     Inr (gopage limit offset
       (sort_by newer_job (filter (\<lambda>j. jClientID j = clientID) (grange rank (jobs m)))))"

definition AddView :: "string \<Rightarrow> string \<Rightarrow> Memory \<Rightarrow> err + (bool \<times> Memory)" where
  "AddView jobID viewerID m =
     (case map_of (jobs m) jobID of
        None \<Rightarrow> Inl ErrNotFound
      | Some j \<Rightarrow>
          let seen = (case map_of (views m) jobID of None \<Rightarrow> [] | Some vs \<Rightarrow> vs);
              m = m\<lparr>views := AList.update jobID seen (views m)\<rparr>
          in if map_of seen viewerID = Some True then Inr (False, m)
             else Inr (True,
               m\<lparr>views := AList.update jobID (AList.update viewerID True seen) (views m),
                 jobs := AList.update jobID (j\<lparr>jViewsCount := jViewsCount j + 1\<rparr>) (jobs m)\<rparr>))"

definition idempKey :: "string \<Rightarrow> string \<Rightarrow> string \<Rightarrow> string" where
  "idempKey key userID endpoint = key @ ''|'' @ userID @ ''|'' @ endpoint"

definition FindIdempotent :: "string \<Rightarrow> string \<Rightarrow> string \<Rightarrow> Memory \<Rightarrow> string option" where
  "FindIdempotent key userID endpoint m = map_of (idemp m) (idempKey key userID endpoint)"

definition SaveIdempotent :: "string \<Rightarrow> string \<Rightarrow> string \<Rightarrow> string \<Rightarrow> Memory \<Rightarrow> err + Memory" where
  "SaveIdempotent key userID endpoint jobID m =
     Inr (m\<lparr>idemp := AList.update (idempKey key userID endpoint) jobID (idemp m)\<rparr>)"

text \<open>What the background worker has to close at \<open>now\<close>.\<close>

definition deal_overdue :: "time \<Rightarrow> Job \<Rightarrow> Deal \<Rightarrow> bool" where
  "deal_overdue now j d \<longleftrightarrow> dJobID d = jID j \<and> dStatus d = DealWorkDone
     \<and> (case dAcceptanceDeadline d of None \<Rightarrow> False | Some t \<Rightarrow> \<not> t > now)"

definition due :: "time \<Rightarrow> Memory \<Rightarrow> Job \<Rightarrow> bool" where
  "due now m j =
     (case jStatus j of
        StatusBidding \<Rightarrow> (case jAuction j of None \<Rightarrow> False
          | Some a \<Rightarrow> (case aEndsAt a of None \<Rightarrow> False | Some t \<Rightarrow> \<not> t > now))
      | StatusDeciding \<Rightarrow> (case jDecisionDeadline j of None \<Rightarrow> False | Some t \<Rightarrow> \<not> t > now)
      | StatusWorkDone \<Rightarrow> (\<exists>d \<in> set (gvals (deals m)). deal_overdue now j d)
      | _ \<Rightarrow> False)"

definition older_job :: "Job \<Rightarrow> Job \<Rightarrow> bool" where
  "older_job x y \<longleftrightarrow> jUpdatedAt x < jUpdatedAt y"

definition DueJobs :: "(string \<Rightarrow> nat) \<Rightarrow> time \<Rightarrow> Memory \<Rightarrow> err + Job list" where
  "DueJobs rank now m = Inr (sort_by older_job (filter (due now m) (grange rank (jobs m))))"


section \<open>Bids\<close>

definition bid_clash :: "Bid \<Rightarrow> Bid \<Rightarrow> bool" where
  "bid_clash ex b \<longleftrightarrow> bJobID ex = bJobID b \<and> bOwnerID ex = bOwnerID b \<and> bStatus ex = BidActive"

definition CreateBid :: "Bid \<Rightarrow> Memory \<Rightarrow> err + Memory" where
  "CreateBid b m =
     (if \<exists>ex \<in> set (gvals (bids m)). bid_clash ex b then Inl ErrBidNotActive
      else Inr (m\<lparr>bids := AList.update (bID b) b (bids m)\<rparr>))"

definition UpdateBid :: "Bid \<Rightarrow> Memory \<Rightarrow> err + Memory" where
  "UpdateBid b m =
     (if map_of (bids m) (bID b) = None then Inl ErrBidNotFound
      else Inr (m\<lparr>bids := AList.update (bID b) b (bids m)\<rparr>))"

definition BidByID :: "string \<Rightarrow> Memory \<Rightarrow> err + Bid" where
  "BidByID i m = or_err (map_of (bids m) i) ErrBidNotFound"

text \<open>Active bids first, then the cheaper, then the earlier.\<close>

definition bid_before :: "Bid \<Rightarrow> Bid \<Rightarrow> bool" where
  "bid_before x y =
     (let ai = (bStatus x = BidActive); ak = (bStatus y = BidActive)
      in if ai \<noteq> ak then ai
         else if bPrice x \<noteq> bPrice y then bPrice x < bPrice y
         else bCreatedAt x < bCreatedAt y)"

definition BidsByJob :: "(string \<Rightarrow> nat) \<Rightarrow> string \<Rightarrow> Memory \<Rightarrow> err + Bid list" where
  "BidsByJob rank jobID m =
     Inr (sort_by bid_before (filter (\<lambda>b. bJobID b = jobID) (grange rank (bids m))))"

definition newer_bid :: "Bid \<Rightarrow> Bid \<Rightarrow> bool" where
  "newer_bid x y \<longleftrightarrow> bCreatedAt x > bCreatedAt y"

definition BidsByOwner :: "(string \<Rightarrow> nat) \<Rightarrow> string \<Rightarrow> int \<Rightarrow> int \<Rightarrow> Memory \<Rightarrow> err + Bid list" where
  "BidsByOwner rank ownerID limit offset m =
     Inr (gopage limit offset
       (sort_by newer_bid (filter (\<lambda>b. bOwnerID b = ownerID) (grange rank (bids m)))))"

text \<open>The scanning loops: keep the row seen so far unless the next one is better.\<close>

definition keep_better :: "('a \<Rightarrow> 'a \<Rightarrow> bool) \<Rightarrow> 'a \<Rightarrow> 'a option \<Rightarrow> 'a option" where
  "keep_better lt x best =
     (case best of None \<Rightarrow> Some x | Some y \<Rightarrow> if lt x y then Some x else best)"

definition cheaper_bid :: "Bid \<Rightarrow> Bid \<Rightarrow> bool" where
  "cheaper_bid b best \<longleftrightarrow> bPrice b < bPrice best \<or> (bPrice b = bPrice best \<and> bCreatedAt b < bCreatedAt best)"

definition BestBid :: "(string \<Rightarrow> nat) \<Rightarrow> string \<Rightarrow> Memory \<Rightarrow> err + Bid" where
  "BestBid rank jobID m =
     or_err (fold (keep_better cheaper_bid)
       (filter (\<lambda>b. \<not> (bJobID b \<noteq> jobID \<or> bStatus b \<noteq> BidActive)) (grange rank (bids m))) None)
       ErrBidNotFound"

definition MyBidForJob :: "(string \<Rightarrow> nat) \<Rightarrow> string \<Rightarrow> string \<Rightarrow> Memory \<Rightarrow> err + Bid" where
  "MyBidForJob rank jobID ownerID m =
     or_err (fold (keep_better newer_bid)
       (filter (\<lambda>b. bJobID b = jobID \<and> bOwnerID b = ownerID) (grange rank (bids m))) None)
       ErrBidNotFound"


section \<open>Offers\<close>

definition offer_clash :: "Offer \<Rightarrow> Offer \<Rightarrow> bool" where
  "offer_clash ex o1 \<longleftrightarrow> oJobID ex = oJobID o1 \<and> oOwnerID ex = oOwnerID o1 \<and> isCountable (oStatus ex)"

definition recount :: "string \<Rightarrow> Memory \<Rightarrow> Memory" where
  "recount jobID m =
     (case map_of (jobs m) jobID of
        None \<Rightarrow> m
      | Some j \<Rightarrow>
          let n = int (length (filter (\<lambda>o1. oJobID o1 = jobID \<and> isCountable (oStatus o1))
                    (gvals (offers m))))
          in m\<lparr>jobs := AList.update jobID (j\<lparr>jOffersCount := n\<rparr>) (jobs m)\<rparr>)"

definition CreateOffer :: "Offer \<Rightarrow> Memory \<Rightarrow> err + Memory" where
  "CreateOffer o1 m =
     (if \<exists>ex \<in> set (gvals (offers m)). offer_clash ex o1 then Inl ErrOfferExists
      else Inr (recount (oJobID o1) (m\<lparr>offers := AList.update (oID o1) o1 (offers m)\<rparr>)))"

definition UpdateOffer :: "Offer \<Rightarrow> Memory \<Rightarrow> err + Memory" where
  "UpdateOffer o1 m =
     (if map_of (offers m) (oID o1) = None then Inl ErrOfferNotFound
      else Inr (recount (oJobID o1) (m\<lparr>offers := AList.update (oID o1) o1 (offers m)\<rparr>)))"

definition OfferByID :: "string \<Rightarrow> Memory \<Rightarrow> err + Offer" where
  "OfferByID i m = or_err (map_of (offers m) i) ErrOfferNotFound"

definition offer_before :: "Offer \<Rightarrow> Offer \<Rightarrow> bool" where
  "offer_before x y =
     (let ai = isCountable (oStatus x); ak = isCountable (oStatus y)
      in if ai \<noteq> ak then ai else oCreatedAt x > oCreatedAt y)"

definition OffersByJob :: "(string \<Rightarrow> nat) \<Rightarrow> string \<Rightarrow> Memory \<Rightarrow> err + Offer list" where
  "OffersByJob rank jobID m =
     Inr (sort_by offer_before (filter (\<lambda>o1. oJobID o1 = jobID) (grange rank (offers m))))"

definition newer_offer :: "Offer \<Rightarrow> Offer \<Rightarrow> bool" where
  "newer_offer x y \<longleftrightarrow> oCreatedAt x > oCreatedAt y"

definition OffersByOwner :: "(string \<Rightarrow> nat) \<Rightarrow> string \<Rightarrow> int \<Rightarrow> int \<Rightarrow> Memory \<Rightarrow> err + Offer list" where
  "OffersByOwner rank ownerID limit offset m =
     Inr (gopage limit offset
       (sort_by newer_offer (filter (\<lambda>o1. oOwnerID o1 = ownerID) (grange rank (offers m)))))"

definition MyOfferForJob :: "(string \<Rightarrow> nat) \<Rightarrow> string \<Rightarrow> string \<Rightarrow> Memory \<Rightarrow> err + Offer" where
  "MyOfferForJob rank jobID ownerID m =
     or_err (fold (keep_better newer_offer)
       (filter (\<lambda>o1. oJobID o1 = jobID \<and> oOwnerID o1 = ownerID) (grange rank (offers m))) None)
       ErrOfferNotFound"


section \<open>Deals\<close>

definition deal_clash :: "Deal \<Rightarrow> Deal \<Rightarrow> bool" where
  "deal_clash ex d \<longleftrightarrow> dJobID ex = dJobID d"

definition CreateDeal :: "Deal \<Rightarrow> Memory \<Rightarrow> err + Memory" where
  "CreateDeal d m =
     (if \<exists>ex \<in> set (gvals (deals m)). deal_clash ex d then Inl ErrDealStep
      else Inr (m\<lparr>deals := AList.update (dID d) d (deals m)\<rparr>))"

definition UpdateDeal :: "Deal \<Rightarrow> Memory \<Rightarrow> err + Memory" where
  "UpdateDeal d m =
     (if map_of (deals m) (dID d) = None then Inl ErrDealNotFound
      else Inr (m\<lparr>deals := AList.update (dID d) d (deals m)\<rparr>))"

definition DealByID :: "string \<Rightarrow> Memory \<Rightarrow> err + Deal" where
  "DealByID i m = or_err (map_of (deals m) i) ErrDealNotFound"

definition DealByJob :: "(string \<Rightarrow> nat) \<Rightarrow> string \<Rightarrow> Memory \<Rightarrow> err + Deal" where
  "DealByJob rank jobID m =
     or_err (find (\<lambda>d. dJobID d = jobID) (grange rank (deals m))) ErrDealNotFound"

definition newer_deal :: "Deal \<Rightarrow> Deal \<Rightarrow> bool" where
  "newer_deal x y \<longleftrightarrow> dUpdatedAt x > dUpdatedAt y"

definition DealsByUser :: "(string \<Rightarrow> nat) \<Rightarrow> string \<Rightarrow> int \<Rightarrow> int \<Rightarrow> Memory \<Rightarrow> err + Deal list" where
  "DealsByUser rank userID limit offset m =
     Inr (gopage limit offset (sort_by newer_deal
       (filter (\<lambda>d. dClientID d = userID \<or> dOwnerID d = userID) (grange rank (deals m)))))"


section \<open>Reviews\<close>

definition review_clash :: "Review \<Rightarrow> Review \<Rightarrow> bool" where
  "review_clash ex r \<longleftrightarrow> rDealID ex = rDealID r \<and> rAuthorID ex = rAuthorID r"

definition CreateReview :: "Review \<Rightarrow> Memory \<Rightarrow> err + Memory" where
  "CreateReview r m =
     (if \<exists>ex \<in> set (gvals (reviews m)). review_clash ex r then Inl ErrReviewTwice
      else Inr (m\<lparr>reviews := AList.update (rID r) r (reviews m)\<rparr>))"

definition UpdateReview :: "Review \<Rightarrow> Memory \<Rightarrow> err + Memory" where
  "UpdateReview r m =
     (if map_of (reviews m) (rID r) = None then Inl ErrReviewNotFound
      else Inr (m\<lparr>reviews := AList.update (rID r) r (reviews m)\<rparr>))"

definition ReviewByID :: "string \<Rightarrow> Memory \<Rightarrow> err + Review" where
  "ReviewByID i m = or_err (map_of (reviews m) i) ErrReviewNotFound"

definition byCreated :: "Review \<Rightarrow> Review \<Rightarrow> bool" where
  "byCreated x y \<longleftrightarrow> rCreatedAt x < rCreatedAt y"

definition byCreatedDesc :: "Review \<Rightarrow> Review \<Rightarrow> bool" where
  "byCreatedDesc x y \<longleftrightarrow> rCreatedAt x > rCreatedAt y"

definition pickReviews :: "(string \<Rightarrow> nat) \<Rightarrow> (Review \<Rightarrow> bool) \<Rightarrow> int \<Rightarrow> int
    \<Rightarrow> (Review \<Rightarrow> Review \<Rightarrow> bool) \<Rightarrow> Memory \<Rightarrow> Review list" where
  "pickReviews rank match limit offset lt m =
     gopage limit offset (sort_by lt (filter match (grange rank (reviews m))))"

definition ReviewsByDeal :: "(string \<Rightarrow> nat) \<Rightarrow> string \<Rightarrow> Memory \<Rightarrow> err + Review list" where
  "ReviewsByDeal rank dealID m = Inr (pickReviews rank (\<lambda>r. rDealID r = dealID) 0 0 byCreated m)"

definition ReviewsAbout :: "(string \<Rightarrow> nat) \<Rightarrow> string \<Rightarrow> int \<Rightarrow> int \<Rightarrow> Memory \<Rightarrow> err + Review list" where
  "ReviewsAbout rank userID limit offset m =
     Inr (pickReviews rank (\<lambda>r. rTargetID r = userID \<and> Published r) limit offset byCreatedDesc m)"

definition ReviewsByAuthor :: "(string \<Rightarrow> nat) \<Rightarrow> string \<Rightarrow> int \<Rightarrow> int \<Rightarrow> Memory \<Rightarrow> err + Review list" where
  "ReviewsByAuthor rank userID limit offset m =
     Inr (pickReviews rank (\<lambda>r. rAuthorID r = userID) limit offset byCreatedDesc m)"

definition RatingOf :: "(string \<Rightarrow> nat) \<Rightarrow> string \<Rightarrow> time \<Rightarrow> Memory \<Rightarrow> err + RatingSummary" where
  "RatingOf rank userID since m =
     (let all = pickReviews rank
                  (\<lambda>r. rTargetID r = userID \<and> Published r \<and> \<not> rCreatedAt r < since) 0 0 byCreated m
      in Inr ((Rating all (since + RatingWindow))\<lparr>rsUserID := userID\<rparr>))"

definition DueReviews :: "(string \<Rightarrow> nat) \<Rightarrow> time \<Rightarrow> Memory \<Rightarrow> err + Review list" where
  "DueReviews rank before m =
     Inr (pickReviews rank (\<lambda>r. \<not> Published r \<and> \<not> rCreatedAt r > before) 0 0 byCreated m)"


section \<open>Disputes and complaints\<close>

definition rememberOrder :: "string \<Rightarrow> Memory \<Rightarrow> Memory" where
  "rememberOrder i m = m\<lparr>queueSeq := AList.update i (int (length (queueSeq m)) + 1) (queueSeq m)\<rparr>"

definition dispute_clash :: "Dispute \<Rightarrow> Dispute \<Rightarrow> bool" where
  "dispute_clash ex d \<longleftrightarrow> pDealID ex = pDealID d \<and> pStatus ex = DisputeOpen"

definition CreateDispute :: "Dispute \<Rightarrow> Memory \<Rightarrow> err + Memory" where
  "CreateDispute d m =
     (if \<exists>ex \<in> set (gvals (disputes m)). dispute_clash ex d then Inl ErrDisputeExists
      else Inr (rememberOrder (pID d) (m\<lparr>disputes := AList.update (pID d) d (disputes m)\<rparr>)))"

definition UpdateDispute :: "Dispute \<Rightarrow> Memory \<Rightarrow> err + Memory" where
  "UpdateDispute d m =
     (if map_of (disputes m) (pID d) = None then Inl ErrDisputeNotFound
      else Inr (m\<lparr>disputes := AList.update (pID d) d (disputes m)\<rparr>))"

definition DisputeByID :: "string \<Rightarrow> Memory \<Rightarrow> err + Dispute" where
  "DisputeByID i m = or_err (map_of (disputes m) i) ErrDisputeNotFound"

definition newer_dispute :: "Dispute \<Rightarrow> Dispute \<Rightarrow> bool" where
  "newer_dispute x y \<longleftrightarrow> pCreatedAt x > pCreatedAt y"

definition DisputeByDeal :: "(string \<Rightarrow> nat) \<Rightarrow> string \<Rightarrow> Memory \<Rightarrow> err + Dispute" where
  "DisputeByDeal rank dealID m =
     or_err (fold (keep_better newer_dispute)
       (filter (\<lambda>d. pDealID d = dealID) (grange rank (disputes m))) None) ErrDisputeNotFound"

definition dispute_queue :: "Memory \<Rightarrow> Dispute \<Rightarrow> Dispute \<Rightarrow> bool" where
  "dispute_queue m x y =
     (if pCreatedAt x = pCreatedAt y then seq_of (queueSeq m) (pID x) < seq_of (queueSeq m) (pID y)
      else pCreatedAt x < pCreatedAt y)"

definition with_job_title :: "Memory \<Rightarrow> Dispute \<Rightarrow> Dispute" where
  "with_job_title m d =
     (case map_of (jobs m) (pJobID d) of None \<Rightarrow> d | Some j \<Rightarrow> d\<lparr>pJobTitle := jTitle j\<rparr>)"

definition OpenDisputes :: "(string \<Rightarrow> nat) \<Rightarrow> int \<Rightarrow> Memory \<Rightarrow> err + Dispute list" where
  "OpenDisputes rank limit m =
     Inr (gopage limit 0 (sort_by (dispute_queue m)
       (map (with_job_title m)
         (filter (\<lambda>d. \<not> pStatus d \<noteq> DisputeOpen) (grange rank (disputes m))))))"

definition complaint_clash :: "Complaint \<Rightarrow> Complaint \<Rightarrow> bool" where
  "complaint_clash ex c \<longleftrightarrow> cAuthorID ex = cAuthorID c \<and> cTargetKind ex = cTargetKind c
     \<and> cTargetID ex = cTargetID c \<and> cStatus ex = ComplaintOpen"

definition CreateComplaint :: "Complaint \<Rightarrow> Memory \<Rightarrow> err + Memory" where
  "CreateComplaint c m =
     (if \<exists>ex \<in> set (gvals (complaints m)). complaint_clash ex c then Inl ErrComplaintExists
      else Inr (rememberOrder (cID c) (m\<lparr>complaints := AList.update (cID c) c (complaints m)\<rparr>)))"

definition UpdateComplaint :: "Complaint \<Rightarrow> Memory \<Rightarrow> err + Memory" where
  "UpdateComplaint c m =
     (if map_of (complaints m) (cID c) = None then Inl ErrComplaintNotFound
      else Inr (rememberOrder (cID c) (m\<lparr>complaints := AList.update (cID c) c (complaints m)\<rparr>)))"

definition ComplaintByID :: "string \<Rightarrow> Memory \<Rightarrow> err + Complaint" where
  "ComplaintByID i m = or_err (map_of (complaints m) i) ErrComplaintNotFound"

definition target_key :: "Complaint \<Rightarrow> string" where
  "target_key c = cTargetKind c @ '':'' @ cTargetID c"

definition complaint_queue :: "Memory \<Rightarrow> Complaint \<Rightarrow> Complaint \<Rightarrow> bool" where
  "complaint_queue m x y =
     (if cCreatedAt x = cCreatedAt y then seq_of (queueSeq m) (cID x) < seq_of (queueSeq m) (cID y)
      else cCreatedAt x < cCreatedAt y)"

definition complaint_row :: "Memory \<Rightarrow> Complaint \<Rightarrow> Complaint" where
  "complaint_row m c =
     (let row = c\<lparr>cSameTarget :=
            int (length (filter (\<lambda>x. target_key x = target_key c) (gvals (complaints m))))\<rparr>
      in if cTargetKind c = TargetJob
         then case map_of (jobs m) (cTargetID c) of
                None \<Rightarrow> row | Some j \<Rightarrow> row\<lparr>cTargetTitle := jTitle j\<rparr>
         else row)"

definition OpenComplaints :: "(string \<Rightarrow> nat) \<Rightarrow> int \<Rightarrow> Memory \<Rightarrow> err + Complaint list" where
  "OpenComplaints rank limit m =
     Inr (gopage limit 0 (sort_by (complaint_queue m)
       (map (complaint_row m)
         (filter (\<lambda>c. \<not> cStatus c \<noteq> ComplaintOpen) (grange rank (complaints m))))))"

definition in_period :: "time \<Rightarrow> time \<Rightarrow> time \<Rightarrow> bool" where
  "in_period from to t \<longleftrightarrow> \<not> t < from \<and> \<not> t > to"

definition closed_within :: "time \<Rightarrow> time \<Rightarrow> Deal \<Rightarrow> bool" where
  "closed_within from to d \<longleftrightarrow> dStatus d = DealCompleted
     \<and> (case dClosedAt d of None \<Rightarrow> False | Some t \<Rightarrow> in_period from to t)"

definition PlatformStats_of :: "time \<Rightarrow> time \<Rightarrow> Memory \<Rightarrow> err + PlatformStats" where
  "PlatformStats_of from to m =
     (let done_deals = filter (closed_within from to) (gvals (deals m))
      in Inr \<lparr>psFrom = from, psTo = to,
        psJobs = int (length (filter (\<lambda>j. jStatus j \<noteq> StatusDraft \<and> in_period from to (jCreatedAt j))
          (gvals (jobs m)))),
        psDeals = int (length (filter (\<lambda>d. in_period from to (dCreatedAt d)) (gvals (deals m)))),
        psCompleted = int (length done_deals),
        psGMV = wrap64 (sum_list (map dPrice done_deals)),
        psOpenDisputes =
          int (length (filter (\<lambda>d. pStatus d = DisputeOpen) (gvals (disputes m)))),
        psOpenComplaints =
          int (length (filter (\<lambda>c. cStatus c = ComplaintOpen) (gvals (complaints m)))),
        psUsers = 0\<rparr>)"


section \<open>Chats\<close>

definition chat_clash :: "Chat \<Rightarrow> Chat \<Rightarrow> bool" where
  "chat_clash ex c \<longleftrightarrow> hJobID ex = hJobID c \<and> hOwnerID ex = hOwnerID c"

definition CreateChat :: "Chat \<Rightarrow> Memory \<Rightarrow> err + Memory" where
  "CreateChat c m =
     (if \<exists>ex \<in> set (gvals (chats m)). chat_clash ex c then Inl ErrChatNotFound
      else Inr (m\<lparr>chats := AList.update (hID c) c (chats m)\<rparr>))"

definition ChatByID :: "string \<Rightarrow> Memory \<Rightarrow> err + Chat" where
  "ChatByID i m = or_err (map_of (chats m) i) ErrChatNotFound"

definition ChatByJobOwner :: "(string \<Rightarrow> nat) \<Rightarrow> string \<Rightarrow> string \<Rightarrow> Memory \<Rightarrow> err + Chat" where
  "ChatByJobOwner rank jobID ownerID m =
     or_err (find (\<lambda>c. hJobID c = jobID \<and> hOwnerID c = ownerID) (grange rank (chats m)))
       ErrChatNotFound"

definition UpdateChat :: "Chat \<Rightarrow> Memory \<Rightarrow> err + Memory" where
  "UpdateChat c m =
     (if map_of (chats m) (hID c) = None then Inl ErrChatNotFound
      else Inr (m\<lparr>chats := AList.update (hID c) c (chats m)\<rparr>))"

definition CreateMessage :: "Message \<Rightarrow> Memory \<Rightarrow> err + Memory" where
  "CreateMessage msg m =
     Inr (m\<lparr>messages := AList.update (mID msg) msg (messages m),
       msgSeq := AList.update (mID msg) (int (length (msgSeq m)) + 1) (msgSeq m)\<rparr>)"

definition newer_message :: "Memory \<Rightarrow> Message \<Rightarrow> Message \<Rightarrow> bool" where
  "newer_message m x y =
     (if mCreatedAt x = mCreatedAt y then seq_of (msgSeq m) (mID x) > seq_of (msgSeq m) (mID y)
      else mCreatedAt x > mCreatedAt y)"

definition Messages :: "(string \<Rightarrow> nat) \<Rightarrow> string \<Rightarrow> int \<Rightarrow> int \<Rightarrow> Memory \<Rightarrow> err + Message list" where
  "Messages rank chatID limit offset m =
     Inr (gopage limit offset (sort_by (newer_message m)
       (filter (\<lambda>msg. mChatID msg = chatID) (grange rank (messages m)))))"

definition readBy :: "Message \<Rightarrow> string \<Rightarrow> bool" where
  "readBy msg userID \<longleftrightarrow> userID \<in> set (mReadBy msg)"

definition mark_read :: "string \<Rightarrow> string \<Rightarrow> Message \<Rightarrow> Message" where
  "mark_read chatID userID msg =
     (if mChatID msg \<noteq> chatID \<or> readBy msg userID then msg
      else if mSenderID msg = Some userID then msg
      else msg\<lparr>mReadBy := mReadBy msg @ [userID]\<rparr>)"

definition MarkRead :: "string \<Rightarrow> string \<Rightarrow> Memory \<Rightarrow> err + Memory" where
  "MarkRead chatID userID m =
     Inr (m\<lparr>messages := map (\<lambda>(i, msg). (i, mark_read chatID userID msg)) (messages m)\<rparr>)"

definition unread_for :: "string \<Rightarrow> string \<Rightarrow> Message \<Rightarrow> bool" where
  "unread_for chatID userID msg \<longleftrightarrow> mChatID msg = chatID \<and> \<not> readBy msg userID
     \<and> mSenderID msg \<noteq> Some userID"

definition chat_row :: "(string \<Rightarrow> nat) \<Rightarrow> string \<Rightarrow> Memory \<Rightarrow> Chat \<Rightarrow> Chat" where
  "chat_row rank userID m c =
     (let chat = (case map_of (jobs m) (hJobID c) of
                    None \<Rightarrow> c | Some j \<Rightarrow> c\<lparr>hJobTitle := jTitle j\<rparr>);
          last = fold (keep_better (newer_message m))
                   (filter (\<lambda>msg. mChatID msg = hID c) (grange rank (messages m))) None;
          chat = (case last of None \<Rightarrow> chat | Some msg \<Rightarrow> chat\<lparr>hLastText := mText msg\<rparr>)
      in chat\<lparr>hUnread := int (length (filter (unread_for (hID c) userID) (gvals (messages m))))\<rparr>)"

definition livelier_chat :: "Chat \<Rightarrow> Chat \<Rightarrow> bool" where
  "livelier_chat x y =
     (case (hLastMessageAt x, hLastMessageAt y) of
        (Some a, Some b) \<Rightarrow> a > b
      | (a, b) \<Rightarrow> b = None \<and> a \<noteq> None)"

definition ChatsByUser :: "(string \<Rightarrow> nat) \<Rightarrow> string \<Rightarrow> int \<Rightarrow> int \<Rightarrow> Memory \<Rightarrow> err + Chat list" where
  "ChatsByUser rank userID limit offset m =
     Inr (gopage limit offset (sort_by livelier_chat
       (map (chat_row rank userID m)
         (filter (\<lambda>c. \<not> (hClientID c \<noteq> userID \<and> hOwnerID c \<noteq> userID)) (grange rank (chats m))))))"

lemmas store_defs = Create_def Update_def ByID_def CreateBid_def UpdateBid_def BidByID_def
  CreateOffer_def UpdateOffer_def OfferByID_def CreateDeal_def UpdateDeal_def DealByID_def
  CreateReview_def UpdateReview_def ReviewByID_def CreateDispute_def UpdateDispute_def
  DisputeByID_def CreateComplaint_def UpdateComplaint_def ComplaintByID_def CreateChat_def
  UpdateChat_def ChatByID_def CreateMessage_def MarkRead_def


section \<open>The tables\<close>

text \<open>The tables of this store.\<close>

locale memory_table = store_table rows idf clash create replace fetch
  for rows :: "Memory \<Rightarrow> (string, 'v) gomap" and idf clash
    and create replace :: "'v \<Rightarrow> Memory \<Rightarrow> err + Memory" and fetch :: "string \<Rightarrow> Memory \<Rightarrow> err + 'v"

lemma recount_frame [simp]:
  "offers (recount j m) = offers m" "deals (recount j m) = deals m" "bids (recount j m) = bids m"
  "chats (recount j m) = chats m" "messages (recount j m) = messages m"
  "reviews (recount j m) = reviews m" "disputes (recount j m) = disputes m"
  "complaints (recount j m) = complaints m" "views (recount j m) = views m"
  "idemp (recount j m) = idemp m" "queueSeq (recount j m) = queueSeq m" "msgSeq (recount j m) = msgSeq m"
  by (simp_all add: recount_def Let_def split: option.split)

lemma rememberOrder_frame [simp]:
  "jobs (rememberOrder i m) = jobs m" "offers (rememberOrder i m) = offers m"
  "deals (rememberOrder i m) = deals m" "bids (rememberOrder i m) = bids m"
  "chats (rememberOrder i m) = chats m" "messages (rememberOrder i m) = messages m"
  "reviews (rememberOrder i m) = reviews m" "disputes (rememberOrder i m) = disputes m"
  "complaints (rememberOrder i m) = complaints m"
  by (simp_all add: rememberOrder_def)

interpretation job_rows: memory_table jobs jID "\<lambda>_ _. False" Create Update ByID
  by unfold_locales (auto simp: Create_def Update_def ByID_def split: if_splits)

interpretation bid_rows: memory_table bids bID bid_clash CreateBid UpdateBid BidByID
  by unfold_locales (auto simp: CreateBid_def UpdateBid_def BidByID_def split: if_splits)

interpretation offer_rows: memory_table offers oID offer_clash CreateOffer UpdateOffer OfferByID
  by unfold_locales (auto simp: CreateOffer_def UpdateOffer_def OfferByID_def split: if_splits)

interpretation deal_rows: memory_table deals dID deal_clash CreateDeal UpdateDeal DealByID
  by unfold_locales (auto simp: CreateDeal_def UpdateDeal_def DealByID_def split: if_splits)

interpretation review_rows: memory_table reviews rID review_clash CreateReview UpdateReview ReviewByID
  by unfold_locales (auto simp: CreateReview_def UpdateReview_def ReviewByID_def split: if_splits)

interpretation dispute_rows:
  memory_table disputes pID dispute_clash CreateDispute UpdateDispute DisputeByID
  by unfold_locales (auto simp: CreateDispute_def UpdateDispute_def DisputeByID_def split: if_splits)

interpretation complaint_rows:
  memory_table complaints cID complaint_clash CreateComplaint UpdateComplaint ComplaintByID
  by unfold_locales
    (auto simp: CreateComplaint_def UpdateComplaint_def ComplaintByID_def split: if_splits)

interpretation chat_rows: memory_table chats hID chat_clash CreateChat UpdateChat ChatByID
  by unfold_locales (auto simp: CreateChat_def UpdateChat_def ChatByID_def split: if_splits)


text \<open>A successful write, read off.\<close>

named_theorems store_simps \<open>what a successful write to the store does\<close>

lemma Update_Inr [store_simps]:
  "Update j m = Inr m' \<longleftrightarrow>
     map_of (jobs m) (jID j) \<noteq> None \<and> m' = m\<lparr>jobs := AList.update (jID j) j (jobs m)\<rparr>"
  by (auto simp: Update_def)

lemma UpdateBid_Inr [store_simps]:
  "UpdateBid b m = Inr m' \<longleftrightarrow>
     map_of (bids m) (bID b) \<noteq> None \<and> m' = m\<lparr>bids := AList.update (bID b) b (bids m)\<rparr>"
  by (auto simp: UpdateBid_def)

lemma UpdateDeal_Inr [store_simps]:
  "UpdateDeal d m = Inr m' \<longleftrightarrow>
     map_of (deals m) (dID d) \<noteq> None \<and> m' = m\<lparr>deals := AList.update (dID d) d (deals m)\<rparr>"
  by (auto simp: UpdateDeal_def)

lemma UpdateReview_Inr [store_simps]:
  "UpdateReview r m = Inr m' \<longleftrightarrow>
     map_of (reviews m) (rID r) \<noteq> None \<and> m' = m\<lparr>reviews := AList.update (rID r) r (reviews m)\<rparr>"
  by (auto simp: UpdateReview_def)

lemma UpdateDispute_Inr [store_simps]:
  "UpdateDispute d m = Inr m' \<longleftrightarrow>
     map_of (disputes m) (pID d) \<noteq> None \<and> m' = m\<lparr>disputes := AList.update (pID d) d (disputes m)\<rparr>"
  by (auto simp: UpdateDispute_def)

lemma UpdateChat_Inr [store_simps]:
  "UpdateChat c m = Inr m' \<longleftrightarrow>
     map_of (chats m) (hID c) \<noteq> None \<and> m' = m\<lparr>chats := AList.update (hID c) c (chats m)\<rparr>"
  by (auto simp: UpdateChat_def)

lemma CreateBid_Inr [store_simps]:
  "CreateBid b m = Inr m' \<longleftrightarrow> (\<forall>ex \<in> set (gvals (bids m)). \<not> bid_clash ex b)
     \<and> m' = m\<lparr>bids := AList.update (bID b) b (bids m)\<rparr>"
  by (auto simp: CreateBid_def)

lemma CreateDeal_Inr [store_simps]:
  "CreateDeal d m = Inr m' \<longleftrightarrow> (\<forall>ex \<in> set (gvals (deals m)). \<not> deal_clash ex d)
     \<and> m' = m\<lparr>deals := AList.update (dID d) d (deals m)\<rparr>"
  by (auto simp: CreateDeal_def)

lemma CreateReview_Inr [store_simps]:
  "CreateReview r m = Inr m' \<longleftrightarrow> (\<forall>ex \<in> set (gvals (reviews m)). \<not> review_clash ex r)
     \<and> m' = m\<lparr>reviews := AList.update (rID r) r (reviews m)\<rparr>"
  by (auto simp: CreateReview_def)

lemma CreateChat_Inr [store_simps]:
  "CreateChat c m = Inr m' \<longleftrightarrow> (\<forall>ex \<in> set (gvals (chats m)). \<not> chat_clash ex c)
     \<and> m' = m\<lparr>chats := AList.update (hID c) c (chats m)\<rparr>"
  by (auto simp: CreateChat_def)

lemma CreateDispute_Inr [store_simps]:
  "CreateDispute d m = Inr m' \<longleftrightarrow> (\<forall>ex \<in> set (gvals (disputes m)). \<not> dispute_clash ex d)
     \<and> m' = rememberOrder (pID d) (m\<lparr>disputes := AList.update (pID d) d (disputes m)\<rparr>)"
  by (auto simp: CreateDispute_def)

lemma CreateComplaint_Inr [store_simps]:
  "CreateComplaint c m = Inr m' \<longleftrightarrow> (\<forall>ex \<in> set (gvals (complaints m)). \<not> complaint_clash ex c)
     \<and> m' = rememberOrder (cID c) (m\<lparr>complaints := AList.update (cID c) c (complaints m)\<rparr>)"
  by (auto simp: CreateComplaint_def)

lemma UpdateComplaint_Inr [store_simps]:
  "UpdateComplaint c m = Inr m' \<longleftrightarrow> map_of (complaints m) (cID c) \<noteq> None
     \<and> m' = rememberOrder (cID c) (m\<lparr>complaints := AList.update (cID c) c (complaints m)\<rparr>)"
  by (auto simp: UpdateComplaint_def)

lemma UpdateOffer_Inr [store_simps]:
  "UpdateOffer x m = Inr m' \<longleftrightarrow> map_of (offers m) (oID x) \<noteq> None
     \<and> m' = recount (oJobID x) (m\<lparr>offers := AList.update (oID x) x (offers m)\<rparr>)"
  by (auto simp: UpdateOffer_def)

lemma CreateOffer_Inr [store_simps]:
  "CreateOffer x m = Inr m' \<longleftrightarrow> (\<forall>ex \<in> set (gvals (offers m)). \<not> offer_clash ex x)
     \<and> m' = recount (oJobID x) (m\<lparr>offers := AList.update (oID x) x (offers m)\<rparr>)"
  by (auto simp: CreateOffer_def)

lemma Create_Inr [store_simps]:
  "Create j m = Inr m' \<longleftrightarrow> m' = m\<lparr>jobs := AList.update (jID j) j (jobs m)\<rparr>"
  by (auto simp: Create_def)

lemma CreateMessage_Inr [store_simps]:
  "CreateMessage msg m = Inr m' \<longleftrightarrow> m' = m\<lparr>messages := AList.update (mID msg) msg (messages m),
     msgSeq := AList.update (mID msg) (int (length (msgSeq m)) + 1) (msgSeq m)\<rparr>"
  by (auto simp: CreateMessage_def)


section \<open>Orders of the listings\<close>

lemma bid_before_iff:
  "bid_before x y \<longleftrightarrow> bStatus x = BidActive \<and> bStatus y \<noteq> BidActive
     \<or> (bStatus x = BidActive \<longleftrightarrow> bStatus y = BidActive) \<and> cheaper_bid x y"
  by (auto simp: bid_before_def cheaper_bid_def Let_def)

interpretation cheap_order: comparator cheaper_bid
  by unfold_locales (auto simp: cheaper_bid_def)

interpretation bid_order: comparator bid_before
proof
  show "bid_before x y \<Longrightarrow> \<not> bid_before y x" for x y
    unfolding bid_before_iff using cheap_order.asym by blast
  show "\<not> bid_before x y \<Longrightarrow> \<not> bid_before y z \<Longrightarrow> \<not> bid_before x z" for x y z
    unfolding bid_before_iff using cheap_order.neg_trans by blast
qed

interpretation offer_order: comparator offer_before
  by unfold_locales (auto simp: offer_before_def Let_def split: if_splits)

interpretation bid_age: comparator newer_bid
  by unfold_locales (auto simp: newer_bid_def)

interpretation offer_age: comparator newer_offer
  by unfold_locales (auto simp: newer_offer_def)

interpretation dispute_age: comparator newer_dispute
  by unfold_locales (auto simp: newer_dispute_def)

interpretation due_order: comparator older_job
  by unfold_locales (auto simp: older_job_def)

interpretation dispute_order: comparator "dispute_queue m"
  by unfold_locales (auto simp: dispute_queue_def split: if_splits)

interpretation complaint_order: comparator "complaint_queue m"
  by unfold_locales (auto simp: complaint_queue_def split: if_splits)

interpretation message_order: comparator "newer_message m"
  by unfold_locales (auto simp: newer_message_def split: if_splits)

interpretation chat_order: comparator livelier_chat
  by unfold_locales (auto simp: livelier_chat_def split: option.splits)

text \<open>The scanning loops return a row none of the others beats.\<close>

context comparator
begin

lemma keep_better_scan:
  "fold (keep_better lt) xs b = None \<longleftrightarrow> xs = [] \<and> b = None"
  "fold (keep_better lt) xs b = Some y \<Longrightarrow>
     y \<in> set xs \<union> set_option b \<and> (\<forall>x \<in> set xs \<union> set_option b. \<not> lt x y)"
proof (induction xs arbitrary: b)
  case Nil
  { case 1 show ?case by simp
  next
    case 2 then show ?case using asym by auto }
next
  case (Cons x xs)
  { case 1 show ?case using Cons.IH(1) by (auto simp: keep_better_def split: option.splits)
  next
    case 2
    then have *: "fold (keep_better lt) xs (keep_better lt x b) = Some y" by simp
    have y: "y \<in> set xs \<union> set_option (keep_better lt x b)"
      "\<forall>z \<in> set xs \<union> set_option (keep_better lt x b). \<not> lt z y"
      using Cons.IH(2) [OF *] by blast+
    show ?case
    proof (cases b)
      case None
      with y show ?thesis by (auto simp: keep_better_def)
    next
      case (Some z)
      show ?thesis
      proof (cases "lt x z")
        case True
        with Some y have "\<not> lt x y" by (auto simp: keep_better_def)
        with asym [OF True] neg_trans [of z x y] True Some y show ?thesis
          by (auto simp: keep_better_def)
      next
        case False
        with Some y have "\<not> lt z y" by (auto simp: keep_better_def)
        with neg_trans [of x z y] False Some y show ?thesis by (auto simp: keep_better_def)
      qed
    qed }
qed

end

lemma BestBid_Inr:
  "BestBid rank jobID m = Inr b \<Longrightarrow> b \<in> set (gvals (bids m)) \<and> bJobID b = jobID \<and> bStatus b = BidActive
     \<and> (\<forall>x \<in> set (gvals (bids m)). bJobID x = jobID \<longrightarrow> bStatus x = BidActive \<longrightarrow> bPrice b \<le> bPrice x)"
  unfolding BestBid_def or_err_Inr
  by (drule cheap_order.keep_better_scan(2)) (auto simp: cheaper_bid_def)

lemma BestBid_Inl:
  "BestBid rank jobID m = Inl e \<longleftrightarrow> e = ErrBidNotFound
     \<and> (\<forall>x \<in> set (gvals (bids m)). bJobID x = jobID \<longrightarrow> bStatus x \<noteq> BidActive)"
  unfolding BestBid_def or_err_Inl cheap_order.keep_better_scan
  by (auto simp: filter_empty_conv)

lemma MyBidForJob_Inr:
  "MyBidForJob rank jobID ownerID m = Inr b \<Longrightarrow>
     b \<in> set (gvals (bids m)) \<and> bJobID b = jobID \<and> bOwnerID b = ownerID"
  unfolding MyBidForJob_def or_err_Inr by (drule bid_age.keep_better_scan(2)) auto

lemma MyOfferForJob_Inr:
  "MyOfferForJob rank jobID ownerID m = Inr x \<Longrightarrow>
     x \<in> set (gvals (offers m)) \<and> oJobID x = jobID \<and> oOwnerID x = ownerID"
  unfolding MyOfferForJob_def or_err_Inr by (drule offer_age.keep_better_scan(2)) auto

lemma DisputeByDeal_Inr:
  "DisputeByDeal rank dealID m = Inr x \<Longrightarrow> x \<in> set (gvals (disputes m)) \<and> pDealID x = dealID
     \<and> (\<forall>y \<in> set (gvals (disputes m)). pDealID y = dealID \<longrightarrow> pCreatedAt y \<le> pCreatedAt x)"
  unfolding DisputeByDeal_def or_err_Inr
  by (drule dispute_age.keep_better_scan(2)) (auto simp: newer_dispute_def)

lemma DisputeByDeal_Inl:
  "DisputeByDeal rank dealID m = Inl e \<longleftrightarrow> e = ErrDisputeNotFound
     \<and> (\<forall>y \<in> set (gvals (disputes m)). pDealID y \<noteq> dealID)"
  unfolding DisputeByDeal_def or_err_Inl dispute_age.keep_better_scan
  by (auto simp: filter_empty_conv)

lemma BidsByJob_set:
  "BidsByJob rank jobID m = Inr bs \<Longrightarrow> set bs = {b \<in> set (gvals (bids m)). bJobID b = jobID}"
  by (auto simp: BidsByJob_def)

lemma BidsByJob_sorted:
  "BidsByJob rank jobID m = Inr bs \<Longrightarrow> sorted_wrt (\<lambda>x y. \<not> bid_before y x) bs"
  by (auto simp: BidsByJob_def bid_order.sort_by_sorted)

lemma DealByJob_Inr:
  "DealByJob rank jobID m = Inr d \<Longrightarrow> d \<in> set (gvals (deals m)) \<and> dJobID d = jobID"
  using set_grange [of rank "deals m"] unfolding DealByJob_def or_err_Inr find_Some_iff
  by (metis nth_mem)

lemma DealByJob_Inl:
  "DealByJob rank jobID m = Inl e \<longleftrightarrow> e = ErrDealNotFound
     \<and> (\<forall>d \<in> set (gvals (deals m)). dJobID d \<noteq> jobID)"
  by (auto simp: DealByJob_def find_None_iff)

text \<open>With one deal per job, the lookup does not depend on the visiting order.\<close>

lemma DealByJob_unique:
  assumes "unique_rows deal_clash (deals m)" and "d \<in> set (gvals (deals m))" and "dJobID d = jobID"
  shows "DealByJob rank jobID m = Inr d"
proof (cases "DealByJob rank jobID m")
  case (Inl e)
  then show ?thesis using assms DealByJob_Inl by blast
next
  case (Inr d')
  then show ?thesis using assms DealByJob_Inr [OF Inr] by (auto simp: unique_rows_def deal_clash_def)
qed

lemma DueJobs_set: "DueJobs rank now m = Inr js \<Longrightarrow> set js = {j \<in> set (gvals (jobs m)). due now m j}"
  by (auto simp: DueJobs_def)

end
