(* ===== verification/World.thy ===== *)
theory World
  imports Memory_Store
begin

text \<open>
  What a service operation runs in (\<^verbatim>\<open>services/orders/internal/service/orders.go\<close>, the \<^verbatim>\<open>Service\<close>
  struct): the store, the clock, the generator of identifiers, the notifier
  (\<^verbatim>\<open>internal/notify\<close>), the realtime publisher (\<^verbatim>\<open>internal/realtime\<close>) and the lookup of machines
  (\<^verbatim>\<open>internal/units\<close>). An operation maps a world to a result and the world left behind, on errors
  too: what was written before an error stays written, as in the code. The combinators below are
  Go's \<^verbatim>\<open>if err != nil { return nil, err }\<close>.
\<close>


section \<open>Environment and world\<close>

record Unit =
  uID :: string
  uOwnerID :: string
  uCategoryID :: string
  uStatus :: string
  uActive :: bool
  uTitle :: runes
  uVerified :: bool

text \<open>
  \<open>clock e n\<close> is the n-th reading of the clock in one operation, \<open>fresh e n\<close> the n-th generated
  identifier, \<open>iter e n\<close> the visiting order of the n-th range over a map, \<open>units e\<close> the answers of the
  catalog. All are arbitrary: nothing is assumed of them unless a theorem says so.
\<close>

record env =
  clock :: "nat \<Rightarrow> time"
  fresh :: "nat \<Rightarrow> string"
  iter :: "nat \<Rightarrow> string \<Rightarrow> nat"
  units :: "string \<Rightarrow> Unit option"

record push =
  nTo :: string
  nTitle :: message
  nBody :: message
  nData :: "(string \<times> string) list"

datatype ev = EvStr string | EvInt int | EvBool bool | EvTime time | EvMsg message

record live =
  lChannel :: string
  lEvent :: "(string \<times> ev) list"

record world =
  mem :: Memory
  sent :: "push list"
  published :: "live list"

definition new_world :: world where
  "new_world = \<lparr>mem = NewMemory, sent = [], published = []\<rparr>"


section \<open>Operations\<close>

type_synonym 'a op = "world \<Rightarrow> (err + 'a) \<times> world"

definition ret :: "'a \<Rightarrow> 'a op" where
  "ret x w = (Inr x, w)"

definition fail :: "err \<Rightarrow> 'a op" where
  "fail e w = (Inl e, w)"

definition bnd :: "'a op \<Rightarrow> ('a \<Rightarrow> 'b op) \<Rightarrow> 'b op" where
  "bnd m f w = (case m w of (Inl e, w') \<Rightarrow> (Inl e, w') | (Inr x, w') \<Rightarrow> f x w')"

text \<open>A read of the store, a write of the store.\<close>

definition get :: "(Memory \<Rightarrow> err + 'a) \<Rightarrow> 'a op" where
  "get q w = (q (mem w), w)"

definition put :: "(Memory \<Rightarrow> err + Memory) \<Rightarrow> unit op" where
  "put u w = (case u (mem w) of Inl e \<Rightarrow> (Inl e, w) | Inr m \<Rightarrow> (Inr (), w\<lparr>mem := m\<rparr>))"

text \<open>\<^verbatim>\<open>if c { return nil, e }\<close>, \<^verbatim>\<open>if err := f(); err != nil { return nil, err }\<close>.\<close>

definition refuse :: "bool \<Rightarrow> err \<Rightarrow> unit op" where
  "refuse c e = (if c then fail e else ret ())"

definition check :: "err option \<Rightarrow> unit op" where
  "check r = (case r of None \<Rightarrow> ret () | Some e \<Rightarrow> fail e)"

definition need :: "err + 'a \<Rightarrow> 'a op" where
  "need r = (case r of Inl e \<Rightarrow> fail e | Inr x \<Rightarrow> ret x)"

text \<open>A call whose error the caller inspects or drops.\<close>

definition attempt :: "'a op \<Rightarrow> ((err + 'a) \<Rightarrow> 'b op) \<Rightarrow> 'b op" where
  "attempt m f w = (case m w of (r, w') \<Rightarrow> f r w')"

definition ignore :: "'a op \<Rightarrow> unit op" where
  "ignore m = attempt m (\<lambda>_. ret ())"

fun each :: "('a \<Rightarrow> unit op) \<Rightarrow> 'a list \<Rightarrow> unit op" where
  "each f [] = ret ()"
| "each f (x # xs) = bnd (f x) (\<lambda>_. each f xs)"

definition Send :: "string \<Rightarrow> message \<Rightarrow> message \<Rightarrow> (string \<times> string) list \<Rightarrow> unit op" where
  "Send userID title body data w =
     (Inr (), w\<lparr>sent := sent w @ [\<lparr>nTo = userID, nTitle = title, nBody = body, nData = data\<rparr>]\<rparr>)"

definition PublishLive :: "string \<Rightarrow> (string \<times> ev) list \<Rightarrow> unit op" where
  "PublishLive channel event w =
     (Inr (), w\<lparr>published := published w @ [\<lparr>lChannel = channel, lEvent = event\<rparr>]\<rparr>)"


section \<open>Successful runs\<close>

named_theorems op_simps \<open>what a successful run of an operation means\<close>

lemma ret_eq [op_simps]: "ret x w = (r, w') \<longleftrightarrow> r = Inr x \<and> w' = w"
  by (auto simp: ret_def)

lemma fail_eq [op_simps]: "fail e w = (r, w') \<longleftrightarrow> r = Inl e \<and> w' = w"
  by (auto simp: fail_def)

lemma bnd_Inr [op_simps]:
  "bnd m f w = (Inr y, w') \<longleftrightarrow> (\<exists>x w1. m w = (Inr x, w1) \<and> f x w1 = (Inr y, w'))"
  by (auto simp: bnd_def split: prod.splits sum.splits)

lemma get_Inr [op_simps]: "get q w = (r, w') \<longleftrightarrow> q (mem w) = r \<and> w' = w"
  by (auto simp: get_def)

lemma put_Inr [op_simps]:
  "put u w = (Inr x, w') \<longleftrightarrow> (\<exists>m. u (mem w) = Inr m \<and> w' = w\<lparr>mem := m\<rparr>)"
  by (auto simp: put_def split: sum.splits)

lemma refuse_Inr [op_simps]: "refuse c e w = (Inr x, w') \<longleftrightarrow> \<not> c \<and> w' = w"
  by (auto simp: refuse_def op_simps)

lemma check_Inr [op_simps]: "check r w = (Inr x, w') \<longleftrightarrow> r = None \<and> w' = w"
  by (auto simp: check_def op_simps split: option.splits)

lemma need_Inr [op_simps]: "need r w = (Inr x, w') \<longleftrightarrow> r = Inr x \<and> w' = w"
  by (auto simp: need_def op_simps split: sum.splits)

lemma Send_eq [op_simps]: "Send u t b d w = (r, w') \<longleftrightarrow> r = Inr () \<and>
   w' = w\<lparr>sent := sent w @ [\<lparr>nTo = u, nTitle = t, nBody = b, nData = d\<rparr>]\<rparr>"
  by (auto simp: Send_def)

lemma PublishLive_eq [op_simps]: "PublishLive c d w = (r, w') \<longleftrightarrow> r = Inr () \<and>
   w' = w\<lparr>published := published w @ [\<lparr>lChannel = c, lEvent = d\<rparr>]\<rparr>"
  by (auto simp: PublishLive_def)


section \<open>All runs\<close>

text \<open>
  \<open>wp m Q w\<close>: whatever \<open>m\<close> returns when started in \<open>w\<close>, \<open>Q\<close> holds of it and of the world left. The
  rules execute an operation symbolically, error returns included.
\<close>

definition wp :: "'a op \<Rightarrow> ((err + 'a) \<Rightarrow> world \<Rightarrow> bool) \<Rightarrow> world \<Rightarrow> bool" where
  "wp m Q w = (case m w of (r, w') \<Rightarrow> Q r w')"

named_theorems wp_simps \<open>symbolic execution of operations\<close>

lemma wpD: "wp m Q w \<Longrightarrow> m w = (r, w') \<Longrightarrow> Q r w'"
  by (simp add: wp_def)

lemma wpI: "(\<And>r w'. m w = (r, w') \<Longrightarrow> Q r w') \<Longrightarrow> wp m Q w"
  by (simp add: wp_def split: prod.split)

lemma wp_mono: "wp m Q w \<Longrightarrow> (\<And>r w'. Q r w' \<Longrightarrow> Q' r w') \<Longrightarrow> wp m Q' w"
  by (auto simp: wp_def split: prod.splits)

lemma wp_ret [wp_simps]: "wp (ret x) Q w \<longleftrightarrow> Q (Inr x) w"
  by (simp add: wp_def ret_def)

lemma wp_fail [wp_simps]: "wp (fail e) Q w \<longleftrightarrow> Q (Inl e) w"
  by (simp add: wp_def fail_def)

lemma wp_bnd [wp_simps]:
  "wp (bnd m f) Q w \<longleftrightarrow> wp m (\<lambda>r w. case r of Inl e \<Rightarrow> Q (Inl e) w | Inr x \<Rightarrow> wp (f x) Q w) w"
  by (auto simp: wp_def bnd_def split: prod.splits sum.splits)

lemma wp_get [wp_simps]: "wp (get q) Q w \<longleftrightarrow> Q (q (mem w)) w"
  by (simp add: wp_def get_def)

lemma wp_put [wp_simps]:
  "wp (put u) Q w \<longleftrightarrow>
     (case u (mem w) of Inl e \<Rightarrow> Q (Inl e) w | Inr m \<Rightarrow> Q (Inr ()) (w\<lparr>mem := m\<rparr>))"
  by (auto simp: wp_def put_def split: sum.splits)

lemma wp_refuse [wp_simps]:
  "wp (refuse c e) Q w \<longleftrightarrow> (if c then Q (Inl e) w else Q (Inr ()) w)"
  by (simp add: refuse_def wp_simps)

lemma wp_check [wp_simps]:
  "wp (check r) Q w \<longleftrightarrow> (case r of None \<Rightarrow> Q (Inr ()) w | Some e \<Rightarrow> Q (Inl e) w)"
  by (simp add: check_def wp_simps split: option.split)

lemma wp_need [wp_simps]: "wp (need r) Q w \<longleftrightarrow> Q r w"
  by (simp add: need_def wp_simps split: sum.split)

lemma wp_attempt [wp_simps]: "wp (attempt m f) Q w \<longleftrightarrow> wp m (\<lambda>r w. wp (f r) Q w) w"
  by (simp add: wp_def attempt_def split: prod.split)

lemma wp_ignore [wp_simps]: "wp (ignore m) Q w \<longleftrightarrow> wp m (\<lambda>_ w. Q (Inr ()) w) w"
  by (simp add: ignore_def wp_simps)

lemma wp_Send [wp_simps]: "wp (Send u t b d) Q w \<longleftrightarrow>
   Q (Inr ()) (w\<lparr>sent := sent w @ [\<lparr>nTo = u, nTitle = t, nBody = b, nData = d\<rparr>]\<rparr>)"
  by (simp add: wp_def Send_def)

lemma wp_PublishLive [wp_simps]: "wp (PublishLive c d) Q w \<longleftrightarrow>
   Q (Inr ()) (w\<lparr>published := published w @ [\<lparr>lChannel = c, lEvent = d\<rparr>]\<rparr>)"
  by (simp add: wp_def PublishLive_def)

lemma wp_if [wp_simps]: "wp (if c then a else b) Q w \<longleftrightarrow> (if c then wp a Q w else wp b Q w)"
  by simp

text \<open>
  \<open>keeps I m\<close>: every run of \<open>m\<close>, failing or not, keeps the store property \<open>I\<close>. The rules walk through
  an operation; at a write they ask that the write keeps \<open>I\<close>, with what was read before it known.
\<close>

definition keeps :: "(Memory \<Rightarrow> bool) \<Rightarrow> 'a op \<Rightarrow> bool" where
  "keeps I m \<longleftrightarrow> (\<forall>w. I (mem w) \<longrightarrow> I (mem (snd (m w))))"

named_theorems keeps_intros \<open>how operations keep a property of the store\<close>

lemma keepsI: "(\<And>w r w'. I (mem w) \<Longrightarrow> m w = (r, w') \<Longrightarrow> I (mem w')) \<Longrightarrow> keeps I m"
  by (metis keeps_def prod.collapse)

lemma keepsD: "keeps I m \<Longrightarrow> I (mem w) \<Longrightarrow> m w = (r, w') \<Longrightarrow> I (mem w')"
  by (metis keeps_def snd_conv)

lemma keeps_ret [keeps_intros]: "keeps I (ret x)"
  by (simp add: keeps_def ret_def)

lemma keeps_fail [keeps_intros]: "keeps I (fail e)"
  by (simp add: keeps_def fail_def)

lemma keeps_bnd [keeps_intros]:
  assumes m: "keeps I m" and f: "\<And>x. keeps I (f x)"
  shows "keeps I (bnd m f)"
proof (rule keepsI)
  fix w r w'
  assume I: "I (mem w)" and run: "bnd m f w = (r, w')"
  obtain q w1 where q: "m w = (q, w1)" by (meson surj_pair)
  with m I have "I (mem w1)" by (blast intro: keepsD)
  then show "I (mem w')"
    using run q keepsD [OF f] by (cases q) (auto simp: bnd_def)
qed

lemma keeps_get [keeps_intros]: "keeps I (get q)"
  by (simp add: keeps_def get_def)

lemma keeps_refuse [keeps_intros]: "keeps I (refuse c e)"
  by (simp add: refuse_def keeps_ret keeps_fail)

lemma keeps_check [keeps_intros]: "keeps I (check r)"
  by (simp add: check_def keeps_ret keeps_fail split: option.split)

lemma keeps_need [keeps_intros]: "keeps I (need r)"
  by (simp add: need_def keeps_ret keeps_fail split: sum.split)

lemma keeps_attempt [keeps_intros]: "keeps I m \<Longrightarrow> (\<And>r. keeps I (f r)) \<Longrightarrow> keeps I (attempt m f)"
  unfolding keeps_def attempt_def by (auto split: prod.split)

lemma keeps_ignore [keeps_intros]: "keeps I m \<Longrightarrow> keeps I (ignore m)"
  unfolding ignore_def by (intro keeps_attempt keeps_ret)

lemma keeps_each [keeps_intros]: "(\<And>x. keeps I (f x)) \<Longrightarrow> keeps I (each f xs)"
  by (induction xs) (auto intro: keeps_intros)

lemma keeps_Send [keeps_intros]: "keeps I (Send u t b d)"
  by (simp add: keeps_def Send_def)

lemma keeps_PublishLive [keeps_intros]: "keeps I (PublishLive c d)"
  by (simp add: keeps_def PublishLive_def)

lemma keeps_put: "(\<And>s s'. I s \<Longrightarrow> u s = Inr s' \<Longrightarrow> I s') \<Longrightarrow> keeps I (put u)"
  unfolding keeps_def put_def by (auto split: sum.split)

text \<open>A loop that only writes and sends: the store after it, the pushes it made.\<close>

lemma each_frame:
  assumes "\<And>x w r w'. x \<in> set xs \<Longrightarrow> f x w = (r, w') \<Longrightarrow> g w' = g w"
    and "each f xs w = (r, w')"
  shows "g w' = g w"
  using assms
proof (induction xs arbitrary: w)
  case Nil
  then show ?case by (simp add: op_simps)
next
  case (Cons x xs)
  obtain q w1 where q: "f x w = (q, w1)" by (meson surj_pair)
  then have g: "g w1 = g w" using Cons.prems(1) by (metis list.set_intros(1))
  show ?case
  proof (cases q)
    case (Inl e)
    with q g Cons.prems(2) show ?thesis by (auto simp: bnd_def)
  next
    case (Inr u)
    with q Cons.prems(2) have "each f xs w1 = (r, w')" by (simp add: bnd_def)
    moreover have "g w'' = g w0" if "y \<in> set xs" "f y w0 = (r', w'')" for y w0 r' w''
      using Cons.prems(1) that by (meson list.set_intros(2))
    ultimately show ?thesis using Cons.IH [of w1] g by metis
  qed
qed

text \<open>A loop that only sends always finishes and leaves the store alone.\<close>

lemma each_quiet:
  assumes "\<And>x w. \<exists>w1. f x w = (Inr (), w1) \<and> mem w1 = mem w"
  shows "\<exists>w'. each f xs w = (Inr (), w') \<and> mem w' = mem w"
proof (induction xs arbitrary: w)
  case Nil
  then show ?case by (simp add: ret_def)
next
  case (Cons x xs)
  obtain w1 where w1: "f x w = (Inr (), w1)" "mem w1 = mem w" using assms by blast
  then show ?case using Cons.IH [of w1] by (auto simp: bnd_def)
qed


section \<open>Loops that rewrite a table\<close>

text \<open>
  A loop whose body replaces one row and relates the stores by a frame relation \<open>R\<close>. With distinct
  rows taken from the table itself it maps a function over the selected rows.
\<close>

context memory_table
begin

lemma each_update:
  assumes refl: "\<And>s. R s s" and trans: "\<And>s s' s''. R s s' \<Longrightarrow> R s' s'' \<Longrightarrow> R s s''"
    and step: "\<And>x w. x \<in> set xs \<Longrightarrow> map_of (rows (mem w)) (idf (new x)) \<noteq> None \<Longrightarrow>
      \<exists>w1. f x w = (Inr (), w1)
        \<and> map_of (rows (mem w1)) = (map_of (rows (mem w)))(idf (new x) \<mapsto> new x) \<and> R (mem w) (mem w1)"
    and "distinct (map (\<lambda>x. idf (new x)) xs)"
    and "\<forall>x \<in> set xs. map_of (rows (mem w)) (idf (new x)) \<noteq> None"
  shows "\<exists>w'. each f xs w = (Inr (), w')
    \<and> map_of (rows (mem w')) = map_of (rows (mem w)) ++ map_of (map (\<lambda>x. (idf (new x), new x)) xs)
    \<and> R (mem w) (mem w')"
  using assms(3-)
proof (induction xs arbitrary: w)
  case Nil
  then show ?case by (simp add: ret_def refl)
next
  case (Cons x xs)
  let ?t = "map_of (map (\<lambda>x. (idf (new x), new x)) xs)"
  have "map_of (rows (mem w)) (idf (new x)) \<noteq> None" using Cons.prems(3) by simp
  from Cons.prems(1) [OF list.set_intros(1) this] obtain w1 where w1: "f x w = (Inr (), w1)"
    and m1: "map_of (rows (mem w1)) = (map_of (rows (mem w)))(idf (new x) \<mapsto> new x)"
    and R1: "R (mem w) (mem w1)" by blast
  have "\<exists>w'. each f xs w1 = (Inr (), w') \<and> map_of (rows (mem w')) = map_of (rows (mem w1)) ++ ?t
    \<and> R (mem w1) (mem w')"
  proof (rule Cons.IH)
    show "\<exists>w1. f y w0 = (Inr (), w1)
        \<and> map_of (rows (mem w1)) = (map_of (rows (mem w0)))(idf (new y) \<mapsto> new y) \<and> R (mem w0) (mem w1)"
      if "y \<in> set xs" "map_of (rows (mem w0)) (idf (new y)) \<noteq> None" for y w0
      using that by (intro Cons.prems(1)) simp_all
    show "distinct (map (\<lambda>x. idf (new x)) xs)" using Cons.prems(2) by simp
    show "\<forall>x \<in> set xs. map_of (rows (mem w1)) (idf (new x)) \<noteq> None"
      using Cons.prems(3) by (simp add: m1)
  qed
  then obtain w' where w': "each f xs w1 = (Inr (), w')"
    and m': "map_of (rows (mem w')) = map_of (rows (mem w1)) ++ ?t" and R': "R (mem w1) (mem w')"
    by blast
  have "?t (idf (new x)) = None"
    using Cons.prems(2) by (auto simp: map_of_eq_None_iff image_image)
  then have e: "map_of (rows (mem w1)) ++ ?t
      = map_of (rows (mem w)) ++ map_of (map (\<lambda>x. (idf (new x), new x)) (x # xs))"
    unfolding m1 by (intro ext) (simp add: map_add_def split: option.split)
  have "each f (x # xs) w = (Inr (), w')" using w1 w' by (simp add: bnd_def)
  moreover note m' [unfolded e] trans [OF R1 R']
  ultimately show ?case by blast
qed

lemma map_add_rows:
  assumes k: "keyed idf t" and sub: "set xs \<subseteq> set (gvals t)" and d: "distinct (map idf xs)"
    and h: "\<And>x. idf (h x) = idf x"
  shows "map_of t ++ map_of (map (\<lambda>x. (idf (h x), h x)) xs) =
    (\<lambda>i. map_option (\<lambda>b. if b \<in> set xs then h b else b) (map_of t i))"
proof
  fix i
  show "(map_of t ++ map_of (map (\<lambda>x. (idf (h x), h x)) xs)) i =
    map_option (\<lambda>b. if b \<in> set xs then h b else b) (map_of t i)"
  proof (cases "\<exists>x \<in> set xs. idf x = i")
    case True
    then obtain x where x: "x \<in> set xs" "idf x = i" by blast
    have "map_of (map (\<lambda>x. (idf (h x), h x)) xs) i = Some (h x)"
      using x d by (intro map_of_is_SomeI) (auto simp: h comp_def)
    moreover have "map_of t i = Some x" using x sub keyed_mem [OF k, of x] by blast
    ultimately show ?thesis using x by (simp add: map_add_def)
  next
    case False
    then have "map_of (map (\<lambda>x. (idf (h x), h x)) xs) i = None"
      by (auto simp: map_of_eq_None_iff h)
    moreover have "b \<notin> set xs" if "map_of t i = Some b" for b
      using False keyed_get [OF k that] by blast
    ultimately show ?thesis by (auto simp: map_add_def split: option.split) (cases "map_of t i"; auto)
  qed
qed

lemma each_rewrite:
  assumes refl: "\<And>s. R s s" and trans: "\<And>s s' s''. R s s' \<Longrightarrow> R s' s'' \<Longrightarrow> R s s''"
    and k: "keyed idf (rows (mem w))" and sub: "set xs \<subseteq> set (gvals (rows (mem w)))"
    and d: "distinct (map idf xs)" and h: "\<And>x. idf (h x) = idf x"
    and step: "\<And>x w. x \<in> set xs \<Longrightarrow> map_of (rows (mem w)) (idf x) \<noteq> None \<Longrightarrow>
      \<exists>w1. f x w = (Inr (), w1)
        \<and> map_of (rows (mem w1)) = (map_of (rows (mem w)))(idf x \<mapsto> h x) \<and> R (mem w) (mem w1)"
  shows "\<exists>w'. each f xs w = (Inr (), w') \<and> map_of (rows (mem w')) = (\<lambda>i.
      map_option (\<lambda>b. if b \<in> set xs then h b else b) (map_of (rows (mem w)) i)) \<and> R (mem w) (mem w')"
proof -
  have "\<exists>w'. each f xs w = (Inr (), w')
    \<and> map_of (rows (mem w')) = map_of (rows (mem w)) ++ map_of (map (\<lambda>x. (idf (h x), h x)) xs)
    \<and> R (mem w) (mem w')"
  proof (rule each_update [where R = R, OF refl trans])
    show "\<exists>w1. f x w = (Inr (), w1)
        \<and> map_of (rows (mem w1)) = (map_of (rows (mem w)))(idf (h x) \<mapsto> h x) \<and> R (mem w) (mem w1)"
      if "x \<in> set xs" "map_of (rows (mem w)) (idf (h x)) \<noteq> None" for x w
      using step that unfolding h by blast
    show "distinct (map (\<lambda>x. idf (h x)) xs)" using d by (simp add: h)
    show "\<forall>x \<in> set xs. map_of (rows (mem w)) (idf (h x)) \<noteq> None"
      using sub keyed_mem [OF k] by (auto simp: h)
  qed
  then show ?thesis unfolding map_add_rows [OF k sub d h] .
qed

end

text \<open>Skipping in a loop is filtering before it.\<close>

lemma each_skip:
  "each (\<lambda>x. if p x then ret () else f x) xs = each f (filter (\<lambda>x. \<not> p x) xs)"
  by (induction xs) (simp_all add: fun_eq_iff bnd_def ret_def split: prod.split sum.split)

end
