(* ===== verification/Orders_Service.thy ===== *)
theory Orders_Service
  imports World
begin

text \<open>
  The customer's side of a job (\<^verbatim>\<open>services/orders/internal/service/orders.go\<close>): the draft saved step by
  step, publication, cancellation, the card with its counted views and hidden reserve price, and
  the idempotency keys the HTTP handlers of \<^verbatim>\<open>internal/httpapi/server.go\<close> wrap around the two
  creating calls. The amounts in notifications are formatted by \<open>MoneyRU\<close>
  (\<^verbatim>\<open>internal/notify/notify.go\<close>).
\<close>


section \<open>Amounts in messages\<close>

function dec_pos :: "int \<Rightarrow> string" where
  "dec_pos n =
     (if n < 10 then [''0123456789'' ! nat n]
      else dec_pos (n div 10) @ [''0123456789'' ! nat (n mod 10)])"
  by pat_completeness auto
termination
  by (relation "measure nat") auto

declare dec_pos.simps [simp del]

text \<open>\<^verbatim>\<open>fmt.Sprintf("%d", n)\<close>\<close>

definition dec :: "int \<Rightarrow> string" where
  "dec n = (if n < 0 then ''-'' @ dec_pos (- n) else dec_pos n)"

fun group_digits :: "nat \<Rightarrow> string \<Rightarrow> string" where
  "group_digits i [] = []"
| "group_digits i (c # cs) =
     (if i > 0 \<and> length (c # cs) mod 3 = 0 then [CHR '' '', c] else [c]) @ group_digits (i + 1) cs"

text \<open>The sign of the dram is not an ASCII character; it is named.\<close>

definition MoneyRU :: "int \<Rightarrow> string \<Rightarrow> message" where
  "MoneyRU amount currency =
     (let digits = dec amount; out = group_digits 0 digits
      in [Str out, Lit '' '', if currency = ''AMD'' then Lit ''dram'' else Str currency])"

definition kindOf :: "(string \<times> string) list \<Rightarrow> string" where
  "kindOf data =
     (let k = (case map_of data ''kind'' of None \<Rightarrow> '''' | Some k \<Rightarrow> k);
          route = (case map_of data ''route'' of None \<Rightarrow> '''' | Some r \<Rightarrow> r);
          has_prefix = (\<lambda>p. take (length p) route = p);
          contains = (\<lambda>p. \<exists>i \<in> set [0..<length route + 1]. take (length p) (drop i route) = p)
      in if k \<noteq> '''' then k
         else if has_prefix ''/chats'' then ''message''
         else if contains ''/bids'' then ''auction''
         else if contains ''/offers'' then ''offer''
         else if contains ''/review'' then ''review''
         else if has_prefix ''/deals'' then ''deal''
         else if has_prefix ''/jobs'' then ''job''
         else ''system'')"


section \<open>Shared helpers\<close>

definition checkUnit :: "env \<Rightarrow> string \<Rightarrow> string option \<Rightarrow> err option" where
  "checkUnit e ownerID unitID =
     (case unitID of
        None \<Rightarrow> None
      | Some u \<Rightarrow>
          if u = '''' then None
          else case units e u of
                 None \<Rightarrow> None
               | Some un \<Rightarrow> if uOwnerID un \<noteq> ownerID then Some ErrUnitForeign
                            else if \<not> uActive un then Some ErrUnitInactive else None)"

definition own :: "string \<Rightarrow> string \<Rightarrow> Job op" where
  "own clientID i =
     bnd (get (ByID i)) (\<lambda>j.
     bnd (refuse (jClientID j \<noteq> clientID) ErrForbidden) (\<lambda>_.
     ret j))"

definition defaultLimit :: int where "defaultLimit = 20"
definition maxLimit :: int where "maxLimit = 50"

definition clampLimit :: "int \<Rightarrow> int" where
  "clampLimit l = (if l \<le> 0 then defaultLimit else if l > maxLimit then maxLimit else l)"

definition max0 :: "int \<Rightarrow> int" where
  "max0 v = (if v < 0 then 0 else v)"


section \<open>The draft\<close>

record DraftInput =
  iOrderType :: "OrderType option"
  iCategoryID :: "string option"
  iOpenToAny :: "bool option"
  iTitle :: "runes option"
  iDescription :: "runes option"
  iParams :: "(string \<times> json) list option"
  iPhotos :: "string list option"
  iGeo :: "Geo option"
  iAddress :: "runes option"
  iAccess :: "Access option"
  iDateMode :: "DateMode option"
  iDateStart :: "time option"
  iDateEnd :: "time option"
  iBudgetAmount :: "int option"
  iCurrency :: "string option"
  iMode :: "Mode option"
  iAuction :: "Auction option"
  iWorkersCount :: "int option"
  iDraftStep :: "int option"

text \<open>\<^verbatim>\<open>if in.X != nil { ... }\<close>\<close>

definition given :: "'a option \<Rightarrow> ('a \<Rightarrow> Job \<Rightarrow> Job) \<Rightarrow> Job \<Rightarrow> Job" where
  "given x f j = (case x of None \<Rightarrow> j | Some v \<Rightarrow> f v j)"

definition set_date_mode :: "DateMode \<Rightarrow> Job \<Rightarrow> Job" where
  "set_date_mode v j =
     (let j = j\<lparr>jDateMode := v\<rparr>
      in if v = DateASAP then j\<lparr>jDateStart := None, jDateEnd := None\<rparr> else j)"

definition set_mode :: "Mode \<Rightarrow> Job \<Rightarrow> Job" where
  "set_mode v j =
     (let j = j\<lparr>jMode := v\<rparr>
      in if v = ModeFixed then j\<lparr>jAuction := None\<rparr>
         else if jAuction j = None
         then j\<lparr>jAuction := Some \<lparr>aDurationH = 24, aEndsAt = None, aReserveAmount = None,
                  aAutoExtend = True, aDecisionWindowH = 12\<rparr>\<rparr>
         else j)"

definition set_auction :: "Auction \<Rightarrow> Job \<Rightarrow> Job" where
  "set_auction a j =
     (let a = (if aDurationH a = 0 then a\<lparr>aDurationH := 24\<rparr> else a);
          a = (if aDecisionWindowH a = 0 then a\<lparr>aDecisionWindowH := 12\<rparr> else a)
      in j\<lparr>jAuction := Some a, jMode := ModeAuction\<rparr>)"

definition set_draft_step :: "int \<Rightarrow> Job \<Rightarrow> Job" where
  "set_draft_step v j =
     (if v \<ge> 1 \<and> v \<le> 5 then (if v > jDraftStep j then j\<lparr>jDraftStep := v\<rparr> else j) else j)"

definition apply_input :: "Job \<Rightarrow> DraftInput \<Rightarrow> Job" where
  "apply_input j inp =
     (let j = given (iOrderType inp) (\<lambda>v j. j\<lparr>jOrderType := v\<rparr>) j;
          j = given (iCategoryID inp) (\<lambda>v j. j\<lparr>jCategoryID := (if v = '''' then None else Some v)\<rparr>) j;
          j = given (iOpenToAny inp) (\<lambda>v j. j\<lparr>jOpenToAny := v\<rparr>) j;
          j = given (iTitle inp) (\<lambda>v j. j\<lparr>jTitle := TrimSpace v\<rparr>) j;
          j = given (iDescription inp) (\<lambda>v j. j\<lparr>jDescription := TrimSpace v\<rparr>) j;
          j = given (iParams inp) (\<lambda>v j. j\<lparr>jParams := v\<rparr>) j;
          j = given (iPhotos inp) (\<lambda>v j. j\<lparr>jPhotos := v\<rparr>) j;
          j = given (iGeo inp) (\<lambda>v j. j\<lparr>jGeo := Some v\<rparr>) j;
          j = given (iAddress inp) (\<lambda>v j. j\<lparr>jAddress := TrimSpace v\<rparr>) j;
          j = given (iAccess inp) (\<lambda>v j. j\<lparr>jAccess := v\<rparr>) j;
          j = given (iDateMode inp) set_date_mode j;
          j = given (iDateStart inp) (\<lambda>v j. j\<lparr>jDateStart := Some v\<rparr>) j;
          j = given (iDateEnd inp) (\<lambda>v j. j\<lparr>jDateEnd := Some v\<rparr>) j;
          j = given (iBudgetAmount inp) (\<lambda>v j. j\<lparr>jBudgetAmount := Some v\<rparr>) j;
          j = given (iCurrency inp) (\<lambda>v j. if v \<noteq> '''' then j\<lparr>jCurrency := v\<rparr> else j) j;
          j = given (iMode inp) set_mode j;
          j = given (iAuction inp) set_auction j;
          j = given (iWorkersCount inp) (\<lambda>v j. if v \<ge> 0 then j\<lparr>jWorkersCount := v\<rparr> else j) j
      in given (iDraftStep inp) set_draft_step j)"

definition blank_draft :: "string \<Rightarrow> string \<Rightarrow> time \<Rightarrow> Job" where
  "blank_draft i clientID now = \<lparr>jID = i, jClientID = clientID, jOrderType = TypeJob,
     jCategoryID = None, jOpenToAny = False, jTitle = [], jDescription = [], jParams = [],
     jPhotos = [], jGeo = None, jAddress = [], jAccess = AccessUnknown, jDateMode = DateASAP,
     jDateStart = None, jDateEnd = None, jBudgetAmount = None, jCurrency = ''AMD'',
     jMode = ModeFixed, jAuction = None, jWorkersCount = 0, jStatus = StatusDraft, jDraftStep = 1,
     jViewsCount = 0, jOffersCount = 0, jWinnerBidID = None, jDecisionDeadline = None,
     jPublishedAt = None, jCreatedAt = now, jUpdatedAt = now, jDistanceM = None\<rparr>"

definition CreateDraft :: "env \<Rightarrow> string \<Rightarrow> DraftInput \<Rightarrow> Job op" where
  "CreateDraft e clientID inp =
     (let now = clock e 0; j = apply_input (blank_draft (fresh e 0) clientID now) inp
      in bnd (put (Create j)) (\<lambda>_. ret j))"

definition UpdateDraft :: "env \<Rightarrow> string \<Rightarrow> string \<Rightarrow> DraftInput \<Rightarrow> Job op" where
  "UpdateDraft e clientID i inp =
     bnd (own clientID i) (\<lambda>j.
     bnd (refuse (jStatus j \<noteq> StatusDraft) ErrNotDraft) (\<lambda>_.
     let j = (apply_input j inp)\<lparr>jUpdatedAt := clock e 0\<rparr>
     in bnd (put (Update j)) (\<lambda>_. ret j)))"


section \<open>Publication and cancellation\<close>

definition start_auction :: "time \<Rightarrow> Job \<Rightarrow> Job" where
  "start_auction now j =
     (case jAuction j of
        Some a \<Rightarrow>
          if jMode j = ModeAuction
          then j\<lparr>jAuction := Some (a\<lparr>aEndsAt := Some (now + aDurationH a * Hour)\<rparr>)\<rparr>
          else j
      | None \<Rightarrow> j)"

definition Publish :: "env \<Rightarrow> string \<Rightarrow> string \<Rightarrow> Job op" where
  "Publish e clientID i =
     bnd (own clientID i) (\<lambda>j.
     bnd (refuse (jStatus j \<noteq> StatusDraft) ErrNotDraft) (\<lambda>_.
     bnd (check (ValidateForPublish j)) (\<lambda>_.
     let now = clock e 0; nxt = StatusAfterPublish (jMode j)
     in bnd (refuse (\<not> CanTransition (jStatus j) nxt) ErrBadTransition) (\<lambda>_.
     let j = (start_auction now j)\<lparr>jStatus := nxt, jDraftStep := 5, jPublishedAt := Some now,
               jUpdatedAt := now\<rparr>
     in bnd (put (Update j)) (\<lambda>_. ret j)))))"

definition Cancel :: "env \<Rightarrow> string \<Rightarrow> string \<Rightarrow> Job op" where
  "Cancel e clientID i =
     bnd (own clientID i) (\<lambda>j.
     bnd (refuse (\<not> CanTransition (jStatus j) StatusCancelled) ErrBadTransition) (\<lambda>_.
     let j = j\<lparr>jStatus := StatusCancelled, jUpdatedAt := clock e 0\<rparr>
     in bnd (put (Update j)) (\<lambda>_. ret j)))"


section \<open>Reading\<close>

definition MyJobs :: "env \<Rightarrow> string \<Rightarrow> int \<Rightarrow> int \<Rightarrow> Job list op" where
  "MyJobs e clientID limit offset =
     get (ListByClient (iter e 0) clientID (clampLimit limit) (max0 offset))"

definition add_view :: "string \<Rightarrow> string \<Rightarrow> bool op" where
  "add_view jobID viewerID w =
     (case AddView jobID viewerID (mem w) of
        Inl x \<Rightarrow> (Inl x, w) | Inr (first, m) \<Rightarrow> (Inr first, w\<lparr>mem := m\<rparr>))"

definition hide_reserve :: "string \<Rightarrow> Job \<Rightarrow> Job" where
  "hide_reserve viewerID j =
     (case jAuction j of
        Some a \<Rightarrow> if jClientID j \<noteq> viewerID then j\<lparr>jAuction := Some (a\<lparr>aReserveAmount := None\<rparr>)\<rparr> else j
      | None \<Rightarrow> j)"

text \<open>A guest's look and the customer's own are not counted.\<close>

definition counts_view :: "string \<Rightarrow> Job \<Rightarrow> bool" where
  "counts_view v j \<longleftrightarrow> v \<noteq> '''' \<and> jClientID j \<noteq> v \<and> IsOpen (jStatus j)"

definition View :: "string \<Rightarrow> string \<Rightarrow> Job op" where
  "View viewerID i =
     bnd (get (ByID i)) (\<lambda>j.
     bnd (if counts_view viewerID j
          then bnd (add_view i viewerID) (\<lambda>_. get (ByID i))
          else ret j) (\<lambda>j.
     ret (hide_reserve viewerID j)))"


section \<open>Idempotency\<close>

text \<open>The job found, if any, and whether the request was seen.\<close>

definition Idempotent :: "string \<Rightarrow> string \<Rightarrow> string \<Rightarrow> (Job option \<times> bool) op" where
  "Idempotent key userID endpoint w =
     (if key = '''' then ret (None, False) w
      else case FindIdempotent key userID endpoint (mem w) of
             None \<Rightarrow> ret (None, False) w
           | Some i \<Rightarrow>
               if i = '''' then ret (None, True) w
               else case ByID i (mem w) of
                      Inl x \<Rightarrow> if x = ErrNotFound then ret (None, False) w else fail x w
                    | Inr j \<Rightarrow> ret (Some j, True) w)"

definition RememberIdempotent :: "string \<Rightarrow> string \<Rightarrow> string \<Rightarrow> string \<Rightarrow> unit op" where
  "RememberIdempotent key userID endpoint jobID =
     (if key = '''' then ret () else put (SaveIdempotent key userID endpoint jobID))"

text \<open>
  The handlers of \<^verbatim>\<open>POST /v1/jobs/drafts\<close> and of publication, after the request body was decoded: the
  status code and the job in the answer.
\<close>

definition idem_wrap :: "string \<Rightarrow> string \<Rightarrow> string \<Rightarrow> int \<Rightarrow> Job op \<Rightarrow> (int \<times> Job option) op" where
  "idem_wrap key user endpoint code work =
     attempt (Idempotent key user endpoint) (\<lambda>r.
     case r of
       Inr (existing, True) \<Rightarrow> ret (200, existing)
     | _ \<Rightarrow> bnd work (\<lambda>j.
            bnd (ignore (RememberIdempotent key user endpoint (jID j))) (\<lambda>_.
            ret (code, Some j))))"

definition createDraft :: "env \<Rightarrow> string \<Rightarrow> string \<Rightarrow> DraftInput \<Rightarrow> (int \<times> Job option) op" where
  "createDraft e key user inp =
     idem_wrap key user ''POST /v1/jobs/drafts'' 201 (CreateDraft e user inp)"

definition publish :: "env \<Rightarrow> string \<Rightarrow> string \<Rightarrow> string \<Rightarrow> (int \<times> Job option) op" where
  "publish e key user i = idem_wrap key user ''POST /v1/jobs/publish'' 200 (Publish e user i)"


section \<open>Facts\<close>

lemma own_Inr [op_simps]:
  "own c i w = (Inr j, w') \<longleftrightarrow> map_of (jobs (mem w)) i = Some j \<and> jClientID j = c \<and> w' = w"
  by (auto simp: own_def op_simps ByID_def)

lemma wp_own [wp_simps]:
  "wp (own c i) Q w \<longleftrightarrow> (case map_of (jobs (mem w)) i of
      None \<Rightarrow> Q (Inl ErrNotFound) w
    | Some j \<Rightarrow> if jClientID j \<noteq> c then Q (Inl ErrForbidden) w else Q (Inr j) w)"
  by (simp add: own_def wp_simps ByID_def split: option.split)

lemma keeps_own [keeps_intros]: "keeps I (own c i)"
  unfolding own_def by (intro keeps_intros)

lemmas setter_defs = set_date_mode_def set_mode_def set_auction_def set_draft_step_def Let_def

lemma given_frame:
  "(\<And>v j. jID (f v j) = jID j) \<Longrightarrow> jID (given x f j) = jID j"
  "(\<And>v j. jClientID (f v j) = jClientID j) \<Longrightarrow> jClientID (given x f j) = jClientID j"
  "(\<And>v j. jStatus (f v j) = jStatus j) \<Longrightarrow> jStatus (given x f j) = jStatus j"
  "(\<And>v j. jCreatedAt (f v j) = jCreatedAt j) \<Longrightarrow> jCreatedAt (given x f j) = jCreatedAt j"
  "(\<And>v j. jViewsCount (f v j) = jViewsCount j) \<Longrightarrow> jViewsCount (given x f j) = jViewsCount j"
  "(\<And>v j. jOffersCount (f v j) = jOffersCount j) \<Longrightarrow> jOffersCount (given x f j) = jOffersCount j"
  "(\<And>v j. jPublishedAt (f v j) = jPublishedAt j) \<Longrightarrow> jPublishedAt (given x f j) = jPublishedAt j"
  "(\<And>v j. jWinnerBidID (f v j) = jWinnerBidID j) \<Longrightarrow> jWinnerBidID (given x f j) = jWinnerBidID j"
  by (auto simp: given_def split: option.split)

lemma given_step: "(\<And>v j. jDraftStep j \<le> jDraftStep (f v j)) \<Longrightarrow> jDraftStep j \<le> jDraftStep (given x f j)"
  by (simp add: given_def split: option.split)

lemma given_step_eq: "(\<And>v j. jDraftStep (f v j) = jDraftStep j) \<Longrightarrow> jDraftStep (given x f j) = jDraftStep j"
  by (simp add: given_def split: option.split)

text \<open>A draft's identity, owner and status are out of reach of the wizard's input.\<close>

lemma apply_input_frame [simp]:
  "jID (apply_input j inp) = jID j" "jClientID (apply_input j inp) = jClientID j"
  "jStatus (apply_input j inp) = jStatus j" "jCreatedAt (apply_input j inp) = jCreatedAt j"
  "jViewsCount (apply_input j inp) = jViewsCount j" "jOffersCount (apply_input j inp) = jOffersCount j"
  "jPublishedAt (apply_input j inp) = jPublishedAt j"
  "jWinnerBidID (apply_input j inp) = jWinnerBidID j"
  by (simp_all add: apply_input_def given_frame setter_defs)

text \<open>The wizard's progress never goes back.\<close>

lemma apply_input_step: "jDraftStep j \<le> jDraftStep (apply_input j inp)"
  unfolding apply_input_def Let_def
  by (rule order_trans [OF _ given_step]) (simp_all add: given_step_eq setter_defs)

lemma blank_draft_simps [simp]:
  "jID (blank_draft i c t) = i" "jClientID (blank_draft i c t) = c"
  "jStatus (blank_draft i c t) = StatusDraft" "jDraftStep (blank_draft i c t) = 1"
  by (simp_all add: blank_draft_def)

lemma start_auction_frame [simp]:
  "jID (start_auction t j) = jID j" "jClientID (start_auction t j) = jClientID j"
  "jMode (start_auction t j) = jMode j" "jStatus (start_auction t j) = jStatus j"
  by (simp_all add: start_auction_def split: option.split)

lemma clampLimit_range: "1 \<le> clampLimit l \<and> clampLimit l \<le> 50"
  by (simp add: clampLimit_def defaultLimit_def maxLimit_def)

text \<open>Publication never meets a forbidden transition.\<close>

lemma publish_transition: "CanTransition StatusDraft (StatusAfterPublish m)"
  by (simp add: StatusAfterPublish_def CanTransition_def)

text \<open>A second look counts nothing.\<close>

lemma AddView_again:
  "AddView i v m = Inr (b, m1) \<Longrightarrow> AddView i v m1 = Inr (b2, m2) \<Longrightarrow> jobs m2 = jobs m1"
  by (auto simp: AddView_def Let_def update_conv' split: option.splits if_splits)

lemma AddView_same_job:
  "AddView i v m = Inr (b, m1) \<Longrightarrow> map_of (jobs m) i = Some j \<Longrightarrow> map_of (jobs m1) i = Some j1 \<Longrightarrow>
     jClientID j1 = jClientID j \<and> jStatus j1 = jStatus j"
  by (auto simp: AddView_def Let_def update_conv' split: option.splits if_splits)

lemma add_view_Inr [op_simps]:
  "add_view i v w = (Inr b, w') \<longleftrightarrow> (\<exists>m. AddView i v (mem w) = Inr (b, m) \<and> w' = w\<lparr>mem := m\<rparr>)"
  by (auto simp: add_view_def split: sum.splits)

lemma View_counted:
  "map_of (jobs (mem w)) i = Some j \<Longrightarrow> counts_view v j \<Longrightarrow> View v i w = (Inr r, w') \<Longrightarrow>
     \<exists>b m j1. AddView i v (mem w) = Inr (b, m) \<and> w' = w\<lparr>mem := m\<rparr> \<and> map_of (jobs m) i = Some j1
       \<and> r = hide_reserve v j1"
  by (auto simp: View_def op_simps ByID_def)

lemma View_uncounted:
  "map_of (jobs (mem w)) i = Some j \<Longrightarrow> \<not> counts_view v j \<Longrightarrow> View v i w = (Inr r, w') \<Longrightarrow>
     w' = w \<and> r = hide_reserve v j"
  by (auto simp: View_def op_simps ByID_def)

lemma hide_reserve_views [simp]: "jViewsCount (hide_reserve v j) = jViewsCount j"
  by (simp add: hide_reserve_def split: option.split)

lemma hide_reserve_hides:
  "jClientID (hide_reserve v j) \<noteq> v \<Longrightarrow> jAuction (hide_reserve v j) = Some a \<Longrightarrow> aReserveAmount a = None"
  by (auto simp: hide_reserve_def split: option.splits if_splits)

lemma View_hidden: "View v i w = (Inr r, w') \<Longrightarrow> \<exists>j. r = hide_reserve v j"
  by (auto simp: View_def op_simps)

lemma View_again:
  assumes one: "View v i w = (Inr r, w1)" and two: "View v i w1 = (Inr r2, w2)"
  shows "jViewsCount r2 = jViewsCount r \<and> jobs (mem w2) = jobs (mem w1)"
proof -
  from one obtain j where j: "map_of (jobs (mem w)) i = Some j"
    by (auto simp: View_def op_simps ByID_def)
  show ?thesis
  proof (cases "counts_view v j")
    case False
    with View_uncounted [OF j _ one] have "w1 = w" "r = hide_reserve v j" by blast+
    with View_uncounted [OF j False] two show ?thesis by simp
  next
    case True
    obtain b m j1 where m: "AddView i v (mem w) = Inr (b, m)" "w1 = w\<lparr>mem := m\<rparr>"
      and j1: "map_of (jobs m) i = Some j1" and r: "r = hide_reserve v j1"
      using View_counted [OF j True one] by blast
    have same: "jClientID j1 = jClientID j \<and> jStatus j1 = jStatus j"
      using AddView_same_job [OF m(1) j j1] .
    have c1: "counts_view v j1" using True by (simp add: counts_view_def same)
    have j1': "map_of (jobs (mem w1)) i = Some j1" using m j1 by simp
    obtain b2 m2 j2 where m2: "AddView i v (mem w1) = Inr (b2, m2)" "w2 = w1\<lparr>mem := m2\<rparr>"
      and j2: "map_of (jobs m2) i = Some j2" and r2: "r2 = hide_reserve v j2"
      using View_counted [OF j1' c1 two] by blast
    have "jobs m2 = jobs m" using AddView_again [OF m(1), of b2 m2] m(2) m2(1) by simp
    then show ?thesis using j1 j2 r r2 m(2) m2(2) by simp
  qed
qed

text \<open>Grouping only inserts blanks.\<close>

lemma group_digits_blanks: "CHR '' '' \<notin> set s \<Longrightarrow> filter (\<lambda>c. c \<noteq> CHR '' '') (group_digits i s) = s"
  by (induction i s rule: group_digits.induct) auto

end
