(* ===== verification/Samples.thy ===== *)
theory Samples
  imports Orders_Service
begin

text \<open>
  Concrete rows and environments on which the theorems of the components are instantiated: a day's
  clock, a generator of identifiers, an auction, a fixed-price job, bids, offers, deals, reviews, disputes and chats.
\<close>

definition env_at :: "time \<Rightarrow> string \<Rightarrow> env" where
  "env_at t i = \<lparr>clock = (\<lambda>_. t), fresh = (\<lambda>n. if n = 0 then i else i @ ''+''),
     iter = (\<lambda>_ _. 0), units = (\<lambda>_. None)\<rparr>"

definition text_of :: "nat \<Rightarrow> runes" where
  "text_of n = replicate n 97"

definition the_auction :: Auction where
  "the_auction = \<lparr>aDurationH = 24, aEndsAt = Some (24 * Hour), aReserveAmount = Some 40000,
     aAutoExtend = True, aDecisionWindowH = 12\<rparr>"

definition draft_job :: Job where
  "draft_job = (blank_draft ''j1'' ''anna'' 0)\<lparr>jOpenToAny := True, jTitle := text_of 5,
     jDescription := text_of 25, jGeo := Some \<lparr>gLat = 40, gLng = 44\<rparr>, jBudgetAmount := Some 100000,
     jMode := ModeAuction, jAuction := Some (the_auction\<lparr>aEndsAt := None\<rparr>)\<rparr>"

definition auction_job :: Job where
  "auction_job = draft_job\<lparr>jStatus := StatusBidding, jAuction := Some the_auction\<rparr>"

definition fixed_job :: Job where
  "fixed_job = draft_job\<lparr>jMode := ModeFixed, jAuction := None, jStatus := StatusCollectingOffers\<rparr>"

definition a_bid :: "string \<Rightarrow> string \<Rightarrow> int \<Rightarrow> time \<Rightarrow> Bid" where
  "a_bid i owner price t = \<lparr>bID = i, bJobID = ''j1'', bOwnerID = owner, bUnitID = None, bPrice = price,
     bCurrency = ''AMD'', bComment = [], bStatus = BidActive, bScore = None, bCreatedAt = t,
     bUpdatedAt = t, bRank = 0\<rparr>"

definition an_offer :: "string \<Rightarrow> string \<Rightarrow> int \<Rightarrow> Offer" where
  "an_offer i owner price = \<lparr>oID = i, oJobID = ''j1'', oOwnerID = owner, oKind = OfferCounter,
     oPrice = price, oCurrency = ''AMD'', oComment = [], oETA = [], oUnitID = None,
     oStatus = OfferActive, oDeclineReason = [], oClientCounterPrice = None, oClientCounterAt = None,
     oCreatedAt = 0, oUpdatedAt = 0\<rparr>"

definition a_deal :: "DealStatus \<Rightarrow> Deal" where
  "a_deal s = \<lparr>dID = ''d1'', dJobID = ''j1'', dOfferID = None, dClientID = ''anna'',
     dOwnerID = ''boris'', dPrice = 50000, dCurrency = ''AMD'', dStatus = s,
     dTimeline = [\<lparr>tStatus = DealConfirmed, tAt = 0, tByID = ''boris'', tNote = []\<rparr>],
     dAcceptanceDeadline = (if s = DealWorkDone then Some AcceptanceWindow else None),
     dCancelReason = [], dCancelledBy = None, dCreatedAt = 0, dUpdatedAt = 0,
     dClosedAt = (if s = DealCompleted \<or> s = DealCancelled then Some 0 else None), dJobTitle = []\<rparr>"

definition with_job :: "Job \<Rightarrow> world" where
  "with_job j = new_world\<lparr>mem := NewMemory\<lparr>jobs := [(jID j, j)]\<rparr>\<rparr>"

definition with_bids :: "Job \<Rightarrow> Bid list \<Rightarrow> world" where
  "with_bids j bs = (with_job j)\<lparr>mem := (mem (with_job j))\<lparr>bids := map (\<lambda>b. (bID b, b)) bs\<rparr>\<rparr>"

definition with_offers :: "Job \<Rightarrow> Offer list \<Rightarrow> world" where
  "with_offers j os = (with_job j)\<lparr>mem := (mem (with_job j))\<lparr>offers := map (\<lambda>x. (oID x, x)) os\<rparr>\<rparr>"

definition with_deal :: "Job \<Rightarrow> Deal \<Rightarrow> world" where
  "with_deal j d = (with_job j)\<lparr>mem := (mem (with_job j))\<lparr>deals := [(dID d, d)]\<rparr>\<rparr>"

definition a_review :: "string \<Rightarrow> string \<Rightarrow> string \<Rightarrow> int \<Rightarrow> time \<Rightarrow> Review" where
  "a_review i author target stars t = \<lparr>rID = i, rDealID = ''d1'', rJobID = ''j1'', rAuthorID = author,
     rTargetID = target, rAuthorRole = RoleOwner, rStars = stars, rTags = [], rText = [], rIssue = [],
     rReplyText = [], rReplyAt = None, rPublishedAt = None, rCreatedAt = t\<rparr>"

definition with_reviews :: "Job \<Rightarrow> Deal \<Rightarrow> Review list \<Rightarrow> world" where
  "with_reviews j d rs =
     (with_deal j d)\<lparr>mem := (mem (with_deal j d))\<lparr>reviews := map (\<lambda>r. (rID r, r)) rs\<rparr>\<rparr>"

definition a_dispute :: "string \<Rightarrow> time \<Rightarrow> Dispute" where
  "a_dispute i t = \<lparr>pID = i, pDealID = ''d1'', pJobID = ''j1'', pOpenedBy = ''anna'', pClientID = ''anna'',
     pOwnerID = ''boris'', pReason = text_of 25, pPhotos = [], pStatus = DisputeOpen,
     pOutcome = OutcomeOther '''', pResolution = [], pResolvedBy = '''', pResolvedAt = None,
     pCreatedAt = t, pJobTitle = []\<rparr>"

definition with_dispute :: "Job \<Rightarrow> Deal \<Rightarrow> Dispute \<Rightarrow> world" where
  "with_dispute j d p =
     (with_deal j d)\<lparr>mem := (mem (with_deal j d))\<lparr>disputes := [(pID p, p)]\<rparr>\<rparr>"

definition a_chat :: "string \<Rightarrow> ChatKind \<Rightarrow> Chat" where
  "a_chat i kind = \<lparr>hID = i, hJobID = ''j1'', hClientID = ''anna'', hOwnerID = ''boris'', hKind = kind,
     hLastMessageAt = None, hCreatedAt = 0, hUpdatedAt = 0, hLastText = [], hUnread = 0, hJobTitle = []\<rparr>"

definition a_message :: "string \<Rightarrow> string \<Rightarrow> time \<Rightarrow> Message" where
  "a_message i sender t = \<lparr>mID = i, mChatID = ''h1'', mSenderID = Some sender, mKind = MessageText,
     mText = [Txt (text_of 3)], mMediaURL = None, mReadBy = [sender], mCreatedAt = t\<rparr>"

definition with_chat :: "Job \<Rightarrow> Chat \<Rightarrow> Message list \<Rightarrow> world" where
  "with_chat j c ms = (with_job j)\<lparr>mem := (mem (with_job j))\<lparr>chats := [(hID c, c)],
     messages := map (\<lambda>m. (mID m, m)) ms\<rparr>\<rparr>"

lemmas sample_defs = env_at_def text_of_def the_auction_def draft_job_def auction_job_def fixed_job_def
  a_bid_def an_offer_def a_deal_def with_job_def with_bids_def with_offers_def with_deal_def
  new_world_def NewMemory_def blank_draft_def

end
