(* ===== verification/Orders_Properties.thy ===== *)
theory Orders_Properties
  imports Samples
begin

text \<open>
  Theorems about the customer's operations on a job: publication, cancellation, the card and the
  idempotent creation of drafts, each with an instance on concrete data.
\<close>

text \<open>C17: Publication succeeds exactly for the owner of a draft whose fields pass the declarative
  check \<open>publishable\<close> (category or free choice, title, description, photos, point on the map, dates,
  price, currency and, for an auction, its settings).\<close>

theorem Publish_succeeds_iff:
  assumes "keyed jID (jobs (mem w))"
  shows "(\<exists>j' w'. Publish e clientID i w = (Inr j', w')) \<longleftrightarrow>
    (\<exists>j. map_of (jobs (mem w)) i = Some j \<and> jClientID j = clientID \<and> jStatus j = StatusDraft
      \<and> publishable j)" (is "?runs \<longleftrightarrow> ?ready")
proof
  show "?runs \<Longrightarrow> ?ready"
    by (auto simp: Publish_def op_simps Let_def validate_publishable)
next
  assume ?ready
  then obtain j where j: "map_of (jobs (mem w)) i = Some j" "jClientID j = clientID"
    "jStatus j = StatusDraft" "publishable j" by blast
  then have "jID j = i" using assms keyed_get by metis
  with j show ?runs
    by (simp add: Publish_def op_simps Let_def validate_publishable publish_transition Update_def)
qed

theorem Publish_succeeds_iff_witness:
  "(\<exists>j' w'. Publish (env_at 7 ''x'') ''anna'' ''j1'' (with_job draft_job) = (Inr j', w')) \<longleftrightarrow>
    (\<exists>j. map_of (jobs (mem (with_job draft_job))) ''j1'' = Some j \<and> jClientID j = ''anna''
      \<and> jStatus j = StatusDraft \<and> publishable j)"
  by (rule Publish_succeeds_iff) code_simp

text \<open>A published job is stored with the status its mode asks for; an auction ends the chosen
  number of hours, between one hour and seven days, after the server's clock; no other job changes.\<close>

theorem Publish_result:
  assumes "keyed jID (jobs (mem w))" and "Publish e clientID i w = (Inr j', w')"
  shows "map_of (jobs (mem w')) i = Some j' \<and> jPublishedAt j' = Some (clock e 0)
    \<and> jStatus j' = (if jMode j' = ModeAuction then StatusBidding else StatusCollectingOffers)
    \<and> (jMode j' = ModeAuction \<longrightarrow> (\<exists>a. jAuction j' = Some a \<and> 1 \<le> aDurationH a \<and> aDurationH a \<le> 168
          \<and> aEndsAt a = Some (clock e 0 + aDurationH a * Hour)))
    \<and> (\<forall>k. k \<noteq> i \<longrightarrow> map_of (jobs (mem w')) k = map_of (jobs (mem w)) k)"
  using assms
  by (auto simp: Publish_def op_simps Let_def validate_publishable publishable_def
      auction_publishable_def start_auction_def StatusAfterPublish_def Update_def update_conv'
      split: option.splits if_splits dest: keyed_get)

theorem Publish_result_witness:
  "\<exists>j' w'. Publish (env_at 7 ''x'') ''anna'' ''j1'' (with_job draft_job) = (Inr j', w')
     \<and> jStatus j' = StatusBidding \<and> map_of (jobs (mem w')) ''j1'' = Some j'"
proof -
  let ?w = "with_job draft_job"
  have k: "keyed jID (jobs (mem ?w))" by code_simp
  have "fst (Publish (env_at 7 ''x'') ''anna'' ''j1'' ?w) \<noteq> Inl ErrNotFound \<and>
    (case fst (Publish (env_at 7 ''x'') ''anna'' ''j1'' ?w) of Inl _ \<Rightarrow> False | Inr j \<Rightarrow> jMode j = ModeAuction)"
    by code_simp
  then obtain j' w' where r: "Publish (env_at 7 ''x'') ''anna'' ''j1'' ?w = (Inr j', w')"
    and m: "jMode j' = ModeAuction"
    by (cases "Publish (env_at 7 ''x'') ''anna'' ''j1'' ?w") (auto split: sum.splits)
  show ?thesis using Publish_result [OF k r] r m by auto
qed

text \<open>C21: Repeating the request that created a draft with the same idempotency key returns the draft
  of the first answer and changes nothing, whatever the second body says.\<close>

theorem createDraft_idempotent:
  assumes "key \<noteq> ''''" and "fresh e 0 \<noteq> ''''"
    and "createDraft e key user inp w = (Inr (code, Some j), w')"
  shows "createDraft e' key user inp' w' = (Inr (200, Some j), w')"
proof -
  let ?ep = "''POST /v1/jobs/drafts''"
  have found: "Idempotent key user ?ep w' = (Inr (Some j, True), w')"
    using assms
    by (auto simp: createDraft_def idem_wrap_def attempt_def Idempotent_def CreateDraft_def
        RememberIdempotent_def SaveIdempotent_def FindIdempotent_def ignore_def Create_def ByID_def
        Let_def op_simps update_conv' ret_def fail_def put_def bnd_def
        split: option.splits if_splits sum.splits prod.splits)
  then show ?thesis by (simp add: createDraft_def idem_wrap_def attempt_def ret_def)
qed

definition empty_input :: DraftInput where
  "empty_input = \<lparr>iOrderType = None, iCategoryID = None, iOpenToAny = None, iTitle = None,
     iDescription = None, iParams = None, iPhotos = None, iGeo = None, iAddress = None, iAccess = None,
     iDateMode = None, iDateStart = None, iDateEnd = None, iBudgetAmount = None, iCurrency = None,
     iMode = None, iAuction = None, iWorkersCount = None, iDraftStep = None\<rparr>"

theorem createDraft_idempotent_witness:
  "\<exists>j w'. createDraft (env_at 7 ''x'') ''k'' ''anna'' empty_input new_world = (Inr (201, Some j), w')
     \<and> createDraft (env_at 9 ''y'') ''k'' ''anna'' empty_input w' = (Inr (200, Some j), w')"
proof -
  let ?r = "createDraft (env_at 7 ''x'') ''k'' ''anna'' empty_input new_world"
  have "fst ?r = Inr (201, Some (blank_draft ''x'' ''anna'' 7))" by code_simp
  then obtain w' where r: "?r = (Inr (201, Some (blank_draft ''x'' ''anna'' 7)), w')"
    by (cases ?r) auto
  have "fresh (env_at 7 ''x'') 0 \<noteq> ''''" by code_simp
  then show ?thesis
    using createDraft_idempotent [OF _ _ r, of "env_at 9 ''y''" empty_input] r by blast
qed

text \<open>Whoever is not the customer never receives the reserve price with the card, and looking twice
  counts one view.\<close>

theorem View_hides_and_counts_once:
  assumes "View viewer i w = (Inr j, w')" and "View viewer i w' = (Inr j2, w'')"
  shows "(jClientID j \<noteq> viewer \<longrightarrow> (\<forall>a. jAuction j = Some a \<longrightarrow> aReserveAmount a = None))
    \<and> jViewsCount j2 = jViewsCount j \<and> jobs (mem w'') = jobs (mem w')"
proof -
  have "jClientID j \<noteq> viewer \<longrightarrow> (\<forall>a. jAuction j = Some a \<longrightarrow> aReserveAmount a = None)"
    using View_hidden [OF assms(1)] hide_reserve_hides by blast
  then show ?thesis using View_again [OF assms] by blast
qed

theorem View_hides_and_counts_once_witness:
  "case View ''boris'' ''j1'' (with_job auction_job) of (r, w') \<Rightarrow>
     (case r of Inl _ \<Rightarrow> False | Inr j \<Rightarrow> jViewsCount j = 1 \<and> jAuction j = Some (the_auction\<lparr>aReserveAmount := None\<rparr>)
        \<and> (\<forall>j2 w''. View ''boris'' ''j1'' w' = (Inr j2, w'') \<longrightarrow> jViewsCount j2 = 1))"
proof -
  let ?r = "View ''boris'' ''j1'' (with_job auction_job)"
  have c: "case fst ?r of Inl _ \<Rightarrow> False
    | Inr j \<Rightarrow> jViewsCount j = 1 \<and> jAuction j = Some (the_auction\<lparr>aReserveAmount := None\<rparr>)"
    by code_simp
  then obtain j w' where r: "?r = (Inr j, w')" by (cases ?r) (auto split: sum.splits)
  with c show ?thesis using View_hides_and_counts_once [OF r] by auto
qed

text \<open>Cancellation is open to the customer in every status the matrix lets cancel, which includes
  work in progress and a dispute; the deal of the job is left as it was.\<close>

theorem Cancel_after_start:
  assumes "keyed jID (jobs (mem w))" and "map_of (jobs (mem w)) i = Some j" and "jClientID j = clientID"
    and "jStatus j = StatusInProgress \<or> jStatus j = StatusDisputed"
  shows "\<exists>j' w'. Cancel e clientID i w = (Inr j', w') \<and> jStatus j' = StatusCancelled
    \<and> map_of (jobs (mem w')) i = Some j' \<and> deals (mem w') = deals (mem w)"
proof -
  have "jID j = i" using assms keyed_get by metis
  then show ?thesis using assms
    by (auto simp: Cancel_def op_simps CanTransition_def Update_def update_conv' Let_def)
qed

theorem Cancel_after_start_witness:
  "\<exists>j' w'. Cancel (env_at 9 ''x'') ''anna'' ''j1''
      (with_deal (fixed_job\<lparr>jStatus := StatusInProgress\<rparr>) (a_deal DealInProgress)) = (Inr j', w')
    \<and> jStatus j' = StatusCancelled \<and> map_of (deals (mem w')) ''d1'' = Some (a_deal DealInProgress)"
proof -
  let ?w = "with_deal (fixed_job\<lparr>jStatus := StatusInProgress\<rparr>) (a_deal DealInProgress)"
  have k: "keyed jID (jobs (mem ?w))" by code_simp
  have j: "map_of (jobs (mem ?w)) ''j1'' = Some (fixed_job\<lparr>jStatus := StatusInProgress\<rparr>)" by code_simp
  have d: "map_of (deals (mem ?w)) ''d1'' = Some (a_deal DealInProgress)" by code_simp
  have "jClientID (fixed_job\<lparr>jStatus := StatusInProgress\<rparr>) = ''anna''" by code_simp
  then show ?thesis using Cancel_after_start [OF k j] d by fastforce
qed

end
