(* ===== verification/Offers_Service.thy ===== *)
theory Offers_Service
  imports Orders_Service
begin

text \<open>
  Offers on fixed-price jobs (\<^verbatim>\<open>services/orders/internal/service/offers.go\<close>): making, withdrawing,
  declining, countering and accepting an offer.
\<close>


section \<open>Operations\<close>

record OfferInput =
  ofKind :: OfferKind
  ofPrice :: int
  ofComment :: runes
  ofETA :: runes
  ofUnitID :: "string option"

definition job_price :: "Job \<Rightarrow> int" where
  "job_price j = (case jBudgetAmount j of None \<Rightarrow> 0 | Some b \<Rightarrow> b)"

definition drafted_offer :: "string \<Rightarrow> Job \<Rightarrow> string \<Rightarrow> OfferInput \<Rightarrow> time \<Rightarrow> Offer" where
  "drafted_offer ownerID j jobID inp now =
     \<lparr>oID = '''', oJobID = jobID, oOwnerID = ownerID, oKind = ofKind inp,
      oPrice = (case jBudgetAmount j of
                  Some b \<Rightarrow> if ofKind inp = OfferAccept then b else ofPrice inp
                | None \<Rightarrow> ofPrice inp),
      oCurrency = jCurrency j, oComment = TrimSpace (ofComment inp), oETA = TrimSpace (ofETA inp),
      oUnitID = ofUnitID inp, oStatus = OfferActive, oDeclineReason = [],
      oClientCounterPrice = None, oClientCounterAt = None, oCreatedAt = 0, oUpdatedAt = now\<rparr>"

definition renewed_offer :: "Offer \<Rightarrow> Offer \<Rightarrow> time \<Rightarrow> Offer" where
  "renewed_offer existing offer now =
     existing\<lparr>oKind := oKind offer, oPrice := oPrice offer, oComment := oComment offer,
       oETA := oETA offer, oUnitID := oUnitID offer, oStatus := OfferActive,
       oClientCounterPrice := None, oClientCounterAt := None, oUpdatedAt := now\<rparr>"

text \<open>A new row and a push to the customer.\<close>

definition submit_offer :: "env \<Rightarrow> Job \<Rightarrow> Offer \<Rightarrow> time \<Rightarrow> Offer op" where
  "submit_offer e j offer now =
     (let offer = offer\<lparr>oID := fresh e 0, oCreatedAt := now\<rparr>
      in bnd (put (CreateOffer offer)) (\<lambda>_.
         bnd (Send (jClientID j) [Lit ''new offer'']
                (Txt (jTitle j) # Lit '' - '' # MoneyRU (oPrice offer) (oCurrency offer))
                [(''route'', ''/jobs/'' @ jID j @ ''/offers''), (''jobId'', jID j)]) (\<lambda>_.
         ret offer)))"

definition MakeOffer :: "env \<Rightarrow> string \<Rightarrow> string \<Rightarrow> OfferInput \<Rightarrow> Offer op" where
  "MakeOffer e ownerID jobID inp =
     bnd (get (ByID jobID)) (\<lambda>j.
     bnd (refuse (jClientID j = ownerID) ErrOwnJob) (\<lambda>_.
     bnd (check (CanAcceptOffers j)) (\<lambda>_.
     bnd (check (checkUnit e ownerID (ofUnitID inp))) (\<lambda>_.
     let now = clock e 0; offer = drafted_offer ownerID j jobID inp now
     in bnd (check (ValidateOffer offer (job_price j))) (\<lambda>_.
     attempt (get (MyOfferForJob (iter e 0) jobID ownerID)) (\<lambda>r.
     case r of
       Inl _ \<Rightarrow> submit_offer e j offer now
     | Inr existing \<Rightarrow>
         if oStatus existing = OfferAccepted then ret existing
         else if oStatus existing = OfferActive \<or> oStatus existing = OfferCounterOffered
         then let existing = renewed_offer existing offer now
              in bnd (put (UpdateOffer existing)) (\<lambda>_. ret existing)
         else submit_offer e j offer now))))))"

definition WithdrawOffer :: "env \<Rightarrow> string \<Rightarrow> string \<Rightarrow> Offer op" where
  "WithdrawOffer e ownerID offerID =
     bnd (get (OfferByID offerID)) (\<lambda>x.
     bnd (refuse (oOwnerID x \<noteq> ownerID) ErrForbidden) (\<lambda>_.
     bnd (refuse (oStatus x = OfferAccepted) ErrOfferNotActive) (\<lambda>_.
     let x = x\<lparr>oStatus := OfferWithdrawn, oUpdatedAt := clock e 0\<rparr>
     in bnd (put (UpdateOffer x)) (\<lambda>_. ret x))))"

definition offerOfMyJob :: "string \<Rightarrow> string \<Rightarrow> (Offer \<times> Job) op" where
  "offerOfMyJob clientID offerID =
     bnd (get (OfferByID offerID)) (\<lambda>x.
     bnd (get (ByID (oJobID x))) (\<lambda>j.
     bnd (refuse (jClientID j \<noteq> clientID) ErrForbidden) (\<lambda>_.
     ret (x, j))))"

definition offer_data :: "string \<Rightarrow> (string \<times> string) list" where
  "offer_data jobID = [(''route'', ''/jobs/'' @ jobID), (''jobId'', jobID)]"

definition DeclineOffer :: "env \<Rightarrow> string \<Rightarrow> string \<Rightarrow> runes \<Rightarrow> Offer op" where
  "DeclineOffer e clientID offerID reason =
     bnd (offerOfMyJob clientID offerID) (\<lambda>(x, _).
     bnd (refuse (oStatus x = OfferAccepted) ErrOfferNotActive) (\<lambda>_.
     let x = x\<lparr>oStatus := OfferDeclined, oDeclineReason := mtext (TrimSpace reason),
               oUpdatedAt := clock e 0\<rparr>
     in bnd (put (UpdateOffer x)) (\<lambda>_.
        let text = (if oDeclineReason x \<noteq> [] then oDeclineReason x
                    else [Lit ''the client chose another option''])
        in bnd (Send (oOwnerID x) [Lit ''offer declined''] text (offer_data (oJobID x))) (\<lambda>_.
        ret x))))"

definition CounterOffer :: "env \<Rightarrow> string \<Rightarrow> string \<Rightarrow> int \<Rightarrow> Offer op" where
  "CounterOffer e clientID offerID price =
     bnd (offerOfMyJob clientID offerID) (\<lambda>(x, _).
     bnd (refuse (oClientCounterPrice x \<noteq> None) ErrCounterUsed) (\<lambda>_.
     bnd (refuse (oStatus x \<noteq> OfferActive) ErrOfferNotActive) (\<lambda>_.
     bnd (refuse (price \<le> 0) (ValidationError [(''price'', [Lit ''give the price''])])) (\<lambda>_.
     let now = clock e 0;
         x = x\<lparr>oClientCounterPrice := Some price, oClientCounterAt := Some now,
               oStatus := OfferCounterOffered, oUpdatedAt := now\<rparr>
     in bnd (put (UpdateOffer x)) (\<lambda>_.
        bnd (Send (oOwnerID x) [Lit ''the client proposed a price'']
               (MoneyRU price (oCurrency x) @ [Lit '' - accept or propose yours''])
               (offer_data (oJobID x))) (\<lambda>_.
        ret x))))))"

definition decline_others :: "Offer \<Rightarrow> time \<Rightarrow> Offer list \<Rightarrow> unit op" where
  "decline_others x now =
     each (\<lambda>y.
       if oID y = oID x \<or> oStatus y = OfferDeclined \<or> oStatus y = OfferWithdrawn then ret ()
       else put (UpdateOffer (y\<lparr>oStatus := OfferDeclined,
              oDeclineReason := [Lit ''another contractor was chosen''], oUpdatedAt := now\<rparr>)))"

definition tell_others :: "Offer \<Rightarrow> Job \<Rightarrow> Offer list \<Rightarrow> unit op" where
  "tell_others x j =
     each (\<lambda>y.
       if oID y = oID x \<or> oOwnerID y = '''' then ret ()
       else Send (oOwnerID y) [Lit ''job closed'']
              [Txt (jTitle j), Lit '' - another contractor was chosen''] (offer_data (jID j)))"

definition accepted_offer :: "Offer \<Rightarrow> time \<Rightarrow> Offer" where
  "accepted_offer x now =
     (let x = (case oClientCounterPrice x of
                 Some p \<Rightarrow> if oStatus x = OfferCounterOffered then x\<lparr>oPrice := p\<rparr> else x
               | None \<Rightarrow> x)
      in x\<lparr>oStatus := OfferAccepted, oUpdatedAt := now\<rparr>)"

definition AcceptOffer :: "env \<Rightarrow> string \<Rightarrow> string \<Rightarrow> Offer op" where
  "AcceptOffer e clientID offerID =
     bnd (offerOfMyJob clientID offerID) (\<lambda>(x, j).
     bnd (refuse (oStatus x \<noteq> OfferActive \<and> oStatus x \<noteq> OfferCounterOffered) ErrOfferNotActive) (\<lambda>_.
     bnd (refuse (\<not> CanTransition (jStatus j) StatusDealPending) ErrBadTransition) (\<lambda>_.
     let now = clock e 0; x = accepted_offer x now
     in bnd (put (UpdateOffer x)) (\<lambda>_.
     bnd (get (OffersByJob (iter e 0) (jID j))) (\<lambda>others.
     bnd (decline_others x now others) (\<lambda>_.
     let j = j\<lparr>jStatus := StatusDealPending, jUpdatedAt := now\<rparr>
     in bnd (put (Update j)) (\<lambda>_.
     bnd (Send (oOwnerID x) [Lit ''you were chosen'']
            (Txt (jTitle j) # Lit '' - '' # MoneyRU (oPrice x) (oCurrency x)) (offer_data (jID j))) (\<lambda>_.
     bnd (tell_others x j others) (\<lambda>_.
     ret x)))))))))"

definition JobOffers :: "env \<Rightarrow> string \<Rightarrow> string \<Rightarrow> Offer list op" where
  "JobOffers e clientID jobID =
     bnd (get (ByID jobID)) (\<lambda>j.
     bnd (refuse (jClientID j \<noteq> clientID) ErrForbidden) (\<lambda>_.
     get (OffersByJob (iter e 0) jobID)))"

definition MyOffers :: "env \<Rightarrow> string \<Rightarrow> int \<Rightarrow> int \<Rightarrow> Offer list op" where
  "MyOffers e ownerID limit offset =
     get (OffersByOwner (iter e 0) ownerID (clampLimit limit) (max0 offset))"


section \<open>The counter of a job\<close>

text \<open>
  Offers and the jobs' counters change together: \<open>counted m\<close> says that the counter of every stored
  job is the number of its countable offers.
\<close>

definition countable_offers :: "string \<Rightarrow> Memory \<Rightarrow> Offer list" where
  "countable_offers i m = filter (\<lambda>x. oJobID x = i \<and> isCountable (oStatus x)) (gvals (offers m))"

definition counted :: "Memory \<Rightarrow> bool" where
  "counted m \<longleftrightarrow> (\<forall>i j. map_of (jobs m) i = Some j \<longrightarrow> jOffersCount j = int (length (countable_offers i m)))"

lemma recount_map:
  "map_of (jobs (recount i m)) k = map_option (\<lambda>j. if k = i
      then j\<lparr>jOffersCount := int (length (countable_offers i m))\<rparr> else j) (map_of (jobs m) k)"
  by (cases "map_of (jobs m) k")
    (auto simp: recount_def Let_def countable_offers_def update_conv' split: option.split)

lemma length_filter_update:
  assumes "keyed idf m" and "P v \<longleftrightarrow> P (the (map_of m (idf v)))" and "map_of m (idf v) \<noteq> None"
  shows "length (filter P (gvals (AList.update (idf v) v m))) = length (filter P (gvals m))"
  using assms
proof (induction m)
  case (Cons e m)
  show ?case
  proof (cases "fst e = idf v")
    case True
    with Cons.prems show ?thesis by (cases e) auto
  next
    case False
    with Cons show ?thesis by (cases e) (auto simp: keyed_def)
  qed
qed simp


section \<open>Loops that rewrite offers\<close>

text \<open>Nothing but offers and the jobs' counters differs.\<close>

definition offers_frame :: "Memory \<Rightarrow> Memory \<Rightarrow> bool" where
  "offers_frame m m' \<longleftrightarrow> m'\<lparr>offers := [], jobs := []\<rparr> = m\<lparr>offers := [], jobs := []\<rparr>
     \<and> (\<forall>k. map_option (\<lambda>j. j\<lparr>jOffersCount := 0\<rparr>) (map_of (jobs m') k)
          = map_option (\<lambda>j. j\<lparr>jOffersCount := 0\<rparr>) (map_of (jobs m) k))
     \<and> (keyed oID (offers m) \<longrightarrow> keyed oID (offers m'))"

lemma offers_frame_refl: "offers_frame m m"
  by (simp add: offers_frame_def)

lemma offers_frame_trans: "offers_frame m m1 \<Longrightarrow> offers_frame m1 m2 \<Longrightarrow> offers_frame m m2"
  by (simp add: offers_frame_def)

lemma offers_frame_job:
  "offers_frame m m' \<Longrightarrow> map_of (jobs m) k = Some j \<Longrightarrow>
     \<exists>n. map_of (jobs m') k = Some (j\<lparr>jOffersCount := n\<rparr>)"
proof -
  assume f: "offers_frame m m'" and j: "map_of (jobs m) k = Some j"
  then have "map_option (\<lambda>j. j\<lparr>jOffersCount := 0\<rparr>) (map_of (jobs m') k) = Some (j\<lparr>jOffersCount := 0\<rparr>)"
    by (simp add: offers_frame_def)
  then obtain j' where j': "map_of (jobs m') k = Some j'" "j'\<lparr>jOffersCount := 0\<rparr> = j\<lparr>jOffersCount := 0\<rparr>"
    by (cases "map_of (jobs m') k") auto
  have "j' = j\<lparr>jOffersCount := jOffersCount j'\<rparr>"
    using j'(2) by (metis (no_types, lifting) Job.surjective Job.update_convs(24))
  then show ?thesis using j' by metis
qed

lemma UpdateOffer_run:
  "map_of (offers m) (oID x) \<noteq> None \<Longrightarrow> \<exists>m'. UpdateOffer x m = Inr m'
     \<and> map_of (offers m') = (map_of (offers m))(oID x \<mapsto> x) \<and> offers_frame m m'"
proof -
  let ?m = "m\<lparr>offers := AList.update (oID x) x (offers m)\<rparr>"
  assume "map_of (offers m) (oID x) \<noteq> None"
  then have u: "UpdateOffer x m = Inr (recount (oJobID x) ?m)" by (simp add: UpdateOffer_def)
  have "map_option (\<lambda>j. j\<lparr>jOffersCount := 0\<rparr>) (map_of (jobs (recount (oJobID x) ?m)) k)
      = map_option (\<lambda>j. j\<lparr>jOffersCount := 0\<rparr>) (map_of (jobs m) k)" for k
    by (cases "map_of (jobs m) k") (simp_all add: recount_map)
  moreover have "(recount (oJobID x) ?m)\<lparr>offers := [], jobs := []\<rparr> = m\<lparr>offers := [], jobs := []\<rparr>"
    by (simp add: recount_def Let_def split: option.split)
  ultimately show ?thesis using u by (simp add: offers_frame_def update_conv')
qed

lemma OffersByJob_rows:
  assumes "keyed oID (offers m)" and "OffersByJob rank i m = Inr xs"
  shows "set xs \<subseteq> set (gvals (offers m))" "distinct (map oID xs)"
    "x \<in> set xs \<longleftrightarrow> x \<in> set (gvals (offers m)) \<and> oJobID x = i"
proof -
  have xs: "xs = sort_by offer_before (filter (\<lambda>x. oJobID x = i) (grange rank (offers m)))"
    using assms(2) by (simp add: OffersByJob_def)
  show "x \<in> set xs \<longleftrightarrow> x \<in> set (gvals (offers m)) \<and> oJobID x = i"
    and "set xs \<subseteq> set (gvals (offers m))" by (auto simp: xs)
  have "mset (map oID xs) = mset (map oID (filter (\<lambda>x. oJobID x = i) (grange rank (offers m))))"
    by (simp add: xs)
  moreover have "distinct (map oID (filter (\<lambda>x. oJobID x = i) (grange rank (offers m))))"
    using keyed_distinct_grange [OF assms(1)] by (rule distinct_map_filter)
  ultimately show "distinct (map oID xs)" by (metis mset_eq_imp_distinct_iff)
qed

lemma decline_others_run:
  assumes k: "keyed oID (offers (mem w))" and xs: "OffersByJob rank i (mem w) = Inr xs"
  shows "\<exists>w'. decline_others x now xs w = (Inr (), w') \<and> map_of (offers (mem w')) = (\<lambda>n.
    map_option (\<lambda>y. if oJobID y = i \<and> oID y \<noteq> oID x \<and> isCountable (oStatus y)
       then y\<lparr>oStatus := OfferDeclined, oDeclineReason := [Lit ''another contractor was chosen''],
              oUpdatedAt := now\<rparr> else y) (map_of (offers (mem w)) n))
    \<and> offers_frame (mem w) (mem w')"
proof -
  let ?p = "\<lambda>y. oID y = oID x \<or> oStatus y = OfferDeclined \<or> oStatus y = OfferWithdrawn"
  let ?ys = "filter (\<lambda>y. \<not> ?p y) xs"
  let ?h = "\<lambda>y. y\<lparr>oStatus := OfferDeclined, oDeclineReason := [Lit ''another contractor was chosen''],
              oUpdatedAt := now\<rparr>"
  have "\<exists>w'. decline_others x now xs w = (Inr (), w') \<and> map_of (offers (mem w')) = (\<lambda>n.
    map_option (\<lambda>y. if y \<in> set ?ys then ?h y else y) (map_of (offers (mem w)) n))
    \<and> offers_frame (mem w) (mem w')"
    unfolding decline_others_def each_skip
  proof (rule offer_rows.each_rewrite [where R = offers_frame, OF offers_frame_refl offers_frame_trans k])
    show "set ?ys \<subseteq> set (gvals (offers (mem w)))" using OffersByJob_rows [OF k xs] by auto
    show "distinct (map oID ?ys)" using OffersByJob_rows(2) [OF k xs] by (rule distinct_map_filter)
    show "\<exists>w1. put (UpdateOffer (?h y)) w = (Inr (), w1)
        \<and> map_of (offers (mem w1)) = (map_of (offers (mem w)))(oID y \<mapsto> ?h y)
        \<and> offers_frame (mem w) (mem w1)"
      if "map_of (offers (mem w)) (oID y) \<noteq> None" for y w
      using UpdateOffer_run [of "mem w" "?h y"] that by (auto simp: put_def)
  qed simp_all
  moreover have "map_option (\<lambda>y. if y \<in> set ?ys then ?h y else y) (map_of (offers (mem w)) n) =
    map_option (\<lambda>y. if oJobID y = i \<and> oID y \<noteq> oID x \<and> isCountable (oStatus y) then ?h y else y)
      (map_of (offers (mem w)) n)" for n
    using keyed_get_mem [OF k] OffersByJob_rows(3) [OF k xs]
    by (cases "map_of (offers (mem w)) n") (auto simp: isCountable_iff)
  ultimately show ?thesis by simp
qed

lemma tell_others_run: "\<exists>w'. tell_others x j xs w = (Inr (), w') \<and> mem w' = mem w"
  unfolding tell_others_def by (rule each_quiet) (simp add: Send_def ret_def)

end
