(* ===== verification/Offers_Properties.thy ===== *)
theory Offers_Properties
  imports Offers_Service Samples
begin

text \<open>
  Theorems about offers: one countable offer per owner and job, what acceptance does to all offers of a
  job, and how often a customer may counter.
\<close>

lemma CanAcceptOffers_None:
  "CanAcceptOffers j = None \<longleftrightarrow> jMode j \<noteq> ModeAuction \<and> IsOpen (jStatus j)"
  by (simp add: CanAcceptOffers_def)


section \<open>Making an offer\<close>

lemma submit_offer_Inr:
  "submit_offer e j x now w = (Inr r, w') \<longleftrightarrow> r = x\<lparr>oID := fresh e 0, oCreatedAt := now\<rparr>
     \<and> CreateOffer r (mem w) = Inr (mem w') \<and> w' = w\<lparr>mem := mem w',
       sent := sent w @ [\<lparr>nTo = jClientID j, nTitle = [Lit ''new offer''],
         nBody = Txt (jTitle j) # Lit '' - '' # MoneyRU (oPrice r) (oCurrency r),
         nData = [(''route'', ''/jobs/'' @ jID j @ ''/offers''), (''jobId'', jID j)]\<rparr>]\<rparr>"
  by (auto simp: submit_offer_def Let_def op_simps)

text \<open>What a successful call went through: a new row, a renewed row or an accepted one returned.\<close>

lemma MakeOffer_run:
  assumes "MakeOffer e ow i inp w = (Inr x, w')"
  obtains j where "map_of (jobs (mem w)) i = Some j" "jClientID j \<noteq> ow" "jMode j \<noteq> ModeAuction"
    "IsOpen (jStatus j)"
    "ValidateOffer (drafted_offer ow j i inp (clock e 0)) (job_price j) = None"
    "(x = (drafted_offer ow j i inp (clock e 0))\<lparr>oID := fresh e 0, oCreatedAt := clock e 0\<rparr>
        \<and> CreateOffer x (mem w) = Inr (mem w'))
     \<or> (\<exists>old. MyOfferForJob (iter e 0) i ow (mem w) = Inr old \<and>
        (oStatus old = OfferAccepted \<and> x = old \<and> w' = w
         \<or> (oStatus old = OfferActive \<or> oStatus old = OfferCounterOffered)
           \<and> x = renewed_offer old (drafted_offer ow j i inp (clock e 0)) (clock e 0)
           \<and> UpdateOffer x (mem w) = Inr (mem w')))"
proof -
  from assms obtain j where j: "map_of (jobs (mem w)) i = Some j" "jClientID j \<noteq> ow"
    "CanAcceptOffers j = None" "ValidateOffer (drafted_offer ow j i inp (clock e 0)) (job_price j) = None"
    and rest: "attempt (get (MyOfferForJob (iter e 0) i ow)) (\<lambda>r. case r of
       Inl _ \<Rightarrow> submit_offer e j (drafted_offer ow j i inp (clock e 0)) (clock e 0)
     | Inr existing \<Rightarrow>
         if oStatus existing = OfferAccepted then ret existing
         else if oStatus existing = OfferActive \<or> oStatus existing = OfferCounterOffered
         then let existing = renewed_offer existing (drafted_offer ow j i inp (clock e 0)) (clock e 0)
              in bnd (put (UpdateOffer existing)) (\<lambda>_. ret existing)
         else submit_offer e j (drafted_offer ow j i inp (clock e 0)) (clock e 0)) w = (Inr x, w')"
    unfolding MakeOffer_def Let_def op_simps ByID_def by (auto simp: op_simps)
  show thesis
  proof (rule that [OF j(1,2) _ _ j(4)])
    show "jMode j \<noteq> ModeAuction" "IsOpen (jStatus j)" using j(3) by (simp_all add: CanAcceptOffers_None)
    show "(x = (drafted_offer ow j i inp (clock e 0))\<lparr>oID := fresh e 0, oCreatedAt := clock e 0\<rparr>
        \<and> CreateOffer x (mem w) = Inr (mem w'))
     \<or> (\<exists>old. MyOfferForJob (iter e 0) i ow (mem w) = Inr old \<and>
        (oStatus old = OfferAccepted \<and> x = old \<and> w' = w
         \<or> (oStatus old = OfferActive \<or> oStatus old = OfferCounterOffered)
           \<and> x = renewed_offer old (drafted_offer ow j i inp (clock e 0)) (clock e 0)
           \<and> UpdateOffer x (mem w) = Inr (mem w')))"
      using rest
      by (cases "MyOfferForJob (iter e 0) i ow (mem w)")
        (auto simp: attempt_def get_def submit_offer_Inr op_simps Let_def split: if_splits)
  qed
qed

text \<open>Whatever the contractor did before, after a successful offer exactly one offer of theirs on
  the job counts, the one returned; unless it had already been accepted it is active, its price is
  positive and, for a taken price, the job's own.\<close>

theorem MakeOffer_one_offer:
  assumes "keyed oID (offers (mem w))" and "unique_rows offer_clash (offers (mem w))"
    and "MakeOffer e ow i inp w = (Inr x, w')"
  shows "keyed oID (offers (mem w')) \<and> unique_rows offer_clash (offers (mem w'))
    \<and> (\<forall>y \<in> set (gvals (offers (mem w'))).
         oJobID y = i \<and> oOwnerID y = ow \<and> isCountable (oStatus y) \<longleftrightarrow> y = x)
    \<and> (oStatus x = OfferAccepted \<and> w' = w \<or> oStatus x = OfferActive \<and> 0 < oPrice x
        \<and> (\<forall>j. map_of (jobs (mem w)) i = Some j \<longrightarrow> ofKind inp = OfferAccept \<longrightarrow> 0 < job_price j
             \<longrightarrow> oPrice x = job_price j))"
proof -
  from assms(3) obtain j where j: "map_of (jobs (mem w)) i = Some j"
    and v: "ValidateOffer (drafted_offer ow j i inp (clock e 0)) (job_price j) = None"
    and c: "(x = (drafted_offer ow j i inp (clock e 0))\<lparr>oID := fresh e 0, oCreatedAt := clock e 0\<rparr>
        \<and> CreateOffer x (mem w) = Inr (mem w'))
     \<or> (\<exists>old. MyOfferForJob (iter e 0) i ow (mem w) = Inr old \<and>
        (oStatus old = OfferAccepted \<and> x = old \<and> w' = w
         \<or> (oStatus old = OfferActive \<or> oStatus old = OfferCounterOffered)
           \<and> x = renewed_offer old (drafted_offer ow j i inp (clock e 0)) (clock e 0)
           \<and> UpdateOffer x (mem w) = Inr (mem w')))"
    by (rule MakeOffer_run)
  let ?d = "drafted_offer ow j i inp (clock e 0)"
  have price: "0 < oPrice ?d" "ofKind inp = OfferAccept \<Longrightarrow> 0 < job_price j \<Longrightarrow> oPrice ?d = job_price j"
    using v by (auto simp: ValidateOffer_None drafted_offer_def)
  from c consider
      (new) "x = ?d\<lparr>oID := fresh e 0, oCreatedAt := clock e 0\<rparr>" "CreateOffer x (mem w) = Inr (mem w')"
    | (taken) "MyOfferForJob (iter e 0) i ow (mem w) = Inr x" "oStatus x = OfferAccepted" "w' = w"
    | (renew) old where "MyOfferForJob (iter e 0) i ow (mem w) = Inr old" "isCountable (oStatus old)"
        "x = renewed_offer old ?d (clock e 0)" "UpdateOffer x (mem w) = Inr (mem w')"
    by (auto simp: isCountable_def)
  then have "keyed oID (offers (mem w')) \<and> unique_rows offer_clash (offers (mem w'))
    \<and> x \<in> set (gvals (offers (mem w'))) \<and> oJobID x = i \<and> oOwnerID x = ow \<and> isCountable (oStatus x)
    \<and> (oStatus x = OfferAccepted \<and> w' = w \<or> oStatus x = OfferActive \<and> oPrice x = oPrice ?d)"
  proof cases
    case new
    have k: "keyed oID (offers (mem w'))" using offer_rows.keyed_create [OF assms(1) new(2)] .
    have "x \<in> set (gvals (offers (mem w')))"
      using offer_rows.fetch_create [OF new(2)] keyed_mem [OF k] by (simp add: OfferByID_def)
    moreover have "oJobID x = i \<and> oOwnerID x = ow \<and> isCountable (oStatus x) \<and> oStatus x = OfferActive
        \<and> oPrice x = oPrice ?d"
      by (simp add: new(1) drafted_offer_def isCountable_def)
    ultimately show ?thesis
      using k offer_rows.unique_create [OF assms(1,2) new(2)] by blast
  next
    case taken
    then show ?thesis using assms(1,2) MyOfferForJob_Inr [OF taken(1)] by (simp add: isCountable_def)
  next
    case (renew old)
    note old = MyOfferForJob_Inr [OF renew(1)]
    have same: "oID x = oID old" "oJobID x = i" "oOwnerID x = ow" "oStatus x = OfferActive"
      "oPrice x = oPrice ?d" using old by (simp_all add: renew(3) renewed_offer_def)
    have row: "map_of (offers (mem w)) (oID x) = Some old" using old keyed_mem [OF assms(1)] same by simp
    have k: "keyed oID (offers (mem w'))" using offer_rows.keyed_replace [OF assms(1) renew(4)] .
    have "x \<in> set (gvals (offers (mem w')))"
      using offer_rows.fetch_replace [OF renew(4)] keyed_mem [OF k] by (simp add: OfferByID_def)
    moreover have "unique_rows offer_clash (offers (mem w'))"
      using old same renew(2)
      by (intro offer_rows.unique_replace [OF assms(1,2) renew(4) row]) (simp add: offer_clash_def)
    ultimately show ?thesis using k same by (simp add: isCountable_def)
  qed
  then have k: "keyed oID (offers (mem w'))" and u: "unique_rows offer_clash (offers (mem w'))"
    and x: "x \<in> set (gvals (offers (mem w')))" "oJobID x = i" "oOwnerID x = ow" "isCountable (oStatus x)"
    and r: "oStatus x = OfferAccepted \<and> w' = w \<or> oStatus x = OfferActive \<and> oPrice x = oPrice ?d"
    by blast+
  have "y = x" if "y \<in> set (gvals (offers (mem w')))" "oJobID y = i" "oOwnerID y = ow"
      "isCountable (oStatus y)" for y
    using u x that unfolding unique_rows_def offer_clash_def by metis
  then have only: "\<forall>y \<in> set (gvals (offers (mem w'))).
      oJobID y = i \<and> oOwnerID y = ow \<and> isCountable (oStatus y) \<longleftrightarrow> y = x" using x by blast
  have "oStatus x = OfferAccepted \<and> w' = w \<or> oStatus x = OfferActive \<and> 0 < oPrice x
        \<and> (\<forall>j. map_of (jobs (mem w)) i = Some j \<longrightarrow> ofKind inp = OfferAccept \<longrightarrow> 0 < job_price j
             \<longrightarrow> oPrice x = job_price j)"
    using r price j by (metis option.inject)
  then show ?thesis using k u only by blast
qed

definition an_input :: OfferInput where
  "an_input = \<lparr>ofKind = OfferCounter, ofPrice = 90000, ofComment = [], ofETA = [], ofUnitID = None\<rparr>"

theorem MakeOffer_one_offer_witness:
  "\<exists>x w'. MakeOffer (env_at 9 ''n'') ''boris'' ''j1'' an_input
      (with_offers fixed_job [an_offer ''o1'' ''boris'' 95000]) = (Inr x, w') \<and> oStatus x = OfferActive
    \<and> (\<forall>y \<in> set (gvals (offers (mem w'))).
         oJobID y = ''j1'' \<and> oOwnerID y = ''boris'' \<and> isCountable (oStatus y) \<longleftrightarrow> y = x)"
proof -
  let ?w = "with_offers fixed_job [an_offer ''o1'' ''boris'' 95000]"
  let ?r = "MakeOffer (env_at 9 ''n'') ''boris'' ''j1'' an_input ?w"
  have "case fst ?r of Inl _ \<Rightarrow> False | Inr x \<Rightarrow> oStatus x = OfferActive" by code_simp
  then obtain x w' where r: "?r = (Inr x, w')" "oStatus x = OfferActive"
    by (cases ?r) (auto split: sum.splits)
  have "keyed oID (offers (mem ?w))" "unique_rows offer_clash (offers (mem ?w))" by code_simp+
  then show ?thesis using MakeOffer_one_offer [OF _ _ r(1)] r by blast
qed


section \<open>Accepting and countering\<close>

lemma offerOfMyJob_Inr [op_simps]:
  "offerOfMyJob c k w = (Inr p, w') \<longleftrightarrow> (\<exists>x j. p = (x, j) \<and> map_of (offers (mem w)) k = Some x
     \<and> map_of (jobs (mem w)) (oJobID x) = Some j \<and> jClientID j = c \<and> w' = w)"
  by (auto simp: offerOfMyJob_def op_simps OfferByID_def ByID_def)

lemma accepted_offer_simps [simp]:
  "oID (accepted_offer x t) = oID x" "oJobID (accepted_offer x t) = oJobID x"
  "oStatus (accepted_offer x t) = OfferAccepted" "oOwnerID (accepted_offer x t) = oOwnerID x"
  by (simp_all add: accepted_offer_def Let_def split: option.split)

text \<open>C19: Accepting an offer leaves exactly one countable offer on the job: the accepted one, at the
  customer's counter price when there was one and at its own price otherwise; all other countable
  offers are declined. The job waits for confirmation, but the job row written back carries the
  offer counter read before the change.\<close>

theorem AcceptOffer_result:
  assumes "keyed jID (jobs (mem w))" and "keyed oID (offers (mem w))"
    and "map_of (offers (mem w)) k = Some x" and "map_of (jobs (mem w)) (oJobID x) = Some j"
    and "jClientID j = c" and "oStatus x = OfferActive \<or> oStatus x = OfferCounterOffered"
    and "jStatus j = StatusCollectingOffers"
  shows "\<exists>x' w'. AcceptOffer e c k w = (Inr x', w') \<and> oStatus x' = OfferAccepted \<and> oID x' = k
    \<and> oPrice x' = (if oStatus x = OfferCounterOffered
         then (case oClientCounterPrice x of None \<Rightarrow> oPrice x | Some p \<Rightarrow> p) else oPrice x)
    \<and> map_of (offers (mem w')) = (\<lambda>n. map_option (\<lambda>y. if oID y = k then x'
        else if oJobID y = oJobID x \<and> isCountable (oStatus y)
        then y\<lparr>oStatus := OfferDeclined, oDeclineReason := [Lit ''another contractor was chosen''],
               oUpdatedAt := clock e 0\<rparr> else y) (map_of (offers (mem w)) n))
    \<and> map_of (jobs (mem w')) (oJobID x) = Some (j\<lparr>jStatus := StatusDealPending, jUpdatedAt := clock e 0\<rparr>)"
proof -
  let ?t = "clock e 0"
  let ?x = "accepted_offer x ?t"
  have xk: "oID x = k" and ji: "jID j = oJobID x" using assms keyed_get by metis+
  obtain m1 where u: "UpdateOffer ?x (mem w) = Inr m1"
    and m1: "map_of (offers m1) = (map_of (offers (mem w)))(k \<mapsto> ?x)" and f1: "offers_frame (mem w) m1"
    using UpdateOffer_run [of "mem w" ?x] assms(3) xk by auto
  have k1: "keyed oID (offers m1)" using f1 assms(2) by (simp add: offers_frame_def)
  obtain xs where xs: "OffersByJob (iter e 0) (oJobID x) m1 = Inr xs" by (simp add: OffersByJob_def)
  obtain w2 where w2: "decline_others ?x ?t xs (w\<lparr>mem := m1\<rparr>) = (Inr (), w2)"
    and m2: "map_of (offers (mem w2)) = (\<lambda>n.
    map_option (\<lambda>y. if oJobID y = oJobID x \<and> oID y \<noteq> oID ?x \<and> isCountable (oStatus y)
       then y\<lparr>oStatus := OfferDeclined, oDeclineReason := [Lit ''another contractor was chosen''],
              oUpdatedAt := ?t\<rparr> else y) (map_of (offers m1) n))"
    and f2: "offers_frame m1 (mem w2)"
    using decline_others_run [of "w\<lparr>mem := m1\<rparr>" "iter e 0" "oJobID x" xs ?x ?t] k1 xs by auto
  obtain n where "map_of (jobs (mem w2)) (oJobID x) = Some (j\<lparr>jOffersCount := n\<rparr>)"
    using offers_frame_job [OF offers_frame_trans [OF f1 f2] assms(4)] by blast
  define j' where "j' = j\<lparr>jStatus := StatusDealPending, jUpdatedAt := ?t\<rparr>"
  define m3 where "m3 = (mem w2)\<lparr>jobs := AList.update (oJobID x) j' (jobs (mem w2))\<rparr>"
  have u3: "Update j' (mem w2) = Inr m3"
    using \<open>map_of (jobs (mem w2)) (oJobID x) = _\<close> by (simp add: Update_def m3_def j'_def ji)
  let ?w3 = "snd (Send (oOwnerID ?x) [Lit ''you were chosen'']
            (Txt (jTitle j') # Lit '' - '' # MoneyRU (oPrice ?x) (oCurrency ?x)) (offer_data (jID j'))
            (w2\<lparr>mem := m3\<rparr>))"
  obtain w' where w': "tell_others ?x j' xs ?w3 = (Inr (), w')" "mem w' = mem ?w3"
    using tell_others_run by blast
  have ct: "CanTransition (jStatus j) StatusDealPending" by (simp add: assms(7) CanTransition_def)
  have run: "AcceptOffer e c k w = (Inr ?x, w')"
    unfolding AcceptOffer_def offerOfMyJob_def Let_def
    using assms(3-5) u xs w2 u3 w'(1) ct ji unfolding j'_def
    by (simp add: bnd_def get_def put_def refuse_def ret_def Send_def OfferByID_def ByID_def)
      (use assms(6) in blast)
  have mem': "mem w' = m3" using w'(2) by (simp add: Send_def)
  have "map_of (offers (mem w')) n = map_option (\<lambda>y. if oID y = k then ?x
        else if oJobID y = oJobID x \<and> isCountable (oStatus y)
        then y\<lparr>oStatus := OfferDeclined, oDeclineReason := [Lit ''another contractor was chosen''],
               oUpdatedAt := ?t\<rparr> else y) (map_of (offers (mem w)) n)" for n
  proof (cases "n = k")
    case True
    then show ?thesis using assms(3) by (simp add: mem' m3_def m2 m1 xk)
  next
    case False
    then show ?thesis
      using keyed_get [OF assms(2), of n]
      by (cases "map_of (offers (mem w)) n") (auto simp: mem' m3_def m2 m1 xk)
  qed
  moreover have "map_of (jobs (mem w')) (oJobID x) = Some j'" by (simp add: mem' m3_def update_conv')
  moreover have "oPrice ?x = (if oStatus x = OfferCounterOffered
         then (case oClientCounterPrice x of None \<Rightarrow> oPrice x | Some p \<Rightarrow> p) else oPrice x)"
    by (simp add: accepted_offer_def Let_def split: option.split)
  ultimately show ?thesis
    using run xk unfolding j'_def by (intro exI [of _ ?x] exI [of _ w']) auto
qed

theorem AcceptOffer_result_witness:
  "\<exists>x' w'. AcceptOffer (env_at 9 ''n'') ''anna'' ''o1'' (with_offers (fixed_job\<lparr>jOffersCount := 2\<rparr>)
       [(an_offer ''o1'' ''boris'' 95000)\<lparr>oStatus := OfferCounterOffered, oClientCounterPrice := Some 50000\<rparr>,
        an_offer ''o2'' ''carl'' 98000]) = (Inr x', w') \<and> oPrice x' = 50000
     \<and> (\<exists>y. map_of (offers (mem w')) ''o2'' = Some y \<and> oStatus y = OfferDeclined)
     \<and> (\<exists>j. map_of (jobs (mem w')) ''j1'' = Some j \<and> jOffersCount j = 2)"
proof -
  let ?x = "(an_offer ''o1'' ''boris'' 95000)\<lparr>oStatus := OfferCounterOffered, oClientCounterPrice := Some 50000\<rparr>"
  let ?y = "an_offer ''o2'' ''carl'' 98000" and ?j = "fixed_job\<lparr>jOffersCount := 2\<rparr>"
  let ?w = "with_offers ?j [?x, ?y]"
  have k: "keyed jID (jobs (mem ?w))" "keyed oID (offers (mem ?w))" "map_of (offers (mem ?w)) ''o1'' = Some ?x"
    "map_of (jobs (mem ?w)) (oJobID ?x) = Some ?j" "jClientID ?j = ''anna''"
    "oStatus ?x = OfferActive \<or> oStatus ?x = OfferCounterOffered"
    "jStatus ?j = StatusCollectingOffers" by code_simp+
  have y: "map_of (offers (mem ?w)) ''o2'' = Some ?y" "oID ?y \<noteq> ''o1''" "oJobID ?y = oJobID ?x"
    "isCountable (oStatus ?y)" "oJobID ?x = ''j1''" by code_simp+
  from AcceptOffer_result [OF k, of "env_at 9 ''n''"] obtain x' w' where
    r: "AcceptOffer (env_at 9 ''n'') ''anna'' ''o1'' ?w = (Inr x', w')" "oPrice x' = 50000"
    and os: "map_of (offers (mem w')) = (\<lambda>n. map_option (\<lambda>y. if oID y = ''o1'' then x'
        else if oJobID y = oJobID ?x \<and> isCountable (oStatus y)
        then y\<lparr>oStatus := OfferDeclined, oDeclineReason := [Lit ''another contractor was chosen''],
               oUpdatedAt := clock (env_at 9 ''n'') 0\<rparr> else y) (map_of (offers (mem ?w)) n))"
    and jb: "map_of (jobs (mem w')) (oJobID ?x) =
      Some (?j\<lparr>jStatus := StatusDealPending, jUpdatedAt := clock (env_at 9 ''n'') 0\<rparr>)" by auto
  have "\<exists>z. map_of (offers (mem w')) ''o2'' = Some z \<and> oStatus z = OfferDeclined"
    unfolding os using y by simp
  moreover have "\<exists>j. map_of (jobs (mem w')) ''j1'' = Some j \<and> jOffersCount j = 2" using jb y(5) by simp
  ultimately show ?thesis using r by blast
qed

text \<open>The customer counters an offer once: the counter is stored, and a second one is refused with
  no change.\<close>

theorem CounterOffer_once:
  assumes "keyed oID (offers (mem w))" and "CounterOffer e c k p w = (Inr x, w1)"
  shows "0 < p \<and> oClientCounterPrice x = Some p \<and> oStatus x = OfferCounterOffered
    \<and> map_of (offers (mem w1)) k = Some x \<and> CounterOffer e' c k p' w1 = (Inl ErrCounterUsed, w1)"
proof -
  from assms(2) obtain x0 j where x0: "map_of (offers (mem w)) k = Some x0" and p: "0 < p"
    and j: "map_of (jobs (mem w)) (oJobID x0) = Some j" "jClientID j = c"
    and x: "x = x0\<lparr>oClientCounterPrice := Some p, oClientCounterAt := Some (clock e 0),
               oStatus := OfferCounterOffered, oUpdatedAt := clock e 0\<rparr>"
    and u: "UpdateOffer x (mem w) = Inr (mem w1)"
    by (auto simp: CounterOffer_def Let_def op_simps)
  have xk: "oID x = k" using keyed_get [OF assms(1) x0] by (simp add: x)
  obtain m1 where "UpdateOffer x (mem w) = Inr m1"
    and m1: "map_of (offers m1) = (map_of (offers (mem w)))(k \<mapsto> x)" "offers_frame (mem w) m1"
    using UpdateOffer_run [of "mem w" x] x0 xk by auto
  with u have "m1 = mem w1" by simp
  then have row: "map_of (offers (mem w1)) k = Some x" and f: "offers_frame (mem w) (mem w1)"
    using m1 by simp_all
  obtain n where "map_of (jobs (mem w1)) (oJobID x) = Some (j\<lparr>jOffersCount := n\<rparr>)"
    using offers_frame_job [OF f j(1)] by (auto simp: x)
  then have "CounterOffer e' c k p' w1 = (Inl ErrCounterUsed, w1)"
    using row j(2)
    by (simp add: CounterOffer_def offerOfMyJob_def bnd_def get_def refuse_def ret_def fail_def
        OfferByID_def ByID_def x)
  then show ?thesis using row p by (simp add: x)
qed

theorem CounterOffer_once_witness:
  "\<exists>x w1. CounterOffer (env_at 9 ''n'') ''anna'' ''o1'' 50000
      (with_offers fixed_job [an_offer ''o1'' ''boris'' 95000]) = (Inr x, w1)
    \<and> CounterOffer (env_at 9 ''n'') ''anna'' ''o1'' 40000 w1 = (Inl ErrCounterUsed, w1)"
proof -
  let ?w = "with_offers fixed_job [an_offer ''o1'' ''boris'' 95000]"
  let ?r = "CounterOffer (env_at 9 ''n'') ''anna'' ''o1'' 50000 ?w"
  have "case fst ?r of Inl _ \<Rightarrow> False | Inr x \<Rightarrow> True" by code_simp
  then obtain x w1 where r: "?r = (Inr x, w1)" by (cases ?r) (auto split: sum.splits)
  have "keyed oID (offers (mem ?w))" by code_simp
  then show ?thesis using CounterOffer_once [OF _ r] r by blast
qed

text \<open>The single round of haggling restarts with every renewed offer: the customer counters, the
  contractor renews, and the customer counters again.\<close>

theorem CounterOffer_restarts:
  "\<exists>x w1 y w2 z w3. CounterOffer (env_at 1 ''n'') ''anna'' ''o1'' 50000
        (with_offers fixed_job [an_offer ''o1'' ''boris'' 95000]) = (Inr x, w1)
      \<and> MakeOffer (env_at 2 ''n'') ''boris'' ''j1'' an_input w1 = (Inr y, w2)
      \<and> CounterOffer (env_at 3 ''n'') ''anna'' ''o1'' 60000 w2 = (Inr z, w3)"
proof -
  let ?w = "with_offers fixed_job [an_offer ''o1'' ''boris'' 95000]"
  have "case CounterOffer (env_at 1 ''n'') ''anna'' ''o1'' 50000 ?w of (Inl _, _) \<Rightarrow> False
    | (Inr _, w1) \<Rightarrow> (case MakeOffer (env_at 2 ''n'') ''boris'' ''j1'' an_input w1 of (Inl _, _) \<Rightarrow> False
      | (Inr _, w2) \<Rightarrow> (case CounterOffer (env_at 3 ''n'') ''anna'' ''o1'' 60000 w2 of (Inl _, _) \<Rightarrow> False
        | (Inr _, _) \<Rightarrow> True))" by code_simp
  then show ?thesis by (auto split: prod.splits sum.splits)
qed

end
