(* ===== verification/Chats_Service.thy ===== *)
theory Chats_Service
  imports Orders_Service
begin

text \<open>
  Chats between the customer and one contractor
  (\<^verbatim>\<open>services/orders/internal/service/chats.go\<close>): one chat per job and contractor, the switch to the
  mode of the deal, messages with contacts masked before the deal, and the history that marks what
  it shows as read.
\<close>


section \<open>Opening\<close>

definition withKind :: "(string \<Rightarrow> nat) \<Rightarrow> time \<Rightarrow> Chat \<Rightarrow> Job \<Rightarrow> Chat op" where
  "withKind rank now c j =
     (if hKind c = ChatDeal then ret c
      else attempt (get (DealByJob rank (jID j))) (\<lambda>r.
        case r of
          Inl _ \<Rightarrow> ret c
        | Inr d \<Rightarrow>
            if dOwnerID d \<noteq> hOwnerID c then ret c
            else let c = c\<lparr>hKind := ChatDeal, hUpdatedAt := now\<rparr>
                 in bnd (put (UpdateChat c)) (\<lambda>_. ret c)))"

definition new_chat :: "string \<Rightarrow> string \<Rightarrow> string \<Rightarrow> string \<Rightarrow> time \<Rightarrow> Chat" where
  "new_chat i jobID clientID ownerID now =
     \<lparr>hID = i, hJobID = jobID, hClientID = clientID, hOwnerID = ownerID, hKind = ChatPreDeal,
      hLastMessageAt = None, hCreatedAt = now, hUpdatedAt = now, hLastText = [], hUnread = 0,
      hJobTitle = []\<rparr>"

definition OpenChat :: "env \<Rightarrow> string \<Rightarrow> string \<Rightarrow> string \<Rightarrow> Chat op" where
  "OpenChat e userID jobID otherID =
     bnd (get (ByID jobID)) (\<lambda>j.
     bnd (check (CanChat j)) (\<lambda>_.
     let clientID = jClientID j; ownerID = (if userID \<noteq> jClientID j then userID else otherID)
     in bnd (refuse (ownerID = '''' \<or> ownerID = clientID) ErrChatForbidden) (\<lambda>_.
     bnd (refuse (userID \<noteq> clientID \<and> userID \<noteq> ownerID) ErrChatForbidden) (\<lambda>_.
     attempt (get (ChatByJobOwner (iter e 0) jobID ownerID)) (\<lambda>r.
     case r of
       Inr existing \<Rightarrow> withKind (iter e 2) (clock e 0) existing j
     | Inl _ \<Rightarrow>
         let now = clock e 0; chat = new_chat (fresh e 0) jobID clientID ownerID now
         in attempt (put (CreateChat chat)) (\<lambda>r.
            case r of
              Inl err \<Rightarrow>
                attempt (get (ChatByJobOwner (iter e 1) jobID ownerID)) (\<lambda>r.
                case r of
                  Inr existing \<Rightarrow> withKind (iter e 2) (clock e 1) existing j
                | Inl _ \<Rightarrow> fail err)
            | Inr _ \<Rightarrow> withKind (iter e 2) (clock e 1) chat j))))))"

definition chatOfMine :: "string \<Rightarrow> string \<Rightarrow> Chat op" where
  "chatOfMine userID chatID =
     bnd (get (ChatByID chatID)) (\<lambda>c.
     bnd (refuse (hClientID c \<noteq> userID \<and> hOwnerID c \<noteq> userID) ErrChatForbidden) (\<lambda>_.
     ret c))"


section \<open>Messages\<close>

definition preview :: "runes \<Rightarrow> message" where
  "preview text =
     (if length text \<le> 80 then mtext text else [Txt (take 80 text), Lit ''...''])"

definition ChatChannel :: "string \<Rightarrow> string" where
  "ChatChannel chatID = ''chat:'' @ chatID"

definition new_message :: "string \<Rightarrow> string \<Rightarrow> string \<Rightarrow> runes \<Rightarrow> time \<Rightarrow> Message" where
  "new_message i chatID userID body now =
     \<lparr>mID = i, mChatID = chatID, mSenderID = Some userID, mKind = MessageText, mText = mtext body,
      mMediaURL = None, mReadBy = [userID], mCreatedAt = now\<rparr>"

definition SendMessage :: "env \<Rightarrow> string \<Rightarrow> string \<Rightarrow> runes \<Rightarrow> (Message \<times> bool) op" where
  "SendMessage e userID chatID text =
     bnd (chatOfMine userID chatID) (\<lambda>c.
     bnd (check (ValidateMessage text)) (\<lambda>_.
     let body = TrimSpace text;
         (body, masked) = (if hKind c = ChatPreDeal then MaskContacts body else (body, False));
         now = clock e 0;
         msg = new_message (fresh e 0) chatID userID body now
     in bnd (put (CreateMessage msg)) (\<lambda>_.
     let c = c\<lparr>hLastMessageAt := Some now, hUpdatedAt := now\<rparr>
     in bnd (put (UpdateChat c)) (\<lambda>_.
     let target = (if userID = hOwnerID c then hClientID c else hOwnerID c)
     in bnd (PublishLive (ChatChannel (hID c))
          [(''type'', EvStr ''message''), (''chatId'', EvStr (hID c)), (''messageId'', EvStr (mID msg)),
           (''senderId'', EvStr userID), (''text'', EvMsg (mtext body))]) (\<lambda>_.
     bnd (Send target [Lit ''new message''] (preview body)
          [(''route'', ''/chats/'' @ hID c), (''chatId'', hID c)]) (\<lambda>_.
     ret (msg, masked)))))))"

definition SystemMessage :: "env \<Rightarrow> string \<Rightarrow> message \<Rightarrow> unit op" where
  "SystemMessage e chatID text =
     put (CreateMessage \<lparr>mID = fresh e 0, mChatID = chatID, mSenderID = None, mKind = MessageSystem,
       mText = text, mMediaURL = None, mReadBy = [], mCreatedAt = clock e 0\<rparr>)"


section \<open>Reading\<close>

text \<open>The history: the page the store returns, newest first, turned round by swapping its ends.\<close>

function swap_ends :: "nat \<Rightarrow> nat \<Rightarrow> 'a list \<Rightarrow> 'a list" where
  "swap_ends i k xs =
     (if i < k \<and> k < length xs then swap_ends (i + 1) (k - 1) (xs[i := xs ! k, k := xs ! i]) else xs)"
  by pat_completeness auto
termination
  by (relation "measure (\<lambda>(i, k, xs). k - i)") auto

declare swap_ends.simps [simp del]

definition ChatMessages :: "env \<Rightarrow> string \<Rightarrow> string \<Rightarrow> int \<Rightarrow> int \<Rightarrow> Message list op" where
  "ChatMessages e userID chatID limit offset =
     bnd (chatOfMine userID chatID) (\<lambda>_.
     bnd (get (Messages (iter e 0) chatID (clampLimit limit) (max0 offset))) (\<lambda>msgs.
     let msgs = (if msgs = [] then msgs else swap_ends 0 (length msgs - 1) msgs)
     in bnd (put (MarkRead chatID userID)) (\<lambda>_.
     ret msgs)))"

definition MyChats :: "env \<Rightarrow> string \<Rightarrow> int \<Rightarrow> int \<Rightarrow> Chat list op" where
  "MyChats e userID limit offset =
     get (ChatsByUser (iter e 0) userID (clampLimit limit) (max0 offset))"

definition GetChat :: "string \<Rightarrow> string \<Rightarrow> Chat op" where
  "GetChat userID chatID = chatOfMine userID chatID"


section \<open>Turning a page round\<close>

text \<open>The swapping loop reverses the part between its two indices.\<close>

lemma swap_ends_nth:
  "k < length xs \<Longrightarrow> n < length xs \<Longrightarrow>
     swap_ends i k xs ! n = (if i \<le> n \<and> n \<le> k then xs ! (i + k - n) else xs ! n)"
proof (induction i k xs rule: swap_ends.induct)
  case (1 i k xs)
  show ?case
  proof (cases "i < k")
    case True
    let ?ys = "xs[i := xs ! k, k := xs ! i]"
    have "swap_ends i k xs ! n = swap_ends (i + 1) (k - 1) ?ys ! n"
      using True 1 by (subst swap_ends.simps) simp
    also have "\<dots> = (if i + 1 \<le> n \<and> n \<le> k - 1 then ?ys ! (i + k - n) else ?ys ! n)"
      using True 1 by auto
    also have "\<dots> = (if i \<le> n \<and> n \<le> k then xs ! (i + k - n) else xs ! n)"
      using True 1 by (auto simp: nth_list_update)
    finally show ?thesis .
  next
    case False
    then have "i + k - n = n" if "i \<le> n" "n \<le> k" using that by simp
    with False show ?thesis by (subst swap_ends.simps) simp
  qed
qed

lemma length_swap_ends [simp]: "length (swap_ends i k xs) = length xs"
  by (induction i k xs rule: swap_ends.induct) (subst swap_ends.simps, simp)

lemma swap_ends_rev: "xs \<noteq> [] \<Longrightarrow> swap_ends 0 (length xs - 1) xs = rev xs"
  by (rule nth_equalityI) (auto simp: swap_ends_nth rev_nth intro!: arg_cong [where f = "(!) xs"])


section \<open>Marking as read\<close>

lemma mark_read_idem: "mark_read c u (mark_read c u m) = mark_read c u m"
  by (auto simp: mark_read_def readBy_def)

lemma mark_read_not_unread: "\<not> unread_for c u (mark_read c u m)"
  by (auto simp: mark_read_def unread_for_def readBy_def)

lemma mark_read_other: "mChatID m \<noteq> c \<Longrightarrow> mark_read c u m = m"
  by (simp add: mark_read_def)

lemma mark_read_simps [simp]: "mID (mark_read c u m) = mID m" "mChatID (mark_read c u m) = mChatID m"
  "mSenderID (mark_read c u m) = mSenderID m" "mText (mark_read c u m) = mText m"
  by (simp_all add: mark_read_def)

end
