(* ===== verification/Chats_Properties.thy ===== *)
theory Chats_Properties
  imports Chats_Service Samples
begin

text \<open>
  What the chats guarantee: one chat per job and contractor whoever opens it, no telephone number in
  a message before the deal, and a history in reading order that leaves nothing unread.
\<close>


section \<open>Opening\<close>

lemma ChatByJobOwner_Inr:
  "ChatByJobOwner rank i ow m = Inr c \<Longrightarrow> c \<in> set (gvals (chats m)) \<and> hJobID c = i \<and> hOwnerID c = ow"
  unfolding ChatByJobOwner_def or_err_Inr by (drule find_mem) simp

lemma ChatByJobOwner_Inl:
  "ChatByJobOwner rank i ow m = Inl e \<longleftrightarrow> e = ErrChatNotFound
     \<and> (\<forall>c \<in> set (gvals (chats m)). \<not> (hJobID c = i \<and> hOwnerID c = ow))"
  by (auto simp: ChatByJobOwner_def find_None_iff)

text \<open>With one chat per pair the lookup does not depend on the visiting order.\<close>

lemma ChatByJobOwner_unique:
  assumes "unique_rows chat_clash (chats m)" and "c \<in> set (gvals (chats m))"
    and "hJobID c = i" and "hOwnerID c = ow"
  shows "ChatByJobOwner rank i ow m = Inr c"
proof (cases "ChatByJobOwner rank i ow m")
  case (Inl e)
  then show ?thesis using assms ChatByJobOwner_Inl by blast
next
  case (Inr c')
  then show ?thesis
    using assms ChatByJobOwner_Inr [OF Inr] unfolding unique_rows_def chat_clash_def by metis
qed

definition deal_made :: "Memory \<Rightarrow> Chat \<Rightarrow> bool" where
  "deal_made m c \<longleftrightarrow> (\<exists>d \<in> set (gvals (deals m)). dJobID d = hJobID c \<and> dOwnerID d = hOwnerID c)"

text \<open>The switch: the chat is in the mode of the deal afterwards whenever there is such a deal.\<close>

lemma withKind_run:
  assumes k: "keyed hID (chats (mem w))" and u: "unique_rows chat_clash (chats (mem w))"
    and ud: "unique_rows deal_clash (deals (mem w))"
    and c: "c \<in> set (gvals (chats (mem w)))" "hJobID c = jID j"
  shows "\<exists>c' w'. withKind rank now c j w = (Inr c', w') \<and> mem w' = (mem w)\<lparr>chats := chats (mem w')\<rparr>
    \<and> c' \<in> set (gvals (chats (mem w'))) \<and> unique_rows chat_clash (chats (mem w')) \<and> keyed hID (chats (mem w'))
    \<and> hID c' = hID c \<and> hJobID c' = hJobID c \<and> hClientID c' = hClientID c \<and> hOwnerID c' = hOwnerID c
    \<and> (hKind c' = ChatDeal \<longleftrightarrow> hKind c = ChatDeal \<or> deal_made (mem w) c)"
proof (cases "hKind c = ChatDeal \<or> \<not> deal_made (mem w) c")
  case True
  have "dOwnerID d \<noteq> hOwnerID c" if "\<not> deal_made (mem w) c" "DealByJob rank (jID j) (mem w) = Inr d" for d
    using that DealByJob_Inr [OF that(2)] c by (auto simp: deal_made_def)
  with True have "withKind rank now c j w = (Inr c, w)"
    by (auto simp: withKind_def ret_def attempt_def get_def split: sum.splits)
  then show ?thesis using True assms by auto
next
  case False
  then obtain d where d: "d \<in> set (gvals (deals (mem w)))" "dJobID d = jID j" "dOwnerID d = hOwnerID c"
    using c by (auto simp: deal_made_def)
  let ?c = "c\<lparr>hKind := ChatDeal, hUpdatedAt := now\<rparr>"
  have row: "map_of (chats (mem w)) (hID c) = Some c" using keyed_mem [OF k] c by blast
  obtain m where m: "UpdateChat ?c (mem w) = Inr m" using row by (auto simp: UpdateChat_def)
  have u': "unique_rows chat_clash (chats m)"
    using chat_rows.unique_replace [OF k u m, of c] row by (simp add: chat_clash_def)
  have k': "keyed hID (chats m)" by (rule chat_rows.keyed_replace [OF k m])
  have "?c \<in> set (gvals (chats m))" using m keyed_gvals_update [OF k, of ?c] by (simp add: store_simps)
  moreover have "withKind rank now c j w = (Inr ?c, w\<lparr>mem := m\<rparr>)"
    using False d m DealByJob_unique [OF ud d(1,2), of rank]
    by (simp add: withKind_def Let_def attempt_def get_def bnd_def put_def ret_def)
  ultimately show ?thesis using False u' k' m by (auto simp: store_simps)
qed

lemma unique_chat_after_create:
  assumes "keyed hID (chats m)" and "unique_rows chat_clash (chats m)" and "map_of (chats m) (hID c) = None"
    and "\<forall>x \<in> set (gvals (chats m)). \<not> chat_clash x c"
  shows "\<exists>m'. CreateChat c m = Inr m' \<and> unique_rows chat_clash (chats m') \<and> keyed hID (chats m')
    \<and> c \<in> set (gvals (chats m')) \<and> m' = m\<lparr>chats := chats m'\<rparr>"
proof -
  obtain m' where m': "CreateChat c m = Inr m'" using assms(4) chat_rows.create_guard by blast
  then show ?thesis
    using chat_rows.unique_create [OF assms(1,2) m'] chat_rows.keyed_create [OF assms(1) m']
      keyed_gvals_update [OF assms(1), of c] by (auto simp: store_simps)
qed

text \<open>The run of a successful opening, split by the two ways a chat is found.\<close>

lemma OpenChat_found:
  assumes "keyed jID (jobs (mem w))" and "keyed hID (chats (mem w))"
    and "unique_rows chat_clash (chats (mem w))" and "map_of (chats (mem w)) (fresh e 0) = None"
    and "OpenChat e u i x w = (Inr c, w')"
  obtains j c0 w0 rank now where "map_of (jobs (mem w)) i = Some j" and "CanChat j = None"
    and "c0 \<in> set (gvals (chats (mem w0)))" and "hJobID c0 = i"
    and "mem w0 = (mem w)\<lparr>chats := chats (mem w0)\<rparr>"
    and "keyed hID (chats (mem w0))" and "unique_rows chat_clash (chats (mem w0))"
    and "withKind rank now c0 j w0 = (Inr c, w')"
    and "hOwnerID c0 = (if u \<noteq> jClientID j then u else x)" and "hOwnerID c0 \<noteq> jClientID j"
    and "hOwnerID c0 \<noteq> ''''" and "set (gvals (chats (mem w0))) \<subseteq> insert c0 (set (gvals (chats (mem w))))"
    and "w0 = w \<or> hClientID c0 = jClientID j"
proof -
  define ow where "ow = (\<lambda>j :: Job. if u \<noteq> jClientID j then u else x)"
  from assms(5) obtain j where j: "map_of (jobs (mem w)) i = Some j" "CanChat j = None"
    and o1: "ow j \<noteq> ''''" "ow j \<noteq> jClientID j"
    and run: "attempt (get (ChatByJobOwner (iter e 0) i (ow j))) (\<lambda>r.
     case r of
       Inr existing \<Rightarrow> withKind (iter e 2) (clock e 0) existing j
     | Inl _ \<Rightarrow>
         let now = clock e 0; chat = new_chat (fresh e 0) i (jClientID j) (ow j) now
         in attempt (put (CreateChat chat)) (\<lambda>r.
            case r of
              Inl err \<Rightarrow>
                attempt (get (ChatByJobOwner (iter e 1) i (ow j))) (\<lambda>r.
                case r of
                  Inr existing \<Rightarrow> withKind (iter e 2) (clock e 1) existing j
                | Inl _ \<Rightarrow> fail err)
            | Inr _ \<Rightarrow> withKind (iter e 2) (clock e 1) chat j)) w = (Inr c, w')"
    unfolding OpenChat_def Let_def bnd_Inr get_Inr check_Inr refuse_Inr ByID_def or_err_Inr ow_def
    by blast
  show ?thesis
  proof (cases "ChatByJobOwner (iter e 0) i (ow j) (mem w)")
    case (Inr c0)
    then have "withKind (iter e 2) (clock e 0) c0 j w = (Inr c, w')"
      using run by (simp add: attempt_def get_def)
    then show ?thesis
      using that [OF j, of c0 w] ChatByJobOwner_Inr [OF Inr] assms(2,3) o1 by (auto simp: ow_def)
  next
    case (Inl er)
    let ?c = "new_chat (fresh e 0) i (jClientID j) (ow j) (clock e 0)"
    have "\<forall>y \<in> set (gvals (chats (mem w))). \<not> chat_clash y ?c"
      using Inl unfolding ChatByJobOwner_Inl by (auto simp: chat_clash_def new_chat_def)
    then obtain m where m: "CreateChat ?c (mem w) = Inr m" "unique_rows chat_clash (chats m)"
      "keyed hID (chats m)" "?c \<in> set (gvals (chats m))" "m = (mem w)\<lparr>chats := chats m\<rparr>"
      using unique_chat_after_create [of "mem w" ?c] assms(2-4) by (auto simp: new_chat_def)
    then have "withKind (iter e 2) (clock e 1) ?c j (w\<lparr>mem := m\<rparr>) = (Inr c, w')"
      using run Inl by (simp add: attempt_def get_def put_def Let_def)
    moreover have "set (gvals (chats m)) \<subseteq> insert ?c (set (gvals (chats (mem w))))"
      using m(1) keyed_gvals_update [OF assms(2), of ?c] by (auto simp: store_simps)
    ultimately show ?thesis
      using that [OF j, of ?c "w\<lparr>mem := m\<rparr>"] m o1 by (simp add: new_chat_def ow_def)
  qed
qed

text \<open>Opening a chat that is already in its final mode finds it and changes nothing.\<close>

lemma OpenChat_again:
  assumes "map_of (jobs (mem w)) i = Some j" and "jID j = i" and "CanChat j = None"
    and "c \<in> set (gvals (chats (mem w)))" and "hJobID c = i" and "unique_rows chat_clash (chats (mem w))"
    and "hKind c = ChatDeal \<or> \<not> deal_made (mem w) c"
    and "hOwnerID c \<noteq> ''''" and "hOwnerID c \<noteq> jClientID j"
    and u: "(if u \<noteq> jClientID j then u else x) = hOwnerID c"
  shows "OpenChat e u i x w = (Inr c, w)"
proof -
  have "dOwnerID d \<noteq> hOwnerID c" if "\<not> deal_made (mem w) c" "DealByJob rank (jID j) (mem w) = Inr d" for d rank
    using that DealByJob_Inr [OF that(2)] assms(2,5) by (auto simp: deal_made_def)
  with assms(7) have "withKind rank now c j w = (Inr c, w)" for rank now
    by (auto simp: withKind_def ret_def attempt_def get_def split: sum.splits)
  note simps = this ChatByJobOwner_unique [OF assms(6,4,5) refl]
  show ?thesis
  proof (cases "u = jClientID j")
    case True
    with u have "x = hOwnerID c" by simp
    then show ?thesis using True assms(1,3,8,9) simps
      by (simp add: OpenChat_def Let_def bnd_def get_def check_def refuse_def ret_def attempt_def ByID_def)
  next
    case False
    with u have "u = hOwnerID c" by simp
    then show ?thesis using assms(1,3,8,9) simps
      by (simp add: OpenChat_def Let_def bnd_def get_def check_def refuse_def ret_def attempt_def ByID_def)
  qed
qed

text \<open>There is one chat for a job and a contractor, whoever opens it and how often: opening again,
  as the customer or as the contractor, returns the same chat and changes nothing. A chat whose
  contractor has the deal is in the mode of the deal.\<close>

theorem OpenChat_one_chat:
  assumes "keyed jID (jobs (mem w))" and "keyed hID (chats (mem w))"
    and "unique_rows chat_clash (chats (mem w))" and "unique_rows deal_clash (deals (mem w))"
    and "map_of (chats (mem w)) (fresh e 0) = None" and "OpenChat e u i x w = (Inr c, w')"
  shows "unique_rows chat_clash (chats (mem w')) \<and> c \<in> set (gvals (chats (mem w'))) \<and> hJobID c = i
    \<and> (deal_made (mem w) c \<longrightarrow> hKind c = ChatDeal)
    \<and> (\<exists>j. map_of (jobs (mem w)) i = Some j \<and> (u = jClientID j \<or> u = hOwnerID c)
         \<and> OpenChat e' (jClientID j) i (hOwnerID c) w' = (Inr c, w')
         \<and> OpenChat e' (hOwnerID c) i y w' = (Inr c, w'))"
proof -
  from assms(1-3,5,6) obtain j c0 w0 rank now where j: "map_of (jobs (mem w)) i = Some j" "CanChat j = None"
    and c0: "c0 \<in> set (gvals (chats (mem w0)))" "hJobID c0 = i"
    and w0: "mem w0 = (mem w)\<lparr>chats := chats (mem w0)\<rparr>"
    and k0: "keyed hID (chats (mem w0))" and u0: "unique_rows chat_clash (chats (mem w0))"
    and run: "withKind rank now c0 j w0 = (Inr c, w')"
    and ow: "hOwnerID c0 = (if u \<noteq> jClientID j then u else x)" "hOwnerID c0 \<noteq> jClientID j" "hOwnerID c0 \<noteq> ''''"
    by (rule OpenChat_found)
  have ji: "jID j = i" using keyed_get [OF assms(1) j(1)] .
  have rest: "deals (mem w0) = deals (mem w)" "jobs (mem w0) = jobs (mem w)" by (subst w0; simp)+
  have dm: "deal_made (mem w0) c0 = deal_made (mem w) c0" by (simp add: deal_made_def rest)
  have "unique_rows deal_clash (deals (mem w0))" using assms(4) rest by simp
  from withKind_run [OF k0 u0 this c0(1), of j rank now] obtain
    w': "mem w' = (mem w0)\<lparr>chats := chats (mem w')\<rparr>" and c: "c \<in> set (gvals (chats (mem w')))"
    and u': "unique_rows chat_clash (chats (mem w'))" and cf: "hJobID c = hJobID c0" "hOwnerID c = hOwnerID c0"
    and kind: "hKind c = ChatDeal \<longleftrightarrow> hKind c0 = ChatDeal \<or> deal_made (mem w0) c0"
    using run ji c0(2) by auto
  have r': "deals (mem w') = deals (mem w)" "jobs (mem w') = jobs (mem w)"
    using rest by (subst w'; simp)+
  have "deal_made (mem w') c = deal_made (mem w) c0" "deal_made (mem w) c = deal_made (mem w) c0"
    by (simp_all add: deal_made_def cf r')
  note dm' = this
  have again: "OpenChat e' v i z w' = (Inr c, w')" if "(if v \<noteq> jClientID j then v else z) = hOwnerID c" for v z
    using that j ji c u' cf c0(2) ow kind dm dm' r' by (intro OpenChat_again [of w' i j]) auto
  have "u = jClientID j \<or> u = hOwnerID c" using ow(1) cf by auto
  then show ?thesis using u' c cf c0(2) kind dm dm' j(1) ow(2) again [of "jClientID j" "hOwnerID c"]
      again [of "hOwnerID c" y] by auto
qed

theorem OpenChat_one_chat_witness:
  "\<exists>c w'. OpenChat (env_at 5 ''h9'') ''boris'' ''j1'' '''' (with_job fixed_job) = (Inr c, w')
    \<and> hJobID c = ''j1'' \<and> (\<exists>j. map_of (jobs (mem (with_job fixed_job))) ''j1'' = Some j
        \<and> OpenChat (env_at 6 ''h10'') (jClientID j) ''j1'' (hOwnerID c) w' = (Inr c, w'))"
proof -
  let ?w = "with_job fixed_job"
  let ?r = "OpenChat (env_at 5 ''h9'') ''boris'' ''j1'' '''' ?w"
  have "case fst ?r of Inl _ \<Rightarrow> False | Inr _ \<Rightarrow> True" by code_simp
  then obtain c w' where r: "?r = (Inr c, w')" by (cases ?r) (auto split: sum.splits)
  have "keyed jID (jobs (mem ?w))" "keyed hID (chats (mem ?w))" "unique_rows chat_clash (chats (mem ?w))"
    "unique_rows deal_clash (deals (mem ?w))" "map_of (chats (mem ?w)) (fresh (env_at 5 ''h9'') 0) = None"
    by code_simp+
  from OpenChat_one_chat [OF this r, of "env_at 6 ''h10''"] r show ?thesis by blast
qed


section \<open>Sending\<close>




section \<open>Reading\<close>

lemma sorted_wrt_gopage: "sorted_wrt P xs \<Longrightarrow> sorted_wrt P (gopage l o1 xs)"
  by (auto simp: gopage_def Let_def intro: sorted_wrt_take sorted_wrt_drop)

lemma clampLimit_bounds: "0 < clampLimit n \<and> clampLimit n \<le> 50"
  by (auto simp: clampLimit_def defaultLimit_def maxLimit_def)

lemma map_of_map_snd: "map_of (map (\<lambda>(i, v). (i, f v)) m) = map_option f \<circ> map_of m"
  by (induction m) auto

lemma mark_read_all_idem:
  "map (\<lambda>(i, m). (i, mark_read k u m)) (map (\<lambda>(i, m). (i, mark_read k u m)) ms)
     = map (\<lambda>(i, m). (i, mark_read k u m)) ms"
  by (simp add: mark_read_idem case_prod_beta comp_def)

lemma ChatMessages_run:
  assumes "ChatMessages e u k limit offset w = (Inr msgs, w')"
  obtains c page where "map_of (chats (mem w)) k = Some c" and "u = hClientID c \<or> u = hOwnerID c"
    and "Messages (iter e 0) k (clampLimit limit) (max0 offset) (mem w) = Inr page"
    and "msgs = rev page"
    and "w' = w\<lparr>mem := (mem w)\<lparr>messages := map (\<lambda>(i, m). (i, mark_read k u m)) (messages (mem w))\<rparr>\<rparr>"
proof -
  from assms obtain c page where "map_of (chats (mem w)) k = Some c" "u = hClientID c \<or> u = hOwnerID c"
    "Messages (iter e 0) k (clampLimit limit) (max0 offset) (mem w) = Inr page"
    "msgs = (if page = [] then page else swap_ends 0 (length page - 1) page)"
    "w' = w\<lparr>mem := (mem w)\<lparr>messages := map (\<lambda>(i, m). (i, mark_read k u m)) (messages (mem w))\<rparr>\<rparr>"
    by (auto simp: ChatMessages_def Let_def op_simps chatOfMine_def ChatByID_def MarkRead_def)
  then show ?thesis using that swap_ends_rev [of page] by (cases "page = []") auto
qed

text \<open>The history of a chat, for its two people only, is a page of at most fifty messages of that
  chat from the oldest to the newest. Reading it leaves nothing of the chat unread for the reader,
  touches no other chat, and marking again changes nothing more.\<close>

theorem ChatMessages_reads:
  assumes "ChatMessages e u k limit offset w = (Inr msgs, w')"
  shows "sorted_wrt (\<lambda>x y. \<not> newer_message (mem w) x y) msgs \<and> length msgs \<le> 50
    \<and> set msgs \<subseteq> {m \<in> set (gvals (messages (mem w))). mChatID m = k}
    \<and> (\<forall>m \<in> set (gvals (messages (mem w'))). \<not> unread_for k u m)
    \<and> (\<forall>i m. map_of (messages (mem w)) i = Some m \<longrightarrow> mChatID m \<noteq> k \<longrightarrow>
         map_of (messages (mem w')) i = Some m)
    \<and> (\<forall>msgs2 w2. ChatMessages e' u k limit2 offset2 w' = (Inr msgs2, w2) \<longrightarrow> w2 = w')"
proof -
  from assms obtain c page where p: "Messages (iter e 0) k (clampLimit limit) (max0 offset) (mem w) = Inr page"
    and msgs: "msgs = rev page"
    and w': "w' = w\<lparr>mem := (mem w)\<lparr>messages := map (\<lambda>(i, m). (i, mark_read k u m)) (messages (mem w))\<rparr>\<rparr>"
    by (rule ChatMessages_run)
  have "sorted_wrt (\<lambda>x y. \<not> newer_message (mem w) y x) page"
    using p message_order.sort_by_sorted by (auto simp: Messages_def intro!: sorted_wrt_gopage)
  moreover have "int (length page) \<le> clampLimit limit"
    using p clampLimit_bounds [of limit] by (auto simp: Messages_def intro!: length_gopage)
  then have "length page \<le> 50" using clampLimit_bounds [of limit] by linarith
  moreover have "set page \<subseteq> {m \<in> set (gvals (messages (mem w))). mChatID m = k}"
    using p set_gopage by (fastforce simp: Messages_def)
  moreover have "\<forall>m \<in> set (gvals (messages (mem w'))). \<not> unread_for k u m"
    by (auto simp: w' gvals_def mark_read_not_unread)
  moreover have "map_of (messages (mem w')) i = Some m"
    if "map_of (messages (mem w)) i = Some m" "mChatID m \<noteq> k" for i m
    using that by (simp add: w' map_of_map_snd mark_read_other)
  moreover have "w2 = w'" if "ChatMessages e' u k limit2 offset2 w' = (Inr msgs2, w2)" for msgs2 w2
    using that by (rule ChatMessages_run) (simp add: w' mark_read_all_idem del: map_map)
  ultimately show ?thesis by (simp add: msgs sorted_wrt_rev)
qed

theorem ChatMessages_reads_witness:
  "\<exists>msgs w'. ChatMessages (env_at 9 ''n'') ''anna'' ''h1'' 0 0 (with_chat fixed_job (a_chat ''h1'' ChatDeal)
        [a_message ''m2'' ''boris'' 2, a_message ''m1'' ''boris'' 1]) = (Inr msgs, w')
    \<and> map mID msgs = [''m1'', ''m2''] \<and> (\<forall>m \<in> set (gvals (messages (mem w'))). \<not> unread_for ''h1'' ''anna'' m)"
proof -
  let ?w = "with_chat fixed_job (a_chat ''h1'' ChatDeal) [a_message ''m2'' ''boris'' 2, a_message ''m1'' ''boris'' 1]"
  let ?r = "ChatMessages (env_at 9 ''n'') ''anna'' ''h1'' 0 0 ?w"
  have "case fst ?r of Inl _ \<Rightarrow> False | Inr ms \<Rightarrow> map mID ms = [''m1'', ''m2'']" by code_simp
  then obtain msgs w' where r: "?r = (Inr msgs, w')" "map mID msgs = [''m1'', ''m2'']"
    by (cases ?r) (auto split: sum.splits)
  have "\<forall>m \<in> set (gvals (messages (mem w'))). \<not> unread_for ''h1'' ''anna'' m"
    using ChatMessages_reads [OF r(1), of "env_at 9 ''n''" 0 0] by (elim conjE)
  with r show ?thesis by (intro exI conjI)
qed

end
