(* ===== verification/Deals_Service.thy ===== *)
theory Deals_Service
  imports Orders_Service
begin

text \<open>
  The deal (\<^verbatim>\<open>services/orders/internal/service/deals.go\<close>): confirmation by the customer, the steps of the
  work, cancellation with a reason, and the reading guarded by membership.
\<close>


section \<open>Confirmation\<close>

text \<open>Identifier, owner, price and currency of the winner: the first accepted offer, else the first won
  bid; an empty identifier means none.\<close>

definition offer_winner :: "Offer list \<Rightarrow> string \<times> string \<times> int \<times> string" where
  "offer_winner os =
     (case find (\<lambda>x. oStatus x = OfferAccepted) os of
        None \<Rightarrow> ('''', '''', 0, '''')
      | Some x \<Rightarrow> (oID x, oOwnerID x, oPrice x, oCurrency x))"

definition bid_winner :: "Bid list \<Rightarrow> string \<times> string \<times> int \<times> string" where
  "bid_winner bs =
     (case find (\<lambda>b. bStatus b = BidWon) bs of
        None \<Rightarrow> ('''', '''', 0, '''')
      | Some b \<Rightarrow> (bID b, bOwnerID b, bPrice b, bCurrency b))"

definition find_winner :: "env \<Rightarrow> string \<Rightarrow> (string \<times> string \<times> int \<times> string) op" where
  "find_winner e jobID =
     bnd (get (OffersByJob (iter e 1) jobID)) (\<lambda>os.
     bnd (if fst (offer_winner os) = ''''
          then bnd (get (BidsByJob (iter e 2) jobID)) (\<lambda>bs. ret (bid_winner bs))
          else ret (offer_winner os)) (\<lambda>win.
     bnd (refuse (fst win = '''') ErrDealStep) (\<lambda>_.
     ret win)))"

definition deal_data :: "Deal \<Rightarrow> (string \<times> string) list" where
  "deal_data d = [(''route'', ''/deals/'' @ dID d), (''dealId'', dID d)]"

definition new_deal :: "string \<Rightarrow> string \<Rightarrow> Job \<Rightarrow> string \<Rightarrow> string \<times> string \<times> int \<times> string
    \<Rightarrow> time \<Rightarrow> Deal" where
  "new_deal i clientID j jobID win now =
     (case win of (winnerID, ownerID, price, currency) \<Rightarrow>
        \<lparr>dID = i, dJobID = jobID, dOfferID = Some winnerID, dClientID = jClientID j,
         dOwnerID = ownerID, dPrice = price, dCurrency = currency, dStatus = DealConfirmed,
         dTimeline = [\<lparr>tStatus = DealConfirmed, tAt = now, tByID = clientID, tNote = []\<rparr>],
         dAcceptanceDeadline = None, dCancelReason = [], dCancelledBy = None, dCreatedAt = now,
         dUpdatedAt = now, dClosedAt = None, dJobTitle = []\<rparr>)"

definition ConfirmDeal :: "env \<Rightarrow> string \<Rightarrow> string \<Rightarrow> Deal op" where
  "ConfirmDeal e clientID jobID =
     bnd (own clientID jobID) (\<lambda>j.
     attempt (get (DealByJob (iter e 0) jobID)) (\<lambda>r.
     case r of
       Inr existing \<Rightarrow> ret existing
     | Inl _ \<Rightarrow>
         bnd (refuse (jStatus j \<noteq> StatusDealPending) ErrBadTransition) (\<lambda>_.
         bnd (find_winner e jobID) (\<lambda>win.
         let now = clock e 0; deal = new_deal (fresh e 0) clientID j jobID win now
         in bnd (put (CreateDeal deal)) (\<lambda>_.
         let j = j\<lparr>jStatus := StatusConfirmed, jUpdatedAt := now\<rparr>
         in bnd (put (Update j)) (\<lambda>_.
         bnd (Send (dOwnerID deal) [Lit ''deal confirmed'']
                (Txt (jTitle j) # Lit '' - '' # MoneyRU (dPrice deal) (dCurrency deal))
                (deal_data deal)) (\<lambda>_.
         ret deal)))))))"


section \<open>Steps\<close>

text \<open>The status of the job follows the deal; a missing job and a failing write are passed over.\<close>

definition follow_job :: "string \<Rightarrow> Status \<Rightarrow> time \<Rightarrow> unit op" where
  "follow_job jobID st now =
     attempt (get (ByID jobID)) (\<lambda>r.
     case r of
       Inl _ \<Rightarrow> ret ()
     | Inr j \<Rightarrow> ignore (put (Update (j\<lparr>jStatus := st, jUpdatedAt := now\<rparr>))))"

definition otherParty :: "Deal \<Rightarrow> string \<Rightarrow> string" where
  "otherParty d userID = (if dClientID d = userID then dOwnerID d else dClientID d)"

fun step_message :: "DealStatus \<Rightarrow> (message \<times> message) option" where
  "step_message DealOnTheWay = Some ([Lit ''the contractor is on the way''], [Lit ''arriving soon''])"
| "step_message DealInProgress = Some ([Lit ''the work has begun''], [Lit ''the contractor started''])"
| "step_message DealWorkDone =
     Some ([Lit ''the work is finished''], [Lit ''check the result within 48 hours''])"
| "step_message DealCompleted = Some ([Lit ''the client accepted the work''], [Lit ''deal completed''])"
| "step_message DealDisputed = Some ([Lit ''a dispute was opened''], [Lit ''describe what went wrong''])"
| "step_message _ = None"

definition notifyDealStep :: "Deal \<Rightarrow> string \<Rightarrow> DealStatus \<Rightarrow> unit op" where
  "notifyDealStep d byID to =
     (case step_message to of
        None \<Rightarrow> ret ()
      | Some (title, body) \<Rightarrow> Send (otherParty d byID) title body (deal_data d))"

text \<open>\<^verbatim>\<open>strings.TrimSpace(note)\<close>: a person's note is trimmed, the platform's own has no outer blanks.\<close>

fun trim_note :: "message \<Rightarrow> message" where
  "trim_note [Txt r] = mtext (TrimSpace r)"
| "trim_note m = m"

definition advanced :: "Deal \<Rightarrow> DealStatus \<Rightarrow> string \<Rightarrow> message \<Rightarrow> time \<Rightarrow> Deal" where
  "advanced d to userID note now =
     (let d = d\<lparr>dStatus := to,
                dTimeline := dTimeline d @ [\<lparr>tStatus = to, tAt = now, tByID = userID, tNote = note\<rparr>],
                dUpdatedAt := now\<rparr>
      in if to = DealWorkDone then d\<lparr>dAcceptanceDeadline := Some (now + AcceptanceWindow)\<rparr>
         else if to = DealCompleted \<or> to = DealCancelled then d\<lparr>dClosedAt := Some now\<rparr>
         else d)"

definition AdvanceDeal :: "env \<Rightarrow> string \<Rightarrow> string \<Rightarrow> DealStatus \<Rightarrow> message \<Rightarrow> Deal op" where
  "AdvanceDeal e userID dealID to note =
     bnd (get (DealByID dealID)) (\<lambda>d.
     bnd (check (CanAdvance d to userID)) (\<lambda>_.
     let now = clock e 0; d = advanced d to userID (trim_note note) now
     in bnd (put (UpdateDeal d)) (\<lambda>_.
     bnd (follow_job (dJobID d) (JobStatusForDeal to) now) (\<lambda>_.
     bnd (notifyDealStep d userID to) (\<lambda>_.
     ret d)))))"

definition CancelDeal :: "env \<Rightarrow> string \<Rightarrow> string \<Rightarrow> runes \<Rightarrow> Deal op" where
  "CancelDeal e userID dealID reason =
     bnd (get (DealByID dealID)) (\<lambda>d.
     bnd (check (CanAdvance d DealCancelled userID)) (\<lambda>_.
     bnd (refuse (TrimSpace reason = []) (ValidationError [(''reason'', [Lit ''give a reason''])])) (\<lambda>_.
     let now = clock e 0; why = mtext (TrimSpace reason);
         d = d\<lparr>dStatus := DealCancelled, dCancelReason := why, dCancelledBy := Some userID,
               dClosedAt := Some now, dUpdatedAt := now,
               dTimeline := dTimeline d @ [\<lparr>tStatus = DealCancelled, tAt = now, tByID = userID,
                 tNote = why\<rparr>]\<rparr>
     in bnd (put (UpdateDeal d)) (\<lambda>_.
     bnd (follow_job (dJobID d) StatusCancelled now) (\<lambda>_.
     bnd (Send (otherParty d userID) [Lit ''deal cancelled''] (dCancelReason d) (deal_data d)) (\<lambda>_.
     ret d))))))"


section \<open>Reading\<close>

definition GetDeal :: "string \<Rightarrow> string \<Rightarrow> Deal op" where
  "GetDeal userID dealID =
     bnd (get (DealByID dealID)) (\<lambda>d.
     bnd (refuse (dClientID d \<noteq> userID \<and> dOwnerID d \<noteq> userID) ErrDealNotParty) (\<lambda>_. ret d))"

definition GetDealByJob :: "env \<Rightarrow> string \<Rightarrow> string \<Rightarrow> Deal op" where
  "GetDealByJob e userID jobID =
     bnd (get (DealByJob (iter e 0) jobID)) (\<lambda>d.
     bnd (refuse (dClientID d \<noteq> userID \<and> dOwnerID d \<noteq> userID) ErrDealNotParty) (\<lambda>_. ret d))"

definition MyDeals :: "env \<Rightarrow> string \<Rightarrow> int \<Rightarrow> int \<Rightarrow> Deal list op" where
  "MyDeals e userID limit offset =
     get (DealsByUser (iter e 0) userID (clampLimit limit) (max0 offset))"


section \<open>Runs\<close>

lemma follow_job_run:
  assumes "keyed jID (jobs (mem w))"
  shows "\<exists>w'. follow_job i st now w = (Inr (), w') \<and> mem w' = (mem w)\<lparr>jobs := jobs (mem w')\<rparr>
    \<and> keyed jID (jobs (mem w'))
    \<and> map_of (jobs (mem w')) = (\<lambda>k. map_option (\<lambda>j. if k = i then j\<lparr>jStatus := st, jUpdatedAt := now\<rparr> else j)
        (map_of (jobs (mem w)) k))"
proof (cases "map_of (jobs (mem w)) i")
  case None
  then have "map_of (jobs (mem w)) = (\<lambda>k. map_option (\<lambda>j. if k = i then j\<lparr>jStatus := st, jUpdatedAt := now\<rparr>
      else j) (map_of (jobs (mem w)) k))"
    by (intro ext) (case_tac "map_of (jobs (mem w)) k"; auto)
  with None assms show ?thesis
    by (simp add: follow_job_def attempt_def get_def ByID_def ret_def)
next
  case (Some j)
  let ?j = "j\<lparr>jStatus := st, jUpdatedAt := now\<rparr>"
  have ji: "jID j = i" using keyed_get [OF assms Some] .
  have "(map_of (jobs (mem w)))(i \<mapsto> ?j) = (\<lambda>k. map_option (\<lambda>j. if k = i
      then j\<lparr>jStatus := st, jUpdatedAt := now\<rparr> else j) (map_of (jobs (mem w)) k))"
    using Some by (intro ext) (case_tac "map_of (jobs (mem w)) k"; auto)
  moreover have "keyed jID (AList.update i ?j (jobs (mem w)))"
    using assms ji by (intro keyed_update_key) auto
  ultimately show ?thesis
    using Some ji
    by (simp add: follow_job_def attempt_def get_def ByID_def ignore_def put_def Update_def ret_def
        update_conv')
qed

lemma notifyDealStep_run: "\<exists>w'. notifyDealStep d u to w = (Inr (), w') \<and> mem w' = mem w"
  by (auto simp: notifyDealStep_def ret_def Send_def split: option.split)

lemma advanced_simps [simp]:
  "dID (advanced d to u n t) = dID d" "dJobID (advanced d to u n t) = dJobID d"
  "dClientID (advanced d to u n t) = dClientID d" "dOwnerID (advanced d to u n t) = dOwnerID d"
  "dStatus (advanced d to u n t) = to" "dPrice (advanced d to u n t) = dPrice d"
  "dTimeline (advanced d to u n t) = dTimeline d @ [\<lparr>tStatus = to, tAt = t, tByID = u, tNote = n\<rparr>]"
  by (simp_all add: advanced_def Let_def)

end
