(* ===== verification/Disputes_Service.thy ===== *)
theory Disputes_Service
  imports Deals_Service Chats_Service
begin

text \<open>
  Disputes (\<^verbatim>\<open>services/orders/internal/service/disputes.go\<close>) and complaints with the platform's
  summary (\<^verbatim>\<open>complaints.go\<close>): opening, the queues of moderation, and the decisions, which move the
  deal and the job.
\<close>


section \<open>Disputes\<close>

definition new_dispute :: "string \<Rightarrow> Deal \<Rightarrow> string \<Rightarrow> runes \<Rightarrow> string list \<Rightarrow> time \<Rightarrow> Dispute" where
  "new_dispute i d userID text photos now =
     \<lparr>pID = i, pDealID = dID d, pJobID = dJobID d, pOpenedBy = userID, pClientID = dClientID d,
      pOwnerID = dOwnerID d, pReason = text, pPhotos = photos, pStatus = DisputeOpen,
      pOutcome = OutcomeOther '''', pResolution = [], pResolvedBy = '''', pResolvedAt = None,
      pCreatedAt = now, pJobTitle = []\<rparr>"

definition disputed :: "Deal \<Rightarrow> string \<Rightarrow> runes \<Rightarrow> time \<Rightarrow> Deal" where
  "disputed d userID text now =
     d\<lparr>dStatus := DealDisputed, dUpdatedAt := now,
       dTimeline := dTimeline d @ [\<lparr>tStatus = DealDisputed, tAt = now, tByID = userID,
         tNote = mtext text\<rparr>]\<rparr>"

definition dispute_data :: "string \<Rightarrow> (string \<times> string) list" where
  "dispute_data dealID = [(''kind'', ''deal''), (''route'', ''/deals/'' @ dealID), (''dealId'', dealID)]"

text \<open>The deal is not accepted by itself while the dispute is open; a closed deal stays closed.\<close>

definition suspend_deal :: "Deal \<Rightarrow> string \<Rightarrow> runes \<Rightarrow> time \<Rightarrow> unit op" where
  "suspend_deal d userID text now =
     (if dStatus d \<noteq> DealDisputed \<and> dStatus d \<noteq> DealCompleted
      then bnd (put (UpdateDeal (disputed d userID text now))) (\<lambda>_.
           follow_job (dJobID d) (JobStatusForDeal DealDisputed) now)
      else ret ())"

definition OpenDispute :: "env \<Rightarrow> string \<Rightarrow> string \<Rightarrow> runes \<Rightarrow> string list \<Rightarrow> Dispute op" where
  "OpenDispute e userID dealID reason photos =
     bnd (get (DealByID dealID)) (\<lambda>d.
     bnd (check (CanOpenDispute d userID)) (\<lambda>_.
     bnd (need (ValidateReason reason)) (\<lambda>text.
     let now = clock e 0; dispute = new_dispute (fresh e 0) d userID text photos now
     in bnd (put (CreateDispute dispute)) (\<lambda>_.
     bnd (suspend_deal d userID text now) (\<lambda>_.
     let other = (if userID = dOwnerID d then dClientID d else dOwnerID d)
     in bnd (Send other [Lit ''a dispute was opened''] (preview text) (dispute_data (dID d))) (\<lambda>_.
     ret dispute))))))"

definition DisputeOfDeal :: "env \<Rightarrow> string \<Rightarrow> string \<Rightarrow> Dispute op" where
  "DisputeOfDeal e userID dealID =
     bnd (get (DisputeByDeal (iter e 0) dealID)) (\<lambda>d.
     bnd (refuse (pClientID d \<noteq> userID \<and> pOwnerID d \<noteq> userID) ErrDisputeForbidden) (\<lambda>_. ret d))"

definition queue_limit :: "int \<Rightarrow> int" where
  "queue_limit limit = (if limit \<le> 0 \<or> limit > 100 then 50 else limit)"

definition DisputeQueue :: "env \<Rightarrow> int \<Rightarrow> Dispute list op" where
  "DisputeQueue e limit = get (OpenDisputes (iter e 0) (queue_limit limit))"

definition decided :: "Deal \<Rightarrow> DisputeOutcome \<Rightarrow> runes \<Rightarrow> string \<Rightarrow> time \<Rightarrow> Deal" where
  "decided deal outcome text moderatorID now =
     (let deal = (if outcome = OutcomeClient
                  then deal\<lparr>dStatus := DealCancelled,
                            dCancelReason := [Lit ''decision on the dispute: '', Txt text]\<rparr>
                  else deal\<lparr>dStatus := DealCompleted\<rparr>)
      in deal\<lparr>dUpdatedAt := now, dClosedAt := Some now,
              dTimeline := dTimeline deal @ [\<lparr>tStatus = dStatus deal, tAt = now, tByID = moderatorID,
                tNote = Lit ''the dispute is settled: '' # OutcomeRU outcome\<rparr>]\<rparr>)"

definition close_disputed :: "string \<Rightarrow> DisputeOutcome \<Rightarrow> runes \<Rightarrow> string \<Rightarrow> time \<Rightarrow> unit op" where
  "close_disputed dealID outcome text moderatorID now =
     attempt (get (DealByID dealID)) (\<lambda>r.
     case r of
       Inl _ \<Rightarrow> ret ()
     | Inr deal \<Rightarrow>
         if dStatus deal = DealDisputed then
           (let deal = decided deal outcome text moderatorID now
            in bnd (put (UpdateDeal deal)) (\<lambda>_.
               follow_job (dJobID deal) (JobStatusForDeal (dStatus deal)) now))
         else ret ())"

definition resolved :: "Dispute \<Rightarrow> DisputeOutcome \<Rightarrow> runes \<Rightarrow> string \<Rightarrow> time \<Rightarrow> Dispute" where
  "resolved d outcome text moderatorID now =
     d\<lparr>pStatus := DisputeResolved, pOutcome := outcome, pResolution := text,
       pResolvedBy := moderatorID, pResolvedAt := Some now\<rparr>"

definition ResolveDispute :: "env \<Rightarrow> string \<Rightarrow> string \<Rightarrow> DisputeOutcome \<Rightarrow> runes \<Rightarrow> Dispute op" where
  "ResolveDispute e moderatorID disputeID outcome resolution =
     bnd (get (DisputeByID disputeID)) (\<lambda>d.
     bnd (refuse (pStatus d \<noteq> DisputeOpen) ErrDisputeClosed) (\<lambda>_.
     bnd (refuse (\<not> ValidOutcome outcome) ErrDisputeOutcome) (\<lambda>_.
     bnd (need (ValidateResolution resolution)) (\<lambda>text.
     let now = clock e 0; d = resolved d outcome text moderatorID now
     in bnd (put (UpdateDispute d)) (\<lambda>_.
     bnd (close_disputed (pDealID d) outcome text moderatorID now) (\<lambda>_.
     bnd (each (\<lambda>user. Send user (Lit ''the dispute is settled: '' # OutcomeRU outcome) (preview text)
            (dispute_data (pDealID d))) [pClientID d, pOwnerID d]) (\<lambda>_.
     ret d)))))))"


section \<open>Complaints\<close>

text \<open>A complaint about a job asks that the job exists and is not the author's own.\<close>

definition complaint_target :: "string \<Rightarrow> string \<Rightarrow> string \<Rightarrow> unit op" where
  "complaint_target authorID targetKind targetID =
     (if targetKind = TargetJob
      then bnd (get (ByID targetID)) (\<lambda>j. refuse (jClientID j = authorID) ErrComplaintSelf)
      else ret ())"

definition new_complaint :: "string \<Rightarrow> string \<Rightarrow> string \<Rightarrow> string \<Rightarrow> runes \<Rightarrow> time \<Rightarrow> Complaint" where
  "new_complaint i targetKind targetID authorID text now =
     \<lparr>cID = i, cTargetKind = targetKind, cTargetID = targetID, cAuthorID = authorID, cReason = text,
      cStatus = ComplaintOpen, cAction = ActionOther '''', cNote = [], cReviewedBy = '''',
      cReviewedAt = None, cCreatedAt = now, cTargetTitle = [], cSameTarget = 0\<rparr>"

definition Complain :: "env \<Rightarrow> string \<Rightarrow> string \<Rightarrow> string \<Rightarrow> runes \<Rightarrow> Complaint op" where
  "Complain e authorID targetKind targetID reason =
     bnd (refuse (\<not> ValidTarget targetKind) ErrComplaintTarget) (\<lambda>_.
     bnd (refuse (targetID = '''') ErrComplaintTarget) (\<lambda>_.
     bnd (refuse (targetKind = TargetUser \<and> targetID = authorID) ErrComplaintSelf) (\<lambda>_.
     bnd (need (ValidateComplaint reason)) (\<lambda>text.
     bnd (complaint_target authorID targetKind targetID) (\<lambda>_.
     let c = new_complaint (fresh e 0) targetKind targetID authorID text (clock e 0)
     in bnd (put (CreateComplaint c)) (\<lambda>_.
     ret c))))))"

definition ComplaintQueue :: "env \<Rightarrow> int \<Rightarrow> Complaint list op" where
  "ComplaintQueue e limit = get (OpenComplaints (iter e 0) (queue_limit limit))"

definition remove_job :: "string \<Rightarrow> runes \<Rightarrow> time \<Rightarrow> unit op" where
  "remove_job jobID note now =
     attempt (get (ByID jobID)) (\<lambda>r.
     case r of
       Inl _ \<Rightarrow> ret ()
     | Inr j \<Rightarrow>
         if CanTransition (jStatus j) StatusCancelled then
           (let j = j\<lparr>jStatus := StatusCancelled, jUpdatedAt := now\<rparr>
            in bnd (ignore (put (Update j))) (\<lambda>_.
               Send (jClientID j) [Lit ''the job was removed by moderation''] (preview note)
                 [(''kind'', ''job''), (''route'', ''/jobs/'' @ jID j), (''jobId'', jID j)]))
         else ret ())"

definition system_data :: "(string \<times> string) list" where
  "system_data = [(''kind'', ''system''), (''route'', ''/notifications'')]"

definition reviewed :: "Complaint \<Rightarrow> ComplaintAction \<Rightarrow> runes \<Rightarrow> string \<Rightarrow> time \<Rightarrow> Complaint" where
  "reviewed c action note moderatorID now =
     c\<lparr>cStatus := ComplaintReviewed, cAction := action, cNote := note, cReviewedBy := moderatorID,
       cReviewedAt := Some now\<rparr>"

text \<open>The warning goes to the person the complaint is about.\<close>

definition warn_user :: "Complaint \<Rightarrow> ComplaintAction \<Rightarrow> runes \<Rightarrow> unit op" where
  "warn_user c action note =
     (if action = ActionWarned \<and> cTargetKind c = TargetUser
      then Send (cTargetID c) [Lit ''a warning of moderation''] (preview note) system_data
      else ret ())"

definition ReviewComplaint :: "env \<Rightarrow> string \<Rightarrow> string \<Rightarrow> ComplaintAction \<Rightarrow> runes \<Rightarrow> Complaint op" where
  "ReviewComplaint e moderatorID complaintID action note =
     bnd (get (ComplaintByID complaintID)) (\<lambda>c.
     bnd (refuse (cStatus c \<noteq> ComplaintOpen) ErrComplaintClosed) (\<lambda>_.
     bnd (refuse (\<not> ValidAction action) ErrComplaintAction) (\<lambda>_.
     let now = clock e 0; c = reviewed c action note moderatorID now
     in bnd (put (UpdateComplaint c)) (\<lambda>_.
     bnd (if action = ActionRemoved \<and> cTargetKind c = TargetJob
          then remove_job (cTargetID c) note now else ret ()) (\<lambda>_.
     bnd (warn_user c action note) (\<lambda>_.
     bnd (Send (cAuthorID c) (Lit ''the complaint was reviewed: '' # ActionRU action) (preview note)
            system_data) (\<lambda>_.
     ret c)))))))"

text \<open>The number of registered people comes from the identity service when that client is configured.\<close>

definition ServiceStats :: "(time \<Rightarrow> time \<Rightarrow> int) option \<Rightarrow> time \<Rightarrow> time \<Rightarrow> PlatformStats op" where
  "ServiceStats CountUsers from to =
     bnd (get (PlatformStats_of from to)) (\<lambda>stats.
     let stats = stats\<lparr>psFrom := from, psTo := to\<rparr>
     in ret (case CountUsers of None \<Rightarrow> stats | Some f \<Rightarrow> stats\<lparr>psUsers := f from to\<rparr>))"

end
