(* ===== verification/Reviews_Service.thy ===== *)
theory Reviews_Service
  imports Orders_Service
begin

text \<open>
  Reviews (\<^verbatim>\<open>services/orders/internal/service/reviews.go\<close>): a review stays hidden until the other
  party's arrives or a week has passed, the reviewed person may answer once, and the ratings of
  many people are collected at a time.
\<close>


section \<open>Leaving a review\<close>

definition starsLine :: "int \<Rightarrow> message" where
  "starsLine stars =
     (if stars < 1 \<or> stars > 5 then [Lit ''rating published'']
      else [Txt (take (nat stars) (replicate 5 9733)), Lit '' - review published''])"

definition notifyPublished :: "Review \<Rightarrow> unit op" where
  "notifyPublished r =
     Send (rTargetID r) [Lit ''a new review about you''] (starsLine (rStars r))
       [(''route'', ''/reviews/'' @ rID r), (''reviewId'', rID r)]"

text \<open>The review as the server completes it: parties and roles come from the deal.\<close>

definition addressed :: "Review \<Rightarrow> Deal \<Rightarrow> string \<Rightarrow> Review" where
  "addressed r d userID =
     (let r = r\<lparr>rDealID := dID d, rJobID := dJobID d, rAuthorID := userID\<rparr>
      in if userID = dClientID d then r\<lparr>rAuthorRole := RoleClient, rTargetID := dOwnerID d\<rparr>
         else r\<lparr>rAuthorRole := RoleOwner, rTargetID := dClientID d\<rparr>)"

text \<open>The loop keeps the last review another person wrote.\<close>

fun last_other :: "string \<Rightarrow> Review option \<Rightarrow> Review list \<Rightarrow> Review option" where
  "last_other userID theirs [] = theirs"
| "last_other userID theirs (r # rs) =
     last_other userID (if rAuthorID r \<noteq> userID then Some r else theirs) rs"

definition frozen :: "env \<Rightarrow> string \<Rightarrow> unit op" where
  "frozen e dealID =
     attempt (get (DisputeByDeal (iter e 0) dealID)) (\<lambda>r.
     case r of
       Inl _ \<Rightarrow> ret ()
     | Inr dispute \<Rightarrow> refuse (pStatus dispute = DisputeOpen) ErrReviewFrozen)"

definition LeaveReview :: "env \<Rightarrow> string \<Rightarrow> string \<Rightarrow> Review \<Rightarrow> Review op" where
  "LeaveReview e userID dealID inp =
     bnd (get (DealByID dealID)) (\<lambda>d.
     bnd (check (CanReview d userID)) (\<lambda>_.
     bnd (frozen e (dID d)) (\<lambda>_.
     bnd (need (ValidateReview (addressed inp d userID))) (\<lambda>r.
     let now = clock e 0; r = r\<lparr>rID := fresh e 0, rCreatedAt := now\<rparr>
     in bnd (get (ReviewsByDeal (iter e 1) (dID d))) (\<lambda>existing.
     let theirs = last_other userID None existing;
         r = (if theirs \<noteq> None then r\<lparr>rPublishedAt := Some now\<rparr> else r)
     in bnd (put (CreateReview r)) (\<lambda>_.
     bnd (case theirs of
            Some t \<Rightarrow>
              if \<not> Published t then
                (let t = t\<lparr>rPublishedAt := Some now\<rparr>
                 in bnd (put (UpdateReview t)) (\<lambda>_.
                    bnd (notifyPublished t) (\<lambda>_.
                    notifyPublished r)))
              else Send (rTargetID r) [Lit ''leave a rating''] [Lit ''how did it go'']
                     [(''route'', ''/deals/'' @ dID d @ ''/review''), (''dealId'', dID d)]
          | None \<Rightarrow> Send (rTargetID r) [Lit ''leave a rating''] [Lit ''how did it go'']
                     [(''route'', ''/deals/'' @ dID d @ ''/review''), (''dealId'', dID d)]) (\<lambda>_.
     ret r)))))))"

text \<open>The handler (\<^verbatim>\<open>internal/httpapi/reviews.go\<close>) passes on four fields of the request only.\<close>

definition review_body :: "int \<Rightarrow> runes list \<Rightarrow> runes \<Rightarrow> runes \<Rightarrow> Review" where
  "review_body stars tags text issue =
     \<lparr>rID = '''', rDealID = '''', rJobID = '''', rAuthorID = '''', rTargetID = '''', rAuthorRole = '''',
      rStars = stars, rTags = tags, rText = text, rIssue = issue, rReplyText = [], rReplyAt = None,
      rPublishedAt = None, rCreatedAt = 0\<rparr>"

definition leaveReview :: "env \<Rightarrow> string \<Rightarrow> string \<Rightarrow> int \<Rightarrow> runes list \<Rightarrow> runes \<Rightarrow> runes \<Rightarrow> Review op" where
  "leaveReview e userID dealID stars tags text issue =
     LeaveReview e userID dealID (review_body stars tags text issue)"


section \<open>Answering and publishing\<close>

definition ReplyToReview :: "env \<Rightarrow> string \<Rightarrow> string \<Rightarrow> runes \<Rightarrow> Review op" where
  "ReplyToReview e userID reviewID text =
     bnd (get (ReviewByID reviewID)) (\<lambda>r.
     bnd (check (CanReply r userID)) (\<lambda>_.
     bnd (need (ValidateReply text)) (\<lambda>body.
     let r = r\<lparr>rReplyText := body, rReplyAt := Some (clock e 0)\<rparr>
     in bnd (put (UpdateReview r)) (\<lambda>_.
     ret r))))"

definition publishDueReviews :: "env \<Rightarrow> unit op" where
  "publishDueReviews e =
     (let now = clock e 0
      in bnd (get (DueReviews (iter e 0) (now - HoldPeriod))) (\<lambda>due.
         each (\<lambda>r.
           if \<not> ShouldPublish (Some r) None now then ret ()
           else let r = r\<lparr>rPublishedAt := Some now\<rparr>
                in bnd (put (UpdateReview r)) (\<lambda>_. notifyPublished r)) due))"


section \<open>Reading\<close>

definition UserReviews :: "env \<Rightarrow> string \<Rightarrow> int \<Rightarrow> int \<Rightarrow> (Review list \<times> RatingSummary) op" where
  "UserReviews e userID limit offset =
     bnd (get (ReviewsAbout (iter e 0) userID (clampLimit limit) (max0 offset))) (\<lambda>items.
     bnd (get (RatingOf (iter e 1) userID (clock e 0 - RatingWindow))) (\<lambda>summary.
     ret (items, summary)))"

definition MyReviewForDeal :: "env \<Rightarrow> string \<Rightarrow> string \<Rightarrow> Review op" where
  "MyReviewForDeal e userID dealID =
     bnd (get (ReviewsByDeal (iter e 0) dealID)) (\<lambda>items.
     need (or_err (find (\<lambda>r. rAuthorID r = userID) items) ErrReviewNotFound))"

fun ratings_loop :: "env \<Rightarrow> time \<Rightarrow> Memory \<Rightarrow> nat \<Rightarrow> (string, RatingSummary) gomap \<Rightarrow> string list
    \<Rightarrow> (string, RatingSummary) gomap" where
  "ratings_loop e since m n out [] = out"
| "ratings_loop e since m n out (i # ids) =
     (if i = '''' then ratings_loop e since m (n + 1) out ids
      else if map_of out i \<noteq> None then ratings_loop e since m (n + 1) out ids
      else case RatingOf (iter e n) i since m of
             Inl _ \<Rightarrow> ratings_loop e since m (n + 1) out ids
           | Inr summary \<Rightarrow> ratings_loop e since m (n + 1) (AList.update i summary out) ids)"

definition Ratings :: "env \<Rightarrow> string list \<Rightarrow> (string, RatingSummary) gomap op" where
  "Ratings e ids w =
     (Inr (ratings_loop e (clock e 0 - RatingWindow) (mem w) 0 [] ids), w)"

end
