(* ===== verification/Reviews_Properties.thy ===== *)
theory Reviews_Properties
  imports Reviews_Service Samples
begin

text \<open>
  What the reviews guarantee: one review per person and deal, both opened together or the lonely one
  after a week, a single answer by the person reviewed, and a rating between one and five stars.
\<close>


section \<open>Leaving a review\<close>

lemma frozen_Inr: "frozen e k w = (Inr u, w') \<longleftrightarrow> w' = w \<and>
    (\<forall>p. DisputeByDeal (iter e 0) k (mem w) = Inr p \<longrightarrow> pStatus p \<noteq> DisputeOpen)"
  by (auto simp: frozen_def attempt_def get_def refuse_def ret_def fail_def split: sum.splits if_splits)

lemma last_other_None: "last_other u t rs = None \<longleftrightarrow> t = None \<and> (\<forall>r \<in> set rs. rAuthorID r = u)"
  by (induction rs arbitrary: t) auto

lemma last_other_Some:
  "last_other u t rs = Some x \<Longrightarrow> t = Some x \<or> x \<in> set rs \<and> rAuthorID x \<noteq> u"
  by (induction rs arbitrary: t) (force split: if_splits)+

lemma ReviewsByDeal_set:
  "ReviewsByDeal rank k m = Inr rs \<Longrightarrow> set rs = {r \<in> set (gvals (reviews m)). rDealID r = k}"
  by (auto simp: ReviewsByDeal_def pickReviews_def)

lemma addressed_simps [simp]:
  "rDealID (addressed r d u) = dID d" "rAuthorID (addressed r d u) = u"
  "rPublishedAt (addressed r d u) = rPublishedAt r"
  by (simp_all add: addressed_def Let_def)

text \<open>The run of a successful review: what was checked, and the one or two rows it writes.\<close>

lemma LeaveReview_run:
  assumes "LeaveReview e u k inp w = (Inr r, w')"
  obtains d r0 rs where "map_of (deals (mem w)) k = Some d" and "CanReview d u = None"
    and "\<forall>p. DisputeByDeal (iter e 0) (dID d) (mem w) = Inr p \<longrightarrow> pStatus p \<noteq> DisputeOpen"
    and "ValidateReview (addressed inp d u) = Inr r0"
    and "ReviewsByDeal (iter e 1) (dID d) (mem w) = Inr rs"
    and "r = (let r = r0\<lparr>rID := fresh e 0, rCreatedAt := clock e 0\<rparr>
              in if last_other u None rs \<noteq> None then r\<lparr>rPublishedAt := Some (clock e 0)\<rparr> else r)"
    and "\<forall>x \<in> set (gvals (reviews (mem w))). \<not> review_clash x r"
    and "reviews (mem w') = (case last_other u None rs of
           None \<Rightarrow> AList.update (rID r) r (reviews (mem w))
         | Some t \<Rightarrow> if Published t then AList.update (rID r) r (reviews (mem w))
             else AList.update (rID t) (t\<lparr>rPublishedAt := Some (clock e 0)\<rparr>)
                    (AList.update (rID r) r (reviews (mem w))))"
  using assms
  by (auto simp: LeaveReview_def Let_def op_simps frozen_Inr DealByID_def store_simps notifyPublished_def
      split: option.splits if_splits)

definition by_parties :: "Memory \<Rightarrow> bool" where
  "by_parties m \<longleftrightarrow> (\<forall>x \<in> set (gvals (reviews m)). \<forall>d. map_of (deals m) (rDealID x) = Some d \<longrightarrow>
     rAuthorID x = dClientID d \<or> rAuthorID x = dOwnerID d)"

text \<open>The rows after it: the new review, and the hidden one of the other party opened with it.\<close>

lemma leaveReview_rows:
  assumes "keyed dID (deals (mem w))" and "keyed rID (reviews (mem w))"
    and "map_of (reviews (mem w)) (fresh e 0) = None"
    and "leaveReview e u k stars tags text issue w = (Inr r, w')"
  defines "T \<equiv> set (gvals (reviews (mem w)))" and "T' \<equiv> set (gvals (reviews (mem w')))"
  obtains d where "map_of (deals (mem w)) k = Some d" and "CanReview d u = None" and "review_wf r"
    and "rDealID r = k" and "rAuthorID r = u" and "\<forall>x \<in> T. \<not> review_clash x r"
    and "(\<forall>x \<in> T. rDealID x = k \<longrightarrow> rAuthorID x = u) \<and> \<not> Published r \<and> T' = insert r T
      \<or> (\<exists>y \<in> T. rDealID y = k \<and> Published r \<and> T' = (if Published y then insert r T
           else insert (y\<lparr>rPublishedAt := Some (clock e 0)\<rparr>) (insert r {x \<in> T. rID x \<noteq> rID y})))"
proof -
  let ?inp = "review_body stars tags text issue" and ?now = "clock e 0"
  from assms(4) obtain d r0 rs where d: "map_of (deals (mem w)) k = Some d" and can: "CanReview d u = None"
    and v: "ValidateReview (addressed ?inp d u) = Inr r0"
    and rs: "ReviewsByDeal (iter e 1) (dID d) (mem w) = Inr rs"
    and r: "r = (let r = r0\<lparr>rID := fresh e 0, rCreatedAt := ?now\<rparr>
              in if last_other u None rs \<noteq> None then r\<lparr>rPublishedAt := Some ?now\<rparr> else r)"
    and nc: "\<forall>x \<in> T. \<not> review_clash x r"
    and m: "reviews (mem w') = (case last_other u None rs of
           None \<Rightarrow> AList.update (rID r) r (reviews (mem w))
         | Some t \<Rightarrow> if Published t then AList.update (rID r) r (reviews (mem w))
             else AList.update (rID t) (t\<lparr>rPublishedAt := Some ?now\<rparr>)
                    (AList.update (rID r) r (reviews (mem w))))"
    unfolding leaveReview_def T_def by (rule LeaveReview_run)
  have dk: "dID d = k" using keyed_get [OF assms(1) d] .
  have "rDealID r0 = k" "rAuthorID r0 = u" "rPublishedAt r0 = None"
    using ValidateReview_frame_simps [OF v] dk by (simp_all add: review_body_def)
  then have rf: "rDealID r = k" "rAuthorID r = u" "rID r = fresh e 0"
    and rp: "rPublishedAt r = (if last_other u None rs \<noteq> None then Some ?now else None)"
    by (simp_all add: r Let_def)
  have wf: "review_wf r" using ValidateReview_wf [OF v] by (simp add: r Let_def review_wf_def)
  have new: "rID x \<noteq> rID r" if "x \<in> T" for x
    using that keyed_mem [OF assms(2), of x] assms(3) rf unfolding T_def by auto
  have S: "set rs = {x \<in> T. rDealID x = k}" using ReviewsByDeal_set [OF rs] dk by (simp add: T_def)
  have u1: "set (gvals (AList.update (rID r) r (reviews (mem w)))) = insert r T"
    using new unfolding keyed_gvals_update [OF assms(2)] T_def by auto
  have k1: "keyed rID (AList.update (rID r) r (reviews (mem w)))" using assms(2) by simp
  show ?thesis
  proof (cases "last_other u None rs")
    case None
    then have "\<forall>x \<in> T. rDealID x = k \<longrightarrow> rAuthorID x = u" using S unfolding last_other_None by blast
    moreover have "T' = insert r T" "\<not> Published r"
      using None rp m u1 by (simp_all add: T'_def Published_def)
    ultimately show ?thesis using that [OF d can wf rf(1,2) nc] by blast
  next
    case (Some t)
    then have t: "t \<in> T" "rDealID t = k" using last_other_Some [OF Some] S by auto
    have "T' = (if Published t then insert r T
        else insert (t\<lparr>rPublishedAt := Some ?now\<rparr>) (insert r {x \<in> T. rID x \<noteq> rID t}))"
      unfolding T'_def
      using m Some u1 keyed_gvals_update [OF k1, of "t\<lparr>rPublishedAt := Some ?now\<rparr>"] new [OF t(1)] by auto
    then show ?thesis using that [OF d can wf rf(1,2) nc] t rp Some by (auto simp: Published_def)
  qed
qed

text \<open>C11: A party of a completed deal that no open dispute freezes leaves one checked review. The first
  review of the deal stays hidden; the second opens both at once, so neither party can see the
  other's before writing their own.\<close>

theorem leaveReview_double_blind:
  assumes "keyed dID (deals (mem w))" and "keyed rID (reviews (mem w))"
    and "map_of (reviews (mem w)) (fresh e 0) = None" and "by_parties (mem w)"
    and "unique_rows review_clash (reviews (mem w))"
    and "leaveReview e u k stars tags text issue w = (Inr r, w')"
  shows "review_wf r \<and> rAuthorID r = u \<and> rDealID r = k \<and> unique_rows review_clash (reviews (mem w'))
    \<and> (\<exists>d. map_of (deals (mem w)) k = Some d \<and> dStatus d = DealCompleted \<and> (\<exists>p. plays d u p))
    \<and> (if \<exists>x \<in> set (gvals (reviews (mem w))). rDealID x = k
       then \<forall>x \<in> set (gvals (reviews (mem w'))). rDealID x = k \<longrightarrow> Published x
       else \<not> Published r \<and> (\<forall>x \<in> set (gvals (reviews (mem w'))). rDealID x = k \<longrightarrow> x = r))"
proof -
  let ?T = "set (gvals (reviews (mem w)))" and ?T' = "set (gvals (reviews (mem w')))"
  from assms(1-3,6) obtain d where d: "map_of (deals (mem w)) k = Some d" and can: "CanReview d u = None"
    and wf: "review_wf r" and rf: "rDealID r = k" "rAuthorID r = u" and nc: "\<forall>x \<in> ?T. \<not> review_clash x r"
    and rows: "(\<forall>x \<in> ?T. rDealID x = k \<longrightarrow> rAuthorID x = u) \<and> \<not> Published r \<and> ?T' = insert r ?T
      \<or> (\<exists>y \<in> ?T. rDealID y = k \<and> Published r \<and> ?T' = (if Published y then insert r ?T
           else insert (y\<lparr>rPublishedAt := Some (clock e 0)\<rparr>) (insert r {x \<in> ?T. rID x \<noteq> rID y})))"
    by (rule leaveReview_rows)
  have par: "u = dClientID d \<or> u = dOwnerID d" and st: "dStatus d = DealCompleted"
    using can by (auto simp: CanReview_def split: if_splits)
  have other: "rAuthorID x \<noteq> u" if "x \<in> ?T" "rDealID x = k" for x
    using nc that rf by (auto simp: review_clash_def)
  have author: "rAuthorID x = dClientID d \<or> rAuthorID x = dOwnerID d" if "x \<in> ?T" "rDealID x = k" for x
    using assms(4) that d unfolding by_parties_def by blast
  have one: "x = y" if "x \<in> ?T" "y \<in> ?T" "rDealID x = k" "rDealID y = k" for x y
  proof -
    have "rAuthorID x = rAuthorID y"
      using author [OF that(1,3)] author [OF that(2,4)] other [OF that(1,3)] other [OF that(2,4)] par
      by auto
    then show ?thesis using assms(5) that by (auto simp: unique_rows_def review_clash_def)
  qed
  from rows have u: "unique_rows review_clash (reviews (mem w'))"
    using assms(5) nc other rf unfolding unique_rows_def review_clash_def by (elim disjE bexE conjE) (auto, metis+)
  from rows show ?thesis
  proof (elim disjE bexE conjE)
    assume no: "\<forall>x \<in> ?T. rDealID x = k \<longrightarrow> rAuthorID x = u" and h: "\<not> Published r" "?T' = insert r ?T"
    from no other have "\<forall>x \<in> ?T. rDealID x \<noteq> k" by blast
    with h show ?thesis using u wf rf d st par by (auto simp: ex_role)
  next
    fix y
    assume y: "y \<in> ?T" "rDealID y = k" and p: "Published r" and T': "?T' = (if Published y then insert r ?T
      else insert (y\<lparr>rPublishedAt := Some (clock e 0)\<rparr>) (insert r {x \<in> ?T. rID x \<noteq> rID y}))"
    have "\<forall>x \<in> ?T'. rDealID x = k \<longrightarrow> Published x"
      unfolding T' using one y p by (auto simp: Published_def)
    then show ?thesis using u y wf rf d st par by (auto simp: ex_role)
  qed
qed

theorem leaveReview_double_blind_witness:
  "\<exists>r w'. leaveReview (env_at 5 ''r2'') ''anna'' ''d1'' 5 [tagPunctual] [] []
      (with_reviews fixed_job (a_deal DealCompleted) [a_review ''r1'' ''boris'' ''anna'' 4 1]) = (Inr r, w')
    \<and> review_wf r \<and> (\<forall>x \<in> set (gvals (reviews (mem w'))). rDealID x = ''d1'' \<longrightarrow> Published x)"
proof -
  let ?w = "with_reviews fixed_job (a_deal DealCompleted) [a_review ''r1'' ''boris'' ''anna'' 4 1]"
  let ?r = "leaveReview (env_at 5 ''r2'') ''anna'' ''d1'' 5 [tagPunctual] [] [] ?w"
  have "case fst ?r of Inl _ \<Rightarrow> False | Inr _ \<Rightarrow> True" by code_simp
  then obtain r w' where r: "?r = (Inr r, w')" by (cases ?r) (auto split: sum.splits)
  have "keyed dID (deals (mem ?w))" "keyed rID (reviews (mem ?w))"
    "map_of (reviews (mem ?w)) (fresh (env_at 5 ''r2'') 0) = None"
    "unique_rows review_clash (reviews (mem ?w))"
    "\<exists>x \<in> set (gvals (reviews (mem ?w))). rDealID x = ''d1''" by code_simp+
  moreover have "by_parties (mem ?w)"
    by (simp add: by_parties_def with_reviews_def with_deal_def a_review_def a_deal_def)
  ultimately show ?thesis using leaveReview_double_blind [OF _ _ _ _ _ r] r by auto
qed


section \<open>Publication after a week\<close>

lemma DueReviews_set:
  "DueReviews rank t m = Inr rs \<Longrightarrow>
     set rs = {r \<in> set (gvals (reviews m)). \<not> Published r \<and> rCreatedAt r \<le> t}"
  by (auto simp: DueReviews_def pickReviews_def)

lemma DueReviews_distinct:
  assumes "keyed rID (reviews m)" and "DueReviews rank t m = Inr rs"
  shows "distinct (map rID rs)"
proof -
  let ?xs = "filter (\<lambda>r. \<not> Published r \<and> \<not> rCreatedAt r > t) (grange rank (reviews m))"
  have "distinct (map rID ?xs)" using keyed_distinct_grange [OF assms(1)] by (rule distinct_map_filter)
  moreover have "mset (map rID rs) = mset (map rID ?xs)"
    using assms(2) by (auto simp: DueReviews_def pickReviews_def)
  ultimately show ?thesis using mset_eq_imp_distinct_iff by blast
qed

definition same_but_reviews :: "Memory \<Rightarrow> Memory \<Rightarrow> bool" where
  "same_but_reviews m m' \<longleftrightarrow> m'\<lparr>reviews := []\<rparr> = m\<lparr>reviews := []\<rparr>"

text \<open>The pass over the reviews opens exactly those that have been hidden for a week, at the time of
  the pass, and changes nothing else. It does not look at disputes: a review of a deal under
  dispute is opened like any other.\<close>

theorem publishDueReviews_result:
  assumes "keyed rID (reviews (mem w))"
  shows "\<exists>w'. publishDueReviews e w = (Inr (), w') \<and> same_but_reviews (mem w) (mem w')
    \<and> map_of (reviews (mem w')) = (\<lambda>i. map_option (\<lambda>r.
        if \<not> Published r \<and> rCreatedAt r + HoldPeriod \<le> clock e 0
        then r\<lparr>rPublishedAt := Some (clock e 0)\<rparr> else r) (map_of (reviews (mem w)) i))"
proof -
  let ?now = "clock e 0"
  let ?f = "\<lambda>r. let r = r\<lparr>rPublishedAt := Some ?now\<rparr> in bnd (put (UpdateReview r)) (\<lambda>_. notifyPublished r)"
  obtain rs where rs: "DueReviews (iter e 0) (?now - HoldPeriod) (mem w) = Inr rs"
    by (rule that [OF DueReviews_def])
  have S: "set rs = {r \<in> set (gvals (reviews (mem w))). \<not> Published r \<and> rCreatedAt r + HoldPeriod \<le> ?now}"
    unfolding DueReviews_set [OF rs] by (intro Collect_cong) linarith
  have run: "publishDueReviews e w = each ?f rs w"
  proof -
    let ?p = "\<lambda>r. \<not> ShouldPublish (Some r) None ?now"
    have "publishDueReviews e w = each (\<lambda>r. if ?p r then ret () else ?f r) rs w"
      using rs by (simp only: publishDueReviews_def Let_def bnd_def get_def prod.case sum.case)
    also have "\<dots> = each ?f (filter (\<lambda>r. \<not> ?p r) rs) w" by (simp only: each_skip)
    also have "filter (\<lambda>r. \<not> ?p r) rs = rs"
      using S by (auto simp: ShouldPublish_def intro!: filter_True)
    finally show ?thesis .
  qed
  have "\<exists>w'. each ?f rs w = (Inr (), w') \<and> map_of (reviews (mem w')) = (\<lambda>i.
      map_option (\<lambda>b. if b \<in> set rs then b\<lparr>rPublishedAt := Some ?now\<rparr> else b)
        (map_of (reviews (mem w)) i)) \<and> same_but_reviews (mem w) (mem w')"
  proof (rule review_rows.each_rewrite [OF _ _ assms])
    show "\<exists>w1. ?f x w = (Inr (), w1) \<and> map_of (reviews (mem w1)) = (map_of (reviews (mem w)))
        (rID x \<mapsto> x\<lparr>rPublishedAt := Some ?now\<rparr>) \<and> same_but_reviews (mem w) (mem w1)"
      if "map_of (reviews (mem w)) (rID x) \<noteq> None" for x w
      using that by (auto simp: bnd_def put_def UpdateReview_def notifyPublished_def Send_def
          update_conv' same_but_reviews_def)
    show "distinct (map rID rs)" by (rule DueReviews_distinct [OF assms rs])
  qed (auto simp: S same_but_reviews_def)
  then obtain w' where w': "each ?f rs w = (Inr (), w')" and fr: "same_but_reviews (mem w) (mem w')"
    and m: "map_of (reviews (mem w')) = (\<lambda>i. map_option (\<lambda>b. if b \<in> set rs
      then b\<lparr>rPublishedAt := Some ?now\<rparr> else b) (map_of (reviews (mem w)) i))" by blast
  have "map_of (reviews (mem w')) i = map_option (\<lambda>r.
      if \<not> Published r \<and> rCreatedAt r + HoldPeriod \<le> ?now
      then r\<lparr>rPublishedAt := Some ?now\<rparr> else r) (map_of (reviews (mem w)) i)" for i
    using keyed_get_mem [OF assms, of i] by (cases "map_of (reviews (mem w)) i") (simp_all add: m S)
  then show ?thesis using run w' fr by (intro exI [of _ w'] conjI ext) simp_all
qed

theorem publishDueReviews_result_witness:
  "\<exists>w'. publishDueReviews (env_at (8 * 24 * Hour) ''n'')
      (with_reviews fixed_job (a_deal DealCompleted) [a_review ''r1'' ''boris'' ''anna'' 4 1]) = (Inr (), w')
    \<and> map_option Published (map_of (reviews (mem w')) ''r1'') = Some True"
proof -
  let ?w = "with_reviews fixed_job (a_deal DealCompleted) [a_review ''r1'' ''boris'' ''anna'' 4 1]"
  have "keyed rID (reviews (mem ?w))" by code_simp
  moreover have "map_of (reviews (mem ?w)) ''r1'' = Some (a_review ''r1'' ''boris'' ''anna'' 4 1)"
    by (simp add: with_reviews_def a_review_def)
  ultimately show ?thesis
    using publishDueReviews_result [of ?w "env_at (8 * 24 * Hour) ''n''"]
    by (auto simp: env_at_def a_review_def Published_def HoldPeriod_def duration_defs)
qed


section \<open>Answering\<close>

text \<open>The person reviewed, and nobody else, answers a published review, once: the answer is stored
  with its time and a second answer is refused with no change.\<close>

theorem ReplyToReview_once:
  assumes "keyed rID (reviews (mem w))" and "ReplyToReview e u k text w = (Inr r, w1)"
  shows "rTargetID r = u \<and> Published r \<and> rReplyText r = TrimSpace text \<and> 0 < length (rReplyText r)
    \<and> length (rReplyText r) \<le> 500 \<and> map_of (reviews (mem w1)) k = Some r
    \<and> ReplyToReview e' u k text' w1 = (Inl ErrReplyTwice, w1)"
proof -
  from assms(2) obtain r0 where r0: "map_of (reviews (mem w)) k = Some r0" and c: "CanReply r0 u = None"
    and v: "ValidateReply text = Inr (rReplyText r)"
    and r: "r = r0\<lparr>rReplyText := rReplyText r, rReplyAt := Some (clock e 0)\<rparr>"
    and m: "reviews (mem w1) = AList.update (rID r) r (reviews (mem w))"
    by (auto simp: ReplyToReview_def Let_def op_simps ReviewByID_def store_simps)
  have rid: "rID r = k" using keyed_get [OF assms(1) r0] by (subst r) simp
  have f: "rTargetID r = u" "Published r"
    using c by (subst r; simp add: CanReply_def Published_def split: if_splits)+
  have t: "rReplyText r = TrimSpace text" "rReplyText r \<noteq> []" "length (rReplyText r) \<le> 500"
    using v by (auto simp: ValidateReply_def maxReviewText_def Let_def split: if_splits)
  have row: "map_of (reviews (mem w1)) k = Some r" using m rid by (simp add: update_conv')
  then have "ReplyToReview e' u k text' w1 = (Inl ErrReplyTwice, w1)"
    using f t by (simp add: ReplyToReview_def bnd_def get_def ReviewByID_def CanReply_def
        check_def fail_def)
  then show ?thesis using f t row by simp
qed

theorem ReplyToReview_once_witness:
  "\<exists>r w1. ReplyToReview (env_at 5 ''n'') ''anna'' ''r1'' (text_of 3) (with_reviews fixed_job
       (a_deal DealCompleted) [(a_review ''r1'' ''boris'' ''anna'' 4 1)\<lparr>rPublishedAt := Some 2\<rparr>]) = (Inr r, w1)
    \<and> ReplyToReview (env_at 6 ''n'') ''anna'' ''r1'' (text_of 4) w1 = (Inl ErrReplyTwice, w1)"
proof -
  let ?w = "with_reviews fixed_job (a_deal DealCompleted)
    [(a_review ''r1'' ''boris'' ''anna'' 4 1)\<lparr>rPublishedAt := Some 2\<rparr>]"
  let ?r = "ReplyToReview (env_at 5 ''n'') ''anna'' ''r1'' (text_of 3) ?w"
  have "case fst ?r of Inl _ \<Rightarrow> False | Inr _ \<Rightarrow> True" by code_simp
  then obtain r w' where r: "?r = (Inr r, w')" by (cases ?r) (auto split: sum.splits)
  have "keyed rID (reviews (mem ?w))" by code_simp
  from ReplyToReview_once [OF this r] r show ?thesis by blast
qed


section \<open>The rating\<close>

lemma trunc_between: "10 \<le> x \<Longrightarrow> x < 51 \<Longrightarrow> 10 \<le> trunc x \<and> trunc x \<le> 50"
  unfolding trunc_def by simp

lemma fl_between: "of_int a \<le> x \<Longrightarrow> x \<le> of_int b \<Longrightarrow> \<bar>a\<bar> \<le> 2 ^ 53 \<Longrightarrow> \<bar>b\<bar> \<le> 2 ^ 53 \<Longrightarrow>
    of_int a \<le> fl x \<and> fl x \<le> of_int b"
  using fl_mono [of "of_int a" x] fl_mono [of x "of_int b"] fl_of_int [of a] fl_of_int [of b] by simp

lemma average_tenths:
  assumes "0 < c" and "c \<le> s" and "s \<le> 5 * c" and "c \<le> 2 ^ 50"
  shows "1 \<le> fdiv (f64 (trunc (fadd (fmul (fdiv (f64 s) (f64 c)) (f64 10)) (1/2)))) (f64 10)
    \<and> fdiv (f64 (trunc (fadd (fmul (fdiv (f64 s) (f64 c)) (f64 10)) (1/2)))) (f64 10) \<le> 5"
proof -
  have sc: "f64 s = of_int s" "f64 c = of_int c" using assms by (auto intro!: f64_exact)
  have ten: "f64 10 = 10" using f64_exact [of 10] by simp
  define a where "a = fdiv (f64 s) (f64 c)"
  have "1 \<le> (of_int s / of_int c :: rat)" "(of_int s / of_int c :: rat) \<le> 5"
    using assms by (simp_all add: field_simps flip: of_int_mult)
  then have a: "1 \<le> a" "a \<le> 5"
    using fl_between [of 1 "of_int s / of_int c" 5] by (simp_all add: a_def fdiv_def sc)
  then have p: "10 \<le> fmul a 10" "fmul a 10 \<le> 50"
    using fl_between [of 10 "a * 10" 50] by (simp_all add: fmul_def)
  have half: "fl (101/2) = 101/2" by code_simp
  have "10 \<le> fadd (fmul a 10) (1/2)"
    using p fl_mono [of 10 "fmul a 10 + 1/2"] fl_of_int [of 10] by (simp add: fadd_def)
  moreover have "fadd (fmul a 10) (1/2) \<le> 101/2"
    using p fl_mono [of "fmul a 10 + 1/2" "101/2"] half by (simp add: fadd_def)
  ultimately have t: "10 \<le> trunc (fadd (fmul a 10) (1/2))" "trunc (fadd (fmul a 10) (1/2)) \<le> 50"
    using trunc_between by auto
  define n where "n = trunc (fadd (fmul a 10) (1/2))"
  have "f64 n = of_int n" using t by (auto simp: n_def intro!: f64_exact)
  moreover have "1 \<le> (of_int n / 10 :: rat)" "(of_int n / 10 :: rat) \<le> 5" using t by (simp_all add: n_def)
  ultimately have "1 \<le> fdiv (f64 n) 10" "fdiv (f64 n) 10 \<le> 5"
    using fl_between [of 1 "of_int n / 10" 5] by (simp_all add: fdiv_def)
  then show ?thesis by (simp add: ten a_def n_def)
qed

text \<open>The rating of a person counts exactly the published reviews about them of the last year; with
  no such review it is zero, otherwise it lies between one and five stars, whatever the rounding
  of the average to a tenth in floating point.\<close>

theorem RatingOf_bounds:
  assumes "\<forall>r \<in> set (gvals (reviews m)). review_wf r" and "length (reviews m) \<le> 2 ^ 50"
    and "RatingOf rank u since m = Inr s"
  shows "rsUserID s = u \<and> rsCount s = int (length (filter (\<lambda>r. rTargetID r = u \<and> Published r
        \<and> since \<le> rCreatedAt r) (gvals (reviews m))))
    \<and> (if rsCount s = 0 then rsRating s = 0 else 1 \<le> rsRating s \<and> rsRating s \<le> 5)"
proof -
  define rs where "rs = pickReviews rank
    (\<lambda>r. rTargetID r = u \<and> Published r \<and> \<not> rCreatedAt r < since) 0 0 byCreated m"
  let ?P = "\<lambda>r. rTargetID r = u \<and> Published r \<and> since \<le> rCreatedAt r"
  have set_rs: "set rs \<subseteq> set (gvals (reviews m))" "\<forall>r \<in> set rs. Published r \<and> since \<le> rCreatedAt r"
    by (auto simp: rs_def pickReviews_def)
  have len: "length rs = length (filter ?P (gvals (reviews m)))"
    by (simp add: rs_def pickReviews_def not_less)
  have rated: "rated (since + RatingWindow) rs = rs" using set_rs(2) by (simp add: rated_def)
  define sm where "sm = sum_list (map rStars rs)"
  have loop: "rating_loop (since + RatingWindow - RatingWindow) 0 0 rs = (sm, int (length rs))"
    unfolding rating_loop_eq rated by (simp add: sm_def)
  have b: "int (length rs) \<le> sm" "sm \<le> 5 * int (length rs)"
    using rated_sum_bounds [of rs] assms(1) set_rs(1) by (auto simp: sm_def review_wf_def)
  have "length rs \<le> length (gvals (reviews m))" unfolding len by (rule length_filter_le)
  then have "int (length rs) \<le> 2 ^ 50" using assms(2) by (simp add: gvals_def)
  then have "1 \<le> rsRating s \<and> rsRating s \<le> 5" if "rs \<noteq> []"
    using that assms(3) average_tenths [of "int (length rs)" sm] b loop
    by (auto simp: RatingOf_def Let_def Rating_def simp flip: rs_def)
  moreover have "rsUserID s = u \<and> rsCount s = int (length rs) \<and> (rs = [] \<longrightarrow> rsRating s = 0)"
    using assms(3) loop by (auto simp: RatingOf_def Let_def Rating_def simp flip: rs_def)
  ultimately show ?thesis unfolding len [symmetric] by simp
qed

theorem RatingOf_bounds_witness:
  "\<exists>s. RatingOf (\<lambda>_. 0) ''anna'' 0 (mem (with_reviews fixed_job (a_deal DealCompleted)
      [(a_review ''r1'' ''boris'' ''anna'' 4 1)\<lparr>rPublishedAt := Some 2\<rparr>])) = Inr s
    \<and> rsCount s = 1 \<and> rsRating s \<le> 5"
proof -
  let ?m = "mem (with_reviews fixed_job (a_deal DealCompleted)
      [(a_review ''r1'' ''boris'' ''anna'' 4 1)\<lparr>rPublishedAt := Some 2\<rparr>])"
  have "\<forall>r \<in> set (gvals (reviews ?m)). review_wf r" "length (reviews ?m) \<le> 2 ^ 50"
    "length (filter (\<lambda>r. rTargetID r = ''anna'' \<and> Published r \<and> 0 \<le> rCreatedAt r) (gvals (reviews ?m))) = 1"
    by (simp_all add: with_reviews_def a_review_def review_wf_def Published_def)
  then show ?thesis using RatingOf_bounds [of ?m "\<lambda>_. 0" "''anna''" 0] by (auto simp: RatingOf_def Let_def)
qed

end
