(* ===== verification/Disputes_Properties.thy ===== *)
theory Disputes_Properties
  imports Disputes_Service Reviews_Properties
begin

text \<open>
  What moderation guarantees: one open dispute per deal, a deal that waits for the decision and is
  closed by it together with its job, reviews frozen in the meantime, and complaints that are
  decided once.
\<close>


section \<open>Opening a dispute\<close>

definition follows :: "Memory \<Rightarrow> Memory \<Rightarrow> string \<Rightarrow> Status \<Rightarrow> time \<Rightarrow> bool" where
  "follows m m' i st now \<longleftrightarrow> map_of (jobs m') = (\<lambda>k. map_option (\<lambda>j.
     if k = i then j\<lparr>jStatus := st, jUpdatedAt := now\<rparr> else j) (map_of (jobs m) k))"

lemma follows_job: "follows m m' i st now \<Longrightarrow> map_of (jobs m) i = Some j \<Longrightarrow>
    map_of (jobs m') i = Some (j\<lparr>jStatus := st, jUpdatedAt := now\<rparr>)"
  by (simp add: follows_def)

text \<open>A deal row is replaced and its job follows: the shape of the writes of both operations.\<close>

lemma update_and_follow:
  assumes "keyed jID (jobs (mem w))" and "map_of (deals (mem w)) (dID d) \<noteq> None"
  shows "\<exists>w'. bnd (put (UpdateDeal d)) (\<lambda>_. follow_job (dJobID d) st now) w = (Inr (), w')
    \<and> deals (mem w') = AList.update (dID d) d (deals (mem w)) \<and> follows (mem w) (mem w') (dJobID d) st now
    \<and> disputes (mem w') = disputes (mem w) \<and> reviews (mem w') = reviews (mem w)
    \<and> keyed jID (jobs (mem w'))"
proof -
  let ?m = "(mem w)\<lparr>deals := AList.update (dID d) d (deals (mem w))\<rparr>"
  have u: "UpdateDeal d (mem w) = Inr ?m" using assms(2) by (simp add: UpdateDeal_def)
  from follow_job_run [of "w\<lparr>mem := ?m\<rparr>" "dJobID d" st now] assms(1) obtain w' where
    w': "follow_job (dJobID d) st now (w\<lparr>mem := ?m\<rparr>) = (Inr (), w')"
    and fr: "mem w' = ?m\<lparr>jobs := jobs (mem w')\<rparr>" and k: "keyed jID (jobs (mem w'))"
    and f: "follows (mem w) (mem w') (dJobID d) st now"
    by (auto simp: follows_def)
  have "deals (mem w') = AList.update (dID d) d (deals (mem w))" "disputes (mem w') = disputes (mem w)"
    "reviews (mem w') = reviews (mem w)" by (subst fr; simp)+
  with u w' f k show ?thesis by (simp add: bnd_def put_def)
qed

text \<open>The run of a successful opening.\<close>

lemma OpenDispute_run:
  assumes "keyed jID (jobs (mem w))" and "keyed dID (deals (mem w))"
    and "OpenDispute e u k reason photos w = (Inr p, w')"
  obtains d body where "map_of (deals (mem w)) k = Some d" and "CanOpenDispute d u = None"
    and "ValidateReason reason = Inr body" and "p = new_dispute (fresh e 0) d u body photos (clock e 0)"
    and "\<forall>x \<in> set (gvals (disputes (mem w))). \<not> dispute_clash x p"
    and "disputes (mem w') = AList.update (pID p) p (disputes (mem w))"
    and "reviews (mem w') = reviews (mem w)"
    and "if dStatus d = DealDisputed \<or> dStatus d = DealCompleted
      then deals (mem w') = deals (mem w) \<and> jobs (mem w') = jobs (mem w)
      else deals (mem w') = AList.update k (disputed d u body (clock e 0)) (deals (mem w))
        \<and> follows (mem w) (mem w') (dJobID d) StatusDisputed (clock e 0)"
proof -
  let ?now = "clock e 0"
  from assms(3) obtain d body m1 w2 where d: "map_of (deals (mem w)) k = Some d" and can: "CanOpenDispute d u = None"
    and v: "ValidateReason reason = Inr body" and p: "p = new_dispute (fresh e 0) d u body photos ?now"
    and c: "CreateDispute p (mem w) = Inr m1"
    and s: "suspend_deal d u body ?now (w\<lparr>mem := m1\<rparr>) = (Inr (), w2)" and w': "mem w' = mem w2"
    by (auto simp: OpenDispute_def Let_def op_simps DealByID_def)
  have dk: "dID d = k" using keyed_get [OF assms(2) d] .
  have m1: "jobs m1 = jobs (mem w)" "deals m1 = deals (mem w)" "reviews m1 = reviews (mem w)"
    "disputes m1 = AList.update (pID p) p (disputes (mem w))"
    and nc: "\<forall>x \<in> set (gvals (disputes (mem w))). \<not> dispute_clash x p"
    using c by (simp_all add: store_simps)
  show ?thesis
  proof (cases "dStatus d = DealDisputed \<or> dStatus d = DealCompleted")
    case True
    then have "w2 = w\<lparr>mem := m1\<rparr>" using s by (auto simp: suspend_deal_def ret_def)
    then show ?thesis using that [OF d can v p nc] True m1 w' by simp
  next
    case False
    let ?d = "disputed d u body ?now"
    have "\<exists>w3. bnd (put (UpdateDeal ?d)) (\<lambda>_. follow_job (dJobID ?d) StatusDisputed ?now) (w\<lparr>mem := m1\<rparr>) = (Inr (), w3)
      \<and> deals (mem w3) = AList.update (dID ?d) ?d (deals m1) \<and> follows m1 (mem w3) (dJobID ?d) StatusDisputed ?now
      \<and> disputes (mem w3) = disputes m1 \<and> reviews (mem w3) = reviews m1 \<and> keyed jID (jobs (mem w3))"
      using update_and_follow [of "w\<lparr>mem := m1\<rparr>" ?d StatusDisputed ?now] assms(1) d dk m1
      by (simp add: disputed_def)
    then show ?thesis
      using that [OF d can v p nc] False s m1 w' dk
      by (auto simp: suspend_deal_def disputed_def follows_def)
  qed
qed

text \<open>C13: A party opens a dispute from the start of the work on, with a reason of twenty to a thousand
  characters. The deal leaves its stage and its job shows the dispute, unless the deal is already
  completed; no acceptance deadline closes the deal any more, and nobody opens a second dispute.\<close>

theorem OpenDispute_result:
  assumes "keyed jID (jobs (mem w))" and "keyed dID (deals (mem w))" and "keyed pID (disputes (mem w))"
    and "unique_rows dispute_clash (disputes (mem w))"
    and "map_of (disputes (mem w)) (fresh e 0) = None"
    and "OpenDispute e u k reason photos w = (Inr p, w')"
  shows "unique_rows dispute_clash (disputes (mem w')) \<and> p \<in> set (gvals (disputes (mem w')))
    \<and> pStatus p = DisputeOpen \<and> pDealID p = k \<and> 20 \<le> length (pReason p) \<and> length (pReason p) \<le> 1000
    \<and> (\<exists>d d'. map_of (deals (mem w)) k = Some d \<and> (\<exists>r. plays d u r) \<and> map_of (deals (mem w')) k = Some d'
        \<and> dStatus d' = (if dStatus d = DealCompleted then DealCompleted else DealDisputed)
        \<and> (\<forall>t j. \<not> deal_overdue t j d'))
    \<and> (\<exists>x. OpenDispute e' v k reason' photos' w' = (Inl x, w'))"
proof -
  from assms(1,2,6) obtain d body where d: "map_of (deals (mem w)) k = Some d" and can: "CanOpenDispute d u = None"
    and v: "ValidateReason reason = Inr body" and p: "p = new_dispute (fresh e 0) d u body photos (clock e 0)"
    and nc: "\<forall>x \<in> set (gvals (disputes (mem w))). \<not> dispute_clash x p"
    and ds: "disputes (mem w') = AList.update (pID p) p (disputes (mem w))"
    and st: "if dStatus d = DealDisputed \<or> dStatus d = DealCompleted
      then deals (mem w') = deals (mem w) \<and> jobs (mem w') = jobs (mem w)
      else deals (mem w') = AList.update k (disputed d u body (clock e 0)) (deals (mem w))
        \<and> follows (mem w) (mem w') (dJobID d) StatusDisputed (clock e 0)"
    by (rule OpenDispute_run)
  have dk: "dID d = k" using keyed_get [OF assms(2) d] .
  have len: "20 \<le> length body" "length body \<le> 1000"
    using trim_between_ok [of minReason maxReason ErrDisputeReason reason body] v
    by (simp_all add: ValidateReason_def minReason_def maxReason_def)
  have pf: "pStatus p = DisputeOpen" "pDealID p = k" "pReason p = body" by (simp_all add: p new_dispute_def dk)
  obtain d' where d': "map_of (deals (mem w')) k = Some d'" "dID d' = k"
    "dStatus d' = (if dStatus d = DealCompleted then DealCompleted else DealDisputed)"
    using st d dk by (cases "dStatus d = DealDisputed \<or> dStatus d = DealCompleted")
      (auto simp: update_conv' disputed_def)
  have pm: "p \<in> set (gvals (disputes (mem w')))" using ds keyed_gvals_update [OF assms(3), of p] by simp
  have "CreateDispute q (mem w') = Inl ErrDisputeExists" if "pDealID q = k" for q
    using pm pf that by (auto simp: CreateDispute_def dispute_clash_def)
  then have "\<exists>x. OpenDispute e' v k reason' photos' w' = (Inl x, w')"
    using d' by (simp add: OpenDispute_def Let_def bnd_def get_def DealByID_def check_def need_def put_def
        ret_def fail_def new_dispute_def split: option.split sum.split)
  moreover have "unique_rows dispute_clash (disputes (mem w'))"
    using assms(4) nc unfolding unique_rows_def ds keyed_gvals_update [OF assms(3)] by auto
  moreover have "\<exists>r. plays d u r" using can unfolding CanOpenDispute_None by blast
  ultimately show ?thesis using pf len pm d d' by (auto simp: deal_overdue_def)
qed

theorem OpenDispute_result_witness:
  "\<exists>p w'. OpenDispute (env_at 5 ''p9'') ''anna'' ''d1'' (text_of 25) []
      (with_deal (fixed_job\<lparr>jStatus := StatusWorkDone\<rparr>) (a_deal DealWorkDone)) = (Inr p, w')
    \<and> pStatus p = DisputeOpen \<and> (\<exists>x. OpenDispute (env_at 6 ''p10'') ''boris'' ''d1'' (text_of 30) [] w' = (Inl x, w'))"
proof -
  let ?w = "with_deal (fixed_job\<lparr>jStatus := StatusWorkDone\<rparr>) (a_deal DealWorkDone)"
  let ?r = "OpenDispute (env_at 5 ''p9'') ''anna'' ''d1'' (text_of 25) [] ?w"
  have "case fst ?r of Inl _ \<Rightarrow> False | Inr _ \<Rightarrow> True" by code_simp
  then obtain p w' where r: "?r = (Inr p, w')" by (cases ?r) (auto split: sum.splits)
  have "keyed jID (jobs (mem ?w))" "keyed dID (deals (mem ?w))" "keyed pID (disputes (mem ?w))"
    "unique_rows dispute_clash (disputes (mem ?w))"
    "map_of (disputes (mem ?w)) (fresh (env_at 5 ''p9'') 0) = None" by code_simp+
  from OpenDispute_result [OF this r] r show ?thesis by blast
qed


text \<open>While the dispute over a completed or suspended deal is open, neither party can leave a review of
  the deal: every attempt is refused and changes nothing. (Earlier disputes of the deal are older
  than the new one.)\<close>

theorem OpenDispute_freezes_reviews:
  assumes "keyed jID (jobs (mem w))" and "keyed dID (deals (mem w))" and "keyed pID (disputes (mem w))"
    and "map_of (disputes (mem w)) (fresh e 0) = None"
    and "\<forall>q \<in> set (gvals (disputes (mem w))). pDealID q = k \<longrightarrow> pCreatedAt q < clock e 0"
    and "OpenDispute e u k reason photos w = (Inr p, w')"
  shows "\<exists>x. LeaveReview e' v k inp w' = (Inl x, w')
    \<and> x \<in> {ErrReviewForbidden, ErrReviewTooEarly, ErrReviewFrozen}"
proof -
  from assms(1,2,6) obtain d body where d: "map_of (deals (mem w)) k = Some d"
    and p: "p = new_dispute (fresh e 0) d u body photos (clock e 0)"
    and ds: "disputes (mem w') = AList.update (pID p) p (disputes (mem w))"
    and st: "if dStatus d = DealDisputed \<or> dStatus d = DealCompleted
      then deals (mem w') = deals (mem w) \<and> jobs (mem w') = jobs (mem w)
      else deals (mem w') = AList.update k (disputed d u body (clock e 0)) (deals (mem w))
        \<and> follows (mem w) (mem w') (dJobID d) StatusDisputed (clock e 0)"
    by (rule OpenDispute_run)
  have dk: "dID d = k" using keyed_get [OF assms(2) d] .
  have pf: "pDealID p = k" "pStatus p = DisputeOpen" "pCreatedAt p = clock e 0" by (simp_all add: p new_dispute_def dk)
  have ds': "set (gvals (disputes (mem w'))) = insert p {x \<in> set (gvals (disputes (mem w))). pID x \<noteq> pID p}"
    using ds keyed_gvals_update [OF assms(3), of p] by simp
  have "DisputeByDeal rank k (mem w') = Inr p" for rank
  proof (cases "DisputeByDeal rank k (mem w')")
    case (Inl x)
    then show ?thesis using pf ds' unfolding DisputeByDeal_Inl by auto
  next
    case (Inr q)
    have "clock e 0 \<le> pCreatedAt q" "q \<in> set (gvals (disputes (mem w')))" "pDealID q = k"
      using DisputeByDeal_Inr [OF Inr] pf ds' by auto
    then show ?thesis using Inr assms(5) ds' by force
  qed
  note found = this
  obtain d' where d': "map_of (deals (mem w')) k = Some d'" "dID d' = k"
    using st d dk by (cases "dStatus d = DealDisputed \<or> dStatus d = DealCompleted")
      (auto simp: update_conv' disputed_def)
  show ?thesis
  proof (cases "CanReview d' v")
    case None
    then show ?thesis using d' found pf
      by (simp add: LeaveReview_def bnd_def get_def DealByID_def check_def ret_def frozen_def attempt_def
          refuse_def fail_def)
  next
    case (Some x)
    then have "x \<in> {ErrReviewForbidden, ErrReviewTooEarly}" by (auto simp: CanReview_def split: if_splits)
    then show ?thesis using d' Some
      by (auto simp: LeaveReview_def bnd_def get_def DealByID_def check_def fail_def)
  qed
qed

theorem OpenDispute_freezes_reviews_witness:
  "\<exists>p w' x. OpenDispute (env_at 5 ''p9'') ''anna'' ''d1'' (text_of 25) []
      (with_deal (fixed_job\<lparr>jStatus := StatusCompleted\<rparr>) (a_deal DealCompleted)) = (Inr p, w')
    \<and> LeaveReview (env_at 6 ''r1'') ''boris'' ''d1'' (review_body 1 [] [] []) w' = (Inl x, w')"
proof -
  let ?w = "with_deal (fixed_job\<lparr>jStatus := StatusCompleted\<rparr>) (a_deal DealCompleted)"
  let ?r = "OpenDispute (env_at 5 ''p9'') ''anna'' ''d1'' (text_of 25) [] ?w"
  have "case fst ?r of Inl _ \<Rightarrow> False | Inr _ \<Rightarrow> True" by code_simp
  then obtain p w' where r: "?r = (Inr p, w')" by (cases ?r) (auto split: sum.splits)
  have "keyed jID (jobs (mem ?w))" "keyed dID (deals (mem ?w))" "keyed pID (disputes (mem ?w))"
    "map_of (disputes (mem ?w)) (fresh (env_at 5 ''p9'') 0) = None"
    "\<forall>q \<in> set (gvals (disputes (mem ?w))). pDealID q = ''d1'' \<longrightarrow> pCreatedAt q < clock (env_at 5 ''p9'') 0"
    by code_simp+
  from OpenDispute_freezes_reviews [OF this r] r show ?thesis by blast
qed


section \<open>Deciding a dispute\<close>

lemma decided_simps [simp]:
  "dID (decided d x t u now) = dID d" "dJobID (decided d x t u now) = dJobID d"
  "dStatus (decided d x t u now) = (if x = OutcomeClient then DealCancelled else DealCompleted)"
  "dClosedAt (decided d x t u now) = Some now" "dPrice (decided d x t u now) = dPrice d"
  by (simp_all add: decided_def Let_def)

lemma close_disputed_run:
  assumes "keyed jID (jobs (mem w))" and "keyed dID (deals (mem w))"
  shows "\<exists>w'. close_disputed k x t u now w = (Inr (), w') \<and> disputes (mem w') = disputes (mem w)
    \<and> (\<forall>d. map_of (deals (mem w)) k = Some d \<longrightarrow> (if dStatus d = DealDisputed
        then deals (mem w') = AList.update k (decided d x t u now) (deals (mem w))
          \<and> follows (mem w) (mem w') (dJobID d) (JobStatusForDeal (dStatus (decided d x t u now))) now
        else deals (mem w') = deals (mem w) \<and> jobs (mem w') = jobs (mem w)))"
proof (cases "map_of (deals (mem w)) k")
  case None
  then show ?thesis by (simp add: close_disputed_def attempt_def get_def DealByID_def ret_def)
next
  case (Some d)
  have dk: "dID d = k" using keyed_get [OF assms(2) Some] .
  show ?thesis
  proof (cases "dStatus d = DealDisputed")
    case False
    with Some show ?thesis by (simp add: close_disputed_def attempt_def get_def DealByID_def ret_def)
  next
    case True
    let ?d = "decided d x t u now"
    show ?thesis
      using update_and_follow [OF assms(1), of ?d "JobStatusForDeal (dStatus ?d)" now] Some True dk
      by (auto simp: close_disputed_def attempt_def get_def DealByID_def Let_def)
  qed
qed

text \<open>C14: A moderator decides an open dispute once, with a valid outcome and a reasoned text. A deal under
  dispute is closed at that moment, cancelled when the client is right and completed otherwise, its
  price kept, and the job shows the same; any other deal is left alone. A second decision is
  refused.\<close>

theorem ResolveDispute_result:
  assumes "keyed jID (jobs (mem w))" and "keyed dID (deals (mem w))" and "keyed pID (disputes (mem w))"
    and "ResolveDispute e u k x reason w = (Inr p, w')" and "map_of (deals (mem w)) (pDealID p) = Some d"
  shows "pStatus p = DisputeResolved \<and> pOutcome p = x \<and> ValidOutcome x \<and> 20 \<le> length (pResolution p)
    \<and> map_of (disputes (mem w')) k = Some p
    \<and> (if dStatus d = DealDisputed
       then \<exists>d'. map_of (deals (mem w')) (pDealID p) = Some d' \<and> dClosedAt d' = Some (clock e 0)
          \<and> dStatus d' = (if x = OutcomeClient then DealCancelled else DealCompleted) \<and> dPrice d' = dPrice d
          \<and> (\<forall>j. map_of (jobs (mem w)) (dJobID d) = Some j \<longrightarrow>
              map_of (jobs (mem w')) (dJobID d) = Some (j\<lparr>jStatus := (if x = OutcomeClient then StatusCancelled
                else StatusCompleted), jUpdatedAt := clock e 0\<rparr>))
       else deals (mem w') = deals (mem w) \<and> jobs (mem w') = jobs (mem w))
    \<and> ResolveDispute e' u' k x' reason' w' = (Inl ErrDisputeClosed, w')"
proof -
  let ?now = "clock e 0"
  from assms(4) obtain p0 body m1 w2 where p0: "map_of (disputes (mem w)) k = Some p0" and vo: "ValidOutcome x"
    and v: "ValidateResolution reason = Inr body" and p: "p = resolved p0 x body u ?now"
    and m1: "UpdateDispute p (mem w) = Inr m1"
    and cl: "close_disputed (pDealID p) x body u ?now (w\<lparr>mem := m1\<rparr>) = (Inr (), w2)" and w': "mem w' = mem w2"
    by (auto simp: ResolveDispute_def Let_def op_simps DisputeByID_def)
  have pk: "pID p = k" using keyed_get [OF assms(3) p0] by (simp add: p resolved_def)
  have f1: "jobs m1 = jobs (mem w)" "deals m1 = deals (mem w)" "disputes m1 = AList.update k p (disputes (mem w))"
    using m1 pk by (simp_all add: store_simps)
  from close_disputed_run [of "w\<lparr>mem := m1\<rparr>" "pDealID p" x body u ?now] assms(1,2,5) f1 cl w'
  have ds: "disputes (mem w') = AList.update k p (disputes (mem w))"
    and st: "if dStatus d = DealDisputed
        then deals (mem w') = AList.update (pDealID p) (decided d x body u ?now) (deals (mem w))
          \<and> follows m1 (mem w') (dJobID d) (JobStatusForDeal (dStatus (decided d x body u ?now))) ?now
        else deals (mem w') = deals (mem w) \<and> jobs (mem w') = jobs (mem w)"
    by auto
  have row: "map_of (disputes (mem w')) k = Some p" by (simp add: ds update_conv')
  have len: "20 \<le> length body"
    using trim_between_ok [of minResolution maxResolution ErrDisputeResolution reason body] v
    by (simp add: ValidateResolution_def minResolution_def maxResolution_def)
  have pf: "pStatus p = DisputeResolved" "pOutcome p = x" "pResolution p = body" by (simp_all add: p resolved_def)
  have "ResolveDispute e' u' k x' reason' w' = (Inl ErrDisputeClosed, w')"
    using row pf by (simp add: ResolveDispute_def bnd_def get_def DisputeByID_def refuse_def fail_def)
  moreover have "map_of (jobs (mem w')) (dJobID d) = Some (j\<lparr>jStatus := (if x = OutcomeClient then StatusCancelled
      else StatusCompleted), jUpdatedAt := ?now\<rparr>)"
    if "map_of (jobs (mem w)) (dJobID d) = Some j" "dStatus d = DealDisputed" for j
    using that st f1 by (auto simp: follows_def split: if_splits)
  ultimately show ?thesis using row len pf vo st by (auto simp: update_conv')
qed

theorem ResolveDispute_result_witness:
  "\<exists>p w' d'. ResolveDispute (env_at 5 ''n'') ''mod'' ''p1'' OutcomeClient (text_of 25)
      (with_dispute (fixed_job\<lparr>jStatus := StatusDisputed\<rparr>) (a_deal DealDisputed) (a_dispute ''p1'' 1)) = (Inr p, w')
    \<and> map_of (deals (mem w')) (pDealID p) = Some d' \<and> dStatus d' = DealCancelled"
proof -
  let ?w = "with_dispute (fixed_job\<lparr>jStatus := StatusDisputed\<rparr>) (a_deal DealDisputed) (a_dispute ''p1'' 1)"
  let ?r = "ResolveDispute (env_at 5 ''n'') ''mod'' ''p1'' OutcomeClient (text_of 25) ?w"
  have "case fst ?r of Inl _ \<Rightarrow> False | Inr p \<Rightarrow> pDealID p = ''d1''" by code_simp
  then obtain p w' where r: "?r = (Inr p, w')" "pDealID p = ''d1''" by (cases ?r) (auto split: sum.splits)
  have "keyed jID (jobs (mem ?w))" "keyed dID (deals (mem ?w))" "keyed pID (disputes (mem ?w))" by code_simp+
  moreover have "map_of (deals (mem ?w)) (pDealID p) = Some (a_deal DealDisputed)"
    using r by (simp add: with_dispute_def with_deal_def a_deal_def)
  ultimately show ?thesis using ResolveDispute_result [OF _ _ _ r(1)] r by (fastforce simp: a_deal_def)
qed



section \<open>Complaints\<close>

lemma remove_job_run:
  assumes "keyed jID (jobs (mem w))" and "map_of (jobs (mem w)) i = Some j"
  shows "\<exists>w'. remove_job i body now w = (Inr (), w') \<and> complaints (mem w') = complaints (mem w)
    \<and> map_of (jobs (mem w')) i = Some (if CanTransition (jStatus j) StatusCancelled
        then j\<lparr>jStatus := StatusCancelled, jUpdatedAt := now\<rparr> else j)"
  using assms keyed_get [OF assms]
  by (simp add: remove_job_def attempt_def get_def ByID_def ret_def Let_def bnd_def ignore_def put_def
      Update_def Send_def update_conv')

text \<open>A moderator reviews an open complaint once. Removal takes a job off exactly when its status
  allows cancellation, no other action touches the job, and a second review is refused.\<close>

theorem ReviewComplaint_result:
  assumes "keyed jID (jobs (mem w))" and "keyed cID (complaints (mem w))"
    and "ReviewComplaint e u k a body w = (Inr c, w')" and "cTargetKind c = TargetJob"
    and "map_of (jobs (mem w)) (cTargetID c) = Some j"
  shows "cStatus c = ComplaintReviewed \<and> cAction c = a \<and> ValidAction a
    \<and> map_of (complaints (mem w')) k = Some c
    \<and> map_of (jobs (mem w')) (cTargetID c) = Some (if a = ActionRemoved \<and> CanTransition (jStatus j) StatusCancelled
        then j\<lparr>jStatus := StatusCancelled, jUpdatedAt := clock e 0\<rparr> else j)
    \<and> ReviewComplaint e' u' k a' body' w' = (Inl ErrComplaintClosed, w')"
proof -
  from assms(3) obtain c0 m1 w2 w3 where c0: "map_of (complaints (mem w)) k = Some c0" and va: "ValidAction a"
    and c: "c = reviewed c0 a body u (clock e 0)" and m1: "UpdateComplaint c (mem w) = Inr m1"
    and rm: "(if a = ActionRemoved \<and> cTargetKind c = TargetJob then remove_job (cTargetID c) body (clock e 0)
        else ret ()) (w\<lparr>mem := m1\<rparr>) = (Inr (), w2)"
    and wn: "warn_user c a body w2 = (Inr (), w3)" and w3: "mem w' = mem w3"
    by (auto simp: ReviewComplaint_def Let_def op_simps ComplaintByID_def)
  have w': "mem w' = mem w2" using wn w3 by (auto simp: warn_user_def Send_def ret_def split: if_splits)
  have ck: "cID c = k" and cf: "cStatus c = ComplaintReviewed" "cAction c = a"
    using keyed_get [OF assms(2) c0] by (simp_all add: c reviewed_def)
  have f1: "jobs m1 = jobs (mem w)" "complaints m1 = AList.update k c (complaints (mem w))"
    using m1 ck by (simp_all add: store_simps)
  have "complaints (mem w') = complaints m1 \<and> map_of (jobs (mem w')) (cTargetID c) =
      Some (if a = ActionRemoved \<and> CanTransition (jStatus j) StatusCancelled
        then j\<lparr>jStatus := StatusCancelled, jUpdatedAt := clock e 0\<rparr> else j)"
    using rm remove_job_run [of "w\<lparr>mem := m1\<rparr>" "cTargetID c" j body "clock e 0"] assms(1,4,5) f1 w'
    by (auto simp: ret_def split: if_splits)
  moreover from this have row: "map_of (complaints (mem w')) k = Some c" by (simp add: f1 update_conv')
  moreover have "ReviewComplaint e' u' k a' body' w' = (Inl ErrComplaintClosed, w')"
    using row cf by (simp add: ReviewComplaint_def bnd_def get_def ComplaintByID_def refuse_def fail_def)
  ultimately show ?thesis using va cf by (intro conjI) simp_all
qed

text \<open>A complaint about the sample job.\<close>

definition a_complaint :: Complaint where
  "a_complaint = new_complaint ''c1'' TargetJob ''j1'' ''boris'' (text_of 12) 1"

theorem ReviewComplaint_result_witness:
  "\<exists>c w'. ReviewComplaint (env_at 5 ''n'') ''mod'' ''c1'' ActionRemoved (text_of 4)
      ((with_job fixed_job)\<lparr>mem := (mem (with_job fixed_job))\<lparr>complaints := [(''c1'', a_complaint)]\<rparr>\<rparr>) = (Inr c, w')
    \<and> map_option jStatus (map_of (jobs (mem w')) ''j1'') = Some StatusCancelled"
proof -
  let ?w = "(with_job fixed_job)\<lparr>mem := (mem (with_job fixed_job))\<lparr>complaints := [(''c1'', a_complaint)]\<rparr>\<rparr>"
  let ?r = "ReviewComplaint (env_at 5 ''n'') ''mod'' ''c1'' ActionRemoved (text_of 4) ?w"
  have "case fst ?r of Inl _ \<Rightarrow> False | Inr c \<Rightarrow> cTargetKind c = TargetJob \<and> cTargetID c = ''j1''" by code_simp
  then obtain c w' where r: "?r = (Inr c, w')" "cTargetKind c = TargetJob" "cTargetID c = ''j1''"
    by (cases ?r) (auto split: sum.splits)
  have "keyed jID (jobs (mem ?w))" "keyed cID (complaints (mem ?w))"
    "CanTransition (jStatus fixed_job) StatusCancelled" by code_simp+
  moreover have "map_of (jobs (mem ?w)) (cTargetID c) = Some fixed_job"
    using r by (simp add: with_job_def fixed_job_def draft_job_def blank_draft_def)
  ultimately show ?thesis using ReviewComplaint_result [OF _ _ r(1,2)] r by auto
qed

end
