(* ===== verification/Bids_Service.thy ===== *)
theory Bids_Service
  imports Orders_Service
begin

text \<open>
  The reverse auction (\<^verbatim>\<open>services/orders/internal/service/bids.go\<close>, \<^verbatim>\<open>bids_accept.go\<close>): placing and
  withdrawing a bid, the finish with its scoring, the customer's decision and its expiry. The loops
  that rewrite bids are shown to rewrite the table row by row.
\<close>


section \<open>Placing and withdrawing\<close>

record BidInput =
  biPrice :: int
  biComment :: runes
  biUnitID :: "string option"

definition JobChannel :: "string \<Rightarrow> string" where
  "JobChannel jobID = ''job:'' @ jobID"

definition job_data :: "Job \<Rightarrow> (string \<times> string) list" where
  "job_data j = [(''route'', ''/jobs/'' @ jID j), (''jobId'', jID j)]"

fun rival_best :: "string \<Rightarrow> int \<Rightarrow> Bid list \<Rightarrow> int" where
  "rival_best ownerID best [] = best"
| "rival_best ownerID best (b # bs) =
     (if bStatus b = BidActive \<and> bOwnerID b \<noteq> ownerID
      then rival_best ownerID (if best = 0 \<or> bPrice b < best then bPrice b else best) bs
      else rival_best ownerID best bs)"

text \<open>The price to beat: the best one, or the best of the others when the best is one's own.\<close>

definition price_to_beat :: "env \<Rightarrow> string \<Rightarrow> string \<Rightarrow> Memory \<Rightarrow> int" where
  "price_to_beat e ownerID jobID m =
     (case BestBid (iter e 0) jobID m of
        Inl _ \<Rightarrow> 0
      | Inr b \<Rightarrow>
          if bOwnerID b = ownerID
          then (case BidsByJob (iter e 1) jobID m of
                  Inl _ \<Rightarrow> 0 | Inr bs \<Rightarrow> rival_best ownerID 0 bs)
          else bPrice b)"

definition retire_previous :: "env \<Rightarrow> string \<Rightarrow> string \<Rightarrow> time \<Rightarrow> unit op" where
  "retire_previous e jobID ownerID now =
     attempt (get (MyBidForJob (iter e 2) jobID ownerID)) (\<lambda>r.
     case r of
       Inl _ \<Rightarrow> ret ()
     | Inr prev \<Rightarrow>
         if bStatus prev = BidActive
         then put (UpdateBid (prev\<lparr>bStatus := BidWithdrawn, bUpdatedAt := now\<rparr>))
         else ret ())"

definition notifyOutbid :: "env \<Rightarrow> Job \<Rightarrow> Bid \<Rightarrow> unit op" where
  "notifyOutbid e j newBid =
     attempt (get (BidsByJob (iter e 3) (jID j))) (\<lambda>r.
     case r of
       Inl _ \<Rightarrow> ret ()
     | Inr bs \<Rightarrow>
         each (\<lambda>b.
           if bStatus b \<noteq> BidActive \<or> bOwnerID b = bOwnerID newBid \<or> bPrice b \<le> bPrice newBid
           then ret ()
           else Send (bOwnerID b) [Lit ''you were outbid'']
             (Txt (jTitle j) # Lit '' - now '' # MoneyRU (bPrice newBid) (bCurrency newBid))
             (job_data j)) bs)"

text \<open>Anti-sniping: a bid in the last minutes moves the finish.\<close>

definition extend_auction :: "Job \<Rightarrow> time \<Rightarrow> (Job \<times> bool) op" where
  "extend_auction j now =
     (if ShouldExtend j now
      then let j = j\<lparr>jAuction := map_option (\<lambda>a.
                 a\<lparr>aEndsAt := map_option (\<lambda>ends. ends + ExtendBy) (aEndsAt a)\<rparr>) (jAuction j),
                 jUpdatedAt := now\<rparr>
           in bnd (put (Update j)) (\<lambda>_. ret (j, True))
      else ret (j, False))"

definition bid_event :: "Job \<Rightarrow> Bid \<Rightarrow> bool \<Rightarrow> (string \<times> ev) list" where
  "bid_event j bid extended =
     [(''type'', EvStr ''bid''), (''jobId'', EvStr (jID j)), (''price'', EvInt (bPrice bid)),
      (''currency'', EvStr (bCurrency bid)), (''extended'', EvBool extended)]
     @ (case jAuction j of
          None \<Rightarrow> [] | Some a \<Rightarrow> (case aEndsAt a of None \<Rightarrow> [] | Some t \<Rightarrow> [(''endsAt'', EvTime t)]))"

definition new_bid :: "env \<Rightarrow> string \<Rightarrow> Job \<Rightarrow> BidInput \<Rightarrow> string \<Rightarrow> time \<Rightarrow> Bid" where
  "new_bid e ownerID j inp jobID now =
     \<lparr>bID = fresh e 0, bJobID = jobID, bOwnerID = ownerID, bUnitID = biUnitID inp,
      bPrice = biPrice inp, bCurrency = jCurrency j, bComment = TrimSpace (biComment inp),
      bStatus = BidActive, bScore = None, bCreatedAt = now, bUpdatedAt = now, bRank = 0\<rparr>"

definition start_price :: "Job \<Rightarrow> int" where
  "start_price j = (case jBudgetAmount j of None \<Rightarrow> 0 | Some b \<Rightarrow> b)"

definition PlaceBid :: "env \<Rightarrow> string \<Rightarrow> string \<Rightarrow> BidInput \<Rightarrow> Bid op" where
  "PlaceBid e ownerID jobID inp =
     bnd (get (ByID jobID)) (\<lambda>j.
     bnd (refuse (jClientID j = ownerID) ErrOwnJob) (\<lambda>_.
     let now = clock e 0
     in bnd (check (CanBid j now)) (\<lambda>_.
     bnd (get (\<lambda>m. Inr (price_to_beat e ownerID jobID m))) (\<lambda>best.
     bnd (check (ValidateBid (biPrice inp) best (start_price j))) (\<lambda>_.
     bnd (check (checkUnit e ownerID (biUnitID inp))) (\<lambda>_.
     bnd (retire_previous e jobID ownerID now) (\<lambda>_.
     let bid = new_bid e ownerID j inp jobID now
     in bnd (put (CreateBid bid)) (\<lambda>_.
     bnd (if best > 0 then notifyOutbid e j bid else ret ()) (\<lambda>_.
     bnd (extend_auction j now) (\<lambda>(j, extended).
     bnd (PublishLive (JobChannel (jID j)) (bid_event j bid extended)) (\<lambda>_.
     bnd (Send (jClientID j) [Lit ''new bid'']
            (Txt (jTitle j) # Lit '' - '' # MoneyRU (bPrice bid) (bCurrency bid)) (job_data j)) (\<lambda>_.
     ret bid))))))))))))"

definition WithdrawBid :: "env \<Rightarrow> string \<Rightarrow> string \<Rightarrow> Bid op" where
  "WithdrawBid e ownerID bidID =
     bnd (get (BidByID bidID)) (\<lambda>b.
     bnd (refuse (bOwnerID b \<noteq> ownerID) ErrForbidden) (\<lambda>_.
     bnd (refuse (bStatus b \<noteq> BidActive) ErrBidNotActive) (\<lambda>_.
     bnd (get (ByID (bJobID b))) (\<lambda>j.
     let now = clock e 0
     in bnd (check (CanWithdrawBid j now)) (\<lambda>_.
     let b = b\<lparr>bStatus := BidWithdrawn, bUpdatedAt := now\<rparr>
     in bnd (put (UpdateBid b)) (\<lambda>_. ret b))))))"

fun rank_bids :: "int \<Rightarrow> Bid list \<Rightarrow> Bid list" where
  "rank_bids rank [] = []"
| "rank_bids rank (b # bs) =
     (if bStatus b = BidActive then b\<lparr>bRank := rank + 1\<rparr> # rank_bids (rank + 1) bs
      else b # rank_bids rank bs)"

definition JobBids :: "env \<Rightarrow> string \<Rightarrow> Bid list op" where
  "JobBids e jobID = bnd (get (BidsByJob (iter e 0) jobID)) (\<lambda>bs. ret (rank_bids 0 bs))"

definition MyBids :: "env \<Rightarrow> string \<Rightarrow> int \<Rightarrow> int \<Rightarrow> Bid list op" where
  "MyBids e ownerID limit offset =
     get (BidsByOwner (iter e 0) ownerID (clampLimit limit) (max0 offset))"


section \<open>The finish\<close>

definition reserveOf :: "Job \<Rightarrow> int option" where
  "reserveOf j = (case jAuction j of None \<Rightarrow> None | Some a \<Rightarrow> aReserveAmount a)"

definition decisionWindow :: "Job \<Rightarrow> int" where
  "decisionWindow j =
     (case jAuction j of
        None \<Rightarrow> 12 | Some a \<Rightarrow> if aDecisionWindowH a \<le> 0 then 12 else aDecisionWindowH a)"

definition as_item :: "Bid \<Rightarrow> BidScore" where
  "as_item b = \<lparr>sBid = b, sRating = 0, sDistanceM = -1, sUnitMatch = False\<rparr>"

definition expire_without_bids :: "Job \<Rightarrow> time \<Rightarrow> message \<Rightarrow> message \<Rightarrow> Job op" where
  "expire_without_bids j now title body =
     (let j = j\<lparr>jStatus := StatusExpiredNoBids, jUpdatedAt := now\<rparr>
      in bnd (put (Update j)) (\<lambda>_.
         bnd (Send (jClientID j) title body (job_data j)) (\<lambda>_. ret j)))"

definition tell_bidders :: "Job \<Rightarrow> Bid \<Rightarrow> BidScore list \<Rightarrow> unit op" where
  "tell_bidders j winner =
     each (\<lambda>it.
       if bID (sBid it) = bID winner
       then Send (bOwnerID (sBid it)) [Lit ''your bid is the best''] [Lit ''the client decides soon'']
              (job_data j)
       else Send (bOwnerID (sBid it)) [Lit ''auction finished''] [Lit ''the client chooses'']
              (job_data j))"

text \<open>The scores are saved, the best bid becomes the recommendation, the decision window opens.\<close>

definition declare_winner :: "Job \<Rightarrow> time \<Rightarrow> BidScore \<Rightarrow> BidScore list \<Rightarrow> Job op" where
  "declare_winner j now best others =
     bnd (each (\<lambda>it. put (UpdateBid ((sBid it)\<lparr>bUpdatedAt := now\<rparr>))) (best # others)) (\<lambda>_.
     let winner = sBid best;
         j = j\<lparr>jStatus := StatusDeciding, jWinnerBidID := Some (bID winner),
              jDecisionDeadline := Some (now + decisionWindow j * Hour), jUpdatedAt := now\<rparr>
     in bnd (put (Update j)) (\<lambda>_.
        bnd (Send (jClientID j) [Lit ''auction finished'']
               (Lit ''best bid '' # MoneyRU (bPrice winner) (bCurrency winner)
                 @ [Lit '' - choose the contractor''])
               [(''route'', ''/jobs/'' @ jID j @ ''/bids''), (''jobId'', jID j)]) (\<lambda>_.
        bnd (tell_bidders j winner (best # others)) (\<lambda>_. ret j))))"

definition FinishAuction :: "env \<Rightarrow> string \<Rightarrow> Job op" where
  "FinishAuction e jobID =
     bnd (get (ByID jobID)) (\<lambda>j.
     bnd (refuse (jMode j \<noteq> ModeAuction) ErrNotAuction) (\<lambda>_.
     if jStatus j \<noteq> StatusBidding then ret j
     else
     bnd (get (BidsByJob (iter e 0) jobID)) (\<lambda>bs.
     let items = map as_item (filter (\<lambda>b. \<not> bStatus b \<noteq> BidActive) bs);
         now = clock e 0
     in if items = []
        then expire_without_bids j now [Lit ''auction finished without bids'']
               [Txt (jTitle j), Lit '' - restart with another price or term'']
        else
        case Score items (reserveOf j) of
          [] \<Rightarrow> expire_without_bids j now [Lit ''no suitable bids'']
                  [Lit ''all bids are below your minimum'']
        | best # others \<Rightarrow> declare_winner j now best others)))"


section \<open>The decision\<close>

text \<open>The loops of the decision: every active bid but one gets a new status, its author a message.\<close>

definition close_bids :: "BidStatus \<Rightarrow> (Bid \<Rightarrow> bool) \<Rightarrow> time \<Rightarrow> message \<Rightarrow> message
    \<Rightarrow> (string \<times> string) list \<Rightarrow> Bid list \<Rightarrow> unit op" where
  "close_bids st skip now title body data =
     each (\<lambda>b.
       if skip b \<or> bStatus b \<noteq> BidActive then ret ()
       else bnd (put (UpdateBid (b\<lparr>bStatus := st, bUpdatedAt := now\<rparr>))) (\<lambda>_.
            Send (bOwnerID b) title body data))"

definition AcceptBid :: "env \<Rightarrow> string \<Rightarrow> string \<Rightarrow> Bid op" where
  "AcceptBid e clientID bidID =
     bnd (get (BidByID bidID)) (\<lambda>b.
     bnd (get (ByID (bJobID b))) (\<lambda>j.
     bnd (refuse (jClientID j \<noteq> clientID) ErrForbidden) (\<lambda>_.
     bnd (refuse (jStatus j \<noteq> StatusDeciding) ErrBadTransition) (\<lambda>_.
     bnd (refuse (bStatus b \<noteq> BidActive) ErrBidNotActive) (\<lambda>_.
     let now = clock e 0; b = b\<lparr>bStatus := BidWon, bUpdatedAt := now\<rparr>
     in bnd (put (UpdateBid b)) (\<lambda>_.
     bnd (get (BidsByJob (iter e 0) (jID j))) (\<lambda>all.
     bnd (close_bids BidLost (\<lambda>x. bID x = bID b) now [Lit ''auction finished'']
            [Txt (jTitle j), Lit '' - another contractor was chosen''] (job_data j) all) (\<lambda>_.
     let j = j\<lparr>jStatus := StatusDealPending, jWinnerBidID := Some (bID b), jUpdatedAt := now\<rparr>
     in bnd (put (Update j)) (\<lambda>_.
     bnd (Send (bOwnerID b) [Lit ''you were chosen'']
            (Txt (jTitle j) # Lit '' - '' # MoneyRU (bPrice b) (bCurrency b)) (job_data j)) (\<lambda>_.
     ret b))))))))))"

definition DeclineAllBids :: "env \<Rightarrow> string \<Rightarrow> string \<Rightarrow> Job op" where
  "DeclineAllBids e clientID jobID =
     bnd (own clientID jobID) (\<lambda>j.
     bnd (refuse (jStatus j \<noteq> StatusDeciding) ErrBadTransition) (\<lambda>_.
     let now = clock e 0
     in bnd (get (BidsByJob (iter e 0) jobID)) (\<lambda>bs.
     bnd (close_bids BidLost (\<lambda>_. False) now [Lit ''the client declined all bids'']
            [Txt (jTitle j), Lit '' - the job is closed''] (job_data j) bs) (\<lambda>_.
     let j = j\<lparr>jStatus := StatusDeclinedAll, jUpdatedAt := now\<rparr>
     in bnd (put (Update j)) (\<lambda>_. ret j)))))"

definition expire_bids :: "Job \<Rightarrow> time \<Rightarrow> Bid list \<Rightarrow> unit op" where
  "expire_bids j now =
     each (\<lambda>b.
       if bStatus b \<noteq> BidActive then ret ()
       else bnd (ignore (put (UpdateBid (b\<lparr>bStatus := BidExpired, bUpdatedAt := now\<rparr>)))) (\<lambda>_.
            Send (bOwnerID b) [Lit ''the client did not decide'']
              [Txt (jTitle j), Lit '' - the job is closed, look at similar ones'']
              [(''route'', ''/jobs''), (''jobId'', jID j)]))"

definition ExpireDecision :: "env \<Rightarrow> string \<Rightarrow> Job op" where
  "ExpireDecision e jobID =
     bnd (get (ByID jobID)) (\<lambda>j.
     if jStatus j \<noteq> StatusDeciding then ret j
     else if (case jDecisionDeadline j of None \<Rightarrow> False | Some t \<Rightarrow> clock e 0 < t) then ret j
     else
     let now = clock e 1
     in attempt (get (BidsByJob (iter e 0) jobID)) (\<lambda>r.
     bnd (expire_bids j now (case r of Inl _ \<Rightarrow> [] | Inr bs \<Rightarrow> bs)) (\<lambda>_.
     let j = j\<lparr>jStatus := StatusExpired, jUpdatedAt := now\<rparr>
     in bnd (put (Update j)) (\<lambda>_. ret j))))"


section \<open>Loops that rewrite bids\<close>

text \<open>\<open>m'\<close> has the bids \<open>g\<close> and is otherwise \<open>m\<close>.\<close>

definition bids_to :: "(string \<rightharpoonup> Bid) \<Rightarrow> Memory \<Rightarrow> Memory \<Rightarrow> bool" where
  "bids_to g m m' \<longleftrightarrow> map_of (bids m') = g \<and> m'\<lparr>bids := []\<rparr> = m\<lparr>bids := []\<rparr>
     \<and> (keyed bID (bids m) \<longrightarrow> keyed bID (bids m'))"

lemma bids_to_refl: "bids_to (map_of (bids m)) m m"
  by (simp add: bids_to_def)

lemma bids_to_trans: "bids_to g m m1 \<Longrightarrow> bids_to h m1 m2 \<Longrightarrow> bids_to h m m2"
  by (simp add: bids_to_def)

lemma bids_to_frame:
  assumes "bids_to g m m'"
  shows "jobs m' = jobs m" "offers m' = offers m" "deals m' = deals m" "chats m' = chats m"
    "messages m' = messages m" "reviews m' = reviews m" "disputes m' = disputes m"
    "complaints m' = complaints m" "map_of (bids m') = g"
proof -
  from assms have e: "m'\<lparr>bids := []\<rparr> = m\<lparr>bids := []\<rparr>" and g: "map_of (bids m') = g"
    by (simp_all add: bids_to_def)
  show "map_of (bids m') = g" by (rule g)
  show "jobs m' = jobs m" using arg_cong [OF e, of jobs] by simp
  show "offers m' = offers m" using arg_cong [OF e, of offers] by simp
  show "deals m' = deals m" using arg_cong [OF e, of deals] by simp
  show "chats m' = chats m" using arg_cong [OF e, of chats] by simp
  show "messages m' = messages m" using arg_cong [OF e, of messages] by simp
  show "reviews m' = reviews m" using arg_cong [OF e, of reviews] by simp
  show "disputes m' = disputes m" using arg_cong [OF e, of disputes] by simp
  show "complaints m' = complaints m" using arg_cong [OF e, of complaints] by simp
qed

lemma UpdateBid_run:
  "map_of (bids m) (bID b) \<noteq> None \<Longrightarrow>
     \<exists>m'. UpdateBid b m = Inr m' \<and> bids_to ((map_of (bids m))(bID b \<mapsto> b)) m m'"
  by (auto simp: UpdateBid_def bids_to_def update_conv')

lemma bids_to_iff:
  "bids_to g m m' \<longleftrightarrow> map_of (bids m') = g
     \<and> (m'\<lparr>bids := []\<rparr> = m\<lparr>bids := []\<rparr> \<and> (keyed bID (bids m) \<longrightarrow> keyed bID (bids m')))"
  by (simp add: bids_to_def)

lemma each_update_bids:
  assumes "\<And>x w. x \<in> set xs \<Longrightarrow> map_of (bids (mem w)) (bID (new x)) \<noteq> None \<Longrightarrow>
      \<exists>w1. f x w = (Inr (), w1)
        \<and> bids_to ((map_of (bids (mem w)))(bID (new x) \<mapsto> new x)) (mem w) (mem w1)"
    and "distinct (map (\<lambda>x. bID (new x)) xs)"
    and "\<forall>x \<in> set xs. map_of (bids (mem w)) (bID (new x)) \<noteq> None"
  shows "\<exists>w'. each f xs w = (Inr (), w')
    \<and> bids_to (map_of (bids (mem w)) ++ map_of (map (\<lambda>x. (bID (new x), new x)) xs)) (mem w) (mem w')"
  using assms unfolding bids_to_iff
  by (intro bid_rows.each_update [where R = "\<lambda>m m'. m'\<lparr>bids := []\<rparr> = m\<lparr>bids := []\<rparr>
        \<and> (keyed bID (bids m) \<longrightarrow> keyed bID (bids m'))"]) simp_all

lemma rewrite_bids:
  assumes "keyed bID (bids (mem w))" and "set xs \<subseteq> set (gvals (bids (mem w)))"
    and "distinct (map bID xs)" and "\<And>x. bID (h x) = bID x"
    and "\<And>x w. map_of (bids (mem w)) (bID x) \<noteq> None \<Longrightarrow>
      \<exists>w1. f x w = (Inr (), w1) \<and> bids_to ((map_of (bids (mem w)))(bID x \<mapsto> h x)) (mem w) (mem w1)"
  shows "\<exists>w'. each f xs w = (Inr (), w') \<and> bids_to (\<lambda>i.
      map_option (\<lambda>b. if b \<in> set xs then h b else b) (map_of (bids (mem w)) i)) (mem w) (mem w')"
  using assms unfolding bids_to_iff
  by (intro bid_rows.each_rewrite [where R = "\<lambda>m m'. m'\<lparr>bids := []\<rparr> = m\<lparr>bids := []\<rparr>
        \<and> (keyed bID (bids m) \<longrightarrow> keyed bID (bids m'))"]) simp_all

lemma BidsByJob_rows:
  assumes "keyed bID (bids m)" and "BidsByJob rank i m = Inr bs"
  shows "set bs \<subseteq> set (gvals (bids m))" "distinct (map bID bs)"
    "b \<in> set bs \<longleftrightarrow> b \<in> set (gvals (bids m)) \<and> bJobID b = i"
proof -
  show "b \<in> set bs \<longleftrightarrow> b \<in> set (gvals (bids m)) \<and> bJobID b = i"
    and "set bs \<subseteq> set (gvals (bids m))"
    using BidsByJob_set [OF assms(2)] by auto
  have "mset bs = mset (filter (\<lambda>b. bJobID b = i) (grange rank (bids m)))"
    using assms(2) by (auto simp: BidsByJob_def)
  then have "mset (map bID bs) = mset (map bID (filter (\<lambda>b. bJobID b = i) (grange rank (bids m))))"
    by (metis mset_map)
  moreover have "distinct (map bID (filter (\<lambda>b. bJobID b = i) (grange rank (bids m))))"
    using keyed_distinct_grange [OF assms(1)] by (rule distinct_map_filter)
  ultimately show "distinct (map bID bs)" by (metis mset_eq_imp_distinct_iff)
qed

text \<open>The decision's loop closes every active bid of the job it is not told to skip.\<close>

lemma close_bids_run:
  assumes k: "keyed bID (bids (mem w))" and bs: "BidsByJob rank i (mem w) = Inr bs"
  shows "\<exists>w'. close_bids st skip now t bd dt bs w = (Inr (), w') \<and> bids_to (\<lambda>k.
    map_option (\<lambda>b. if bJobID b = i \<and> \<not> skip b \<and> bStatus b = BidActive
                    then b\<lparr>bStatus := st, bUpdatedAt := now\<rparr> else b)
      (map_of (bids (mem w)) k)) (mem w) (mem w')"
proof -
  let ?xs = "filter (\<lambda>b. \<not> (skip b \<or> bStatus b \<noteq> BidActive)) bs"
  let ?h = "\<lambda>b. b\<lparr>bStatus := st, bUpdatedAt := now\<rparr>"
  have "\<exists>w'. close_bids st skip now t bd dt bs w = (Inr (), w') \<and> bids_to (\<lambda>k.
    map_option (\<lambda>b. if b \<in> set ?xs then ?h b else b) (map_of (bids (mem w)) k)) (mem w) (mem w')"
    unfolding close_bids_def each_skip
  proof (rule rewrite_bids [OF k])
    show "set ?xs \<subseteq> set (gvals (bids (mem w)))" using BidsByJob_rows [OF k bs] by auto
    show "distinct (map bID ?xs)" using BidsByJob_rows(2) [OF k bs] by (rule distinct_map_filter)
    show "\<exists>w1. bnd (put (UpdateBid (?h x))) (\<lambda>_. Send (bOwnerID x) t bd dt) w = (Inr (), w1)
        \<and> bids_to ((map_of (bids (mem w)))(bID x \<mapsto> ?h x)) (mem w) (mem w1)"
      if "map_of (bids (mem w)) (bID x) \<noteq> None" for x w
      using UpdateBid_run [of "mem w" "?h x"] that by (auto simp: bnd_def put_def Send_def)
  qed simp
  moreover have "map_option (\<lambda>b. if b \<in> set ?xs then ?h b else b) (map_of (bids (mem w)) k) =
    map_option (\<lambda>b. if bJobID b = i \<and> \<not> skip b \<and> bStatus b = BidActive then ?h b else b)
      (map_of (bids (mem w)) k)" for k
    using keyed_get_mem [OF k] BidsByJob_rows(3) [OF k bs] by (cases "map_of (bids (mem w)) k") auto
  ultimately show ?thesis by simp
qed


section \<open>The price to beat\<close>

definition live_bid :: "string \<Rightarrow> Bid \<Rightarrow> bool" where
  "live_bid jobID b \<longleftrightarrow> bJobID b = jobID \<and> bStatus b = BidActive"

definition live_positive :: "string \<Rightarrow> Memory \<Rightarrow> bool" where
  "live_positive jobID m \<longleftrightarrow> (\<forall>b \<in> set (gvals (bids m)). live_bid jobID b \<longrightarrow> 0 < bPrice b)"

lemma rival_best_least:
  "0 \<le> best \<Longrightarrow> \<forall>b \<in> set bs. bStatus b = BidActive \<longrightarrow> 0 < bPrice b \<Longrightarrow>
   (0 < best \<longrightarrow> 0 < rival_best ow best bs \<and> rival_best ow best bs \<le> best)
   \<and> (\<forall>b \<in> set bs. bStatus b = BidActive \<longrightarrow> bOwnerID b \<noteq> ow \<longrightarrow>
        0 < rival_best ow best bs \<and> rival_best ow best bs \<le> bPrice b)"
proof (induction bs arbitrary: best)
  case (Cons b bs)
  show ?case
  proof (cases "bStatus b = BidActive \<and> bOwnerID b \<noteq> ow")
    case True
    let ?n = "if best = 0 \<or> bPrice b < best then bPrice b else best"
    have "0 < bPrice b" using True Cons.prems(2) by simp
    then have n: "0 < ?n" "?n \<le> bPrice b" "0 < best \<longrightarrow> ?n \<le> best" using Cons.prems(1) by auto
    moreover have "(0 < ?n \<longrightarrow> 0 < rival_best ow ?n bs \<and> rival_best ow ?n bs \<le> ?n)
      \<and> (\<forall>b \<in> set bs. bStatus b = BidActive \<longrightarrow> bOwnerID b \<noteq> ow \<longrightarrow>
        0 < rival_best ow ?n bs \<and> rival_best ow ?n bs \<le> bPrice b)"
      using n(1) Cons.prems(2) by (intro Cons.IH) simp_all
    ultimately have "0 < rival_best ow ?n bs" "rival_best ow ?n bs \<le> ?n"
      "\<forall>b \<in> set bs. bStatus b = BidActive \<longrightarrow> bOwnerID b \<noteq> ow \<longrightarrow> rival_best ow ?n bs \<le> bPrice b"
      by blast+
    moreover have "rival_best ow best (b # bs) = rival_best ow ?n bs" using True by simp
    ultimately show ?thesis using n by fastforce
  next
    case False
    then have "rival_best ow best (b # bs) = rival_best ow best bs" by auto
    with Cons False show ?thesis by auto
  qed
qed simp

lemma price_to_beat_least:
  assumes pos: "live_positive jobID m"
    and b: "b \<in> set (gvals (bids m))" "live_bid jobID b" "bOwnerID b \<noteq> ow"
  shows "0 < price_to_beat e ow jobID m \<and> price_to_beat e ow jobID m \<le> bPrice b"
proof (cases "BestBid (iter e 0) jobID m")
  case (Inl x)
  then show ?thesis using b unfolding BestBid_Inl live_bid_def by blast
next
  case (Inr best)
  note best = BestBid_Inr [OF Inr]
  show ?thesis
  proof (cases "bOwnerID best = ow")
    case False
    with Inr best b pos show ?thesis
      by (auto simp: price_to_beat_def live_bid_def live_positive_def)
  next
    case True
    obtain bs where bs: "BidsByJob (iter e 1) jobID m = Inr bs" by (simp add: BidsByJob_def)
    note mem = BidsByJob_set [OF bs]
    have "\<forall>x \<in> set bs. bStatus x = BidActive \<longrightarrow> 0 < bPrice x"
      using pos mem by (auto simp: live_positive_def live_bid_def)
    moreover have "b \<in> set bs" using mem b by (simp add: live_bid_def)
    ultimately show ?thesis
      using rival_best_least [of 0 bs ow] True Inr bs b
      by (auto simp: price_to_beat_def live_bid_def)
  qed
qed


section \<open>A placed bid\<close>

lemma send_all_mem:
  assumes "\<And>x w r w'. f x w = (r, w') \<Longrightarrow> mem w' = mem w" and "each f xs w = (r, w')"
  shows "mem w' = mem w"
  using assms(2) by (rule each_frame [rotated]) (rule assms(1))

lemma notifyOutbid_mem: "notifyOutbid e j b w = (r, w') \<Longrightarrow> mem w' = mem w"
  unfolding notifyOutbid_def attempt_def
  by (auto simp: get_def op_simps split: sum.splits if_splits elim!: send_all_mem [rotated])

lemma retire_previous_run:
  assumes k: "keyed bID (bids (mem w))"
  shows "\<exists>w1. retire_previous e i ow now w = (Inr (), w1) \<and> (mem w1 = mem w
    \<or> (\<exists>p. map_of (bids (mem w)) (bID p) = Some p \<and> bOwnerID p = ow \<and> live_bid i p
        \<and> UpdateBid (p\<lparr>bStatus := BidWithdrawn, bUpdatedAt := now\<rparr>) (mem w) = Inr (mem w1)))"
proof (cases "MyBidForJob (iter e 2) i ow (mem w)")
  case (Inl x)
  then show ?thesis by (simp add: retire_previous_def attempt_def get_def ret_def)
next
  case (Inr p)
  then have p: "map_of (bids (mem w)) (bID p) = Some p" "bJobID p = i" "bOwnerID p = ow"
    using MyBidForJob_Inr [OF Inr] keyed_mem [OF k] by blast+
  then show ?thesis
    using Inr by (auto simp: retire_previous_def attempt_def get_def ret_def put_def UpdateBid_def
        live_bid_def)
qed

text \<open>What a successful placement went through.\<close>

lemma PlaceBid_run:
  assumes "PlaceBid e ow i inp w = (Inr bid, w')"
  obtains j w1 m2 w3 w4 j' x where "map_of (jobs (mem w)) i = Some j" "jClientID j \<noteq> ow"
    "CanBid j (clock e 0) = None"
    "ValidateBid (biPrice inp) (price_to_beat e ow i (mem w)) (start_price j) = None"
    "checkUnit e ow (biUnitID inp) = None"
    "retire_previous e i ow (clock e 0) w = (Inr (), w1)"
    "bid = new_bid e ow j inp i (clock e 0)" "CreateBid bid (mem w1) = Inr m2" "mem w3 = m2"
    "extend_auction j (clock e 0) w3 = (Inr (j', x), w4)" "mem w' = mem w4"
proof -
  from assms obtain j w1 m2 w3 w4 j' x where
    "map_of (jobs (mem w)) i = Some j" "jClientID j \<noteq> ow" "CanBid j (clock e 0) = None"
    "ValidateBid (biPrice inp) (price_to_beat e ow i (mem w)) (start_price j) = None"
    "checkUnit e ow (biUnitID inp) = None"
    "retire_previous e i ow (clock e 0) w = (Inr (), w1)"
    "bid = new_bid e ow j inp i (clock e 0)" "CreateBid bid (mem w1) = Inr m2"
    "(if price_to_beat e ow i (mem w) > 0 then notifyOutbid e j bid else ret ()) (w1\<lparr>mem := m2\<rparr>)
        = (Inr (), w3)"
    "extend_auction j (clock e 0) w3 = (Inr (j', x), w4)" "mem w' = mem w4"
    unfolding PlaceBid_def Let_def op_simps ByID_def by (auto simp: op_simps)
  moreover have "mem w3 = m2"
    using calculation(9) notifyOutbid_mem by (force simp: op_simps split: if_splits)
  ultimately show thesis using that by blast
qed

lemma extend_auction_mem:
  "extend_auction j now w = (Inr (j', x), w') \<Longrightarrow> x = ShouldExtend j now
     \<and> (if x then Update j' (mem w) = Inr (mem w') else mem w' = mem w \<and> j' = j)"
  by (auto simp: extend_auction_def op_simps Let_def split: if_splits)


section \<open>The ranking of the live bids\<close>

definition meets_reserve :: "Job \<Rightarrow> Bid \<Rightarrow> bool" where
  "meets_reserve j b = (case reserveOf j of None \<Rightarrow> True | Some r \<Rightarrow> r \<le> bPrice b)"

lemma as_item_simps [simp]: "sBid (as_item b) = b" "bID (sBid (as_item b)) = bID b"
  by (simp_all add: as_item_def)

lemma alike_items: "alike (map as_item bs)"
  by (auto simp: alike_def as_item_def)

lemma below_reserve_item: "\<not> below_reserve (reserveOf j) (as_item b) \<longleftrightarrow> meets_reserve j b"
  by (auto simp: below_reserve_def meets_reserve_def as_item_def split: option.split)

lemma live_sorted:
  assumes "BidsByJob rank i m = Inr bs"
  shows "sorted_wrt (\<lambda>x y. \<not> cheaper_bid y x) (filter (\<lambda>b. bStatus b = BidActive) bs)"
proof -
  have "sorted_wrt (\<lambda>x y. \<not> bid_before y x) (filter (\<lambda>b. bStatus b = BidActive) bs)"
    using BidsByJob_sorted [OF assms] by (rule sorted_wrt_filter)
  then show ?thesis
    by (rule sorted_wrt_mono_rel [rotated]) (simp add: bid_before_iff)
qed

text \<open>Scored without rating and distance, the live bids keep their order by price and age.\<close>

lemma Score_live:
  assumes bs: "BidsByJob rank i m = Inr bs" and L: "L = filter (\<lambda>b. bStatus b = BidActive) bs"
    and ne: "L \<noteq> []" and pr: "\<forall>b \<in> set L. 0 < bPrice b \<and> bPrice b < 2 ^ 63"
  shows "\<exists>lo hi d. Score (map as_item L) (reserveOf j) =
    map (\<lambda>b. score_item lo hi d (as_item b)) (filter (meets_reserve j) L)"
proof -
  obtain b0 rest where L0: "map as_item L = as_item b0 # rest" using ne by (cases L) auto
  have srt: "sorted_wrt (\<lambda>x y. sPrice x \<le> sPrice y) (map as_item L)"
    using live_sorted [OF bs] unfolding sorted_wrt_map L
    by (rule sorted_wrt_mono_rel [rotated]) (auto simp: cheaper_bid_def)
  have "prices_ok (map as_item L)" using pr by (auto simp: prices_ok_def)
  from Score_by_price [OF alike_items this srt L0, of "reserveOf j"]
  show ?thesis
    by (auto simp: filter_map comp_def below_reserve_item)
qed

lemma save_scores_run:
  assumes "distinct (map (\<lambda>it. bID (sBid it)) its)"
    and "\<forall>it \<in> set its. map_of (bids (mem w)) (bID (sBid it)) \<noteq> None"
  shows "\<exists>w' g. each (\<lambda>it. put (UpdateBid ((sBid it)\<lparr>bUpdatedAt := now\<rparr>))) its w = (Inr (), w')
    \<and> bids_to g (mem w) (mem w')"
proof -
  have "\<exists>w1. put (UpdateBid ((sBid x)\<lparr>bUpdatedAt := now\<rparr>)) w = (Inr (), w1)
      \<and> bids_to ((map_of (bids (mem w)))(bID ((sBid x)\<lparr>bUpdatedAt := now\<rparr>) \<mapsto> (sBid x)\<lparr>bUpdatedAt := now\<rparr>))
          (mem w) (mem w1)"
    if "map_of (bids (mem w)) (bID ((sBid x)\<lparr>bUpdatedAt := now\<rparr>)) \<noteq> None" for x w
    using UpdateBid_run [OF that] by (auto simp: put_def)
  moreover have "distinct (map (\<lambda>it. bID ((sBid it)\<lparr>bUpdatedAt := now\<rparr>)) its)"
    "\<forall>it \<in> set its. map_of (bids (mem w)) (bID ((sBid it)\<lparr>bUpdatedAt := now\<rparr>)) \<noteq> None"
    using assms by simp_all
  ultimately have "\<exists>w'. each (\<lambda>it. put (UpdateBid ((sBid it)\<lparr>bUpdatedAt := now\<rparr>))) its w = (Inr (), w')
    \<and> bids_to (map_of (bids (mem w)) ++ map_of (map (\<lambda>it. (bID ((sBid it)\<lparr>bUpdatedAt := now\<rparr>),
        (sBid it)\<lparr>bUpdatedAt := now\<rparr>)) its)) (mem w) (mem w')"
    by (intro each_update_bids)
  then show ?thesis by blast
qed

lemma scored_updates:
  assumes k: "keyed bID (bids (mem w))" and sub: "set bs \<subseteq> set (gvals (bids (mem w)))"
    and d: "distinct (map bID bs)"
    and sc: "its = map (\<lambda>b. score_item lo hi ds (as_item b)) bs"
  shows "\<exists>w' g. each (\<lambda>it. put (UpdateBid ((sBid it)\<lparr>bUpdatedAt := now\<rparr>))) its w = (Inr (), w')
    \<and> bids_to g (mem w) (mem w')"
proof (rule save_scores_run)
  show "distinct (map (\<lambda>it. bID (sBid it)) its)" using d by (simp add: sc comp_def)
  show "\<forall>it \<in> set its. map_of (bids (mem w)) (bID (sBid it)) \<noteq> None"
    using sub keyed_mem [OF k] by (auto simp: sc)
qed

lemma tell_bidders_run: "\<exists>w'. tell_bidders j win its w = (Inr (), w') \<and> mem w' = mem w"
  unfolding tell_bidders_def by (rule each_quiet) (simp add: Send_def)

lemma declare_winner_run:
  assumes "each (\<lambda>it. put (UpdateBid ((sBid it)\<lparr>bUpdatedAt := now\<rparr>))) (best # others) w = (Inr (), w1)"
    and "map_of (jobs (mem w1)) (jID j) \<noteq> None"
    and j': "j' = j\<lparr>jStatus := StatusDeciding, jWinnerBidID := Some (bID (sBid best)),
             jDecisionDeadline := Some (now + decisionWindow j * Hour), jUpdatedAt := now\<rparr>"
  shows "\<exists>w'. declare_winner j now best others w = (Inr j', w')
    \<and> mem w' = (mem w1)\<lparr>jobs := AList.update (jID j) j' (jobs (mem w1))\<rparr>"
proof -
  have u: "Update j' (mem w1) = Inr ((mem w1)\<lparr>jobs := AList.update (jID j) j' (jobs (mem w1))\<rparr>)"
    using assms(2) by (simp add: Update_def j')
  let ?m = "(mem w1)\<lparr>jobs := AList.update (jID j) j' (jobs (mem w1))\<rparr>"
  let ?w3 = "snd (Send (jClientID j') [Lit ''auction finished'']
      (Lit ''best bid '' # MoneyRU (bPrice (sBid best)) (bCurrency (sBid best))
        @ [Lit '' - choose the contractor''])
      [(''route'', ''/jobs/'' @ jID j' @ ''/bids''), (''jobId'', jID j')] (w1\<lparr>mem := ?m\<rparr>))"
  obtain w' where w': "tell_bidders j' (sBid best) (best # others) ?w3 = (Inr (), w')"
    "mem w' = mem ?w3" using tell_bidders_run by blast
  have "declare_winner j now best others w = (Inr j', w')"
    unfolding declare_winner_def bnd_def [of "each _ _"] assms(1) Let_def prod.case sum.case
    unfolding j' [symmetric]
    using u w' by (simp add: bnd_def put_def Send_def ret_def)
  then show ?thesis using w' by (simp add: Send_def)
qed

end
