(* ===== verification/Scheduler.thy ===== *)
theory Scheduler
  imports Bids_Service Deals_Service Reviews_Service
begin

text \<open>
  The background worker (\<^verbatim>\<open>services/orders/internal/service/scheduler.go\<close>): every tick it publishes the
  reviews that waited a week, finishes auctions whose time ran out, closes jobs whose decision
  window passed and accepts finished work after the acceptance deadline. An error on one job is
  logged and the pass goes on with the next.
\<close>

text \<open>\<^verbatim>\<open>NewScheduler\<close>: a tick that is not positive is a minute.\<close>

definition NewScheduler :: "int \<Rightarrow> int" where
  "NewScheduler tick = (if tick \<le> 0 then Minute else tick)"

definition autoAccept :: "env \<Rightarrow> string \<Rightarrow> unit op" where
  "autoAccept e jobID =
     bnd (get (DealByJob (iter e 0) jobID)) (\<lambda>d.
     if dStatus d \<noteq> DealWorkDone then ret ()
     else bnd (AdvanceDeal e (dClientID d) (dID d) DealCompleted
            [Lit ''accepted by itself: the deadline has passed'']) (\<lambda>_. ret ()))"

definition close_due :: "env \<Rightarrow> Job \<Rightarrow> unit op" where
  "close_due e j =
     (case jStatus j of
        StatusBidding \<Rightarrow> ignore (FinishAuction e (jID j))
      | StatusDeciding \<Rightarrow> ignore (ExpireDecision e (jID j))
      | StatusWorkDone \<Rightarrow> ignore (autoAccept e (jID j))
      | _ \<Rightarrow> ret ())"

text \<open>The loop over the due jobs; the n-th iteration runs in the environment \<open>es n\<close>.\<close>

fun close_all :: "(nat \<Rightarrow> env) \<Rightarrow> nat \<Rightarrow> Job list \<Rightarrow> unit op" where
  "close_all es n [] = ret ()"
| "close_all es n (j # js) = bnd (close_due (es n) j) (\<lambda>_. close_all es (n + 1) js)"

definition RunOnce :: "(nat \<Rightarrow> env) \<Rightarrow> unit op" where
  "RunOnce es =
     (let now = clock (es 0) 0
      in bnd (ignore (publishDueReviews (es 1))) (\<lambda>_.
         attempt (get (DueJobs (iter (es 0) 0) now)) (\<lambda>r.
         case r of
           Inl _ \<Rightarrow> ret ()
         | Inr js \<Rightarrow> close_all es 2 js)))"

text \<open>The first pass runs at once, then one for each tick that arrives before the context is done.\<close>

fun Run :: "(nat \<Rightarrow> nat \<Rightarrow> env) \<Rightarrow> nat \<Rightarrow> unit op" where
  "Run ess 0 = RunOnce (ess 0)"
| "Run ess (Suc n) = bnd (Run ess n) (\<lambda>_. RunOnce (ess (Suc n)))"

end
