(* ===== verification/Bids_Properties.thy ===== *)
theory Bids_Properties
  imports Bids_Service Samples
begin

text \<open>
  Theorems about the reverse auction: which bids are admitted, that an owner has one live bid per job,
  how the finish moves, who wins, and what the customer's decision does to the bids.
\<close>


section \<open>Placing\<close>

lemma ValidateBid_floor:
  "ValidateBid price best start = None \<Longrightarrow> 0 < start \<Longrightarrow> start \<le> 2 ^ 49 \<Longrightarrow> 3 * start \<le> 10 * price"
  using below30_exact [of price start] by (auto simp: ValidateBid_None)


definition cheap_input :: BidInput where
  "cheap_input = \<lparr>biPrice = 60000, biComment = [], biUnitID = None\<rparr>"


text \<open>A live bid may be rewritten in any way that keeps its job and owner.\<close>

lemma bid_rewrite_unique:
  assumes "keyed bID (bids m)" and "unique_rows bid_clash (bids m)"
    and "map_of (bids m) (bID b) = Some p" and "bJobID b = bJobID p" and "bOwnerID b = bOwnerID p"
    and "bStatus b = BidActive \<longrightarrow> bStatus p = BidActive" and "UpdateBid b m = Inr m'"
  shows "keyed bID (bids m') \<and> unique_rows bid_clash (bids m')"
  using bid_rows.keyed_replace [OF assms(1,7)] bid_rows.unique_replace [OF assms(1,2,7,3)] assms(4-6)
  by (auto simp: bid_clash_def)

lemma retire_keeps:
  assumes k: "keyed bID (bids (mem w))" and u: "unique_rows bid_clash (bids (mem w))"
    and r: "retire_previous e i ow now w = (Inr (), w1)"
  shows "keyed bID (bids (mem w1)) \<and> unique_rows bid_clash (bids (mem w1))
    \<and> jobs (mem w1) = jobs (mem w)
    \<and> (\<forall>b. bOwnerID b \<noteq> ow \<longrightarrow> map_of (bids (mem w)) (bID b) = Some b
          \<longrightarrow> map_of (bids (mem w1)) (bID b) = Some b)
    \<and> dom (map_of (bids (mem w1))) = dom (map_of (bids (mem w)))"
proof -
  from retire_previous_run [OF k, of e i ow now] r consider "mem w1 = mem w"
    | p where "map_of (bids (mem w)) (bID p) = Some p" "bOwnerID p = ow" "live_bid i p"
      "UpdateBid (p\<lparr>bStatus := BidWithdrawn, bUpdatedAt := now\<rparr>) (mem w) = Inr (mem w1)"
    by auto
  then show ?thesis
  proof cases
    case 1
    then show ?thesis using k u by simp
  next
    case (2 p)
    let ?p = "p\<lparr>bStatus := BidWithdrawn, bUpdatedAt := now\<rparr>"
    have "keyed bID (bids (mem w1)) \<and> unique_rows bid_clash (bids (mem w1))"
      using 2 by (intro bid_rewrite_unique [OF k u _ _ _ _ 2(4)]) auto
    moreover have "jobs (mem w1) = jobs (mem w)"
      and "map_of (bids (mem w1)) = (map_of (bids (mem w)))(bID p \<mapsto> ?p)"
      using 2(4) by (auto simp: store_simps update_conv')
    moreover have "bID b \<noteq> bID p" if "bOwnerID b \<noteq> ow" "map_of (bids (mem w)) (bID b) = Some b" for b
      using that 2(1,2) by (metis option.inject)
    ultimately show ?thesis using 2(1) by (simp add: insert_absorb domI)
  qed
qed

text \<open>After a bid is placed it is the bidder's only live bid on the job, whatever they had before;
  the bids of the others are untouched. (The identifier generated for the bid is a new one.)\<close>

theorem PlaceBid_one_live_bid:
  assumes "keyed bID (bids (mem w))" and "unique_rows bid_clash (bids (mem w))"
    and "map_of (bids (mem w)) (fresh e 0) = None" and "PlaceBid e ow i inp w = (Inr bid, w')"
  shows "keyed bID (bids (mem w')) \<and> unique_rows bid_clash (bids (mem w'))
    \<and> (\<forall>b \<in> set (gvals (bids (mem w'))). live_bid i b \<and> bOwnerID b = ow \<longleftrightarrow> b = bid)
    \<and> (\<forall>b \<in> set (gvals (bids (mem w))). bOwnerID b \<noteq> ow \<longrightarrow> b \<in> set (gvals (bids (mem w'))))"
proof -
  from assms(4) obtain j w1 m2 w3 w4 j' x where
    r: "retire_previous e i ow (clock e 0) w = (Inr (), w1)"
    and bid: "bid = new_bid e ow j inp i (clock e 0)" and c: "CreateBid bid (mem w1) = Inr m2"
    and "mem w3 = m2" and "extend_auction j (clock e 0) w3 = (Inr (j', x), w4)" and "mem w' = mem w4"
    by (rule PlaceBid_run)
  then have b': "bids (mem w') = bids m2"
    by (auto dest!: extend_auction_mem simp: store_simps split: if_splits)
  note k1 = retire_keeps [OF assms(1,2) r]
  have k2: "keyed bID (bids m2)" and u2: "unique_rows bid_clash (bids m2)"
    using bid_rows.keyed_create [OF _ c] bid_rows.unique_create [OF _ _ c] k1 by blast+
  have m2: "map_of (bids m2) = (map_of (bids (mem w1)))(bID bid \<mapsto> bid)"
    using bid_rows.create_rows [OF c] by (simp add: update_conv')
  have bid_row: "bid \<in> set (gvals (bids m2))" using keyed_mem [OF k2] m2 by simp
  have live: "live_bid i bid" "bOwnerID bid = ow" "bID bid = fresh e 0"
    by (simp_all add: bid new_bid_def live_bid_def)
  have only: "b = bid" if "b \<in> set (gvals (bids m2))" "live_bid i b" "bOwnerID b = ow" for b
    using u2 that bid_row live unfolding unique_rows_def bid_clash_def live_bid_def by metis
  have keep: "b \<in> set (gvals (bids m2))" if "b \<in> set (gvals (bids (mem w)))" "bOwnerID b \<noteq> ow" for b
  proof -
    have b: "map_of (bids (mem w)) (bID b) = Some b" using that keyed_mem [OF assms(1)] by blast
    then have "map_of (bids (mem w1)) (bID b) = Some b" using k1 that by blast
    moreover have "bID b \<noteq> bID bid" using b assms(3) live by auto
    ultimately show ?thesis using m2 keyed_mem [OF k2] by simp
  qed
  show ?thesis unfolding b' using k2 u2 only live bid_row keep by blast
qed

theorem PlaceBid_one_live_bid_witness:
  "\<exists>bid w'. PlaceBid (env_at Hour ''n'') ''boris'' ''j1'' cheap_input
      (with_bids auction_job [a_bid ''b1'' ''boris'' 70000 0]) = (Inr bid, w')
    \<and> (\<forall>b \<in> set (gvals (bids (mem w'))). live_bid ''j1'' b \<and> bOwnerID b = ''boris'' \<longleftrightarrow> b = bid)"
proof -
  let ?w = "with_bids auction_job [a_bid ''b1'' ''boris'' 70000 0]"
  let ?r = "PlaceBid (env_at Hour ''n'') ''boris'' ''j1'' cheap_input ?w"
  have "case fst ?r of Inl _ \<Rightarrow> False | Inr _ \<Rightarrow> True" by code_simp
  then obtain bid w' where r: "?r = (Inr bid, w')" by (cases ?r) (auto split: sum.splits)
  have "keyed bID (bids (mem ?w))" "unique_rows bid_clash (bids (mem ?w))"
    "map_of (bids (mem ?w)) (fresh (env_at Hour ''n'') 0) = None" by code_simp+
  then show ?thesis using PlaceBid_one_live_bid [OF _ _ _ r] r by blast
qed

text \<open>C16: Anti-sniping: with automatic extension, a bid in the last five minutes moves the finish ten
  minutes later, an earlier bid leaves it, and after any bid more than five minutes remain.\<close>

theorem PlaceBid_extends:
  assumes "keyed jID (jobs (mem w))" and "keyed bID (bids (mem w))"
    and "unique_rows bid_clash (bids (mem w))" and "PlaceBid e ow i inp w = (Inr bid, w')"
    and "map_of (jobs (mem w)) i = Some j" and "jAuction j = Some a" and "aEndsAt a = Some ends"
  shows "\<exists>j' a' ends'. map_of (jobs (mem w')) i = Some j' \<and> jAuction j' = Some a'
    \<and> aEndsAt a' = Some ends' \<and> aReserveAmount a' = aReserveAmount a \<and> jStatus j' = StatusBidding
    \<and> ends' = (if aAutoExtend a \<and> ends - clock e 0 \<le> 5 * Minute then ends + 10 * Minute else ends)
    \<and> (aAutoExtend a \<longrightarrow> ends' - clock e 0 > 5 * Minute)"
proof -
  from assms(4) obtain jj w1 m2 w3 w4 j2 x where j: "map_of (jobs (mem w)) i = Some jj"
    and can: "CanBid jj (clock e 0) = None"
    and r: "retire_previous e i ow (clock e 0) w = (Inr (), w1)"
    and c: "CreateBid bid (mem w1) = Inr m2" and m3: "mem w3 = m2"
    and ext: "extend_auction jj (clock e 0) w3 = (Inr (j2, x), w4)" and m4: "mem w' = mem w4"
    by (rule PlaceBid_run)
  have jj: "jj = j" "jID j = i" using j assms(5) keyed_get [OF assms(1)] by auto
  have "jobs m2 = jobs (mem w1)" using c by (auto simp: CreateBid_def split: if_splits)
  then have jobs3: "jobs (mem w3) = jobs (mem w)" using retire_keeps [OF assms(2,3) r] m3 by simp
  have open_now: "jStatus j = StatusBidding" "clock e 0 < ends"
    using can assms(6,7) by (auto simp: jj CanBid_None)
  show ?thesis
  proof (cases "ShouldExtend j (clock e 0)")
    case True
    then have "aAutoExtend a \<and> ends - clock e 0 \<le> 5 * Minute"
      using assms(6,7) by (auto simp: ShouldExtend_def Let_def SnipeWindow_def)
    then show ?thesis
      using True ext m4 jobs3 jj assms(5-7) open_now
      by (auto simp: extend_auction_def op_simps Let_def Update_def update_conv' ExtendBy_def
          duration_defs split: if_splits)
  next
    case False
    then have "\<not> (aAutoExtend a \<and> ends - clock e 0 \<le> 5 * Minute)"
      using assms(6,7) open_now by (auto simp: ShouldExtend_def Let_def SnipeWindow_def)
    then show ?thesis
      using False ext m4 jobs3 jj assms(5-7) open_now
      by (auto simp: extend_auction_def op_simps)
  qed
qed

theorem PlaceBid_extends_witness:
  "\<exists>bid w'. PlaceBid (env_at (24 * Hour - Minute) ''n'') ''boris'' ''j1'' cheap_input
      (with_job auction_job) = (Inr bid, w')
    \<and> (\<exists>j' a'. map_of (jobs (mem w')) ''j1'' = Some j' \<and> jAuction j' = Some a'
        \<and> aEndsAt a' = Some (24 * Hour + 10 * Minute))"
proof -
  let ?w = "with_job auction_job" and ?e = "env_at (24 * Hour - Minute) ''n''"
  let ?r = "PlaceBid ?e ''boris'' ''j1'' cheap_input ?w"
  have "case fst ?r of Inl _ \<Rightarrow> False | Inr _ \<Rightarrow> True" by code_simp
  then obtain bid w' where r: "?r = (Inr bid, w')" by (cases ?r) (auto split: sum.splits)
  have k: "keyed jID (jobs (mem ?w))" "keyed bID (bids (mem ?w))" "unique_rows bid_clash (bids (mem ?w))"
    "map_of (jobs (mem ?w)) ''j1'' = Some auction_job" "jAuction auction_job = Some the_auction"
    "aEndsAt the_auction = Some (24 * Hour)" by code_simp+
  have "aAutoExtend the_auction \<and> 24 * Hour - clock ?e 0 \<le> 5 * Minute" by code_simp
  then show ?thesis using PlaceBid_extends [OF k(1-3) r k(4-6)] r by auto
qed

text \<open>A bid is withdrawn exactly when it is one's own, live, and the finish is at least two hours
  away (or not set); a refusal changes nothing.\<close>

theorem WithdrawBid_iff:
  assumes "keyed bID (bids (mem w))" and "map_of (bids (mem w)) k = Some b"
    and "map_of (jobs (mem w)) (bJobID b) = Some j"
  shows "WithdrawBid e ow k w =
    (if bOwnerID b \<noteq> ow then (Inl ErrForbidden, w)
     else if bStatus b \<noteq> BidActive then (Inl ErrBidNotActive, w)
     else if (case jAuction j of None \<Rightarrow> False | Some a \<Rightarrow>
                case aEndsAt a of None \<Rightarrow> False | Some ends \<Rightarrow> ends - clock e 0 < 2 * Hour)
       then (Inl ErrBidTooLate, w)
     else (let b' = b\<lparr>bStatus := BidWithdrawn, bUpdatedAt := clock e 0\<rparr>
           in (Inr b', w\<lparr>mem := (mem w)\<lparr>bids := AList.update k b' (bids (mem w))\<rparr>\<rparr>)))"
proof -
  have "bID b = k" using assms keyed_get by metis
  then show ?thesis using assms
    by (simp add: WithdrawBid_def bnd_def get_def refuse_def check_def put_def ret_def fail_def
        BidByID_def ByID_def UpdateBid_def CanWithdrawBid_def WithdrawLimit_def Let_def
        split: option.split)
qed

theorem WithdrawBid_iff_witness:
  "fst (WithdrawBid (env_at (23 * Hour) ''n'') ''boris'' ''b1''
     (with_bids auction_job [a_bid ''b1'' ''boris'' 70000 0])) = Inl ErrBidTooLate"
proof -
  let ?b = "a_bid ''b1'' ''boris'' 70000 0"
  let ?w = "with_bids auction_job [?b]"
  have "keyed bID (bids (mem ?w))" "map_of (bids (mem ?w)) ''b1'' = Some ?b"
    "map_of (jobs (mem ?w)) (bJobID ?b) = Some auction_job" by code_simp+
  note run = WithdrawBid_iff [OF this, of "env_at (23 * Hour) ''n''" "''boris''"]
  have "bOwnerID ?b = ''boris''" "bStatus ?b = BidActive" "jAuction auction_job = Some the_auction"
    "aEndsAt the_auction = Some (24 * Hour)"
    "24 * Hour - clock (env_at (23 * Hour) ''n'') 0 < 2 * Hour" by code_simp+
  then show ?thesis unfolding run by simp
qed


section \<open>The finish\<close>

text \<open>The live bids of a job that meet its reserve price.\<close>

definition eligible :: "Job \<Rightarrow> Memory \<Rightarrow> Bid set" where
  "eligible j m = {b \<in> set (gvals (bids m)). live_bid (jID j) b \<and> meets_reserve j b}"

definition live_priced :: "string \<Rightarrow> Memory \<Rightarrow> bool" where
  "live_priced jobID m \<longleftrightarrow>
     (\<forall>b \<in> set (gvals (bids m)). live_bid jobID b \<longrightarrow> 0 < bPrice b \<and> bPrice b < 2 ^ 63)"

lemma expire_without_bids_run:
  "map_of (jobs (mem w)) (jID j) \<noteq> None \<Longrightarrow> \<exists>j' w'. expire_without_bids j now t b w = (Inr j', w')
     \<and> map_of (jobs (mem w')) (jID j) = Some j' \<and> jStatus j' = StatusExpiredNoBids
     \<and> bids (mem w') = bids (mem w)"
  by (auto simp: expire_without_bids_def Let_def bnd_def put_def Update_def Send_def ret_def update_conv')

lemma FinishAuction_start:
  assumes "map_of (jobs (mem w)) i = Some j" and "jMode j = ModeAuction" and "jStatus j = StatusBidding"
    and "BidsByJob (iter e 0) i (mem w) = Inr bs" and "L = filter (\<lambda>b. bStatus b = BidActive) bs"
  shows "\<exists>t b. FinishAuction e i w =
    (if L = [] then expire_without_bids j (clock e 0) t b w
     else case Score (map as_item L) (reserveOf j) of
            [] \<Rightarrow> expire_without_bids j (clock e 0) t b w
          | best # others \<Rightarrow> declare_winner j (clock e 0) best others w)"
  using assms unfolding FinishAuction_def
  by (auto simp: bnd_def get_def ByID_def refuse_def ret_def Let_def split: list.split)

text \<open>C1: The finish always closes an auction that is being bid on, whatever the clock says. Without
  an eligible bid the job expires and no bid changes; otherwise the recommended winner is the
  cheapest eligible bid, the earliest among equals, and the customer gets the decision window.\<close>

theorem FinishAuction_winner:
  assumes "keyed jID (jobs (mem w))" and "keyed bID (bids (mem w))"
    and "map_of (jobs (mem w)) i = Some j" and "jMode j = ModeAuction" and "jStatus j = StatusBidding"
    and "live_priced i (mem w)"
  shows "\<exists>j' w'. FinishAuction e i w = (Inr j', w') \<and> map_of (jobs (mem w')) i = Some j'
    \<and> (if eligible j (mem w) = {} then jStatus j' = StatusExpiredNoBids \<and> bids (mem w') = bids (mem w)
       else jStatus j' = StatusDeciding
         \<and> jDecisionDeadline j' = Some (clock e 0 + decisionWindow j * Hour)
         \<and> (\<exists>b \<in> eligible j (mem w). jWinnerBidID j' = Some (bID b) \<and> (\<forall>x \<in> eligible j (mem w).
               bPrice b < bPrice x \<or> bPrice b = bPrice x \<and> bCreatedAt b \<le> bCreatedAt x)))"
proof -
  have ji: "jID j = i" using assms keyed_get by metis
  obtain bs where bs: "BidsByJob (iter e 0) i (mem w) = Inr bs" by (simp add: BidsByJob_def)
  define L where L: "L = filter (\<lambda>b. bStatus b = BidActive) bs"
  note rows = BidsByJob_rows [OF assms(2) bs]
  have el: "set (filter (meets_reserve j) L) = eligible j (mem w)"
    using rows by (auto simp: L eligible_def live_bid_def ji)
  have pr: "\<forall>b \<in> set L. 0 < bPrice b \<and> bPrice b < 2 ^ 63"
    using assms(6) rows by (auto simp: L live_priced_def live_bid_def)
  obtain t body where start: "FinishAuction e i w =
    (if L = [] then expire_without_bids j (clock e 0) t body w
     else case Score (map as_item L) (reserveOf j) of
            [] \<Rightarrow> expire_without_bids j (clock e 0) t body w
          | best # others \<Rightarrow> declare_winner j (clock e 0) best others w)"
    using FinishAuction_start [OF assms(3-5) bs L] by blast
  show ?thesis
  proof (cases "filter (meets_reserve j) L")
    case Nil
    then have "L = [] \<or> Score (map as_item L) (reserveOf j) = []"
      using Score_live [OF bs L _ pr, of j] by auto
    then have "FinishAuction e i w = expire_without_bids j (clock e 0) t body w"
      using start by auto
    then show ?thesis
      using expire_without_bids_run [of w j] assms(3) Nil el unfolding ji by auto
  next
    case (Cons b rest)
    then have ne: "L \<noteq> []" by auto
    obtain lo hi d where sc: "Score (map as_item L) (reserveOf j) =
        map (\<lambda>b. score_item lo hi d (as_item b)) (b # rest)"
      using Score_live [OF bs L ne pr, of j] Cons by auto
    let ?s = "\<lambda>b. score_item lo hi d (as_item b)"
    have d: "distinct (map bID (b # rest))" and sub: "set (b # rest) \<subseteq> set (gvals (bids (mem w)))"
      using rows(1,2) unfolding Cons [symmetric] L by (auto intro: distinct_map_filter)
    have "?s b # map ?s rest = map ?s (b # rest)" by simp
    from scored_updates [OF assms(2) sub d this] obtain w1 g where
      w1: "each (\<lambda>it. put (UpdateBid ((sBid it)\<lparr>bUpdatedAt := clock e 0\<rparr>))) (?s b # map ?s rest) w
        = (Inr (), w1)" "bids_to g (mem w) (mem w1)" by blast
    have j1: "map_of (jobs (mem w1)) (jID j) \<noteq> None"
      using bids_to_frame(1) [OF w1(2)] assms(3) ji by simp
    define j' where "j' = j\<lparr>jStatus := StatusDeciding, jWinnerBidID := Some (bID (sBid (?s b))),
        jDecisionDeadline := Some (clock e 0 + decisionWindow j * Hour), jUpdatedAt := clock e 0\<rparr>"
    obtain w' where w': "FinishAuction e i w = (Inr j', w')"
      "mem w' = (mem w1)\<lparr>jobs := AList.update (jID j) j' (jobs (mem w1))\<rparr>"
      using declare_winner_run [OF w1(1) j1 j'_def] start ne sc by auto
    have "sorted_wrt (\<lambda>x y. \<not> cheaper_bid y x) (b # rest)"
      using live_sorted [OF bs] unfolding Cons [symmetric] L by (rule sorted_wrt_filter)
    then have "\<forall>x \<in> set (b # rest). \<not> cheaper_bid x b" by (auto simp: cheaper_bid_def)
    then have "\<forall>x \<in> eligible j (mem w).
        bPrice b < bPrice x \<or> bPrice b = bPrice x \<and> bCreatedAt b \<le> bCreatedAt x"
      unfolding el [symmetric] Cons cheaper_bid_def by (meson linorder_cases not_less)
    moreover have "b \<in> eligible j (mem w)" unfolding el [symmetric] Cons by simp
    moreover have "map_of (jobs (mem w')) i = Some j'" unfolding w'(2) ji by (simp add: update_conv')
    ultimately show ?thesis using w'(1) by (auto simp: j'_def)
  qed
qed

theorem FinishAuction_winner_witness:
  "\<exists>j' w'. FinishAuction (env_at Hour ''n'') ''j1'' (with_bids auction_job
       [a_bid ''b1'' ''boris'' 70000 0, a_bid ''b2'' ''carl'' 30000 0, a_bid ''b3'' ''dora'' 60000 0])
      = (Inr j', w') \<and> jStatus j' = StatusDeciding \<and> jWinnerBidID j' = Some ''b3''"
proof -
  let ?b3 = "a_bid ''b3'' ''dora'' 60000 0"
  let ?w = "with_bids auction_job
       [a_bid ''b1'' ''boris'' 70000 0, a_bid ''b2'' ''carl'' 30000 0, ?b3]"
  have k: "keyed jID (jobs (mem ?w))" "keyed bID (bids (mem ?w))"
    "map_of (jobs (mem ?w)) ''j1'' = Some auction_job" "jMode auction_job = ModeAuction"
    "jStatus auction_job = StatusBidding" "live_priced ''j1'' (mem ?w)" by code_simp+
  have el: "eligible auction_job (mem ?w) = {a_bid ''b1'' ''boris'' 70000 0, ?b3}"
    by (auto simp: eligible_def live_bid_def meets_reserve_def reserveOf_def sample_defs)
  have p: "bPrice ?b3 = 60000" "bPrice (a_bid ''b1'' ''boris'' 70000 0) = 70000" "bID ?b3 = ''b3''"
    by (simp_all add: a_bid_def)
  have win: "b = ?b3" if "b \<in> {a_bid ''b1'' ''boris'' 70000 0, ?b3}"
    "\<forall>x \<in> {a_bid ''b1'' ''boris'' 70000 0, ?b3}.
        bPrice b < bPrice x \<or> bPrice b = bPrice x \<and> bCreatedAt b \<le> bCreatedAt x" for b
    using that p by auto
  obtain j' w' where r: "FinishAuction (env_at Hour ''n'') ''j1'' ?w = (Inr j', w')"
    and res: "if eligible auction_job (mem ?w) = {} then jStatus j' = StatusExpiredNoBids
         \<and> bids (mem w') = bids (mem ?w)
       else jStatus j' = StatusDeciding
         \<and> jDecisionDeadline j' = Some (clock (env_at Hour ''n'') 0 + decisionWindow auction_job * Hour)
         \<and> (\<exists>b \<in> eligible auction_job (mem ?w). jWinnerBidID j' = Some (bID b)
           \<and> (\<forall>x \<in> eligible auction_job (mem ?w).
               bPrice b < bPrice x \<or> bPrice b = bPrice x \<and> bCreatedAt b \<le> bCreatedAt x))"
    using FinishAuction_winner [OF k, of "env_at Hour ''n''"] by blast
  have "(eligible auction_job (mem ?w) = {}) = False" unfolding el by simp
  with res have "jStatus j' = StatusDeciding \<and> (\<exists>b \<in> eligible auction_job (mem ?w).
      jWinnerBidID j' = Some (bID b) \<and> (\<forall>x \<in> eligible auction_job (mem ?w).
        bPrice b < bPrice x \<or> bPrice b = bPrice x \<and> bCreatedAt b \<le> bCreatedAt x))"
    by (simp only: if_False)
  then obtain b where "b \<in> {a_bid ''b1'' ''boris'' 70000 0, ?b3}" "jWinnerBidID j' = Some (bID b)"
    "\<forall>x \<in> {a_bid ''b1'' ''boris'' 70000 0, ?b3}.
        bPrice b < bPrice x \<or> bPrice b = bPrice x \<and> bCreatedAt b \<le> bCreatedAt x"
    "jStatus j' = StatusDeciding"
    unfolding el by blast
  then show ?thesis using win p(3) r by metis
qed


section \<open>The decision\<close>

text \<open>C9: Accepting a bid in the decision window makes it the only winner: every other live bid of the
  job is lost, no other bid changes, and the job waits for the owner's confirmation with the
  accepted bid recorded. The job goes from \<open>StatusDeciding\<close> to \<open>StatusDealPending\<close>, a step the status
  matrix does not list.\<close>

theorem AcceptBid_result:
  assumes "keyed jID (jobs (mem w))" and "keyed bID (bids (mem w))"
    and "map_of (bids (mem w)) k = Some b" and "map_of (jobs (mem w)) (bJobID b) = Some j"
    and "jClientID j = c" and "jStatus j = StatusDeciding" and "bStatus b = BidActive"
  shows "\<exists>w'. AcceptBid e c k w = (Inr (b\<lparr>bStatus := BidWon, bUpdatedAt := clock e 0\<rparr>), w')
    \<and> map_of (bids (mem w')) = (\<lambda>n. map_option (\<lambda>x.
        if bID x = k then x\<lparr>bStatus := BidWon, bUpdatedAt := clock e 0\<rparr>
        else if live_bid (bJobID b) x then x\<lparr>bStatus := BidLost, bUpdatedAt := clock e 0\<rparr> else x)
        (map_of (bids (mem w)) n))
    \<and> map_of (jobs (mem w')) (bJobID b) =
        Some (j\<lparr>jStatus := StatusDealPending, jWinnerBidID := Some k, jUpdatedAt := clock e 0\<rparr>)
    \<and> \<not> CanTransition StatusDeciding StatusDealPending"
proof -
  let ?t = "clock e 0"
  let ?b = "b\<lparr>bStatus := BidWon, bUpdatedAt := ?t\<rparr>"
  have bk: "bID b = k" and ji: "jID j = bJobID b"
    using assms keyed_get by metis+
  define m1 where "m1 = (mem w)\<lparr>bids := AList.update k ?b (bids (mem w))\<rparr>"
  have u: "UpdateBid ?b (mem w) = Inr m1" using assms(3) by (simp add: UpdateBid_def bk m1_def)
  have k1: "keyed bID (bids m1)" using bid_rows.keyed_replace [OF assms(2) u] .
  obtain bs where bs: "BidsByJob (iter e 0) (bJobID b) m1 = Inr bs" by (simp add: BidsByJob_def)
  obtain w2 where w2: "close_bids BidLost (\<lambda>x. bID x = bID ?b) ?t [Lit ''auction finished'']
      [Txt (jTitle j), Lit '' - another contractor was chosen''] (job_data j) bs (w\<lparr>mem := m1\<rparr>) = (Inr (), w2)"
    and to: "bids_to (\<lambda>n. map_option (\<lambda>x. if bJobID x = bJobID b \<and> \<not> bID x = bID ?b \<and> bStatus x = BidActive
        then x\<lparr>bStatus := BidLost, bUpdatedAt := ?t\<rparr> else x) (map_of (bids m1) n)) m1 (mem w2)"
    using close_bids_run [of "w\<lparr>mem := m1\<rparr>" "iter e 0" "bJobID b" bs BidLost] k1 bs by force
  have jobs2: "jobs (mem w2) = jobs (mem w)" using bids_to_frame(1) [OF to] by (simp add: m1_def)
  define j' where "j' = j\<lparr>jStatus := StatusDealPending, jWinnerBidID := Some k, jUpdatedAt := ?t\<rparr>"
  define m3 where "m3 = (mem w2)\<lparr>jobs := AList.update (bJobID b) j' (jobs (mem w2))\<rparr>"
  have u3: "Update j' (mem w2) = Inr m3"
    using assms(4) by (simp add: Update_def m3_def jobs2 j'_def ji)
  have "\<exists>w'. AcceptBid e c k w = (Inr ?b, w') \<and> mem w' = m3"
    unfolding AcceptBid_def Let_def
    using assms(3-7) u bs w2 u3 bk ji
    by (simp add: bnd_def get_def put_def refuse_def ret_def Send_def BidByID_def ByID_def j'_def)
  then obtain w' where run: "AcceptBid e c k w = (Inr ?b, w')" and w': "mem w' = m3" by blast
  have "map_of (bids (mem w')) n = map_option (\<lambda>x.
        if bID x = k then x\<lparr>bStatus := BidWon, bUpdatedAt := ?t\<rparr>
        else if live_bid (bJobID b) x then x\<lparr>bStatus := BidLost, bUpdatedAt := ?t\<rparr> else x)
        (map_of (bids (mem w)) n)" for n
  proof (cases "n = k")
    case True
    then show ?thesis
      using bids_to_frame(9) [OF to] assms(3) by (simp add: w' m3_def m1_def update_conv' bk)
  next
    case False
    then have "map_of (bids m1) n = map_of (bids (mem w)) n" by (simp add: m1_def update_conv')
    then show ?thesis
      using bids_to_frame(9) [OF to] False keyed_get [OF assms(2), of n]
      by (cases "map_of (bids (mem w)) n") (auto simp: w' m3_def live_bid_def bk)
  qed
  moreover have "map_of (jobs (mem w')) (bJobID b) = Some j'" by (simp add: w' m3_def update_conv')
  moreover have "\<not> CanTransition StatusDeciding StatusDealPending" by (simp add: CanTransition_def)
  ultimately show ?thesis using run unfolding j'_def by blast
qed

theorem AcceptBid_result_witness:
  "\<exists>w'. AcceptBid (env_at 9 ''n'') ''anna'' ''b1'' (with_bids (auction_job\<lparr>jStatus := StatusDeciding\<rparr>)
       [a_bid ''b1'' ''boris'' 70000 0, a_bid ''b2'' ''carl'' 60000 0])
       = (Inr ((a_bid ''b1'' ''boris'' 70000 0)\<lparr>bStatus := BidWon, bUpdatedAt := 9\<rparr>), w')
     \<and> map_of (bids (mem w')) ''b2'' =
         Some ((a_bid ''b2'' ''carl'' 60000 0)\<lparr>bStatus := BidLost, bUpdatedAt := 9\<rparr>)"
proof -
  let ?b = "a_bid ''b1'' ''boris'' 70000 0" and ?b2 = "a_bid ''b2'' ''carl'' 60000 0"
  let ?j = "auction_job\<lparr>jStatus := StatusDeciding\<rparr>"
  let ?w = "with_bids ?j [?b, ?b2]"
  have k: "keyed jID (jobs (mem ?w))" "keyed bID (bids (mem ?w))" "map_of (bids (mem ?w)) ''b1'' = Some ?b"
    "map_of (jobs (mem ?w)) (bJobID ?b) = Some ?j" "jClientID ?j = ''anna''"
    "jStatus ?j = StatusDeciding" "bStatus ?b = BidActive" by code_simp+
  have b2: "map_of (bids (mem ?w)) ''b2'' = Some ?b2" "bID ?b2 \<noteq> ''b1''" "live_bid (bJobID ?b) ?b2"
    "clock (env_at 9 ''n'') 0 = 9" by code_simp+
  show ?thesis using AcceptBid_result [OF k, of "env_at 9 ''n''"] b2 by auto
qed

text \<open>A customer who declines all bids leaves no live bid on the
  job: each becomes lost, and the job is closed.\<close>

theorem DeclineAllBids_result:
  assumes "keyed jID (jobs (mem w))" and "keyed bID (bids (mem w))"
    and "map_of (jobs (mem w)) i = Some j" and "jClientID j = c" and "jStatus j = StatusDeciding"
  shows "\<exists>j' w'. DeclineAllBids e c i w = (Inr j', w') \<and> map_of (jobs (mem w')) i = Some j'
    \<and> jStatus j' = StatusDeclinedAll
    \<and> map_of (bids (mem w')) = (\<lambda>n. map_option (\<lambda>x. if live_bid i x
        then x\<lparr>bStatus := BidLost, bUpdatedAt := clock e 0\<rparr> else x) (map_of (bids (mem w)) n))"
proof -
  have ji: "jID j = i" using assms keyed_get by metis
  obtain bs where bs: "BidsByJob (iter e 0) i (mem w) = Inr bs" by (simp add: BidsByJob_def)
  obtain w2 where w2: "close_bids BidLost (\<lambda>_. False) (clock e 0) [Lit ''the client declined all bids'']
            [Txt (jTitle j), Lit '' - the job is closed''] (job_data j) bs w = (Inr (), w2)"
    and to: "bids_to (\<lambda>n. map_option (\<lambda>x. if bJobID x = i \<and> \<not> False \<and> bStatus x = BidActive
        then x\<lparr>bStatus := BidLost, bUpdatedAt := clock e 0\<rparr> else x) (map_of (bids (mem w)) n)) (mem w) (mem w2)"
    using close_bids_run [OF assms(2) bs, of BidLost "\<lambda>_. False"] by blast
  show ?thesis
    using assms w2 bs bids_to_frame(1,9) [OF to] ji
    by (simp add: DeclineAllBids_def own_def Let_def bnd_def get_def put_def refuse_def ret_def ByID_def
        Update_def live_bid_def update_conv')
qed

theorem DeclineAllBids_result_witness:
  "\<exists>j' w'. DeclineAllBids (env_at 9 ''n'') ''anna'' ''j1'' (with_bids (auction_job\<lparr>jStatus := StatusDeciding\<rparr>)
       [a_bid ''b1'' ''boris'' 70000 0]) = (Inr j', w') \<and> jStatus j' = StatusDeclinedAll"
proof -
  let ?j = "auction_job\<lparr>jStatus := StatusDeciding\<rparr>"
  let ?w = "with_bids ?j [a_bid ''b1'' ''boris'' 70000 0]"
  have k: "keyed jID (jobs (mem ?w))" "keyed bID (bids (mem ?w))"
    "map_of (jobs (mem ?w)) ''j1'' = Some ?j" "jClientID ?j = ''anna''" "jStatus ?j = StatusDeciding"
    by code_simp+
  show ?thesis using DeclineAllBids_result [OF k, of "env_at 9 ''n''"] by blast
qed

end
