(* ===== verification/Deals_Properties.thy ===== *)
theory Deals_Properties
  imports Deals_Service Samples
begin

text \<open>
  Theorems about deals: confirmation happens once and fixes the winner's price, the steps are exactly
  those of the relation \<open>deal_step\<close>, the job follows the deal, and a deal's record stays coherent.
\<close>


section \<open>A coherent deal\<close>

text \<open>
  Closed exactly when it has a closing time; waiting for acceptance only with a deadline; the timeline
  ends in the current status and climbs the ranks of the steps without repetition.
\<close>

definition deal_wf :: "Deal \<Rightarrow> bool" where
  "deal_wf d \<longleftrightarrow> (dClosedAt d \<noteq> None \<longleftrightarrow> deal_closed (dStatus d))
     \<and> (dStatus d = DealWorkDone \<longrightarrow> dAcceptanceDeadline d \<noteq> None)
     \<and> dTimeline d \<noteq> [] \<and> tStatus (last (dTimeline d)) = dStatus d
     \<and> sorted_wrt (\<lambda>x y. deal_rank (tStatus x) < deal_rank (tStatus y)) (dTimeline d)"

lemma rank_before_last:
  "sorted_wrt (\<lambda>x y. (f x :: nat) < f y) xs \<Longrightarrow> x \<in> set xs \<Longrightarrow> f x \<le> f (last xs)"
proof (induction xs)
  case (Cons y ys)
  then show ?case by (cases "ys = []") (auto intro: order.strict_implies_order)
qed simp

lemma timeline_snoc:
  assumes "deal_wf d" and "deal_rank (dStatus d) < deal_rank s" and "tStatus ev = s"
  shows "sorted_wrt (\<lambda>x y. deal_rank (tStatus x) < deal_rank (tStatus y)) (dTimeline d @ [ev])"
proof -
  have "deal_rank (tStatus x) \<le> deal_rank (dStatus d)" if "x \<in> set (dTimeline d)" for x
    using rank_before_last [of "\<lambda>x. deal_rank (tStatus x)" "dTimeline d" x] assms(1) that
    unfolding deal_wf_def by metis
  then show ?thesis
    using assms by (fastforce simp: deal_wf_def sorted_wrt_append)
qed

text \<open>A strictly climbing timeline has at most one entry per rank.\<close>

lemma climbing_length:
  "sorted_wrt (\<lambda>x y. (f x :: nat) < f y) xs \<Longrightarrow> \<forall>x \<in> set xs. f x \<le> n \<Longrightarrow> length xs \<le> Suc n"
proof -
  assume s: "sorted_wrt (\<lambda>x y. f x < f y) xs" and b: "\<forall>x \<in> set xs. f x \<le> n"
  have "distinct (map f xs)" using s by (induction xs) auto
  then have "length xs = card (f ` set xs)" by (metis distinct_card length_map set_map)
  also have "\<dots> \<le> card {0..n}" using b by (intro card_mono) auto
  finally show ?thesis by simp
qed

lemma deal_rank_le: "deal_rank s \<le> 5"
  by (cases s) auto

lemma timeline_length: "deal_wf d \<Longrightarrow> length (dTimeline d) \<le> 6"
  using climbing_length [of "\<lambda>x. deal_rank (tStatus x)" "dTimeline d" 5] deal_rank_le
  by (auto simp: deal_wf_def)

lemma deal_wf_advanced:
  assumes wf: "deal_wf d" and can: "CanAdvance d to u = None"
  shows "deal_wf (advanced d to u n t)"
proof -
  obtain r where step: "deal_step r (dStatus d) to" using can CanAdvance_None by blast
  have rank: "deal_rank (dStatus d) < deal_rank to" using deal_step_rank [OF step] .
  have op: "\<not> deal_closed (dStatus d)" using step deal_closed_final by blast
  have "sorted_wrt (\<lambda>x y. deal_rank (tStatus x) < deal_rank (tStatus y)) (dTimeline (advanced d to u n t))"
    using timeline_snoc [OF wf rank] by simp
  moreover have "dClosedAt (advanced d to u n t) \<noteq> None \<longleftrightarrow> deal_closed to"
    using wf op by (auto simp: advanced_def Let_def deal_wf_def deal_closed_def)
  moreover have "to = DealWorkDone \<longrightarrow> dAcceptanceDeadline (advanced d to u n t) \<noteq> None"
    by (simp add: advanced_def Let_def)
  ultimately show ?thesis by (simp add: deal_wf_def)
qed

lemma deal_wf_new: "deal_wf (new_deal i c j jobID win now)"
  by (auto simp: new_deal_def deal_wf_def deal_closed_def split: prod.split)

text \<open>What cancelling writes differs from advancing to the cancelled status by the reason and its author.\<close>

definition cancelled :: "Deal \<Rightarrow> string \<Rightarrow> message \<Rightarrow> time \<Rightarrow> Deal" where
  "cancelled d u why now =
     (advanced d DealCancelled u why now)\<lparr>dCancelReason := why, dCancelledBy := Some u\<rparr>"

lemma cancelled_eq:
  "d\<lparr>dStatus := DealCancelled, dCancelReason := why, dCancelledBy := Some u, dClosedAt := Some now,
     dUpdatedAt := now, dTimeline := dTimeline d @ [\<lparr>tStatus = DealCancelled, tAt = now, tByID = u,
     tNote = why\<rparr>]\<rparr> = cancelled d u why now"
  by (simp add: cancelled_def advanced_def Let_def)

lemma deal_wf_cancelled:
  "deal_wf d \<Longrightarrow> CanAdvance d DealCancelled u = None \<Longrightarrow> deal_wf (cancelled d u why now)"
  using deal_wf_advanced [of d DealCancelled u why now] by (simp add: cancelled_def deal_wf_def)

lemma wf_update:
  "keyed idf m \<Longrightarrow> \<forall>x \<in> set (gvals m). P x \<Longrightarrow> P v \<Longrightarrow> \<forall>x \<in> set (gvals (AList.update (idf v) v m)). P x"
  by (simp add: keyed_gvals_update)


section \<open>Advancing\<close>

lemma AdvanceDeal_run:
  assumes "keyed jID (jobs (mem w))" and "keyed dID (deals (mem w))"
    and "map_of (deals (mem w)) k = Some d" and "CanAdvance d to u = None"
    and d': "d' = advanced d to u (trim_note note) (clock e 0)"
  shows "\<exists>w'. AdvanceDeal e u k to note w = (Inr d', w')
    \<and> deals (mem w') = AList.update k d' (deals (mem w))
    \<and> keyed jID (jobs (mem w'))
    \<and> map_of (jobs (mem w')) = (\<lambda>i. map_option (\<lambda>j. if i = dJobID d
        then j\<lparr>jStatus := JobStatusForDeal to, jUpdatedAt := clock e 0\<rparr> else j) (map_of (jobs (mem w)) i))
    \<and> bids (mem w') = bids (mem w) \<and> offers (mem w') = offers (mem w)"
proof -
  have dk: "dID d = k" using keyed_get [OF assms(2,3)] .
  define m1 where "m1 = (mem w)\<lparr>deals := AList.update k d' (deals (mem w))\<rparr>"
  have u: "UpdateDeal d' (mem w) = Inr m1" using assms(3) dk by (simp add: UpdateDeal_def d' m1_def)
  have k1: "keyed jID (jobs (mem (w\<lparr>mem := m1\<rparr>)))" using assms(1) by (simp add: m1_def)
  obtain w2 where w2: "follow_job (dJobID d) (JobStatusForDeal to) (clock e 0) (w\<lparr>mem := m1\<rparr>) = (Inr (), w2)"
    and m2: "mem w2 = m1\<lparr>jobs := jobs (mem w2)\<rparr>" "keyed jID (jobs (mem w2))"
    "map_of (jobs (mem w2)) = (\<lambda>i. map_option (\<lambda>j. if i = dJobID d
        then j\<lparr>jStatus := JobStatusForDeal to, jUpdatedAt := clock e 0\<rparr> else j) (map_of (jobs m1) i))"
    using follow_job_run [OF k1, of "dJobID d" "JobStatusForDeal to" "clock e 0"] by auto
  obtain w3 where w3: "notifyDealStep d' u to w2 = (Inr (), w3)" "mem w3 = mem w2"
    using notifyDealStep_run by blast
  have "AdvanceDeal e u k to note w = (Inr d', w3)"
    unfolding AdvanceDeal_def Let_def
    using assms(3,4) u w2 w3(1) d'
    by (simp add: bnd_def get_def check_def put_def ret_def DealByID_def)
  moreover have "deals (mem w2) = deals m1" "bids (mem w2) = bids m1" "offers (mem w2) = offers m1"
    by (subst m2(1), simp)+
  ultimately show ?thesis using m2(2,3) w3(2) by (simp add: m1_def)
qed

text \<open>C18: A step is taken exactly when the person plays a role in the deal and the relation \<open>deal_step\<close>
  gives that role the step; the deal records it, the job shows the matching status, and a refused
  step changes nothing.\<close>

theorem AdvanceDeal_iff:
  assumes "keyed jID (jobs (mem w))" and "keyed dID (deals (mem w))"
    and "map_of (deals (mem w)) k = Some d"
  shows "if \<exists>r. plays d u r \<and> deal_step r (dStatus d) to
    then \<exists>d' w'. AdvanceDeal e u k to note w = (Inr d', w') \<and> map_of (deals (mem w')) k = Some d'
       \<and> dStatus d' = to \<and> length (dTimeline d') = Suc (length (dTimeline d))
       \<and> (\<forall>n. n \<noteq> k \<longrightarrow> map_of (deals (mem w')) n = map_of (deals (mem w)) n)
       \<and> (\<forall>j. map_of (jobs (mem w)) (dJobID d) = Some j \<longrightarrow>
            map_of (jobs (mem w')) (dJobID d) =
              Some (j\<lparr>jStatus := JobStatusForDeal to, jUpdatedAt := clock e 0\<rparr>))
    else \<exists>x. AdvanceDeal e u k to note w = (Inl x, w)
       \<and> x \<in> {ErrDealClosed, ErrDealNotParty, ErrDealStep, ErrDealWrongPerson}"
proof (cases "CanAdvance d to u")
  case None
  then have c: "\<exists>r. plays d u r \<and> deal_step r (dStatus d) to" using CanAdvance_None by blast
  obtain w' where "AdvanceDeal e u k to note w = (Inr (advanced d to u (trim_note note) (clock e 0)), w')"
    "deals (mem w') = AList.update k (advanced d to u (trim_note note) (clock e 0)) (deals (mem w))"
    "map_of (jobs (mem w')) = (\<lambda>i. map_option (\<lambda>j. if i = dJobID d
        then j\<lparr>jStatus := JobStatusForDeal to, jUpdatedAt := clock e 0\<rparr> else j) (map_of (jobs (mem w)) i))"
    using AdvanceDeal_run [OF assms None refl, of e "note"] by blast
  with c show ?thesis by (simp add: update_conv')
next
  case (Some x)
  then have c: "\<not> (\<exists>r. plays d u r \<and> deal_step r (dStatus d) to)"
    using CanAdvance_None [of d "to" u] by simp
  have "AdvanceDeal e u k to note w = (Inl x, w)"
    using assms(3) Some by (simp add: AdvanceDeal_def bnd_def get_def check_def fail_def DealByID_def)
  with c show ?thesis using CanAdvance_errors [OF Some] by auto
qed

theorem AdvanceDeal_iff_witness:
  "\<exists>d' w'. AdvanceDeal (env_at 5 ''n'') ''boris'' ''d1'' DealWorkDone []
      (with_deal (fixed_job\<lparr>jStatus := StatusInProgress\<rparr>) (a_deal DealInProgress)) = (Inr d', w')
    \<and> dStatus d' = DealWorkDone"
proof -
  let ?d = "a_deal DealInProgress"
  let ?w = "with_deal (fixed_job\<lparr>jStatus := StatusInProgress\<rparr>) ?d"
  have k: "keyed jID (jobs (mem ?w))" "keyed dID (deals (mem ?w))" "map_of (deals (mem ?w)) ''d1'' = Some ?d"
    by code_simp+
  have "plays ?d ''boris'' Owner \<and> deal_step Owner (dStatus ?d) DealWorkDone" by (simp add: a_deal_def)
  then have "\<exists>r. plays ?d ''boris'' r \<and> deal_step r (dStatus ?d) DealWorkDone" by blast
  then show ?thesis
    using AdvanceDeal_iff [OF k, of "''boris''" DealWorkDone "env_at 5 ''n''" "[]"] by auto
qed

text \<open>A step keeps the record of the deal coherent: closed exactly when it has a closing time,
  waiting for acceptance only with a deadline, with a timeline that climbs and has at most six
  entries; a closed deal takes no step.\<close>

theorem AdvanceDeal_keeps_wf:
  assumes "keyed dID (deals (mem w))" and "\<forall>d \<in> set (gvals (deals (mem w))). deal_wf d"
    and "AdvanceDeal e u k to note w = (Inr d', w')"
  shows "(\<forall>d \<in> set (gvals (deals (mem w'))). deal_wf d) \<and> length (dTimeline d') \<le> 6
    \<and> (deal_closed to \<longrightarrow> dClosedAt d' = Some (clock e 0))
    \<and> (deal_closed to \<longrightarrow> (\<forall>v to2. CanAdvance d' to2 v \<noteq> None))"
proof -
  from assms(3) obtain d where d: "map_of (deals (mem w)) k = Some d" and can: "CanAdvance d to u = None"
    and d': "d' = advanced d to u (trim_note note) (clock e 0)"
    and m: "deals (mem w') = AList.update (dID d') d' (deals (mem w))"
  proof -
    from assms(3) obtain d m1 w1 w2 where "map_of (deals (mem w)) k = Some d" "CanAdvance d to u = None"
      and d': "d' = advanced d to u (trim_note note) (clock e 0)" and u: "UpdateDeal d' (mem w) = Inr m1"
      and f: "follow_job (dJobID d') (JobStatusForDeal to) (clock e 0) (w\<lparr>mem := m1\<rparr>) = (Inr (), w1)"
      and n: "notifyDealStep d' u to w1 = (Inr (), w2)" and w2: "w' = w2"
      by (auto simp: AdvanceDeal_def Let_def op_simps DealByID_def)
    have "deals (mem w1) = deals m1"
      using f by (auto simp: follow_job_def attempt_def get_def ignore_def put_def store_simps ret_def
          split: sum.splits)
    moreover have "mem w2 = mem w1" using notifyDealStep_run [of d' u "to" w1] n by auto
    ultimately have "deals (mem w') = AList.update (dID d') d' (deals (mem w))"
      using u w2 by (simp add: store_simps)
    with that \<open>map_of (deals (mem w)) k = Some d\<close> \<open>CanAdvance d to u = None\<close> d' show thesis by blast
  qed
  have "deal_wf d" using assms(1,2) keyed_get_mem [OF assms(1) d] by blast
  then have wf: "deal_wf d'" unfolding d' using can by (rule deal_wf_advanced)
  have "\<forall>d \<in> set (gvals (deals (mem w'))). deal_wf d"
    unfolding m using assms(1,2) wf by (rule wf_update)
  moreover have "CanAdvance d' to2 v \<noteq> None" if "deal_closed to" for v to2
    using that by (auto simp: CanAdvance_def d' deal_closed_def)
  moreover have "deal_closed to \<Longrightarrow> dClosedAt d' = Some (clock e 0)"
    by (auto simp: d' advanced_def Let_def deal_closed_def)
  ultimately show ?thesis using timeline_length [OF wf] by blast
qed

theorem AdvanceDeal_keeps_wf_witness:
  "\<exists>d' w'. AdvanceDeal (env_at 5 ''n'') ''anna'' ''d1'' DealCancelled []
      (with_deal (fixed_job\<lparr>jStatus := StatusConfirmed\<rparr>) (a_deal DealConfirmed)) = (Inr d', w')
    \<and> dClosedAt d' = Some 5 \<and> CanAdvance d' DealInProgress ''boris'' \<noteq> None"
proof -
  let ?w = "with_deal (fixed_job\<lparr>jStatus := StatusConfirmed\<rparr>) (a_deal DealConfirmed)"
  let ?r = "AdvanceDeal (env_at 5 ''n'') ''anna'' ''d1'' DealCancelled [] ?w"
  have "case fst ?r of Inl _ \<Rightarrow> False | Inr _ \<Rightarrow> True" by code_simp
  then obtain d' w' where r: "?r = (Inr d', w')" by (cases ?r) (auto split: sum.splits)
  have "keyed dID (deals (mem ?w))" by code_simp
  moreover have "\<forall>d \<in> set (gvals (deals (mem ?w))). deal_wf d"
    by (simp add: with_deal_def a_deal_def deal_wf_def deal_closed_def)
  moreover have "deal_closed DealCancelled" "clock (env_at 5 ''n'') 0 = 5" by code_simp+
  ultimately show ?thesis using AdvanceDeal_keeps_wf [OF _ _ r] r by auto
qed


section \<open>Confirmation\<close>

lemma find_winner_Inr:
  "find_winner e i w = (Inr win, w') \<Longrightarrow> w' = w \<and> fst win \<noteq> ''''
     \<and> ((\<exists>x \<in> set (gvals (offers (mem w))). oJobID x = i \<and> oStatus x = OfferAccepted
            \<and> win = (oID x, oOwnerID x, oPrice x, oCurrency x))
        \<or> (\<exists>b \<in> set (gvals (bids (mem w))). bJobID b = i \<and> bStatus b = BidWon
            \<and> win = (bID b, bOwnerID b, bPrice b, bCurrency b)))"
proof -
  have offer: "\<exists>x \<in> set (gvals (offers (mem w))). oJobID x = i \<and> oStatus x = OfferAccepted
      \<and> offer_winner os = (oID x, oOwnerID x, oPrice x, oCurrency x)"
    if os: "OffersByJob (iter e 1) i (mem w) = Inr os" and ne: "fst (offer_winner os) \<noteq> ''''" for os
  proof -
    obtain x where x: "find (\<lambda>x. oStatus x = OfferAccepted) os = Some x"
      using ne by (auto simp: offer_winner_def split: option.splits)
    then have "x \<in> set os \<and> oStatus x = OfferAccepted" by (rule find_mem)
    then show ?thesis using x os by (auto simp: offer_winner_def OffersByJob_def)
  qed
  have bid: "\<exists>b \<in> set (gvals (bids (mem w))). bJobID b = i \<and> bStatus b = BidWon
      \<and> bid_winner bs = (bID b, bOwnerID b, bPrice b, bCurrency b)"
    if bs: "BidsByJob (iter e 2) i (mem w) = Inr bs" and ne: "fst (bid_winner bs) \<noteq> ''''" for bs
  proof -
    obtain b where b: "find (\<lambda>b. bStatus b = BidWon) bs = Some b"
      using ne by (auto simp: bid_winner_def split: option.splits)
    then have "b \<in> set bs \<and> bStatus b = BidWon" by (rule find_mem)
    then show ?thesis using b bs by (auto simp: bid_winner_def BidsByJob_def)
  qed
  obtain os bs where os: "OffersByJob (iter e 1) i (mem w) = Inr os"
    and bs: "BidsByJob (iter e 2) i (mem w) = Inr bs"
    by (simp add: OffersByJob_def BidsByJob_def)
  assume run: "find_winner e i w = (Inr win, w')"
  have "win = (if fst (offer_winner os) = '''' then bid_winner bs else offer_winner os)
      \<and> fst win \<noteq> '''' \<and> w' = w"
    using run os bs
    by (cases "fst (offer_winner os) = ''''")
      (auto simp: find_winner_def bnd_def get_def ret_def refuse_def fail_def split: if_splits)
  then show ?thesis using offer [OF os] bid [OF bs] by (auto split: if_splits)
qed

lemma ConfirmDeal_run:
  assumes "ConfirmDeal e c i w = (Inr d, w')"
  obtains (existing) j where "map_of (jobs (mem w)) i = Some j" "jClientID j = c"
      "DealByJob (iter e 0) i (mem w) = Inr d" "w' = w"
    | (confirmed) j win m1 where "map_of (jobs (mem w)) i = Some j" "jClientID j = c"
      "jStatus j = StatusDealPending" "find_winner e i w = (Inr win, w)"
      "d = new_deal (fresh e 0) c j i win (clock e 0)" "CreateDeal d (mem w) = Inr m1"
      "Update (j\<lparr>jStatus := StatusConfirmed, jUpdatedAt := clock e 0\<rparr>) m1 = Inr (mem w')"
proof -
  from assms obtain j where j: "map_of (jobs (mem w)) i = Some j" "jClientID j = c"
    and r: "attempt (get (DealByJob (iter e 0) i)) (\<lambda>r. case r of
       Inr existing \<Rightarrow> ret existing
     | Inl _ \<Rightarrow>
         bnd (refuse (jStatus j \<noteq> StatusDealPending) ErrBadTransition) (\<lambda>_.
         bnd (find_winner e i) (\<lambda>win.
         let now = clock e 0; deal = new_deal (fresh e 0) c j i win now
         in bnd (put (CreateDeal deal)) (\<lambda>_.
         let j = j\<lparr>jStatus := StatusConfirmed, jUpdatedAt := now\<rparr>
         in bnd (put (Update j)) (\<lambda>_.
         bnd (Send (dOwnerID deal) [Lit ''deal confirmed'']
                (Txt (jTitle j) # Lit '' - '' # MoneyRU (dPrice deal) (dCurrency deal))
                (deal_data deal)) (\<lambda>_.
         ret deal)))))) w = (Inr d, w')"
    unfolding ConfirmDeal_def by (auto simp: op_simps)
  show thesis
  proof (cases "DealByJob (iter e 0) i (mem w)")
    case (Inr d0)
    then show ?thesis using existing [OF j] r by (simp add: attempt_def get_def op_simps)
  next
    case (Inl x)
    from r Inl obtain win m1 w1 where "jStatus j = StatusDealPending"
      and f: "find_winner e i w = (Inr win, w1)" and d: "d = new_deal (fresh e 0) c j i win (clock e 0)"
      and c: "CreateDeal d (mem w1) = Inr m1"
      and u: "Update (j\<lparr>jStatus := StatusConfirmed, jUpdatedAt := clock e 0\<rparr>) m1 = Inr (mem w')"
      by (auto simp: attempt_def get_def op_simps Let_def)
    moreover have "w1 = w" using find_winner_Inr [OF f] by blast
    ultimately show ?thesis using confirmed [OF j] by blast
  qed
qed

lemma new_deal_simps [simp]:
  "dID (new_deal i c j k win t) = i" "dJobID (new_deal i c j k win t) = k"
  "dClientID (new_deal i c j k win t) = jClientID j" "dOwnerID (new_deal i c j k win t) = fst (snd win)"
  "dPrice (new_deal i c j k win t) = fst (snd (snd win))"
  "dStatus (new_deal i c j k win t) = DealConfirmed" "dOfferID (new_deal i c j k win t) = Some (fst win)"
  by (simp_all add: new_deal_def split: prod.split)

text \<open>A job gets at most one deal, and confirming again returns the same deal and changes nothing.
  A newly confirmed deal has the price and the owner of an accepted offer or of a won bid of the
  job.\<close>

theorem ConfirmDeal_once:
  assumes "keyed jID (jobs (mem w))" and "keyed dID (deals (mem w))"
    and "unique_rows deal_clash (deals (mem w))" and "ConfirmDeal e c i w = (Inr d, w')"
  shows "unique_rows deal_clash (deals (mem w')) \<and> d \<in> set (gvals (deals (mem w'))) \<and> dJobID d = i
    \<and> ConfirmDeal e' c i w' = (Inr d, w')
    \<and> (w' = w \<or> dStatus d = DealConfirmed \<and>
        ((\<exists>x \<in> set (gvals (offers (mem w))). oJobID x = i \<and> oStatus x = OfferAccepted
            \<and> dOwnerID d = oOwnerID x \<and> dPrice d = oPrice x)
        \<or> (\<exists>b \<in> set (gvals (bids (mem w))). bJobID b = i \<and> bStatus b = BidWon
            \<and> dOwnerID d = bOwnerID b \<and> dPrice d = bPrice b)))"
proof -
  have again: "ConfirmDeal e' c i w' = (Inr d, w')"
    if "map_of (jobs (mem w')) i = Some j'" "jClientID j' = c" "unique_rows deal_clash (deals (mem w'))"
      "d \<in> set (gvals (deals (mem w')))" "dJobID d = i" for j'
    using that DealByJob_unique [of "mem w'" d i "iter e' 0"]
    by (simp add: ConfirmDeal_def own_def bnd_def attempt_def get_def refuse_def ret_def ByID_def)
  from assms(4) show ?thesis
  proof (cases rule: ConfirmDeal_run)
    case (existing j)
    then have "d \<in> set (gvals (deals (mem w')))" "dJobID d = i"
      using DealByJob_Inr [OF existing(3)] by simp_all
    then show ?thesis using again existing assms(3) by blast
  next
    case (confirmed j win m1)
    have ji: "jID j = i" using keyed_get [OF assms(1) confirmed(1)] .
    have k1: "keyed dID (deals m1)" using deal_rows.keyed_create [OF assms(2) confirmed(6)] .
    have u1: "unique_rows deal_clash (deals m1)"
      using deal_rows.unique_create [OF assms(2,3) confirmed(6)] .
    have d: "d \<in> set (gvals (deals m1))"
      using deal_rows.fetch_create [OF confirmed(6)] keyed_mem [OF k1] by (simp add: DealByID_def)
    have m': "deals (mem w') = deals m1"
      "map_of (jobs (mem w')) i = Some (j\<lparr>jStatus := StatusConfirmed, jUpdatedAt := clock e 0\<rparr>)"
      using confirmed(7) ji by (auto simp: store_simps update_conv')
    have "ConfirmDeal e' c i w' = (Inr d, w')"
      using again [OF m'(2)] u1 d confirmed(2,5) m'(1) by simp
    then show ?thesis using find_winner_Inr [OF confirmed(4)] u1 d m'(1) confirmed(5) by auto
  qed
qed

theorem ConfirmDeal_once_witness:
  "\<exists>d w'. ConfirmDeal (env_at 5 ''d9'') ''anna'' ''j1'' (with_offers (fixed_job\<lparr>jStatus := StatusDealPending\<rparr>)
       [(an_offer ''o1'' ''boris'' 95000)\<lparr>oStatus := OfferAccepted\<rparr>]) = (Inr d, w')
    \<and> dPrice d = 95000 \<and> ConfirmDeal (env_at 6 ''d10'') ''anna'' ''j1'' w' = (Inr d, w')"
proof -
  let ?w = "with_offers (fixed_job\<lparr>jStatus := StatusDealPending\<rparr>)
       [(an_offer ''o1'' ''boris'' 95000)\<lparr>oStatus := OfferAccepted\<rparr>]"
  let ?r = "ConfirmDeal (env_at 5 ''d9'') ''anna'' ''j1'' ?w"
  have "case fst ?r of Inl _ \<Rightarrow> False | Inr d \<Rightarrow> dPrice d = 95000" by code_simp
  then obtain d w' where r: "?r = (Inr d, w')" "dPrice d = 95000" by (cases ?r) (auto split: sum.splits)
  have "keyed jID (jobs (mem ?w))" "keyed dID (deals (mem ?w))" "unique_rows deal_clash (deals (mem ?w))"
    by code_simp+
  then show ?thesis using ConfirmDeal_once [OF _ _ _ r(1), of "env_at 6 ''d10''"] r by blast
qed

text \<open>A deal is cancelled only by a party, before it is closed and outside acceptance, with a
  non-empty reason; the reason, its author and the closing time are recorded and the job is
  cancelled with it.\<close>

theorem CancelDeal_result:
  assumes "keyed jID (jobs (mem w))" and "keyed dID (deals (mem w))"
    and "CancelDeal e u k reason w = (Inr d', w')"
  shows "\<exists>d. map_of (deals (mem w)) k = Some d \<and> (\<exists>r. plays d u r \<and> deal_step r (dStatus d) DealCancelled)
    \<and> TrimSpace reason \<noteq> [] \<and> d' = cancelled d u [Txt (TrimSpace reason)] (clock e 0)
    \<and> map_of (deals (mem w')) k = Some d'
    \<and> (\<forall>j. map_of (jobs (mem w)) (dJobID d) = Some j \<longrightarrow>
         (\<exists>j'. map_of (jobs (mem w')) (dJobID d) = Some j' \<and> jStatus j' = StatusCancelled))"
proof -
  from assms(3) obtain d m1 w1 where d: "map_of (deals (mem w)) k = Some d"
    and can: "CanAdvance d DealCancelled u = None" and ne: "TrimSpace reason \<noteq> []"
    and d': "d' = cancelled d u (mtext (TrimSpace reason)) (clock e 0)"
    and up: "UpdateDeal d' (mem w) = Inr m1"
    and f: "follow_job (dJobID d') StatusCancelled (clock e 0) (w\<lparr>mem := m1\<rparr>) = (Inr (), w1)"
    and w': "mem w' = mem w1"
    by (auto simp: CancelDeal_def Let_def op_simps DealByID_def cancelled_eq)
  have dk: "dID d' = k" "dJobID d' = dJobID d"
    using keyed_get [OF assms(2) d] by (simp_all add: d' cancelled_def)
  have k1: "keyed jID (jobs (mem (w\<lparr>mem := m1\<rparr>)))" using up assms(1) by (simp add: store_simps)
  have fr: "mem w1 = m1\<lparr>jobs := jobs (mem w1)\<rparr>"
    "map_of (jobs (mem w1)) = (\<lambda>i. map_option (\<lambda>j. if i = dJobID d'
        then j\<lparr>jStatus := StatusCancelled, jUpdatedAt := clock e 0\<rparr> else j) (map_of (jobs m1) i))"
    using follow_job_run [OF k1, of "dJobID d'" StatusCancelled "clock e 0"] f by auto
  have "deals (mem w1) = deals m1" by (subst fr(1)) simp
  then have "map_of (deals (mem w')) k = Some d'"
    using up dk w' by (simp add: store_simps update_conv')
  moreover have "jobs m1 = jobs (mem w)" using up by (simp add: store_simps)
  ultimately show ?thesis
    using d can ne d' fr(2) w' dk(2) CanAdvance_None by (auto simp: mtext_def)
qed

theorem CancelDeal_result_witness:
  "\<exists>d' w'. CancelDeal (env_at 5 ''n'') ''anna'' ''d1'' [97]
      (with_deal (fixed_job\<lparr>jStatus := StatusConfirmed\<rparr>) (a_deal DealConfirmed)) = (Inr d', w')
    \<and> map_of (deals (mem w')) ''d1'' = Some d' \<and> d' = cancelled (a_deal DealConfirmed) ''anna'' [Txt [97]] 5"
proof -
  let ?w = "with_deal (fixed_job\<lparr>jStatus := StatusConfirmed\<rparr>) (a_deal DealConfirmed)"
  let ?r = "CancelDeal (env_at 5 ''n'') ''anna'' ''d1'' [97] ?w"
  have "case fst ?r of Inl _ \<Rightarrow> False | Inr d \<Rightarrow> True" by code_simp
  then obtain d' w' where r: "?r = (Inr d', w')" by (cases ?r) (auto split: sum.splits)
  have "keyed jID (jobs (mem ?w))" "keyed dID (deals (mem ?w))" by code_simp+
  note res = CancelDeal_result [OF this r]
  have "map_of (deals (mem ?w)) ''d1'' = Some (a_deal DealConfirmed)" "TrimSpace [97] = [97]"
    "clock (env_at 5 ''n'') 0 = 5" by code_simp+
  then show ?thesis using res r by auto
qed

end
