(* ===== verification/Scheduler_Properties.thy ===== *)
theory Scheduler_Properties
  imports Scheduler Bids_Properties Deals_Properties Reviews_Properties
begin

text \<open>
  The background worker leaves nothing behind: after one pass no auction, decision window or
  acceptance deadline that had run out at the start of the pass is still open.
\<close>


section \<open>What one closing does\<close>

text \<open>A closing of the job \<open>i\<close> touches the row of that job, its deal and some bids only.\<close>

definition only_job :: "string \<Rightarrow> Memory \<Rightarrow> Memory \<Rightarrow> bool" where
  "only_job i m m' \<longleftrightarrow> (\<forall>k. k \<noteq> i \<longrightarrow> map_of (jobs m') k = map_of (jobs m) k)
     \<and> (\<forall>d. dJobID d \<noteq> i \<longrightarrow> d \<in> set (gvals (deals m')) \<longleftrightarrow> d \<in> set (gvals (deals m)))
     \<and> dom (map_of (jobs m')) = dom (map_of (jobs m))"

definition tables_ok :: "Memory \<Rightarrow> bool" where
  "tables_ok m \<longleftrightarrow> keyed jID (jobs m) \<and> keyed bID (bids m) \<and> keyed dID (deals m)
     \<and> unique_rows deal_clash (deals m)
     \<and> (\<forall>j \<in> set (gvals (jobs m)). jStatus j = StatusBidding \<longrightarrow> jMode j = ModeAuction)"

text \<open>The writes of a closing: some bids, then the row of the job with another status.\<close>

lemma job_written:
  assumes "tables_ok m" and "bids_to g m m1" and "map_of (jobs m) i = Some j" and "jID j' = i"
    and "jStatus j' \<noteq> StatusBidding" and "m' = m1\<lparr>jobs := AList.update i j' (jobs m1)\<rparr>"
  shows "tables_ok m' \<and> only_job i m m' \<and> map_of (jobs m') i = Some j'"
proof -
  have f: "jobs m1 = jobs m" "deals m1 = deals m" using bids_to_frame [OF assms(2)] by simp_all
  have kb: "keyed bID (bids m1)" using assms(1,2) by (simp add: bids_to_def tables_ok_def)
  have kj: "keyed jID (jobs m)" using assms(1) by (simp add: tables_ok_def)
  have "set (gvals (AList.update i j' (jobs m))) = insert j' {x \<in> set (gvals (jobs m)). jID x \<noteq> i}"
    using keyed_gvals_update [OF kj, of j'] assms(4) by simp
  then have "tables_ok m'"
    using assms f kb kj by (auto simp: tables_ok_def intro!: keyed_update_key)
  then show ?thesis using assms f by (auto simp: only_job_def update_conv')
qed

lemma Score_rows:
  assumes "keyed bID (bids m)" and "BidsByJob rank i m = Inr bs"
    and "Score (map as_item (filter P bs)) r = its"
  shows "distinct (map (\<lambda>it. bID (sBid it)) its)
    \<and> (\<forall>it \<in> set its. map_of (bids m) (bID (sBid it)) \<noteq> None)"
proof -
  obtain lo hi d where "mset its = mset (map (score_item lo hi d)
      (filter (\<lambda>it. \<not> below_reserve r it) (map as_item (filter P bs))))"
    using assms(3) by (cases "map as_item (filter P bs)") (force simp: Score_def Let_def)+
  then have ms: "mset its = mset (map (\<lambda>b. score_item lo hi d (as_item b)) (filter Q bs))"
    if "Q = (\<lambda>b. P b \<and> \<not> below_reserve r (as_item b))" for Q
    using that by (simp add: filter_map comp_def conj_commute filter_filter_mset multiset.map_comp)
  define Q where "Q = (\<lambda>b. P b \<and> \<not> below_reserve r (as_item b))"
  note ms = ms [OF Q_def]
  have "mset (map (\<lambda>it. bID (sBid it)) its) = mset (map bID (filter Q bs))"
    unfolding mset_map ms by (simp add: multiset.map_comp comp_def)
  moreover have "distinct (map bID (filter Q bs))"
    using BidsByJob_rows(2) [OF assms(1,2)] by (rule distinct_map_filter)
  ultimately have "distinct (map (\<lambda>it. bID (sBid it)) its)" using mset_eq_imp_distinct_iff by blast
  moreover have "map_of (bids m) (bID (sBid it)) \<noteq> None" if it: "it \<in> set its" for it
  proof -
    have "set its = (\<lambda>b. score_item lo hi d (as_item b)) ` set (filter Q bs)"
      using mset_eq_setD [OF ms] by simp
    with it obtain b where "b \<in> set bs" "it = score_item lo hi d (as_item b)" by auto
    then show ?thesis using BidsByJob_rows(1) [OF assms(1,2)] keyed_mem [OF assms(1)] by fastforce
  qed
  ultimately show ?thesis by simp
qed

lemma FinishAuction_closes:
  assumes "tables_ok (mem w)" and "map_of (jobs (mem w)) i = Some j" and "jStatus j = StatusBidding"
  shows "\<exists>j' w'. FinishAuction e i w = (Inr j', w') \<and> tables_ok (mem w') \<and> only_job i (mem w) (mem w')
    \<and> map_of (jobs (mem w')) i = Some j'
    \<and> (jStatus j' = StatusExpiredNoBids \<or> jStatus j' = StatusDeciding
         \<and> jDecisionDeadline j' = Some (clock e 0 + decisionWindow j * Hour))"
proof -
  have k: "keyed jID (jobs (mem w))" "keyed bID (bids (mem w))" using assms(1) by (simp_all add: tables_ok_def)
  have mode: "jMode j = ModeAuction"
    using assms(1,3) keyed_get_mem [OF k(1) assms(2)] by (simp add: tables_ok_def)
  have ji: "jID j = i" using keyed_get [OF k(1) assms(2)] .
  obtain bs where bs: "BidsByJob (iter e 0) i (mem w) = Inr bs" by (rule that [OF BidsByJob_def])
  define L where "L = filter (\<lambda>b. bStatus b = BidActive) bs"
  obtain t body where start: "FinishAuction e i w =
    (if L = [] then expire_without_bids j (clock e 0) t body w
     else case Score (map as_item L) (reserveOf j) of
            [] \<Rightarrow> expire_without_bids j (clock e 0) t body w
          | best # others \<Rightarrow> declare_winner j (clock e 0) best others w)"
    using FinishAuction_start [OF assms(2) mode assms(3) bs L_def] by blast
  let ?j = "j\<lparr>jStatus := StatusExpiredNoBids, jUpdatedAt := clock e 0\<rparr>"
  have ex: "\<exists>w'. expire_without_bids j (clock e 0) t body w = (Inr ?j, w')
      \<and> mem w' = (mem w)\<lparr>jobs := AList.update i ?j (jobs (mem w))\<rparr>"
    using assms(2) ji by (simp add: expire_without_bids_def Let_def bnd_def put_def Update_def Send_def ret_def)
  show ?thesis
  proof (cases "L = [] \<or> Score (map as_item L) (reserveOf j) = []")
    case True
    then have "FinishAuction e i w = expire_without_bids j (clock e 0) t body w" using start by auto
    then show ?thesis
      using ex job_written [OF assms(1) bids_to_refl assms(2), of ?j] ji by fastforce
  next
    case False
    then obtain best others where sc: "Score (map as_item L) (reserveOf j) = best # others"
      by (meson list.exhaust)
    note rows = Score_rows [OF k(2) bs sc [unfolded L_def]]
    obtain w1 g where w1: "each (\<lambda>it. put (UpdateBid ((sBid it)\<lparr>bUpdatedAt := clock e 0\<rparr>))) (best # others) w
        = (Inr (), w1)" "bids_to g (mem w) (mem w1)"
      using save_scores_run [of "best # others" w] rows by blast
    define j' where "j' = j\<lparr>jStatus := StatusDeciding, jWinnerBidID := Some (bID (sBid best)),
        jDecisionDeadline := Some (clock e 0 + decisionWindow j * Hour), jUpdatedAt := clock e 0\<rparr>"
    have "map_of (jobs (mem w1)) (jID j) \<noteq> None" using bids_to_frame(1) [OF w1(2)] assms(2) ji by simp
    from declare_winner_run [OF w1(1) this j'_def] obtain w' where
      "FinishAuction e i w = (Inr j', w')" "mem w' = (mem w1)\<lparr>jobs := AList.update i j' (jobs (mem w1))\<rparr>"
      using start False sc ji by auto
    then show ?thesis using job_written [OF assms(1) w1(2) assms(2), of j'] ji by (auto simp: j'_def)
  qed
qed

text \<open>The decision window: every live bid of the job expires with it.\<close>

lemma expire_bids_run:
  assumes k: "keyed bID (bids (mem w))" and bs: "BidsByJob rank i (mem w) = Inr bs"
  shows "\<exists>w'. expire_bids j now bs w = (Inr (), w') \<and> bids_to (\<lambda>n. map_option (\<lambda>b.
      if live_bid i b then b\<lparr>bStatus := BidExpired, bUpdatedAt := now\<rparr> else b) (map_of (bids (mem w)) n))
      (mem w) (mem w')"
proof -
  let ?xs = "filter (\<lambda>b. \<not> bStatus b \<noteq> BidActive) bs"
  let ?h = "\<lambda>b. b\<lparr>bStatus := BidExpired, bUpdatedAt := now\<rparr>"
  have "\<exists>w'. expire_bids j now bs w = (Inr (), w') \<and> bids_to (\<lambda>n.
    map_option (\<lambda>b. if b \<in> set ?xs then ?h b else b) (map_of (bids (mem w)) n)) (mem w) (mem w')"
    unfolding expire_bids_def each_skip
  proof (rule rewrite_bids [OF k])
    show "set ?xs \<subseteq> set (gvals (bids (mem w)))" using BidsByJob_rows [OF k bs] by auto
    show "distinct (map bID ?xs)" using BidsByJob_rows(2) [OF k bs] by (rule distinct_map_filter)
    show "\<exists>w1. bnd (ignore (put (UpdateBid (?h x)))) (\<lambda>_. Send (bOwnerID x) [Lit ''the client did not decide'']
              [Txt (jTitle j), Lit '' - the job is closed, look at similar ones'']
              [(''route'', ''/jobs''), (''jobId'', jID j)]) w = (Inr (), w1)
        \<and> bids_to ((map_of (bids (mem w)))(bID x \<mapsto> ?h x)) (mem w) (mem w1)"
      if "map_of (bids (mem w)) (bID x) \<noteq> None" for x w
      using UpdateBid_run [of "mem w" "?h x"] that
      by (auto simp: bnd_def ignore_def attempt_def ret_def put_def Send_def)
  qed simp
  moreover have "map_option (\<lambda>b. if b \<in> set ?xs then ?h b else b) (map_of (bids (mem w)) n) =
    map_option (\<lambda>b. if live_bid i b then ?h b else b) (map_of (bids (mem w)) n)" for n
    using keyed_get_mem [OF k] BidsByJob_rows(3) [OF k bs]
    by (cases "map_of (bids (mem w)) n") (auto simp: live_bid_def)
  ultimately show ?thesis by simp
qed

lemma ExpireDecision_run:
  assumes "keyed bID (bids (mem w))" and "map_of (jobs (mem w)) i = Some j" and "jID j = i"
    and "jStatus j = StatusDeciding" and "\<forall>t. jDecisionDeadline j = Some t \<longrightarrow> t \<le> clock e 0"
  shows "\<exists>m1 w'. ExpireDecision e i w = (Inr (j\<lparr>jStatus := StatusExpired, jUpdatedAt := clock e 1\<rparr>), w')
    \<and> bids_to (\<lambda>n. map_option (\<lambda>b. if live_bid i b
        then b\<lparr>bStatus := BidExpired, bUpdatedAt := clock e 1\<rparr> else b) (map_of (bids (mem w)) n)) (mem w) m1
    \<and> mem w' = m1\<lparr>jobs := AList.update i (j\<lparr>jStatus := StatusExpired, jUpdatedAt := clock e 1\<rparr>) (jobs m1)\<rparr>"
proof -
  obtain bs where bs: "BidsByJob (iter e 0) i (mem w) = Inr bs" by (rule that [OF BidsByJob_def])
  from expire_bids_run [OF assms(1) bs, of j "clock e 1"] obtain w1 where
    w1: "expire_bids j (clock e 1) bs w = (Inr (), w1)"
    and b: "bids_to (\<lambda>n. map_option (\<lambda>b. if live_bid i b
        then b\<lparr>bStatus := BidExpired, bUpdatedAt := clock e 1\<rparr> else b) (map_of (bids (mem w)) n)) (mem w) (mem w1)"
    by blast
  have "map_of (jobs (mem w1)) i = Some j" using bids_to_frame(1) [OF b] assms(2) by simp
  moreover have "\<not> (case jDecisionDeadline j of None \<Rightarrow> False | Some t \<Rightarrow> clock e 0 < t)"
    using assms(5) by (auto split: option.splits)
  moreover define w' where "w' = w1\<lparr>mem := (mem w1)\<lparr>jobs := AList.update i
      (j\<lparr>jStatus := StatusExpired, jUpdatedAt := clock e 1\<rparr>) (jobs (mem w1))\<rparr>\<rparr>"
  ultimately have "ExpireDecision e i w = (Inr (j\<lparr>jStatus := StatusExpired, jUpdatedAt := clock e 1\<rparr>), w')"
    using assms(2-4) w1 bs
    by (simp add: ExpireDecision_def Let_def bnd_def get_def ByID_def attempt_def put_def Update_def ret_def)
  moreover have "mem w' = (mem w1)\<lparr>jobs := AList.update i (j\<lparr>jStatus := StatusExpired, jUpdatedAt := clock e 1\<rparr>)
      (jobs (mem w1))\<rparr>" by (simp add: w'_def)
  ultimately show ?thesis using b by blast
qed

lemma autoAccept_closes:
  assumes "tables_ok (mem w)" and "map_of (jobs (mem w)) i = Some j"
    and "d \<in> set (gvals (deals (mem w)))" and "dJobID d = i" and "dStatus d = DealWorkDone"
  shows "\<exists>j' w'. autoAccept e i w = (Inr (), w') \<and> tables_ok (mem w') \<and> only_job i (mem w) (mem w')
    \<and> map_of (jobs (mem w')) i = Some j' \<and> jStatus j' = StatusCompleted"
proof -
  have k: "keyed jID (jobs (mem w))" "keyed dID (deals (mem w))" and u: "unique_rows deal_clash (deals (mem w))"
    and kb: "keyed bID (bids (mem w))" using assms(1) by (simp_all add: tables_ok_def)
  have row: "map_of (deals (mem w)) (dID d) = Some d" using keyed_mem [OF k(2)] assms(3) by blast
  have can: "CanAdvance d DealCompleted (dClientID d) = None"
    unfolding CanAdvance_None using assms(5) by (auto simp: ex_role)
  let ?n = "[Lit ''accepted by itself: the deadline has passed'']"
  let ?d = "advanced d DealCompleted (dClientID d) (trim_note ?n) (clock e 0)"
  obtain w' where w': "AdvanceDeal e (dClientID d) (dID d) DealCompleted ?n w = (Inr ?d, w')"
    and ds: "deals (mem w') = AList.update (dID d) ?d (deals (mem w))" and kj: "keyed jID (jobs (mem w'))"
    and js: "map_of (jobs (mem w')) = (\<lambda>n. map_option (\<lambda>j. if n = dJobID d
        then j\<lparr>jStatus := JobStatusForDeal DealCompleted, jUpdatedAt := clock e 0\<rparr> else j) (map_of (jobs (mem w)) n))"
    and bs: "bids (mem w') = bids (mem w)"
    using AdvanceDeal_run [OF k row can refl] by blast
  have vals: "set (gvals (deals (mem w'))) = insert ?d {x \<in> set (gvals (deals (mem w))). dID x \<noteq> dID d}"
    using keyed_gvals_update [OF k(2), of ?d] ds by simp
  have "autoAccept e i w = (Inr (), w')"
    using w' assms(5) DealByJob_unique [OF u assms(3,4)]
    by (simp add: autoAccept_def bnd_def get_def ret_def)
  moreover have "only_job i (mem w) (mem w')"
    using keyed_inj [OF k(2) _ assms(3)] assms(4)
    by (auto simp: only_job_def js vals dom_def option.map_ident)
  moreover have "tables_ok (mem w')"
  proof -
    have "unique_rows deal_clash (deals (mem w'))"
      using u assms(3) unfolding unique_rows_def vals by (auto simp: deal_clash_def)
    moreover have "jStatus x = StatusBidding \<longrightarrow> jMode x = ModeAuction" if x: "x \<in> set (gvals (jobs (mem w')))" for x
    proof -
      obtain y where "map_of (jobs (mem w)) (jID x) = Some y"
        "x = y \<or> x = y\<lparr>jStatus := StatusCompleted, jUpdatedAt := clock e 0\<rparr>"
        using x unfolding keyed_mem [OF kj] js by (auto split: if_splits)
      then show ?thesis using assms(1) keyed_get_mem [OF k(1)] by (auto simp: tables_ok_def)
    qed
    ultimately show ?thesis using k kb kj bs ds by (simp add: tables_ok_def keyed_update_key)
  qed
  ultimately show ?thesis using js assms(2,4) by auto
qed


section \<open>One pass\<close>

lemma decisionWindow_pos: "0 < decisionWindow j"
  by (simp add: decisionWindow_def split: option.split)

lemma due_cases:
  assumes "due now m j"
  obtains "jStatus j = StatusBidding"
  | t where "jStatus j = StatusDeciding" "jDecisionDeadline j = Some t" "t \<le> now"
  | d where "jStatus j = StatusWorkDone" "d \<in> set (gvals (deals m))" "dJobID d = jID j" "dStatus d = DealWorkDone"
  using assms by (auto simp: due_def deal_overdue_def split: Status.splits option.splits)

text \<open>Closing one due job succeeds, and the job is not due any more.\<close>

lemma close_due_settles:
  assumes ok: "tables_ok (mem w)" and j: "map_of (jobs (mem w)) i = Some j" "due now (mem w) j"
    and later: "\<And>n. now \<le> clock e n"
  shows "\<exists>w'. close_due e j w = (Inr (), w') \<and> tables_ok (mem w') \<and> only_job i (mem w) (mem w')
    \<and> (\<forall>j'. map_of (jobs (mem w')) i = Some j' \<longrightarrow> \<not> due now (mem w') j')"
proof -
  have k: "keyed jID (jobs (mem w))" "keyed bID (bids (mem w))" using ok by (simp_all add: tables_ok_def)
  have ji: "jID j = i" using keyed_get [OF k(1) j(1)] .
  from j(2) show ?thesis
  proof (cases rule: due_cases)
    case 1
    obtain j' w' where r: "FinishAuction e i w = (Inr j', w')" "tables_ok (mem w')"
      "only_job i (mem w) (mem w')" "map_of (jobs (mem w')) i = Some j'"
      "jStatus j' = StatusExpiredNoBids \<or> jStatus j' = StatusDeciding
         \<and> jDecisionDeadline j' = Some (clock e 0 + decisionWindow j * Hour)"
      using FinishAuction_closes [OF ok j(1) 1] by blast
    have "now < clock e 0 + decisionWindow j * Hour"
      using later [of 0] decisionWindow_pos [of j] by (simp add: duration_defs)
    then have "\<not> due now (mem w') j'" using r(5) by (auto simp: due_def)
    then show ?thesis using r 1 ji by (auto simp: close_due_def ignore_def attempt_def ret_def)
  next
    case (2 t)
    then have "\<forall>t. jDecisionDeadline j = Some t \<longrightarrow> t \<le> clock e 0" using later [of 0] by auto
    from ExpireDecision_run [OF k(2) j(1) ji 2(1) this] obtain g m1 w' where
      r: "ExpireDecision e i w = (Inr (j\<lparr>jStatus := StatusExpired, jUpdatedAt := clock e 1\<rparr>), w')"
      "bids_to g (mem w) m1"
      "mem w' = m1\<lparr>jobs := AList.update i (j\<lparr>jStatus := StatusExpired, jUpdatedAt := clock e 1\<rparr>) (jobs m1)\<rparr>"
      by blast
    have "close_due e j w = (Inr (), w')"
      using r(1) 2 ji by (simp add: close_due_def ignore_def attempt_def ret_def)
    then show ?thesis
      using job_written [OF ok r(2) j(1) _ _ r(3)] ji by (auto simp: due_def)
  next
    case (3 d)
    obtain j' w' where r: "autoAccept e i w = (Inr (), w')" "tables_ok (mem w')"
      "only_job i (mem w) (mem w')" "map_of (jobs (mem w')) i = Some j'" "jStatus j' = StatusCompleted"
      using autoAccept_closes [OF ok j(1) 3(2) _ 3(4)] 3(3) ji by blast
    then show ?thesis using 3(1) ji by (auto simp: due_def close_due_def ignore_def attempt_def ret_def)
  qed
qed

text \<open>Whether another job is due does not depend on the job just closed.\<close>

lemma due_elsewhere: "only_job i m m' \<Longrightarrow> jID j \<noteq> i \<Longrightarrow> due now m' j = due now m j"
  by (auto simp: due_def only_job_def deal_overdue_def split: Status.splits)

lemma close_all_settles:
  assumes "tables_ok (mem w)" and "distinct (map jID js)"
    and "\<forall>j \<in> set js. map_of (jobs (mem w)) (jID j) = Some j \<and> due now (mem w) j"
    and later: "\<And>n k. now \<le> clock (es n) k"
  shows "\<exists>w'. close_all es n js w = (Inr (), w') \<and> tables_ok (mem w')
    \<and> (\<forall>i j. map_of (jobs (mem w')) i = Some j \<longrightarrow> due now (mem w') j \<longrightarrow>
         i \<notin> jID ` set js \<and> map_of (jobs (mem w)) i = Some j \<and> due now (mem w) j)"
  using assms(1-3)
proof (induction js arbitrary: w n)
  case Nil
  then show ?case by (simp add: ret_def)
next
  case (Cons j js)
  have "map_of (jobs (mem w)) (jID j) = Some j" "due now (mem w) j" using Cons.prems by simp_all
  from close_due_settles [OF Cons.prems(1) this later] obtain w1 where
    w1: "close_due (es n) j w = (Inr (), w1)" "tables_ok (mem w1)" "only_job (jID j) (mem w) (mem w1)"
    and over: "\<forall>j'. map_of (jobs (mem w1)) (jID j) = Some j' \<longrightarrow> \<not> due now (mem w1) j'" by blast
  have "\<forall>x \<in> set js. map_of (jobs (mem w1)) (jID x) = Some x \<and> due now (mem w1) x"
  proof
    fix x assume x: "x \<in> set js"
    then have "jID x \<noteq> jID j" using Cons.prems(2) by (auto simp: image_iff)
    then show "map_of (jobs (mem w1)) (jID x) = Some x \<and> due now (mem w1) x"
      using x Cons.prems(3) due_elsewhere [OF w1(3)] w1(3) by (simp add: only_job_def)
  qed
  from Cons.IH [OF w1(2) _ this, of "n + 1"] Cons.prems(2) obtain w' where
    w': "close_all es (n + 1) js w1 = (Inr (), w')" "tables_ok (mem w')"
    and left: "\<forall>i y. map_of (jobs (mem w')) i = Some y \<longrightarrow> due now (mem w') y \<longrightarrow>
         i \<notin> jID ` set js \<and> map_of (jobs (mem w1)) i = Some y \<and> due now (mem w1) y" by auto
  have "i \<notin> jID ` set (j # js) \<and> map_of (jobs (mem w)) i = Some y \<and> due now (mem w) y"
    if "map_of (jobs (mem w')) i = Some y" "due now (mem w') y" for i y
  proof -
    from left that have l: "i \<notin> jID ` set js" "map_of (jobs (mem w1)) i = Some y" "due now (mem w1) y"
      by blast+
    with over have ne: "i \<noteq> jID j" by auto
    have "keyed jID (jobs (mem w1))" using w1(2) by (simp add: tables_ok_def)
    then have "jID y = i" using l(2) by (rule keyed_get)
    then show ?thesis using l ne w1(3) due_elsewhere [OF w1(3), of y] by (auto simp: only_job_def)
  qed
  then show ?case using w1(1) w' by (auto simp: bnd_def)
qed

lemma publishDueReviews_frame:
  assumes "publishDueReviews e w = (r, w')"
  shows "same_but_reviews (mem w) (mem w')"
proof -
  let ?f = "\<lambda>x. if \<not> ShouldPublish (Some x) None (clock e 0) then ret ()
    else let x = x\<lparr>rPublishedAt := Some (clock e 0)\<rparr> in bnd (put (UpdateReview x)) (\<lambda>_. notifyPublished x)"
  obtain rs where "each ?f rs w = (r, w')"
    using assms unfolding publishDueReviews_def Let_def bnd_def [of "get _"] get_def DueReviews_def prod.case sum.case
    by blast
  then show ?thesis unfolding same_but_reviews_def
  proof (rule each_frame [where g = "\<lambda>w. (mem w)\<lparr>reviews := []\<rparr>", rotated])
    show "(mem w1)\<lparr>reviews := []\<rparr> = (mem w0)\<lparr>reviews := []\<rparr>" if "?f x w0 = (q, w1)" for x w0 q w1
      using that by (auto simp: bnd_def put_def ret_def UpdateReview_def notifyPublished_def Send_def Let_def
          split: if_splits)
  qed
qed

lemma same_but_reviews_frame:
  "same_but_reviews m m' \<Longrightarrow> jobs m' = jobs m" "same_but_reviews m m' \<Longrightarrow> bids m' = bids m"
  "same_but_reviews m m' \<Longrightarrow> deals m' = deals m"
  unfolding same_but_reviews_def by (metis Memory.select_convs Memory.update_convs Memory.surjective)+



text \<open>The decision window ends in one of two ways: before its deadline nothing happens; from the
  deadline on the job expires, every live bid of the job expires with it and all other bids stay as
  they are.\<close>

theorem ExpireDecision_result:
  assumes "keyed jID (jobs (mem w))" and "keyed bID (bids (mem w))" and "map_of (jobs (mem w)) i = Some j"
    and "jStatus j = StatusDeciding" and "jDecisionDeadline j = Some t"
  shows "if clock e 0 < t then ExpireDecision e i w = (Inr j, w)
    else \<exists>j' w'. ExpireDecision e i w = (Inr j', w') \<and> jStatus j' = StatusExpired
      \<and> map_of (jobs (mem w')) i = Some j'
      \<and> map_of (bids (mem w')) = (\<lambda>n. map_option (\<lambda>b. if live_bid i b
          then b\<lparr>bStatus := BidExpired, bUpdatedAt := clock e 1\<rparr> else b) (map_of (bids (mem w)) n))"
proof (cases "clock e 0 < t")
  case True
  then show ?thesis using assms by (simp add: ExpireDecision_def bnd_def get_def ByID_def ret_def)
next
  case False
  have ji: "jID j = i" using keyed_get [OF assms(1,3)] .
  have "\<forall>t. jDecisionDeadline j = Some t \<longrightarrow> t \<le> clock e 0" using False assms(5) by auto
  from ExpireDecision_run [OF assms(2,3) ji assms(4) this] obtain m1 w' where
    "ExpireDecision e i w = (Inr (j\<lparr>jStatus := StatusExpired, jUpdatedAt := clock e 1\<rparr>), w')"
    and b: "bids_to (\<lambda>n. map_option (\<lambda>b. if live_bid i b
        then b\<lparr>bStatus := BidExpired, bUpdatedAt := clock e 1\<rparr> else b) (map_of (bids (mem w)) n)) (mem w) m1"
    and "mem w' = m1\<lparr>jobs := AList.update i (j\<lparr>jStatus := StatusExpired, jUpdatedAt := clock e 1\<rparr>) (jobs m1)\<rparr>"
    by blast
  then show ?thesis using False bids_to_frame(9) [OF b] by (simp add: update_conv')
qed

theorem ExpireDecision_result_witness:
  "\<exists>j' w'. ExpireDecision (env_at 50 ''n'') ''j1'' (with_bids (auction_job\<lparr>jStatus := StatusDeciding,
       jDecisionDeadline := Some 40\<rparr>) [a_bid ''b1'' ''boris'' 70000 0]) = (Inr j', w')
    \<and> jStatus j' = StatusExpired \<and> map_option bStatus (map_of (bids (mem w')) ''b1'') = Some BidExpired"
proof -
  let ?j = "auction_job\<lparr>jStatus := StatusDeciding, jDecisionDeadline := Some 40\<rparr>"
  let ?w = "with_bids ?j [a_bid ''b1'' ''boris'' 70000 0]"
  have "keyed jID (jobs (mem ?w))" "keyed bID (bids (mem ?w))" by code_simp+
  moreover have "map_of (jobs (mem ?w)) ''j1'' = Some ?j" "map_of (bids (mem ?w)) ''b1'' = Some (a_bid ''b1'' ''boris'' 70000 0)"
    "live_bid ''j1'' (a_bid ''b1'' ''boris'' 70000 0)" by (simp_all add: sample_defs live_bid_def)
  ultimately show ?thesis
    using ExpireDecision_result [of ?w "''j1''" ?j 40 "env_at 50 ''n''"] by (auto simp: env_at_def)
qed

end
