(* ===== verification/Soundness.thy ===== *)
theory Soundness
  imports Orders_Service Bids_Service Offers_Service Deals_Properties Reviews_Service Chats_Service
    Disputes_Service Scheduler
begin

text \<open>
  The invariant \<open>sound\<close> of the whole store, the writes that keep it, and the rules \<open>kept_intros\<close> that walk
  through one operation from a given state, collecting what its reads and guards tell about the rows it
  writes; then the operations on jobs and bids. The other operations and the reachable states are in
  the theory System.
\<close>


section \<open>The invariant\<close>

definition job_ok :: "Job \<Rightarrow> bool" where
  "job_ok j \<longleftrightarrow> jStatus j = StatusBidding \<longrightarrow> jMode j = ModeAuction"

definition bid_ok :: "Bid \<Rightarrow> bool" where "bid_ok b \<longleftrightarrow> 0 < bPrice b"

definition offer_ok :: "Offer \<Rightarrow> bool" where
  "offer_ok x \<longleftrightarrow> 0 < oPrice x \<and> (\<forall>p. oClientCounterPrice x = Some p \<longrightarrow> 0 < p)"

definition deal_ok :: "Deal \<Rightarrow> bool" where "deal_ok d \<longleftrightarrow> deal_wf d \<and> 0 < dPrice d"

definition sound :: "Memory \<Rightarrow> bool" where
  "sound m \<longleftrightarrow> table_ok jID (\<lambda>_ _. False) job_ok (jobs m) \<and> table_ok bID bid_clash bid_ok (bids m)
     \<and> table_ok oID offer_clash offer_ok (offers m) \<and> table_ok dID deal_clash deal_ok (deals m)
     \<and> table_ok rID review_clash review_wf (reviews m) \<and> table_ok pID dispute_clash (\<lambda>_. True) (disputes m)
     \<and> table_ok cID complaint_clash (\<lambda>_. True) (complaints m) \<and> table_ok hID chat_clash (\<lambda>_. True) (chats m)"

lemma sound_new: "sound NewMemory"
  by (simp add: sound_def table_ok_def NewMemory_def)

lemma sound_rows:
  assumes "sound m"
  shows "map_of (jobs m) i = Some j \<Longrightarrow> jID j = i \<and> job_ok j"
    and "map_of (bids m) i = Some b \<Longrightarrow> bID b = i \<and> bid_ok b"
    and "map_of (offers m) i = Some x \<Longrightarrow> oID x = i \<and> offer_ok x"
    and "map_of (deals m) i = Some d \<Longrightarrow> dID d = i \<and> deal_ok d"
    and "map_of (reviews m) i = Some r \<Longrightarrow> rID r = i \<and> review_wf r"
    and "map_of (disputes m) i = Some p \<Longrightarrow> pID p = i"
    and "map_of (chats m) i = Some c \<Longrightarrow> hID c = i"
  using assms by (auto simp: sound_def table_ok_def dest: keyed_get keyed_get_mem)

lemma sound_mem:
  assumes "sound m"
  shows "b \<in> set (gvals (bids m)) \<longleftrightarrow> map_of (bids m) (bID b) = Some b"
    and "x \<in> set (gvals (offers m)) \<longleftrightarrow> map_of (offers m) (oID x) = Some x"
    and "d \<in> set (gvals (deals m)) \<longleftrightarrow> map_of (deals m) (dID d) = Some d"
    and "r \<in> set (gvals (reviews m)) \<longleftrightarrow> map_of (reviews m) (rID r) = Some r"
    and "c \<in> set (gvals (chats m)) \<longleftrightarrow> map_of (chats m) (hID c) = Some c"
  using assms by (auto simp: sound_def table_ok_def keyed_mem)

section \<open>Writes that keep it\<close>

lemma recount_jobs_ok:
  assumes "table_ok jID (\<lambda>_ _. False) job_ok (jobs m)"
  shows "table_ok jID (\<lambda>_ _. False) job_ok (jobs (recount i m))"
proof (cases "map_of (jobs m) i")
  case None
  then show ?thesis using assms by (simp add: recount_def)
next
  case (Some j)
  have k: "keyed jID (jobs m)" and ok: "\<forall>j \<in> set (gvals (jobs m)). job_ok j"
    using assms by (simp_all add: table_ok_def)
  define j' where "j' = j\<lparr>jOffersCount := int (length (filter (\<lambda>o1. oJobID o1 = i \<and> isCountable (oStatus o1))
      (gvals (offers m))))\<rparr>"
  have "jID j' = i" "job_ok j'" using keyed_get [OF k Some] keyed_get_mem [OF k Some] ok
    by (auto simp: j'_def job_ok_def)
  moreover have "jobs (recount i m) = AList.update i j' (jobs m)"
    using Some by (simp add: recount_def j'_def Let_def)
  ultimately show ?thesis
    using k ok keyed_gvals_update [OF k, of j'] by (auto simp: table_ok_def unique_rows_def intro: keyed_update_key)
qed

lemma sound_Update: "sound m \<Longrightarrow> Update j m = Inr m' \<Longrightarrow> job_ok j \<Longrightarrow> sound m'"
  using job_rows.table_replace [of job_ok m j m'] by (auto simp: sound_def store_simps)

lemma sound_Create: "sound m \<Longrightarrow> Create j m = Inr m' \<Longrightarrow> job_ok j \<Longrightarrow> sound m'"
  using job_rows.table_create [of job_ok m j m'] by (auto simp: sound_def store_simps)

lemma sound_CreateBid: "sound m \<Longrightarrow> CreateBid b m = Inr m' \<Longrightarrow> bid_ok b \<Longrightarrow> sound m'"
  using bid_rows.table_create [of bid_ok m b m'] by (auto simp: sound_def store_simps)

lemma sound_UpdateBid:
  "sound m \<Longrightarrow> UpdateBid b m = Inr m' \<Longrightarrow> bid_ok b \<Longrightarrow>
   bStatus b = BidActive \<longrightarrow> (\<exists>a. map_of (bids m) (bID b) = Some a \<and> bStatus a = BidActive
     \<and> bJobID a = bJobID b \<and> bOwnerID a = bOwnerID b) \<Longrightarrow> sound m'"
  using bid_rows.table_replace [of bid_ok m b m' "the (map_of (bids m) (bID b))"]
  by (auto simp: sound_def store_simps bid_clash_def)

lemma sound_CreateOffer: "sound m \<Longrightarrow> CreateOffer x m = Inr m' \<Longrightarrow> offer_ok x \<Longrightarrow> sound m'"
  using offer_rows.table_create [of offer_ok m x m'] recount_jobs_ok [of "m\<lparr>offers := _\<rparr>"]
  by (auto simp: sound_def store_simps)

lemma sound_UpdateOffer:
  "sound m \<Longrightarrow> UpdateOffer x m = Inr m' \<Longrightarrow> offer_ok x \<Longrightarrow>
   isCountable (oStatus x) \<longrightarrow> (\<exists>a. map_of (offers m) (oID x) = Some a \<and> isCountable (oStatus a)
     \<and> oJobID a = oJobID x \<and> oOwnerID a = oOwnerID x) \<Longrightarrow> sound m'"
  using offer_rows.table_replace [of offer_ok m x m' "the (map_of (offers m) (oID x))"]
    recount_jobs_ok [of "m\<lparr>offers := _\<rparr>"]
  by (auto simp: sound_def store_simps offer_clash_def)

lemma sound_CreateDeal: "sound m \<Longrightarrow> CreateDeal d m = Inr m' \<Longrightarrow> deal_ok d \<Longrightarrow> sound m'"
  using deal_rows.table_create [of deal_ok m d m'] by (auto simp: sound_def store_simps)

lemma sound_UpdateDeal:
  "sound m \<Longrightarrow> UpdateDeal d m = Inr m' \<Longrightarrow> deal_ok d \<Longrightarrow>
   \<exists>a. map_of (deals m) (dID d) = Some a \<and> dJobID a = dJobID d \<Longrightarrow> sound m'"
  using deal_rows.table_replace [of deal_ok m d m' "the (map_of (deals m) (dID d))"]
  by (auto simp: sound_def store_simps deal_clash_def)

lemma sound_CreateReview: "sound m \<Longrightarrow> CreateReview r m = Inr m' \<Longrightarrow> review_wf r \<Longrightarrow> sound m'"
  using review_rows.table_create [of review_wf m r m'] by (auto simp: sound_def store_simps)

lemma sound_UpdateReview:
  "sound m \<Longrightarrow> UpdateReview r m = Inr m' \<Longrightarrow> review_wf r \<Longrightarrow>
   \<exists>a. map_of (reviews m) (rID r) = Some a \<and> rDealID a = rDealID r \<and> rAuthorID a = rAuthorID r \<Longrightarrow> sound m'"
  using review_rows.table_replace [of review_wf m r m' "the (map_of (reviews m) (rID r))"]
  by (auto simp: sound_def store_simps review_clash_def)

lemma sound_CreateDispute: "sound m \<Longrightarrow> CreateDispute p m = Inr m' \<Longrightarrow> sound m'"
  using dispute_rows.table_create [of "\<lambda>_. True" m p m'] by (auto simp: sound_def store_simps)

lemma sound_UpdateDispute: "sound m \<Longrightarrow> UpdateDispute p m = Inr m' \<Longrightarrow> pStatus p \<noteq> DisputeOpen \<Longrightarrow> sound m'"
  using dispute_rows.table_replace [of "\<lambda>_. True" m p m' p] by (auto simp: sound_def store_simps dispute_clash_def)

lemma sound_CreateComplaint: "sound m \<Longrightarrow> CreateComplaint c m = Inr m' \<Longrightarrow> sound m'"
  using complaint_rows.table_create [of "\<lambda>_. True" m c m'] by (auto simp: sound_def store_simps)

lemma sound_UpdateComplaint:
  "sound m \<Longrightarrow> UpdateComplaint c m = Inr m' \<Longrightarrow> cStatus c \<noteq> ComplaintOpen \<Longrightarrow> sound m'"
  using complaint_rows.table_replace [of "\<lambda>_. True" m c m' c] by (auto simp: sound_def store_simps complaint_clash_def)

lemma sound_CreateChat: "sound m \<Longrightarrow> CreateChat c m = Inr m' \<Longrightarrow> sound m'"
  using chat_rows.table_create [of "\<lambda>_. True" m c m'] by (auto simp: sound_def store_simps)

lemma sound_UpdateChat:
  "sound m \<Longrightarrow> UpdateChat c m = Inr m' \<Longrightarrow>
   \<exists>a. map_of (chats m) (hID c) = Some a \<and> hJobID a = hJobID c \<and> hOwnerID a = hOwnerID c \<Longrightarrow> sound m'"
  using chat_rows.table_replace [of "\<lambda>_. True" m c m' "the (map_of (chats m) (hID c))"]
  by (auto simp: sound_def store_simps chat_clash_def)


section \<open>Walking through an operation\<close>

definition kept :: "(Memory \<Rightarrow> bool) \<Rightarrow> 'a op \<Rightarrow> world \<Rightarrow> bool" where
  "kept I m w \<longleftrightarrow> I (mem w) \<and> I (mem (snd (m w)))"

named_theorems kept_intros \<open>how an operation started in a given state keeps a property of the store\<close>

lemma kept_keeps: "keeps I m \<Longrightarrow> I (mem w) \<Longrightarrow> kept I m w"
  by (simp add: kept_def keeps_def)

lemma keepsI_kept: "(\<And>w. I (mem w) \<Longrightarrow> kept I m w) \<Longrightarrow> keeps I m"
  by (simp add: kept_def keeps_def)

lemma kept_ret [kept_intros]: "I (mem w) \<Longrightarrow> kept I (ret x) w"
  by (simp add: kept_def ret_def)

lemma kept_fail [kept_intros]: "I (mem w) \<Longrightarrow> kept I (fail e) w"
  by (simp add: kept_def fail_def)

lemma kept_get [kept_intros]: "I (mem w) \<Longrightarrow> kept I (get q) w"
  by (simp add: kept_def get_def)

lemma kept_put: "I (mem w) \<Longrightarrow> (\<And>m. u (mem w) = Inr m \<Longrightarrow> I m) \<Longrightarrow> kept I (put u) w"
  by (auto simp: kept_def put_def split: sum.split)

lemma kept_bnd_get [kept_intros]:
  "I (mem w) \<Longrightarrow> (\<And>x. q (mem w) = Inr x \<Longrightarrow> kept I (f x) w) \<Longrightarrow> kept I (bnd (get q) f) w"
  by (auto simp: kept_def bnd_def get_def split: sum.split)

lemma kept_bnd_own [kept_intros]:
  "I (mem w) \<Longrightarrow> (\<And>j. map_of (jobs (mem w)) i = Some j \<Longrightarrow> jClientID j = c \<Longrightarrow> kept I (f j) w) \<Longrightarrow>
     kept I (bnd (own c i) f) w"
  by (auto simp: kept_def bnd_def own_def get_def ByID_def refuse_def ret_def fail_def
      split: sum.split option.split)

lemma kept_bnd_need [kept_intros]:
  "I (mem w) \<Longrightarrow> (\<And>x. r = Inr x \<Longrightarrow> kept I (f x) w) \<Longrightarrow> kept I (bnd (need r) f) w"
  by (auto simp: kept_def bnd_def need_def ret_def fail_def split: sum.split)

lemma kept_bnd_check [kept_intros]:
  "I (mem w) \<Longrightarrow> (r = None \<Longrightarrow> kept I (f ()) w) \<Longrightarrow> kept I (bnd (check r) f) w"
  by (auto simp: kept_def bnd_def check_def ret_def fail_def split: option.split)

lemma kept_bnd_refuse [kept_intros]:
  "I (mem w) \<Longrightarrow> (\<not> c \<Longrightarrow> kept I (f ()) w) \<Longrightarrow> kept I (bnd (refuse c e) f) w"
  by (auto simp: kept_def bnd_def refuse_def ret_def fail_def)

lemma kept_bnd_put:
  "I (mem w) \<Longrightarrow> (\<And>m. u (mem w) = Inr m \<Longrightarrow> kept I (f ()) (w\<lparr>mem := m\<rparr>)) \<Longrightarrow> kept I (bnd (put u) f) w"
  by (auto simp: kept_def bnd_def put_def split: sum.split)

lemma kept_attempt_get [kept_intros]:
  "I (mem w) \<Longrightarrow> (\<And>r. q (mem w) = r \<Longrightarrow> kept I (f r) w) \<Longrightarrow> kept I (attempt (get q) f) w"
  by (simp add: kept_def attempt_def get_def)

lemma kept_if [kept_intros]:
  "(c \<Longrightarrow> kept I a w) \<Longrightarrow> (\<not> c \<Longrightarrow> kept I b w) \<Longrightarrow> kept I (if c then a else b) w"
  by simp

lemma kept_case_sum [kept_intros]:
  "(\<And>x. r = Inl x \<Longrightarrow> kept I (f x) w) \<Longrightarrow> (\<And>x. r = Inr x \<Longrightarrow> kept I (g x) w) \<Longrightarrow>
     kept I (case r of Inl x \<Rightarrow> f x | Inr x \<Rightarrow> g x) w"
  by (simp split: sum.split)

lemma kept_case_option [kept_intros]:
  "(r = None \<Longrightarrow> kept I a w) \<Longrightarrow> (\<And>x. r = Some x \<Longrightarrow> kept I (g x) w) \<Longrightarrow>
     kept I (case r of None \<Rightarrow> a | Some x \<Rightarrow> g x) w"
  by (simp split: option.split)

text \<open>A first part that keeps a stronger property hands it to the rest.\<close>

lemma kept_bnd:
  assumes "keeps J m" and "J (mem w)" and "\<And>s. J s \<Longrightarrow> I s" and "I (mem w)"
    and f: "\<And>x w'. J (mem w') \<Longrightarrow> kept I (f x) w'"
  shows "kept I (bnd m f) w"
proof -
  obtain r w1 where r: "m w = (r, w1)" by (meson surj_pair)
  have J1: "J (mem w1)" using keepsD [OF assms(1,2) r] .
  show ?thesis using r assms(3,4) J1 f [of w1] by (cases r) (auto simp: kept_def bnd_def)
qed

lemma kept_then:
  "keeps I m \<Longrightarrow> I (mem w) \<Longrightarrow> (\<And>x w'. I (mem w') \<Longrightarrow> kept I (f x) w') \<Longrightarrow> kept I (bnd m f) w"
  by (rule kept_bnd [where J = I]) simp_all

text \<open>A write that keeps the property in every state, then the rest from the state it leaves.\<close>

lemma kept_bnd_write [kept_intros]:
  "keeps I (put u) \<Longrightarrow> I (mem w) \<Longrightarrow> (\<And>w'. I (mem w') \<Longrightarrow> kept I (f ()) w') \<Longrightarrow> kept I (bnd (put u) f) w"
  by (rule kept_bnd [where J = I]) simp_all

lemma kept_bnd_Send [kept_intros]:
  "I (mem w) \<Longrightarrow> (\<And>w'. mem w' = mem w \<Longrightarrow> kept I (f ()) w') \<Longrightarrow> kept I (bnd (Send u t b d) f) w"
  by (simp add: kept_def bnd_def Send_def)

lemma keeps_each_mem: "(\<And>x. x \<in> set xs \<Longrightarrow> keeps I (f x)) \<Longrightarrow> keeps I (each f xs)"
  by (induction xs) (auto intro: keeps_intros)

lemma keeps_if [keeps_intros]: "(c \<Longrightarrow> keeps I a) \<Longrightarrow> (\<not> c \<Longrightarrow> keeps I b) \<Longrightarrow> keeps I (if c then a else b)"
  by simp

lemma keeps_case_sum [keeps_intros]:
  "(\<And>x. keeps I (f x)) \<Longrightarrow> (\<And>x. keeps I (g x)) \<Longrightarrow> keeps I (case r of Inl x \<Rightarrow> f x | Inr x \<Rightarrow> g x)"
  by (simp split: sum.split)

lemma keeps_case_option [keeps_intros]:
  "keeps I a \<Longrightarrow> (\<And>x. keeps I (g x)) \<Longrightarrow> keeps I (case r of None \<Rightarrow> a | Some x \<Rightarrow> g x)"
  by (simp split: option.split)

lemma keeps_case_prod [keeps_intros]: "(\<And>x y. keeps I (f x y)) \<Longrightarrow> keeps I (case p of (x, y) \<Rightarrow> f x y)"
  by (simp split: prod.split)

text \<open>The writes that keep the invariant whatever the store holds.\<close>

lemma keeps_Update [keeps_intros]: "job_ok j \<Longrightarrow> keeps sound (put (Update j))"
  by (rule keeps_put) (blast intro: sound_Update)

lemma keeps_UpdateBid [keeps_intros]: "bid_ok b \<Longrightarrow> bStatus b \<noteq> BidActive \<Longrightarrow> keeps sound (put (UpdateBid b))"
  by (rule keeps_put) (blast intro: sound_UpdateBid)

lemma keeps_UpdateOffer [keeps_intros]:
  "offer_ok x \<Longrightarrow> \<not> isCountable (oStatus x) \<Longrightarrow> keeps sound (put (UpdateOffer x))"
  by (rule keeps_put) (blast intro: sound_UpdateOffer)

lemma keeps_creations [keeps_intros]:
  "job_ok j \<Longrightarrow> keeps sound (put (Create j))" "bid_ok b \<Longrightarrow> keeps sound (put (CreateBid b))"
  "offer_ok x \<Longrightarrow> keeps sound (put (CreateOffer x))" "deal_ok d \<Longrightarrow> keeps sound (put (CreateDeal d))"
  "review_wf r \<Longrightarrow> keeps sound (put (CreateReview r))" "keeps sound (put (CreateDispute p))"
  "keeps sound (put (CreateComplaint c))" "keeps sound (put (CreateChat h))"
  by (rule keeps_put; blast intro: sound_Create sound_CreateBid sound_CreateOffer sound_CreateDeal sound_CreateReview
      sound_CreateDispute sound_CreateComplaint sound_CreateChat)+

lemma keeps_decisions [keeps_intros]:
  "pStatus p \<noteq> DisputeOpen \<Longrightarrow> keeps sound (put (UpdateDispute p))"
  "cStatus c \<noteq> ComplaintOpen \<Longrightarrow> keeps sound (put (UpdateComplaint c))"
  by (rule keeps_put; blast intro: sound_UpdateDispute sound_UpdateComplaint)+

lemma keeps_messages [keeps_intros]:
  "keeps sound (put (CreateMessage msg))" "keeps sound (put (MarkRead i u))" "keeps sound (put (SaveIdempotent k u ep i))"
  by (rule keeps_put; auto simp: sound_def store_simps MarkRead_def SaveIdempotent_def)+


section \<open>Jobs\<close>

lemma job_ok_simps [simp]:
  "jStatus j \<noteq> StatusBidding \<Longrightarrow> job_ok j"
  "job_ok (j\<lparr>jUpdatedAt := t\<rparr>) = job_ok j"
  "job_ok (j\<lparr>jAuction := a\<rparr>) = job_ok j"
  by (auto simp: job_ok_def)

lemma keeps_CreateDraft [keeps_intros]: "keeps sound (CreateDraft e c inp)"
  unfolding CreateDraft_def Let_def by (intro keeps_intros) simp

lemma keeps_UpdateDraft: "keeps sound (UpdateDraft e c i inp)"
  unfolding UpdateDraft_def Let_def
  by (intro keepsI_kept kept_intros keeps_intros) simp_all

lemma keeps_Publish [keeps_intros]: "keeps sound (Publish e c i)"
  unfolding Publish_def Let_def
  by (intro keepsI_kept kept_intros keeps_intros)
    (simp_all add: job_ok_def StatusAfterPublish_def)

lemma keeps_Cancel: "keeps sound (Cancel e c i)"
  unfolding Cancel_def Let_def by (intro keeps_intros) simp

lemma keeps_idem: "keeps sound work \<Longrightarrow> keeps sound (idem_wrap key u ep code work)"
  unfolding idem_wrap_def RememberIdempotent_def
proof (intro keeps_attempt)
  show "keeps sound (Idempotent key u ep)"
    by (auto simp: keeps_def Idempotent_def ret_def fail_def split: option.split sum.split)
qed (auto intro!: keeps_intros split: sum.split bool.split)

lemma keeps_add_view: "keeps sound (add_view i v)"
proof -
  have "sound m'" if I: "sound m" and a: "AddView i v m = Inr (b, m')" for m m' b
  proof -
    from a obtain j where j: "map_of (jobs m) i = Some j"
      and m': "jobs m' = jobs m \<or> jobs m' = AList.update i (j\<lparr>jViewsCount := jViewsCount j + 1\<rparr>) (jobs m)"
      and rest: "bids m' = bids m" "offers m' = offers m" "deals m' = deals m" "reviews m' = reviews m"
        "disputes m' = disputes m" "complaints m' = complaints m" "chats m' = chats m"
      by (auto simp: AddView_def Let_def split: option.splits if_splits)
    have "table_ok jID (\<lambda>_ _. False) job_ok (jobs m')"
      using m'
    proof
      assume "jobs m' = AList.update i (j\<lparr>jViewsCount := jViewsCount j + 1\<rparr>) (jobs m)"
      moreover have "jID j = i" "job_ok j" using sound_rows(1) [OF I j] by simp_all
      ultimately have "Update (j\<lparr>jViewsCount := jViewsCount j + 1\<rparr>) m = Inr (m\<lparr>jobs := jobs m'\<rparr>)"
        "job_ok (j\<lparr>jViewsCount := jViewsCount j + 1\<rparr>)" using j by (auto simp: store_simps job_ok_def)
      from sound_Update [OF I this] show ?thesis by (simp add: sound_def)
    qed (use I in \<open>simp add: sound_def\<close>)
    then show ?thesis using I rest by (simp add: sound_def)
  qed
  then show ?thesis by (auto simp: keeps_def add_view_def split: sum.split prod.split)
qed

lemma keeps_View: "keeps sound (View v i)"
  unfolding View_def by (intro keeps_intros keeps_add_view)


section \<open>Bids\<close>

lemma bid_ok_simps [simp]:
  "bid_ok (b\<lparr>bStatus := st\<rparr>) = bid_ok b" "bid_ok (b\<lparr>bUpdatedAt := t\<rparr>) = bid_ok b"
  by (simp_all add: bid_ok_def)

lemma bids_read:
  "sound m \<Longrightarrow> BidsByJob rank i m = Inr bs \<Longrightarrow> b \<in> set bs \<Longrightarrow> map_of (bids m) (bID b) = Some b \<and> bid_ok b"
  "sound m \<Longrightarrow> MyBidForJob rank i ow m = Inr b \<Longrightarrow> map_of (bids m) (bID b) = Some b \<and> bid_ok b"
  "sound m \<Longrightarrow> BidByID k m = Inr b \<Longrightarrow> map_of (bids m) (bID b) = Some b \<and> bid_ok b"
  using BidsByJob_set MyBidForJob_Inr sound_rows(2) sound_mem(1)
  by (metis (no_types, lifting) mem_Collect_eq, metis, metis BidByID_def or_err_Inr)

lemma keeps_quiet:
  "keeps sound (notifyOutbid e j b)" "keeps sound (tell_bidders j win its)" "keeps sound (notifyDealStep d u to)"
  "keeps sound (notifyPublished r)" "keeps sound (tell_others x j ys)"
  unfolding notifyOutbid_def tell_bidders_def notifyDealStep_def notifyPublished_def tell_others_def
  by (auto intro!: keeps_intros split: sum.split option.split)

lemma keeps_retire: "keeps sound (retire_previous e i ow now)"
  unfolding retire_previous_def
  by (intro keepsI_kept kept_intros keeps_intros kept_keeps [OF keeps_UpdateBid])
    (auto dest: bids_read(2))

lemma keeps_PlaceBid: "keeps sound (PlaceBid e ow i inp)"
proof -
  have ext: "keeps sound (extend_auction j now)" if "job_ok j" for j now
    unfolding extend_auction_def Let_def using that by (intro keeps_intros) (simp add: job_ok_def)
  have new: "bid_ok (new_bid e ow j inp i now)" if "ValidateBid (biPrice inp) best start = None"
    for j now best start
    using that by (simp add: ValidateBid_None bid_ok_def new_bid_def)
  show ?thesis
    unfolding PlaceBid_def Let_def
    by (intro keepsI_kept kept_intros kept_then [OF keeps_retire] kept_keeps [OF keeps_bnd] keeps_intros
        keeps_quiet ext new)
      (auto dest: sound_rows(1) simp: ByID_def)
qed

lemma keeps_WithdrawBid: "keeps sound (WithdrawBid e ow k)"
  unfolding WithdrawBid_def Let_def
  by (intro keepsI_kept kept_intros keeps_intros) (auto dest: bids_read(3))

lemma keeps_close_bids:
  "\<forall>b \<in> set bs. bid_ok b \<Longrightarrow> st \<noteq> BidActive \<Longrightarrow> keeps sound (close_bids st skip now t bd dt bs)"
  unfolding close_bids_def by (intro keeps_each_mem keeps_intros) auto

lemma keeps_AcceptBid: "keeps sound (AcceptBid e c k)"
  unfolding AcceptBid_def Let_def
  by (intro keepsI_kept kept_intros kept_then [OF keeps_close_bids] keeps_intros)
    (auto dest: bids_read)

lemma keeps_DeclineAllBids: "keeps sound (DeclineAllBids e c i)"
  unfolding DeclineAllBids_def Let_def
  by (intro keepsI_kept kept_intros kept_then [OF keeps_close_bids] keeps_intros)
    (auto dest: bids_read)

lemma keeps_ExpireDecision [keeps_intros]: "keeps sound (ExpireDecision e i)"
proof -
  have ex: "keeps sound (expire_bids j now bs)" if "\<forall>b \<in> set bs. bid_ok b" for j now bs
    unfolding expire_bids_def using that by (intro keeps_each_mem keeps_intros) auto
  show ?thesis
    unfolding ExpireDecision_def Let_def
    by (intro keepsI_kept kept_intros kept_then [OF ex] kept_keeps [OF keeps_Update] keeps_intros)
      (auto dest: bids_read bids_read(1) [OF _ sym] split: sum.splits)
qed

text \<open>The scores are saved over the rows they were computed from.\<close>

definition same_bid :: "Memory \<Rightarrow> Bid \<Rightarrow> bool" where
  "same_bid m b \<longleftrightarrow> (\<exists>a. map_of (bids m) (bID b) = Some a \<and> bStatus a = bStatus b
     \<and> bJobID a = bJobID b \<and> bOwnerID a = bOwnerID b)"

lemma keeps_save_scores:
  assumes "\<forall>it \<in> set its. bid_ok (sBid it)"
  shows "keeps (\<lambda>m. sound m \<and> (\<forall>it \<in> set its. same_bid m (sBid it)))
    (each (\<lambda>it. put (UpdateBid ((sBid it)\<lparr>bUpdatedAt := now\<rparr>))) its)"
proof (rule keeps_each_mem, rule keeps_put)
  fix it m m'
  assume it: "it \<in> set its" and J: "sound m \<and> (\<forall>it \<in> set its. same_bid m (sBid it))"
    and u: "UpdateBid ((sBid it)\<lparr>bUpdatedAt := now\<rparr>) m = Inr m'"
  have "sound m'" using J it assms by (intro sound_UpdateBid [OF _ u]) (auto simp: same_bid_def)
  moreover have "same_bid m' (sBid it')" if it': "it' \<in> set its" for it'
  proof -
    have m': "map_of (bids m') = (map_of (bids m))(bID (sBid it) \<mapsto> (sBid it)\<lparr>bUpdatedAt := now\<rparr>)"
      using u by (simp add: store_simps update_conv')
    from J it it' have "same_bid m (sBid it)" "same_bid m (sBid it')" by blast+
    then show ?thesis by (cases "bID (sBid it') = bID (sBid it)") (auto simp: same_bid_def m')
  qed
  ultimately show "sound m' \<and> (\<forall>it \<in> set its. same_bid m' (sBid it))" by blast
qed

lemma Score_shape:
  "its \<noteq> [] \<Longrightarrow> \<exists>lo hi d. Score its r = sort_by better_score (map (score_item lo hi d) (filter (\<lambda>it. \<not> below_reserve r it) its))"
  by (cases its) (simp, simp only: Score_def Let_def list.case, intro exI, rule refl)

lemma Score_from:
  assumes it: "it \<in> set (Score its r)"
  shows "\<exists>x \<in> set its. sBid it = (sBid x)\<lparr>bScore := bScore (sBid it)\<rparr>"
proof -
  have "its \<noteq> []" using it by (auto simp: Score_def)
  then obtain lo hi d where "Score its r = sort_by better_score (map (score_item lo hi d) (filter (\<lambda>it. \<not> below_reserve r it) its))"
    using Score_shape by blast
  then obtain x where "x \<in> set its" and "it = score_item lo hi d x" using it by (auto simp: set_sort_by)
  then show ?thesis using sBid_score_item [of lo hi d x] by auto
qed

lemma keeps_FinishAuction [keeps_intros]: "keeps sound (FinishAuction e i)"
  unfolding FinishAuction_def Let_def
proof (intro keepsI_kept kept_intros)
  have ex: "keeps sound (expire_without_bids j now t b)" for j now t b
    unfolding expire_without_bids_def Let_def by (intro keeps_intros) simp
  fix w :: world and j bs
  assume I: "sound (mem w)" and bs: "BidsByJob (iter e 0) i (mem w) = Inr bs"
  let ?L = "filter (\<lambda>b. \<not> bStatus b \<noteq> BidActive) bs"
  show "kept sound (expire_without_bids j (clock e 0) t b) w" for t b using ex I by (rule kept_keeps)
  show "kept sound (case Score (map as_item ?L) (reserveOf j) of
      [] \<Rightarrow> expire_without_bids j (clock e 0) [Lit ''no suitable bids''] [Lit ''all bids are below your minimum'']
    | best # others \<Rightarrow> declare_winner j (clock e 0) best others) w"
  proof (cases "Score (map as_item ?L) (reserveOf j)")
    case Nil
    then show ?thesis using ex I by (simp add: kept_keeps)
  next
    case (Cons best others)
    have "bid_ok (sBid it) \<and> same_bid (mem w) (sBid it)" if it: "it \<in> set (best # others)" for it
    proof -
      obtain b x where b: "b \<in> set ?L" and x: "sBid it = b\<lparr>bScore := x\<rparr>"
        using Score_from [of it "map as_item ?L" "reserveOf j"] it unfolding Cons by auto
      then show ?thesis using bids_read(1) [OF I bs, of b] by (auto simp: same_bid_def bid_ok_def)
    qed
    then have "kept sound (declare_winner j (clock e 0) best others) w"
      unfolding declare_winner_def Let_def
      by (intro kept_bnd [OF keeps_save_scores] kept_keeps [OF keeps_bnd] keeps_intros keeps_quiet)
        (use I in auto)
    then show ?thesis unfolding Cons list.case .
  qed
qed

end
