(* ===== verification/System.thy ===== *)
theory System
  imports Soundness Offers_Properties Deals_Properties Reviews_Properties Chats_Properties Disputes_Service
    Scheduler
begin

text \<open>
  The orders service as a whole: a step is one request, whatever its outcome, or one act of the
  background worker, and the invariant \<open>sound\<close> of the store holds in every reachable state.
\<close>


section \<open>Offers\<close>

lemma offer_ok_simps [simp]:
  "offer_ok (x\<lparr>oStatus := st\<rparr>) = offer_ok x" "offer_ok (x\<lparr>oUpdatedAt := t\<rparr>) = offer_ok x"
  "offer_ok (x\<lparr>oDeclineReason := r\<rparr>) = offer_ok x" "offer_ok (x\<lparr>oID := i\<rparr>) = offer_ok x"
  "offer_ok (x\<lparr>oCreatedAt := t\<rparr>) = offer_ok x" "offer_ok (x\<lparr>oClientCounterAt := c\<rparr>) = offer_ok x"
  by (simp_all add: offer_ok_def)

lemma offers_read:
  "sound m \<Longrightarrow> OffersByJob rank i m = Inr xs \<Longrightarrow> x \<in> set xs \<Longrightarrow> map_of (offers m) (oID x) = Some x \<and> offer_ok x"
  "sound m \<Longrightarrow> MyOfferForJob rank i ow m = Inr x \<Longrightarrow> map_of (offers m) (oID x) = Some x \<and> offer_ok x
     \<and> oJobID x = i \<and> oOwnerID x = ow"
  "sound m \<Longrightarrow> OfferByID k m = Inr x \<Longrightarrow> map_of (offers m) (oID x) = Some x \<and> offer_ok x"
  using sound_rows(3) sound_mem(2) MyOfferForJob_Inr by (force simp: OffersByJob_def, metis, metis OfferByID_def or_err_Inr)

lemma keeps_submit_offer: "offer_ok x \<Longrightarrow> keeps sound (submit_offer e j x now)"
  unfolding submit_offer_def Let_def by (intro keeps_intros) simp

lemma drafted_ok: "ValidateOffer (drafted_offer ow j i inp now) p = None \<Longrightarrow> offer_ok (drafted_offer ow j i inp now)"
  by (simp add: ValidateOffer_None offer_ok_def drafted_offer_def)

lemma keeps_MakeOffer: "keeps sound (MakeOffer e ow i inp)"
proof -
  have renew: "sound m'" if I: "sound m" and r: "MyOfferForJob rank i ow m = Inr x"
    and c: "isCountable (oStatus x)" and y: "offer_ok y"
    and u: "UpdateOffer (renewed_offer x y now) m = Inr m'" for m m' rank x y now
    by (rule sound_UpdateOffer [OF I u])
      (use offers_read(2) [OF I r] c y in \<open>auto simp: renewed_offer_def offer_ok_def\<close>)
  show ?thesis
    unfolding MakeOffer_def Let_def
    by (intro keepsI_kept kept_bnd_get kept_bnd_refuse kept_bnd_check kept_attempt_get kept_case_sum kept_if
        kept_keeps [OF keeps_submit_offer] kept_ret kept_bnd_put)
      (auto simp: drafted_ok isCountable_def intro: renew [OF _ _ _ drafted_ok])
qed

lemma keeps_WithdrawOffer: "keeps sound (WithdrawOffer e ow k)"
  unfolding WithdrawOffer_def Let_def
  by (intro keepsI_kept kept_intros keeps_intros) (auto dest: offers_read(3) simp: isCountable_def)

lemma kept_pair [kept_intros]: "kept I (f x y) w \<Longrightarrow> kept I (case (x, y) of (a, b) \<Rightarrow> f a b) w"
  by simp

lemma kept_bnd_offer [kept_intros]:
  assumes I: "I (mem w)"
    and f: "\<And>x j. OfferByID k (mem w) = Inr x \<Longrightarrow> map_of (jobs (mem w)) (oJobID x) = Some j \<Longrightarrow> kept I (f (x, j)) w"
  shows "kept I (bnd (offerOfMyJob c k) f) w"
proof -
  obtain r w1 where r: "offerOfMyJob c k w = (r, w1)" by (meson surj_pair)
  have w1: "w1 = w" using r
    by (auto simp: offerOfMyJob_def bnd_def get_def refuse_def ret_def fail_def split: sum.splits if_splits)
  show ?thesis
  proof (cases r)
    case (Inr p)
    obtain x j where p: "p = (x, j)" by (meson surj_pair)
    have "kept I (f (x, j)) w" using r unfolding Inr p offerOfMyJob_Inr by (intro f) (auto simp: OfferByID_def)
    then show ?thesis using r by (simp add: kept_def bnd_def Inr p w1)
  qed (use I r w1 in \<open>simp add: kept_def bnd_def\<close>)
qed

lemma keeps_DeclineOffer: "keeps sound (DeclineOffer e c k reason)"
  unfolding DeclineOffer_def Let_def
  by (intro keepsI_kept kept_intros keeps_intros) (auto dest: offers_read(3) simp: isCountable_def)

lemma keeps_CounterOffer: "keeps sound (CounterOffer e c k price)"
proof -
  have row: "sound m'" if I: "sound m" and r: "OfferByID k m = Inr x" and s: "oStatus x = OfferActive"
    and p: "0 < price" and u: "UpdateOffer (x\<lparr>oClientCounterPrice := Some price, oClientCounterAt := t,
      oStatus := OfferCounterOffered, oUpdatedAt := now\<rparr>) m = Inr m'" for m m' x t now
    by (rule sound_UpdateOffer [OF I u])
      (use offers_read(3) [OF I r] s p in \<open>auto simp: offer_ok_def isCountable_def\<close>)
  show ?thesis
    unfolding CounterOffer_def Let_def
    by (intro keepsI_kept kept_bnd_offer kept_pair kept_bnd_refuse kept_bnd_put kept_bnd_Send kept_ret)
      (auto intro: row)
qed

lemma keeps_decline_others: "\<forall>y \<in> set ys. offer_ok y \<Longrightarrow> keeps sound (decline_others x now ys)"
  unfolding decline_others_def by (intro keeps_each_mem keeps_intros) (auto simp: isCountable_def)

lemma accepted_ok: "offer_ok x \<Longrightarrow> offer_ok (accepted_offer x now)"
  by (auto simp: accepted_offer_def offer_ok_def Let_def split: option.split)

lemma accepted_offer_key:
  "oID (accepted_offer x now) = oID x" "oJobID (accepted_offer x now) = oJobID x"
  "oOwnerID (accepted_offer x now) = oOwnerID x"
  by (simp_all add: accepted_offer_def Let_def split: option.split)

lemma keeps_AcceptOffer: "keeps sound (AcceptOffer e c k)"
proof -
  have row: "sound m'" if I: "sound m" and r: "OfferByID k m = Inr x"
    and s: "oStatus x = OfferActive \<or> oStatus x = OfferCounterOffered"
    and u: "UpdateOffer (accepted_offer x now) m = Inr m'" for m m' x now
    using offers_read(3) [OF I r] s
    by (intro sound_UpdateOffer [OF I u]) (auto simp: accepted_ok accepted_offer_key isCountable_def)
  have all: "\<forall>y \<in> set ys. offer_ok y" if "sound m" "OffersByJob rank i m = Inr ys" for rank i m ys
    using offers_read(1) [OF that] by blast
  show ?thesis
    unfolding AcceptOffer_def Let_def
    by (intro keepsI_kept kept_bnd_offer kept_pair kept_bnd_refuse kept_bnd_get kept_bnd_put
        kept_then [OF keeps_decline_others] kept_keeps [OF keeps_bnd] keeps_intros keeps_quiet)
      (simp_all, erule (3) row, erule (4) all [OF row], erule (3) row, erule (1) sound_Update, simp)
qed


section \<open>Deals\<close>

lemma deals_read:
  "sound m \<Longrightarrow> DealByID k m = Inr d \<Longrightarrow> map_of (deals m) (dID d) = Some d \<and> deal_ok d"
  "sound m \<Longrightarrow> DealByJob rank i m = Inr d \<Longrightarrow> map_of (deals m) (dID d) = Some d \<and> deal_ok d"
  using sound_rows(4) sound_mem(3) DealByJob_Inr by (metis DealByID_def or_err_Inr, metis)

lemma sound_deal_row:
  assumes "sound m" and "DealByID k m = Inr d" and "UpdateDeal d' m = Inr m'"
    and "deal_wf d \<Longrightarrow> deal_wf d'" and "dID d' = dID d" and "dJobID d' = dJobID d" and "dPrice d' = dPrice d"
  shows "sound m'"
  using deals_read(1) [OF assms(1,2)] assms(4-7)
  by (intro sound_UpdateDeal [OF assms(1,3)]) (auto simp: deal_ok_def)

lemma keeps_follow_job [keeps_intros]: "st \<noteq> StatusBidding \<Longrightarrow> keeps sound (follow_job i st now)"
  unfolding follow_job_def by (intro keeps_intros) simp

lemma keeps_find_winner: "keeps I (find_winner e i)"
  unfolding find_winner_def by (intro keeps_intros)

lemma find_winner_price:
  assumes I: "sound (mem w)" and "find_winner e i w = (Inr win, w')"
  shows "0 < fst (snd (snd win))"
proof -
  have off: "0 < fst (snd (snd (offer_winner os)))" if "OffersByJob r i (mem w) = Inr os" "fst (offer_winner os) \<noteq> ''''" for r os
    using that(2) offers_read(1) [OF I that(1)] by (auto simp: offer_winner_def offer_ok_def find_Some_iff split: option.splits)
  have bid: "0 < fst (snd (snd (bid_winner bs)))" if "BidsByJob r i (mem w) = Inr bs" "fst (bid_winner bs) \<noteq> ''''" for r bs
    using that(2) bids_read(1) [OF I that(1)] by (auto simp: bid_winner_def bid_ok_def find_Some_iff split: option.splits)
  show ?thesis
    using assms(2) off bid
    by (auto simp: find_winner_def bnd_def get_def refuse_def ret_def fail_def split: sum.splits if_splits)
qed

lemma kept_bnd_winner:
  assumes I: "I (mem w)" and s: "sound (mem w)" and f: "\<And>win. 0 < fst (snd (snd win)) \<Longrightarrow> kept I (f win) w"
  shows "kept I (bnd (find_winner e i) f) w"
proof -
  obtain r w1 where r: "find_winner e i w = (r, w1)" by (meson surj_pair)
  have w1: "w1 = w" using r
    by (auto simp: find_winner_def bnd_def get_def refuse_def ret_def fail_def split: sum.splits if_splits)
  show ?thesis
    using I r f [of "projr r"] find_winner_price [OF s, of e i "projr r" w]
    by (cases r) (auto simp: kept_def bnd_def w1)
qed

lemma keeps_ConfirmDeal: "keeps sound (ConfirmDeal e c i)"
proof -
  have "deal_ok (new_deal k c j i win now)" if "0 < fst (snd (snd win))" for k j win now
    using that deal_wf_new by (auto simp: deal_ok_def new_deal_def split: prod.splits)
  then show ?thesis
    unfolding ConfirmDeal_def Let_def
    by (intro keepsI_kept kept_intros kept_bnd_winner keeps_intros) simp_all
qed

lemma JobStatusForDeal_not_bidding [simp]: "JobStatusForDeal st \<noteq> StatusBidding"
  by (cases st) auto

lemma keeps_AdvanceDeal: "keeps sound (AdvanceDeal e u k st n)"
proof -
  have row: "sound m'" if "sound m" "DealByID k m = Inr d" "CanAdvance d st u = None"
    "UpdateDeal (advanced d st u n now) m = Inr m'" for m m' d n now
    by (rule sound_deal_row [OF that(1,2,4)]) (use that(3) in \<open>simp_all add: deal_wf_advanced\<close>)
  show ?thesis
    unfolding AdvanceDeal_def Let_def
    by (intro keepsI_kept kept_bnd_get kept_bnd_check kept_bnd_put kept_keeps [OF keeps_bnd] keeps_intros keeps_quiet)
      (auto intro: row)
qed

lemma keeps_CancelDeal: "keeps sound (CancelDeal e u k reason)"
proof -
  have row: "sound m'" if "sound m" "DealByID k m = Inr d" "CanAdvance d DealCancelled u = None"
    "UpdateDeal (cancelled d u why now) m = Inr m'" for m m' d why now
    by (rule sound_deal_row [OF that(1,2,4)]) (use that(3) deal_wf_cancelled in \<open>auto simp: cancelled_def\<close>)
  show ?thesis
    unfolding CancelDeal_def Let_def cancelled_eq
    by (intro keepsI_kept kept_bnd_get kept_bnd_check kept_bnd_refuse kept_bnd_put kept_keeps [OF keeps_bnd] keeps_intros)
      (auto intro: row)
qed


section \<open>Reviews\<close>

lemma review_wf_stamps [simp]:
  "review_wf (r\<lparr>rPublishedAt := t\<rparr>) = review_wf r" "review_wf (r\<lparr>rID := i, rCreatedAt := c\<rparr>) = review_wf r"
  "review_wf (r\<lparr>rReplyText := b, rReplyAt := t\<rparr>) = review_wf r"
  by (simp_all add: review_wf_def)

lemma keeps_quiet_reads: "keeps I (frozen e k)" "keeps I (notifyPublished r)"
  unfolding frozen_def notifyPublished_def by (intro keeps_intros)+

definition same_review :: "Memory \<Rightarrow> Review \<Rightarrow> bool" where
  "same_review m r \<longleftrightarrow> review_wf r \<and> (\<exists>a. map_of (reviews m) (rID r) = Some a \<and> rDealID a = rDealID r
     \<and> rAuthorID a = rAuthorID r)"

lemma same_review_stamp [simp]: "same_review m (r\<lparr>rPublishedAt := t\<rparr>) = same_review m r"
  by (simp add: same_review_def)

lemma reviews_read:
  "sound m \<Longrightarrow> ReviewsByDeal rank k m = Inr rs \<Longrightarrow> r \<in> set rs \<Longrightarrow> same_review m r"
  "sound m \<Longrightarrow> DueReviews rank t m = Inr rs \<Longrightarrow> r \<in> set rs \<Longrightarrow> same_review m r"
  "sound m \<Longrightarrow> ReviewByID k m = Inr r \<Longrightarrow> same_review m r"
  using sound_mem(4) [of m r] sound_rows(5) [of m] ReviewsByDeal_set [of rank k m rs] DueReviews_set [of rank t m rs]
  by (auto simp: same_review_def ReviewByID_def)

lemma sound_review_row: "sound m \<Longrightarrow> same_review m r \<Longrightarrow> UpdateReview r m = Inr m' \<Longrightarrow> sound m'"
  by (rule sound_UpdateReview) (auto simp: same_review_def)

text \<open>A review written between the reading of a row and its stamping cannot make the stamp clash.\<close>

lemma sound_review_after:
  assumes "sound m" and "same_review m x" and "CreateReview r m = Inr m'" and "review_wf r" and "UpdateReview x m' = Inr m''"
  shows "sound m''"
proof (cases "rID x = rID r")
  case True
  then have "UpdateReview x m = Inr m''" using assms(2,3,5) by (auto simp: store_simps same_review_def)
  then show ?thesis using assms(1,2) sound_review_row by blast
next
  case False
  then have "same_review m' x" using assms(2,3) by (auto simp: same_review_def store_simps update_conv')
  then show ?thesis using assms(1,3-5) sound_review_row sound_CreateReview by blast
qed

lemma same_review_Update: "UpdateReview r m = Inr m' \<Longrightarrow> same_review m r \<Longrightarrow> same_review m x \<Longrightarrow> same_review m' x"
  by (auto simp: same_review_def store_simps update_conv')

lemma keeps_ReplyToReview: "keeps sound (ReplyToReview e u k body)"
proof -
  have row: "sound m'" if I: "sound m" and r: "ReviewByID k m = Inr r"
    and u: "UpdateReview (r\<lparr>rReplyText := b, rReplyAt := t\<rparr>) m = Inr m'" for m m' r b t
    by (rule sound_review_row [OF I _ u]) (use reviews_read(3) [OF I r] in \<open>simp add: same_review_def\<close>)
  show ?thesis
    unfolding ReplyToReview_def Let_def
    by (intro keepsI_kept kept_bnd_get kept_bnd_check kept_bnd_need kept_bnd_put kept_ret) (auto intro: row)
qed

lemma keeps_publishDueReviews: "keeps sound (publishDueReviews e)"
proof -
  have loop: "keeps (\<lambda>m. sound m \<and> (\<forall>r \<in> set rs. same_review m r)) (each (\<lambda>r.
      if \<not> ShouldPublish (Some r) None now then ret ()
      else bnd (put (UpdateReview (r\<lparr>rPublishedAt := Some now\<rparr>))) (\<lambda>_. notifyPublished (r\<lparr>rPublishedAt := Some now\<rparr>))) rs)"
    for rs now
  proof (intro keeps_each_mem keeps_if keeps_bnd keeps_ret keeps_quiet_reads, rule keeps_put)
    fix r m m'
    assume "r \<in> set rs" "sound m \<and> (\<forall>r \<in> set rs. same_review m r)" "UpdateReview (r\<lparr>rPublishedAt := Some now\<rparr>) m = Inr m'"
    then show "sound m' \<and> (\<forall>r \<in> set rs. same_review m' r)"
      using sound_review_row [of m "r\<lparr>rPublishedAt := Some now\<rparr>" m'] same_review_Update [of "r\<lparr>rPublishedAt := Some now\<rparr>" m m']
      by auto
  qed
  show ?thesis
    unfolding publishDueReviews_def Let_def
  proof (intro keepsI_kept kept_bnd_get)
    fix w :: world and rs
    assume I: "sound (mem w)" and d: "DueReviews (iter e 0) (clock e 0 - HoldPeriod) (mem w) = Inr rs"
    then have "\<forall>r \<in> set rs. same_review (mem w) r" using reviews_read(2) by blast
    then show "kept sound (each (\<lambda>r. if \<not> ShouldPublish (Some r) None (clock e 0) then ret ()
      else bnd (put (UpdateReview (r\<lparr>rPublishedAt := Some (clock e 0)\<rparr>)))
        (\<lambda>_. notifyPublished (r\<lparr>rPublishedAt := Some (clock e 0)\<rparr>))) rs) w"
      using kept_keeps [OF loop [of rs "clock e 0"], of w] I by (simp add: kept_def)
  qed
qed

lemma kept_seq: "kept I m w \<Longrightarrow> (\<And>x w'. I (mem w') \<Longrightarrow> kept I (f x) w') \<Longrightarrow> kept I (bnd m f) w"
  by (cases "m w"; cases "fst (m w)") (auto simp: kept_def bnd_def)

lemma keeps_LeaveReview: "keeps sound (LeaveReview e u k inp)"
proof -
  have alone: "sound m'" if "sound m" "ValidateReview r0 = Inr r" "CreateReview (r\<lparr>rID := i, rCreatedAt := t\<rparr>) m = Inr m'"
    for m m' r0 r i t
    using sound_CreateReview [OF that(1,3)] ValidateReview_wf [OF that(2)] by simp
  have both: "sound m'"
    if "sound m" "ValidateReview r0 = Inr r" "CreateReview (r\<lparr>rID := i, rCreatedAt := t, rPublishedAt := q\<rparr>) m = Inr m'"
    for m m' r0 r i t q
    using sound_CreateReview [OF that(1,3)] ValidateReview_wf [OF that(2)] by (simp add: review_wf_def)
  have stamped: "sound m''"
    if "sound m" "ReviewsByDeal rank k m = Inr rs" "last_other u None rs = Some x" "ValidateReview r0 = Inr r"
      "CreateReview (r\<lparr>rID := i, rCreatedAt := t, rPublishedAt := q\<rparr>) m = Inr m'"
      "UpdateReview (x\<lparr>rPublishedAt := p\<rparr>) m' = Inr m''"
    for m m' m'' rank k rs x r0 r i t q p
  proof (rule sound_review_after [OF that(1) _ that(5) _ that(6)])
    show "same_review m (x\<lparr>rPublishedAt := p\<rparr>)"
      using last_other_Some [OF that(3)] reviews_read(1) [OF that(1) that(2)] by auto
    show "review_wf (r\<lparr>rID := i, rCreatedAt := t, rPublishedAt := q\<rparr>)"
      using ValidateReview_wf [OF that(4)] by (simp add: review_wf_def)
  qed
  show ?thesis
    unfolding LeaveReview_def Let_def
    by (intro keepsI_kept kept_bnd_get kept_bnd_check kept_then [OF keeps_quiet_reads(1)] kept_bnd_need kept_bnd_put
        kept_ret kept_bnd_Send kept_seq [where m = "case_option _ _ _"] kept_case_option kept_if
        kept_keeps [OF keeps_quiet_reads(2)] kept_keeps [OF keeps_Send] kept_then [OF keeps_quiet_reads(2)])
      (simp_all, erule (2) alone, erule (2) both, erule (5) stamped, erule (2) both)
qed


section \<open>Chats\<close>

definition same_chat :: "Memory \<Rightarrow> Chat \<Rightarrow> bool" where
  "same_chat m c \<longleftrightarrow> (\<exists>a. map_of (chats m) (hID c) = Some a \<and> hJobID a = hJobID c \<and> hOwnerID a = hOwnerID c)"

lemma same_chat_stamps [simp]:
  "same_chat m (c\<lparr>hKind := k\<rparr>) = same_chat m c" "same_chat m (c\<lparr>hUpdatedAt := t\<rparr>) = same_chat m c"
  "same_chat m (c\<lparr>hLastMessageAt := l\<rparr>) = same_chat m c"
  by (simp_all add: same_chat_def)

lemma chats_read:
  "sound m \<Longrightarrow> ChatByID k m = Inr c \<Longrightarrow> same_chat m c"
  "sound m \<Longrightarrow> ChatByJobOwner rank i ow m = Inr c \<Longrightarrow> same_chat m c"
  using sound_mem(5) sound_rows(7) ChatByJobOwner_Inr
  unfolding same_chat_def by (metis ChatByID_def or_err_Inr, metis)

lemma sound_chat_row: "sound m \<Longrightarrow> same_chat m c \<Longrightarrow> UpdateChat c m = Inr m' \<Longrightarrow> sound m'"
  by (rule sound_UpdateChat) (auto simp: same_chat_def)

lemma kept_withKind: "sound (mem w) \<Longrightarrow> same_chat (mem w) c \<Longrightarrow> kept sound (withKind rank now c j) w"
  unfolding withKind_def Let_def
  by (intro kept_if kept_ret kept_attempt_get kept_case_sum kept_bnd_put)
    (simp_all add: sound_chat_row [of _ "c\<lparr>hKind := ChatDeal, hUpdatedAt := now\<rparr>"])

lemma kept_attempt_put:
  "I (mem w) \<Longrightarrow> (\<And>e. u (mem w) = Inl e \<Longrightarrow> kept I (f (Inl e)) w) \<Longrightarrow>
   (\<And>m. u (mem w) = Inr m \<Longrightarrow> kept I (f (Inr ())) (w\<lparr>mem := m\<rparr>)) \<Longrightarrow> kept I (attempt (put u) f) w"
  by (cases "u (mem w)") (auto simp: kept_def attempt_def put_def)

lemma keeps_OpenChat: "keeps sound (OpenChat e u i o1)"
proof -
  have new: "sound m' \<and> same_chat m' c" if "sound m" "CreateChat c m = Inr m'" for m m' c
    using sound_CreateChat [OF that] that(2) by (auto simp: same_chat_def store_simps update_conv')
  show ?thesis
    unfolding OpenChat_def Let_def
    by (intro keepsI_kept kept_bnd_get kept_bnd_check kept_bnd_refuse kept_attempt_get kept_case_sum kept_attempt_put
        kept_withKind kept_fail) (auto dest: chats_read new)
qed

lemma kept_bnd_chat:
  assumes I: "I (mem w)" and f: "\<And>c. ChatByID k (mem w) = Inr c \<Longrightarrow> kept I (f c) w"
  shows "kept I (bnd (chatOfMine u k) f) w"
  using assms unfolding chatOfMine_def
  by (auto simp: kept_def bnd_def get_def refuse_def ret_def fail_def split: sum.split)

lemma keeps_SendMessage: "keeps sound (SendMessage e u k body)"
proof -
  have row: "sound m2" if I: "sound m" and c: "ChatByID k m = Inr c" and m: "CreateMessage msg m = Inr m1"
    and u: "UpdateChat (c\<lparr>hLastMessageAt := l, hUpdatedAt := t\<rparr>) m1 = Inr m2" for m m1 m2 c msg l t
  proof (rule sound_chat_row [OF _ _ u])
    show "sound m1" using I m by (auto simp: sound_def store_simps)
    show "same_chat m1 (c\<lparr>hLastMessageAt := l, hUpdatedAt := t\<rparr>)"
      using chats_read(1) [OF I c] m by (auto simp: same_chat_def store_simps)
  qed
  have msg: "sound m1" if "sound m" "CreateMessage msg m = Inr m1" for m m1 msg
    using that by (auto simp: sound_def store_simps)
  show ?thesis
    unfolding SendMessage_def Let_def case_prod_beta
    by (intro keepsI_kept kept_bnd_chat kept_bnd_check kept_bnd_put kept_keeps [OF keeps_bnd] keeps_intros)
      (auto intro: row msg)
qed

lemma keeps_ChatMessages: "keeps sound (ChatMessages e u k l off)"
  unfolding ChatMessages_def Let_def
  by (intro keepsI_kept kept_bnd_chat kept_keeps [OF keeps_bnd] keeps_intros)


section \<open>Disputes and complaints\<close>

lemma deal_wf_disputed:
  "deal_wf d \<Longrightarrow> CanOpenDispute d u = None \<Longrightarrow> dStatus d \<noteq> DealDisputed \<Longrightarrow> dStatus d \<noteq> DealCompleted \<Longrightarrow>
     deal_wf (disputed d u body now)"
  using timeline_snoc [of d DealDisputed "\<lparr>tStatus = DealDisputed, tAt = now, tByID = u, tNote = mtext body\<rparr>"]
  by (cases "dStatus d") (auto simp: disputed_def deal_wf_def CanOpenDispute_def deal_closed_def split: if_splits)

lemma deal_wf_decided:
  "deal_wf d \<Longrightarrow> dStatus d = DealDisputed \<Longrightarrow> deal_wf (decided d outcome body u now)"
  using timeline_snoc [of d DealCancelled] timeline_snoc [of d DealCompleted]
  by (auto simp: decided_def Let_def deal_wf_def deal_closed_def)

lemma decided_key [simp]:
  "dID (decided d x body u now) = dID d" "dJobID (decided d x body u now) = dJobID d" "dPrice (decided d x body u now) = dPrice d"
  by (simp_all add: decided_def Let_def)

lemma keeps_close_disputed [keeps_intros]: "keeps sound (close_disputed k outcome body u now)"
proof -
  have row: "sound m'" if "sound m" "DealByID k m = Inr d" "dStatus d = DealDisputed"
    "UpdateDeal (decided d outcome body u now) m = Inr m'" for m m' d
    by (rule sound_deal_row [OF that(1,2,4)]) (use that(3) deal_wf_decided in simp_all)
  show ?thesis
    unfolding close_disputed_def Let_def
    by (intro keepsI_kept kept_attempt_get kept_case_sum kept_if kept_ret kept_bnd_put kept_keeps [OF keeps_follow_job])
      (auto intro: row)
qed

lemma keeps_OpenDispute: "keeps sound (OpenDispute e u k reason photos)"
proof -
  have row: "sound m2" if I: "sound m" and d: "DealByID k m = Inr d" and p: "CreateDispute p m = Inr m1"
    and can: "CanOpenDispute d u = None" "dStatus d \<noteq> DealDisputed \<and> dStatus d \<noteq> DealCompleted"
    and u: "UpdateDeal (disputed d u body now) m1 = Inr m2" for m m1 m2 d p body now
  proof (rule sound_deal_row [OF sound_CreateDispute [OF I p] _ u])
    show "DealByID k m1 = Inr d" using d p by (auto simp: DealByID_def store_simps)
  qed (use can deal_wf_disputed in \<open>simp_all add: disputed_def\<close>)
  show ?thesis
    unfolding OpenDispute_def suspend_deal_def Let_def
    by (intro keepsI_kept kept_bnd_get kept_bnd_check kept_bnd_need kept_bnd_put kept_seq [where m = "if _ then _ else _"]
        kept_if kept_keeps [OF keeps_follow_job] kept_ret kept_bnd_Send)
      (auto intro: row sound_CreateDispute)
qed

lemma keeps_ResolveDispute: "keeps sound (ResolveDispute e u k outcome resolution)"
  unfolding ResolveDispute_def Let_def
  by (intro keeps_intros) (simp add: resolved_def)

lemma keeps_Complain: "keeps sound (Complain e u kind k reason)"
  unfolding Complain_def complaint_target_def Let_def by (intro keeps_intros)

lemma keeps_remove_job [keeps_intros]: "keeps sound (remove_job i body now)"
  unfolding remove_job_def Let_def by (intro keeps_intros) simp

lemma keeps_ReviewComplaint: "keeps sound (ReviewComplaint e u k a body)"
  unfolding ReviewComplaint_def warn_user_def Let_def
  by (intro keeps_intros) (simp add: reviewed_def)


section \<open>The worker\<close>

lemma keeps_autoAccept: "keeps sound (autoAccept e i)"
  unfolding autoAccept_def by (intro keeps_intros keeps_AdvanceDeal)

lemma keeps_close_due: "keeps sound (close_due e j)"
  unfolding close_due_def
  by (cases "jStatus j"; simp) (intro keeps_intros keeps_FinishAuction keeps_ExpireDecision keeps_autoAccept)+

lemma keeps_close_all: "keeps sound (close_all es n js)"
  by (induction js arbitrary: n) (auto intro: keeps_intros keeps_close_due)

lemma keeps_RunOnce: "keeps sound (RunOnce es)"
  unfolding RunOnce_def Let_def by (intro keeps_intros keeps_publishDueReviews keeps_close_all)


section \<open>The service as a state machine\<close>

text \<open>
  A request carries the environment it runs in (the clock, the new identifiers, the visiting order of
  maps, the units known to the catalog) and the arguments of its handler. One constructor per
  operation that writes the store; the last is a pass of the worker.
\<close>

datatype request =
    RqCreateDraft env string string DraftInput
  | RqUpdateDraft env string string DraftInput
  | RqPublish env string string string
  | RqCancel env string string
  | RqView string string
  | RqPlaceBid env string string BidInput
  | RqWithdrawBid env string string
  | RqAcceptBid env string string
  | RqDeclineAllBids env string string
  | RqMakeOffer env string string OfferInput
  | RqWithdrawOffer env string string
  | RqDeclineOffer env string string runes
  | RqCounterOffer env string string int
  | RqAcceptOffer env string string
  | RqConfirmDeal env string string
  | RqAdvanceDeal env string string DealStatus message
  | RqCancelDeal env string string runes
  | RqLeaveReview env string string int "runes list" runes runes
  | RqReplyToReview env string string runes
  | RqOpenChat env string string string
  | RqSendMessage env string string runes
  | RqChatMessages env string string int int
  | RqOpenDispute env string string runes "string list"
  | RqResolveDispute env string string DisputeOutcome runes
  | RqComplain env string string string runes
  | RqReviewComplaint env string string ComplaintAction runes
  | RqTick "nat \<Rightarrow> env"

fun perform :: "request \<Rightarrow> world \<Rightarrow> world" where
  "perform (RqCreateDraft e key u inp) w = snd (createDraft e key u inp w)"
| "perform (RqUpdateDraft e u i inp) w = snd (UpdateDraft e u i inp w)"
| "perform (RqPublish e key u i) w = snd (publish e key u i w)"
| "perform (RqCancel e u i) w = snd (Cancel e u i w)"
| "perform (RqView u i) w = snd (View u i w)"
| "perform (RqPlaceBid e u i inp) w = snd (PlaceBid e u i inp w)"
| "perform (RqWithdrawBid e u k) w = snd (WithdrawBid e u k w)"
| "perform (RqAcceptBid e u k) w = snd (AcceptBid e u k w)"
| "perform (RqDeclineAllBids e u i) w = snd (DeclineAllBids e u i w)"
| "perform (RqMakeOffer e u i inp) w = snd (MakeOffer e u i inp w)"
| "perform (RqWithdrawOffer e u k) w = snd (WithdrawOffer e u k w)"
| "perform (RqDeclineOffer e u k reason) w = snd (DeclineOffer e u k reason w)"
| "perform (RqCounterOffer e u k price) w = snd (CounterOffer e u k price w)"
| "perform (RqAcceptOffer e u k) w = snd (AcceptOffer e u k w)"
| "perform (RqConfirmDeal e u i) w = snd (ConfirmDeal e u i w)"
| "perform (RqAdvanceDeal e u k st n) w = snd (AdvanceDeal e u k st n w)"
| "perform (RqCancelDeal e u k reason) w = snd (CancelDeal e u k reason w)"
| "perform (RqLeaveReview e u k stars tags body issue) w = snd (leaveReview e u k stars tags body issue w)"
| "perform (RqReplyToReview e u k body) w = snd (ReplyToReview e u k body w)"
| "perform (RqOpenChat e u i other) w = snd (OpenChat e u i other w)"
| "perform (RqSendMessage e u k body) w = snd (SendMessage e u k body w)"
| "perform (RqChatMessages e u k limit offset) w = snd (ChatMessages e u k limit offset w)"
| "perform (RqOpenDispute e u k reason photos) w = snd (OpenDispute e u k reason photos w)"
| "perform (RqResolveDispute e u k outcome body) w = snd (ResolveDispute e u k outcome body w)"
| "perform (RqComplain e u kind k reason) w = snd (Complain e u kind k reason w)"
| "perform (RqReviewComplaint e u k action body) w = snd (ReviewComplaint e u k action body w)"
| "perform (RqTick es) w = snd (RunOnce es w)"

inductive reachable :: "world \<Rightarrow> bool" where
  reachable_new: "reachable new_world"
| reachable_perform: "reachable w \<Longrightarrow> reachable (perform r w)"

lemma reachable_fold: "reachable w \<Longrightarrow> reachable (fold perform rs w)"
  by (induction rs arbitrary: w) (auto intro: reachable_perform)

lemma sound_snd: "keeps sound m \<Longrightarrow> sound (mem w) \<Longrightarrow> sound (mem (snd (m w)))"
  by (simp add: keeps_def)

lemma keeps_createDraft: "keeps sound (createDraft e key u inp)"
  unfolding createDraft_def by (intro keeps_idem keeps_CreateDraft)

lemma keeps_publish: "keeps sound (publish e key u i)"
  unfolding publish_def by (intro keeps_idem keeps_Publish)

lemma keeps_leaveReview: "keeps sound (leaveReview e u k stars tags body issue)"
  unfolding leaveReview_def by (rule keeps_LeaveReview)

lemmas keeps_sound = keeps_createDraft keeps_UpdateDraft keeps_publish keeps_Cancel keeps_View keeps_PlaceBid keeps_WithdrawBid
  keeps_AcceptBid keeps_DeclineAllBids keeps_MakeOffer keeps_WithdrawOffer keeps_DeclineOffer keeps_CounterOffer
  keeps_AcceptOffer keeps_ConfirmDeal keeps_AdvanceDeal keeps_CancelDeal keeps_leaveReview
  keeps_ReplyToReview keeps_OpenChat keeps_SendMessage keeps_ChatMessages keeps_OpenDispute keeps_ResolveDispute
  keeps_Complain keeps_ReviewComplaint keeps_RunOnce

lemma perform_sound: "sound (mem w) \<Longrightarrow> sound (mem (perform r w))"
  by (cases r) (simp_all add: sound_snd keeps_sound)

lemma reachable_is_sound: "reachable w \<Longrightarrow> sound (mem w)"
  by (induction rule: reachable.induct) (simp_all add: new_world_def sound_new perform_sound)


text \<open>A job at a fixed price, from the draft to the accepted work and the two reviews.\<close>

definition full_input :: DraftInput where
  "full_input = \<lparr>iOrderType = None, iCategoryID = None, iOpenToAny = Some True, iTitle = Some (text_of 5),
     iDescription = Some (text_of 25), iParams = None, iPhotos = None, iGeo = Some \<lparr>gLat = 40, gLng = 44\<rparr>,
     iAddress = None, iAccess = None, iDateMode = None, iDateStart = None, iDateEnd = None,
     iBudgetAmount = Some 100000, iCurrency = None, iMode = None, iAuction = None, iWorkersCount = None,
     iDraftStep = None\<rparr>"

definition the_story :: "request list" where
  "the_story =
     [RqCreateDraft (env_at 1 ''j1'') ''k1'' ''anna'' full_input,
      RqPublish (env_at 2 ''n'') ''k2'' ''anna'' ''j1'',
      RqMakeOffer (env_at 3 ''o1'') ''boris'' ''j1'' \<lparr>ofKind = OfferAccept, ofPrice = 0, ofComment = [], ofETA = [], ofUnitID = None\<rparr>,
      RqAcceptOffer (env_at 4 ''n'') ''anna'' ''o1'',
      RqConfirmDeal (env_at 5 ''d1'') ''anna'' ''j1'',
      RqAdvanceDeal (env_at 6 ''n'') ''boris'' ''d1'' DealOnTheWay [],
      RqAdvanceDeal (env_at 7 ''n'') ''boris'' ''d1'' DealInProgress [],
      RqAdvanceDeal (env_at 8 ''n'') ''boris'' ''d1'' DealWorkDone [],
      RqAdvanceDeal (env_at 9 ''n'') ''anna'' ''d1'' DealCompleted [],
      RqLeaveReview (env_at 10 ''r1'') ''anna'' ''d1'' 5 [] [] []]"


end
