(* ===== verification/Refinement.thy ===== *)
theory Refinement
  imports System
begin

text \<open>
  The contract the two parties of a deal rely on, as an abstract machine: a deal is opened confirmed on
  fixed terms, then only its status moves, and only along the steps of \<open>deal_step\<close>. Every request to the
  service and every pass of the worker simulates a run of this machine.
\<close>


section \<open>The abstract machine\<close>

record terms =
  tmJob :: string
  tmClient :: string
  tmOwner :: string
  tmPrice :: int
  tmCurrency :: string

type_synonym agreements = "string \<rightharpoonup> DealStatus \<times> terms"

inductive machine :: "agreements \<Rightarrow> agreements \<Rightarrow> bool" where
  agree: "a k = None \<Longrightarrow> machine a (a(k \<mapsto> (DealConfirmed, t)))"
| proceed: "a k = Some (s, t) \<Longrightarrow> deal_step r s s' \<Longrightarrow> machine a (a(k \<mapsto> (s', t)))"

text \<open>The terms and the closed deals of a run are final, and ranks only grow.\<close>

lemma machine_row:
  assumes "machine a b" and "a k = Some (s, t)"
  shows "\<exists>s'. b k = Some (s', t) \<and> (s' = s \<or> (\<exists>r. deal_step r s s'))"
  using assms by (cases rule: machine.cases) (auto split: if_splits)

lemma machine_run_row:
  "machine\<^sup>*\<^sup>* a b \<Longrightarrow> a k = Some (s, t) \<Longrightarrow> \<exists>s'. b k = Some (s', t) \<and> (s' = s \<or> deal_rank s < deal_rank s')"
proof (induction rule: rtranclp_induct)
  case (step b c)
  then obtain s1 where s1: "b k = Some (s1, t)" "s1 = s \<or> deal_rank s < deal_rank s1" by blast
  then show ?case using machine_row [OF step(2) s1(1)] deal_step_rank by (metis less_trans)
qed simp


section \<open>The simulation\<close>

definition terms_of :: "Deal \<Rightarrow> terms" where
  "terms_of d = \<lparr>tmJob = dJobID d, tmClient = dClientID d, tmOwner = dOwnerID d, tmPrice = dPrice d,
     tmCurrency = dCurrency d\<rparr>"

definition agreements_of :: "Memory \<Rightarrow> agreements" where
  "agreements_of m k = map_option (\<lambda>d. (dStatus d, terms_of d)) (map_of (deals m) k)"

definition follows_machine :: "agreements \<Rightarrow> Memory \<Rightarrow> bool" where
  "follows_machine a m \<longleftrightarrow> sound m \<and> machine\<^sup>*\<^sup>* a (agreements_of m)"

lemma agreements_update:
  "agreements_of (m\<lparr>deals := AList.update k d (deals m)\<rparr>) = (agreements_of m)(k \<mapsto> (dStatus d, terms_of d))"
  by (auto simp: agreements_of_def update_conv')

lemma agreements_same: "deals m1 = deals m2 \<Longrightarrow> agreements_of m1 = agreements_of m2"
  by (simp add: agreements_of_def fun_eq_iff)

lemma UpdateDeal_follows:
  assumes "follows_machine a m" and "UpdateDeal d' m = Inr m'" and "sound m'"
    and "DealByID k m = Inr d" and "dID d' = dID d" and "terms_of d' = terms_of d" and "deal_step r (dStatus d) (dStatus d')"
  shows "follows_machine a m'"
proof -
  have "map_of (deals m) (dID d) = Some d" using deals_read(1) [OF _ assms(4)] assms(1) by (simp add: follows_machine_def)
  then have "agreements_of m (dID d) = Some (dStatus d, terms_of d)" by (simp add: agreements_of_def)
  from proceed [of "agreements_of m" "dID d", OF this assms(7)] have "machine (agreements_of m) (agreements_of m')"
    using assms(2,5,6) by (auto simp: store_simps agreements_update)
  then show ?thesis using assms(1,3) by (auto simp: follows_machine_def)
qed

lemma CreateDeal_follows:
  assumes "follows_machine a m" and "CreateDeal d m = Inr m'" and "sound m'"
    and "map_of (deals m) (dID d) = None" and "dStatus d = DealConfirmed"
  shows "follows_machine a m'"
proof -
  have "agreements_of m (dID d) = None" using assms(4) by (simp add: agreements_of_def)
  from agree [of "agreements_of m" "dID d", OF this] have "machine (agreements_of m) (agreements_of m')"
    using assms(2,5) by (auto simp: store_simps agreements_update)
  then show ?thesis using assms(1,3) by (auto simp: follows_machine_def)
qed

text \<open>Writes to the other tables leave the deals alone.\<close>

definition deals_are :: "(string, Deal) gomap \<Rightarrow> Memory \<Rightarrow> bool" where
  "deals_are D m \<longleftrightarrow> deals m = D"

lemma recount_deals [simp]: "deals (recount i m) = deals m"
  by (simp add: recount_def Let_def split: option.split)

lemma rememberOrder_deals [simp]: "deals (rememberOrder i m) = deals m"
  by (simp add: rememberOrder_def)

lemma keeps_deals [keeps_intros]:
  "keeps (deals_are D) (put (Create j))" "keeps (deals_are D) (put (Update j))"
  "keeps (deals_are D) (put (CreateBid b))" "keeps (deals_are D) (put (UpdateBid b))"
  "keeps (deals_are D) (put (CreateOffer x))" "keeps (deals_are D) (put (UpdateOffer x))"
  "keeps (deals_are D) (put (CreateReview r))" "keeps (deals_are D) (put (UpdateReview r))"
  "keeps (deals_are D) (put (CreateDispute p))" "keeps (deals_are D) (put (UpdateDispute p))"
  "keeps (deals_are D) (put (CreateComplaint c))" "keeps (deals_are D) (put (UpdateComplaint c))"
  "keeps (deals_are D) (put (CreateChat h))" "keeps (deals_are D) (put (UpdateChat h))"
  "keeps (deals_are D) (put (CreateMessage msg))" "keeps (deals_are D) (put (MarkRead i u))"
  "keeps (deals_are D) (put (SaveIdempotent key u ep i))"
  by (rule keeps_put; auto simp: deals_are_def store_simps MarkRead_def SaveIdempotent_def)+

lemma follows_frame:
  assumes "keeps sound m" and "\<And>D. keeps (deals_are D) m"
  shows "keeps (follows_machine a) m"
  unfolding keeps_def
proof (intro allI impI)
  fix w :: world
  assume f: "follows_machine a (mem w)"
  have "deals (mem (snd (m w))) = deals (mem w)"
    using assms(2) [of "deals (mem w)"] by (simp add: keeps_def deals_are_def)
  then have "agreements_of (mem (snd (m w))) = agreements_of (mem w)" by (rule agreements_same)
  then show "follows_machine a (mem (snd (m w)))" using f sound_snd [OF assms(1)] by (simp add: follows_machine_def)
qed

lemma keeps_case_list [keeps_intros]:
  "keeps I a \<Longrightarrow> (\<And>x ys. keeps I (f x ys)) \<Longrightarrow> keeps I (case xs of [] \<Rightarrow> a | x # ys \<Rightarrow> f x ys)"
  by (simp split: list.split)


section \<open>Operations that leave the deals alone\<close>

lemma deals_idem: "keeps (deals_are D) work \<Longrightarrow> keeps (deals_are D) (idem_wrap key u ep code work)"
  unfolding idem_wrap_def RememberIdempotent_def
proof (intro keeps_attempt)
  show "keeps (deals_are D) (Idempotent key u ep)"
    by (auto simp: keeps_def Idempotent_def ret_def fail_def split: option.split sum.split)
qed (auto intro!: keeps_intros split: sum.split bool.split)

lemma deals_jobs:
  "keeps (deals_are D) (createDraft e key u inp)" "keeps (deals_are D) (UpdateDraft e u i inp)"
  "keeps (deals_are D) (publish e key u i)" "keeps (deals_are D) (Cancel e u i)"
  unfolding createDraft_def CreateDraft_def UpdateDraft_def publish_def Publish_def Cancel_def Let_def
  by (intro deals_idem keeps_intros)+

lemma deals_View: "keeps (deals_are D) (View u i)"
  unfolding View_def add_view_def
  by (intro keeps_intros) (auto simp: keeps_def deals_are_def AddView_def Let_def split: sum.split prod.split option.split)

lemma deals_bids:
  "keeps (deals_are D) (PlaceBid e u i binp)" "keeps (deals_are D) (WithdrawBid e u k)"
  "keeps (deals_are D) (AcceptBid e u k)" "keeps (deals_are D) (DeclineAllBids e u i)"
  "keeps (deals_are D) (FinishAuction e i)" "keeps (deals_are D) (ExpireDecision e i)"
  unfolding PlaceBid_def WithdrawBid_def AcceptBid_def DeclineAllBids_def FinishAuction_def ExpireDecision_def
    retire_previous_def notifyOutbid_def extend_auction_def close_bids_def expire_bids_def declare_winner_def
    expire_without_bids_def tell_bidders_def Let_def
  by (intro keeps_intros)+

lemma deals_offers:
  "keeps (deals_are D) (MakeOffer e u i oinp)" "keeps (deals_are D) (WithdrawOffer e u k)"
  "keeps (deals_are D) (DeclineOffer e u k reason)" "keeps (deals_are D) (CounterOffer e u k price)"
  "keeps (deals_are D) (AcceptOffer e u k)"
  unfolding MakeOffer_def WithdrawOffer_def DeclineOffer_def CounterOffer_def AcceptOffer_def submit_offer_def
    offerOfMyJob_def decline_others_def tell_others_def Let_def
  by (intro keeps_intros)+

lemma deals_reviews:
  "keeps (deals_are D) (leaveReview e u k stars tags body issue)" "keeps (deals_are D) (ReplyToReview e u k body)"
  "keeps (deals_are D) (publishDueReviews e)"
  unfolding leaveReview_def LeaveReview_def ReplyToReview_def publishDueReviews_def frozen_def notifyPublished_def Let_def
  by (intro keeps_intros)+

lemma deals_chats:
  "keeps (deals_are D) (OpenChat e u i other)" "keeps (deals_are D) (SendMessage e u k body)"
  "keeps (deals_are D) (ChatMessages e u k limit offset)"
  unfolding OpenChat_def SendMessage_def ChatMessages_def withKind_def chatOfMine_def Let_def
  by (intro keeps_intros)+

lemma deals_complaints:
  "keeps (deals_are D) (Complain e u kind k reason)" "keeps (deals_are D) (ReviewComplaint e u k action body)"
  unfolding Complain_def ReviewComplaint_def complaint_target_def remove_job_def warn_user_def Let_def
  by (intro keeps_intros)+

lemma deals_follow_job: "keeps (deals_are D) (follow_job i st now)"
  unfolding follow_job_def by (intro keeps_intros)


section \<open>Operations that move a deal\<close>

lemma follows_follow_job: "st \<noteq> StatusBidding \<Longrightarrow> keeps (follows_machine a) (follow_job i st now)"
  by (intro follows_frame keeps_follow_job deals_follow_job)

lemma follows_UpdateDeal:
  assumes "follows_machine a m" and "DealByID k m = Inr d" and "UpdateDeal d' m = Inr m'"
    and "deal_wf d \<Longrightarrow> deal_wf d'" and "dID d' = dID d" and "terms_of d' = terms_of d" and "deal_step r (dStatus d) (dStatus d')"
  shows "follows_machine a m'"
proof (rule UpdateDeal_follows [OF assms(1,3) _ assms(2,5,6,7)])
  show "sound m'"
    by (rule sound_deal_row [OF _ assms(2,3,4)]) (use assms(1,5,6) in \<open>auto simp: follows_machine_def terms_of_def\<close>)
qed

lemma terms_advanced:
  "terms_of (advanced d st u n now) = terms_of d"
  "terms_of ((advanced d st u n now)\<lparr>dCancelReason := why, dCancelledBy := by_whom\<rparr>) = terms_of d"
  by (simp_all add: terms_of_def advanced_def Let_def)

lemma follows_AdvanceDeal: "keeps (follows_machine a) (AdvanceDeal e u k st n)"
proof -
  have row: "follows_machine a m'" if f: "follows_machine a m" "DealByID k m = Inr d" and can: "CanAdvance d st u = None"
    and u: "UpdateDeal (advanced d st u n now) m = Inr m'" for m m' d n now
  proof -
    obtain r where "deal_step r (dStatus d) st" using can CanAdvance_None by blast
    then show ?thesis
      by (intro follows_UpdateDeal [OF f u, where r = r]) (use can deal_wf_advanced in \<open>auto simp: terms_advanced\<close>)
  qed
  have tell: "keeps (follows_machine a) (notifyDealStep d u st)" for d
    unfolding notifyDealStep_def by (intro keeps_intros)
  show ?thesis
    unfolding AdvanceDeal_def Let_def
    by (intro keepsI_kept kept_bnd_get kept_bnd_check kept_bnd_put kept_then [OF follows_follow_job] kept_then [OF tell] kept_ret)
      (auto intro: row)
qed

lemma follows_CancelDeal: "keeps (follows_machine a) (CancelDeal e u k reason)"
proof -
  have row: "follows_machine a m'" if f: "follows_machine a m" "DealByID k m = Inr d"
    and can: "CanAdvance d DealCancelled u = None" and u: "UpdateDeal (cancelled d u why now) m = Inr m'" for m m' d why now
  proof -
    obtain r where "deal_step r (dStatus d) DealCancelled" using can CanAdvance_None by blast
    then show ?thesis
      by (intro follows_UpdateDeal [OF f u, where r = r])
        (use can deal_wf_cancelled in \<open>auto simp: terms_advanced cancelled_def\<close>)
  qed
  show ?thesis
    unfolding CancelDeal_def Let_def cancelled_eq
    by (intro keepsI_kept kept_bnd_get kept_bnd_check kept_bnd_refuse kept_bnd_put kept_keeps [OF keeps_bnd]
        keeps_intros follows_follow_job) (auto intro: row)
qed

lemma follows_close_disputed: "keeps (follows_machine a) (close_disputed k outcome body u now)"
proof -
  have row: "follows_machine a m'" if "follows_machine a m" "DealByID k m = Inr d" "dStatus d = DealDisputed"
    "UpdateDeal (decided d outcome body u now) m = Inr m'" for m m' d
    by (rule follows_UpdateDeal [OF that(1,2,4), where r = Client])
      (use that(3) deal_wf_decided in \<open>auto simp: terms_of_def decided_def Let_def\<close>)
  show ?thesis
    unfolding close_disputed_def Let_def
    by (intro keepsI_kept kept_attempt_get kept_case_sum kept_if kept_ret kept_bnd_put kept_keeps [OF follows_follow_job])
      (auto intro: row)
qed

lemma follows_OpenDispute: "keeps (follows_machine a) (OpenDispute e u k reason photos)"
proof -
  have new: "follows_machine a m1" if "follows_machine a m" "CreateDispute p m = Inr m1" for m m1 p
  proof -
    have "deals m1 = deals m" using that(2) by (auto simp: store_simps)
    then show ?thesis
      using that sound_CreateDispute agreements_same [of m1 m] by (auto simp: follows_machine_def)
  qed
  have row: "follows_machine a m2" if I: "follows_machine a m" and d: "DealByID k m = Inr d" and p: "CreateDispute p m = Inr m1"
    and can: "CanOpenDispute d u = None" "dStatus d \<noteq> DealDisputed \<and> dStatus d \<noteq> DealCompleted"
    and u: "UpdateDeal (disputed d u body now) m1 = Inr m2" for m m1 m2 d p body now
  proof (rule follows_UpdateDeal [OF new [OF I p] _ u, where r = Client])
    show "DealByID k m1 = Inr d" using d p by (auto simp: DealByID_def store_simps)
    show "deal_step Client (dStatus d) (dStatus (disputed d u body now))"
      using can by (cases "dStatus d") (auto simp: disputed_def CanOpenDispute_def split: if_splits)
  qed (use can deal_wf_disputed in \<open>simp_all add: disputed_def terms_of_def\<close>)
  show ?thesis
    unfolding OpenDispute_def suspend_deal_def Let_def
    by (intro keepsI_kept kept_bnd_get kept_bnd_check kept_bnd_need kept_bnd_put kept_seq [where m = "if _ then _ else _"]
        kept_if kept_keeps [OF follows_follow_job] kept_ret kept_bnd_Send)
      (auto intro: row new)
qed

lemma follows_ResolveDispute: "keeps (follows_machine a) (ResolveDispute e u k outcome body)"
proof -
  have "keeps (follows_machine a) (put (UpdateDispute (resolved p outcome b u now)))" for p b now
    by (intro follows_frame keeps_decisions keeps_deals) (simp add: resolved_def)
  then show ?thesis
    unfolding ResolveDispute_def Let_def by (intro keeps_intros follows_close_disputed)
qed

lemma follows_RunOnce: "keeps (follows_machine a) (RunOnce es)"
proof -
  have "keeps (follows_machine a) (close_due e j)" for e j
    unfolding close_due_def
    by (cases "jStatus j"; simp add: autoAccept_def)
      (intro keeps_intros follows_AdvanceDeal follows_frame keeps_FinishAuction keeps_ExpireDecision deals_bids)+
  then have "keeps (follows_machine a) (close_all es n js)" for n js
    by (induction js arbitrary: n) (auto intro: keeps_intros)
  then show ?thesis
    unfolding RunOnce_def Let_def
    by (intro keeps_bnd keeps_ignore keeps_attempt keeps_get keeps_ret keeps_case_sum)
      (auto intro: follows_frame keeps_publishDueReviews deals_reviews)
qed

text \<open>Confirmation opens a deal under a new identifier.\<close>

lemma follows_ConfirmDeal:
  assumes f: "follows_machine a (mem w)" and new: "map_of (deals (mem w)) (fresh e 0) = None"
  shows "kept (follows_machine a) (ConfirmDeal e c i) w"
proof -
  have row: "follows_machine a m'" if "0 < fst (snd (snd win))"
    "CreateDeal (new_deal (fresh e 0) c j i win now) (mem w) = Inr m'" for m' j win now
  proof (rule CreateDeal_follows [OF f that(2)])
    show "sound m'"
      by (rule sound_CreateDeal [OF _ that(2)])
        (use f that(1) deal_wf_new in \<open>auto simp: follows_machine_def deal_ok_def new_deal_def split: prod.splits\<close>)
  qed (use new in \<open>auto simp: new_deal_def split: prod.splits\<close>)
  have job: "keeps (follows_machine a) (put (Update j))" if "job_ok j" for j
    using that by (intro follows_frame keeps_Update keeps_deals)
  show ?thesis
    unfolding ConfirmDeal_def Let_def
    by (intro kept_bnd_own kept_attempt_get kept_case_sum kept_ret kept_bnd_refuse kept_bnd_winner kept_bnd_put
        kept_then [OF job] kept_bnd_Send)
      (use f row in \<open>auto simp: follows_machine_def\<close>)
qed


section \<open>Every request simulates a run\<close>

text \<open>A new deal gets an identifier no deal has, which is what the generator of identifiers promises.\<close>

fun fresh_for :: "request \<Rightarrow> world \<Rightarrow> bool" where
  "fresh_for (RqConfirmDeal e u i) w \<longleftrightarrow> map_of (deals (mem w)) (fresh e 0) = None"
| "fresh_for _ w \<longleftrightarrow> True"

lemma follows_snd: "keeps (follows_machine a) m \<Longrightarrow> follows_machine a (mem w) \<Longrightarrow> follows_machine a (mem (snd (m w)))"
  by (simp add: keeps_def)

lemmas deals_untouched = deals_jobs deals_View deals_bids deals_offers deals_reviews deals_chats deals_complaints

lemmas follows_moves = follows_AdvanceDeal follows_CancelDeal follows_OpenDispute follows_ResolveDispute follows_RunOnce

lemma perform_follows:
  assumes f: "follows_machine a (mem w)" and new: "fresh_for r w"
  shows "follows_machine a (mem (perform r w))"
proof (cases r)
  case (RqConfirmDeal e u i)
  then show ?thesis using follows_ConfirmDeal [OF f, of e u i] new by (simp add: kept_def)
qed (use f in \<open>simp_all add: follows_snd follows_moves follows_frame keeps_sound deals_untouched\<close>)



text \<open>A history of the service: requests that bring new identifiers.\<close>

inductive serves :: "world \<Rightarrow> world \<Rightarrow> bool" where
  serve: "fresh_for r w \<Longrightarrow> serves w (perform r w)"

lemma history_follows:
  "serves\<^sup>*\<^sup>* w w' \<Longrightarrow> follows_machine a (mem w) \<Longrightarrow> follows_machine a (mem w')"
  by (induction rule: rtranclp_induct) (auto elim!: serves.cases intro: perform_follows)



end
