(* ===== verification/Civil.thy ===== *)
theory Civil
  imports Prelude
begin

text \<open>
  The part of Go's \<^verbatim>\<open>time\<close> package that the calendar and the reports use, on UTC instants: the civil
  date of an instant, \<^verbatim>\<open>time.Date\<close> with its normalisation of months and days, \<^verbatim>\<open>AddDate\<close>, and the
  layout \<^verbatim>\<open>2006-01-02\<close> written and parsed. Days are numbered from the first of January of year 1.
\<close>

definition Day :: int where "Day = 24 * Hour"

lemma Day_pos [simp]: "0 < Day" "Day \<noteq> 0"
  by (simp_all add: Day_def duration_defs)


lemma day_less: "t < n * Day \<Longrightarrow> t div Day < n"
proof (rule ccontr)
  assume t: "t < n * Day" and "\<not> t div Day < n"
  then have "n * Day \<le> t div Day * Day" by (intro mult_right_mono) (simp_all add: less_imp_le)
  also have "\<dots> \<le> t" by (simp add: minus_mod_eq_div_mult [symmetric])
  finally show False using t by simp
qed


section \<open>The civil calendar\<close>

definition leap :: "int \<Rightarrow> bool" where
  "leap y \<longleftrightarrow> y mod 4 = 0 \<and> (y mod 100 \<noteq> 0 \<or> y mod 400 = 0)"

definition days_before_year :: "int \<Rightarrow> int" where
  "days_before_year y = 365 * (y - 1) + (y - 1) div 4 - (y - 1) div 100 + (y - 1) div 400"

text \<open>Days of the year before the month \<open>m\<close>, \<open>1..13\<close>; the flag says whether the year is a leap year.\<close>

definition days_before_month :: "bool \<Rightarrow> int \<Rightarrow> int" where
  "days_before_month lp m =
     (if m \<le> 1 then 0 else if m = 2 then 31
      else (if lp then 1 else 0) +
        (if m = 3 then 59 else if m = 4 then 90 else if m = 5 then 120 else if m = 6 then 151
         else if m = 7 then 181 else if m = 8 then 212 else if m = 9 then 243 else if m = 10 then 273
         else if m = 11 then 304 else if m = 12 then 334 else 365))"

definition days_in :: "int \<Rightarrow> int \<Rightarrow> int" where
  "days_in y m = days_before_month (leap y) (m + 1) - days_before_month (leap y) m"

text \<open>\<^verbatim>\<open>time.Date\<close>: months outside \<open>1..12\<close> move the year, days outside the month move the date.\<close>

definition date_days :: "int \<Rightarrow> int \<Rightarrow> int \<Rightarrow> int" where
  "date_days y m d =
     (let y' = y + (m - 1) div 12; m' = (m - 1) mod 12 + 1
      in days_before_year y' + days_before_month (leap y') m' + (d - 1))"

definition month_of :: "bool \<Rightarrow> int \<Rightarrow> int" where
  "month_of lp yd =
     (if yd < 31 then 1 else let l = (if lp then 1 else 0) in
      if yd < 59 + l then 2 else if yd < 90 + l then 3 else if yd < 120 + l then 4
      else if yd < 151 + l then 5 else if yd < 181 + l then 6 else if yd < 212 + l then 7
      else if yd < 243 + l then 8 else if yd < 273 + l then 9 else if yd < 304 + l then 10
      else if yd < 334 + l then 11 else 12)"

text \<open>Cycles of 400, 100, 4 and 1 years; the last century of a cycle and the last year of four are longer.\<close>

definition year_of :: "int \<Rightarrow> int" where
  "year_of n =
     (let a = n div 146097; r = n mod 146097;
          b = min 3 (r div 36524); r = r - 36524 * b;
          c = r div 1461; r = r mod 1461;
          e = min 3 (r div 365)
      in 400 * a + 100 * b + 4 * c + e + 1)"

definition civil :: "int \<Rightarrow> int \<times> int \<times> int" where
  "civil n =
     (let y = year_of n; yd = n - days_before_year y; m = month_of (leap y) yd
      in (y, m, yd - days_before_month (leap y) m + 1))"


section \<open>The date of a day is that day\<close>

lemma mod_last: "1 \<le> v \<Longrightarrow> v \<le> k \<Longrightarrow> v mod k = 0 \<longleftrightarrow> v = (k::int)"
  by (cases "v = k") simp_all

lemma days_before_year_cycles:
  assumes "0 \<le> b" "b \<le> 3" "0 \<le> c" "c \<le> 24" "0 \<le> e" "e \<le> 3"
  shows "days_before_year (400 * a + 100 * b + 4 * c + e + 1) = 146097 * a + 36524 * b + 1461 * c + 365 * e"
    and "leap (400 * a + 100 * b + 4 * c + e + 1) \<longleftrightarrow> e = 3 \<and> (c = 24 \<longrightarrow> b = 3)"
proof -
  let ?x = "400 * a + 100 * b + 4 * c + e"
  have "?x div 4 = 100 * a + 25 * b + c" using assms by (intro int_div_pos_eq [where r = e]) simp_all
  moreover have "?x div 100 = 4 * a + b" using assms by (intro int_div_pos_eq [where r = "4 * c + e"]) simp_all
  moreover have "?x div 400 = a" using assms by (intro int_div_pos_eq [where r = "100 * b + 4 * c + e"]) simp_all
  ultimately show "days_before_year (?x + 1) = 146097 * a + 36524 * b + 1461 * c + 365 * e"
    by (simp add: days_before_year_def algebra_simps)
  have "(?x + 1) mod 4 = (e + 1) mod 4"
    using mod_mult_self4 [of 4 "100 * a + 25 * b + c" "e + 1"] by (simp add: algebra_simps)
  moreover have "(?x + 1) mod 100 = (4 * c + e + 1) mod 100"
    using mod_mult_self4 [of 100 "4 * a + b" "4 * c + e + 1"] by (simp add: algebra_simps)
  moreover have "(?x + 1) mod 400 = (100 * b + 4 * c + e + 1) mod 400"
    using mod_mult_self4 [of 400 a "100 * b + 4 * c + e + 1"] by (simp add: algebra_simps)
  moreover have "(e + 1) mod 4 = 0 \<longleftrightarrow> e = 3" using mod_last [of "e + 1" 4] assms by linarith
  moreover have "(4 * c + e + 1) mod 100 = 0 \<longleftrightarrow> e = 3 \<and> c = 24"
    using mod_last [of "4 * c + e + 1" 100] assms by linarith
  moreover have "(100 * b + 4 * c + e + 1) mod 400 = 0 \<longleftrightarrow> e = 3 \<and> c = 24 \<and> b = 3"
    using mod_last [of "100 * b + 4 * c + e + 1" 400] assms by linarith
  ultimately show "leap (?x + 1) \<longleftrightarrow> e = 3 \<and> (c = 24 \<longrightarrow> b = 3)" by (auto simp: leap_def)
qed

lemma year_of_bounds:
  "0 \<le> n - days_before_year (year_of n)" "n - days_before_year (year_of n) < 365 + (if leap (year_of n) then 1 else 0)"
proof -
  define a where "a = n div 146097"
  define r0 where "r0 = n mod 146097"
  define b where "b = min 3 (r0 div 36524)"
  define r1 where "r1 = r0 - 36524 * b"
  define c where "c = r1 div 1461"
  define r2 where "r2 = r1 mod 1461"
  define e where "e = min 3 (r2 div 365)"
  have y: "year_of n = 400 * a + 100 * b + 4 * c + e + 1"
    by (simp add: year_of_def Let_def a_def b_def c_def e_def r0_def r1_def r2_def)
  have n: "n = 146097 * a + r0" by (simp add: a_def r0_def)
  have r0: "0 \<le> r0" "r0 < 146097" by (simp_all add: r0_def)
  have b: "0 \<le> b" "b \<le> 3" "0 \<le> r1" "b < 3 \<longrightarrow> r1 < 36524" "r1 \<le> 36524" using r0 by (auto simp: b_def r1_def min_def)
  have r1: "r1 = 1461 * c + r2" by (simp add: c_def r2_def)
  have r2: "0 \<le> r2" "r2 < 1461" by (simp_all add: r2_def)
  have c: "0 \<le> c" "c \<le> 24" using b r1 r2 by linarith+
  have e: "0 \<le> e" "e \<le> 3" "0 \<le> r2 - 365 * e" "e < 3 \<longrightarrow> r2 - 365 * e < 365" "r2 - 365 * e \<le> 365"
    using r2 by (auto simp: e_def min_def)
  have d: "n - days_before_year (year_of n) = r2 - 365 * e"
    unfolding y days_before_year_cycles(1) [OF b(1,2) c e(1,2)] using n r1 r1_def by linarith
  show "0 \<le> n - days_before_year (year_of n)" using d e by simp
  have "e = 3 \<and> (c = 24 \<longrightarrow> b = 3)" if "r2 - 365 * e = 365"
    using that b c e r1 r2 by linarith
  then show "n - days_before_year (year_of n) < 365 + (if leap (year_of n) then 1 else 0)"
    unfolding d unfolding y days_before_year_cycles(2) [OF b(1,2) c e(1,2)] using e by (auto simp: order_less_le)
qed

lemma month_of_bounds:
  assumes "0 \<le> yd" "yd < 365 + (if lp then 1 else 0)"
  shows "1 \<le> month_of lp yd" "month_of lp yd \<le> 12" "days_before_month lp (month_of lp yd) \<le> yd"
    "yd < days_before_month lp (month_of lp yd + 1)"
  using assms by (auto simp: month_of_def days_before_month_def Let_def split: if_splits)

lemma civil_ranges:
  assumes "civil n = (y, m, d)"
  shows "1 \<le> m" "m \<le> 12" "1 \<le> d" "d \<le> days_in y m"
  using assms month_of_bounds [OF year_of_bounds, of n] by (auto simp: civil_def Let_def days_in_def)

lemma date_days_civil:
  assumes "civil n = (y, m, d)"
  shows "date_days y m d = n"
proof -
  have "(m - 1) div 12 = 0" "(m - 1) mod 12 = m - 1" using civil_ranges [OF assms] by auto
  then show ?thesis using assms by (auto simp: date_days_def civil_def Let_def)
qed

lemma date_days_add: "date_days y m (d + k) = date_days y m d + k"
  by (simp add: date_days_def Let_def)


section \<open>Instants and dates\<close>

definition Date_of :: "time \<Rightarrow> int \<times> int \<times> int" where
  "Date_of t = civil (t div Day)"

definition AddDate :: "time \<Rightarrow> int \<Rightarrow> int \<Rightarrow> int \<Rightarrow> time" where
  "AddDate t dy dm dd =
     (case Date_of t of (y, m, d) \<Rightarrow> date_days (y + dy) (m + dm) (d + dd) * Day + t mod Day)"

lemma AddDate_days [simp]: "AddDate t 0 0 k = t + k * Day"
proof -
  obtain y m d where c: "civil (t div Day) = (y, m, d)" by (metis prod_cases3)
  have "t div Day * Day + t mod Day = t" by simp
  then show ?thesis
    using date_days_civil [OF c] by (simp add: AddDate_def Date_of_def c date_days_add algebra_simps)
qed


section \<open>The layout of a day\<close>

definition digit :: "int \<Rightarrow> char" where
  "digit k = char_of (48 + k mod 10)"

definition digit_val :: "char \<Rightarrow> int option" where
  "digit_val c = (let k = of_char c :: int in if 48 \<le> k \<and> k \<le> 57 then Some (k - 48) else None)"

lemma digit_val_digit [simp]: "digit_val (digit k) = Some (k mod 10)"
proof -
  have "(48 + k mod 10) mod 256 = 48 + k mod 10" by (intro mod_pos_pos_trivial) (auto intro: order.strict_trans1)
  then show ?thesis by (simp add: digit_val_def digit_def Let_def)
qed

lemma digit_not_bar [simp]: "digit k \<noteq> CHR ''|''"
proof
  assume "digit k = CHR ''|''"
  then have "digit_val (digit k) = digit_val (CHR ''|'')" by simp
  moreover have "digit_val (CHR ''|'') = None" by code_simp
  ultimately show False by simp
qed

definition two :: "int \<Rightarrow> string" where
  "two n = [digit (n div 10), digit n]"

definition four :: "int \<Rightarrow> string" where
  "four n = two (n div 100) @ two (n mod 100)"

text \<open>\<^verbatim>\<open>t.Format("2006-01-02")\<close> for the years \<open>0..9999\<close>, the only ones a calendar day can be written in.\<close>

definition FormatDay :: "time \<Rightarrow> string" where
  "FormatDay t = (case Date_of t of (y, m, d) \<Rightarrow> four y @ ''-'' @ two m @ ''-'' @ two d)"

text \<open>\<^verbatim>\<open>time.Parse("2006-01-02", s)\<close>: exactly ten characters, the month and the day in range.\<close>

fun digits_val :: "int \<Rightarrow> string \<Rightarrow> int option" where
  "digits_val acc [] = Some acc"
| "digits_val acc (c # cs) = (case digit_val c of None \<Rightarrow> None | Some k \<Rightarrow> digits_val (10 * acc + k) cs)"

definition ParseDay :: "string \<Rightarrow> time option" where
  "ParseDay s =
     (if length s \<noteq> 10 \<or> s ! 4 \<noteq> CHR ''-'' \<or> s ! 7 \<noteq> CHR ''-'' then None
      else case (digits_val 0 (take 4 s), digits_val 0 (take 2 (drop 5 s)), digits_val 0 (drop 8 s)) of
             (Some y, Some m, Some d) \<Rightarrow>
               if 1 \<le> m \<and> m \<le> 12 \<and> 1 \<le> d \<and> d \<le> days_in y m then Some (date_days y m d * Day) else None
           | _ \<Rightarrow> None)"

lemma length_FormatDay: "length (FormatDay t) = 10"
  by (simp add: FormatDay_def four_def two_def split: prod.split)

lemma digits_two: "0 \<le> n \<Longrightarrow> n \<le> 99 \<Longrightarrow> digits_val 0 (two n) = Some n"
  by (simp add: two_def)

lemma digits_four: "0 \<le> n \<Longrightarrow> n \<le> 9999 \<Longrightarrow> digits_val 0 (four n) = Some n"
proof -
  assume n: "0 \<le> n" "n \<le> 9999"
  define q r where "q = n div 100" and "r = n mod 100"
  have "0 \<le> q" "q \<le> 99" "0 \<le> r" "r \<le> 99" "n = 100 * q + r" using n by (auto simp: q_def r_def)
  then show ?thesis by (simp add: four_def two_def flip: q_def r_def)
qed

lemma year_range:
  assumes "civil n = (y, m, d)" and "0 \<le> n" and "n < days_before_year 10000"
  shows "1 \<le> y" "y \<le> 9999"
proof -
  have mono: "days_before_year a \<le> days_before_year b" if "a \<le> b" for a b
  proof -
    have "(a - 1) div 100 \<le> (b - 1) div 100" "(a - 1) div 4 \<le> (b - 1) div 4" "(a - 1) div 400 \<le> (b - 1) div 400"
      using that by (simp_all add: zdiv_mono1)
    moreover have "(b - 1) div 100 \<le> (a - 1) div 100 + (b - a)"
      using zdiv_mono1 [of "b - 1" "(a - 1) + 100 * (b - a)" 100] that by simp
    moreover have "365 * (a - 1) + p - q + r \<le> 365 * (b - 1) + p' - q' + r'"
      if "p \<le> p'" "q' \<le> q + (b - a)" "r \<le> r'" "a \<le> b" for p q r p' q' r' :: int using that by presburger
    ultimately show ?thesis using \<open>a \<le> b\<close> unfolding days_before_year_def by blast
  qed
  have y: "y = year_of n" using assms(1) by (simp add: civil_def Let_def)
  have b: "days_before_year y \<le> n" "n < days_before_year y + 366"
    using year_of_bounds [of n] y by (auto split: if_splits)
  show "1 \<le> y"
  proof (rule ccontr)
    assume "\<not> 1 \<le> y"
    then have "days_before_year y \<le> days_before_year 0" by (intro mono) simp
    then have "n < 0" using b year_of_bounds(2) [of n] mono [of y 0]
      by (cases "y = 0") (auto simp: y days_before_year_def leap_def)
    then show False using assms(2) by simp
  qed
  show "y \<le> 9999"
  proof (rule ccontr)
    assume "\<not> y \<le> 9999"
    then have "days_before_year 10000 \<le> days_before_year y" by (intro mono) simp
    then show False using b assms(3) by simp
  qed
qed

text \<open>A day of the years \<open>1..9999\<close> is read back as the midnight it starts with.\<close>

lemma ParseDay_FormatDay:
  assumes "0 \<le> t" and "t < days_before_year 10000 * Day"
  shows "ParseDay (FormatDay t) = Some (t div Day * Day)"
proof -
  obtain y m d where c: "civil (t div Day) = (y, m, d)" by (metis prod_cases3)
  have "0 \<le> t div Day" "t div Day < days_before_year 10000"
    using assms day_less by (simp_all add: pos_imp_zdiv_nonneg_iff)
  then have y: "0 \<le> y" "y \<le> 9999" using year_range [OF c] by simp_all
  note r = civil_ranges [OF c]
  have "days_in y m \<le> 31" by (auto simp: days_in_def days_before_month_def)
  then have md: "0 \<le> m" "m \<le> 99" "0 \<le> d" "d \<le> 99" using r by auto
  have f: "FormatDay t = four y @ ''-'' @ two m @ ''-'' @ two d" by (simp add: FormatDay_def Date_of_def c)
  have l: "length (four y) = 4" "length (two m) = 2" by (simp_all add: four_def two_def)
  have "FormatDay t ! 4 = CHR ''-''" "FormatDay t ! 7 = CHR ''-''" "take 4 (FormatDay t) = four y"
    "take 2 (drop 5 (FormatDay t)) = two m" "drop 8 (FormatDay t) = two d"
    unfolding f by (simp_all add: nth_append l)
  then show ?thesis
    using r y md digits_two digits_four date_days_civil [OF c] by (simp add: ParseDay_def length_FormatDay)
qed

lemma FormatDay_day: "FormatDay t = FormatDay u \<longleftrightarrow> t div Day = u div Day"
  if "0 \<le> t" "t < days_before_year 10000 * Day" "0 \<le> u" "u < days_before_year 10000 * Day"
proof
  assume "FormatDay t = FormatDay u"
  then have "t div Day * Day = u div Day * Day"
    using ParseDay_FormatDay [OF that(1,2)] ParseDay_FormatDay [OF that(3,4)] by simp
  then show "t div Day = u div Day" by simp
qed (simp add: FormatDay_def Date_of_def)

end
