(* ===== verification/Crm_Model.thy ===== *)
theory Crm_Model
  imports Civil Memory_Store Float64
begin

text \<open>
  The business of a contractor and the spending of a customer (\<^verbatim>\<open>internal/job/crm.go\<close>), the queries
  that compute them from the deals (\<^verbatim>\<open>internal/store/crm_memory.go\<close>) and the calendar of busy days
  (\<^verbatim>\<open>internal/store/calendar_memory.go\<close>).
\<close>


section \<open>Periods\<close>

datatype Period = PeriodWeek | PeriodMonth | PeriodQuarter | PeriodYear | PeriodAll | PeriodOther string

record Range =
  rgFrom :: time
  rgTo :: time
  rgPrevFrom :: time
  rgPrevTo :: time

definition RangeOf :: "Period \<Rightarrow> time \<Rightarrow> Range" where
  "RangeOf p now =
     (let from = (case p of
                    PeriodWeek \<Rightarrow> AddDate now 0 0 (-7)
                  | PeriodQuarter \<Rightarrow> AddDate now 0 (-3) 0
                  | PeriodYear \<Rightarrow> AddDate now (-1) 0 0
                  | PeriodAll \<Rightarrow> AddDate now (-100) 0 0
                  | _ \<Rightarrow> AddDate now 0 (-1) 0);
          span = now - from
      in \<lparr>rgFrom = from, rgTo = now, rgPrevFrom = from - span, rgPrevTo = from - Nanosecond\<rparr>)"


section \<open>The summaries\<close>

record Funnel =
  fnOffers :: int
  fnWon :: int
  fnCompleted :: int

definition WinRate :: "Funnel \<Rightarrow> float64" where
  "WinRate f = (if fnOffers f = 0 then 0 else fdiv (f64 (fnWon f)) (f64 (fnOffers f)))"

definition FinishRate :: "Funnel \<Rightarrow> float64" where
  "FinishRate f = (if fnWon f = 0 then 0 else fdiv (f64 (fnCompleted f)) (f64 (fnWon f)))"

record Client =
  clUserID :: string
  clDeals :: int
  clTotal :: int
  clLast :: time

definition Regular :: "Client \<Rightarrow> bool" where "Regular c \<longleftrightarrow> clDeals c \<ge> 3"

record Business =
  buPeriod :: Period
  buIncome :: int
  buDeals :: int
  buAverage :: int
  buCurrency :: string
  buPrevIncome :: int
  buFunnel :: Funnel
  buClients :: "Client list"

text \<open>The percentage of a change, and whether there is anything to compare with.\<close>

definition delta_of :: "int \<Rightarrow> int \<Rightarrow> int \<times> bool" where
  "delta_of now prev =
     (if prev \<le> 0 then (0, False)
      else (trunc (fmul (fdiv (f64 (wrap64 (now - prev))) (f64 prev)) (f64 100)), True))"

definition BusinessDelta :: "Business \<Rightarrow> int \<times> bool" where
  "BusinessDelta b = delta_of (buIncome b) (buPrevIncome b)"

definition AverageCheck :: "int \<Rightarrow> int \<Rightarrow> int" where
  "AverageCheck income n = (if n = 0 then 0 else quot64 income n)"

record CategorySpend =
  csCategoryID :: string
  csTotal :: int
  csDeals :: int

record Spending =
  spPeriod :: Period
  spSpent :: int
  spDeals :: int
  spAverage :: int
  spCurrency :: string
  spPrevSpent :: int
  spByCategory :: "CategorySpend list"
  spOwners :: "Client list"
  spSaved :: int

definition SpendingDelta :: "Spending \<Rightarrow> int \<times> bool" where
  "SpendingDelta s = delta_of (spSpent s) (spPrevSpent s)"


section \<open>Queries over the completed deals\<close>

definition in_range :: "time \<Rightarrow> time \<Rightarrow> time \<Rightarrow> bool" where
  "in_range from till t \<longleftrightarrow> \<not> t < from \<and> \<not> t > till"

definition completed_in :: "time \<Rightarrow> time \<Rightarrow> Deal \<Rightarrow> bool" where
  "completed_in from till d \<longleftrightarrow> dStatus d = DealCompleted
     \<and> (case dClosedAt d of None \<Rightarrow> False | Some t \<Rightarrow> in_range from till t)"

text \<open>The loop that sums: an \<^verbatim>\<open>int64\<close> and a counter.\<close>

fun sum_deals :: "int \<Rightarrow> int \<Rightarrow> Deal list \<Rightarrow> int \<times> int" where
  "sum_deals s n [] = (s, n)"
| "sum_deals s n (d # ds) = sum_deals (wrap64 (s + dPrice d)) (n + 1) ds"

definition IncomeOf :: "(string \<Rightarrow> nat) \<Rightarrow> string \<Rightarrow> time \<Rightarrow> time \<Rightarrow> Memory \<Rightarrow> err + int \<times> int" where
  "IncomeOf rank ownerID from till m =
     Inr (sum_deals 0 0 (filter (\<lambda>d. dOwnerID d = ownerID \<and> completed_in from till d) (grange rank (deals m))))"

definition SpendingOf :: "(string \<Rightarrow> nat) \<Rightarrow> string \<Rightarrow> time \<Rightarrow> time \<Rightarrow> Memory \<Rightarrow> err + int \<times> int" where
  "SpendingOf rank clientID from till m =
     Inr (sum_deals 0 0 (filter (\<lambda>d. dClientID d = clientID \<and> completed_in from till d) (grange rank (deals m))))"

definition FunnelOf :: "string \<Rightarrow> time \<Rightarrow> time \<Rightarrow> Memory \<Rightarrow> err + Funnel" where
  "FunnelOf ownerID from till m =
     (let os = filter (\<lambda>x. oOwnerID x = ownerID \<and> in_range from till (oCreatedAt x)) (gvals (offers m));
          bs = filter (\<lambda>b. bOwnerID b = ownerID \<and> in_range from till (bCreatedAt b)) (gvals (bids m));
          ds = filter (\<lambda>d. dOwnerID d = ownerID \<and> in_range from till (dCreatedAt d)) (gvals (deals m))
      in Inr \<lparr>fnOffers = int (length os) + int (length bs), fnWon = int (length ds),
              fnCompleted = int (length (filter (\<lambda>d. dStatus d = DealCompleted) ds))\<rparr>)"

text \<open>The loop that groups deals by the other party: a Go map of pointers, updated in place.\<close>

definition count_client :: "string \<Rightarrow> Deal \<Rightarrow> (string, Client) gomap \<Rightarrow> (string, Client) gomap" where
  "count_client who d by =
     (let c = (case map_of by who of None \<Rightarrow> \<lparr>clUserID = who, clDeals = 0, clTotal = 0, clLast = 0\<rparr> | Some c \<Rightarrow> c);
          t = (case dClosedAt d of None \<Rightarrow> 0 | Some t \<Rightarrow> t)
      in AList.update who (c\<lparr>clDeals := clDeals c + 1, clTotal := wrap64 (clTotal c + dPrice d),
           clLast := (if t > clLast c then t else clLast c)\<rparr>) by)"

fun group_clients :: "(Deal \<Rightarrow> string) \<Rightarrow> (string, Client) gomap \<Rightarrow> Deal list \<Rightarrow> (string, Client) gomap" where
  "group_clients who by [] = by"
| "group_clients who by (d # ds) = group_clients who (count_client (who d) d by) ds"

definition dearer_client :: "Client \<Rightarrow> Client \<Rightarrow> bool" where
  "dearer_client x y \<longleftrightarrow> clTotal x > clTotal y"

definition cut_to :: "int \<Rightarrow> 'a list \<Rightarrow> 'a list" where
  "cut_to limit out = (if limit > 0 \<and> limit < int (length out) then take (nat limit) out else out)"

definition ClientsOf :: "(string \<Rightarrow> nat) \<Rightarrow> string \<Rightarrow> time \<Rightarrow> time \<Rightarrow> int \<Rightarrow> Memory \<Rightarrow> err + Client list" where
  "ClientsOf rank ownerID from till limit m =
     (let byClient = group_clients dClientID []
            (filter (\<lambda>d. dOwnerID d = ownerID \<and> completed_in from till d) (grange rank (deals m)))
      in Inr (cut_to limit (sort_by dearer_client (grange rank byClient))))"

definition OwnersOf :: "(string \<Rightarrow> nat) \<Rightarrow> string \<Rightarrow> time \<Rightarrow> time \<Rightarrow> int \<Rightarrow> Memory \<Rightarrow> err + Client list" where
  "OwnersOf rank clientID from till limit m =
     (let byOwner = group_clients dOwnerID []
            (filter (\<lambda>d. dClientID d = clientID \<and> completed_in from till d) (grange rank (deals m)))
      in Inr (cut_to limit (sort_by dearer_client (grange rank byOwner))))"

definition category_of :: "Memory \<Rightarrow> Deal \<Rightarrow> string" where
  "category_of m d =
     (case map_of (jobs m) (dJobID d) of
        None \<Rightarrow> ''''
      | Some j \<Rightarrow> (case jCategoryID j of None \<Rightarrow> '''' | Some c \<Rightarrow> c))"

definition count_category :: "string \<Rightarrow> Deal \<Rightarrow> (string, CategorySpend) gomap \<Rightarrow> (string, CategorySpend) gomap" where
  "count_category cat d by =
     (let c = (case map_of by cat of None \<Rightarrow> \<lparr>csCategoryID = cat, csTotal = 0, csDeals = 0\<rparr> | Some c \<Rightarrow> c)
      in AList.update cat (c\<lparr>csTotal := wrap64 (csTotal c + dPrice d), csDeals := csDeals c + 1\<rparr>) by)"

fun group_categories :: "Memory \<Rightarrow> (string, CategorySpend) gomap \<Rightarrow> Deal list \<Rightarrow> (string, CategorySpend) gomap" where
  "group_categories m by [] = by"
| "group_categories m by (d # ds) = group_categories m (count_category (category_of m d) d by) ds"

definition dearer_category :: "CategorySpend \<Rightarrow> CategorySpend \<Rightarrow> bool" where
  "dearer_category x y \<longleftrightarrow> csTotal x > csTotal y"

definition SpendingByCategory :: "(string \<Rightarrow> nat) \<Rightarrow> string \<Rightarrow> time \<Rightarrow> time \<Rightarrow> Memory \<Rightarrow> err + CategorySpend list" where
  "SpendingByCategory rank clientID from till m =
     (let byCat = group_categories m []
            (filter (\<lambda>d. dClientID d = clientID \<and> completed_in from till d) (grange rank (deals m)))
      in Inr (sort_by dearer_category (grange rank byCat)))"

definition saved_on :: "Memory \<Rightarrow> Deal \<Rightarrow> int" where
  "saved_on m d =
     (case map_of (jobs m) (dJobID d) of
        None \<Rightarrow> 0
      | Some j \<Rightarrow>
          if jMode j \<noteq> ModeAuction then 0
          else case jBudgetAmount j of
                 None \<Rightarrow> 0
               | Some b \<Rightarrow> let diff = wrap64 (b - dPrice d) in if diff > 0 then diff else 0)"

fun sum_saved :: "Memory \<Rightarrow> int \<Rightarrow> Deal list \<Rightarrow> int" where
  "sum_saved m s [] = s"
| "sum_saved m s (d # ds) = sum_saved m (wrap64 (s + saved_on m d)) ds"

definition SavedOnAuctions :: "(string \<Rightarrow> nat) \<Rightarrow> string \<Rightarrow> time \<Rightarrow> time \<Rightarrow> Memory \<Rightarrow> err + int" where
  "SavedOnAuctions rank clientID from till m =
     Inr (sum_saved m 0 (filter (\<lambda>d. dClientID d = clientID \<and> completed_in from till d) (grange rank (deals m))))"


section \<open>Busy days\<close>

record BusyDay =
  bdDay :: time
  bdSource :: string
  bdNote :: message
  bdDealID :: string
  bdTitle :: runes

definition BusySourceDeal :: string where "BusySourceDeal = ''deal''"
definition BusySourceManual :: string where "BusySourceManual = ''manual''"

definition SameDay :: "time \<Rightarrow> time \<Rightarrow> bool" where
  "SameDay a b \<longleftrightarrow> Date_of a = Date_of b"

definition DayKey :: "time \<Rightarrow> string" where "DayKey t = FormatDay t"

definition MonthRange :: "time \<Rightarrow> time \<times> time" where
  "MonthRange t =
     (case Date_of t of (y, m, _) \<Rightarrow>
        let from = date_days y m 1 * Day in (from, AddDate from 0 1 0 - Nanosecond))"

definition busyKey :: "string \<Rightarrow> time \<Rightarrow> string" where
  "busyKey ownerID day = ownerID @ ''|'' @ DayKey day"

text \<open>The scan for the last bar: what stands before it and after it.\<close>

fun cut_at_bar :: "string \<Rightarrow> (string \<times> string) option" where
  "cut_at_bar [] = None"
| "cut_at_bar (c # cs) =
     (case cut_at_bar cs of
        Some (a, b) \<Rightarrow> Some (c # a, b)
      | None \<Rightarrow> if c = CHR ''|'' then Some ([], cs) else None)"

definition splitBusyKey :: "string \<Rightarrow> (string \<times> time) option" where
  "splitBusyKey key =
     (case cut_at_bar key of
        None \<Rightarrow> None
      | Some (owner, rest) \<Rightarrow>
          (case ParseDay rest of None \<Rightarrow> None | Some day \<Rightarrow> Some (owner, day)))"

definition SetBusyDay :: "string \<Rightarrow> time \<Rightarrow> message \<Rightarrow> Memory \<Rightarrow> err + Memory" where
  "SetBusyDay ownerID day remark m = Inr (m\<lparr>busyDays := AList.update (busyKey ownerID day) remark (busyDays m)\<rparr>)"

definition ClearBusyDay :: "string \<Rightarrow> time \<Rightarrow> Memory \<Rightarrow> err + Memory" where
  "ClearBusyDay ownerID day m = Inr (m\<lparr>busyDays := AList.delete (busyKey ownerID day) (busyDays m)\<rparr>)"

definition earlier_day :: "BusyDay \<Rightarrow> BusyDay \<Rightarrow> bool" where
  "earlier_day x y \<longleftrightarrow> bdDay x < bdDay y"

definition manual_day :: "string \<Rightarrow> time \<Rightarrow> time \<Rightarrow> string \<times> message \<Rightarrow> BusyDay option" where
  "manual_day ownerID from till e =
     (case splitBusyKey (fst e) of
        None \<Rightarrow> None
      | Some (owner, day) \<Rightarrow>
          if owner \<noteq> ownerID \<or> day < from \<or> day > till then None
          else Some \<lparr>bdDay = day, bdSource = BusySourceManual, bdNote = snd e, bdDealID = '''', bdTitle = []\<rparr>)"

definition ManualBusy :: "string \<Rightarrow> time \<Rightarrow> time \<Rightarrow> Memory \<Rightarrow> err + BusyDay list" where
  "ManualBusy ownerID from till m =
     Inr (sort_by earlier_day (List.map_filter (manual_day ownerID from till) (busyDays m)))"

text \<open>\<^verbatim>\<open>for day := start; !day.After(end); day = day.AddDate(0, 0, 1)\<close>\<close>

function days_from :: "time \<Rightarrow> time \<Rightarrow> time list" where
  "days_from day stop = (if day > stop then [] else day # days_from (AddDate day 0 0 1) stop)"
  by pat_completeness auto
termination
  by (relation "measure (\<lambda>(day, stop). nat (stop + 1 - day))") auto

declare days_from.simps [simp del]

definition deal_span :: "Deal \<Rightarrow> Job \<Rightarrow> time \<times> time" where
  "deal_span d j =
     (let start = (case jDateStart j of None \<Rightarrow> dCreatedAt d | Some t \<Rightarrow> t);
          stop = (case jDateEnd j of None \<Rightarrow> start | Some t \<Rightarrow> t)
      in (start, stop))"

definition deal_days :: "string \<Rightarrow> time \<Rightarrow> time \<Rightarrow> Memory \<Rightarrow> Deal \<Rightarrow> BusyDay list" where
  "deal_days ownerID from till m d =
     (if dOwnerID d \<noteq> ownerID \<or> dStatus d = DealCancelled then []
      else case map_of (jobs m) (dJobID d) of
             None \<Rightarrow> []
           | Some j \<Rightarrow>
               map (\<lambda>day. \<lparr>bdDay = day, bdSource = BusySourceDeal, bdNote = [], bdDealID = dID d, bdTitle = jTitle j\<rparr>)
                 (filter (in_range from till) (case deal_span d j of (start, stop) \<Rightarrow> days_from start stop)))"

definition BusyByDeals :: "(string \<Rightarrow> nat) \<Rightarrow> string \<Rightarrow> time \<Rightarrow> time \<Rightarrow> Memory \<Rightarrow> err + BusyDay list" where
  "BusyByDeals rank ownerID from till m =
     Inr (sort_by earlier_day (concat (map (deal_days ownerID from till m) (grange rank (deals m)))))"

end
