(* ===== verification/Crm_Service.thy ===== *)
theory Crm_Service
  imports Crm_Model Orders_Service Samples
begin

text \<open>
  The reports and the calendar of \<^verbatim>\<open>internal/service/crm.go\<close>: they add up, the calendar shows one entry
  per busy day, a marked day is busy for its owner only, and the export is the filtered history.
\<close>


section \<open>Operations\<close>

definition Business_of :: "env \<Rightarrow> string \<Rightarrow> Period \<Rightarrow> Business op" where
  "Business_of e ownerID period =
     (let r = RangeOf period (clock e 0)
      in bnd (get (IncomeOf (iter e 0) ownerID (rgFrom r) (rgTo r))) (\<lambda>(income, n).
         bnd (get (IncomeOf (iter e 1) ownerID (rgPrevFrom r) (rgPrevTo r))) (\<lambda>(prev, _).
         bnd (get (FunnelOf ownerID (rgFrom r) (rgTo r))) (\<lambda>funnel.
         bnd (get (ClientsOf (iter e 2) ownerID (rgFrom r) (rgTo r) 20)) (\<lambda>clients.
         ret \<lparr>buPeriod = period, buIncome = income, buDeals = n, buAverage = AverageCheck income n,
           buCurrency = ''AMD'', buPrevIncome = prev, buFunnel = funnel, buClients = clients\<rparr>)))))"

definition Spending_of :: "env \<Rightarrow> string \<Rightarrow> Period \<Rightarrow> Spending op" where
  "Spending_of e clientID period =
     (let r = RangeOf period (clock e 0)
      in bnd (get (SpendingOf (iter e 0) clientID (rgFrom r) (rgTo r))) (\<lambda>(spent, n).
         bnd (get (SpendingOf (iter e 1) clientID (rgPrevFrom r) (rgPrevTo r))) (\<lambda>(prev, _).
         bnd (get (SpendingByCategory (iter e 2) clientID (rgFrom r) (rgTo r))) (\<lambda>byCategory.
         bnd (get (OwnersOf (iter e 3) clientID (rgFrom r) (rgTo r) 20)) (\<lambda>owners.
         bnd (get (SavedOnAuctions (iter e 4) clientID (rgFrom r) (rgTo r))) (\<lambda>saved.
         ret \<lparr>spPeriod = period, spSpent = spent, spDeals = n, spAverage = AverageCheck spent n,
           spCurrency = ''AMD'', spPrevSpent = prev, spByCategory = byCategory, spOwners = owners,
           spSaved = saved\<rparr>))))))"

fun put_days :: "(string, BusyDay) gomap \<Rightarrow> BusyDay list \<Rightarrow> (string, BusyDay) gomap" where
  "put_days busy [] = busy"
| "put_days busy (d # ds) = put_days (AList.update (DayKey (bdDay d)) d busy) ds"

definition Calendar :: "env \<Rightarrow> string \<Rightarrow> time \<Rightarrow> BusyDay list op" where
  "Calendar e ownerID month =
     (case MonthRange month of (from, till) \<Rightarrow>
        bnd (get (BusyByDeals (iter e 0) ownerID from till)) (\<lambda>ds.
        bnd (get (ManualBusy ownerID from till)) (\<lambda>manual.
        let busy = put_days (put_days [] manual) ds
        in ret (sort_by earlier_day (grange (iter e 1) busy)))))"

definition MarkBusy :: "string \<Rightarrow> time \<Rightarrow> runes \<Rightarrow> unit op" where
  "MarkBusy ownerID day remark =
     bnd (refuse (ownerID = '''') ErrForbidden) (\<lambda>_.
     put (SetBusyDay ownerID day (mtext (TrimSpace remark))))"

definition UnmarkBusy :: "string \<Rightarrow> time \<Rightarrow> unit op" where
  "UnmarkBusy ownerID day =
     bnd (refuse (ownerID = '''') ErrForbidden) (\<lambda>_.
     put (ClearBusyDay ownerID day))"

definition BusyOn :: "env \<Rightarrow> string \<Rightarrow> time \<Rightarrow> bool op" where
  "BusyOn e ownerID day =
     (case Date_of day of (y, mo, d) \<Rightarrow>
        let from = date_days y mo d * Day; till = AddDate from 0 0 1 - Nanosecond
        in bnd (get (BusyByDeals (iter e 0) ownerID from till)) (\<lambda>ds.
           if ds \<noteq> [] then ret True
           else bnd (get (ManualBusy ownerID from till)) (\<lambda>manual.
                ret (manual \<noteq> []))))"

text \<open>One page of the history: the rows of the asked side, inside the period, with their job's title.\<close>

fun export_batch :: "string \<Rightarrow> bool \<Rightarrow> Range \<Rightarrow> Deal list \<Rightarrow> Deal list \<Rightarrow> Deal list op" where
  "export_batch userID asOwner r out [] = ret out"
| "export_batch userID asOwner r out (d # ds) =
     (if asOwner \<and> dOwnerID d \<noteq> userID then export_batch userID asOwner r out ds
      else if \<not> asOwner \<and> dClientID d \<noteq> userID then export_batch userID asOwner r out ds
      else let day = (case dClosedAt d of None \<Rightarrow> dCreatedAt d | Some t \<Rightarrow> t)
      in if day < rgFrom r \<or> day > rgTo r then export_batch userID asOwner r out ds
      else attempt (get (ByID (dJobID d))) (\<lambda>q.
           let d = (case q of Inl _ \<Rightarrow> d | Inr j \<Rightarrow> d\<lparr>dJobTitle := jTitle j\<rparr>)
           in export_batch userID asOwner r (out @ [d]) ds))"

definition exportPage :: int where "exportPage = 200"

text \<open>The loop over the offsets \<open>0, 200, ..., 4800\<close>.\<close>

fun export_pages :: "env \<Rightarrow> string \<Rightarrow> bool \<Rightarrow> Range \<Rightarrow> Deal list \<Rightarrow> nat list \<Rightarrow> Deal list op" where
  "export_pages e userID asOwner r out [] = ret out"
| "export_pages e userID asOwner r out (k # ks) =
     bnd (get (DealsByUser (iter e k) userID exportPage (exportPage * int k))) (\<lambda>batch.
     if batch = [] then ret out
     else bnd (export_batch userID asOwner r out batch) (\<lambda>out.
          if int (length batch) < exportPage then ret out
          else export_pages e userID asOwner r out ks))"

definition newest_first :: "Deal \<Rightarrow> Deal \<Rightarrow> bool" where
  "newest_first x y \<longleftrightarrow> dCreatedAt x > dCreatedAt y"

definition DealsForExport :: "env \<Rightarrow> string \<Rightarrow> Period \<Rightarrow> bool \<Rightarrow> Deal list op" where
  "DealsForExport e userID period asOwner =
     (let r = RangeOf period (clock e 0)
      in bnd (export_pages e userID asOwner r [] [0..<25]) (\<lambda>out.
         ret (sort_by newest_first out)))"


section \<open>Sums\<close>

lemma wrap64_add_left [simp]: "wrap64 (wrap64 x + y) = wrap64 (x + y)"
  by (simp add: wrap64_def mod_simps algebra_simps)

lemma wrap64_0 [simp]: "wrap64 0 = 0"
  by (simp add: wrap64_def)

lemma wrap64_cong_add: "wrap64 a = wrap64 b \<Longrightarrow> wrap64 (a + c) = wrap64 (b + c)"
  by (metis wrap64_add_left)

lemma sum_deals_eq:
  "sum_deals (wrap64 s) n ds = (wrap64 (s + sum_list (map dPrice ds)), n + int (length ds))"
  by (induction ds arbitrary: s n) (simp_all add: add.assoc)

lemma sum_update_gvals:
  fixes f :: "'v \<Rightarrow> int"
  shows "distinct (map fst m) \<Longrightarrow> sum_list (map f (gvals (AList.update k v m)))
    = sum_list (map f (gvals m)) - (case map_of m k of None \<Rightarrow> 0 | Some x \<Rightarrow> f x) + f v"
proof (induction m)
  case (Cons e m)
  then show ?case
    by (cases e) (auto split: option.split dest: map_of_SomeD intro: rev_image_eqI)
qed simp

lemma keys_update: "fst ` set (AList.update k v m) = insert k (fst ` set m)"
  by (simp add: dom_map_of_conv_image_fst [symmetric] update_conv')

lemma keys_delete: "fst ` set (AList.delete k m) = fst ` set m - {k}"
  by (auto simp: dom_map_of_conv_image_fst [symmetric] delete_conv')

text \<open>The loops that group deals by a key share one contract: a blank row, and a deal added to a row.\<close>

locale tally =
  fixes idf :: "'c \<Rightarrow> string" and total :: "'c \<Rightarrow> int" and number :: "'c \<Rightarrow> int"
    and blank :: "string \<Rightarrow> 'c" and bump :: "Deal \<Rightarrow> 'c \<Rightarrow> 'c" and who :: "Deal \<Rightarrow> string"
    and group :: "(string, 'c) gomap \<Rightarrow> Deal list \<Rightarrow> (string, 'c) gomap"
  assumes blank: "idf (blank k) = k" "total (blank k) = 0" "number (blank k) = 0"
    and bump: "idf (bump d c) = idf c" "wrap64 (total (bump d c)) = wrap64 (total c + dPrice d)"
      "number (bump d c) = number c + 1"
    and group: "group by [] = by"
      "group by (d # ds) = group (AList.update (who d)
         (bump d (case map_of by (who d) of None \<Rightarrow> blank (who d) | Some c \<Rightarrow> c)) by) ds"
begin

lemma group_adds_up:
  "keyed idf by \<Longrightarrow> keyed idf (group by ds) \<and> set (map fst (group by ds)) = set (map fst by) \<union> who ` set ds
     \<and> wrap64 (sum_list (map total (gvals (group by ds)))) = wrap64 (sum_list (map total (gvals by)) + sum_list (map dPrice ds))
     \<and> sum_list (map number (gvals (group by ds))) = sum_list (map number (gvals by)) + int (length ds)"
proof (induction ds arbitrary: "by")
  case Nil
  then show ?case by (simp add: group)
next
  case (Cons d ds)
  define c where "c = bump d (case map_of by (who d) of None \<Rightarrow> blank (who d) | Some c \<Rightarrow> c)"
  have id: "idf c = who d" using keyed_get [OF Cons.prems, of "who d"] by (auto simp: c_def blank bump split: option.split)
  have k: "keyed idf (AList.update (who d) c by)" using keyed_update_key [OF Cons.prems, of c] id by simp
  have dist: "distinct (map fst by)" using Cons.prems by (simp add: keyed_def)
  have n: "sum_list (map number (gvals (AList.update (who d) c by))) = sum_list (map number (gvals by)) + 1"
    using sum_update_gvals [OF dist, of number "who d" c] by (auto simp: c_def blank bump split: option.splits)
  define z where "z = (case map_of by (who d) of None \<Rightarrow> 0 | Some x \<Rightarrow> total x)"
  define S where "S = sum_list (map total (gvals by))"
  have "wrap64 (total c) = wrap64 (z + dPrice d)" by (auto simp: c_def z_def blank bump split: option.split)
  from wrap64_cong_add [OF this, of "S - z"] have "wrap64 (total c + (S - z)) = wrap64 (S + dPrice d)"
    by (simp add: algebra_simps)
  moreover have "sum_list (map total (gvals (AList.update (who d) c by))) = total c + (S - z)"
    using sum_update_gvals [OF dist, of total "who d" c] by (simp add: z_def S_def)
  ultimately have t: "wrap64 (sum_list (map total (gvals (AList.update (who d) c by)))) = wrap64 (S + dPrice d)" by simp
  have "set (map fst (AList.update (who d) c by)) = insert (who d) (set (map fst by))"
    by (simp add: keys_update)
  then show ?case
    using Cons.IH [OF k] n wrap64_cong_add [OF t, of "sum_list (map dPrice ds)"]
    by (simp add: group c_def [symmetric] S_def algebra_simps)
qed

lemma group_all:
  "keyed idf (group [] ds)" "length (group [] ds) = card (who ` set ds)"
  "wrap64 (sum_list (map total (gvals (group [] ds)))) = wrap64 (sum_list (map dPrice ds))"
  "sum_list (map number (gvals (group [] ds))) = int (length ds)"
proof -
  note g = group_adds_up [OF keyed_Nil, of ds]
  show k: "keyed idf (group [] ds)" using g by blast
  then have "distinct (map fst (group [] ds))" by (simp add: keyed_def)
  from distinct_card [OF this] show "length (group [] ds) = card (who ` set ds)" using g by simp
  show "wrap64 (sum_list (map total (gvals (group [] ds)))) = wrap64 (sum_list (map dPrice ds))"
    "sum_list (map number (gvals (group [] ds))) = int (length ds)" using g by simp_all
qed

end

definition blank_client :: "string \<Rightarrow> Client" where
  "blank_client k = \<lparr>clUserID = k, clDeals = 0, clTotal = 0, clLast = 0\<rparr>"

definition bump_client :: "Deal \<Rightarrow> Client \<Rightarrow> Client" where
  "bump_client d c = c\<lparr>clDeals := clDeals c + 1, clTotal := wrap64 (clTotal c + dPrice d),
     clLast := (let t = (case dClosedAt d of None \<Rightarrow> 0 | Some t \<Rightarrow> t) in if t > clLast c then t else clLast c)\<rparr>"

interpretation clients: tally clUserID clTotal clDeals blank_client bump_client dClientID "group_clients dClientID"
  by unfold_locales (simp_all add: blank_client_def bump_client_def count_client_def Let_def split: option.split)

interpretation owners: tally clUserID clTotal clDeals blank_client bump_client dOwnerID "group_clients dOwnerID"
  by unfold_locales (simp_all add: blank_client_def bump_client_def count_client_def Let_def split: option.split)

definition blank_category :: "string \<Rightarrow> CategorySpend" where
  "blank_category k = \<lparr>csCategoryID = k, csTotal = 0, csDeals = 0\<rparr>"

definition bump_category :: "Deal \<Rightarrow> CategorySpend \<Rightarrow> CategorySpend" where
  "bump_category d c = c\<lparr>csTotal := wrap64 (csTotal c + dPrice d), csDeals := csDeals c + 1\<rparr>"

interpretation categories: tally csCategoryID csTotal csDeals blank_category bump_category "category_of m" "group_categories m" for m
  by unfold_locales (simp_all add: blank_category_def bump_category_def count_category_def Let_def split: option.split)


section \<open>The reports add up\<close>

definition earned :: "string \<Rightarrow> time \<Rightarrow> time \<Rightarrow> Memory \<Rightarrow> Deal list" where
  "earned ownerID from till m = filter (\<lambda>d. dOwnerID d = ownerID \<and> completed_in from till d) (gvals (deals m))"

definition paid :: "string \<Rightarrow> time \<Rightarrow> time \<Rightarrow> Memory \<Rightarrow> Deal list" where
  "paid clientID from till m = filter (\<lambda>d. dClientID d = clientID \<and> completed_in from till d) (gvals (deals m))"

lemma sum_list_mset: "mset xs = mset ys \<Longrightarrow> sum_list (map f xs) = (sum_list (map f ys) :: int)"
  by (metis mset_map sum_mset_sum_list)

lemma filter_grange:
  "sum_list (map f (filter P (grange rank m))) = (sum_list (map f (filter P (gvals m))) :: int)"
  "length (filter P (grange rank m)) = length (filter P (gvals m))"
proof -
  have e: "mset (filter P (grange rank m)) = mset (filter P (gvals m))" by simp
  show "sum_list (map f (filter P (grange rank m))) = sum_list (map f (filter P (gvals m)))" using e by (rule sum_list_mset)
  show "length (filter P (grange rank m)) = length (filter P (gvals m))" using e by (rule mset_eq_length)
qed

lemma IncomeOf_eq:
  "IncomeOf rank o1 from till m = Inr (wrap64 (sum_list (map dPrice (earned o1 from till m))), int (length (earned o1 from till m)))"
  using sum_deals_eq [of 0 0] by (simp add: IncomeOf_def earned_def filter_grange)

lemma SpendingOf_eq:
  "SpendingOf rank c from till m = Inr (wrap64 (sum_list (map dPrice (paid c from till m))), int (length (paid c from till m)))"
  using sum_deals_eq [of 0 0] by (simp add: SpendingOf_def paid_def filter_grange)

interpretation dearest: comparator dearer_client
  by unfold_locales (auto simp: dearer_client_def)

interpretation dearest_category: comparator dearer_category
  by unfold_locales (auto simp: dearer_category_def)

interpretation by_day: comparator earlier_day
  by unfold_locales (auto simp: earlier_day_def)

interpretation newest: comparator newest_first
  by unfold_locales (auto simp: newest_first_def)

lemma cut_to_short: "int (length out) \<le> limit \<Longrightarrow> cut_to limit out = out"
  by (simp add: cut_to_def)

lemma cut_to_sorted: "sorted_wrt P out \<Longrightarrow> sorted_wrt P (cut_to limit out)"
  by (simp add: cut_to_def sorted_wrt_take)

lemma cut_to_length: "0 < limit \<Longrightarrow> int (length (cut_to limit out)) \<le> limit"
  by (simp add: cut_to_def)

lemma cut_to_distinct: "distinct (map f out) \<Longrightarrow> distinct (map f (cut_to limit out))"
  by (simp add: cut_to_def take_map [symmetric])

text \<open>A listing of grouped rows: sorted, one row per person, never longer than the limit, and complete
  with its sums when there are not more people than that.\<close>

definition adds_up :: "int \<Rightarrow> int \<Rightarrow> Deal list \<Rightarrow> string set \<Rightarrow> Client list \<Rightarrow> bool" where
  "adds_up income n ds people cs \<longleftrightarrow> distinct (map clUserID cs) \<and> sorted_wrt (\<lambda>x y. clTotal y \<le> clTotal x) cs
     \<and> length cs \<le> 20
     \<and> (card people \<le> 20 \<longrightarrow> wrap64 (sum_list (map clTotal cs)) = income \<and> sum_list (map clDeals cs) = n)"

lemma listing_adds_up:
  assumes g: "keyed clUserID by" "length by = card people" "wrap64 (sum_list (map clTotal (gvals by))) = income"
      "sum_list (map clDeals (gvals by)) = n"
  shows "adds_up income n ds people (cut_to 20 (sort_by dearer_client (grange rank by)))"
proof -
  let ?xs = "sort_by dearer_client (grange rank by)"
  have m: "mset ?xs = mset (gvals by)" by simp
  have d: "distinct (map clUserID ?xs)"
    using keyed_distinct_grange [OF g(1)] mset_eq_imp_distinct_iff [of "map clUserID ?xs" "map clUserID (grange rank by)"] by simp
  have s: "sorted_wrt (\<lambda>x y. clTotal y \<le> clTotal x) ?xs"
    using dearest.sort_by_sorted [of "grange rank by"] by (simp add: dearer_client_def not_less)
  have l: "length ?xs = card people" using g(2) mset_eq_length [OF m] by (simp add: gvals_def)
  show ?thesis
    unfolding adds_up_def
  proof (intro conjI impI)
    show "length (cut_to 20 ?xs) \<le> 20" using cut_to_length [of 20 ?xs] by simp
    assume "card people \<le> 20"
    then have c: "cut_to 20 ?xs = ?xs" using l by (intro cut_to_short) simp
    show "wrap64 (sum_list (map clTotal (cut_to 20 ?xs))) = income" "sum_list (map clDeals (cut_to 20 ?xs)) = n"
      unfolding c sum_list_mset [OF m] using g(3,4) by simp_all
  qed (intro cut_to_distinct cut_to_sorted d s)+
qed

lemma ClientsOf_adds_up:
  "ClientsOf rank o1 from till 20 m = Inr cs \<Longrightarrow> adds_up (wrap64 (sum_list (map dPrice (earned o1 from till m))))
     (int (length (earned o1 from till m))) ds (dClientID ` set (earned o1 from till m)) cs"
  using clients.group_all [of "filter (\<lambda>d. dOwnerID d = o1 \<and> completed_in from till d) (grange rank (deals m))"]
  by (auto simp: ClientsOf_def earned_def filter_grange intro!: listing_adds_up)

lemma OwnersOf_adds_up:
  "OwnersOf rank c from till 20 m = Inr cs \<Longrightarrow> adds_up (wrap64 (sum_list (map dPrice (paid c from till m))))
     (int (length (paid c from till m))) ds (dOwnerID ` set (paid c from till m)) cs"
  using owners.group_all [of "filter (\<lambda>d. dClientID d = c \<and> completed_in from till d) (grange rank (deals m))"]
  by (auto simp: OwnersOf_def paid_def filter_grange intro!: listing_adds_up)

lemma SpendingByCategory_adds_up:
  assumes "SpendingByCategory rank c from till m = Inr cs"
  shows "distinct (map csCategoryID cs) \<and> sorted_wrt (\<lambda>x y. csTotal y \<le> csTotal x) cs
    \<and> wrap64 (sum_list (map csTotal cs)) = wrap64 (sum_list (map dPrice (paid c from till m)))
    \<and> sum_list (map csDeals cs) = int (length (paid c from till m))"
proof -
  let ?ds = "filter (\<lambda>d. dClientID d = c \<and> completed_in from till d) (grange rank (deals m))"
  let ?by = "group_categories m [] ?ds"
  note g = categories.group_all [of m ?ds]
  have cs: "cs = sort_by dearer_category (grange rank ?by)" using assms by (simp add: SpendingByCategory_def Let_def)
  have ms: "mset cs = mset (gvals ?by)" by (simp add: cs)
  have "distinct (map csCategoryID cs)"
    using keyed_distinct_grange [OF g(1)] mset_eq_imp_distinct_iff [of "map csCategoryID cs" "map csCategoryID (grange rank ?by)"]
    by (simp add: cs)
  moreover have "sorted_wrt (\<lambda>x y. csTotal y \<le> csTotal x) cs"
    using dearest_category.sort_by_sorted [of "grange rank ?by"] by (simp add: cs dearer_category_def not_less)
  ultimately show ?thesis
    using g(3,4) unfolding sum_list_mset [OF ms] by (simp add: paid_def filter_grange)
qed

lemma FunnelOf_bounds:
  "FunnelOf o1 from till m = Inr f \<Longrightarrow> 0 \<le> fnCompleted f \<and> fnCompleted f \<le> fnWon f"
  by (auto simp: FunnelOf_def Let_def simp del: filter_filter)

text \<open>C20: The summary of a contractor adds up, in whatever order the store visits its rows: the income is
  the sum of the prices of the deals completed inside the period (as a 64-bit number), the list of
  customers names each once, by falling totals, at most twenty, and when there are not more their
  totals and counts are the income and the number of deals; no more deals are finished than won.\<close>

theorem Business_adds_up:
  assumes "Business_of e o1 p w = (Inr b, w')"
  shows "w' = w \<and> (let r = RangeOf p (clock e 0); ds = earned o1 (rgFrom r) (rgTo r) (mem w)
    in buIncome b = wrap64 (sum_list (map dPrice ds)) \<and> buDeals b = int (length ds)
      \<and> buPrevIncome b = wrap64 (sum_list (map dPrice (earned o1 (rgPrevFrom r) (rgPrevTo r) (mem w))))
      \<and> adds_up (buIncome b) (buDeals b) ds (dClientID ` set ds) (buClients b)
      \<and> 0 \<le> fnCompleted (buFunnel b) \<and> fnCompleted (buFunnel b) \<le> fnWon (buFunnel b))"
  using assms ClientsOf_adds_up FunnelOf_bounds
  by (auto simp: Business_of_def Let_def op_simps IncomeOf_eq)

theorem Business_adds_up_witness:
  "\<exists>b. Business_of (env_at (1000 * Day) ''n'') ''boris'' PeriodAll
       (with_deal fixed_job ((a_deal DealCompleted)\<lparr>dClosedAt := Some (999 * Day)\<rparr>)) =
         (Inr b, with_deal fixed_job ((a_deal DealCompleted)\<lparr>dClosedAt := Some (999 * Day)\<rparr>))
     \<and> buIncome b = 50000 \<and> map clTotal (buClients b) = [50000]
     \<and> fnCompleted (buFunnel b) \<le> fnWon (buFunnel b)"
proof -
  let ?w = "with_deal fixed_job ((a_deal DealCompleted)\<lparr>dClosedAt := Some (999 * Day)\<rparr>)"
  let ?r = "Business_of (env_at (1000 * Day) ''n'') ''boris'' PeriodAll ?w"
  have v: "map_sum (\<lambda>_. ()) (\<lambda>b. (buIncome b, map clTotal (buClients b))) (fst ?r) = Inr (50000, [50000])" by code_simp
  then obtain b where b: "fst ?r = Inr b" "buIncome b = 50000" "map clTotal (buClients b) = [50000]"
    by (cases "fst ?r") auto
  then have r: "?r = (Inr b, snd ?r)" by (metis prod.collapse)
  from Business_adds_up [OF r] b r show ?thesis by (auto simp: Let_def)
qed

text \<open>The spending of a customer adds up by kind of work: each kind is named once, the totals of the
  kinds sum up to what was spent and their counts to the number of deals; so do the contractors when
  there are at most twenty.\<close>

theorem Spending_adds_up:
  assumes "Spending_of e c p w = (Inr s, w')"
  shows "w' = w \<and> (let r = RangeOf p (clock e 0); ds = paid c (rgFrom r) (rgTo r) (mem w)
    in spSpent s = wrap64 (sum_list (map dPrice ds)) \<and> spDeals s = int (length ds)
      \<and> distinct (map csCategoryID (spByCategory s))
      \<and> wrap64 (sum_list (map csTotal (spByCategory s))) = spSpent s \<and> sum_list (map csDeals (spByCategory s)) = spDeals s
      \<and> adds_up (spSpent s) (spDeals s) ds (dOwnerID ` set ds) (spOwners s))"
  using assms OwnersOf_adds_up SpendingByCategory_adds_up
  by (auto simp: Spending_of_def Let_def op_simps SpendingOf_eq)

theorem Spending_adds_up_witness:
  "\<exists>s. Spending_of (env_at (1000 * Day) ''n'') ''anna'' PeriodAll
       (with_deal fixed_job ((a_deal DealCompleted)\<lparr>dClosedAt := Some (999 * Day)\<rparr>)) =
         (Inr s, with_deal fixed_job ((a_deal DealCompleted)\<lparr>dClosedAt := Some (999 * Day)\<rparr>))
     \<and> spSpent s = 50000 \<and> wrap64 (sum_list (map csTotal (spByCategory s))) = 50000"
proof -
  let ?w = "with_deal fixed_job ((a_deal DealCompleted)\<lparr>dClosedAt := Some (999 * Day)\<rparr>)"
  let ?r = "Spending_of (env_at (1000 * Day) ''n'') ''anna'' PeriodAll ?w"
  have v: "map_sum (\<lambda>_. ()) spSpent (fst ?r) = Inr 50000" by code_simp
  then obtain s where s: "fst ?r = Inr s" "spSpent s = 50000" by (cases "fst ?r") auto
  then have r: "?r = (Inr s, snd ?r)" by (metis prod.collapse)
  from Spending_adds_up [OF r] s r show ?thesis by (auto simp: Let_def)
qed


section \<open>Busy days\<close>

text \<open>The years a day can be written in.\<close>

definition dated :: "time \<Rightarrow> bool" where
  "dated t \<longleftrightarrow> 0 \<le> t \<and> t < days_before_year 10000 * Day"

definition midnight :: "time \<Rightarrow> time" where "midnight t = t div Day * Day"

lemma cut_at_bar_last: "CHR ''|'' \<notin> set b \<Longrightarrow> cut_at_bar (a @ CHR ''|'' # b) = Some (a, b)"
proof -
  assume b: "CHR ''|'' \<notin> set b"
  then have "cut_at_bar b = None" by (induction b) auto
  then show ?thesis by (induction a) auto
qed

lemma DayKey_no_bar: "CHR ''|'' \<notin> set (DayKey t)"
  by (auto simp: DayKey_def FormatDay_def four_def two_def digit_not_bar [symmetric] split: prod.split)

text \<open>The key of a busy day is read back whatever its owner's identifier looks like.\<close>

lemma splitBusyKey_busyKey: "dated t \<Longrightarrow> splitBusyKey (busyKey ow t) = Some (ow, midnight t)"
  using cut_at_bar_last [OF DayKey_no_bar, of ow t] ParseDay_FormatDay [of t]
  by (simp add: splitBusyKey_def busyKey_def dated_def midnight_def DayKey_def)

lemma busyKey_eq: "dated t \<Longrightarrow> dated u \<Longrightarrow> busyKey ow t = busyKey ow' u \<longleftrightarrow> ow = ow' \<and> midnight t = midnight u"
  using splitBusyKey_busyKey [of t ow] splitBusyKey_busyKey [of u ow'] FormatDay_day [of t u]
  by (auto simp: busyKey_def DayKey_def dated_def midnight_def)

definition busy_keys_ok :: "Memory \<Rightarrow> bool" where
  "busy_keys_ok m \<longleftrightarrow> distinct (map fst (busyDays m))
     \<and> (\<forall>k \<in> fst ` set (busyDays m). \<exists>ow t. dated t \<and> k = busyKey ow t)"

text \<open>The marks of an owner, as a set of days with their notes.\<close>

definition marks :: "Memory \<Rightarrow> string \<Rightarrow> time \<Rightarrow> message option" where
  "marks m ow t = map_of (busyDays m) (busyKey ow t)"

lemma ManualBusy_marks:
  assumes ok: "busy_keys_ok m" and b: "ManualBusy ow from till m = Inr bs"
  shows "d \<in> set bs \<longleftrightarrow> (\<exists>t n. dated t \<and> marks m ow t = Some n \<and> from \<le> midnight t \<and> midnight t \<le> till
    \<and> d = \<lparr>bdDay = midnight t, bdSource = BusySourceManual, bdNote = n, bdDealID = '''', bdTitle = []\<rparr>)"
proof -
  have "d \<in> set bs \<longleftrightarrow> (\<exists>e \<in> set (busyDays m). manual_day ow from till e = Some d)"
    using b by (force simp: ManualBusy_def List.map_filter_def image_iff)
  also have "\<dots> \<longleftrightarrow> (\<exists>t n. dated t \<and> marks m ow t = Some n \<and> manual_day ow from till (busyKey ow t, n) = Some d)"
  proof
    assume "\<exists>e \<in> set (busyDays m). manual_day ow from till e = Some d"
    then obtain k n where e: "(k, n) \<in> set (busyDays m)" "manual_day ow from till (k, n) = Some d" by auto
    then obtain ow' t where t: "dated t" "k = busyKey ow' t" using ok by (force simp: busy_keys_ok_def)
    have "ow' = ow" using e(2) t by (auto simp: manual_day_def splitBusyKey_busyKey split: if_splits)
    then show "\<exists>t n. dated t \<and> marks m ow t = Some n \<and> manual_day ow from till (busyKey ow t, n) = Some d"
      using e t ok by (auto simp: marks_def busy_keys_ok_def map_of_is_SomeI)
  qed (auto simp: marks_def dest!: map_of_SomeD)
  also have "\<dots> \<longleftrightarrow> (\<exists>t n. dated t \<and> marks m ow t = Some n \<and> from \<le> midnight t \<and> midnight t \<le> till
    \<and> d = \<lparr>bdDay = midnight t, bdSource = BusySourceManual, bdNote = n, bdDealID = '''', bdTitle = []\<rparr>)"
    by (auto simp: manual_day_def splitBusyKey_busyKey not_less split: if_splits)
  finally show ?thesis .
qed

lemma Day_ge [simp]: "0 \<le> Day" "\<not> Day \<le> 0"
  by (simp_all add: less_imp_le not_le)

lemma midnight_mono: "t \<le> u \<Longrightarrow> midnight t \<le> midnight u"
  by (simp add: midnight_def zdiv_mono1 mult_right_mono)

lemma midnight_bounds: "midnight t \<le> t" "t < midnight t + Day" "midnight (midnight t) = midnight t"
proof -
  have "t mod Day < Day" "0 \<le> t mod Day" by simp_all
  then show "midnight t \<le> t" "t < midnight t + Day" unfolding midnight_def by (simp_all add: minus_mod_eq_div_mult [symmetric])
  show "midnight (midnight t) = midnight t" by (simp add: midnight_def)
qed

text \<open>Two midnights of the same day are equal.\<close>

lemma midnight_in_day: "midnight u \<le> midnight t \<and> midnight t \<le> midnight u + Day - 1 \<longleftrightarrow> midnight t = midnight u"
proof -
  have "t div Day = u div Day" if "u div Day * Day \<le> t div Day * Day" "t div Day * Day \<le> u div Day * Day + Day - 1"
  proof -
    have "u div Day \<le> t div Day" using that(1) by (simp add: mult_le_cancel_right)
    moreover have "t div Day * Day < (u div Day + 1) * Day" using that(2) by (simp add: algebra_simps)
    then have "t div Day < u div Day + 1" by (simp only: mult_less_cancel_right) simp
    ultimately show ?thesis by simp
  qed
  then show ?thesis by (auto simp: midnight_def less_imp_le)
qed

lemma date_midnight: "Date_of t = (y, mo, d) \<Longrightarrow> date_days y mo d * Day = midnight t"
  using date_days_civil [of "t div Day" y mo d] by (simp add: Date_of_def midnight_def)

text \<open>The loop over the days of a deal ends and visits every day from its first to its last instant.\<close>

lemma set_days_from: "t \<in> set (days_from a b) \<longleftrightarrow> (\<exists>k::nat. t = a + int k * Day \<and> t \<le> b)"
proof (induction a b rule: days_from.induct)
  case (1 a b)
  show ?case
  proof (cases "a > b")
    case True
    have "\<not> a + int k * Day \<le> b" for k using True by (simp add: not_le) (metis Day_ge(1) add.right_neutral
        add_mono_thms_linordered_semiring(2) mult_nonneg_nonneg of_nat_0_le_iff order_less_le_trans)
    then show ?thesis using True by (subst days_from.simps) auto
  next
    case False
    have "(\<exists>k::nat. t = a + int k * Day \<and> t \<le> b) \<longleftrightarrow> t = a \<or> (\<exists>k::nat. t = a + Day + int k * Day \<and> t \<le> b)"
    proof
      assume "\<exists>k::nat. t = a + int k * Day \<and> t \<le> b"
      then obtain k :: nat where k: "t = a + int k * Day" "t \<le> b" by blast
      then show "t = a \<or> (\<exists>k::nat. t = a + Day + int k * Day \<and> t \<le> b)"
        by (cases k) (auto simp: algebra_simps)
    next
      assume "t = a \<or> (\<exists>k::nat. t = a + Day + int k * Day \<and> t \<le> b)"
      then show "\<exists>k::nat. t = a + int k * Day \<and> t \<le> b"
      proof
        assume "\<exists>k::nat. t = a + Day + int k * Day \<and> t \<le> b"
        then obtain k :: nat where "t = a + Day + int k * Day" "t \<le> b" by blast
        then show ?thesis by (intro exI [of _ "Suc k"]) (simp add: algebra_simps)
      qed (use False in \<open>intro exI [of _ 0]; simp\<close>)
    qed
    then show ?thesis using 1 False by (subst days_from.simps) simp
  qed
qed

text \<open>The days a deal takes, in words: its owner's, not cancelled, one of its days inside the range.\<close>

definition takes :: "Memory \<Rightarrow> string \<Rightarrow> time \<Rightarrow> bool" where
  "takes m ow t \<longleftrightarrow> (\<exists>d \<in> set (gvals (deals m)). dOwnerID d = ow \<and> dStatus d \<noteq> DealCancelled
     \<and> (\<exists>j. map_of (jobs m) (dJobID d) = Some j \<and> (\<exists>k::nat. let u = fst (deal_span d j) + int k * Day
         in u \<le> snd (deal_span d j) \<and> midnight u = midnight t)))"

lemma in_day: "in_range (midnight t) (midnight t + Day - 1) u \<longleftrightarrow> midnight u = midnight t"
proof
  assume u: "in_range (midnight t) (midnight t + Day - 1) u"
  then have "midnight t \<le> midnight u"
    using midnight_mono [of "midnight t" u] by (simp add: in_range_def not_less midnight_bounds(3))
  moreover have "midnight u \<le> midnight t + Day - 1" using u midnight_bounds(1) [of u] by (simp add: in_range_def)
  ultimately show "midnight u = midnight t" using midnight_in_day by blast
next
  assume "midnight u = midnight t"
  then show "in_range (midnight t) (midnight t + Day - 1) u"
    using midnight_bounds(1,2) [of u] by (simp add: in_range_def)
qed

lemma deal_days_takes:
  "deal_days ow (midnight t) (midnight t + Day - 1) m d \<noteq> [] \<longleftrightarrow> dOwnerID d = ow \<and> dStatus d \<noteq> DealCancelled
     \<and> (\<exists>j. map_of (jobs m) (dJobID d) = Some j \<and> (\<exists>k::nat. let u = fst (deal_span d j) + int k * Day
         in u \<le> snd (deal_span d j) \<and> midnight u = midnight t))"
proof (cases "map_of (jobs m) (dJobID d)")
  case (Some j)
  obtain a b where ab: "deal_span d j = (a, b)" by (meson surj_pair)
  have "filter (in_range (midnight t) (midnight t + Day - 1)) (days_from a b) \<noteq> []
      \<longleftrightarrow> (\<exists>u \<in> set (days_from a b). midnight u = midnight t)" by (simp add: filter_empty_conv in_day)
  then show ?thesis using Some ab by (auto simp: deal_days_def set_days_from Let_def)
qed (simp add: deal_days_def)

lemma BusyByDeals_takes:
  assumes "BusyByDeals rank ow (midnight t) (midnight t + Day - 1) m = Inr ds"
  shows "ds \<noteq> [] \<longleftrightarrow> takes m ow t"
proof -
  have "ds = sort_by earlier_day (concat (map (deal_days ow (midnight t) (midnight t + Day - 1) m) (grange rank (deals m))))"
    using assms by (simp add: BusyByDeals_def)
  then have "ds \<noteq> [] \<longleftrightarrow> (\<exists>d \<in> set (gvals (deals m)). deal_days ow (midnight t) (midnight t + Day - 1) m d \<noteq> [])"
    by (simp only: sort_by_eq_Nil concat_eq_Nil_conv) auto
  then show ?thesis unfolding deal_days_takes takes_def .
qed

lemma BusyOn_eq:
  assumes "busy_keys_ok (mem w)" and "dated t"
  shows "BusyOn e ow t w = (Inr (takes (mem w) ow t \<or> marks (mem w) ow t \<noteq> None), w)"
proof -
  obtain y mo d where dt: "Date_of t = (y, mo, d)" by (metis prod_cases3)
  have m: "date_days y mo d * Day = midnight t" "AddDate (midnight t) 0 0 1 - Nanosecond = midnight t + Day - 1"
    using date_midnight [OF dt] by (simp_all add: Nanosecond_def)
  obtain ds where ds: "BusyByDeals (iter e 0) ow (midnight t) (midnight t + Day - 1) (mem w) = Inr ds" by (simp add: BusyByDeals_def)
  obtain bs where bs: "ManualBusy ow (midnight t) (midnight t + Day - 1) (mem w) = Inr bs" by (simp add: ManualBusy_def)
  have "bs \<noteq> [] \<longleftrightarrow> (\<exists>d. d \<in> set bs)" by (cases bs) auto
  also have "\<dots> \<longleftrightarrow> (\<exists>u n. dated u \<and> marks (mem w) ow u = Some n \<and> midnight u = midnight t)"
    using ManualBusy_marks [OF assms(1) bs] midnight_in_day by blast
  also have "\<dots> \<longleftrightarrow> marks (mem w) ow t \<noteq> None"
    using assms(2) busyKey_eq by (auto simp: marks_def) metis
  finally have bs': "bs \<noteq> [] \<longleftrightarrow> marks (mem w) ow t \<noteq> None" .
  show ?thesis
    using BusyByDeals_takes [OF ds] bs'
    unfolding BusyOn_def dt prod.case Let_def m by (simp add: bnd_def get_def ds bs ret_def)
qed

lemma marks_SetBusyDay:
  assumes "SetBusyDay ow t n m = Inr m'" and "busy_keys_ok m" and "dated t"
  shows "busy_keys_ok m'" "deals m' = deals m" "jobs m' = jobs m"
    "dated u \<Longrightarrow> marks m' o1 u = (if o1 = ow \<and> midnight u = midnight t then Some n else marks m o1 u)"
proof -
  have m': "m' = m\<lparr>busyDays := AList.update (busyKey ow t) n (busyDays m)\<rparr>" using assms(1) by (simp add: SetBusyDay_def)
  show "busy_keys_ok m'" using assms(2,3) unfolding busy_keys_ok_def m'
    by (auto simp: keys_update distinct_update simp del: set_map)
  show "deals m' = deals m" "jobs m' = jobs m" by (simp_all add: m')
  show "dated u \<Longrightarrow> marks m' o1 u = (if o1 = ow \<and> midnight u = midnight t then Some n else marks m o1 u)"
    using busyKey_eq [OF _ assms(3)] by (auto simp: marks_def m' update_conv')
qed

lemma marks_ClearBusyDay:
  assumes "ClearBusyDay ow t m = Inr m'" and "busy_keys_ok m" and "dated t"
  shows "busy_keys_ok m'" "deals m' = deals m" "jobs m' = jobs m"
    "dated u \<Longrightarrow> marks m' o1 u = (if o1 = ow \<and> midnight u = midnight t then None else marks m o1 u)"
proof -
  have m': "m' = m\<lparr>busyDays := AList.delete (busyKey ow t) (busyDays m)\<rparr>" using assms(1) by (simp add: ClearBusyDay_def)
  show "busy_keys_ok m'" using assms(2) unfolding busy_keys_ok_def m'
    by (auto simp: keys_delete distinct_delete)
  show "deals m' = deals m" "jobs m' = jobs m" by (simp_all add: m')
  show "dated u \<Longrightarrow> marks m' o1 u = (if o1 = ow \<and> midnight u = midnight t then None else marks m o1 u)"
    using busyKey_eq [OF _ assms(3)] by (auto simp: marks_def m' delete_conv')
qed

lemma takes_frame: "deals m' = deals m \<Longrightarrow> jobs m' = jobs m \<Longrightarrow> takes m' o1 u = takes m o1 u"
  by (simp add: takes_def)

text \<open>A contractor who marks a day is busy on it at any time of that day; the marks of other days and of
  other people, whatever their identifiers look like, do not change; taking the mark off leaves the day
  busy exactly when a deal takes it.\<close>

theorem MarkBusy_day:
  assumes "busy_keys_ok (mem w)" and "dated t" and "MarkBusy ow t r w = (Inr (), w1)" and "UnmarkBusy ow t w1 = (Inr (), w2)"
    and "dated u"
  shows "BusyOn e o1 u w1 = (Inr (takes (mem w) o1 u \<or> marks (mem w) o1 u \<noteq> None \<or> o1 = ow \<and> midnight u = midnight t), w1)
    \<and> BusyOn e o1 u w2 = (Inr (takes (mem w) o1 u \<or> marks (mem w) o1 u \<noteq> None \<and> \<not> (o1 = ow \<and> midnight u = midnight t)), w2)"
proof -
  have s: "SetBusyDay ow t (mtext (TrimSpace r)) (mem w) = Inr (mem w1)" and c: "ClearBusyDay ow t (mem w1) = Inr (mem w2)"
    using assms(3,4) by (auto simp: MarkBusy_def UnmarkBusy_def op_simps)
  note ms = marks_SetBusyDay [OF s assms(1,2)]
  note mc = marks_ClearBusyDay [OF c ms(1) assms(2)]
  show ?thesis
    unfolding BusyOn_eq [OF ms(1) assms(5)] BusyOn_eq [OF mc(1) assms(5)]
    using takes_frame [OF ms(2,3)] takes_frame [OF mc(2,3)] ms(4) [OF assms(5), of o1] mc(4) [OF assms(5), of o1] by auto
qed

theorem MarkBusy_day_witness:
  "\<exists>w1 w2. MarkBusy ''boris'' (10 * Day + Hour) [97] new_world = (Inr (), w1)
     \<and> UnmarkBusy ''boris'' (10 * Day + Hour) w1 = (Inr (), w2)
     \<and> fst (BusyOn (env_at 0 ''n'') ''boris'' (10 * Day) w1) = Inr True
     \<and> fst (BusyOn (env_at 0 ''n'') ''anna'' (10 * Day) w1) = Inr False
     \<and> fst (BusyOn (env_at 0 ''n'') ''boris'' (10 * Day) w2) = Inr False"
proof -
  obtain w1 where w1: "MarkBusy ''boris'' (10 * Day + Hour) [97] new_world = (Inr (), w1)"
    by (simp add: MarkBusy_def bnd_def refuse_def ret_def put_def SetBusyDay_def)
  obtain w2 where w2: "UnmarkBusy ''boris'' (10 * Day + Hour) w1 = (Inr (), w2)"
    by (simp add: UnmarkBusy_def bnd_def refuse_def ret_def put_def ClearBusyDay_def)
  have d: "dated (10 * Day + Hour)" "dated (10 * Day)" by code_simp+
  have k: "busy_keys_ok (mem new_world)" by (simp add: busy_keys_ok_def sample_defs)
  have e: "takes (mem new_world) o1 u = False" "marks (mem new_world) o1 u = None" for o1 u
    by (simp_all add: takes_def marks_def sample_defs)
  have "midnight (10 * Day) = midnight (10 * Day + Hour)" by code_simp
  then show ?thesis
    using MarkBusy_day [OF k d(1) w1 w2 d(2), of "env_at 0 ''n''" "''boris''"]
      MarkBusy_day [OF k d(1) w1 w2 d(2), of "env_at 0 ''n''" "''anna''"] w1 w2
    by (auto simp: e)
qed


section \<open>The calendar of a month\<close>

lemma keys_put_days: "set (map fst (put_days busy ds)) = set (map fst busy) \<union> (\<lambda>d. DayKey (bdDay d)) ` set ds"
  by (induction ds arbitrary: busy) (simp_all add: keys_update)

lemma put_days_keyed: "keyed (\<lambda>d. DayKey (bdDay d)) busy \<Longrightarrow> keyed (\<lambda>d. DayKey (bdDay d)) (put_days busy ds)"
  by (induction ds arbitrary: busy) (auto intro: keyed_update_key)

lemma put_days_get:
  "map_of (put_days busy ds) k = Some d \<Longrightarrow> d \<in> set ds \<or> map_of busy k = Some d \<and> (\<forall>x \<in> set ds. DayKey (bdDay x) \<noteq> k)"
proof (induction ds arbitrary: busy)
  case (Cons x ds)
  then have "d \<in> set ds \<or> map_of (AList.update (DayKey (bdDay x)) x busy) k = Some d \<and> (\<forall>x \<in> set ds. DayKey (bdDay x) \<noteq> k)"
    by simp
  then show ?case by (auto simp: update_conv' split: if_splits)
qed simp

text \<open>The calendar of a month shows every busy day once and in order: a day appears exactly when a deal
  takes it or the contractor marked it, and a deal on a day always covers the contractor's own mark.\<close>

theorem Calendar_result:
  assumes "Calendar e ow month w = (Inr out, w')" and "MonthRange month = (a, b)"
    and "BusyByDeals (iter e 0) ow a b (mem w) = Inr ds" and "ManualBusy ow a b (mem w) = Inr ms"
  shows "w' = w \<and> distinct (map (\<lambda>d. DayKey (bdDay d)) out) \<and> sorted_wrt (\<lambda>x y. bdDay x \<le> bdDay y) out
    \<and> (\<lambda>d. DayKey (bdDay d)) ` set out = (\<lambda>d. DayKey (bdDay d)) ` (set ds \<union> set ms)
    \<and> (\<forall>d \<in> set out. d \<in> set ds \<or> d \<in> set ms \<and> (\<forall>x \<in> set ds. DayKey (bdDay x) \<noteq> DayKey (bdDay d)))"
proof -
  let ?key = "\<lambda>d. DayKey (bdDay d)"
  let ?busy = "put_days (put_days [] ms) ds"
  have w: "w' = w" and out: "out = sort_by earlier_day (grange (iter e 1) ?busy)"
    using assms by (auto simp: Calendar_def op_simps Let_def)
  have k1: "keyed ?key (put_days [] ms)" and k2: "keyed ?key ?busy" by (intro put_days_keyed keyed_Nil)+
  have "distinct (map ?key out)"
    using keyed_distinct_grange [OF k2, of "iter e 1"] mset_eq_imp_distinct_iff [of "map ?key out" "map ?key (grange (iter e 1) ?busy)"]
    by (simp add: out)
  moreover have "sorted_wrt (\<lambda>x y. bdDay x \<le> bdDay y) out"
    using by_day.sort_by_sorted [of "grange (iter e 1) ?busy"] by (simp add: out earlier_day_def not_less)
  moreover have "?key ` set out = set (map fst ?busy)"
    using k2 by (force simp: out keyed_def gvals_def)
  then have "?key ` set out = ?key ` (set ds \<union> set ms)" by (simp only: keys_put_days) auto
  moreover have "d \<in> set ds \<or> d \<in> set ms \<and> (\<forall>x \<in> set ds. ?key x \<noteq> ?key d)" if d: "d \<in> set out" for d
  proof -
    have "map_of ?busy (?key d) = Some d" using d keyed_mem [OF k2] by (simp add: out)
    from put_days_get [OF this] put_days_get [of "[]" ms "?key d" d] show ?thesis by auto
  qed
  ultimately show ?thesis using w by blast
qed

theorem Calendar_result_witness:
  "\<exists>out. Calendar (env_at 0 ''n'') ''boris'' (10 * Day) (with_deal fixed_job ((a_deal DealConfirmed)\<lparr>dCreatedAt := 3 * Day\<rparr>))
       = (Inr out, with_deal fixed_job ((a_deal DealConfirmed)\<lparr>dCreatedAt := 3 * Day\<rparr>))
     \<and> map bdDay out = [3 * Day] \<and> distinct (map (\<lambda>d. DayKey (bdDay d)) out)"
proof -
  let ?w = "with_deal fixed_job ((a_deal DealConfirmed)\<lparr>dCreatedAt := 3 * Day\<rparr>)"
  let ?r = "Calendar (env_at 0 ''n'') ''boris'' (10 * Day) ?w"
  obtain a b where ab: "MonthRange (10 * Day) = (a, b)" by (meson surj_pair)
  have v: "map_sum (\<lambda>_. ()) (map bdDay) (fst ?r) = Inr [3 * Day]" by code_simp
  then obtain out where r: "fst ?r = Inr out" "map bdDay out = [3 * Day]" by (cases "fst ?r") auto
  then have r': "?r = (Inr out, snd ?r)" by (metis prod.collapse)
  from Calendar_result [OF r' ab BusyByDeals_def ManualBusy_def] r r' show ?thesis by auto
qed


section \<open>The export\<close>

definition exportable :: "string \<Rightarrow> bool \<Rightarrow> Range \<Rightarrow> Deal \<Rightarrow> bool" where
  "exportable userID asOwner r d \<longleftrightarrow> (if asOwner then dOwnerID d = userID else dClientID d = userID)
     \<and> in_range (rgFrom r) (rgTo r) (case dClosedAt d of None \<Rightarrow> dCreatedAt d | Some t \<Rightarrow> t)"

definition titled :: "Memory \<Rightarrow> Deal \<Rightarrow> Deal" where
  "titled m d = (case map_of (jobs m) (dJobID d) of None \<Rightarrow> d | Some j \<Rightarrow> d\<lparr>dJobTitle := jTitle j\<rparr>)"

lemma export_batch_run:
  "export_batch u s r out ds w = (Inr (out @ map (titled (mem w)) (filter (exportable u s r) ds)), w)"
proof (induction ds arbitrary: out)
  case (Cons d ds)
  then show ?case
    by (auto simp: exportable_def in_range_def titled_def attempt_def get_def ByID_def Let_def not_less
        split: option.split)
qed (simp add: ret_def)

lemma gopage_le: "0 < limit \<Longrightarrow> int (length (gopage limit offset xs)) \<le> limit"
  by (auto simp: gopage_def Let_def)

lemma export_pages_rows:
  assumes "export_pages e u s r out ks w = (Inr rows, w')"
  shows "w' = w \<and> set rows \<subseteq> set out \<union> titled (mem w) ` {d \<in> set (gvals (deals (mem w))). exportable u s r d}
    \<and> length rows \<le> length out + 200 * length ks"
  using assms
proof (induction ks arbitrary: out)
  case (Cons k ks)
  obtain batch where b: "DealsByUser (iter e k) u exportPage (exportPage * int k) (mem w) = Inr batch" by (simp add: DealsByUser_def)
  have sub: "set batch \<subseteq> set (gvals (deals (mem w)))" and len: "length batch \<le> 200"
    using b set_gopage [of exportPage "exportPage * int k"] gopage_le [of exportPage "exportPage * int k"]
    by (force simp: DealsByUser_def, auto simp: DealsByUser_def exportPage_def)
  let ?out = "out @ map (titled (mem w)) (filter (exportable u s r) batch)"
  have out: "set ?out \<subseteq> set out \<union> titled (mem w) ` {d \<in> set (gvals (deals (mem w))). exportable u s r d}"
    using sub by auto
  have lo: "length ?out \<le> length out + 200" using len order.trans [OF length_filter_le len] by simp
  show ?case
  proof (cases "batch = []")
    case True
    then have "rows = out" "w' = w" using Cons.prems by (simp_all add: bnd_def get_def b ret_def)
    then show ?thesis by auto
  next
    case nonempty: False
    show ?thesis
    proof (cases "int (length batch) < exportPage")
      case True
      then have "rows = ?out" "w' = w" using Cons.prems nonempty by (auto simp: bnd_def get_def b export_batch_run ret_def)
      then show ?thesis using out lo by simp
    next
      case False
      then have "export_pages e u s r ?out ks w = (Inr rows, w')"
        using Cons.prems nonempty by (simp add: bnd_def get_def b export_batch_run)
      from Cons.IH [OF this] out lo show ?thesis by (auto simp del: set_append set_map)
    qed
  qed
qed (simp add: ret_def)

text \<open>What is exported belongs to the asked side and period, newest first, five thousand rows at most.\<close>

lemma DealsForExport_rows:
  assumes "DealsForExport e u p s w = (Inr rows, w')"
  shows "w' = w \<and> length rows \<le> 5000 \<and> sorted_wrt (\<lambda>x y. dCreatedAt y \<le> dCreatedAt x) rows
    \<and> set rows \<subseteq> titled (mem w) ` {d \<in> set (gvals (deals (mem w))). exportable u s (RangeOf p (clock e 0)) d}"
proof -
  obtain out where out: "export_pages e u s (RangeOf p (clock e 0)) [] [0..<25] w = (Inr out, w')" and rows: "rows = sort_by newest_first out"
    using assms by (auto simp: DealsForExport_def Let_def op_simps)
  show ?thesis
    using export_pages_rows [OF out] newest.sort_by_sorted [of out] by (simp add: rows newest_first_def not_less)
qed

end
