(* ===== verification/Texts.thy ===== *)
theory Texts
  imports Prelude
begin

text \<open>
  The words of the program as sequences of runes, and the functions of \<^verbatim>\<open>strings\<close> the services apply to
  texts from outside: prefixes, containment, splitting at a separator.
\<close>

definition runes_of :: "string \<Rightarrow> runes" where
  "runes_of s = map of_char s"

lemma runes_of_eq [simp]: "runes_of s = runes_of t \<longleftrightarrow> s = t"
proof -
  have "inj (of_char :: char \<Rightarrow> int)" by (rule inj_of_char)
  then show ?thesis by (simp add: runes_of_def inj_map_eq_map)
qed

lemma runes_of_append: "runes_of (s @ t) = runes_of s @ runes_of t"
  by (simp add: runes_of_def)

text \<open>\<^verbatim>\<open>strings.HasPrefix\<close>, \<^verbatim>\<open>strings.Contains\<close>.\<close>

fun has_prefix :: "runes \<Rightarrow> runes \<Rightarrow> bool" where
  "has_prefix s [] = True"
| "has_prefix [] (p # ps) = False"
| "has_prefix (c # cs) (p # ps) = (c = p \<and> has_prefix cs ps)"

fun contains_runes :: "runes \<Rightarrow> runes \<Rightarrow> bool" where
  "contains_runes [] q = (q = [])"
| "contains_runes (c # cs) q = (has_prefix (c # cs) q \<or> contains_runes cs q)"

lemma has_prefix_append: "has_prefix (p @ q) p"
  by (induction p) auto

lemma has_prefix_iff: "has_prefix s p \<longleftrightarrow> (\<exists>t. s = p @ t)"
  by (induction s p rule: has_prefix.induct) auto

lemma contains_runes_iff: "contains_runes s q \<longleftrightarrow> (\<exists>a b. s = a @ q @ b)"
proof (induction s)
  case (Cons c s)
  have "contains_runes (c # s) q \<longleftrightarrow> (\<exists>t. c # s = q @ t) \<or> (\<exists>a b. s = a @ q @ b)"
    by (simp add: has_prefix_iff Cons)
  also have "\<dots> \<longleftrightarrow> (\<exists>a b. c # s = a @ q @ b)" (is "?l \<longleftrightarrow> ?r")
  proof
    assume ?r
    then obtain a b where "c # s = a @ q @ b" by blast
    then show ?l by (cases a) auto
  qed (metis append_Cons append_Nil)
  finally show ?case .
qed simp

text \<open>\<^verbatim>\<open>strings.Split(s, sep)\<close> for a separator of one rune: never empty.\<close>

fun split_runes :: "rune \<Rightarrow> runes \<Rightarrow> runes list" where
  "split_runes sep [] = [[]]"
| "split_runes sep (c # cs) =
     (if c = sep then [] # split_runes sep cs
      else case split_runes sep cs of [] \<Rightarrow> [[c]] | w # ws \<Rightarrow> (c # w) # ws)"

text \<open>The roles a gateway puts into the header, and the guard of the sections of the moderators.\<close>

definition moderator_roles :: "runes \<Rightarrow> bool" where
  "moderator_roles header \<longleftrightarrow>
     (\<exists>role \<in> set (split_runes 44 header). TrimSpace role \<in> {runes_of ''moderator'', runes_of ''admin''})"

end
