(* ===== verification/Identity_Store.thy ===== *)
theory Identity_Store
  imports Tables Texts
begin

text \<open>
  The accounts service: its records (\<^verbatim>\<open>identity/internal/store/store.go\<close>), the errors it reports and its
  in-memory tables (\<^verbatim>\<open>identity/internal/store/memory.go\<close>). A person is kept twice, under the telephone
  number and under the identifier; one-time codes and refresh tokens are kept by hash.
\<close>


section \<open>Records\<close>

record User =
  usID :: string
  usPhone :: runes
  usName :: runes
  usCity :: runes
  usRoles :: "string list"
  usActiveRole :: string
  usVerified :: bool
  usCreatedAt :: time
  usStatus :: string
  usStatusReason :: runes
  usStatusAt :: "time option"
  usStatusBy :: string
  usDeleteAfter :: "time option"
  usAnonymizedAt :: "time option"

definition UserActive :: string where "UserActive = ''active''"
definition UserFrozen :: string where "UserFrozen = ''frozen''"
definition UserBanned :: string where "UserBanned = ''banned''"

datatype VerifyStatus = VerifyPending | VerifyApproved | VerifyRejected

record Verification =
  vfID :: string
  vfUserID :: string
  vfDocuments :: "runes list"
  vfDocKind :: runes
  vfStatus :: VerifyStatus
  vfReason :: runes
  vfReviewedBy :: string
  vfReviewedAt :: "time option"
  vfCreatedAt :: time
  vfUserName :: runes
  vfUserPhone :: runes

record AdminAction =
  aaID :: string
  aaActorID :: string
  aaAction :: string
  aaTargetID :: string
  aaReason :: runes
  aaCreatedAt :: time

record OTP =
  otPhone :: runes
  otCodeHash :: string
  otExpiresAt :: time
  otAttempts :: int

record RefreshRec =
  rfTokenHash :: string
  rfUserID :: string
  rfFamilyID :: string
  rfExpiresAt :: time
  rfUsed :: bool
  rfRevoked :: bool

datatype auth_err =
    ErrTooManyAttempts | ErrCodeInvalid | ErrCodeExpired | ErrRefreshInvalid | ErrInvalidRole
  | ErrAccountNotFound | ErrVerifyPending | ErrNoDocuments | ErrManyDocs | ErrBadDocKind | ErrVerifyClosed
  | ErrNeedNameCity | ErrBanned | ErrBadStatus | ErrNeedReason | ErrSelfSanction | ErrAlreadyDeleting time
  | ErrSms string | ErrSign string


section \<open>Tables\<close>

record Accounts =
  otps :: "(runes, OTP) gomap"
  users :: "(runes, User) gomap"
  usersByID :: "(string, User) gomap"
  refreshes :: "(string, RefreshRec) gomap"
  adminLog :: "AdminAction list"
  verifications :: "(string, Verification) gomap"
  verifySeq :: "string list"

definition NewAccounts :: Accounts where
  "NewAccounts = \<lparr>otps = [], users = [], usersByID = [], refreshes = [], adminLog = [], verifications = [], verifySeq = []\<rparr>"

definition UpsertOTP :: "OTP \<Rightarrow> Accounts \<Rightarrow> Accounts" where
  "UpsertOTP x s = s\<lparr>otps := AList.update (otPhone x) x (otps s)\<rparr>"

definition GetOTP :: "runes \<Rightarrow> Accounts \<Rightarrow> auth_err + OTP" where
  "GetOTP phone s = or_err (map_of (otps s) phone) ErrAccountNotFound"

definition DeleteOTP :: "runes \<Rightarrow> Accounts \<Rightarrow> Accounts" where
  "DeleteOTP phone s = s\<lparr>otps := AList.delete phone (otps s)\<rparr>"

definition GetUserByPhone :: "runes \<Rightarrow> Accounts \<Rightarrow> auth_err + User" where
  "GetUserByPhone phone s = or_err (map_of (users s) phone) ErrAccountNotFound"

definition GetUserByID :: "string \<Rightarrow> Accounts \<Rightarrow> auth_err + User" where
  "GetUserByID i s = or_err (map_of (usersByID s) i) ErrAccountNotFound"

definition put_user :: "string \<Rightarrow> User \<Rightarrow> Accounts \<Rightarrow> Accounts" where
  "put_user i u s = s\<lparr>users := AList.update (usPhone u) u (users s), usersByID := AList.update i u (usersByID s)\<rparr>"

definition CreateUser :: "User \<Rightarrow> Accounts \<Rightarrow> Accounts" where "CreateUser u = put_user (usID u) u"

definition UpdateUser :: "User \<Rightarrow> Accounts \<Rightarrow> Accounts" where "UpdateUser u = put_user (usID u) u"

definition SaveRefresh :: "RefreshRec \<Rightarrow> Accounts \<Rightarrow> Accounts" where
  "SaveRefresh r s = s\<lparr>refreshes := AList.update (rfTokenHash r) r (refreshes s)\<rparr>"

definition GetRefresh :: "string \<Rightarrow> Accounts \<Rightarrow> auth_err + RefreshRec" where
  "GetRefresh h s = or_err (map_of (refreshes s) h) ErrAccountNotFound"

definition MarkRefreshUsed :: "string \<Rightarrow> Accounts \<Rightarrow> auth_err + Accounts" where
  "MarkRefreshUsed h s =
     (case map_of (refreshes s) h of
        None \<Rightarrow> Inl ErrAccountNotFound
      | Some r \<Rightarrow> Inr (s\<lparr>refreshes := AList.update h (r\<lparr>rfUsed := True\<rparr>) (refreshes s)\<rparr>))"

text \<open>The loops that revoke rewrite every entry they select, whatever the order.\<close>

definition revoke_where :: "(RefreshRec \<Rightarrow> bool) \<Rightarrow> Accounts \<Rightarrow> Accounts" where
  "revoke_where P s = s\<lparr>refreshes := map (\<lambda>(k, r). (k, if P r then r\<lparr>rfRevoked := True\<rparr> else r)) (refreshes s)\<rparr>"

definition RevokeFamily :: "string \<Rightarrow> Accounts \<Rightarrow> Accounts" where
  "RevokeFamily f = revoke_where (\<lambda>r. rfFamilyID r = f)"

definition RevokeAllRefresh :: "string \<Rightarrow> Accounts \<Rightarrow> Accounts" where
  "RevokeAllRefresh i = revoke_where (\<lambda>r. rfUserID r = i)"

definition CountUsers :: "time \<Rightarrow> time \<Rightarrow> Accounts \<Rightarrow> int" where
  "CountUsers from till s =
     int (length (filter (\<lambda>u. \<not> usCreatedAt u < from \<and> \<not> usCreatedAt u > till) (gvals (usersByID s))))"

text \<open>The lower case of a rune is Unicode's, a parameter.\<close>

definition matches_query :: "(rune \<Rightarrow> rune) \<Rightarrow> runes \<Rightarrow> User \<Rightarrow> bool" where
  "matches_query lower query u =
     (let q = map lower (TrimSpace query)
      in if q = [] then True
         else if has_prefix q (runes_of ''+'') then usPhone u = TrimSpace query
         else if runes_of (usID u) = query then True
         else contains_runes (map lower (usName u)) q)"

definition newer_user :: "User \<Rightarrow> User \<Rightarrow> bool" where
  "newer_user x y \<longleftrightarrow> usCreatedAt x > usCreatedAt y"

definition limit_or :: "int \<Rightarrow> int \<Rightarrow> int \<Rightarrow> int" where
  "limit_or hi dflt limit = (if limit \<le> 0 \<or> limit > hi then dflt else limit)"

definition SearchUsers :: "(string \<Rightarrow> nat) \<Rightarrow> (rune \<Rightarrow> rune) \<Rightarrow> runes \<Rightarrow> int \<Rightarrow> Accounts \<Rightarrow> User list" where
  "SearchUsers rank lower query limit s =
     (let limit = limit_or 100 25 limit;
          out = sort_by newer_user (filter (matches_query lower query) (grange rank (usersByID s)))
      in if int (length out) > limit then take (nat limit) out else out)"

definition SetUserStatus :: "string \<Rightarrow> string \<Rightarrow> runes \<Rightarrow> string \<Rightarrow> time \<Rightarrow> Accounts \<Rightarrow> auth_err + Accounts" where
  "SetUserStatus i st reason byID now s =
     (case map_of (usersByID s) i of
        None \<Rightarrow> Inl ErrAccountNotFound
      | Some u \<Rightarrow> Inr (put_user i (u\<lparr>usStatus := st, usStatusReason := reason, usStatusBy := byID, usStatusAt := Some now\<rparr>) s))"

definition LogAdminAction :: "AdminAction \<Rightarrow> Accounts \<Rightarrow> Accounts" where
  "LogAdminAction x s = s\<lparr>adminLog := adminLog s @ [x]\<rparr>"

definition AdminActionsFor :: "string \<Rightarrow> int \<Rightarrow> Accounts \<Rightarrow> AdminAction list" where
  "AdminActionsFor target limit s =
     take (nat (limit_or 100 20 limit)) (filter (\<lambda>x. aaTargetID x = target) (rev (adminLog s)))"


section \<open>Verification\<close>

definition verify_clash :: "Verification \<Rightarrow> Verification \<Rightarrow> bool" where
  "verify_clash ex v \<longleftrightarrow> vfUserID ex = vfUserID v \<and> vfStatus ex = VerifyPending"

definition CreateVerification :: "Verification \<Rightarrow> Accounts \<Rightarrow> auth_err + Accounts" where
  "CreateVerification v s =
     (if \<exists>ex \<in> set (gvals (verifications s)). verify_clash ex v then Inl ErrVerifyPending
      else Inr (s\<lparr>verifications := AList.update (vfID v) v (verifications s), verifySeq := verifySeq s @ [vfID v]\<rparr>))"

definition UpdateVerification :: "Verification \<Rightarrow> Accounts \<Rightarrow> auth_err + Accounts" where
  "UpdateVerification v s =
     (if map_of (verifications s) (vfID v) = None then Inl ErrAccountNotFound
      else Inr (s\<lparr>verifications := AList.update (vfID v) v (verifications s)\<rparr>))"

definition VerificationByID :: "string \<Rightarrow> Accounts \<Rightarrow> auth_err + Verification" where
  "VerificationByID i s = or_err (map_of (verifications s) i) ErrAccountNotFound"

interpretation verification_rows: store_table verifications vfID verify_clash CreateVerification UpdateVerification VerificationByID
  by unfold_locales (auto simp: CreateVerification_def UpdateVerification_def VerificationByID_def split: if_splits)

text \<open>From the end of the sequence: the last application of the person.\<close>

definition MyVerification_of :: "string \<Rightarrow> Accounts \<Rightarrow> auth_err + Verification" where
  "MyVerification_of userID s =
     or_err (find (\<lambda>v. vfUserID v = userID) (List.map_filter (map_of (verifications s)) (rev (verifySeq s)))) ErrAccountNotFound"

definition queue_row :: "Accounts \<Rightarrow> Verification \<Rightarrow> Verification" where
  "queue_row s v =
     (case map_of (usersByID s) (vfUserID v) of
        None \<Rightarrow> v
      | Some u \<Rightarrow> v\<lparr>vfUserName := usName u, vfUserPhone := usPhone u\<rparr>)"

definition PendingVerifications :: "int \<Rightarrow> Accounts \<Rightarrow> Verification list" where
  "PendingVerifications limit s =
     take (nat (limit_or 100 50 limit))
       (map (queue_row s) (filter (\<lambda>v. vfStatus v = VerifyPending)
         (List.map_filter (map_of (verifications s)) (verifySeq s))))"

definition SetVerified :: "string \<Rightarrow> bool \<Rightarrow> Accounts \<Rightarrow> auth_err + Accounts" where
  "SetVerified i v s =
     (case map_of (usersByID s) i of
        None \<Rightarrow> Inl ErrAccountNotFound
      | Some u \<Rightarrow> Inr (put_user i (u\<lparr>usVerified := v\<rparr>) s))"


section \<open>Deletion\<close>

definition RequestDeletion_row :: "string \<Rightarrow> time \<Rightarrow> Accounts \<Rightarrow> auth_err + Accounts" where
  "RequestDeletion_row i deleteAfter s =
     (case map_of (usersByID s) i of
        None \<Rightarrow> Inl ErrAccountNotFound
      | Some u \<Rightarrow> Inr (put_user i (u\<lparr>usDeleteAfter := Some deleteAfter\<rparr>) s))"

definition CancelDeletion_row :: "string \<Rightarrow> Accounts \<Rightarrow> auth_err + Accounts" where
  "CancelDeletion_row i s =
     (case map_of (usersByID s) i of
        None \<Rightarrow> Inl ErrAccountNotFound
      | Some u \<Rightarrow> Inr (put_user i (u\<lparr>usDeleteAfter := None\<rparr>) s))"

definition due_deletion :: "time \<Rightarrow> User \<Rightarrow> bool" where
  "due_deletion now u \<longleftrightarrow> usAnonymizedAt u = None
     \<and> (case usDeleteAfter u of None \<Rightarrow> False | Some t \<Rightarrow> \<not> t > now)"

definition DueDeletions :: "(string \<Rightarrow> nat) \<Rightarrow> time \<Rightarrow> int \<Rightarrow> Accounts \<Rightarrow> User list" where
  "DueDeletions rank now limit s =
     take (nat (limit_or 500 100 limit)) (filter (due_deletion now) (grange rank (usersByID s)))"

definition anonymous :: "User \<Rightarrow> time \<Rightarrow> User" where
  "anonymous u t = u\<lparr>usName := [], usCity := [], usPhone := runes_of (''deleted:'' @ usID u), usVerified := False,
     usDeleteAfter := None, usAnonymizedAt := Some t\<rparr>"

definition Anonymize :: "string \<Rightarrow> time \<Rightarrow> Accounts \<Rightarrow> auth_err + Accounts" where
  "Anonymize i now s =
     (case map_of (usersByID s) i of
        None \<Rightarrow> Inl ErrAccountNotFound
      | Some u \<Rightarrow>
          if usAnonymizedAt u \<noteq> None then Inl ErrAccountNotFound
          else Inr (revoke_where (\<lambda>r. rfUserID r = i)
                 (s\<lparr>users := AList.delete (usPhone u) (users s), usersByID := AList.update i (anonymous u now) (usersByID s)\<rparr>)))"

end
