(* ===== verification/Identity_Service.thy ===== *)
theory Identity_Service
  imports Identity_Store
begin

text \<open>
  The service of accounts: entering by a one-time code, the two tokens of a session and their rotation,
  the profile (\<^verbatim>\<open>identity/internal/service/auth.go\<close>), sanctions and the journal of the moderators
  (\<^verbatim>\<open>moderation.go\<close>), the badge of a checked person (\<^verbatim>\<open>verification.go\<close>) and the deletion of an account after
  a delay (\<^verbatim>\<open>deletion.go\<close>). An operation maps the tables to a result and the tables left behind, on errors
  too.
\<close>


section \<open>Configuration and environment\<close>

record Claims =
  clSub :: string
  clRoles :: "string list"
  clActiveRole :: string
  clStatus :: string
  clTyp :: string
  clIat :: int
  clExp :: int

text \<open>
  The service with its collaborators: the fixed code of a demonstration stand, the numbers of the
  moderators, the hash (SHA-256 in hexadecimal), the message provider and the signature of the JWT
  library. The last three are not under the sources; they are arbitrary functions here.
\<close>

record Auth =
  staticCode :: string
  moderators :: "runes list"
  hashStr :: "string \<Rightarrow> string"
  SendCode :: "runes \<Rightarrow> string \<Rightarrow> auth_err + string"
  Sign :: "Claims \<Rightarrow> auth_err + string"

text \<open>
  What one request draws: \<open>aclock e n\<close> is the clock read at the n-th place of an operation that reads it,
  \<open>auuid e n\<close> the n-th generated identifier, \<open>adigit e i\<close> the digit drawn for the i-th place of a code,
  \<open>atoken e\<close> the random token, \<open>aiter\<close> the visiting order of a range over a map.
\<close>

record aenv =
  aclock :: "nat \<Rightarrow> time"
  auuid :: "nat \<Rightarrow> string"
  adigit :: "nat \<Rightarrow> nat"
  atoken :: string
  aiter :: "string \<Rightarrow> nat"

definition codeTTL :: int where "codeTTL = 5 * Minute"
definition maxAttempts :: int where "maxAttempts = 3"
definition accessTTL :: int where "accessTTL = 15 * Minute"
definition refreshTTL :: int where "refreshTTL = 30 * 24 * Hour"
definition resendSeconds :: int where "resendSeconds = 60"

definition Unix :: "time \<Rightarrow> int" where
  "Unix t = t div Second - 62135596800"

definition gen6 :: "aenv \<Rightarrow> string" where
  "gen6 e = map (\<lambda>i. ''0123456789'' ! (adigit e i mod 10)) [0..<6]"


section \<open>Sessions\<close>

definition StartOTP :: "Auth \<Rightarrow> aenv \<Rightarrow> runes \<Rightarrow> Accounts \<Rightarrow> (auth_err + int \<times> string) \<times> Accounts" where
  "StartOTP a e phone s =
     (let code = if staticCode a \<noteq> '''' then staticCode a else gen6 e;
          s = UpsertOTP \<lparr>otPhone = phone, otCodeHash = hashStr a code,
                otExpiresAt = aclock e 0 + codeTTL, otAttempts = 0\<rparr> s
      in case SendCode a phone code of
           Inl er \<Rightarrow> (Inl er, s)
         | Inr ch \<Rightarrow> (Inr (resendSeconds, ch), s))"

record Session =
  seAccessToken :: string
  seRefreshToken :: string
  seExpiresInSec :: int
  seUser :: User

definition session_claims :: "User \<Rightarrow> time \<Rightarrow> Claims" where
  "session_claims u now =
     \<lparr>clSub = usID u, clRoles = usRoles u, clActiveRole = usActiveRole u,
      clStatus = (if usStatus u = '''' then UserActive else usStatus u), clTyp = ''access'',
      clIat = Unix now, clExp = Unix (now + accessTTL)\<rparr>"

definition issue :: "Auth \<Rightarrow> aenv \<Rightarrow> time \<Rightarrow> User \<Rightarrow> Accounts \<Rightarrow> (auth_err + Session) \<times> Accounts" where
  "issue a e now u s =
     (case Sign a (session_claims u now) of
        Inl er \<Rightarrow> (Inl er, s)
      | Inr access \<Rightarrow>
          (Inr \<lparr>seAccessToken = access, seRefreshToken = atoken e, seExpiresInSec = accessTTL div Second, seUser = u\<rparr>,
           SaveRefresh \<lparr>rfTokenHash = hashStr a (atoken e), rfUserID = usID u, rfFamilyID = auuid e 1,
             rfExpiresAt = now + refreshTTL, rfUsed = False, rfRevoked = False\<rparr> s))"

definition roleModerator :: string where "roleModerator = ''moderator''"

definition isModerator :: "Auth \<Rightarrow> runes \<Rightarrow> bool" where
  "isModerator a phone \<longleftrightarrow> (\<exists>p \<in> set (moderators a). TrimSpace p = phone)"

definition rolesFor :: "Auth \<Rightarrow> runes \<Rightarrow> string list" where
  "rolesFor a phone = (if isModerator a phone then [''client'', roleModerator] else [''client''])"

definition hasRole :: "string list \<Rightarrow> string \<Rightarrow> bool" where
  "hasRole roles want \<longleftrightarrow> want \<in> set roles"

definition new_user :: "Auth \<Rightarrow> aenv \<Rightarrow> runes \<Rightarrow> User" where
  "new_user a e phone =
     \<lparr>usID = auuid e 0, usPhone = phone, usName = [], usCity = [], usRoles = rolesFor a phone,
      usActiveRole = ''client'', usVerified = False, usCreatedAt = aclock e 1, usStatus = '''',
      usStatusReason = [], usStatusAt = None, usStatusBy = '''', usDeleteAfter = None, usAnonymizedAt = None\<rparr>"

text \<open>The person behind the number, created on the first entrance; an entrance cancels a deletion.\<close>

definition enter :: "Auth \<Rightarrow> aenv \<Rightarrow> runes \<Rightarrow> Accounts \<Rightarrow> (auth_err + User) \<times> Accounts" where
  "enter a e phone s =
     (case GetUserByPhone phone s of
        Inl _ \<Rightarrow> (let u = new_user a e phone in (Inr u, CreateUser u s))
      | Inr u \<Rightarrow>
          if usDeleteAfter u \<noteq> None then
            (case CancelDeletion_row (usID u) s of
               Inl er \<Rightarrow> (Inl er, s)
             | Inr s' \<Rightarrow>
                 if usStatus u = UserBanned then (Inl ErrBanned, s') else (Inr (u\<lparr>usDeleteAfter := None\<rparr>), s'))
          else if usStatus u = UserBanned then (Inl ErrBanned, s)
          else if isModerator a phone \<and> \<not> hasRole (usRoles u) roleModerator then
            (let u = u\<lparr>usRoles := usRoles u @ [roleModerator]\<rparr> in (Inr u, UpdateUser u s))
          else (Inr u, s))"

definition VerifyOTP :: "Auth \<Rightarrow> aenv \<Rightarrow> runes \<Rightarrow> string \<Rightarrow> Accounts \<Rightarrow> (auth_err + Session) \<times> Accounts" where
  "VerifyOTP a e phone code s =
     (case GetOTP phone s of
        Inl _ \<Rightarrow> (Inl ErrCodeInvalid, s)
      | Inr x \<Rightarrow>
          if aclock e 0 > otExpiresAt x then (Inl ErrCodeExpired, s)
          else if otAttempts x \<ge> maxAttempts then (Inl ErrTooManyAttempts, s)
          else if hashStr a code \<noteq> otCodeHash x then
            (let x = x\<lparr>otAttempts := otAttempts x + 1\<rparr>
             in (Inl (if otAttempts x \<ge> maxAttempts then ErrTooManyAttempts else ErrCodeInvalid), UpsertOTP x s))
          else
            (case enter a e phone (DeleteOTP phone s) of
               (Inl er, s') \<Rightarrow> (Inl er, s')
             | (Inr u, s') \<Rightarrow> issue a e (aclock e 2) u s'))"

definition Refresh :: "Auth \<Rightarrow> aenv \<Rightarrow> string \<Rightarrow> Accounts \<Rightarrow> (auth_err + Session) \<times> Accounts" where
  "Refresh a e tok s =
     (case GetRefresh (hashStr a tok) s of
        Inl _ \<Rightarrow> (Inl ErrRefreshInvalid, s)
      | Inr rec \<Rightarrow>
          if rfRevoked rec \<or> aclock e 0 > rfExpiresAt rec then (Inl ErrRefreshInvalid, s)
          else if rfUsed rec then (Inl ErrRefreshInvalid, RevokeFamily (rfFamilyID rec) s)
          else
            (case MarkRefreshUsed (rfTokenHash rec) s of
               Inl er \<Rightarrow> (Inl er, s)
             | Inr s' \<Rightarrow>
                 (case GetUserByID (rfUserID rec) s' of
                    Inl _ \<Rightarrow> (Inl ErrRefreshInvalid, s')
                  | Inr u \<Rightarrow> if usStatus u = UserBanned then (Inl ErrBanned, s') else issue a e (aclock e 1) u s')))"

definition Me :: "string \<Rightarrow> Accounts \<Rightarrow> auth_err + User" where
  "Me = GetUserByID"


section \<open>The profile\<close>

record ProfilePatch =
  ppName :: "runes option"
  ppCity :: "runes option"
  ppActiveRole :: "string option"

definition set_role :: "string option \<Rightarrow> User \<Rightarrow> auth_err + User" where
  "set_role r u =
     (case r of
        None \<Rightarrow> Inr u
      | Some role \<Rightarrow>
          if role \<noteq> ''client'' \<and> role \<noteq> ''owner'' then Inl ErrInvalidRole
          else Inr (u\<lparr>usActiveRole := role,
                       usRoles := (if hasRole (usRoles u) role then usRoles u else usRoles u @ [role])\<rparr>))"

definition patched :: "ProfilePatch \<Rightarrow> User \<Rightarrow> auth_err + User" where
  "patched p u =
     set_role (ppActiveRole p)
       (u\<lparr>usName := (case ppName p of None \<Rightarrow> usName u | Some n \<Rightarrow> n),
           usCity := (case ppCity p of None \<Rightarrow> usCity u | Some c \<Rightarrow> c)\<rparr>)"

definition UpdateProfile :: "string \<Rightarrow> ProfilePatch \<Rightarrow> Accounts \<Rightarrow> (auth_err + User) \<times> Accounts" where
  "UpdateProfile i p s =
     (case GetUserByID i s of
        Inl er \<Rightarrow> (Inl er, s)
      | Inr u \<Rightarrow>
          (case patched p u of
             Inl er \<Rightarrow> (Inl er, s)
           | Inr u' \<Rightarrow> (Inr u', UpdateUser u' s)))"


section \<open>Moderation\<close>

definition minSanctionReason :: int where "minSanctionReason = 10"

record UserCard =
  ucUser :: User
  ucHistory :: "AdminAction list"

definition UserCard_of :: "string \<Rightarrow> Accounts \<Rightarrow> auth_err + UserCard" where
  "UserCard_of i s =
     (case GetUserByID i s of
        Inl er \<Rightarrow> Inl er
      | Inr u \<Rightarrow> Inr \<lparr>ucUser = u, ucHistory = AdminActionsFor i 20 s\<rparr>)"

definition SetStatus :: "aenv \<Rightarrow> string \<Rightarrow> string \<Rightarrow> string \<Rightarrow> runes \<Rightarrow> Accounts \<Rightarrow> (auth_err + User) \<times> Accounts" where
  "SetStatus e moderatorID userID status reason s =
     (if moderatorID = userID then (Inl ErrSelfSanction, s)
      else if status \<noteq> UserActive \<and> status \<noteq> UserFrozen \<and> status \<noteq> UserBanned then (Inl ErrBadStatus, s)
      else let reason = TrimSpace reason in
        if int (length reason) < minSanctionReason then (Inl ErrNeedReason, s)
        else let now = aclock e 0 in
          case SetUserStatus userID status reason moderatorID now s of
            Inl er \<Rightarrow> (Inl er, s)
          | Inr s \<Rightarrow>
              let s = LogAdminAction \<lparr>aaID = auuid e 0, aaActorID = moderatorID, aaAction = ''status:'' @ status,
                        aaTargetID = userID, aaReason = reason, aaCreatedAt = now\<rparr> s;
                  s = (if status = UserBanned then RevokeAllRefresh userID s else s)
              in (GetUserByID userID s, s))"

definition LogAction :: "aenv \<Rightarrow> string \<Rightarrow> string \<Rightarrow> string \<Rightarrow> runes \<Rightarrow> Accounts \<Rightarrow> Accounts" where
  "LogAction e actorID action targetID reason =
     LogAdminAction \<lparr>aaID = auuid e 0, aaActorID = actorID, aaAction = action, aaTargetID = targetID,
       aaReason = reason, aaCreatedAt = aclock e 0\<rparr>"


section \<open>The badge of a checked person\<close>

definition maxDocuments :: int where "maxDocuments = 4"

definition docKinds :: "runes list" where
  "docKinds = map runes_of [''passport'', ''license'', ''other'']"

definition doc_kind :: "runes \<Rightarrow> runes" where
  "doc_kind k = (if TrimSpace k = [] then runes_of ''passport'' else TrimSpace k)"

definition clean_docs :: "runes list \<Rightarrow> runes list" where
  "clean_docs ds = filter (\<lambda>d. d \<noteq> []) (map TrimSpace ds)"

definition SubmitVerification :: "aenv \<Rightarrow> string \<Rightarrow> runes \<Rightarrow> runes list \<Rightarrow> Accounts \<Rightarrow> (auth_err + Verification) \<times> Accounts" where
  "SubmitVerification e userID kind docs s =
     (case GetUserByID userID s of
        Inl er \<Rightarrow> (Inl er, s)
      | Inr u \<Rightarrow>
          if TrimSpace (usName u) = [] then (Inl ErrNeedNameCity, s)
          else if usVerified u then (Inl ErrVerifyClosed, s)
          else if doc_kind kind \<notin> set docKinds then (Inl ErrBadDocKind, s)
          else if clean_docs docs = [] then (Inl ErrNoDocuments, s)
          else if int (length (clean_docs docs)) > maxDocuments then (Inl ErrManyDocs, s)
          else let v = \<lparr>vfID = auuid e 0, vfUserID = userID, vfDocuments = clean_docs docs, vfDocKind = doc_kind kind,
                        vfStatus = VerifyPending, vfReason = [], vfReviewedBy = '''', vfReviewedAt = None,
                        vfCreatedAt = aclock e 0, vfUserName = [], vfUserPhone = []\<rparr>
            in case CreateVerification v s of
                 Inl er \<Rightarrow> (Inl er, s)
               | Inr s' \<Rightarrow> (Inr v, s'))"

definition reviewed_verification :: "aenv \<Rightarrow> string \<Rightarrow> bool \<Rightarrow> runes \<Rightarrow> Verification \<Rightarrow> Verification" where
  "reviewed_verification e moderatorID approve reason v =
     v\<lparr>vfStatus := (if approve then VerifyApproved else VerifyRejected), vfReason := TrimSpace reason,
        vfReviewedBy := moderatorID, vfReviewedAt := Some (aclock e 0)\<rparr>"

definition ReviewVerification :: "aenv \<Rightarrow> string \<Rightarrow> string \<Rightarrow> bool \<Rightarrow> runes \<Rightarrow> Accounts \<Rightarrow> (auth_err + Verification) \<times> Accounts" where
  "ReviewVerification e moderatorID i approve reason s =
     (case VerificationByID i s of
        Inl er \<Rightarrow> (Inl er, s)
      | Inr v \<Rightarrow>
          if vfStatus v \<noteq> VerifyPending then (Inl ErrVerifyClosed, s)
          else if \<not> approve \<and> int (length (TrimSpace reason)) < minSanctionReason then (Inl ErrNeedReason, s)
          else let v = reviewed_verification e moderatorID approve reason v in
            case UpdateVerification v s of
              Inl er \<Rightarrow> (Inl er, s)
            | Inr s \<Rightarrow>
                case (if approve then SetVerified (vfUserID v) True s else Inr s) of
                  Inl er \<Rightarrow> (Inl er, s)
                | Inr s \<Rightarrow>
                    (Inr v, LogAdminAction \<lparr>aaID = auuid e 0, aaActorID = moderatorID,
                       aaAction = (if approve then ''verify:approved'' else ''verify:rejected''),
                       aaTargetID = vfUserID v, aaReason = TrimSpace reason, aaCreatedAt = aclock e 0\<rparr> s))"


section \<open>Leaving the marketplace\<close>

definition DeleteGrace :: int where "DeleteGrace = 30 * 24 * Hour"

definition RequestDeletion :: "aenv \<Rightarrow> string \<Rightarrow> Accounts \<Rightarrow> (auth_err + time) \<times> Accounts" where
  "RequestDeletion e userID s =
     (case GetUserByID userID s of
        Inl er \<Rightarrow> (Inl er, s)
      | Inr u \<Rightarrow>
          (case usDeleteAfter u of
             Some t \<Rightarrow> (Inl (ErrAlreadyDeleting t), s)
           | None \<Rightarrow>
               (case RequestDeletion_row userID (aclock e 0 + DeleteGrace) s of
                  Inl er \<Rightarrow> (Inl er, s)
                | Inr s' \<Rightarrow> (Inr (aclock e 0 + DeleteGrace), s'))))"

definition CancelDeletion :: "string \<Rightarrow> Accounts \<Rightarrow> (auth_err + unit) \<times> Accounts" where
  "CancelDeletion userID s =
     (case CancelDeletion_row userID s of Inl er \<Rightarrow> (Inl er, s) | Inr s' \<Rightarrow> (Inr (), s'))"

text \<open>One pass over the accounts whose delay is over: a failure is logged and skipped, successes are counted.\<close>

fun anonymize_all :: "(nat \<Rightarrow> time) \<Rightarrow> nat \<Rightarrow> User list \<Rightarrow> Accounts \<Rightarrow> int \<times> Accounts" where
  "anonymize_all clk n [] s = (0, s)"
| "anonymize_all clk n (u # us) s =
     (case Anonymize (usID u) (clk n) s of
        Inl er \<Rightarrow> anonymize_all clk (Suc n) us s
      | Inr s' \<Rightarrow> (case anonymize_all clk (Suc n) us s' of (k, s'') \<Rightarrow> (k + 1, s'')))"

definition RunDeletions :: "aenv \<Rightarrow> Accounts \<Rightarrow> int \<times> Accounts" where
  "RunDeletions e s = anonymize_all (aclock e) 1 (DueDeletions (aiter e) (aclock e 0) 100 s) s"

end
