(* ===== verification/Identity_Soundness.thy ===== *)
theory Identity_Soundness
  imports Identity_Service
begin

text \<open>
  The invariant of the accounts service and the states it can reach: both indexes of the people agree, a
  number belongs to one living account, roles come only from the configuration and from the person's own
  choice, a badge stands on an approved application, and a refresh token that still works belongs to an
  account that is neither banned nor erased.
\<close>


section \<open>The invariant\<close>

definition deleted_phone :: "string \<Rightarrow> runes" where
  "deleted_phone i = runes_of (''deleted:'' @ i)"

lemma deleted_phone_inj [simp]: "deleted_phone i = deleted_phone k \<longleftrightarrow> i = k"
  by (simp add: deleted_phone_def)

definition live :: "User \<Rightarrow> bool" where
  "live u \<longleftrightarrow> usAnonymizedAt u = None"

definition user_ok :: "Auth \<Rightarrow> User \<Rightarrow> bool" where
  "user_ok a u \<longleftrightarrow>
     (if live u then \<forall>i. usPhone u \<noteq> deleted_phone i else usPhone u = deleted_phone (usID u))
     \<and> usActiveRole u \<in> {''client'', ''owner''} \<and> usActiveRole u \<in> set (usRoles u)
     \<and> set (usRoles u) \<subseteq> {''client'', ''owner'', roleModerator}
     \<and> (roleModerator \<in> set (usRoles u) \<longrightarrow> live u \<longrightarrow> isModerator a (usPhone u))
     \<and> usStatus u \<in> {'''', UserActive, UserFrozen, UserBanned}"

lemma user_ok_phone:
  assumes "user_ok a u"
  shows "live u \<Longrightarrow> usPhone u \<noteq> deleted_phone i" and "\<not> live u \<Longrightarrow> usPhone u = deleted_phone (usID u)"
  using assms by (simp_all add: user_ok_def)

definition indexes_ok :: "Auth \<Rightarrow> Accounts \<Rightarrow> bool" where
  "indexes_ok a s \<longleftrightarrow>
     (\<forall>i u. map_of (usersByID s) i = Some u \<longrightarrow>
        usID u = i \<and> user_ok a u \<and> (live u \<longrightarrow> map_of (users s) (usPhone u) = Some u))
     \<and> (\<forall>p u. map_of (users s) p = Some u \<longrightarrow> usPhone u = p \<and> map_of (usersByID s) (usID u) = Some u)"

definition badges_ok :: "Accounts \<Rightarrow> bool" where
  "badges_ok s \<longleftrightarrow> table_ok vfID verify_clash (\<lambda>_. True) (verifications s)
     \<and> (\<forall>i u. map_of (usersByID s) i = Some u \<longrightarrow> usVerified u \<longrightarrow>
          (\<exists>k v. map_of (verifications s) k = Some v \<and> vfUserID v = i \<and> vfStatus v = VerifyApproved))"

definition tokens_ok :: "Accounts \<Rightarrow> bool" where
  "tokens_ok s \<longleftrightarrow>
     (\<forall>h r. map_of (refreshes s) h = Some r \<longrightarrow> rfTokenHash r = h \<and> (\<not> rfRevoked r \<longrightarrow>
        (\<exists>u. map_of (usersByID s) (rfUserID r) = Some u \<and> live u \<and> usStatus u \<noteq> UserBanned)))"

definition codes_ok :: "Accounts \<Rightarrow> bool" where
  "codes_ok s \<longleftrightarrow> (\<forall>p x. map_of (otps s) p = Some x \<longrightarrow>
     otPhone x = p \<and> 0 \<le> otAttempts x \<and> otAttempts x \<le> maxAttempts)"

definition accounts_ok :: "Auth \<Rightarrow> Accounts \<Rightarrow> bool" where
  "accounts_ok a s \<longleftrightarrow> keyed usID (usersByID s) \<and> indexes_ok a s \<and> badges_ok s \<and> tokens_ok s \<and> codes_ok s"

lemmas accounts_defs = accounts_ok_def indexes_ok_def badges_ok_def tokens_ok_def codes_ok_def

lemma accounts_new: "accounts_ok a NewAccounts"
  by (simp add: accounts_defs NewAccounts_def table_ok_def)

lemma accounts_okD:
  assumes "accounts_ok a s"
  shows "map_of (usersByID s) i = Some u \<Longrightarrow> usID u = i \<and> user_ok a u"
    and "map_of (users s) p = Some u \<Longrightarrow> usPhone u = p \<and> map_of (usersByID s) (usID u) = Some u"
    and "map_of (usersByID s) i = Some u \<Longrightarrow> live u \<Longrightarrow> map_of (users s) (usPhone u) = Some u"
  using assms by (auto simp: accounts_ok_def indexes_ok_def)


lemma badge_row:
  assumes "accounts_ok a s" "map_of (usersByID s) i = Some u" "usVerified u"
  shows "\<exists>k v. map_of (verifications s) k = Some v \<and> vfUserID v = i \<and> vfStatus v = VerifyApproved"
  using assms unfolding accounts_ok_def badges_ok_def by blast


section \<open>Writes\<close>

lemma put_user_fields [simp]:
  "otps (put_user i u s) = otps s" "refreshes (put_user i u s) = refreshes s"
  "adminLog (put_user i u s) = adminLog s" "verifications (put_user i u s) = verifications s"
  "verifySeq (put_user i u s) = verifySeq s"
  "map_of (users (put_user i u s)) = (map_of (users s))(usPhone u \<mapsto> u)"
  "map_of (usersByID (put_user i u s)) = (map_of (usersByID s))(i \<mapsto> u)"
  by (simp_all add: put_user_def update_conv')

text \<open>Two accounts never share a number.\<close>

lemma phone_unique:
  assumes "indexes_ok a s" and i: "map_of (usersByID s) i = Some u" and k: "map_of (usersByID s) k = Some v"
    and p: "usPhone u = usPhone v"
  shows "i = k"
proof -
  have iu: "usID u = i" "user_ok a u" "live u \<Longrightarrow> map_of (users s) (usPhone u) = Some u"
    and kv: "usID v = k" "user_ok a v" "live v \<Longrightarrow> map_of (users s) (usPhone v) = Some v"
    using assms(1) i k by (simp_all add: indexes_ok_def)
  consider "live u" "live v" | "\<not> live u" "\<not> live v"
    using p user_ok_phone [OF iu(2)] user_ok_phone [OF kv(2)] by (cases "live u"; cases "live v") auto
  then show ?thesis
  proof cases
    case 1
    then have "Some u = Some v" using iu(3) kv(3) p by metis
    then show ?thesis using iu(1) kv(1) by blast
  next
    case 2
    then have "deleted_phone i = deleted_phone k"
      using p iu(1) kv(1) user_ok_phone(2) [OF iu(2)] user_ok_phone(2) [OF kv(2)] by metis
    then show ?thesis by (simp only: deleted_phone_inj)
  qed
qed

text \<open>Replacing a person by one with the same number and the same fate.\<close>

lemma indexes_put:
  assumes ok: "indexes_ok a s" and old: "map_of (usersByID s) i = Some v"
    and u: "usID u = i" "usPhone u = usPhone v" "user_ok a u"
  shows "indexes_ok a (put_user i u s)"
proof -
  have "usPhone w \<noteq> usPhone u" if "map_of (usersByID s) k = Some w" "k \<noteq> i" for k w
    using phone_unique [OF ok that(1) old] that(2) u(2) by auto
  moreover have "usID w \<noteq> i" if "map_of (users s) p = Some w" "p \<noteq> usPhone u" for p w
    using ok that old u(2) by (auto simp: indexes_ok_def)
  ultimately show ?thesis
    using ok u by (auto simp: indexes_ok_def)
qed

lemma badges_put:
  assumes "badges_ok s"
    and "usVerified u \<Longrightarrow> (\<exists>v. map_of (usersByID s) i = Some v \<and> usVerified v) \<or>
       (\<exists>k v. map_of (verifications s) k = Some v \<and> vfUserID v = i \<and> vfStatus v = VerifyApproved)"
  shows "badges_ok (put_user i u s)"
  using assms by (auto simp: badges_ok_def)

lemma tokens_put:
  assumes "tokens_ok s" and "\<And>h r. map_of (refreshes s) h = Some r \<Longrightarrow> \<not> rfRevoked r \<Longrightarrow> rfUserID r = i \<Longrightarrow>
      live u \<and> usStatus u \<noteq> UserBanned"
  shows "tokens_ok (put_user i u s)"
  using assms by (fastforce simp: tokens_ok_def)

lemma accounts_put:
  assumes ok: "accounts_ok a s" and old: "map_of (usersByID s) i = Some v"
    and u: "usID u = i" "usPhone u = usPhone v" "user_ok a u" "usAnonymizedAt u = usAnonymizedAt v"
    and badge: "usVerified u \<Longrightarrow> usVerified v \<or>
       (\<exists>k w. map_of (verifications s) k = Some w \<and> vfUserID w = i \<and> vfStatus w = VerifyApproved)"
    and ban: "usStatus u = UserBanned \<Longrightarrow> usStatus v = UserBanned \<or>
       (\<forall>r \<in> set (gvals (refreshes s)). rfUserID r = i \<longrightarrow> rfRevoked r)"
  shows "accounts_ok a (put_user i u s)"
proof -
  have "live u \<and> usStatus u \<noteq> UserBanned"
    if r: "map_of (refreshes s) h = Some r" "\<not> rfRevoked r" "rfUserID r = i" for h r
  proof -
    have "r \<in> set (gvals (refreshes s))" using r(1) by (force simp: gvals_def dest: map_of_SomeD)
    moreover have "live v \<and> usStatus v \<noteq> UserBanned" using ok r old by (fastforce simp: accounts_ok_def tokens_ok_def)
    ultimately show ?thesis using r(2,3) u(4) ban by (auto simp: live_def)
  qed
  then have "tokens_ok (put_user i u s)" using ok by (intro tokens_put) (auto simp: accounts_ok_def)
  moreover have "indexes_ok a (put_user i u s)"
    using ok indexes_put [OF _ old u(1-3)] by (simp add: accounts_ok_def)
  moreover have "badges_ok (put_user i u s)"
    using ok badge old by (intro badges_put) (auto simp: accounts_ok_def)
  moreover have "keyed usID (usersByID (put_user i u s))"
    using ok u(1) by (simp add: accounts_ok_def put_user_def keyed_update_key)
  ultimately show ?thesis using ok by (simp add: accounts_ok_def codes_ok_def)
qed

text \<open>A new person.\<close>

lemma accounts_create:
  assumes ok: "accounts_ok a s" and new: "map_of (usersByID s) (usID u) = None" "map_of (users s) (usPhone u) = None"
    and u: "user_ok a u" "live u" "\<not> usVerified u"
  shows "accounts_ok a (CreateUser u s)"
proof -
  have ph: "usPhone w \<noteq> usPhone u" if "map_of (usersByID s) k = Some w" for k w
  proof (cases "live w")
    case True
    then show ?thesis using accounts_okD(3) [OF ok that] new(2) by auto
  next
    case False
    then show ?thesis using accounts_okD(1) [OF ok that] user_ok_phone(2) [of a w] user_ok_phone(1) [OF u(1,2)] by metis
  qed
  have nu: "usID w \<noteq> usID u" if "map_of (users s) p = Some w" for p w
    using accounts_okD(2) [OF ok that] new(1) by auto
  have "indexes_ok a (CreateUser u s)"
    using ok u new ph nu by (auto simp: accounts_ok_def indexes_ok_def CreateUser_def)
  moreover have "badges_ok (CreateUser u s)" unfolding CreateUser_def
    using ok u(3) by (intro badges_put) (auto simp: accounts_ok_def)
  moreover have "tokens_ok (CreateUser u s)" unfolding CreateUser_def
    using ok new(1) by (intro tokens_put) (force simp: accounts_ok_def tokens_ok_def)+
  moreover have "keyed usID (usersByID (CreateUser u s))"
    using ok by (simp add: accounts_ok_def CreateUser_def put_user_def)
  ultimately show ?thesis using ok by (simp add: accounts_ok_def codes_ok_def CreateUser_def)
qed

lemma map_of_revoke:
  "map_of (refreshes (revoke_where P s)) = (\<lambda>h. map_option (\<lambda>r. if P r then r\<lparr>rfRevoked := True\<rparr> else r) (map_of (refreshes s) h))"
proof -
  have "map_of (map (\<lambda>(k, r). (k, f r)) xs) = (\<lambda>h. map_option f (map_of xs h))" for f and xs :: "(string, RefreshRec) gomap"
    by (induction xs) auto
  then show ?thesis by (simp add: revoke_where_def)
qed

lemma revoke_fields [simp]:
  "otps (revoke_where P s) = otps s" "users (revoke_where P s) = users s" "usersByID (revoke_where P s) = usersByID s"
  "adminLog (revoke_where P s) = adminLog s" "verifications (revoke_where P s) = verifications s"
  by (simp_all add: revoke_where_def)

lemma accounts_revoke: "accounts_ok a s \<Longrightarrow> accounts_ok a (revoke_where P s)"
  by (fastforce simp: accounts_defs map_of_revoke split: if_splits)

lemma revoked_all: "\<forall>r \<in> set (gvals (refreshes (RevokeAllRefresh i s))). rfUserID r = i \<longrightarrow> rfRevoked r"
  by (auto simp: RevokeAllRefresh_def revoke_where_def gvals_def)

lemma accounts_save:
  assumes ok: "accounts_ok a s" and u: "map_of (usersByID s) i = Some u" "live u" "usStatus u \<noteq> UserBanned"
    and r: "rfUserID r = i"
  shows "accounts_ok a (SaveRefresh r s)"
  using assms by (auto simp: accounts_defs SaveRefresh_def update_conv')

lemma accounts_mark:
  assumes ok: "accounts_ok a s" and m: "MarkRefreshUsed h s = Inr s'"
  shows "accounts_ok a s'"
  using assms by (fastforce simp: accounts_defs MarkRefreshUsed_def update_conv' split: option.splits if_splits)

lemma accounts_otp:
  assumes "accounts_ok a s" "0 \<le> otAttempts x" "otAttempts x \<le> maxAttempts"
  shows "accounts_ok a (UpsertOTP x s)"
  using assms by (auto simp: accounts_defs UpsertOTP_def update_conv')

lemma accounts_delete_otp: "accounts_ok a s \<Longrightarrow> accounts_ok a (DeleteOTP p s)"
  by (auto simp: accounts_defs DeleteOTP_def delete_conv')

lemma accounts_log: "accounts_ok a s \<Longrightarrow> accounts_ok a (LogAdminAction x s)"
  by (simp add: accounts_defs LogAdminAction_def)


text \<open>Erasing a person.\<close>

lemma Anonymize_state:
  assumes "Anonymize i t s = Inr s'"
  obtains u where "map_of (usersByID s) i = Some u" "live u"
    "s' = revoke_where (\<lambda>r. rfUserID r = i)
       (s\<lparr>users := AList.delete (usPhone u) (users s), usersByID := AList.update i (anonymous u t) (usersByID s)\<rparr>)"
  using assms by (auto simp: Anonymize_def live_def split: option.splits if_splits)

lemma anonymous_fields [simp]:
  "usID (anonymous u t) = usID u" "usPhone (anonymous u t) = deleted_phone (usID u)" "\<not> live (anonymous u t)"
  "\<not> usVerified (anonymous u t)" "usStatus (anonymous u t) = usStatus u"
  by (simp_all add: anonymous_def deleted_phone_def live_def)

lemma user_ok_anonymous: "user_ok a u \<Longrightarrow> user_ok a (anonymous u t)"
  by (simp add: user_ok_def) (simp add: anonymous_def)

lemma accounts_anonymize:
  assumes ok: "accounts_ok a s" and an: "Anonymize i t s = Inr s'"
  shows "accounts_ok a s'"
proof -
  obtain u where u: "map_of (usersByID s) i = Some u" "live u" and s':
    "s' = revoke_where (\<lambda>r. rfUserID r = i)
       (s\<lparr>users := AList.delete (usPhone u) (users s), usersByID := AList.update i (anonymous u t) (usersByID s)\<rparr>)"
    using an by (rule Anonymize_state)
  have uid: "usID u = i" "user_ok a u" using accounts_okD(1) [OF ok u(1)] by auto
  have ph: "usPhone w \<noteq> usPhone u" if "map_of (usersByID s) k = Some w" "k \<noteq> i" for k w
    using phone_unique [OF _ that(1) u(1)] that(2) ok by (auto simp: accounts_ok_def)
  have ids: "usID w \<noteq> i" if "map_of (users s) p = Some w" "p \<noteq> usPhone u" for p w
    using accounts_okD(2) [OF ok that(1)] u(1) that(2) by auto
  have U: "map_of (usersByID s') = (map_of (usersByID s))(i \<mapsto> anonymous u t)"
    and P: "map_of (users s') = (map_of (users s))(usPhone u := None)"
    and R: "map_of (refreshes s') = (\<lambda>h. map_option (\<lambda>r. if rfUserID r = i then r\<lparr>rfRevoked := True\<rparr> else r) (map_of (refreshes s) h))"
    and V: "verifications s' = verifications s" "otps s' = otps s"
    by (simp_all add: s' update_conv' delete_conv' map_of_revoke)
  have "usID w = k \<and> user_ok a w \<and> (live w \<longrightarrow> map_of (users s') (usPhone w) = Some w)"
    if "map_of (usersByID s') k = Some w" for k w
  proof (cases "k = i")
    case True
    then show ?thesis using that uid(1) user_ok_anonymous [OF uid(2)] by (auto simp: U)
  next
    case False
    then have w: "map_of (usersByID s) k = Some w" using that by (simp add: U)
    then show ?thesis using accounts_okD(1,3) [OF ok w] ph [OF w False] by (simp add: P)
  qed
  moreover have "usPhone w = p \<and> map_of (usersByID s') (usID w) = Some w" if "map_of (users s') p = Some w" for p w
  proof -
    have p: "p \<noteq> usPhone u" and w: "map_of (users s) p = Some w" using that by (auto simp: P split: if_splits)
    then show ?thesis using accounts_okD(2) [OF ok w] ids [OF w p] by (simp add: U)
  qed
  ultimately have "indexes_ok a s'" by (simp add: indexes_ok_def)
  moreover have "badges_ok s'"
    using ok unfolding accounts_ok_def badges_ok_def by (simp add: U V)
  moreover have "rfTokenHash r = h \<and> (\<not> rfRevoked r \<longrightarrow>
      (\<exists>u. map_of (usersByID s') (rfUserID r) = Some u \<and> live u \<and> usStatus u \<noteq> UserBanned))"
    if r: "map_of (refreshes s') h = Some r" for h r
  proof -
    obtain r0 where r0: "map_of (refreshes s) h = Some r0"
      and eq: "r = (if rfUserID r0 = i then r0\<lparr>rfRevoked := True\<rparr> else r0)" using r by (auto simp: R)
    then show ?thesis using ok by (cases "rfUserID r0 = i") (auto simp: accounts_ok_def tokens_ok_def U)
  qed
  then have "tokens_ok s'" by (simp add: tokens_ok_def)
  moreover have "keyed usID (usersByID s')"
    using ok uid(1) by (simp add: accounts_ok_def s' keyed_update_key)
  ultimately show ?thesis using ok by (simp add: accounts_ok_def codes_ok_def V)
qed


section \<open>Operations\<close>

lemma anonymize_all_ok: "accounts_ok a s \<Longrightarrow> accounts_ok a (snd (anonymize_all clk n us s))"
proof (induction us arbitrary: n s)
  case (Cons u us)
  show ?case
  proof (cases "Anonymize (usID u) (clk n) s")
    case (Inl er)
    then show ?thesis using Cons by simp
  next
    case (Inr s')
    then show ?thesis using Cons.IH [OF accounts_anonymize [OF Cons.prems Inr], of "Suc n"]
      by (simp add: split_beta)
  qed
qed simp

lemma RunDeletions_ok: "accounts_ok a s \<Longrightarrow> accounts_ok a (snd (RunDeletions e s))"
  by (simp add: RunDeletions_def anonymize_all_ok)

lemma StartOTP_ok: "accounts_ok a s \<Longrightarrow> accounts_ok a (snd (StartOTP b e phone s))"
  by (auto simp: StartOTP_def Let_def maxAttempts_def split: sum.split intro: accounts_otp)

lemma issue_ok:
  assumes "accounts_ok a s" "map_of (usersByID s) (usID u) = Some v" "live v" "usStatus v \<noteq> UserBanned"
  shows "accounts_ok a (snd (issue b e now u s))"
  using assms by (auto simp: issue_def split: sum.split intro: accounts_save)

lemma new_user_ok:
  assumes "\<forall>i. phone \<noteq> deleted_phone i"
  shows "user_ok a (new_user a e phone)"
  using assms by (auto simp: user_ok_def new_user_def live_def rolesFor_def roleModerator_def)

text \<open>Entering gives a living person who is not banned, as the store now has it.\<close>

lemma enter_ok:
  assumes ok: "accounts_ok a s" and ph: "\<forall>i. phone \<noteq> deleted_phone i"
    and fresh: "map_of (usersByID s) (auuid e 0) = None"
  shows "accounts_ok a (snd (enter a e phone s)) \<and> (\<forall>u. fst (enter a e phone s) = Inr u \<longrightarrow>
      map_of (usersByID (snd (enter a e phone s))) (usID u) = Some u \<and> live u \<and> usStatus u \<noteq> UserBanned)"
proof (cases "map_of (users s) phone")
  case None
  let ?u = "new_user a e phone"
  have "accounts_ok a (CreateUser ?u s)"
    using ok fresh None new_user_ok [OF ph] by (intro accounts_create) (auto simp: new_user_def live_def)
  then show ?thesis using None
    by (auto simp: enter_def GetUserByPhone_def Let_def CreateUser_def new_user_def live_def UserBanned_def)
next
  case (Some u)
  have u: "usPhone u = phone" "map_of (usersByID s) (usID u) = Some u" using accounts_okD(2) [OF ok Some] by auto
  have uok: "user_ok a u" using accounts_okD(1) [OF ok u(2)] by simp
  have lu: "live u" using ph u(1) user_ok_phone(2) [OF uok] by auto
  have c: "accounts_ok a (put_user (usID u) (u\<lparr>usDeleteAfter := None\<rparr>) s)"
    using ok u(2) uok by (intro accounts_put) (auto simp: user_ok_def live_def)
  have m: "accounts_ok a (put_user (usID u) (u\<lparr>usRoles := usRoles u @ [roleModerator]\<rparr>) s)" if "isModerator a phone"
    using ok u uok that by (intro accounts_put) (auto simp: user_ok_def live_def)
  show ?thesis
    using Some ok u(2) lu c m
    by (auto simp: enter_def GetUserByPhone_def CancelDeletion_row_def UpdateUser_def Let_def live_def)
qed

lemma VerifyOTP_ok:
  assumes ok: "accounts_ok a s" and ph: "\<forall>i. phone \<noteq> deleted_phone i"
    and fresh: "map_of (usersByID s) (auuid e 0) = None"
  shows "accounts_ok a (snd (VerifyOTP a e phone code s))"
proof (cases "map_of (otps s) phone")
  case None
  then show ?thesis using ok by (simp add: VerifyOTP_def GetOTP_def)
next
  case (Some x)
  let ?d = "DeleteOTP phone s"
  have x: "0 \<le> otAttempts x" using ok Some by (auto simp: accounts_ok_def codes_ok_def)
  then have w: "otAttempts x < maxAttempts \<Longrightarrow> accounts_ok a (UpsertOTP (x\<lparr>otAttempts := otAttempts x + 1\<rparr>) s)"
    using ok by (intro accounts_otp) (auto simp: maxAttempts_def)
  have d: "accounts_ok a ?d" using ok by (rule accounts_delete_otp)
  have f: "map_of (usersByID ?d) (auuid e 0) = None" using fresh by (simp add: DeleteOTP_def)
  have e: "accounts_ok a (snd (case enter a e phone ?d of (Inl er, s') \<Rightarrow> (Inl er, s') | (Inr u, s') \<Rightarrow> issue a e (aclock e 2) u s'))"
    using enter_ok [OF d ph f] by (auto split: prod.split sum.split intro!: issue_ok)
  show ?thesis using Some ok w e by (auto simp: VerifyOTP_def GetOTP_def Let_def)
qed

lemma Refresh_ok:
  assumes ok: "accounts_ok a s"
  shows "accounts_ok a (snd (Refresh a e tok s))"
proof (cases "map_of (refreshes s) (hashStr a tok)")
  case None
  then show ?thesis using ok by (simp add: Refresh_def GetRefresh_def)
next
  case (Some r)
  have h: "rfTokenHash r = hashStr a tok"
    and l: "\<not> rfRevoked r \<Longrightarrow> \<exists>u. map_of (usersByID s) (rfUserID r) = Some u \<and> live u \<and> usStatus u \<noteq> UserBanned"
    using ok Some by (auto simp: accounts_ok_def tokens_ok_def)
  obtain s1 where m: "MarkRefreshUsed (rfTokenHash r) s = Inr s1" "usersByID s1 = usersByID s"
    using Some h by (auto simp: MarkRefreshUsed_def)
  have ok1: "accounts_ok a s1" using accounts_mark [OF ok m(1)] .
  show ?thesis
  proof (cases "rfRevoked r \<or> aclock e 0 > rfExpiresAt r \<or> rfUsed r")
    case True
    then show ?thesis using Some ok
      by (auto simp: Refresh_def GetRefresh_def RevokeFamily_def intro: accounts_revoke)
  next
    case False
    then obtain u where u: "map_of (usersByID s) (rfUserID r) = Some u" "live u" "usStatus u \<noteq> UserBanned"
      using l by auto
    have uid: "usID u = rfUserID r" using accounts_okD(1) [OF ok u(1)] by simp
    have "accounts_ok a (snd (issue a e (aclock e 1) u s1))"
      using ok1 u uid m(2) by (intro issue_ok [of a s1 u u]) auto
    then show ?thesis using Some False m u
      by (simp add: Refresh_def GetRefresh_def GetUserByID_def)
  qed
qed


lemma set_role_fields:
  assumes "set_role r u = Inr u'"
  shows "usID u' = usID u" "usPhone u' = usPhone u" "usAnonymizedAt u' = usAnonymizedAt u"
    "usVerified u' = usVerified u" "usStatus u' = usStatus u"
  using assms by (auto simp: set_role_def split: option.splits if_split_asm)

lemma set_role_ok:
  assumes u: "user_ok a u" and r: "set_role r u = Inr u'"
  shows "user_ok a u'"
proof (cases r)
  case None
  then show ?thesis using u r by (simp add: set_role_def)
next
  case (Some role)
  then have role: "role = ''client'' \<or> role = ''owner''" using r by (auto simp: set_role_def split: if_split_asm)
  have f: "usActiveRole u' = role" "set (usRoles u') = insert role (set (usRoles u))"
    using r Some role by (auto simp: set_role_def hasRole_def split: if_split_asm)
  have "roleModerator \<noteq> role" using role by (auto simp: roleModerator_def)
  then show ?thesis
    using u role f set_role_fields [OF r] unfolding user_ok_def live_def by auto
qed

lemma patched_ok:
  assumes u: "user_ok a u" and p: "patched p u = Inr u'"
  shows "user_ok a u'" "usID u' = usID u" "usPhone u' = usPhone u" "usAnonymizedAt u' = usAnonymizedAt u"
    "usVerified u' = usVerified u" "usStatus u' = usStatus u"
proof -
  have "user_ok a (u\<lparr>usName := n, usCity := c\<rparr>)" for n c using u by (simp add: user_ok_def live_def)
  then show "user_ok a u'" using p by (auto simp: patched_def intro: set_role_ok)
qed (use set_role_fields [OF p [unfolded patched_def]] in simp_all)

lemma UpdateProfile_ok:
  assumes ok: "accounts_ok a s"
  shows "accounts_ok a (snd (UpdateProfile i p s))"
proof (cases "map_of (usersByID s) i")
  case None
  then show ?thesis using ok by (simp add: UpdateProfile_def GetUserByID_def)
next
  case (Some u)
  have u: "usID u = i" "user_ok a u" using accounts_okD(1) [OF ok Some] by auto
  show ?thesis
  proof (cases "patched p u")
    case (Inl er)
    then show ?thesis using Some ok by (simp add: UpdateProfile_def GetUserByID_def)
  next
    case (Inr u')
    note p = patched_ok [OF u(2) Inr]
    have "accounts_ok a (put_user i u' s)" using ok Some by (rule accounts_put) (use p u(1) in auto)
    then show ?thesis using Some Inr p(2) u(1) by (simp add: UpdateProfile_def GetUserByID_def UpdateUser_def)
  qed
qed

text \<open>A change of the delay and of the badge.\<close>

lemma RequestDeletion_row_ok:
  "accounts_ok a s \<Longrightarrow> RequestDeletion_row i t s = Inr s' \<Longrightarrow> accounts_ok a s'"
  by (auto simp: RequestDeletion_row_def user_ok_def live_def split: option.splits
      dest: accounts_okD(1) intro!: accounts_put)

lemma CancelDeletion_row_ok:
  "accounts_ok a s \<Longrightarrow> CancelDeletion_row i s = Inr s' \<Longrightarrow> accounts_ok a s'"
  by (auto simp: CancelDeletion_row_def user_ok_def live_def split: option.splits
      dest: accounts_okD(1) intro!: accounts_put)

lemma RequestDeletion_ok: "accounts_ok a s \<Longrightarrow> accounts_ok a (snd (RequestDeletion e i s))"
  by (auto simp: RequestDeletion_def split: sum.split option.split dest: RequestDeletion_row_ok)

lemma CancelDeletion_ok: "accounts_ok a s \<Longrightarrow> accounts_ok a (snd (CancelDeletion i s))"
  by (auto simp: CancelDeletion_def split: sum.split dest: CancelDeletion_row_ok)

lemma SetVerified_ok:
  assumes "accounts_ok a s" "SetVerified i True s = Inr s'"
    and "map_of (verifications s) k = Some v" "vfUserID v = i" "vfStatus v = VerifyApproved"
  shows "accounts_ok a s'"
  using assms by (auto simp: SetVerified_def user_ok_def live_def split: option.splits
      dest: accounts_okD(1) intro!: accounts_put)

lemma put_revoke: "RevokeAllRefresh k (LogAdminAction x (put_user i u s)) = LogAdminAction x (put_user i u (RevokeAllRefresh k s))"
  by (simp add: RevokeAllRefresh_def revoke_where_def LogAdminAction_def put_user_def)

lemma SetStatus_ok:
  assumes ok: "accounts_ok a s"
  shows "accounts_ok a (snd (SetStatus e m i st reason s))"
proof (cases "map_of (usersByID s) i")
  case None
  then show ?thesis using ok by (simp add: SetStatus_def SetUserStatus_def Let_def)
next
  case (Some u)
  have u: "usID u = i" "user_ok a u" using accounts_okD(1) [OF ok Some] by auto
  have r: "accounts_ok a (RevokeAllRefresh i s)" "map_of (usersByID (RevokeAllRefresh i s)) i = Some u"
    using ok Some by (simp_all add: RevokeAllRefresh_def accounts_revoke)
  let ?u = "u\<lparr>usStatus := st, usStatusReason := TrimSpace reason, usStatusBy := m, usStatusAt := Some (aclock e 0)\<rparr>"
  have uok: "user_ok a ?u" if "st = UserActive \<or> st = UserFrozen \<or> st = UserBanned"
    using u(2) that by (auto simp: user_ok_def live_def)
  have plain: "accounts_ok a (put_user i ?u s)" if "st = UserActive \<or> st = UserFrozen"
    using ok Some by (rule accounts_put) (use uok that u(1) in \<open>auto simp: UserBanned_def UserActive_def UserFrozen_def\<close>)
  have banned: "accounts_ok a (put_user i ?u (RevokeAllRefresh i s))" if "st = UserBanned"
    using r by (rule accounts_put) (use uok that u(1) revoked_all [of i s] in auto)
  show ?thesis
    using ok plain banned Some
    by (auto simp: SetStatus_def SetUserStatus_def Let_def put_revoke intro!: accounts_log)
qed

lemma SubmitVerification_ok:
  assumes ok: "accounts_ok a s" and fresh: "map_of (verifications s) (auuid e 0) = None"
  shows "accounts_ok a (snd (SubmitVerification e i k ds s))"
proof -
  have "accounts_ok a s'" if c: "CreateVerification v s = Inr s'" and i: "vfID v = auuid e 0" for v s'
  proof -
    have t: "table_ok vfID verify_clash (\<lambda>_. True) (verifications s')"
      using ok verification_rows.table_create [OF _ c] by (simp add: accounts_ok_def badges_ok_def)
    have V: "map_of (verifications s') = (map_of (verifications s))(auuid e 0 \<mapsto> v)"
      using verification_rows.create_rows [OF c] i by (simp add: update_conv')
    have F: "usersByID s' = usersByID s" "users s' = users s" "refreshes s' = refreshes s" "otps s' = otps s"
      using c by (auto simp: CreateVerification_def split: if_splits)
    have "\<exists>k w. map_of (verifications s') k = Some w \<and> vfUserID w = j \<and> vfStatus w = VerifyApproved"
      if u: "map_of (usersByID s) j = Some u" "usVerified u" for j u
    proof -
      obtain k w where w: "map_of (verifications s) k = Some w" "vfUserID w = j" "vfStatus w = VerifyApproved"
        using badge_row [OF ok u] by blast
      then have "k \<noteq> auuid e 0" using fresh by auto
      then show ?thesis using w by (intro exI [of _ k] exI [of _ w]) (simp add: V)
    qed
    then have "badges_ok s'" using t by (simp add: badges_ok_def F)
    then show ?thesis using ok by (simp add: accounts_ok_def indexes_ok_def tokens_ok_def codes_ok_def F)
  qed
  then show ?thesis using ok by (auto simp: SubmitVerification_def Let_def split: sum.split)
qed

lemma review_row_ok:
  assumes ok: "accounts_ok a s" and v: "map_of (verifications s) i = Some v" "vfStatus v = VerifyPending"
    and up: "UpdateVerification (reviewed_verification e m ap r v) s = Inr s'"
  shows "accounts_ok a s' \<and> map_of (verifications s') i = Some (reviewed_verification e m ap r v)"
proof -
  have t: "table_ok vfID verify_clash (\<lambda>_. True) (verifications s)" using ok by (simp add: accounts_ok_def badges_ok_def)
  then have id: "vfID v = i" using keyed_get [OF _ v(1)] by (simp add: table_ok_def)
  have t': "table_ok vfID verify_clash (\<lambda>_. True) (verifications s')"
    using t up by (rule verification_rows.table_replace) (auto simp: verify_clash_def reviewed_verification_def split: if_splits)
  have V: "map_of (verifications s') = (map_of (verifications s))(i \<mapsto> reviewed_verification e m ap r v)"
    using verification_rows.replace_rows [OF up] id by (simp add: update_conv' reviewed_verification_def)
  have F: "usersByID s' = usersByID s" "users s' = users s" "refreshes s' = refreshes s" "otps s' = otps s"
    using up by (auto simp: UpdateVerification_def split: if_splits)
  have "\<exists>k w. map_of (verifications s') k = Some w \<and> vfUserID w = j \<and> vfStatus w = VerifyApproved"
    if u: "map_of (usersByID s) j = Some u" "usVerified u" for j u
  proof -
    obtain k w where w: "map_of (verifications s) k = Some w" "vfUserID w = j" "vfStatus w = VerifyApproved"
      using badge_row [OF ok u] by blast
    then have "k \<noteq> i" using v by auto
    then show ?thesis using w by (intro exI [of _ k] exI [of _ w]) (simp add: V)
  qed
  then have "badges_ok s'" using t' by (simp add: badges_ok_def F)
  then show ?thesis using ok by (simp add: accounts_ok_def indexes_ok_def tokens_ok_def codes_ok_def F V)
qed

lemma ReviewVerification_ok:
  assumes ok: "accounts_ok a s"
  shows "accounts_ok a (snd (ReviewVerification e m i ap r s))"
proof (cases "map_of (verifications s) i")
  case None
  then show ?thesis using ok by (simp add: ReviewVerification_def VerificationByID_def)
next
  case (Some v)
  let ?v = "reviewed_verification e m ap r v"
  have st: "vfStatus ?v = (if ap then VerifyApproved else VerifyRejected)" by (simp add: reviewed_verification_def)
  show ?thesis
  proof (cases "vfStatus v = VerifyPending \<and> (ap \<or> int (length (TrimSpace r)) \<ge> minSanctionReason)")
    case False
    then show ?thesis using Some ok by (auto simp: ReviewVerification_def VerificationByID_def)
  next
    case True
    show ?thesis
    proof (cases "UpdateVerification ?v s")
      case (Inl er)
      then show ?thesis using Some True ok by (auto simp: ReviewVerification_def VerificationByID_def Let_def)
    next
      case (Inr s')
      have ok': "accounts_ok a s'" and row: "map_of (verifications s') i = Some ?v"
        using review_row_ok [OF ok Some _ Inr] True by auto
      have "accounts_ok a s''" if "SetVerified (vfUserID ?v) True s' = Inr s''" ap for s''
        using ok' that(1) row by (rule SetVerified_ok) (use that(2) st in auto)
      then show ?thesis using Some True ok' Inr
        by (auto simp: ReviewVerification_def VerificationByID_def Let_def split: sum.split intro!: accounts_log)
    qed
  qed
qed


section \<open>Reachable states\<close>

datatype account_request =
    AqStart aenv runes | AqVerify aenv runes string | AqRefresh aenv string | AqProfile string ProfilePatch
  | AqStatus aenv string string string runes | AqLog aenv string string string runes
  | AqSubmit aenv string runes "runes list" | AqReview aenv string string bool runes
  | AqDelete aenv string | AqRestore string | AqRunDeletions aenv

fun serve :: "Auth \<Rightarrow> account_request \<Rightarrow> Accounts \<Rightarrow> Accounts" where
  "serve a (AqStart e p) s = snd (StartOTP a e p s)"
| "serve a (AqVerify e p c) s = snd (VerifyOTP a e p c s)"
| "serve a (AqRefresh e t) s = snd (Refresh a e t s)"
| "serve a (AqProfile i p) s = snd (UpdateProfile i p s)"
| "serve a (AqStatus e m i st r) s = snd (SetStatus e m i st r s)"
| "serve a (AqLog e m x i r) s = LogAction e m x i r s"
| "serve a (AqSubmit e i k ds) s = snd (SubmitVerification e i k ds s)"
| "serve a (AqReview e m i ap r) s = snd (ReviewVerification e m i ap r s)"
| "serve a (AqDelete e i) s = snd (RequestDeletion e i s)"
| "serve a (AqRestore i) s = snd (CancelDeletion i s)"
| "serve a (AqRunDeletions e) s = snd (RunDeletions e s)"

text \<open>
  What is relied upon: an identifier drawn for a new row is new, and no provider delivers a code to a
  number that is the mark of an erased account.
\<close>

fun admissible :: "account_request \<Rightarrow> Accounts \<Rightarrow> bool" where
  "admissible (AqVerify e p c) s \<longleftrightarrow>
     map_of (usersByID s) (auuid e 0) = None \<and> \<not> has_prefix p (runes_of ''deleted:'')"
| "admissible (AqSubmit e i k ds) s \<longleftrightarrow> map_of (verifications s) (auuid e 0) = None"
| "admissible _ s \<longleftrightarrow> True"

inductive account_states :: "Auth \<Rightarrow> Accounts \<Rightarrow> bool" for a where
  states_new: "account_states a NewAccounts"
| states_serve: "account_states a s \<Longrightarrow> admissible r s \<Longrightarrow> account_states a (serve a r s)"

lemma not_deleted_phone: "\<not> has_prefix p (runes_of ''deleted:'') \<Longrightarrow> p \<noteq> deleted_phone i"
  using has_prefix_append [of "runes_of ''deleted:''" "runes_of i"] by (auto simp: deleted_phone_def runes_of_def)

lemma serve_ok:
  assumes "accounts_ok a s" "admissible r s"
  shows "accounts_ok a (serve a r s)"
  using assms not_deleted_phone
  by (cases r) (simp_all add: StartOTP_ok VerifyOTP_ok Refresh_ok UpdateProfile_ok SetStatus_ok LogAction_def
      accounts_log SubmitVerification_ok ReviewVerification_ok RequestDeletion_ok CancelDeletion_ok RunDeletions_ok)

lemma account_states_ok: "account_states a s \<Longrightarrow> accounts_ok a s"
  by (induction rule: account_states.induct) (auto intro: accounts_new serve_ok)

end
