(* ===== verification/Identity_Properties.thy ===== *)
theory Identity_Properties
  imports Identity_Soundness
begin

text \<open>
  What the accounts service promises: its reachable states are in order, a code stands three guesses and
  opens once, a refresh token works once, a session belongs to a living person who is not banned, a
  sanction is journalled and ends the sessions of the banned, and the deferred deletion erases exactly the
  accounts whose delay is over.
\<close>


section \<open>Reachable states\<close>


text \<open>A stand with one moderator: a person enters, is checked, and is banned.\<close>

definition stand :: Auth where
  "stand = \<lparr>staticCode = ''000000'', moderators = [runes_of '' +1 ''], hashStr = (\<lambda>x. ''#'' @ x),
     SendCode = (\<lambda>_ _. Inr ''sms''), Sign = (\<lambda>c. Inr (''jwt:'' @ clSub c))\<rparr>"

definition at_minute :: "int \<Rightarrow> string \<Rightarrow> aenv" where
  "at_minute n i = \<lparr>aclock = (\<lambda>_. n * Minute), auuid = (\<lambda>k. i @ replicate k CHR ''f''), adigit = (\<lambda>_. 0),
     atoken = ''t'' @ i, aiter = length\<rparr>"

definition stand_requests :: "account_request list" where
  "stand_requests =
     [AqStart (at_minute 1 ''a'') (runes_of ''+1''), AqVerify (at_minute 2 ''a'') (runes_of ''+1'') ''000000'',
      AqStart (at_minute 3 ''b'') (runes_of ''+2''), AqVerify (at_minute 4 ''b'') (runes_of ''+2'') ''000000'',
      AqProfile ''b'' \<lparr>ppName = Some (runes_of ''Boris''), ppCity = None, ppActiveRole = Some ''owner''\<rparr>,
      AqSubmit (at_minute 5 ''v'') ''b'' [] [runes_of ''scan''],
      AqReview (at_minute 6 ''x'') ''a'' ''v'' True [],
      AqStatus (at_minute 7 ''y'') ''a'' ''b'' ''banned'' (runes_of ''fake machines'')]"

fun admitted :: "Auth \<Rightarrow> account_request list \<Rightarrow> Accounts \<Rightarrow> bool" where
  "admitted a [] s \<longleftrightarrow> True"
| "admitted a (r # rs) s \<longleftrightarrow> admissible r s \<and> admitted a rs (serve a r s)"

lemma states_fold: "account_states a s \<Longrightarrow> admitted a rs s \<Longrightarrow> account_states a (fold (serve a) rs s)"
  by (induction rs arbitrary: s) (auto intro: states_serve)



section \<open>Guessing a code\<close>

text \<open>A sequence of attempts at one number, whatever the person types and when.\<close>

fun tries :: "Auth \<Rightarrow> runes \<Rightarrow> (aenv \<times> string) list \<Rightarrow> Accounts \<Rightarrow> (auth_err + Session) list" where
  "tries a phone [] s = []"
| "tries a phone (w # ws) s =
     (case VerifyOTP a (fst w) phone (snd w) s of (r, s') \<Rightarrow> r # tries a phone ws s')"

definition in_time :: "OTP \<Rightarrow> aenv \<times> string \<Rightarrow> bool" where
  "in_time x w \<longleftrightarrow> \<not> aclock (fst w) 0 > otExpiresAt x"

lemma length_tries [simp]: "length (tries a phone ws s) = length ws"
  by (induction ws arbitrary: s) (auto split: prod.split)

lemma issue_otps [simp]: "otps (snd (issue a e now u s)) = otps s"
  by (simp add: issue_def SaveRefresh_def split: sum.split)

lemma enter_otps [simp]: "otps (snd (enter a e phone s)) = otps s"
  by (simp add: enter_def CreateUser_def UpdateUser_def CancelDeletion_row_def Let_def split: sum.split option.split)

lemma tries_no_code:
  "map_of (otps s) phone = None \<Longrightarrow> r \<in> set (tries a phone ws s) \<Longrightarrow> r = Inl ErrCodeInvalid"
  by (induction ws arbitrary: s) (auto simp: VerifyOTP_def GetOTP_def)

lemma try_right:
  assumes x: "map_of (otps s) phone = Some x" and w: "in_time x w" "otAttempts x < maxAttempts" "hashStr a (snd w) = otCodeHash x"
  shows "map_of (otps (snd (VerifyOTP a (fst w) phone (snd w) s))) phone = None"
proof -
  obtain r s' where r: "enter a (fst w) phone (DeleteOTP phone s) = (r, s')" by fastforce
  then have "otps s' = otps (DeleteOTP phone s)" using enter_otps by (metis snd_conv)
  then show ?thesis using x w r
    by (cases r) (auto simp: VerifyOTP_def GetOTP_def in_time_def DeleteOTP_def delete_conv')
qed

lemma try_other:
  assumes x: "map_of (otps s) phone = Some x" "otPhone x = phone"
    and w: "\<not> (in_time x w \<and> otAttempts x < maxAttempts \<and> hashStr a (snd w) = otCodeHash x)"
  shows "\<exists>er s'. VerifyOTP a (fst w) phone (snd w) s = (Inl er, s') \<and> map_of (otps s') phone =
    Some (if in_time x w \<and> otAttempts x < maxAttempts then x\<lparr>otAttempts := otAttempts x + 1\<rparr> else x)"
proof (cases "in_time x w \<and> otAttempts x < maxAttempts")
  case True
  then show ?thesis using assms by (simp add: VerifyOTP_def GetOTP_def in_time_def UpsertOTP_def update_conv' Let_def)
next
  case False
  then show ?thesis using assms by (auto simp: VerifyOTP_def GetOTP_def in_time_def)
qed

text \<open>C5: Guessing is bounded. Of any sequence of attempts at a requested code, however long and whatever
  is typed, at most one opens a session; it is made with a code of the sent hash, before the code runs out,
  and after at most two other attempts made in time.\<close>

theorem VerifyOTP_guesses:
  assumes "map_of (otps s) phone = Some x" and "otPhone x = phone" and "0 \<le> otAttempts x"
    and "k < length ws" and "tries a phone ws s ! k = Inr se"
  shows "hashStr a (snd (ws ! k)) = otCodeHash x \<and> in_time x (ws ! k)
    \<and> int (length (filter (in_time x) (take k ws))) + otAttempts x < maxAttempts
    \<and> (\<forall>j < length ws. j \<noteq> k \<longrightarrow> (\<exists>er. tries a phone ws s ! j = Inl er))"
  using assms
proof (induction ws arbitrary: s x k)
  case Nil
  then show ?case by simp
next
  case (Cons w ws)
  show ?case
  proof (cases "in_time x w \<and> otAttempts x < maxAttempts \<and> hashStr a (snd w) = otCodeHash x")
    case True
    obtain r s' where v: "VerifyOTP a (fst w) phone (snd w) s = (r, s')" by fastforce
    have "map_of (otps s') phone = None" using try_right [OF Cons.prems(1)] True v by (metis snd_conv)
    then have rest: "\<exists>er. tries a phone ws s' ! j = Inl er" if "j < length ws" for j
      using tries_no_code that by (metis length_tries nth_mem)
    have "k = 0"
    proof (cases k)
      case (Suc n)
      then show ?thesis using Cons.prems(4,5) v rest [of n] by auto
    qed simp
    then show ?thesis using True v rest by (auto simp: less_Suc_eq_0_disj)
  next
    case False
    let ?x = "if in_time x w \<and> otAttempts x < maxAttempts then x\<lparr>otAttempts := otAttempts x + 1\<rparr> else x"
    obtain er s' where v: "VerifyOTP a (fst w) phone (snd w) s = (Inl er, s')" and s': "map_of (otps s') phone = Some ?x"
      using try_other [OF Cons.prems(1,2) False] by blast
    obtain n where k: "k = Suc n" using Cons.prems(5) v by (cases k) auto
    have "hashStr a (snd (ws ! n)) = otCodeHash ?x \<and> in_time ?x (ws ! n)
      \<and> int (length (filter (in_time ?x) (take n ws))) + otAttempts ?x < maxAttempts
      \<and> (\<forall>j < length ws. j \<noteq> n \<longrightarrow> (\<exists>er. tries a phone ws s' ! j = Inl er))"
      using Cons.prems k v by (intro Cons.IH s') auto
    moreover have "in_time ?x = in_time x" by (auto simp: in_time_def)
    ultimately show ?thesis
      using v k by (auto simp: less_Suc_eq_0_disj split: if_split_asm)
  qed
qed

definition wrong_twice :: "(aenv \<times> string) list" where
  "wrong_twice = map (\<lambda>c. (at_minute 2 ''a'', c)) [''111111'', ''222222'', ''000000'', ''000000'']"

definition asked :: Accounts where
  "asked = snd (StartOTP stand (at_minute 1 ''a'') (runes_of ''+1'') NewAccounts)"

theorem VerifyOTP_guesses_witness:
  "\<exists>se. tries stand (runes_of ''+1'') wrong_twice asked ! 2 = Inr se
     \<and> (\<forall>j < 4. j \<noteq> 2 \<longrightarrow> (\<exists>er. tries stand (runes_of ''+1'') wrong_twice asked ! j = Inl er))"
proof -
  define x where "x = the (map_of (otps asked) (runes_of ''+1''))"
  have x: "map_of (otps asked) (runes_of ''+1'') = Some x" "otPhone x = runes_of ''+1''" "0 \<le> otAttempts x"
    unfolding x_def by code_simp+
  have l: "2 < length wrong_twice" "length wrong_twice = 4" by (simp_all add: wrong_twice_def)
  have "isl (tries stand (runes_of ''+1'') wrong_twice asked ! 2) = False" by code_simp
  then obtain se where se: "tries stand (runes_of ''+1'') wrong_twice asked ! 2 = Inr se"
    by (cases "tries stand (runes_of ''+1'') wrong_twice asked ! 2") auto
  show ?thesis using VerifyOTP_guesses [OF x l(1) se] se l(2) by auto
qed


section \<open>Sessions\<close>

lemma issue_Inr:
  assumes "issue a e now u s = (Inr se, s')"
  shows "seUser se = u \<and> seRefreshToken se = atoken e \<and> Sign a (session_claims u now) = Inr (seAccessToken se)
    \<and> s' = SaveRefresh \<lparr>rfTokenHash = hashStr a (atoken e), rfUserID = usID u, rfFamilyID = auuid e 1,
        rfExpiresAt = now + refreshTTL, rfUsed = False, rfRevoked = False\<rparr> s"
  using assms by (auto simp: issue_def split: sum.splits)

lemma VerifyOTP_Inr:
  assumes "VerifyOTP a e phone code s = (Inr se, s')"
  obtains x u s1 where "map_of (otps s) phone = Some x" "enter a e phone (DeleteOTP phone s) = (Inr u, s1)"
    "issue a e (aclock e 2) u s1 = (Inr se, s')"
  using assms by (auto simp: VerifyOTP_def GetOTP_def Let_def split: option.splits if_splits prod.splits sum.splits
      elim!: or_err.elims)

lemma Refresh_Inr:
  assumes "Refresh a e tok s = (Inr se, s')"
  obtains r s1 u where "map_of (refreshes s) (hashStr a tok) = Some r" "\<not> rfRevoked r" "\<not> rfUsed r"
    "aclock e 0 \<le> rfExpiresAt r" "MarkRefreshUsed (rfTokenHash r) s = Inr s1" "map_of (usersByID s1) (rfUserID r) = Some u"
    "usStatus u \<noteq> UserBanned" "issue a e (aclock e 1) u s1 = (Inr se, s')"
  using assms by (auto simp: Refresh_def GetRefresh_def GetUserByID_def split: if_splits sum.splits elim!: or_err.elims)

lemma MarkRefreshUsed_Inr:
  "MarkRefreshUsed h s = Inr s' \<longleftrightarrow>
     (\<exists>r. map_of (refreshes s) h = Some r \<and> s' = s\<lparr>refreshes := AList.update h (r\<lparr>rfUsed := True\<rparr>) (refreshes s)\<rparr>)"
  by (auto simp: MarkRefreshUsed_def split: option.splits)



text \<open>Presenting one token again and again.\<close>

fun replay :: "Auth \<Rightarrow> string \<Rightarrow> aenv list \<Rightarrow> Accounts \<Rightarrow> Accounts" where
  "replay a tok [] s = s"
| "replay a tok (e # es) s = replay a tok es (snd (Refresh a e tok s))"

definition exchanged :: "string \<Rightarrow> string \<Rightarrow> Accounts \<Rightarrow> bool" where
  "exchanged h h' s \<longleftrightarrow> (\<exists>r r'. map_of (refreshes s) h = Some r \<and> rfUsed r \<and> map_of (refreshes s) h' = Some r'
     \<and> \<not> rfUsed r' \<and> \<not> rfRevoked r' \<and> rfFamilyID r' \<noteq> rfFamilyID r)"

lemma exchanged_refused:
  assumes "exchanged (hashStr a tok) h' s"
  shows "fst (Refresh a e tok s) = Inl ErrRefreshInvalid"
  using assms by (auto simp: exchanged_def Refresh_def GetRefresh_def)

lemma exchanged_kept:
  assumes "exchanged (hashStr a tok) h' s"
  shows "exchanged (hashStr a tok) h' (snd (Refresh a e tok s))"
proof -
  have "exchanged (hashStr a tok) h' (RevokeFamily (rfFamilyID r) s)" if "map_of (refreshes s) (hashStr a tok) = Some r" for r
    using assms that by (auto simp: exchanged_def RevokeFamily_def map_of_revoke)
  then show ?thesis using assms by (auto simp: exchanged_def Refresh_def GetRefresh_def)
qed

lemma exchanged_replay: "exchanged (hashStr a tok) h' s \<Longrightarrow> exchanged (hashStr a tok) h' (replay a tok es s)"
  by (induction es arbitrary: s) (auto intro: exchanged_kept)

lemma Refresh_exchanges:
  assumes ok: "accounts_ok a s" and r: "Refresh a e tok s = (Inr se, s1)"
    and h: "hashStr a (seRefreshToken se) \<noteq> hashStr a tok"
    and fam: "\<And>h r. map_of (refreshes s) h = Some r \<Longrightarrow> rfFamilyID r \<noteq> auuid e 1"
  shows "exchanged (hashStr a tok) (hashStr a (seRefreshToken se)) s1"
proof -
  obtain r0 s0 u where m: "map_of (refreshes s) (hashStr a tok) = Some r0" "MarkRefreshUsed (rfTokenHash r0) s = Inr s0"
    and i: "issue a e (aclock e 1) u s0 = (Inr se, s1)" using r by (rule Refresh_Inr)
  have "rfTokenHash r0 = hashStr a tok" using ok m(1) by (simp add: accounts_ok_def tokens_ok_def)
  then have "s0 = s\<lparr>refreshes := AList.update (hashStr a tok) (r0\<lparr>rfUsed := True\<rparr>) (refreshes s)\<rparr>"
    using m by (simp add: MarkRefreshUsed_Inr)
  then show ?thesis using issue_Inr [OF i] h fam [OF m(1)]
    by (auto simp: exchanged_def SaveRefresh_def update_conv')
qed

text \<open>C7: A refresh token works once. After it has been exchanged, every later presentation of it is
  refused, however often and whenever it comes. The presentations never touch the token that was issued in
  its place: every session starts a family of its own, so what a repeated use revokes is the spent token
  alone.\<close>

theorem Refresh_once:
  assumes "account_states a s" and "Refresh a e tok s = (Inr se, s1)"
    and "hashStr a (seRefreshToken se) \<noteq> hashStr a tok"
    and "\<forall>r \<in> set (gvals (refreshes s)). rfFamilyID r \<noteq> auuid e 1"
  shows "fst (Refresh a e' tok (replay a tok es s1)) = Inl ErrRefreshInvalid
    \<and> (\<exists>r. map_of (refreshes (replay a tok es s1)) (hashStr a (seRefreshToken se)) = Some r
         \<and> \<not> rfUsed r \<and> \<not> rfRevoked r)"
proof -
  have "rfFamilyID r \<noteq> auuid e 1" if "map_of (refreshes s) h = Some r" for h r
    using assms(4) that by (force simp: gvals_def dest: map_of_SomeD)
  then have "exchanged (hashStr a tok) (hashStr a (seRefreshToken se)) (replay a tok es s1)"
    using Refresh_exchanges [OF account_states_ok [OF assms(1)] assms(2,3)] exchanged_replay by blast
  then show ?thesis using exchanged_refused by (auto simp: exchanged_def)
qed

theorem Refresh_once_witness:
  "\<exists>se s1. Refresh stand (at_minute 9 ''c'') ''ta'' (fold (serve stand) stand_requests NewAccounts) = (Inr se, s1)
     \<and> fst (Refresh stand (at_minute 11 ''e'') ''ta'' (replay stand ''ta'' [at_minute 10 ''d''] s1)) = Inl ErrRefreshInvalid
     \<and> isl (fst (Refresh stand (at_minute 12 ''g'') ''tc'' (replay stand ''ta'' [at_minute 10 ''d''] s1))) = False"
proof -
  let ?s = "fold (serve stand) stand_requests NewAccounts"
  let ?r = "Refresh stand (at_minute 9 ''c'') ''ta'' ?s"
  have st: "account_states stand ?s"
    by (rule states_fold [OF states_new]) code_simp
  have "isl (fst ?r) = False" by code_simp
  then obtain se s1 where r: "?r = (Inr se, s1)" by (metis (no_types) isl_def prod.collapse sum.exhaust)
  have tok: "seRefreshToken se = ''tc''" using issue_Inr r by (auto elim!: Refresh_Inr simp: at_minute_def)
  have fam: "\<forall>r \<in> set (gvals (refreshes ?s)). rfFamilyID r \<noteq> auuid (at_minute 9 ''c'') 1" by code_simp
  have hash: "hashStr stand (seRefreshToken se) \<noteq> hashStr stand ''ta''" by (simp add: tok stand_def)
  have next_one: "isl (fst (Refresh stand (at_minute 12 ''g'') ''tc'' (replay stand ''ta'' [at_minute 10 ''d''] (snd ?r)))) = False"
    by code_simp
  show ?thesis using Refresh_once [OF st r hash fam, of "at_minute 11 ''e''" "[at_minute 10 ''d'']"] next_one r by auto
qed


section \<open>Sanctions\<close>

definition sanction_allowed :: "string \<Rightarrow> string \<Rightarrow> string \<Rightarrow> runes \<Rightarrow> Accounts \<Rightarrow> bool" where
  "sanction_allowed m i st reason s \<longleftrightarrow>
     m \<noteq> i \<and> st \<in> {UserActive, UserFrozen, UserBanned} \<and> int (length (TrimSpace reason)) \<ge> minSanctionReason
     \<and> map_of (usersByID s) i \<noteq> None"

lemma SetStatus_allowed:
  assumes "sanction_allowed m i st reason s" and u: "map_of (usersByID s) i = Some u"
    and u': "u' = u\<lparr>usStatus := st, usStatusReason := TrimSpace reason, usStatusBy := m, usStatusAt := Some (aclock e 0)\<rparr>"
  shows "SetStatus e m i st reason s = (Inr u', revoke_where (\<lambda>r. st = UserBanned \<and> rfUserID r = i)
    (LogAdminAction \<lparr>aaID = auuid e 0, aaActorID = m, aaAction = ''status:'' @ st, aaTargetID = i,
       aaReason = TrimSpace reason, aaCreatedAt = aclock e 0\<rparr> (put_user i u' s)))"
proof -
  have id: "revoke_where (\<lambda>r. False) t = t" for t
  proof -
    have "(\<lambda>(k, r). (k, r)) = (\<lambda>x. x)" by auto
    then show ?thesis by (simp add: revoke_where_def)
  qed
  show ?thesis
  proof (cases "st = UserBanned")
    case True
    then show ?thesis using assms(1) u
      by (simp add: SetStatus_def sanction_allowed_def SetUserStatus_def GetUserByID_def Let_def u' RevokeAllRefresh_def
          LogAdminAction_def not_less)
  next
    case False
    then show ?thesis using assms(1) u
      by (auto simp: SetStatus_def sanction_allowed_def SetUserStatus_def GetUserByID_def Let_def u' id LogAdminAction_def)
  qed
qed

text \<open>A moderator changes the state of an existing person other than himself, to one of the three known
  states and with a reason of at least ten characters, and in no other case; a refusal changes nothing. The
  change touches only that person, adds exactly one entry to the journal, and a ban revokes every refresh
  token of the person and of nobody else.\<close>

theorem SetStatus_result:
  assumes "SetStatus e m i st reason s = (r, s')"
  shows "((\<exists>u. r = Inr u) \<longleftrightarrow> sanction_allowed m i st reason s) \<and> ((\<exists>er. r = Inl er) \<longrightarrow> s' = s)
    \<and> (\<forall>u. r = Inr u \<longrightarrow> map_of (usersByID s') = (map_of (usersByID s))(i \<mapsto> u) \<and> usStatus u = st
         \<and> (\<exists>x. adminLog s' = adminLog s @ [x] \<and> aaActorID x = m \<and> aaTargetID x = i \<and> aaAction x = ''status:'' @ st
              \<and> aaReason x = TrimSpace reason)
         \<and> map_of (refreshes s') = (\<lambda>h. map_option (\<lambda>t.
              if st = UserBanned \<and> rfUserID t = i then t\<lparr>rfRevoked := True\<rparr> else t) (map_of (refreshes s) h)))"
proof (cases "sanction_allowed m i st reason s")
  case True
  then obtain u where u: "map_of (usersByID s) i = Some u" by (auto simp: sanction_allowed_def)
  show ?thesis
    using assms True unfolding SetStatus_allowed [OF True u refl] by (auto simp: LogAdminAction_def map_of_revoke)
next
  case False
  then show ?thesis
    using assms by (auto simp: SetStatus_def sanction_allowed_def SetUserStatus_def Let_def split: if_splits option.splits)
qed

theorem SetStatus_result_witness:
  "\<exists>r s'. SetStatus (at_minute 9 ''z'') ''a'' ''b'' ''active'' (runes_of ''a mistake of ours'')
       (fold (serve stand) stand_requests NewAccounts) = (r, s')
     \<and> (\<exists>u. r = Inr u \<and> usStatus u = ''active'') \<and> length (adminLog s') = 3"
proof -
  let ?s = "fold (serve stand) stand_requests NewAccounts"
  obtain r s' where r: "SetStatus (at_minute 9 ''z'') ''a'' ''b'' ''active'' (runes_of ''a mistake of ours'') ?s = (r, s')"
    by fastforce
  have al: "sanction_allowed ''a'' ''b'' ''active'' (runes_of ''a mistake of ours'') ?s" by code_simp
  have l: "length (adminLog ?s) = 2" by code_simp
  have c: "((\<exists>u. r = Inr u) \<longleftrightarrow> sanction_allowed ''a'' ''b'' ''active'' (runes_of ''a mistake of ours'') ?s) \<and>
     (\<forall>u. r = Inr u \<longrightarrow> usStatus u = ''active'' \<and> (\<exists>x. adminLog s' = adminLog ?s @ [x]))"
    using SetStatus_result [OF r] by blast
  then obtain u where u: "r = Inr u" using al by blast
  then obtain x where "usStatus u = ''active''" "adminLog s' = adminLog ?s @ [x]" using c by blast
  then show ?thesis using r u l by auto
qed


section \<open>The badge\<close>

lemma ReviewVerification_pending:
  assumes v: "map_of (verifications s) i = Some v" "vfStatus v = VerifyPending" "vfID v = i"
    and u: "map_of (usersByID s) (vfUserID v) = Some u" and ap: "ap \<or> int (length (TrimSpace r)) \<ge> minSanctionReason"
  shows "\<exists>s'. ReviewVerification e m i ap r s = (Inr (reviewed_verification e m ap r v), s')
     \<and> map_of (verifications s') = (map_of (verifications s))(i \<mapsto> reviewed_verification e m ap r v)
     \<and> map_of (usersByID s') = (map_of (usersByID s))(vfUserID v \<mapsto> (if ap then u\<lparr>usVerified := True\<rparr> else u))"
proof -
  have f: "vfID (reviewed_verification e m ap r v) = i" "vfUserID (reviewed_verification e m ap r v) = vfUserID v"
    by (simp_all add: reviewed_verification_def v(3))
  show ?thesis
    using assms f by (auto simp: ReviewVerification_def VerificationByID_def UpdateVerification_def SetVerified_def
        LogAdminAction_def update_conv' Let_def fun_upd_idem)
qed

text \<open>An application is decided once: the badge follows an approval, a refusal needs its reason, a second
  decision is refused.\<close>

theorem ReviewVerification_once:
  assumes "account_states a s" and "map_of (verifications s) i = Some v" and "vfStatus v = VerifyPending"
    and "map_of (usersByID s) (vfUserID v) = Some u" and "ap \<or> int (length (TrimSpace r)) \<ge> minSanctionReason"
  shows "\<exists>s'. ReviewVerification e m i ap r s = (Inr (reviewed_verification e m ap r v), s')
     \<and> map_of (usersByID s') = (map_of (usersByID s))(vfUserID v \<mapsto> (if ap then u\<lparr>usVerified := True\<rparr> else u))
     \<and> ReviewVerification e' m' i ap' r' s' = (Inl ErrVerifyClosed, s')"
proof -
  have "vfID v = i"
    using account_states_ok [OF assms(1)] keyed_get [OF _ assms(2)] by (simp add: accounts_ok_def badges_ok_def table_ok_def)
  then obtain s' where s': "ReviewVerification e m i ap r s = (Inr (reviewed_verification e m ap r v), s')"
     "map_of (verifications s') = (map_of (verifications s))(i \<mapsto> reviewed_verification e m ap r v)"
     "map_of (usersByID s') = (map_of (usersByID s))(vfUserID v \<mapsto> (if ap then u\<lparr>usVerified := True\<rparr> else u))"
    using ReviewVerification_pending [OF assms(2,3) _ assms(4,5)] by blast
  have "vfStatus (reviewed_verification e m ap r v) \<noteq> VerifyPending" by (simp add: reviewed_verification_def)
  then have "ReviewVerification e' m' i ap' r' s' = (Inl ErrVerifyClosed, s')"
    using s'(2) by (simp add: ReviewVerification_def VerificationByID_def)
  then show ?thesis using s'(1,3) by blast
qed


section \<open>Deferred deletion\<close>

text \<open>What one pass over different living people leaves.\<close>

definition erased :: "(nat \<Rightarrow> time) \<Rightarrow> nat \<Rightarrow> User list \<Rightarrow> Accounts \<Rightarrow> Accounts \<Rightarrow> bool" where
  "erased clk n us s s' \<longleftrightarrow>
     (\<forall>u \<in> set us. (\<exists>m \<ge> n. map_of (usersByID s') (usID u) = Some (anonymous u (clk m))) \<and> map_of (users s') (usPhone u) = None)
     \<and> (\<forall>i. i \<notin> usID ` set us \<longrightarrow> map_of (usersByID s') i = map_of (usersByID s) i)
     \<and> (\<forall>p. p \<notin> usPhone ` set us \<longrightarrow> map_of (users s') p = map_of (users s) p)
     \<and> map_of (refreshes s') = (\<lambda>h. map_option (\<lambda>r.
          if rfUserID r \<in> usID ` set us then r\<lparr>rfRevoked := True\<rparr> else r) (map_of (refreshes s) h))"

lemma Anonymize_erases:
  assumes "map_of (usersByID s) (usID u) = Some u" "live u"
  obtains s' where "Anonymize (usID u) t s = Inr s'"
    "map_of (usersByID s') = (map_of (usersByID s))(usID u \<mapsto> anonymous u t)"
    "map_of (users s') = (map_of (users s))(usPhone u := None)"
    "map_of (refreshes s') = (\<lambda>h. map_option (\<lambda>r.
       if rfUserID r = usID u then r\<lparr>rfRevoked := True\<rparr> else r) (map_of (refreshes s) h))"
  using assms by (auto simp: Anonymize_def live_def update_conv' delete_conv' map_of_revoke)

lemma anonymize_all_erases:
  assumes "distinct (map usID us)" "distinct (map usPhone us)"
    and "\<forall>u \<in> set us. map_of (usersByID s) (usID u) = Some u \<and> live u"
  shows "\<exists>s'. anonymize_all clk n us s = (int (length us), s') \<and> erased clk n us s s'"
  using assms
proof (induction us arbitrary: n s)
  case Nil
  then show ?case by (simp add: erased_def option.map_ident)
next
  case (Cons u us)
  obtain s1 where an: "Anonymize (usID u) (clk n) s = Inr s1"
    and s1: "map_of (usersByID s1) = (map_of (usersByID s))(usID u \<mapsto> anonymous u (clk n))"
      "map_of (users s1) = (map_of (users s))(usPhone u := None)"
      "map_of (refreshes s1) = (\<lambda>h. map_option (\<lambda>r.
         if rfUserID r = usID u then r\<lparr>rfRevoked := True\<rparr> else r) (map_of (refreshes s) h))"
    using Cons.prems(3) Anonymize_erases [of s u "clk n"] by auto
  have d: "usID v \<noteq> usID u" "usPhone v \<noteq> usPhone u" if "v \<in> set us" for v
    using Cons.prems(1,2) that by (auto simp: image_iff)
  then have "\<forall>v \<in> set us. map_of (usersByID s1) (usID v) = Some v \<and> live v" using Cons.prems(3) s1(1) by auto
  then obtain s' where s': "anonymize_all clk (Suc n) us s1 = (int (length us), s')" "erased clk (Suc n) us s1 s'"
    using Cons.IH [of s1 "Suc n"] Cons.prems(1,2) by auto
  note er = s'(2) [unfolded erased_def]
  have u: "usID u \<notin> usID ` set us" "usPhone u \<notin> usPhone ` set us" using Cons.prems(1,2) by auto
  have "\<exists>m \<ge> n. map_of (usersByID s') (usID v) = Some (anonymous v (clk m))" "map_of (users s') (usPhone v) = None"
    if v: "v \<in> set (u # us)" for v
  proof -
    consider "v = u" | "v \<in> set us" using v by auto
    then have "(\<exists>m \<ge> n. map_of (usersByID s') (usID v) = Some (anonymous v (clk m))) \<and> map_of (users s') (usPhone v) = None"
    proof cases
      case 1
      then show ?thesis using er u s1(1,2) by auto
    next
      case 2
      then show ?thesis using er Suc_leD by blast
    qed
    then show "\<exists>m \<ge> n. map_of (usersByID s') (usID v) = Some (anonymous v (clk m))" "map_of (users s') (usPhone v) = None"
      by blast+
  qed
  moreover have "map_of (usersByID s') i = map_of (usersByID s) i" if "i \<notin> usID ` set (u # us)" for i
    using er that s1(1) by auto
  moreover have "map_of (users s') p = map_of (users s) p" if "p \<notin> usPhone ` set (u # us)" for p
    using er that s1(2) by auto
  moreover have "map_of (refreshes s') h = map_option (\<lambda>r.
      if rfUserID r \<in> usID ` set (u # us) then r\<lparr>rfRevoked := True\<rparr> else r) (map_of (refreshes s) h)" for h
    using er s1(3) by (cases "map_of (refreshes s) h") auto
  ultimately have "erased clk n (u # us) s s'" unfolding erased_def by blast
  then show ?case using an s'(1) by simp
qed

lemma due_rows:
  assumes ok: "accounts_ok a s" and few: "int (length (filter (due_deletion now) (gvals (usersByID s)))) \<le> 100"
    and due: "us = DueDeletions rank now 100 s"
  shows "set us = {u \<in> set (gvals (usersByID s)). due_deletion now u}" "distinct (map usID us)" "distinct (map usPhone us)"
    "int (length us) = int (length (filter (due_deletion now) (gvals (usersByID s))))"
    "\<forall>u \<in> set us. map_of (usersByID s) (usID u) = Some u \<and> live u"
proof -
  have k: "keyed usID (usersByID s)" using ok by (simp add: accounts_ok_def)
  have us: "us = filter (due_deletion now) (grange rank (usersByID s))"
    using few by (simp add: due DueDeletions_def limit_or_def)
  then show "set us = {u \<in> set (gvals (usersByID s)). due_deletion now u}"
    and "int (length us) = int (length (filter (due_deletion now) (gvals (usersByID s))))" by auto
  show d: "distinct (map usID us)" using keyed_distinct_grange [OF k, of rank] by (simp add: us distinct_map_filter)
  show rows: "\<forall>u \<in> set us. map_of (usersByID s) (usID u) = Some u \<and> live u"
    using us keyed_mem [OF k] by (auto simp: due_deletion_def live_def)
  have "inj_on usPhone (set us)"
    using rows phone_unique [of a s] ok by (auto simp: inj_on_def accounts_ok_def) (metis option.inject)
  then show "distinct (map usPhone us)" using d by (simp add: distinct_map)
qed

text \<open>One pass of the deletion worker erases exactly the accounts whose thirty days are over, when they
  are at most a hundred: each of them keeps its identifier and loses its name, number and badge, its number
  is free again and its tokens are revoked; every other account, number and token stays as it was, and the
  pass reports how many it erased.\<close>

theorem RunDeletions_result:
  assumes "account_states a s"
    and "int (length (filter (due_deletion (aclock e 0)) (gvals (usersByID s)))) \<le> 100"
  shows "\<exists>s'. RunDeletions e s = (int (length (filter (due_deletion (aclock e 0)) (gvals (usersByID s)))), s')
    \<and> (\<forall>i u. map_of (usersByID s) i = Some u \<longrightarrow>
         (if due_deletion (aclock e 0) u
          then (\<exists>t. map_of (usersByID s') i = Some (anonymous u t)) \<and> map_of (users s') (usPhone u) = None
          else map_of (usersByID s') i = Some u \<and> (live u \<longrightarrow> map_of (users s') (usPhone u) = Some u)))
    \<and> (\<forall>h r. map_of (refreshes s) h = Some r \<longrightarrow> (\<exists>r'. map_of (refreshes s') h = Some r'
         \<and> (rfRevoked r' \<longleftrightarrow> rfRevoked r \<or>
              (\<exists>u. map_of (usersByID s) (rfUserID r) = Some u \<and> due_deletion (aclock e 0) u))))"
proof -
  let ?us = "DueDeletions (aiter e) (aclock e 0) 100 s"
  have ok: "accounts_ok a s" using assms(1) by (rule account_states_ok)
  have k: "keyed usID (usersByID s)" using ok by (simp add: accounts_ok_def)
  note due = due_rows [OF ok assms(2) refl, of "aiter e"]
  obtain s' where s': "anonymize_all (aclock e) 1 ?us s = (int (length ?us), s')" "erased (aclock e) 1 ?us s s'"
    using anonymize_all_erases [OF due(2,3,5)] by blast
  note er = s'(2) [unfolded erased_def]
  have ids: "i \<in> usID ` set ?us \<longleftrightarrow> (\<exists>u. map_of (usersByID s) i = Some u \<and> due_deletion (aclock e 0) u)" for i
    using due(1) keyed_get [OF k] keyed_mem [OF k] by (auto simp: image_iff)
  have "if due_deletion (aclock e 0) u
      then (\<exists>t. map_of (usersByID s') i = Some (anonymous u t)) \<and> map_of (users s') (usPhone u) = None
      else map_of (usersByID s') i = Some u \<and> (live u \<longrightarrow> map_of (users s') (usPhone u) = Some u)"
    if u: "map_of (usersByID s) i = Some u" for i u
  proof (cases "due_deletion (aclock e 0) u")
    case True
    then have "u \<in> set ?us" "usID u = i" using due(1) keyed_get [OF k u] keyed_get_mem [OF k u] by auto
    then show ?thesis using er True by auto
  next
    case False
    have "usPhone v \<noteq> usPhone u" if "v \<in> set ?us" for v
    proof
      assume "usPhone v = usPhone u"
      then have "usID v = i" using phone_unique [of a s "usID v" v i u] ok u due(5) that by (auto simp: accounts_ok_def)
      then show False using due(1,5) that u False by auto
    qed
    then have "usPhone u \<notin> usPhone ` set ?us" by (metis imageE)
    moreover have "i \<notin> usID ` set ?us" using ids u False by auto
    ultimately show ?thesis using er u False accounts_okD(3) [OF ok u] by auto
  qed
  moreover have "\<exists>r'. map_of (refreshes s') h = Some r' \<and> (rfRevoked r' \<longleftrightarrow> rfRevoked r \<or>
      (\<exists>u. map_of (usersByID s) (rfUserID r) = Some u \<and> due_deletion (aclock e 0) u))"
    if "map_of (refreshes s) h = Some r" for h r
    using er that ids [of "rfUserID r"] by auto
  ultimately show ?thesis using s'(1) due(4) by (auto simp: RunDeletions_def)
qed


definition leaving :: Accounts where
  "leaving = fold (serve stand)
     (take 4 stand_requests @ [AqDelete (at_minute 5 ''d'') ''b'', AqDelete (at_minute 200 ''d'') ''a'']) NewAccounts"

theorem RunDeletions_result_witness:
  "\<exists>s' u. RunDeletions (at_minute 43300 ''w'') leaving = (1, s') \<and> map_of (usersByID leaving) ''b'' = Some u
     \<and> usPhone u = runes_of ''+2'' \<and> (\<exists>t. map_of (usersByID s') ''b'' = Some (anonymous u t))
     \<and> map_of (users s') (usPhone u) = None"
proof -
  let ?now = "aclock (at_minute 43300 ''w'') 0"
  have st: "account_states stand leaving"
    unfolding leaving_def by (rule states_fold [OF states_new]) code_simp
  have one: "int (length (filter (due_deletion ?now) (gvals (usersByID leaving)))) = 1" by code_simp
  then have few: "int (length (filter (due_deletion ?now) (gvals (usersByID leaving)))) \<le> 100" by simp
  have "map_option (\<lambda>u. (usPhone u, due_deletion ?now u)) (map_of (usersByID leaving) ''b'') = Some (runes_of ''+2'', True)"
    by code_simp
  then obtain u where "map_of (usersByID leaving) ''b'' = Some u" "usPhone u = runes_of ''+2''" "due_deletion ?now u" by auto
  then show ?thesis using RunDeletions_result [OF st few] one by fastforce
qed

end
