(* ===== verification/Catalog_Categories.thy ===== *)
theory Catalog_Categories
  imports Texts Regexp Float64
begin

text \<open>
  The directory of kinds of work and machines: categories and their tree
  (\<^verbatim>\<open>catalog/internal/catalog/category.go\<close>), the rules of their edition (\<^verbatim>\<open>edit.go\<close>), the in-memory store
  (\<^verbatim>\<open>store/memory.go\<close>) and the handlers of the moderators (\<^verbatim>\<open>httpapi/categories_edit.go\<close>). The decoder of
  JSON is not modelled: a handler receives the decoded body, or none when decoding failed, and answers
  with a status and either the code of a problem or a value.
\<close>


section \<open>Records\<close>

type_synonym Kind = runes

definition KindWork :: Kind where "KindWork = runes_of ''work''"
definition KindUnit :: Kind where "KindUnit = runes_of ''unit''"

record SpecField =
  sfKey :: runes
  sfType :: runes
  sfUnit :: runes
  sfMin :: "float64 option"
  sfMax :: "float64 option"
  sfOptions :: "runes list"
  sfLabelHy :: runes
  sfLabelRu :: runes
  sfLabelEn :: runes
  sfRequired :: bool

record Names =
  nHy :: runes
  nRu :: runes
  nEn :: runes

text \<open>A category without its children, which only the tree has.\<close>

record Category =
  caID :: runes
  caParentID :: "runes option"
  caKind :: Kind
  caSlug :: runes
  caName :: Names
  caIcon :: runes
  caSpecTemplate :: "SpecField list"
  caSortOrder :: int
  caActive :: bool

datatype cat_tree = Node Category "cat_tree list"

datatype cat_err =
    ErrNoName | ErrBadSlug | ErrSlugTaken | ErrBadKind | ErrBadIcon | ErrBadSpec | ErrOwnParent | ErrParentKind
  | ErrHasChildren | ErrCatNotFound


section \<open>The tree\<close>

text \<open>
  The recursion of \<^verbatim>\<open>build\<close> follows the links between rows, so nothing in its form bounds it: the
  argument is the depth the recursion may reach, \<open>None\<close> a recursion that goes deeper.
\<close>

definition cat_exists :: "Category list \<Rightarrow> runes \<Rightarrow> bool" where
  "cat_exists flat i \<longleftrightarrow> i \<in> set (map caID flat)"

definition has_parent :: "Category list \<Rightarrow> Category \<Rightarrow> bool" where
  "has_parent flat c \<longleftrightarrow> (case caParentID c of None \<Rightarrow> False | Some p \<Rightarrow> cat_exists flat p)"

definition childrenOf :: "Category list \<Rightarrow> runes \<Rightarrow> Category list" where
  "childrenOf flat i = filter (\<lambda>c. has_parent flat c \<and> caParentID c = Some i) flat"

definition roots :: "Category list \<Rightarrow> Category list" where
  "roots flat = filter (\<lambda>c. \<not> has_parent flat c) flat"

fun all_some :: "'a option list \<Rightarrow> 'a list option" where
  "all_some [] = Some []"
| "all_some (None # xs) = None"
| "all_some (Some x # xs) = map_option (Cons x) (all_some xs)"

fun build :: "nat \<Rightarrow> Category list \<Rightarrow> Category \<Rightarrow> cat_tree option" where
  "build 0 flat c = None"
| "build (Suc n) flat c = map_option (Node c) (all_some (map (build n flat) (childrenOf flat (caID c))))"

definition BuildTree :: "nat \<Rightarrow> Category list \<Rightarrow> cat_tree list option" where
  "BuildTree n flat = all_some (map (build n flat) (roots flat))"


section \<open>Rules of edition\<close>

definition slug_char :: "rune \<Rightarrow> bool" where
  "slug_char r \<longleftrightarrow> 97 \<le> r \<and> r \<le> 122 \<or> 48 \<le> r \<and> r \<le> 57"

text \<open>\<^verbatim>\<open>^[a-z0-9]+(-[a-z0-9]+)*$\<close>, anchored at both ends.\<close>

definition slugRe :: matcher where
  "slugRe = seq (\<lambda>s. many (cls slug_char) 1 s) (\<lambda>s. many (seq (cls (\<lambda>r. r = 45)) (\<lambda>s. many (cls slug_char) 1 s)) 0 s)"

definition slug_match :: "runes \<Rightarrow> bool" where
  "slug_match s \<longleftrightarrow> [] \<in> set (slugRe s)"

definition specTypes :: "runes list" where
  "specTypes = map runes_of [''number'', ''text'', ''select'', ''bool'']"

definition ValidateName :: "Names \<Rightarrow> cat_err + Names" where
  "ValidateName n =
     (let n = \<lparr>nHy = TrimSpace (nHy n), nRu = TrimSpace (nRu n), nEn = TrimSpace (nEn n)\<rparr>
      in if nHy n = [] \<or> nRu n = [] \<or> nEn n = [] then Inl ErrNoName else Inr n)"

text \<open>The lower case of a rune is Unicode's, a parameter.\<close>

definition ValidateSlug :: "(rune \<Rightarrow> rune) \<Rightarrow> runes \<Rightarrow> cat_err + runes" where
  "ValidateSlug lower slug =
     (let slug = map lower (TrimSpace slug)
      in if \<not> slug_match slug then Inl ErrBadSlug else Inr slug)"

definition bad_field :: "runes list \<Rightarrow> SpecField \<Rightarrow> bool" where
  "bad_field seen f \<longleftrightarrow>
     \<not> slug_match (sfKey f) \<or> sfKey f \<in> set seen \<or> sfType f \<notin> set specTypes
     \<or> sfType f = runes_of ''select'' \<and> sfOptions f = []
     \<or> (case (sfMin f, sfMax f) of (Some lo, Some hi) \<Rightarrow> lo > hi | _ \<Rightarrow> False)
     \<or> TrimSpace (sfLabelRu f) = []"

fun validate_fields :: "runes list \<Rightarrow> SpecField list \<Rightarrow> cat_err + SpecField list" where
  "validate_fields seen [] = Inr []"
| "validate_fields seen (f # fs) =
     (let f = f\<lparr>sfKey := TrimSpace (sfKey f)\<rparr>
      in if bad_field seen f then Inl ErrBadSpec
         else case validate_fields (sfKey f # seen) fs of Inl e \<Rightarrow> Inl e | Inr out \<Rightarrow> Inr (f # out))"

definition ValidateSpec :: "SpecField list \<Rightarrow> cat_err + SpecField list" where
  "ValidateSpec = validate_fields []"

definition ValidKind :: "Kind \<Rightarrow> bool" where
  "ValidKind k \<longleftrightarrow> k = KindWork \<or> k = KindUnit"


section \<open>The store\<close>

type_synonym Categories = "Category list"

text \<open>The rows the store of a development stand begins with; the Russian and Armenian names by code points.\<close>

definition work_row :: "string \<Rightarrow> string \<Rightarrow> runes \<Rightarrow> runes \<Rightarrow> string \<Rightarrow> string \<Rightarrow> int \<Rightarrow> Category" where
  "work_row i slug ru hy en icon order =
     \<lparr>caID = runes_of i, caParentID = None, caKind = KindWork, caSlug = runes_of slug,
      caName = \<lparr>nHy = hy, nRu = ru, nEn = runes_of en\<rparr>, caIcon = runes_of icon, caSpecTemplate = [],
      caSortOrder = order, caActive = True\<rparr>"

definition NewCategories :: Categories where
  "NewCategories =
    [work_row ''c02b2502-1789-5217-be9f-d5fc04fe1cae'' ''work-earth''
       [1050, 1086, 1087, 1082, 1072, 32, 47, 32, 1079, 1077, 1084, 1083, 1103, 1085, 1099, 1077]
       [1363, 1400, 1408, 1400, 1410, 1396, 32, 47, 32, 1392, 1400, 1394, 1377, 1397, 1387, 1398, 32, 1377, 1399, 1389, 1377, 1407, 1377, 1398, 1412, 1398, 1381, 1408] ''Digging / earthworks'' ''pickaxe'' 10,
     work_row ''53c1323a-bcf6-5f4e-bed4-08e1884f61ac'' ''work-transport''
       [1055, 1077, 1088, 1077, 1074, 1086, 1079, 1082, 1072]
       [1363, 1400, 1389, 1377, 1380, 1408, 1400, 1410, 1396] ''Transport'' ''truck'' 20,
     work_row ''2bba63e8-221c-5cf9-a1f1-1df837b8ae8d'' ''work-crane''
       [1050, 1088, 1072, 1085, 32, 47, 32, 1087, 1086, 1076, 1098, 1105, 1084]
       [1329, 1396, 1378, 1377, 1408, 1393, 1387, 1401, 32, 47, 32, 1378, 1377, 1408, 1393, 1408, 1377, 1409, 1400, 1410, 1396] ''Crane / lifting'' ''crane'' 30,
     work_row ''ac1a993d-8d9d-5496-8c26-3d2e80163260'' ''work-other''
       [1044, 1088, 1091, 1075, 1086, 1077]
       [1329, 1397, 1388] ''Other'' ''wrench'' 900]"

definition by_order :: "Category \<Rightarrow> Category \<Rightarrow> bool" where
  "by_order x y \<longleftrightarrow> caSortOrder x < caSortOrder y"

definition List_categories :: "Kind \<Rightarrow> Categories \<Rightarrow> Category list" where
  "List_categories kind s = sort_by by_order (filter (\<lambda>c. (kind = [] \<or> caKind c = kind) \<and> caActive c) s)"

definition ListAll :: "Kind \<Rightarrow> Categories \<Rightarrow> Category list" where
  "ListAll kind s = sort_by by_order (filter (\<lambda>c. kind = [] \<or> caKind c = kind) s)"

definition CategoryByID :: "runes \<Rightarrow> Categories \<Rightarrow> cat_err + Category" where
  "CategoryByID i s = or_err (find (\<lambda>c. caID c = i \<and> caActive c) s) ErrCatNotFound"

definition AnyByID :: "runes \<Rightarrow> Categories \<Rightarrow> cat_err + Category" where
  "AnyByID i s = or_err (find (\<lambda>c. caID c = i) s) ErrCatNotFound"

definition CreateCategory :: "Category \<Rightarrow> Categories \<Rightarrow> Categories" where
  "CreateCategory c s = s @ [c\<lparr>caActive := True\<rparr>]"

text \<open>Both writes change the first row with the identifier.\<close>

fun change_first :: "runes \<Rightarrow> (Category \<Rightarrow> Category) \<Rightarrow> Categories \<Rightarrow> cat_err + Categories" where
  "change_first i f [] = Inl ErrCatNotFound"
| "change_first i f (c # cs) =
     (if caID c = i then Inr (f c # cs)
      else case change_first i f cs of Inl e \<Rightarrow> Inl e | Inr cs' \<Rightarrow> Inr (c # cs'))"

definition UpdateCategory :: "Category \<Rightarrow> Categories \<Rightarrow> cat_err + Categories" where
  "UpdateCategory c =
     change_first (caID c) (\<lambda>ex. c\<lparr>caSlug := caSlug ex, caKind := caKind ex, caActive := caActive ex\<rparr>)"

definition SetCategoryActive :: "runes \<Rightarrow> bool \<Rightarrow> Categories \<Rightarrow> cat_err + Categories" where
  "SetCategoryActive i active = change_first i (\<lambda>c. c\<lparr>caActive := active\<rparr>)"

definition HasChildren :: "runes \<Rightarrow> Categories \<Rightarrow> bool" where
  "HasChildren i s \<longleftrightarrow> (\<exists>c \<in> set s. caParentID c = Some i)"

definition SlugTaken :: "runes \<Rightarrow> runes \<Rightarrow> Categories \<Rightarrow> bool" where
  "SlugTaken slug exceptID s \<longleftrightarrow> (\<exists>c \<in> set s. caSlug c = slug \<and> caID c \<noteq> exceptID)"


section \<open>Handlers\<close>

type_synonym 'a answer = "(int \<times> string) + (int \<times> 'a)"

record categoryBody =
  cbParentID :: "runes option"
  cbKind :: runes
  cbSlug :: runes
  cbName :: Names
  cbIcon :: runes
  cbSpecs :: "SpecField list"
  cbSort :: int

fun failCategory :: "cat_err \<Rightarrow> int \<times> string" where
  "failCategory ErrNoName = (400, ''no_name'')"
| "failCategory ErrBadSlug = (400, ''bad_slug'')"
| "failCategory ErrSlugTaken = (409, ''slug_taken'')"
| "failCategory ErrBadKind = (400, ''bad_kind'')"
| "failCategory ErrBadSpec = (400, ''bad_spec'')"
| "failCategory ErrOwnParent = (400, ''own_parent'')"
| "failCategory ErrParentKind = (400, ''parent_kind'')"
| "failCategory ErrHasChildren = (409, ''has_children'')"
| "failCategory ErrCatNotFound = (404, ''not_found'')"
| "failCategory ErrBadIcon = (500, ''internal'')"

definition iconOr :: "runes \<Rightarrow> runes" where
  "iconOr icon = (if TrimSpace icon = [] then runes_of ''wrench'' else TrimSpace icon)"

definition sortOr :: "int \<Rightarrow> int" where
  "sortOr order = (if order \<le> 0 then 100 else order)"

definition checkParent :: "runes option \<Rightarrow> Kind \<Rightarrow> runes \<Rightarrow> Categories \<Rightarrow> cat_err + runes option" where
  "checkParent parentID kind selfID s =
     (case parentID of
        None \<Rightarrow> Inr None
      | Some p \<Rightarrow>
          if TrimSpace p = [] then Inr None
          else if TrimSpace p = selfID then Inl ErrOwnParent
          else case AnyByID (TrimSpace p) s of
                 Inl e \<Rightarrow> Inl e
               | Inr parent \<Rightarrow> if caKind parent \<noteq> kind then Inl ErrParentKind else Inr (Some (TrimSpace p)))"

text \<open>The checks of a new category in the order of the handler; \<open>i\<close> is the generated identifier.\<close>

definition checked_category :: "(rune \<Rightarrow> rune) \<Rightarrow> runes \<Rightarrow> categoryBody \<Rightarrow> Categories \<Rightarrow> cat_err + Category" where
  "checked_category lower i body s =
     (if \<not> ValidKind (TrimSpace (cbKind body)) then Inl ErrBadKind
      else case ValidateSlug lower (cbSlug body) of Inl e \<Rightarrow> Inl e | Inr slug \<Rightarrow>
      case ValidateName (cbName body) of Inl e \<Rightarrow> Inl e | Inr name \<Rightarrow>
      case ValidateSpec (cbSpecs body) of Inl e \<Rightarrow> Inl e | Inr specs \<Rightarrow>
      if SlugTaken slug [] s then Inl ErrSlugTaken
      else case checkParent (cbParentID body) (TrimSpace (cbKind body)) [] s of Inl e \<Rightarrow> Inl e | Inr parent \<Rightarrow>
      Inr \<lparr>caID = i, caParentID = parent, caKind = TrimSpace (cbKind body), caSlug = slug, caName = name,
           caIcon = iconOr (cbIcon body), caSpecTemplate = specs, caSortOrder = sortOr (cbSort body), caActive = True\<rparr>)"

definition createCategory :: "(rune \<Rightarrow> rune) \<Rightarrow> runes \<Rightarrow> categoryBody option \<Rightarrow> Categories \<Rightarrow> Category answer \<times> Categories" where
  "createCategory lower i body s =
     (case body of
        None \<Rightarrow> (Inl (400, ''bad_request''), s)
      | Some b \<Rightarrow>
          case checked_category lower i b s of
            Inl e \<Rightarrow> (Inl (failCategory e), s)
          | Inr c \<Rightarrow> (Inr (201, c), CreateCategory c s))"

definition edited_category :: "categoryBody \<Rightarrow> Category \<Rightarrow> Categories \<Rightarrow> cat_err + Category" where
  "edited_category body current s =
     (case ValidateName (cbName body) of Inl e \<Rightarrow> Inl e | Inr name \<Rightarrow>
      case ValidateSpec (cbSpecs body) of Inl e \<Rightarrow> Inl e | Inr specs \<Rightarrow>
      case checkParent (cbParentID body) (caKind current) (caID current) s of Inl e \<Rightarrow> Inl e | Inr parent \<Rightarrow>
      Inr (current\<lparr>caParentID := parent, caName := name, caIcon := iconOr (cbIcon body), caSpecTemplate := specs,
             caSortOrder := sortOr (cbSort body)\<rparr>))"

definition updateCategory :: "runes \<Rightarrow> categoryBody option \<Rightarrow> Categories \<Rightarrow> Category answer \<times> Categories" where
  "updateCategory i body s =
     (case body of
        None \<Rightarrow> (Inl (400, ''bad_request''), s)
      | Some b \<Rightarrow>
          case AnyByID i s of
            Inl _ \<Rightarrow> (Inl (404, ''not_found''), s)
          | Inr current \<Rightarrow>
              case edited_category b current s of
                Inl e \<Rightarrow> (Inl (failCategory e), s)
              | Inr c \<Rightarrow>
                  case UpdateCategory c s of
                    Inl _ \<Rightarrow> (Inl (500, ''internal''), s)
                  | Inr s' \<Rightarrow> (Inr (200, c), s'))"

definition toggleCategory :: "runes \<Rightarrow> bool option \<Rightarrow> Categories \<Rightarrow> Category answer \<times> Categories" where
  "toggleCategory i body s =
     (case body of
        None \<Rightarrow> (Inl (400, ''bad_request''), s)
      | Some active \<Rightarrow>
          if \<not> active \<and> HasChildren i s then (Inl (failCategory ErrHasChildren), s)
          else case SetCategoryActive i active s of
                 Inl _ \<Rightarrow> (Inl (404, ''not_found''), s)
               | Inr s' \<Rightarrow>
                   (case AnyByID i s' of
                      Inl _ \<Rightarrow> (Inl (404, ''not_found''), s')
                    | Inr c \<Rightarrow> (Inr (200, c), s')))"

definition allCategories :: "runes \<Rightarrow> Categories \<Rightarrow> Category list answer" where
  "allCategories q s =
     (let kind = TrimSpace q
      in if kind \<noteq> [] \<and> \<not> ValidKind kind then Inl (400, ''bad_kind'') else Inr (200, ListAll kind s))"

text \<open>The public listing, as a flat list or as a tree, and one category.\<close>

datatype listing = Flat "Category list" | Tree "cat_tree list"

definition list_handler :: "nat \<Rightarrow> runes \<Rightarrow> runes \<Rightarrow> Categories \<Rightarrow> listing answer option" where
  "list_handler n kind flat s =
     (if kind \<noteq> [] \<and> kind \<noteq> KindWork \<and> kind \<noteq> KindUnit then Some (Inl (400, ''invalid_kind''))
      else let items = List_categories kind s
           in if flat = runes_of ''1'' then Some (Inr (200, Flat items))
              else map_option (\<lambda>t. Inr (200, Tree t)) (BuildTree n items))"

definition byID_handler :: "runes \<Rightarrow> Categories \<Rightarrow> Category answer" where
  "byID_handler i s =
     (case CategoryByID i s of Inl _ \<Rightarrow> Inl (404, ''not_found'') | Inr c \<Rightarrow> Inr (200, c))"

end
