(* ===== verification/Catalog_Tree.thy ===== *)
theory Catalog_Tree
  imports Catalog_Categories
begin

text \<open>
  The tree of the directory: the recursion over the links always ends, every category that hangs on a root
  appears exactly once, and what a cycle of parents does.
\<close>

fun nodes :: "cat_tree \<Rightarrow> Category list" where
  "nodes (Node c ts) = c # concat (map nodes ts)"

definition forest :: "cat_tree list \<Rightarrow> Category list" where
  "forest ts = concat (map nodes ts)"

lemma all_some_Some: "all_some xs = Some ys \<longleftrightarrow> xs = map Some ys"
  by (induction xs arbitrary: ys rule: all_some.induct) auto

lemma all_some_ex: "(\<forall>x \<in> set xs. x \<noteq> None) \<Longrightarrow> \<exists>ys. all_some xs = Some ys"
  by (induction xs rule: all_some.induct) auto

text \<open>A category at depth \<open>k\<close>: a root, or a row whose parent is a row at the depth before.\<close>

inductive at_depth :: "Category list \<Rightarrow> nat \<Rightarrow> Category \<Rightarrow> bool" for flat where
  depth_root: "c \<in> set flat \<Longrightarrow> \<not> has_parent flat c \<Longrightarrow> at_depth flat 0 c"
| depth_child: "at_depth flat k p \<Longrightarrow> c \<in> set flat \<Longrightarrow> caParentID c = Some (caID p) \<Longrightarrow> at_depth flat (Suc k) c"

inductive_cases at_depth_0: "at_depth flat 0 c"
inductive_cases at_depth_Suc: "at_depth flat (Suc k) c"

definition hangs :: "Category list \<Rightarrow> Category \<Rightarrow> bool" where
  "hangs flat c \<longleftrightarrow> (\<exists>k. at_depth flat k c)"

lemma depth_mem: "at_depth flat k c \<Longrightarrow> c \<in> set flat"
  by (auto elim: at_depth.cases)

lemma same_row: "distinct (map caID flat) \<Longrightarrow> x \<in> set flat \<Longrightarrow> y \<in> set flat \<Longrightarrow> caID x = caID y \<Longrightarrow> x = y"
  by (metis distinct_map inj_onD)

lemma parent_exists: "c \<in> set flat \<Longrightarrow> p \<in> set flat \<Longrightarrow> caParentID c = Some (caID p) \<Longrightarrow> has_parent flat c"
  by (auto simp: has_parent_def cat_exists_def)

lemma depth_unique:
  assumes d: "distinct (map caID flat)"
  shows "at_depth flat k c \<Longrightarrow> at_depth flat l c \<Longrightarrow> k = l"
proof (induction k c arbitrary: l rule: at_depth.induct)
  case (depth_root c)
  show ?case
  proof (cases l)
    case (Suc m)
    then show ?thesis using depth_root by (metis at_depth_Suc depth_mem parent_exists)
  qed simp
next
  case (depth_child k p c)
  show ?case
  proof (cases l)
    case 0
    then show ?thesis using depth_child by (metis at_depth_0 depth_mem parent_exists)
  next
    case (Suc m)
    then obtain q where q: "at_depth flat m q" "caParentID c = Some (caID q)" using depth_child.prems at_depth_Suc by metis
    then have "q = p" using depth_child.hyps same_row [OF d] depth_mem by (metis option.inject)
    then show ?thesis using depth_child.IH q Suc by simp
  qed
qed

text \<open>A row at depth \<open>k\<close> has a row at every depth before it, so depths stay below the number of rows.\<close>

lemma depth_above: "at_depth flat k c \<Longrightarrow> j \<le> k \<Longrightarrow> \<exists>x. at_depth flat j x"
proof (induction k c rule: at_depth.induct)
  case (depth_child k p c)
  show ?case
  proof (cases "j = Suc k")
    case True
    then show ?thesis using at_depth.depth_child [OF depth_child.hyps(1-3)] by blast
  next
    case False
    then show ?thesis using depth_child by simp
  qed
qed (auto intro: at_depth.depth_root)

lemma depth_less:
  assumes d: "distinct (map caID flat)" and k: "at_depth flat k c"
  shows "k < length flat"
proof -
  obtain f where f: "\<And>j. j \<le> k \<Longrightarrow> at_depth flat j (f j)" using depth_above [OF k] by metis
  have "inj_on f {..k}" using f depth_unique [OF d] by (metis atMost_iff inj_onI)
  then have "card {..k} \<le> card (set flat)" using f depth_mem by (intro card_inj_on_le [of f]) auto
  also have "\<dots> \<le> length flat" by (rule card_length)
  finally show ?thesis by simp
qed

text \<open>What the subtree of a row holds: the rows that climb to it.\<close>

inductive below :: "Category list \<Rightarrow> Category \<Rightarrow> nat \<Rightarrow> Category \<Rightarrow> bool" for flat c where
  below_refl: "below flat c 0 c"
| below_child: "below flat c m p \<Longrightarrow> x \<in> set flat \<Longrightarrow> caParentID x = Some (caID p) \<Longrightarrow> below flat c (Suc m) x"

inductive_cases below_0: "below flat c 0 x"
inductive_cases below_Suc: "below flat c (Suc m) x"

lemma below_depth: "below flat c m x \<Longrightarrow> at_depth flat k c \<Longrightarrow> at_depth flat (k + m) x"
  by (induction rule: below.induct) (auto intro: at_depth.depth_child)

lemma below_first:
  "below flat c (Suc m) x \<Longrightarrow> c \<in> set flat \<Longrightarrow> \<exists>d \<in> set (childrenOf flat (caID c)). below flat d m x"
proof (induction m arbitrary: x)
  case 0
  then show ?case
    by (auto elim!: below_Suc below_0 intro!: below_refl simp: childrenOf_def parent_exists)
next
  case (Suc m)
  then obtain p where "below flat c (Suc m) p" "x \<in> set flat" "caParentID x = Some (caID p)" by (auto elim: below_Suc)
  then show ?case using Suc by (metis below_child)
qed

lemma below_step: "below flat d m x \<Longrightarrow> d \<in> set (childrenOf flat (caID c)) \<Longrightarrow> below flat c (Suc m) x"
  by (induction rule: below.induct) (auto simp: childrenOf_def intro: below.intros)

lemma below_same_depth:
  assumes d: "distinct (map caID flat)"
  shows "below flat c m x \<Longrightarrow> below flat c' m x \<Longrightarrow> c \<in> set flat \<Longrightarrow> c' \<in> set flat \<Longrightarrow> c = c'"
proof (induction m arbitrary: x)
  case 0
  then show ?case by (auto elim!: below_0)
next
  case (Suc m)
  obtain p q where "below flat c m p" "caParentID x = Some (caID p)" "below flat c' m q" "caParentID x = Some (caID q)"
    using Suc.prems(1,2) by (auto elim!: below_Suc)
  moreover have "p \<in> set flat" "q \<in> set flat" using calculation Suc.prems(3,4) by (auto elim: below.cases)
  ultimately show ?case using Suc.IH Suc.prems(3,4) same_row [OF d] by (metis option.inject)
qed

lemma below_hangs: "below flat c m x \<Longrightarrow> at_depth flat 0 c \<Longrightarrow> hangs flat x"
  using below_depth hangs_def by blast

lemma depth_below: "at_depth flat k x \<Longrightarrow> \<exists>c. c \<in> set flat \<and> \<not> has_parent flat c \<and> below flat c k x"
  by (induction rule: at_depth.induct) (auto intro: below.intros)

lemma hangs_below: "hangs flat x \<longleftrightarrow> (\<exists>c \<in> set (roots flat). \<exists>m. below flat c m x)"
proof
  assume "hangs flat x"
  then obtain k where "at_depth flat k x" by (auto simp: hangs_def)
  then show "\<exists>c \<in> set (roots flat). \<exists>m. below flat c m x" using depth_below by (fastforce simp: roots_def)
next
  assume "\<exists>c \<in> set (roots flat). \<exists>m. below flat c m x"
  then obtain c m where c: "c \<in> set (roots flat)" "below flat c m x" by blast
  then have "at_depth flat 0 c" by (auto simp: roots_def intro: depth_root)
  then show "hangs flat x" using below_hangs c(2) by blast
qed

lemma distinct_concat_wrt:
  "sorted_wrt (\<lambda>xs ys. set xs \<inter> set ys = {}) xss \<Longrightarrow> \<forall>xs \<in> set xss. distinct xs \<Longrightarrow> distinct (concat xss)"
  by (induction xss) auto

text \<open>The main induction: from a row at depth \<open>k\<close> the recursion goes at most \<open>length flat - k\<close> deep.\<close>

lemma build_total:
  assumes d: "distinct (map caID flat)"
  shows "at_depth flat k c \<Longrightarrow> length flat \<le> n + k \<Longrightarrow> \<exists>t. build n flat c = Some t"
proof (induction n arbitrary: k c)
  case 0
  then show ?case using depth_less [OF d] by force
next
  case (Suc n)
  have "build n flat x \<noteq> None" if "x \<in> set (childrenOf flat (caID c))" for x
  proof -
    have "at_depth flat (Suc k) x" using that Suc.prems(1) by (auto simp: childrenOf_def intro: at_depth.depth_child)
    then show ?thesis using Suc.IH Suc.prems(2) by force
  qed
  then show ?case using all_some_ex [of "map (build n flat) (childrenOf flat (caID c))"] by auto
qed

lemma build_root: "build n flat c = Some t \<Longrightarrow> \<exists>ts. t = Node c ts"
  by (cases n) auto

text \<open>The subtrees of different rows at one depth share nothing.\<close>

lemma siblings:
  assumes d: "distinct (map caID flat)" and cs: "distinct cs" "\<forall>c \<in> set cs. at_depth flat k c"
    and ts: "map (build n flat) cs = map Some ts"
    and sub: "\<And>c t. c \<in> set cs \<Longrightarrow> build n flat c = Some t \<Longrightarrow>
      set (nodes t) = {x. \<exists>m. below flat c m x} \<and> distinct (nodes t)"
  shows "set (forest ts) = {x. \<exists>c \<in> set cs. \<exists>m. below flat c m x} \<and> distinct (forest ts)"
proof -
  have len: "length ts = length cs" using ts by (metis length_map)
  have nth: "set (nodes (ts ! i)) = {x. \<exists>m. below flat (cs ! i) m x}" "distinct (nodes (ts ! i))" if i: "i < length cs" for i
    using sub [OF nth_mem [OF i], of "ts ! i"] ts i len by (metis nth_map)+
  have "set ts = (\<lambda>i. ts ! i) ` {..<length cs}" using len by (auto simp: set_conv_nth image_def)
  then have "set (forest ts) = (\<Union>i < length cs. {x. \<exists>m. below flat (cs ! i) m x})"
    using nth(1) by (simp add: forest_def)
  also have "\<dots> = {x. \<exists>c \<in> set cs. \<exists>m. below flat c m x}" by (auto simp: set_conv_nth)
  finally have s: "set (forest ts) = {x. \<exists>c \<in> set cs. \<exists>m. below flat c m x}" .
  have "set (nodes (ts ! i)) \<inter> set (nodes (ts ! j)) = {}" if ij: "i < j" "j < length cs" for i j
  proof (rule ccontr)
    have r: "cs ! i \<in> set cs" "cs ! j \<in> set cs" using ij by auto
    assume "set (nodes (ts ! i)) \<inter> set (nodes (ts ! j)) \<noteq> {}"
    then obtain x m m' where x: "below flat (cs ! i) m x" "below flat (cs ! j) m' x" using nth(1) ij by auto
    have "at_depth flat (k + m) x" "at_depth flat (k + m') x" using below_depth x cs(2) r by blast+
    then have "m = m'" using depth_unique [OF d] by fastforce
    moreover have "cs ! i \<in> set flat" "cs ! j \<in> set flat" using cs(2) r depth_mem by blast+
    ultimately have "cs ! i = cs ! j" using below_same_depth [OF d x(1)] x(2) by simp
    then show False using cs(1) ij nth_eq_iff_index_eq by fastforce
  qed
  then have "sorted_wrt (\<lambda>xs ys. set xs \<inter> set ys = {}) (map nodes ts)"
    using len by (simp add: sorted_wrt_iff_nth_less)
  then show ?thesis
    unfolding forest_def using s nth(2) len by (intro conjI distinct_concat_wrt) (auto simp: in_set_conv_nth forest_def)
qed

lemma build_nodes:
  assumes d: "distinct (map caID flat)"
  shows "at_depth flat k c \<Longrightarrow> build n flat c = Some t \<Longrightarrow>
    set (nodes t) = {x. \<exists>m. below flat c m x} \<and> distinct (nodes t)"
proof (induction n arbitrary: k c t)
  case 0
  then show ?case by simp
next
  case (Suc n)
  let ?cs = "childrenOf flat (caID c)"
  obtain ts where t: "t = Node c ts" and ts: "map (build n flat) ?cs = map Some ts"
    using Suc.prems(2) by (auto simp: all_some_Some)
  have depth: "\<forall>x \<in> set ?cs. at_depth flat (Suc k) x"
    using Suc.prems(1) by (auto simp: childrenOf_def intro: at_depth.depth_child)
  have "distinct ?cs" using d by (simp add: childrenOf_def distinct_map)
  then have f: "set (forest ts) = {x. \<exists>e \<in> set ?cs. \<exists>m. below flat e m x}" "distinct (forest ts)"
    using siblings [OF d _ depth ts] Suc.IH depth by blast+
  have first: "x \<in> set (forest ts) \<longleftrightarrow> (\<exists>m. below flat c (Suc m) x)" for x
  proof
    assume "x \<in> set (forest ts)"
    then obtain e m where "e \<in> set ?cs" "below flat e m x" using f(1) by auto
    then show "\<exists>m. below flat c (Suc m) x" using below_step by blast
  next
    assume "\<exists>m. below flat c (Suc m) x"
    then show "x \<in> set (forest ts)" using below_first depth_mem [OF Suc.prems(1)] f(1) by fastforce
  qed
  have "c \<notin> set (forest ts)"
  proof
    assume "c \<in> set (forest ts)"
    then obtain m where "below flat c (Suc m) c" using first by blast
    then have "at_depth flat (k + Suc m) c" using below_depth Suc.prems(1) by blast
    then show False using depth_unique [OF d Suc.prems(1)] by force
  qed
  moreover have "nodes t = c # forest ts" using t by (simp add: forest_def)
  moreover have "x = c \<or> x \<in> set (forest ts) \<longleftrightarrow> (\<exists>m. below flat c m x)" for x
  proof
    assume "\<exists>m. below flat c m x"
    then obtain m where "below flat c m x" ..
    then show "x = c \<or> x \<in> set (forest ts)" using first by (cases m) (auto elim: below_0)
  next
    assume "x = c \<or> x \<in> set (forest ts)"
    then show "\<exists>m. below flat c m x" using first below_refl by blast
  qed
  ultimately show ?case using f(2) by auto
qed

lemma forest_hangs:
  assumes d: "distinct (map caID flat)" and b: "BuildTree n flat = Some ts"
  shows "set (forest ts) = {c. hangs flat c} \<and> distinct (forest ts)"
proof -
  have ts: "map (build n flat) (roots flat) = map Some ts" using b by (simp add: BuildTree_def all_some_Some)
  have root: "\<forall>c \<in> set (roots flat). at_depth flat 0 c" by (auto simp: roots_def intro: depth_root)
  have "distinct (roots flat)" using d by (simp add: roots_def distinct_map)
  then have "set (forest ts) = {x. \<exists>c \<in> set (roots flat). \<exists>m. below flat c m x} \<and> distinct (forest ts)"
    using siblings [OF d _ root ts] build_nodes [OF d] root by blast
  then show ?thesis using hangs_below by auto
qed

lemma build_total_forest:
  assumes d: "distinct (map caID flat)" and n: "length flat \<le> n"
  shows "\<exists>ts. BuildTree n flat = Some ts"
proof -
  have "build n flat c \<noteq> None" if "c \<in> set (roots flat)" for c
  proof -
    have "at_depth flat 0 c" using that by (auto simp: roots_def intro: depth_root)
    then show ?thesis using build_total [OF d, of 0 c n] n by auto
  qed
  then show ?thesis using all_some_ex [of "map (build n flat) (roots flat)"] by (auto simp: BuildTree_def)
qed

lemma map_Some_mono:
  "map f cs = map Some ts \<Longrightarrow> (\<And>c t. f c = Some t \<Longrightarrow> g c = Some t) \<Longrightarrow> map g cs = map Some ts"
  by (induction cs arbitrary: ts) auto

text \<open>A deeper bound changes nothing.\<close>

lemma build_mono: "build n flat c = Some t \<Longrightarrow> n \<le> m \<Longrightarrow> build m flat c = Some t"
proof (induction n arbitrary: m c t)
  case (Suc n)
  then obtain k ts where m: "m = Suc k" "n \<le> k" and t: "t = Node c ts"
    and ts: "map (build n flat) (childrenOf flat (caID c)) = map Some ts"
    by (cases m) (auto simp: all_some_Some)
  have "map (build k flat) (childrenOf flat (caID c)) = map Some ts"
    by (rule map_Some_mono [OF ts]) (rule Suc.IH [OF _ m(2)])
  then show ?case using m(1) t by (simp add: all_some_Some [symmetric])
qed simp

lemma BuildTree_mono: "n \<le> m \<Longrightarrow> BuildTree n flat = Some ts \<Longrightarrow> BuildTree m flat = Some ts"
  unfolding BuildTree_def all_some_Some by (erule map_Some_mono) (rule build_mono)

text \<open>Two rows that are each other's parents hang on nothing.\<close>

lemma two_cycle:
  assumes d: "distinct (map caID flat)" and "x \<in> set flat" "y \<in> set flat"
    and "caParentID x = Some (caID y)" "caParentID y = Some (caID x)"
  shows "\<not> hangs flat x"
proof
  assume "hangs flat x"
  then obtain k where k: "at_depth flat k x" by (auto simp: hangs_def)
  have "k \<noteq> 0" using k parent_exists [OF assms(2,3,4)] at_depth_0 by metis
  then obtain m p where m: "k = Suc m" "at_depth flat m p" "caParentID x = Some (caID p)"
    using k by (cases k) (auto elim: at_depth_Suc)
  then have py: "p = y" using same_row [OF d] depth_mem assms(3,4) by (metis option.inject)
  have "m \<noteq> 0" using m(2) parent_exists [OF assms(3,2,5)] py at_depth_0 by metis
  then obtain l q where l: "m = Suc l" "at_depth flat l q" "caParentID y = Some (caID q)"
    using m(2) py by (cases m) (auto elim: at_depth_Suc)
  then have "q = x" using same_row [OF d] depth_mem assms(2,5) by (metis option.inject)
  then show False using depth_unique [OF d k] l(1,2) m(1) by fastforce
qed

end
