(* ===== verification/Catalog_Rules.thy ===== *)
theory Catalog_Rules
  imports Catalog_Tree
begin

text \<open>
  The directory stays in order under every edition of the moderators, a key is what the pattern says, and
  the public listing always answers.
\<close>


section \<open>Keys\<close>

text \<open>What the pattern of a key means: words of lower-case letters and digits joined by hyphens.\<close>

fun join_runes :: "rune \<Rightarrow> runes list \<Rightarrow> runes" where
  "join_runes sep [] = []"
| "join_runes sep [w] = w"
| "join_runes sep (w # ws) = w @ sep # join_runes sep ws"

definition slug_word :: "runes \<Rightarrow> bool" where
  "slug_word w \<longleftrightarrow> w \<noteq> [] \<and> (\<forall>r \<in> set w. slug_char r)"

lemma rep_cls:
  "t \<in> set (rep (cls P) lo hi s) \<longleftrightarrow>
     (\<exists>w. s = w @ t \<and> (\<forall>r \<in> set w. P r) \<and> lo \<le> length w \<and> length w \<le> max lo hi \<and> (length w \<le> hi))"
proof (induction hi arbitrary: lo s)
  case 0
  then show ?case by auto
next
  case (Suc hi)
  show ?case
  proof (cases s)
    case Nil
    then show ?thesis by auto
  next
    case (Cons x xs)
    have step: "t \<in> set (rep (cls P) lo (Suc hi) s) \<longleftrightarrow>
        P x \<and> t \<in> set (rep (cls P) (lo - 1) hi xs) \<or> lo = 0 \<and> t = s"
      using Cons by auto
    show ?thesis
    proof
      assume "t \<in> set (rep (cls P) lo (Suc hi) s)"
      then consider "P x" "t \<in> set (rep (cls P) (lo - 1) hi xs)" | "lo = 0" "t = s" using step by blast
      then show "\<exists>w. s = w @ t \<and> (\<forall>r \<in> set w. P r) \<and> lo \<le> length w \<and> length w \<le> max lo (Suc hi) \<and> length w \<le> Suc hi"
      proof cases
        case 1
        then obtain w where "xs = w @ t" "\<forall>r \<in> set w. P r" "lo - 1 \<le> length w" "length w \<le> hi" using Suc by blast
        then show ?thesis using 1 Cons by (intro exI [of _ "x # w"]) auto
      qed auto
    next
      assume "\<exists>w. s = w @ t \<and> (\<forall>r \<in> set w. P r) \<and> lo \<le> length w \<and> length w \<le> max lo (Suc hi) \<and> length w \<le> Suc hi"
      then obtain w where w: "s = w @ t" "\<forall>r \<in> set w. P r" "lo \<le> length w" "length w \<le> Suc hi" by blast
      show "t \<in> set (rep (cls P) lo (Suc hi) s)"
      proof (cases w)
        case (Cons y v)
        then have "xs = v @ t" "P x" "\<forall>r \<in> set v. P r" "lo - 1 \<le> length v" "length v \<le> hi"
          using w \<open>s = x # xs\<close> by auto
        then show ?thesis using step Suc by (metis max.coboundedI2)
      qed (use w step in simp)
    qed
  qed
qed

lemma many_word: "t \<in> set (many (cls slug_char) (Suc 0) s) \<longleftrightarrow> (\<exists>w. s = w @ t \<and> slug_word w)"
  by (auto simp: many_def rep_cls slug_word_def Suc_le_eq)

lemma rep_words:
  "t \<in> set (rep (seq (cls (\<lambda>r. r = 45)) (\<lambda>s. many (cls slug_char) (Suc 0) s)) 0 hi s) \<longleftrightarrow>
     (\<exists>ws. s = concat (map (Cons 45) ws) @ t \<and> (\<forall>w \<in> set ws. slug_word w) \<and> length ws \<le> hi)"
proof (induction hi arbitrary: s)
  case 0
  then show ?case by auto
next
  case (Suc hi)
  let ?m = "seq (cls (\<lambda>r. r = 45)) (\<lambda>s. many (cls slug_char) (Suc 0) s)"
  have m: "u \<in> set (?m s) \<longleftrightarrow> (\<exists>w. s = 45 # w @ u \<and> slug_word w)" for u s
    by (cases s) (auto simp: seq_def many_word)
  have "t \<in> set (rep ?m 0 (Suc hi) s) \<longleftrightarrow> (\<exists>u \<in> set (?m s). t \<in> set (rep ?m 0 hi u)) \<or> t = s" by auto
  also have "\<dots> \<longleftrightarrow> (\<exists>w ws. s = 45 # w @ concat (map (Cons 45) ws) @ t \<and> slug_word w \<and> (\<forall>w \<in> set ws. slug_word w) \<and> length ws \<le> hi) \<or> t = s"
    using m Suc by auto blast+
  also have "\<dots> \<longleftrightarrow> (\<exists>ws. s = concat (map (Cons 45) ws) @ t \<and> (\<forall>w \<in> set ws. slug_word w) \<and> length ws \<le> Suc hi)"
    (is "?l \<longleftrightarrow> ?r")
  proof
    assume ?l
    then show ?r
    proof (elim disjE exE conjE)
      fix w ws assume "s = 45 # w @ concat (map (Cons 45) ws) @ t" "slug_word w" "\<forall>w \<in> set ws. slug_word w" "length ws \<le> hi"
      then show ?r by (intro exI [of _ "w # ws"]) auto
    qed (auto intro: exI [of _ "[]"])
  next
    assume ?r
    then obtain ws where ws: "s = concat (map (Cons 45) ws) @ t" "\<forall>w \<in> set ws. slug_word w" "length ws \<le> Suc hi" by blast
    then show ?l by (cases ws) auto
  qed
  finally show ?case .
qed

lemma join_concat: "join_runes sep (w # ws) = w @ concat (map (Cons sep) ws)"
  by (induction ws arbitrary: w) auto

lemma words_bound: "\<forall>w \<in> set ws. slug_word w \<Longrightarrow> length ws \<le> length (concat (map (Cons 45) ws))"
  by (induction ws) auto

text \<open>A text is a key for the pattern of the source exactly when it is a sequence of words of lower-case
  letters and digits joined by single hyphens.\<close>

theorem slug_match_iff:
  "slug_match s \<longleftrightarrow> (\<exists>w ws. s = join_runes 45 (w # ws) \<and> slug_word w \<and> (\<forall>v \<in> set ws. slug_word v))"
proof -
  have "slug_match s \<longleftrightarrow> (\<exists>w u. s = w @ u \<and> slug_word w
      \<and> [] \<in> set (rep (seq (cls (\<lambda>r. r = 45)) (\<lambda>s. many (cls slug_char) (Suc 0) s)) 0 (length u) u))"
  proof -
    have "slugRe s = seq (\<lambda>s. many (cls slug_char) (Suc 0) s)
        (\<lambda>u. rep (seq (cls (\<lambda>r. r = 45)) (\<lambda>s. many (cls slug_char) (Suc 0) s)) 0 (length u) u) s"
      by (simp add: slugRe_def many_def [where lo = 0])
    then have "slug_match s \<longleftrightarrow> (\<exists>u. u \<in> set (many (cls slug_char) (Suc 0) s)
        \<and> [] \<in> set (rep (seq (cls (\<lambda>r. r = 45)) (\<lambda>s. many (cls slug_char) (Suc 0) s)) 0 (length u) u))"
      unfolding slug_match_def by (simp add: seq_def Bex_def)
    then show ?thesis unfolding many_word by blast
  qed
  also have "\<dots> \<longleftrightarrow> (\<exists>w ws. s = w @ concat (map (Cons 45) ws) \<and> slug_word w \<and> (\<forall>v \<in> set ws. slug_word v))"
    unfolding rep_words using words_bound by auto
  finally show ?thesis unfolding join_concat .
qed


section \<open>The directory in order\<close>

definition row_ok :: "Categories \<Rightarrow> Category \<Rightarrow> bool" where
  "row_ok s c \<longleftrightarrow> caID c \<noteq> [] \<and> ValidKind (caKind c) \<and> slug_match (caSlug c) \<and> distinct (map sfKey (caSpecTemplate c))
     \<and> (case caParentID c of None \<Rightarrow> True
        | Some p \<Rightarrow> p \<noteq> caID c \<and> (\<exists>q \<in> set s. caID q = p \<and> caKind q = caKind c))"

definition directory_ok :: "Categories \<Rightarrow> bool" where
  "directory_ok s \<longleftrightarrow> distinct (map caID s) \<and> distinct (map caSlug s) \<and> (\<forall>c \<in> set s. row_ok s c)"

lemma bad_field_seen: "bad_field seen f \<longleftrightarrow> sfKey f \<in> set seen \<or> bad_field [] f"
  by (auto simp: bad_field_def)

lemma validate_fields_keys:
  "validate_fields seen fs = Inr out \<Longrightarrow> distinct (map sfKey out) \<and> (\<forall>f \<in> set out. sfKey f \<notin> set seen \<and> \<not> bad_field [] f)"
proof (induction fs arbitrary: seen out)
  case (Cons f fs)
  let ?f = "f\<lparr>sfKey := TrimSpace (sfKey f)\<rparr>"
  obtain out' where o: "\<not> bad_field seen ?f" "validate_fields (sfKey ?f # seen) fs = Inr out'" "out = ?f # out'"
    using Cons.prems by (auto simp: Let_def split: if_splits sum.splits)
  have "\<not> bad_field [] ?f" "sfKey ?f \<notin> set seen" using o(1) bad_field_seen by blast+
  then show ?case using Cons.IH [OF o(2)] o(3) by auto
qed simp

lemma checkParent_Inr:
  assumes "checkParent p k self s = Inr r"
  shows "case r of None \<Rightarrow> True | Some i \<Rightarrow> i \<noteq> self \<and> (\<exists>q \<in> set s. caID q = i \<and> caKind q = k)"
  using assms by (auto simp: checkParent_def AnyByID_def split: option.splits if_splits sum.splits dest!: find_mem)

lemma change_first_total: "c \<in> set s \<Longrightarrow> \<exists>s'. change_first (caID c) f s = Inr s'"
  by (induction s) (auto split: sum.split)

lemma change_first_split:
  "change_first i f s = Inr s' \<Longrightarrow> \<exists>xs c ys. s = xs @ c # ys \<and> caID c = i \<and> s' = xs @ f c # ys"
proof (induction s arbitrary: s')
  case (Cons c s)
  show ?case
  proof (cases "caID c = i")
    case True
    then show ?thesis using Cons.prems by (intro exI [of _ "[]"]) auto
  next
    case False
    then obtain s1 where s1: "change_first i f s = Inr s1" "s' = c # s1" using Cons.prems by (auto split: sum.splits)
    then show ?thesis using Cons.IH [OF s1(1)] by (metis append_Cons)
  qed
qed simp

text \<open>Rows are only added or replaced by rows of the same identifier, kind and key, so links keep their targets.\<close>

lemma row_ok_mono:
  assumes "row_ok s c" and "\<And>q. q \<in> set s \<Longrightarrow> \<exists>q' \<in> set s'. caID q' = caID q \<and> caKind q' = caKind q"
  shows "row_ok s' c"
proof (cases "caParentID c")
  case None
  then show ?thesis using assms(1) by (simp add: row_ok_def)
next
  case (Some p)
  obtain q where "q \<in> set s" "caID q = p" "caKind q = caKind c" "p \<noteq> caID c" using Some
    using assms(1) unfolding row_ok_def by auto
  moreover obtain q' where "q' \<in> set s'" "caID q' = caID q" "caKind q' = caKind q" using assms(2) calculation(1) by blast
  ultimately show ?thesis using assms(1) Some by (auto simp: row_ok_def)
qed

lemma directory_replace:
  assumes ok: "directory_ok (xs @ c # ys)" and c': "caID c' = caID c" "caKind c' = caKind c" "caSlug c' = caSlug c"
    and row: "row_ok (xs @ c # ys) c'"
  shows "directory_ok (xs @ c' # ys)"
proof -
  have m: "\<exists>q' \<in> set (xs @ c' # ys). caID q' = caID q \<and> caKind q' = caKind q" if "q \<in> set (xs @ c # ys)" for q
    using that c' by (cases "q = c") auto
  have "row_ok (xs @ c' # ys) x" if "x \<in> set (xs @ c' # ys)" for x
  proof -
    have "row_ok (xs @ c # ys) x" using that row ok by (auto simp: directory_ok_def)
    then show ?thesis using m by (rule row_ok_mono)
  qed
  then show ?thesis using ok c' by (simp add: directory_ok_def)
qed

lemma createCategory_ok:
  assumes ok: "directory_ok s" and fresh: "i \<notin> set (map caID s)" "i \<noteq> []"
  shows "directory_ok (snd (createCategory lower i body s))"
proof -
  have "directory_ok (CreateCategory c s)" if c: "checked_category lower i b s = Inr c" for b c
  proof -
    let ?c = "c\<lparr>caActive := True\<rparr>"
    have f: "caID c = i" "ValidKind (caKind c)" "slug_match (caSlug c)" "\<not> SlugTaken (caSlug c) [] s"
      "distinct (map sfKey (caSpecTemplate c))"
      and p: "checkParent (cbParentID b) (caKind c) [] s = Inr (caParentID c)"
      using c validate_fields_keys
      by (auto simp: checked_category_def ValidateSlug_def ValidateSpec_def Let_def split: if_splits sum.splits)
    have ids: "\<forall>x \<in> set s. caID x \<noteq> i" using fresh by auto
    have row: "row_ok s ?c"
      using f checkParent_Inr [OF p] ids fresh(2) by (auto simp: row_ok_def split: option.split)
    have r: "row_ok (s @ [?c]) x" if "x \<in> set (s @ [?c])" for x
    proof -
      have "row_ok s x" using that row ok by (auto simp: directory_ok_def)
      then show ?thesis by (rule row_ok_mono) auto
    qed
    have "caSlug c \<notin> set (map caSlug s)"
      using f(4) ok by (auto simp: SlugTaken_def directory_ok_def row_ok_def)
    then show ?thesis using ok r f(1) fresh by (simp add: directory_ok_def CreateCategory_def)
  qed
  then show ?thesis using ok by (auto simp: createCategory_def split: option.split sum.split)
qed


lemma updateCategory_ok:
  assumes ok: "directory_ok s"
  shows "directory_ok (snd (updateCategory i body s))"
proof -
  have "directory_ok s'" if cur: "AnyByID i s = Inr cur" and e: "edited_category b cur s = Inr c" and u: "UpdateCategory c s = Inr s'"
    for b cur c s'
  proof -
    have f: "caID c = caID cur" "caKind c = caKind cur" "distinct (map sfKey (caSpecTemplate c))"
      and p: "checkParent (cbParentID b) (caKind cur) (caID cur) s = Inr (caParentID c)"
      using e validate_fields_keys by (auto simp: edited_category_def ValidateSpec_def split: sum.splits)
    have cur': "cur \<in> set s" "caID cur = i" using cur by (auto simp: AnyByID_def dest: find_mem)
    let ?f = "\<lambda>ex. c\<lparr>caSlug := caSlug ex, caKind := caKind ex, caActive := caActive ex\<rparr>"
    have u': "change_first i ?f s = Inr s'" using u f(1) cur'(2) by (simp add: UpdateCategory_def)
    have "\<exists>xs ex ys. s = xs @ ex # ys \<and> caID ex = i \<and> s' = xs @ ?f ex # ys" using change_first_split [OF u'] .
    then obtain xs ex ys where s: "s = xs @ ex # ys" "caID ex = i" "s' = xs @ ?f ex # ys" by blast
    have "ex = cur" using same_row [of s ex cur] ok cur' s(1,2) by (simp add: directory_ok_def)
    have "row_ok s cur" using ok cur'(1) by (simp add: directory_ok_def)
    then have "row_ok s (?f ex)"
      using f(1,3) checkParent_Inr [OF p] unfolding \<open>ex = cur\<close> by (simp add: row_ok_def split: option.splits)
    then show ?thesis using directory_replace [of xs ex ys "?f ex"] ok f(1) s cur'(2) by simp
  qed
  then show ?thesis using ok by (auto simp: updateCategory_def split: option.split sum.split)
qed

lemma toggleCategory_ok:
  assumes ok: "directory_ok s"
  shows "directory_ok (snd (toggleCategory i body s))"
proof -
  have "directory_ok s'" if u: "SetCategoryActive i a s = Inr s'" for a s'
  proof -
    obtain xs c ys where s: "s = xs @ c # ys" "caID c = i" "s' = xs @ c\<lparr>caActive := a\<rparr> # ys"
      using change_first_split [OF u [unfolded SetCategoryActive_def]] by blast
    have "row_ok s (c\<lparr>caActive := a\<rparr>)" using ok s(1) by (auto simp: directory_ok_def row_ok_def split: option.splits)
    then show ?thesis using directory_replace [of xs c ys "c\<lparr>caActive := a\<rparr>"] ok s by simp
  qed
  then show ?thesis using ok by (auto simp: toggleCategory_def Let_def split: option.split sum.split)
qed

text \<open>The editions of the moderators; a generated identifier is new and not empty.\<close>

datatype edition =
    EdCreate "rune \<Rightarrow> rune" runes "categoryBody option" | EdUpdate runes "categoryBody option" | EdToggle runes "bool option"

fun edit :: "edition \<Rightarrow> Categories \<Rightarrow> Categories" where
  "edit (EdCreate lower i b) s = snd (createCategory lower i b s)"
| "edit (EdUpdate i b) s = snd (updateCategory i b s)"
| "edit (EdToggle i b) s = snd (toggleCategory i b s)"

fun new_row :: "edition \<Rightarrow> Categories \<Rightarrow> bool" where
  "new_row (EdCreate lower i b) s \<longleftrightarrow> i \<notin> set (map caID s) \<and> i \<noteq> []"
| "new_row _ s \<longleftrightarrow> True"

inductive directories :: "Categories \<Rightarrow> bool" where
  directories_new: "directories NewCategories"
| directories_edit: "directories s \<Longrightarrow> new_row r s \<Longrightarrow> directories (edit r s)"

lemma directory_new: "directory_ok NewCategories"
proof -
  have "distinct (map caID NewCategories)" "distinct (map caSlug NewCategories)" by code_simp+
  moreover have "\<forall>c \<in> set NewCategories. caID c \<noteq> [] \<and> ValidKind (caKind c) \<and> slug_match (caSlug c) \<and> caSpecTemplate c = [] \<and> caParentID c = None"
    by code_simp
  ultimately show ?thesis by (auto simp: directory_ok_def row_ok_def)
qed

lemma directories_ok: "directories s \<Longrightarrow> directory_ok s"
proof (induction rule: directories.induct)
  case (directories_edit s r)
  then show ?case using createCategory_ok updateCategory_ok toggleCategory_ok by (cases r) auto
qed (rule directory_new)



text \<open>Two branches of work, a sub-branch, and its removal from sight.\<close>

definition sample_body :: "runes option \<Rightarrow> string \<Rightarrow> categoryBody" where
  "sample_body parent slug =
     \<lparr>cbParentID = parent, cbKind = runes_of ''work'', cbSlug = runes_of slug,
      cbName = \<lparr>nHy = [1], nRu = [2], nEn = [3]\<rparr>, cbIcon = [], cbSpecs = [], cbSort = 0\<rparr>"

definition sample_directory :: Categories where
  "sample_directory = fold edit
     [EdCreate id (runes_of ''a'') (Some (sample_body None ''drilling'')),
      EdCreate id (runes_of ''b'') (Some (sample_body (Some (runes_of ''a'')) ''drilling-deep'')),
      EdToggle (runes_of ''a'') (Some False)] NewCategories"

lemma sample_directory_reached: "directories sample_directory"
  unfolding sample_directory_def fold.simps comp_def id_apply
  by (intro directories_edit directories_new) code_simp+


text \<open>C23: The tree of a list of categories with distinct identifiers is always built, within a recursion as
  deep as the list is long and the same for every deeper bound; it holds exactly the categories that hang on
  a root, each once.\<close>

theorem BuildTree_total:
  assumes "distinct (map caID flat)" and "length flat \<le> n"
  shows "\<exists>ts. BuildTree n flat = Some ts \<and> BuildTree (length flat) flat = Some ts
    \<and> set (forest ts) = {c. hangs flat c} \<and> distinct (forest ts)"
  using build_total_forest [OF assms(1) order_refl] BuildTree_mono [OF assms(2)] forest_hangs [OF assms(1)] by blast

theorem BuildTree_total_witness:
  "\<exists>ts. BuildTree 9 sample_directory = Some ts \<and> distinct (forest ts) \<and> length (forest ts) = 6 \<and> length ts = 5"
proof -
  have d: "distinct (map caID sample_directory)" by code_simp
  have l: "length sample_directory \<le> 9" by code_simp
  have "map_option (\<lambda>ts. (length (forest ts), length ts)) (BuildTree 9 sample_directory) = Some (6, 5)" by code_simp
  then show ?thesis using BuildTree_total [OF d l] by auto
qed



end
