(* ===== verification/Catalog_Equipment.thy ===== *)
theory Catalog_Equipment
  imports Catalog_Categories Civil
begin

text \<open>
  The machines of the contractors: the card, its check and its clean-up
  (\<^verbatim>\<open>catalog/internal/catalog/equipment.go\<close>), the table (\<^verbatim>\<open>store/equipment_memory.go\<close>), the handlers of the
  owner (\<^verbatim>\<open>httpapi/equipment.go\<close>) and the queue of the moderators (\<^verbatim>\<open>httpapi/moderation.go\<close>). As in
  Catalog_Categories a handler receives the decoded body, none when decoding failed.
\<close>


section \<open>The card\<close>

datatype EqStatus = EqDraft | EqPending | EqVerified | EqUnverified | EqRejected | EqArchived

datatype spec_json = JNull | JBool bool | JNum float64 | JStr runes | JArr "spec_json list" | JObj "(runes \<times> spec_json) list"

record Equipment =
  eqID :: string
  eqOwnerID :: string
  eqCategoryID :: runes
  eqBrand :: runes
  eqModel :: runes
  eqYear :: "int option"
  eqSpecs :: "(runes \<times> spec_json) list"
  eqPriceHour :: "int option"
  eqPriceShift :: "int option"
  eqPriceDay :: "int option"
  eqMinHours :: "int option"
  eqDelivery :: "int option"
  eqCrewSize :: int
  eqCrewPrice :: "int option"
  eqPhotos :: "runes list"
  eqDocs :: "runes list"
  eqStatus :: EqStatus
  eqRejectReason :: runes
  eqDraftStep :: int
  eqWins :: int
  eqCreatedAt :: time
  eqUpdatedAt :: time
  eqCategoryName :: "Names option"

definition Title :: "Equipment \<Rightarrow> runes" where
  "Title e = TrimSpace (TrimSpace (eqBrand e) @ 32 # TrimSpace (eqModel e))"

definition Active :: "Equipment \<Rightarrow> bool" where
  "Active e \<longleftrightarrow> eqStatus e = EqVerified \<or> eqStatus e = EqUnverified"

datatype eq_err = ErrEquipmentNotFound | ErrEquipmentForeign | ErrEquipmentPublished | ErrEquipmentStatus

definition minYear :: int where "minYear = 1980"
definition maxBrandLen :: nat where "maxBrandLen = 60"
definition maxModelLen :: nat where "maxModelLen = 60"
definition maxEqPhotos :: nat where "maxEqPhotos = 8"
definition maxCrewSize :: int where "maxCrewSize = 20"
definition maxMinHours :: int where "maxMinHours = 24"
definition maxRateValue :: int where "maxRateValue = 100000000"

definition Year_of :: "time \<Rightarrow> int" where "Year_of t = fst (Date_of t)"

text \<open>The fields that are not filled in, each with the reason; the empty list is a card fit for publication.\<close>

definition equipment_fields :: "Equipment \<Rightarrow> time \<Rightarrow> (string \<times> string) list" where
  "equipment_fields e now =
     (if TrimSpace (eqCategoryID e) = [] then [(''categoryId'', ''choose the category'')] else [])
     @ (if TrimSpace (eqBrand e) = [] then [(''brand'', ''name the brand'')] else [])
     @ (if TrimSpace (eqModel e) = [] then [(''model'', ''name the model'')] else [])
     @ (case eqYear e of
          None \<Rightarrow> [(''year'', ''name the year'')]
        | Some y \<Rightarrow> if y < minYear \<or> y > Year_of now then [(''year'', ''between 1980 and now'')] else [])
     @ (if eqPhotos e = [] then [(''photos'', ''add a photo'')] else [])"

definition trimTo :: "runes \<Rightarrow> nat \<Rightarrow> runes" where
  "trimTo s limit = (let r = TrimSpace s in if length r > limit then take limit r else r)"

definition clampMoney :: "int option \<Rightarrow> int option" where
  "clampMoney v = (case v of None \<Rightarrow> None | Some x \<Rightarrow> if x \<le> 0 \<or> x > maxRateValue then None else Some x)"

definition clamp_hours :: "int option \<Rightarrow> int option" where
  "clamp_hours v =
     (case v of None \<Rightarrow> None | Some x \<Rightarrow> if x \<le> 0 then None else if x > maxMinHours then Some maxMinHours else Some x)"

definition clamp :: "int \<Rightarrow> int \<Rightarrow> int \<Rightarrow> int" where
  "clamp lo hi x = (let x = (if x < lo then lo else x) in if x > hi then hi else x)"

definition Normalize :: "Equipment \<Rightarrow> Equipment" where
  "Normalize e = e\<lparr>
     eqBrand := trimTo (eqBrand e) maxBrandLen, eqModel := trimTo (eqModel e) maxModelLen,
     eqPhotos := (if length (eqPhotos e) > maxEqPhotos then take maxEqPhotos (eqPhotos e) else eqPhotos e),
     eqCrewSize := clamp 0 maxCrewSize (eqCrewSize e),
     eqPriceHour := clampMoney (eqPriceHour e), eqPriceShift := clampMoney (eqPriceShift e),
     eqPriceDay := clampMoney (eqPriceDay e), eqDelivery := clampMoney (eqDelivery e),
     eqCrewPrice := clampMoney (eqCrewPrice e), eqMinHours := clamp_hours (eqMinHours e),
     eqDraftStep := clamp 1 4 (eqDraftStep e)\<rparr>"

definition StatusAfterSubmit :: "bool \<Rightarrow> EqStatus" where
  "StatusAfterSubmit hasDocs = (if hasDocs then EqPending else EqUnverified)"

definition CanEdit :: "Equipment \<Rightarrow> string \<Rightarrow> eq_err option" where
  "CanEdit e userID =
     (if eqOwnerID e \<noteq> userID then Some ErrEquipmentForeign
      else if eqStatus e = EqPending then Some ErrEquipmentStatus
      else None)"


section \<open>The table\<close>

type_synonym letter = "string \<times> message \<times> message \<times> (string \<times> string) list"

record Catalog =
  directory :: Categories
  machines :: "(string, Equipment) gomap"
  letters :: "letter list"

definition CreateEquipment :: "Equipment \<Rightarrow> Catalog \<Rightarrow> eq_err + Catalog" where
  "CreateEquipment e s = Inr (s\<lparr>machines := AList.update (eqID e) e (machines s)\<rparr>)"

definition UpdateEquipment :: "Equipment \<Rightarrow> Catalog \<Rightarrow> eq_err + Catalog" where
  "UpdateEquipment e s =
     (if map_of (machines s) (eqID e) = None then Inl ErrEquipmentNotFound
      else Inr (s\<lparr>machines := AList.update (eqID e) e (machines s)\<rparr>))"

definition EquipmentByID :: "string \<Rightarrow> Catalog \<Rightarrow> eq_err + Equipment" where
  "EquipmentByID i s = or_err (map_of (machines s) i) ErrEquipmentNotFound"

definition newer_machine :: "Equipment \<Rightarrow> Equipment \<Rightarrow> bool" where
  "newer_machine x y \<longleftrightarrow> eqCreatedAt x > eqCreatedAt y"

definition older_update :: "Equipment \<Rightarrow> Equipment \<Rightarrow> bool" where
  "older_update x y \<longleftrightarrow> eqUpdatedAt x < eqUpdatedAt y"

definition PublicEquipment :: "(string \<Rightarrow> nat) \<Rightarrow> string \<Rightarrow> Catalog \<Rightarrow> Equipment list" where
  "PublicEquipment rank ownerID s =
     sort_by newer_machine (filter (\<lambda>e. eqOwnerID e = ownerID \<and> Active e) (grange rank (machines s)))"

definition PendingEquipment :: "(string \<Rightarrow> nat) \<Rightarrow> int \<Rightarrow> Catalog \<Rightarrow> Equipment list" where
  "PendingEquipment rank limit s =
     (let out = sort_by older_update (filter (\<lambda>e. eqStatus e = EqPending) (grange rank (machines s)))
      in if limit > 0 \<and> limit < int (length out) then take (nat limit) out else out)"

definition EquipmentByOwner :: "(string \<Rightarrow> nat) \<Rightarrow> string \<Rightarrow> Catalog \<Rightarrow> Equipment list" where
  "EquipmentByOwner rank ownerID s =
     sort_by newer_machine (filter (\<lambda>e. eqOwnerID e = ownerID \<and> eqStatus e \<noteq> EqArchived) (grange rank (machines s)))"


section \<open>Answers\<close>

datatype problem = Problem int string | Unfilled "(string \<times> string) list"

type_synonym 'a reply = "problem + (int \<times> 'a)"

fun failEquipment :: "eq_err \<Rightarrow> problem" where
  "failEquipment ErrEquipmentNotFound = Problem 404 ''equipment_not_found''"
| "failEquipment ErrEquipmentForeign = Problem 403 ''equipment_forbidden''"
| "failEquipment ErrEquipmentStatus = Problem 409 ''equipment_pending''"
| "failEquipment ErrEquipmentPublished = Problem 500 ''internal''"

text \<open>The clock, which \<^verbatim>\<open>submitEquipment\<close> reads twice, first for the check of the year, and a fresh identifier.\<close>

record cenv =
  echeck :: time
  eclock :: time
  efresh :: string

record equipmentBody =
  ebCategoryID :: "runes option"
  ebBrand :: "runes option"
  ebModel :: "runes option"
  ebYear :: "int option"
  ebSpecs :: "(runes \<times> spec_json) list option"
  ebPriceHour :: "int option"
  ebPriceShift :: "int option"
  ebPriceDay :: "int option"
  ebMinHours :: "int option"
  ebDelivery :: "int option"
  ebCrewSize :: "int option"
  ebCrewPrice :: "int option"
  ebPhotos :: "runes list option"
  ebDocs :: "runes list option"
  ebDraftStep :: "int option"

fun given_value :: "'a option \<Rightarrow> 'a \<Rightarrow> 'a" where
  "given_value None x = x"
| "given_value (Some y) x = y"

fun given_ptr :: "'a option \<Rightarrow> 'a option \<Rightarrow> 'a option" where
  "given_ptr None x = x"
| "given_ptr (Some y) x = Some y"

definition apply_body :: "Equipment \<Rightarrow> equipmentBody \<Rightarrow> Equipment" where
  "apply_body e b = e\<lparr>
     eqCategoryID := given_value (map_option TrimSpace (ebCategoryID b)) (eqCategoryID e),
     eqBrand := given_value (ebBrand b) (eqBrand e), eqModel := given_value (ebModel b) (eqModel e),
     eqYear := given_ptr (ebYear b) (eqYear e), eqSpecs := given_value (ebSpecs b) (eqSpecs e),
     eqPriceHour := given_ptr (ebPriceHour b) (eqPriceHour e), eqPriceShift := given_ptr (ebPriceShift b) (eqPriceShift e),
     eqPriceDay := given_ptr (ebPriceDay b) (eqPriceDay e), eqMinHours := given_ptr (ebMinHours b) (eqMinHours e),
     eqDelivery := given_ptr (ebDelivery b) (eqDelivery e), eqCrewSize := given_value (ebCrewSize b) (eqCrewSize e),
     eqCrewPrice := given_ptr (ebCrewPrice b) (eqCrewPrice e), eqPhotos := given_value (ebPhotos b) (eqPhotos e),
     eqDocs := given_value (ebDocs b) (eqDocs e), eqDraftStep := given_value (ebDraftStep b) (eqDraftStep e)\<rparr>"

text \<open>A card names no category or an active one.\<close>

definition known_category :: "Equipment \<Rightarrow> Catalog \<Rightarrow> bool" where
  "known_category e s \<longleftrightarrow> eqCategoryID e = [] \<or> \<not> isl (CategoryByID (eqCategoryID e) (directory s))"

definition withCategoryName :: "Catalog \<Rightarrow> Equipment \<Rightarrow> Equipment" where
  "withCategoryName s e =
     (if eqCategoryID e = [] then e
      else case CategoryByID (eqCategoryID e) (directory s) of
             Inl _ \<Rightarrow> e
           | Inr c \<Rightarrow> e\<lparr>eqCategoryName := Some (caName c)\<rparr>)"


section \<open>The owner\<close>

text \<open>The user is the header set by the gateway, the empty word when there is none.\<close>

definition mine :: "string \<Rightarrow> string \<Rightarrow> Catalog \<Rightarrow> problem + Equipment" where
  "mine user i s =
     (if user = '''' then Inl (Problem 401 ''unauthorized'')
      else case EquipmentByID i s of
             Inl er \<Rightarrow> Inl (failEquipment er)
           | Inr e \<Rightarrow> if eqOwnerID e \<noteq> user then Inl (failEquipment ErrEquipmentForeign) else Inr e)"

definition blank_card :: "cenv \<Rightarrow> string \<Rightarrow> Equipment" where
  "blank_card v owner =
     \<lparr>eqID = efresh v, eqOwnerID = owner, eqCategoryID = [], eqBrand = [], eqModel = [], eqYear = None, eqSpecs = [],
      eqPriceHour = None, eqPriceShift = None, eqPriceDay = None, eqMinHours = None, eqDelivery = None,
      eqCrewSize = 0, eqCrewPrice = None, eqPhotos = [], eqDocs = [], eqStatus = EqDraft, eqRejectReason = [],
      eqDraftStep = 1, eqWins = 0, eqCreatedAt = eclock v, eqUpdatedAt = eclock v, eqCategoryName = None\<rparr>"

definition createEquipment :: "cenv \<Rightarrow> string \<Rightarrow> equipmentBody option \<Rightarrow> Catalog \<Rightarrow> Equipment reply \<times> Catalog" where
  "createEquipment v owner body s =
     (if owner = '''' then (Inl (Problem 401 ''unauthorized''), s)
      else case body of
        None \<Rightarrow> (Inl (Problem 400 ''bad_request''), s)
      | Some b \<Rightarrow>
          let e = Normalize (apply_body (blank_card v owner) b)
          in if \<not> known_category e s then (Inl (Problem 400 ''unknown_category''), s)
             else case CreateEquipment e s of
                    Inl _ \<Rightarrow> (Inl (Problem 500 ''internal''), s)
                  | Inr s' \<Rightarrow> (Inr (201, e), s'))"

text \<open>The write at the end of every change.\<close>

definition store_card :: "Equipment \<Rightarrow> Catalog \<Rightarrow> Equipment reply \<times> Catalog" where
  "store_card e s =
     (case UpdateEquipment e s of Inl er \<Rightarrow> (Inl (failEquipment er), s) | Inr s' \<Rightarrow> (Inr (200, e), s'))"

definition patchEquipment :: "cenv \<Rightarrow> string \<Rightarrow> string \<Rightarrow> equipmentBody option \<Rightarrow> Catalog \<Rightarrow> Equipment reply \<times> Catalog" where
  "patchEquipment v user i body s =
     (case mine user i s of
        Inl p \<Rightarrow> (Inl p, s)
      | Inr e \<Rightarrow>
          case body of
            None \<Rightarrow> (Inl (Problem 400 ''bad_request''), s)
          | Some b \<Rightarrow>
              case CanEdit e user of
                Some er \<Rightarrow> (Inl (failEquipment er), s)
              | None \<Rightarrow>
                  let e = (Normalize (apply_body e b))\<lparr>eqUpdatedAt := eclock v\<rparr>
                  in if \<not> known_category e s then (Inl (Problem 400 ''unknown_category''), s) else store_card e s)"

definition submitted :: "cenv \<Rightarrow> Equipment \<Rightarrow> Equipment" where
  "submitted v e = e\<lparr>eqStatus := StatusAfterSubmit (length (eqDocs e) > 0), eqRejectReason := [], eqDraftStep := 4,
     eqUpdatedAt := eclock v\<rparr>"

definition submitEquipment :: "cenv \<Rightarrow> string \<Rightarrow> string \<Rightarrow> Catalog \<Rightarrow> Equipment reply \<times> Catalog" where
  "submitEquipment v user i s =
     (case mine user i s of
        Inl p \<Rightarrow> (Inl p, s)
      | Inr e \<Rightarrow>
          if eqStatus e = EqPending then (Inl (Problem 409 ''already_pending''), s)
          else if equipment_fields e (echeck v) \<noteq> [] then (Inl (Unfilled (equipment_fields e (echeck v))), s)
          else store_card (submitted v e) s)"

definition archiveEquipment :: "cenv \<Rightarrow> string \<Rightarrow> string \<Rightarrow> Catalog \<Rightarrow> Equipment reply \<times> Catalog" where
  "archiveEquipment v user i s =
     (case mine user i s of
        Inl p \<Rightarrow> (Inl p, s)
      | Inr e \<Rightarrow> store_card (e\<lparr>eqStatus := EqArchived, eqUpdatedAt := eclock v\<rparr>) s)"

definition equipmentByID :: "string \<Rightarrow> string \<Rightarrow> Catalog \<Rightarrow> Equipment reply" where
  "equipmentByID user i s =
     (case mine user i s of Inl p \<Rightarrow> Inl p | Inr e \<Rightarrow> Inr (200, withCategoryName s e))"

definition myEquipment :: "(string \<Rightarrow> nat) \<Rightarrow> string \<Rightarrow> Catalog \<Rightarrow> Equipment list reply" where
  "myEquipment rank owner s =
     (if owner = '''' then Inl (Problem 401 ''unauthorized'')
      else Inr (200, map (withCategoryName s) (EquipmentByOwner rank owner s)))"

text \<open>What strangers and the other services see.\<close>

record public_card =
  pcID :: string
  pcTitle :: runes
  pcYear :: "int option"
  pcPhotos :: "runes list"
  pcStatus :: EqStatus
  pcWins :: int
  pcCategoryName :: "Names option"

definition publicEquipment :: "(string \<Rightarrow> nat) \<Rightarrow> string \<Rightarrow> Catalog \<Rightarrow> public_card list" where
  "publicEquipment rank userID s =
     map (\<lambda>e. \<lparr>pcID = eqID e, pcTitle = Title e, pcYear = eqYear e, pcPhotos = eqPhotos e, pcStatus = eqStatus e,
        pcWins = eqWins e, pcCategoryName = eqCategoryName e\<rparr>)
       (map (withCategoryName s) (PublicEquipment rank userID s))"

record internal_card =
  icID :: string
  icOwnerID :: string
  icCategoryID :: runes
  icStatus :: EqStatus
  icActive :: bool
  icTitle :: runes
  icVerified :: bool

definition internalEquipment :: "string \<Rightarrow> Catalog \<Rightarrow> internal_card reply" where
  "internalEquipment i s =
     (case EquipmentByID i s of
        Inl er \<Rightarrow> Inl (failEquipment er)
      | Inr e \<Rightarrow> Inr (200, \<lparr>icID = eqID e, icOwnerID = eqOwnerID e, icCategoryID = eqCategoryID e, icStatus = eqStatus e,
          icActive = Active e, icTitle = Title e, icVerified = (eqStatus e = EqVerified)\<rparr>))"


section \<open>The moderators\<close>

definition waiting :: "string \<Rightarrow> Catalog \<Rightarrow> problem + Equipment" where
  "waiting i s =
     (case EquipmentByID i s of
        Inl er \<Rightarrow> Inl (failEquipment er)
      | Inr e \<Rightarrow> if eqStatus e \<noteq> EqPending then Inl (Problem 409 ''not_pending'') else Inr e)"

definition notifyOwner :: "Equipment \<Rightarrow> message \<Rightarrow> message \<Rightarrow> Catalog \<Rightarrow> Catalog" where
  "notifyOwner e title body s =
     s\<lparr>letters := letters s @ [(eqOwnerID e, title, body,
         [(''kind'', ''equipment''), (''route'', ''/equipment''), (''equipmentId'', eqID e)])]\<rparr>"

definition approved :: "cenv \<Rightarrow> Equipment \<Rightarrow> Equipment" where
  "approved v e = e\<lparr>eqStatus := EqVerified, eqRejectReason := [], eqUpdatedAt := eclock v\<rparr>"

definition rejected :: "cenv \<Rightarrow> runes \<Rightarrow> Equipment \<Rightarrow> Equipment" where
  "rejected v reason e = e\<lparr>eqStatus := EqRejected, eqRejectReason := reason, eqUpdatedAt := eclock v\<rparr>"

definition decide_card :: "Equipment \<Rightarrow> message \<Rightarrow> message \<Rightarrow> Catalog \<Rightarrow> Equipment reply \<times> Catalog" where
  "decide_card e title body s =
     (case store_card e s of
        (Inl p, s') \<Rightarrow> (Inl p, s')
      | (Inr r, s') \<Rightarrow> (Inr r, notifyOwner e title body s'))"

text \<open>The middleware and the two decisions; \<open>roles\<close> is the header of the gateway.\<close>

definition approveEquipment :: "cenv \<Rightarrow> runes \<Rightarrow> string \<Rightarrow> Catalog \<Rightarrow> Equipment reply \<times> Catalog" where
  "approveEquipment v roles i s =
     (if \<not> moderator_roles roles then (Inl (Problem 403 ''not_moderator''), s)
      else case waiting i s of
             Inl p \<Rightarrow> (Inl p, s)
           | Inr e \<Rightarrow> decide_card (approved v e) [Lit ''machine approved''] [Txt (Title e), Lit ''passed the check''] s)"

definition rejectEquipment :: "cenv \<Rightarrow> runes \<Rightarrow> string \<Rightarrow> runes option \<Rightarrow> Catalog \<Rightarrow> Equipment reply \<times> Catalog" where
  "rejectEquipment v roles i body s =
     (if \<not> moderator_roles roles then (Inl (Problem 403 ''not_moderator''), s)
      else case waiting i s of
             Inl p \<Rightarrow> (Inl p, s)
           | Inr e \<Rightarrow>
               case body of
                 None \<Rightarrow> (Inl (Problem 400 ''bad_request''), s)
               | Some reason \<Rightarrow>
                   if TrimSpace reason = [] then (Inl (Problem 400 ''reason_required''), s)
                   else decide_card (rejected v (TrimSpace reason) e) [Lit ''machine rejected''] (mtext (TrimSpace reason)) s)"

definition pendingEquipment :: "(string \<Rightarrow> nat) \<Rightarrow> runes \<Rightarrow> int \<Rightarrow> time \<Rightarrow> Catalog \<Rightarrow> (Equipment \<times> int) list reply" where
  "pendingEquipment rank roles limit now s =
     (if \<not> moderator_roles roles then Inl (Problem 403 ''not_moderator'')
      else let limit = (if limit \<le> 0 \<or> limit > 100 then 50 else limit)
           in Inr (200, map (\<lambda>e. (withCategoryName s e, quot64 (now - eqUpdatedAt e) Hour)) (PendingEquipment rank limit s)))"

end
