(* ===== verification/Catalog_Properties.thy ===== *)
theory Catalog_Properties
  imports Catalog_Rules Catalog_Equipment
begin

text \<open>
  The machines under every sequence of requests: who can change a card and how its status moves, when it is
  published, and the bounds its fields keep.
\<close>


section \<open>Requests\<close>

datatype machine_request =
    MqCreate cenv string "equipmentBody option" | MqPatch cenv string string "equipmentBody option"
  | MqSubmit cenv string string | MqArchive cenv string string | MqApprove cenv runes string
  | MqReject cenv runes string "runes option" | MqEdit edition

fun handle :: "machine_request \<Rightarrow> Catalog \<Rightarrow> Catalog" where
  "handle (MqCreate v u b) s = snd (createEquipment v u b s)"
| "handle (MqPatch v u i b) s = snd (patchEquipment v u i b s)"
| "handle (MqSubmit v u i) s = snd (submitEquipment v u i s)"
| "handle (MqArchive v u i) s = snd (archiveEquipment v u i s)"
| "handle (MqApprove v roles i) s = snd (approveEquipment v roles i s)"
| "handle (MqReject v roles i b) s = snd (rejectEquipment v roles i b s)"
| "handle (MqEdit ed) s = s\<lparr>directory := edit ed (directory s)\<rparr>"

text \<open>A generated identifier is new.\<close>

fun new_machine :: "machine_request \<Rightarrow> Catalog \<Rightarrow> bool" where
  "new_machine (MqCreate v u b) s \<longleftrightarrow> map_of (machines s) (efresh v) = None"
| "new_machine _ s \<longleftrightarrow> True"

inductive catalogs :: "Catalog \<Rightarrow> bool" where
  catalogs_new: "catalogs \<lparr>directory = NewCategories, machines = [], letters = []\<rparr>"
| catalogs_handle: "catalogs s \<Longrightarrow> new_machine r s \<Longrightarrow> catalogs (handle r s)"


section \<open>What a request writes\<close>

text \<open>Every request leaves the machines alone or writes one card.\<close>

definition writes :: "Equipment \<Rightarrow> Catalog \<Rightarrow> Catalog \<Rightarrow> bool" where
  "writes e s s' \<longleftrightarrow> map_of (machines s') = (map_of (machines s))(eqID e \<mapsto> e)"

lemma store_card_cases:
  "machines (snd (store_card e s)) = machines s \<or> map_of (machines s) (eqID e) \<noteq> None \<and> writes e s (snd (store_card e s))"
  by (auto simp: store_card_def UpdateEquipment_def writes_def update_conv' split: sum.split)

lemma decide_card_cases:
  "machines (snd (decide_card e t b s)) = machines s \<or> map_of (machines s) (eqID e) \<noteq> None \<and> writes e s (snd (decide_card e t b s))"
  using store_card_cases [of e s] by (auto simp: decide_card_def notifyOwner_def writes_def split: prod.split sum.split)

lemma mine_Inr: "mine u i s = Inr e \<longleftrightarrow> u \<noteq> '''' \<and> map_of (machines s) i = Some e \<and> eqOwnerID e = u"
  by (auto simp: mine_def EquipmentByID_def split: sum.split elim!: or_err.elims)

lemma waiting_Inr: "waiting i s = Inr e \<longleftrightarrow> map_of (machines s) i = Some e \<and> eqStatus e = EqPending"
  by (auto simp: waiting_def EquipmentByID_def split: sum.split elim!: or_err.elims)

definition patched_card :: "cenv \<Rightarrow> Equipment \<Rightarrow> equipmentBody \<Rightarrow> Equipment" where
  "patched_card v e b = (Normalize (apply_body e b))\<lparr>eqUpdatedAt := eclock v\<rparr>"

inductive card_step :: "machine_request \<Rightarrow> Equipment \<Rightarrow> Equipment \<Rightarrow> bool" where
  step_patch: "eqStatus e \<noteq> EqPending \<Longrightarrow> card_step (MqPatch v (eqOwnerID e) (eqID e) (Some b)) e (patched_card v e b)"
| step_submit: "eqStatus e \<noteq> EqPending \<Longrightarrow> equipment_fields e (echeck v) = [] \<Longrightarrow>
    card_step (MqSubmit v (eqOwnerID e) (eqID e)) e (submitted v e)"
| step_archive: "card_step (MqArchive v (eqOwnerID e) (eqID e)) e (e\<lparr>eqStatus := EqArchived, eqUpdatedAt := eclock v\<rparr>)"
| step_approve: "eqStatus e = EqPending \<Longrightarrow> moderator_roles roles \<Longrightarrow> card_step (MqApprove v roles (eqID e)) e (approved v e)"
| step_reject: "eqStatus e = EqPending \<Longrightarrow> moderator_roles roles \<Longrightarrow> TrimSpace reason \<noteq> [] \<Longrightarrow>
    card_step (MqReject v roles (eqID e) (Some reason)) e (rejected v (TrimSpace reason) e)"

inductive_cases card_stepE: "card_step r e e'"

lemma step_id: "card_step r e e' \<Longrightarrow> eqID e' = eqID e \<and> eqOwnerID e' = eqOwnerID e \<and> eqWins e' = eqWins e \<and> eqCreatedAt e' = eqCreatedAt e"
  by (erule card_stepE)
    (simp_all add: patched_card_def Normalize_def apply_body_def submitted_def approved_def rejected_def)

text \<open>The writes of the handlers, one by one.\<close>

lemma patch_writes:
  assumes "map_of (machines s) i = Some e" and k: "eqID e = i"
  shows "machines (handle (MqPatch v u i b) s) = machines s
    \<or> (\<exists>e'. card_step (MqPatch v u i b) e e' \<and> writes e' s (handle (MqPatch v u i b) s))"
proof (cases "\<exists>bd. b = Some bd \<and> mine u i s = Inr e \<and> eqStatus e \<noteq> EqPending \<and> known_category (patched_card v e bd) s")
  case True
  then obtain bd where bd: "b = Some bd" "mine u i s = Inr e" "eqStatus e \<noteq> EqPending" "known_category (patched_card v e bd) s" by blast
  then have u: "u = eqOwnerID e" by (simp add: mine_Inr)
  have "handle (MqPatch v u i b) s = snd (store_card (patched_card v e bd) s)"
    using bd u by (simp add: patchEquipment_def CanEdit_def patched_card_def Let_def)
  then show ?thesis using store_card_cases [of "patched_card v e bd" s] step_patch [OF bd(3), of v bd] bd(1) u k by auto
next
  case False
  then have "machines (handle (MqPatch v u i b) s) = machines s"
    using assms(1) by (auto simp: patchEquipment_def CanEdit_def patched_card_def Let_def mine_Inr split: sum.split option.split)
  then show ?thesis ..
qed

lemma submit_writes:
  assumes "map_of (machines s) i = Some e" and "eqID e = i"
  shows "machines (handle (MqSubmit v u i) s) = machines s
    \<or> (\<exists>e'. card_step (MqSubmit v u i) e e' \<and> writes e' s (handle (MqSubmit v u i) s))"
  using assms store_card_cases [of "submitted v e" s] step_submit [of e v]
  by (auto simp: submitEquipment_def mine_Inr split: sum.split)

lemma archive_writes:
  assumes "map_of (machines s) i = Some e" and "eqID e = i"
  shows "machines (handle (MqArchive v u i) s) = machines s
    \<or> (\<exists>e'. card_step (MqArchive v u i) e e' \<and> writes e' s (handle (MqArchive v u i) s))"
  using assms store_card_cases [of "e\<lparr>eqStatus := EqArchived, eqUpdatedAt := eclock v\<rparr>" s] step_archive [of v e]
  by (auto simp: archiveEquipment_def mine_Inr split: sum.split)

lemma approve_writes:
  assumes "map_of (machines s) i = Some e" and "eqID e = i"
  shows "machines (handle (MqApprove v roles i) s) = machines s
    \<or> (\<exists>e'. card_step (MqApprove v roles i) e e' \<and> writes e' s (handle (MqApprove v roles i) s))"
  using assms decide_card_cases [of "approved v e" _ _ s] step_approve [of e roles v]
  by (auto simp: approveEquipment_def waiting_Inr split: sum.split)

lemma reject_writes:
  assumes "map_of (machines s) i = Some e" and "eqID e = i"
  shows "machines (handle (MqReject v roles i b) s) = machines s
    \<or> (\<exists>e'. card_step (MqReject v roles i b) e e' \<and> writes e' s (handle (MqReject v roles i b) s))"
proof (cases b)
  case None
  then show ?thesis by (simp add: rejectEquipment_def split: sum.split)
next
  case (Some reason)
  then show ?thesis
    using assms decide_card_cases [of "rejected v (TrimSpace reason) e" _ _ s] step_reject [of e roles reason v]
    by (auto simp: rejectEquipment_def waiting_Inr split: sum.split)
qed


lemma create_writes:
  "machines (handle (MqCreate v u b) s) = machines s
    \<or> (\<exists>bd. writes (Normalize (apply_body (blank_card v u) bd)) s (handle (MqCreate v u b) s))"
proof -
  have "eqID (Normalize (apply_body (blank_card v u) bd)) = efresh v" for bd
    by (simp add: Normalize_def apply_body_def blank_card_def)
  then show ?thesis
    by (auto simp: createEquipment_def CreateEquipment_def writes_def update_conv' Let_def split: option.split)
qed

lemma missing_writes:
  assumes "map_of (machines s) i = None"
  shows "machines (handle (MqPatch v u i b) s) = machines s" "machines (handle (MqSubmit v u i) s) = machines s"
    "machines (handle (MqArchive v u i) s) = machines s" "machines (handle (MqApprove v roles i) s) = machines s"
    "machines (handle (MqReject v roles i reason) s) = machines s"
proof -
  have "mine u i s \<noteq> Inr e" "waiting i s \<noteq> Inr e" for e using assms by (simp_all add: mine_Inr waiting_Inr)
  then obtain p q where p: "mine u i s = Inl p" "waiting i s = Inl q" by (metis sum.exhaust)
  then show "machines (handle (MqPatch v u i b) s) = machines s" "machines (handle (MqSubmit v u i) s) = machines s"
    "machines (handle (MqArchive v u i) s) = machines s" "machines (handle (MqApprove v roles i) s) = machines s"
    "machines (handle (MqReject v roles i reason) s) = machines s"
    by (simp_all add: patchEquipment_def submitEquipment_def archiveEquipment_def approveEquipment_def rejectEquipment_def)
qed

lemma handle_writes:
  assumes ids: "\<And>i e. map_of (machines s) i = Some e \<Longrightarrow> eqID e = i"
  shows "machines (handle r s) = machines s
    \<or> (\<exists>e e'. map_of (machines s) (eqID e) = Some e \<and> card_step r e e' \<and> writes e' s (handle r s))
    \<or> (\<exists>v u b bd. r = MqCreate v u b \<and> writes (Normalize (apply_body (blank_card v u) bd)) s (handle r s))"
proof -
  have target: ?thesis
    if "\<And>e. map_of (machines s) i = Some e \<Longrightarrow> eqID e = i \<Longrightarrow> machines (handle r s) = machines s
          \<or> (\<exists>e'. card_step r e e' \<and> writes e' s (handle r s))"
      and "map_of (machines s) i = None \<Longrightarrow> machines (handle r s) = machines s" for i
    using that ids by (cases "map_of (machines s) i") fastforce+
  show ?thesis
  proof (cases r)
    case (MqCreate v u b)
    then show ?thesis using create_writes [of v u b s] by auto
  next
    case (MqPatch v u i b)
    show ?thesis unfolding MqPatch by (rule target [of i, unfolded MqPatch]) (rule patch_writes missing_writes(1); assumption)+
  next
    case (MqSubmit v u i)
    show ?thesis unfolding MqSubmit by (rule target [of i, unfolded MqSubmit]) (rule submit_writes missing_writes(2); assumption)+
  next
    case (MqArchive v u i)
    show ?thesis unfolding MqArchive by (rule target [of i, unfolded MqArchive]) (rule archive_writes missing_writes(3); assumption)+
  next
    case (MqApprove v roles i)
    show ?thesis unfolding MqApprove by (rule target [of i, unfolded MqApprove]) (rule approve_writes missing_writes(4); assumption)+
  next
    case (MqReject v roles i b)
    show ?thesis unfolding MqReject by (rule target [of i, unfolded MqReject]) (rule reject_writes missing_writes(5); assumption)+
  qed simp
qed


section \<open>Cards in order\<close>

definition in_money :: "int option \<Rightarrow> bool" where
  "in_money v \<longleftrightarrow> (case v of None \<Rightarrow> True | Some x \<Rightarrow> 0 < x \<and> x \<le> maxRateValue)"

definition card_bounds :: "Equipment \<Rightarrow> bool" where
  "card_bounds e \<longleftrightarrow> length (eqBrand e) \<le> maxBrandLen \<and> length (eqModel e) \<le> maxModelLen \<and> length (eqPhotos e) \<le> maxEqPhotos
     \<and> 0 \<le> eqCrewSize e \<and> eqCrewSize e \<le> maxCrewSize \<and> 1 \<le> eqDraftStep e \<and> eqDraftStep e \<le> 4
     \<and> in_money (eqPriceHour e) \<and> in_money (eqPriceShift e) \<and> in_money (eqPriceDay e) \<and> in_money (eqDelivery e)
     \<and> in_money (eqCrewPrice e) \<and> (\<forall>h. eqMinHours e = Some h \<longrightarrow> 0 < h \<and> h \<le> maxMinHours)"

definition card_ok :: "Equipment \<Rightarrow> bool" where
  "card_ok e \<longleftrightarrow> card_bounds e
     \<and> (eqStatus e = EqPending \<longrightarrow> eqDocs e \<noteq> [] \<and> eqPhotos e \<noteq> [] \<and> eqYear e \<noteq> None \<and> TrimSpace (eqBrand e) \<noteq> []
          \<and> TrimSpace (eqModel e) \<noteq> [])
     \<and> (eqStatus e = EqRejected \<longrightarrow> eqRejectReason e \<noteq> [])"

lemma clampMoney_in [simp]: "in_money (clampMoney v)"
  by (auto simp: in_money_def clampMoney_def split: option.split)

lemma clamp_hours_in: "clamp_hours v = Some h \<Longrightarrow> 0 < h \<and> h \<le> maxMinHours"
  by (auto simp: clamp_hours_def maxMinHours_def split: option.splits if_splits)

lemma length_trimTo: "length (trimTo s n) \<le> n"
  by (simp add: trimTo_def Let_def)

lemma Normalize_bounds: "card_bounds (Normalize e)"
  by (auto simp: card_bounds_def Normalize_def length_trimTo clamp_def maxCrewSize_def Let_def dest: clamp_hours_in)

lemma equipment_fields_Nil:
  "equipment_fields e now = [] \<longleftrightarrow> TrimSpace (eqCategoryID e) \<noteq> [] \<and> TrimSpace (eqBrand e) \<noteq> [] \<and> TrimSpace (eqModel e) \<noteq> []
     \<and> (\<exists>y. eqYear e = Some y \<and> minYear \<le> y \<and> y \<le> Year_of now) \<and> eqPhotos e \<noteq> []"
  by (auto simp: equipment_fields_def not_less split: option.split)

lemma patched_status [simp]: "eqStatus (patched_card v e b) = eqStatus e" "eqRejectReason (patched_card v e b) = eqRejectReason e"
  by (simp_all add: patched_card_def Normalize_def apply_body_def)

lemma patched_bounds: "card_bounds (patched_card v e b)"
  using Normalize_bounds [of "apply_body e b"] by (simp add: patched_card_def card_bounds_def)

lemma step_ok: "card_step r e e' \<Longrightarrow> card_ok e \<Longrightarrow> card_ok e'"
proof (erule card_stepE, goal_cases)
  case (1 v b)
  then show ?case using patched_bounds by (simp add: card_ok_def)
next
  case (2 v)
  then show ?case
    unfolding equipment_fields_Nil by (auto simp: card_ok_def submitted_def card_bounds_def StatusAfterSubmit_def)
qed (auto simp: card_ok_def card_bounds_def approved_def rejected_def)


definition catalog_ok :: "Catalog \<Rightarrow> bool" where
  "catalog_ok s \<longleftrightarrow> directory_ok (directory s) \<and> (\<forall>i e. map_of (machines s) i = Some e \<longrightarrow> eqID e = i \<and> card_ok e)"

lemma blank_ok: "card_ok (Normalize (apply_body (blank_card v u) b))"
proof -
  have "eqStatus (Normalize (apply_body (blank_card v u) b)) = EqDraft"
    by (simp add: Normalize_def apply_body_def blank_card_def)
  then show ?thesis using Normalize_bounds by (simp add: card_ok_def)
qed

lemma handle_machines_ok:
  assumes ok: "\<forall>i e. map_of (machines s) i = Some e \<longrightarrow> eqID e = i \<and> card_ok e"
  shows "\<forall>i e. map_of (machines (handle r s)) i = Some e \<longrightarrow> eqID e = i \<and> card_ok e"
proof -
  have w: ?thesis if "writes e s (handle r s)" "card_ok e" for e
    using that ok by (auto simp: writes_def)
  consider "machines (handle r s) = machines s"
    | e e' where "map_of (machines s) (eqID e) = Some e" "card_step r e e'" "writes e' s (handle r s)"
    | v u bd where "writes (Normalize (apply_body (blank_card v u) bd)) s (handle r s)"
    using handle_writes [of s r] ok by blast
  then show ?thesis
  proof cases
    case 1
    then show ?thesis using ok by simp
  next
    case 2
    then show ?thesis using w step_ok ok by blast
  next
    case 3
    then show ?thesis using w blank_ok by blast
  qed
qed

text \<open>The directory of a catalog is one of the directories of Catalog_Rules.\<close>

fun edition_new :: "machine_request \<Rightarrow> Catalog \<Rightarrow> bool" where
  "edition_new (MqEdit ed) s \<longleftrightarrow> new_row ed (directory s)"
| "edition_new _ s \<longleftrightarrow> True"

lemma catalogs_ok: "catalogs s \<Longrightarrow> \<forall>i e. map_of (machines s) i = Some e \<longrightarrow> eqID e = i \<and> card_ok e"
  by (induction rule: catalogs.induct) (simp, rule handle_machines_ok)

text \<open>C24: In every reachable state every card keeps its bounds: names of at most sixty characters, at most
  eight photos, a crew of nobody to twenty, rates that are positive and at most a hundred million, a minimal
  order of one to twenty-four hours; a card that waits for the check has its documents, a photo, a brand, a
  model and a year, and a rejected card carries a reason.\<close>

theorem cards_in_bounds:
  assumes "catalogs s" and "map_of (machines s) i = Some e"
  shows "eqID e = i \<and> card_bounds e
    \<and> (eqStatus e = EqPending \<longrightarrow> eqDocs e \<noteq> [] \<and> eqPhotos e \<noteq> [] \<and> eqYear e \<noteq> None
         \<and> TrimSpace (eqBrand e) \<noteq> [] \<and> TrimSpace (eqModel e) \<noteq> [])
    \<and> (eqStatus e = EqRejected \<longrightarrow> eqRejectReason e \<noteq> [])"
  using catalogs_ok [OF assms(1)] assms(2) by (auto simp: card_ok_def)

text \<open>C25: A card is never lost, and it is changed only by a request about it: of its owner, who edits, submits
  or archives it, or of a moderator, who decides about a card that waits. The identifier, the owner and the
  count of wins never change, and a card becomes verified only by the approval of a moderator while it
  waits for the check.\<close>

theorem card_changes:
  assumes "catalogs s" and "new_machine r s" and "map_of (machines s) i = Some e"
  shows "\<exists>e'. map_of (machines (handle r s)) i = Some e' \<and> (e' = e \<or> card_step r e e')
    \<and> eqID e' = i \<and> eqOwnerID e' = eqOwnerID e \<and> eqWins e' = eqWins e
    \<and> (eqStatus e' = EqVerified \<longrightarrow> eqStatus e = EqVerified
         \<or> eqStatus e = EqPending \<and> (\<exists>v roles. r = MqApprove v roles i \<and> moderator_roles roles))
    \<and> (eqStatus e = EqPending \<longrightarrow> eqStatus e' \<in> {EqPending, EqVerified, EqRejected, EqArchived})"
proof -
  have ids: "\<And>i e. map_of (machines s) i = Some e \<Longrightarrow> eqID e = i" using catalogs_ok [OF assms(1)] by blast
  have i: "eqID e = i" using ids assms(3) .
  have step: "?thesis" if "map_of (machines (handle r s)) i = Some e'" "card_step r e e'" for e'
  proof -
    have "eqStatus e' = EqVerified \<longrightarrow> eqStatus e = EqVerified
         \<or> eqStatus e = EqPending \<and> (\<exists>v roles. r = MqApprove v roles i \<and> moderator_roles roles)"
      "eqStatus e = EqPending \<longrightarrow> eqStatus e' \<in> {EqPending, EqVerified, EqRejected, EqArchived}"
      using that(2) i by (auto elim!: card_stepE simp: submitted_def StatusAfterSubmit_def approved_def rejected_def split: if_split_asm)
    then show ?thesis using that step_id [OF that(2)] i by (intro exI [of _ e']) simp
  qed
  have same: ?thesis if "map_of (machines (handle r s)) i = Some e"
    using that i by (intro exI [of _ e]) simp
  consider "machines (handle r s) = machines s"
    | d d' where "map_of (machines s) (eqID d) = Some d" "card_step r d d'" "writes d' s (handle r s)"
    | v u b bd where "r = MqCreate v u b" "writes (Normalize (apply_body (blank_card v u) bd)) s (handle r s)"
    using handle_writes [OF ids] by blast
  then show ?thesis
  proof cases
    case 1
    then show ?thesis using same assms(3) by simp
  next
    case 2
    have "eqID d' = eqID d" using step_id [OF 2(2)] by simp
    then show ?thesis using 2 step same assms(3) by (cases "eqID d = i") (auto simp: writes_def)
  next
    case 3
    have "eqID (Normalize (apply_body (blank_card v u) bd)) = efresh v"
      by (simp add: Normalize_def apply_body_def blank_card_def)
    moreover have "efresh v \<noteq> i" using assms(2,3) 3(1) by auto
    ultimately show ?thesis using 3(2) same assms(3) by (simp add: writes_def)
  qed
qed


section \<open>Publication\<close>

definition publishable_card :: "Equipment \<Rightarrow> time \<Rightarrow> bool" where
  "publishable_card e now \<longleftrightarrow> TrimSpace (eqCategoryID e) \<noteq> [] \<and> TrimSpace (eqBrand e) \<noteq> [] \<and> TrimSpace (eqModel e) \<noteq> []
     \<and> (case eqYear e of None \<Rightarrow> False | Some y \<Rightarrow> 1980 \<le> y \<and> y \<le> Year_of now) \<and> eqPhotos e \<noteq> []"

text \<open>A card is submitted exactly by its owner, when it is not already waiting and everything a customer
  recognises a machine by is filled in; with documents it goes to the check, without them it is published at
  once, and a refusal changes nothing.\<close>

theorem submitEquipment_iff:
  assumes "catalogs s" and "map_of (machines s) i = Some e"
  shows "((\<exists>x. fst (submitEquipment v user i s) = Inr x) \<longleftrightarrow>
      user \<noteq> '''' \<and> user = eqOwnerID e \<and> eqStatus e \<noteq> EqPending \<and> publishable_card e (echeck v))
    \<and> (\<forall>p. fst (submitEquipment v user i s) = Inl p \<longrightarrow> snd (submitEquipment v user i s) = s)
    \<and> (\<forall>c e'. fst (submitEquipment v user i s) = Inr (c, e') \<longrightarrow>
         map_of (machines (snd (submitEquipment v user i s))) = (map_of (machines s))(i \<mapsto> e')
         \<and> eqStatus e' = (if eqDocs e = [] then EqUnverified else EqPending) \<and> eqRejectReason e' = [])"
proof -
  have i: "eqID e = i" using catalogs_ok [OF assms(1)] assms(2) by blast
  have "store_card (submitted v e) s = (Inr (200, submitted v e), s\<lparr>machines := AList.update i (submitted v e) (machines s)\<rparr>)"
    using assms(2) i by (simp add: store_card_def UpdateEquipment_def submitted_def)
  moreover have "equipment_fields e (echeck v) = [] \<longleftrightarrow> publishable_card e (echeck v)"
    unfolding equipment_fields_Nil publishable_card_def minYear_def by (auto split: option.split)
  ultimately show ?thesis using assms(2)
    by (cases "user \<noteq> '''' \<and> user = eqOwnerID e \<and> eqStatus e \<noteq> EqPending \<and> publishable_card e (echeck v)")
      (auto simp: submitEquipment_def mine_def EquipmentByID_def submitted_def StatusAfterSubmit_def update_conv')
qed

text \<open>The badge outlives what was checked: an owner may edit a verified card, and whatever changes, photos
  and documents removed included, the card stays verified and active, even when it could no longer be
  published.\<close>

theorem patch_keeps_badge:
  assumes "catalogs s" and "map_of (machines s) i = Some e" and "eqStatus e = EqVerified" and "eqOwnerID e \<noteq> ''''"
    and "known_category (patched_card v e b) s"
  shows "\<exists>s'. patchEquipment v (eqOwnerID e) i (Some b) s = (Inr (200, patched_card v e b), s')
    \<and> map_of (machines s') i = Some (patched_card v e b) \<and> eqStatus (patched_card v e b) = EqVerified
    \<and> (ebPhotos b = Some [] \<longrightarrow> Active (patched_card v e b) \<and> \<not> publishable_card (patched_card v e b) now)"
proof -
  have i: "eqID e = i" using catalogs_ok [OF assms(1)] assms(2) by blast
  have "eqID (patched_card v e b) = i" using i by (simp add: patched_card_def Normalize_def apply_body_def)
  then have "store_card (patched_card v e b) s
      = (Inr (200, patched_card v e b), s\<lparr>machines := AList.update i (patched_card v e b) (machines s)\<rparr>)"
    using assms(2) by (simp add: store_card_def UpdateEquipment_def)
  then have "patchEquipment v (eqOwnerID e) i (Some b) s
      = (Inr (200, patched_card v e b), s\<lparr>machines := AList.update i (patched_card v e b) (machines s)\<rparr>)"
    using assms by (simp add: patchEquipment_def mine_def EquipmentByID_def CanEdit_def patched_card_def Let_def)
  moreover have "ebPhotos b = Some [] \<Longrightarrow> eqPhotos (patched_card v e b) = []"
    by (simp add: patched_card_def Normalize_def apply_body_def)
  ultimately show ?thesis using assms(3) by (auto simp: update_conv' Active_def publishable_card_def)
qed


section \<open>A machine from the draft to the badge\<close>

definition no_body :: equipmentBody where
  "no_body = \<lparr>ebCategoryID = None, ebBrand = None, ebModel = None, ebYear = None, ebSpecs = None, ebPriceHour = None,
     ebPriceShift = None, ebPriceDay = None, ebMinHours = None, ebDelivery = None, ebCrewSize = None, ebCrewPrice = None,
     ebPhotos = None, ebDocs = None, ebDraftStep = None\<rparr>"

definition digger_body :: equipmentBody where
  "digger_body = no_body\<lparr>ebCategoryID := Some (runes_of ''c02b2502-1789-5217-be9f-d5fc04fe1cae''), ebBrand := Some (runes_of ''JCB''),
     ebModel := Some (runes_of ''3CX''), ebYear := Some 2015, ebPriceHour := Some 9000, ebPriceDay := Some (- 5),
     ebCrewSize := Some 99, ebPhotos := Some [[1], [2]], ebDocs := Some [[3]]\<rparr>"

definition in_2024 :: "string \<Rightarrow> cenv" where
  "in_2024 i = \<lparr>echeck = 738900 * Day, eclock = 738900 * Day, efresh = i\<rparr>"

definition digger_requests :: "machine_request list" where
  "digger_requests =
     [MqCreate (in_2024 ''m1'') ''boris'' (Some digger_body), MqSubmit (in_2024 '''') ''boris'' ''m1'',
      MqApprove (in_2024 '''') (runes_of ''client, moderator'') ''m1'']"

definition empty_catalog :: Catalog where
  "empty_catalog = \<lparr>directory = NewCategories, machines = [], letters = []\<rparr>"

definition waiting_catalog :: Catalog where
  "waiting_catalog = fold handle (take 2 digger_requests) empty_catalog"

definition badge_catalog :: Catalog where
  "badge_catalog = fold handle digger_requests empty_catalog"

lemma catalogs_waiting: "catalogs waiting_catalog"
  unfolding waiting_catalog_def digger_requests_def empty_catalog_def take_Suc_Cons take_0 numeral_2_eq_2 fold.simps comp_def id_apply
  by (intro catalogs_handle catalogs_new) simp_all

lemma catalogs_badge: "catalogs badge_catalog"
  unfolding badge_catalog_def digger_requests_def empty_catalog_def fold.simps comp_def id_apply
  by (intro catalogs_handle catalogs_new) simp_all

theorem cards_in_bounds_witness:
  "\<exists>e. map_of (machines waiting_catalog) ''m1'' = Some e \<and> eqStatus e = EqPending \<and> eqCrewSize e = 20
     \<and> eqPriceDay e = None \<and> card_bounds e \<and> eqDocs e \<noteq> []"
proof -
  have "map_option (\<lambda>e. (eqStatus e, eqCrewSize e, eqPriceDay e)) (map_of (machines waiting_catalog) ''m1'') = Some (EqPending, 20, None)"
    by code_simp
  then obtain e where "map_of (machines waiting_catalog) ''m1'' = Some e" "eqStatus e = EqPending" "eqCrewSize e = 20" "eqPriceDay e = None"
    by auto
  then show ?thesis using cards_in_bounds [OF catalogs_waiting] by blast
qed

theorem card_changes_witness:
  "\<exists>e e'. map_of (machines waiting_catalog) ''m1'' = Some e
     \<and> map_of (machines (handle (MqApprove (in_2024 '''') (runes_of ''admin'') ''m1'') waiting_catalog)) ''m1'' = Some e'
     \<and> eqStatus e' = EqVerified \<and> eqOwnerID e' = eqOwnerID e
     \<and> card_step (MqApprove (in_2024 '''') (runes_of ''admin'') ''m1'') e e'"
proof -
  let ?r = "MqApprove (in_2024 '''') (runes_of ''admin'') ''m1''"
  have "map_option eqStatus (map_of (machines waiting_catalog) ''m1'') = Some EqPending"
    "map_option eqStatus (map_of (machines (handle ?r waiting_catalog)) ''m1'') = Some EqVerified"
    by code_simp+
  then obtain e e' where e: "map_of (machines waiting_catalog) ''m1'' = Some e" "eqStatus e = EqPending"
    and e': "map_of (machines (handle ?r waiting_catalog)) ''m1'' = Some e'" "eqStatus e' = EqVerified" by auto
  have new: "new_machine ?r waiting_catalog" by simp
  have "e' \<noteq> e" using e(2) e'(2) by auto
  then show ?thesis using card_changes [OF catalogs_waiting new e(1)] e e' by auto
qed

theorem submitEquipment_iff_witness:
  "\<exists>e. map_of (machines badge_catalog) ''m1'' = Some e \<and> eqStatus e = EqVerified
     \<and> (\<exists>x. fst (submitEquipment (in_2024 '''') ''boris'' ''m1'' badge_catalog) = Inr x)
     \<and> \<not> (\<exists>x. fst (submitEquipment (in_2024 '''') ''anna'' ''m1'' badge_catalog) = Inr x)"
proof -
  have "map_option (\<lambda>e. (eqStatus e, eqOwnerID e, publishable_card e (echeck (in_2024 '''')))) (map_of (machines badge_catalog) ''m1'')
    = Some (EqVerified, ''boris'', True)" by code_simp
  then obtain e where e: "map_of (machines badge_catalog) ''m1'' = Some e"
    and f: "eqStatus e = EqVerified" "eqOwnerID e = ''boris''" "publishable_card e (echeck (in_2024 ''''))" by auto
  show ?thesis
    using submitEquipment_iff [OF catalogs_badge e, of "in_2024 ''''" "''boris''"]
      submitEquipment_iff [OF catalogs_badge e, of "in_2024 ''''" "''anna''"] e f by simp
qed

theorem patch_keeps_badge_witness:
  "\<exists>e s'. map_of (machines badge_catalog) ''m1'' = Some e
     \<and> patchEquipment (in_2024 '''') ''boris'' ''m1'' (Some (no_body\<lparr>ebPhotos := Some [], ebBrand := Some []\<rparr>)) badge_catalog
         = (Inr (200, patched_card (in_2024 '''') e (no_body\<lparr>ebPhotos := Some [], ebBrand := Some []\<rparr>)), s')
     \<and> eqStatus (patched_card (in_2024 '''') e (no_body\<lparr>ebPhotos := Some [], ebBrand := Some []\<rparr>)) = EqVerified"
proof -
  let ?b = "no_body\<lparr>ebPhotos := Some [], ebBrand := Some []\<rparr>"
  have "map_option (\<lambda>e. (eqStatus e, eqOwnerID e, known_category (patched_card (in_2024 '''') e ?b) badge_catalog))
      (map_of (machines badge_catalog) ''m1'') = Some (EqVerified, ''boris'', True)"
    by code_simp
  then obtain e where e: "map_of (machines badge_catalog) ''m1'' = Some e"
    and f: "eqStatus e = EqVerified" "eqOwnerID e = ''boris''" "known_category (patched_card (in_2024 '''') e ?b) badge_catalog" by auto
  have "eqOwnerID e \<noteq> ''''" using f(2) by simp
  then show ?thesis using patch_keeps_badge [OF catalogs_badge e f(1) _ f(3)] e f by auto
qed

end
