(* ===== verification/Params.thy ===== *)
theory Params
  imports Prelude
begin

text \<open>The numbers and the words in a request.\<close>

text \<open>
  \<^verbatim>\<open>strconv.Atoi\<close> with its error dropped: nothing for a string that is no number, the nearest number of 64 bits for
  one that is too big. The scan stops where the number has outgrown 64 bits, whatever comes after.
\<close>

fun scan_uint :: "nat \<Rightarrow> string \<Rightarrow> nat option" where
  "scan_uint n [] = Some n"
| "scan_uint n (c # cs) =
     (if \<not> (48 \<le> (of_char c :: nat) \<and> (of_char c :: nat) \<le> 57) then None
      else let n' = n * 10 + (of_char c - 48)
           in if n' > 2 ^ 64 - 1 then Some (2 ^ 64 - 1) else scan_uint n' cs)"

definition signed_uint :: "bool \<Rightarrow> string \<Rightarrow> int" where
  "signed_uint neg ds =
     (case (if ds = [] then None else scan_uint 0 ds) of
        None \<Rightarrow> 0
      | Some n \<Rightarrow> if neg then - min (int n) (2 ^ 63) else min (int n) (2 ^ 63 - 1))"

fun Atoi :: "string \<Rightarrow> int" where
  "Atoi [] = 0"
| "Atoi (c # cs) =
     (if c = CHR ''-'' then signed_uint True cs else if c = CHR ''+'' then signed_uint False cs
      else signed_uint False (c # cs))"

text \<open>Identifiers and words of the interface are of one byte a character; one typed otherwise names nothing.\<close>

definition word_of :: "runes \<Rightarrow> string" where
  "word_of s = map (\<lambda>r. if 0 \<le> r \<and> r < 256 then char_of (nat r) else CHR ''?'') s"

lemma scan_uint_bounded: "n \<le> 2 ^ 64 - 1 \<Longrightarrow> scan_uint n ds = Some m \<Longrightarrow> m \<le> 2 ^ 64 - 1"
  by (induction n ds rule: scan_uint.induct) (auto simp: Let_def split: if_splits)

lemma Atoi_64_bits: "- (2 ^ 63) \<le> Atoi s \<and> Atoi s < 2 ^ 63"
  by (cases s) (auto simp: signed_uint_def split: option.split)

end
