(* ===== verification/Notifications_Service.thy ===== *)
theory Notifications_Service
  imports Tables Params
begin

text \<open>
  The service of notifications: devices, the center of notifications and the settings
  (\<^verbatim>\<open>notifications/internal/store/store.go\<close>, \<^verbatim>\<open>memory.go\<close>, \<^verbatim>\<open>feed_memory.go\<close>, \<^verbatim>\<open>prefs_memory.go\<close>), the quiet hours
  (\<^verbatim>\<open>service/prefs.go\<close>), the delivery (\<^verbatim>\<open>service/notify.go\<close>) and the handlers (\<^verbatim>\<open>httpapi/server.go\<close>).
\<close>


section \<open>Records\<close>

record Device =
  deToken :: string
  deUserID :: string
  dePlatform :: string
  deLocale :: string
  deAppVersion :: string
  deCreatedAt :: time
  deLastSeenAt :: time

definition PlatformAndroid :: string where "PlatformAndroid = ''android''"

record Notice =
  noID :: string
  noUserID :: string
  noKind :: string
  noTitle :: runes
  noBody :: runes
  noData :: "(string \<times> string) list"
  noReadAt :: "time option"
  noCreatedAt :: time

record Prefs =
  prUserID :: string
  prAuctions :: bool
  prDeals :: bool
  prChat :: bool
  prNewJobs :: bool
  prMarketing :: bool
  prQuietHours :: bool
  prQuietFrom :: int
  prQuietTo :: int
  prOutbidAlways :: bool

definition DefaultPrefs :: "string \<Rightarrow> Prefs" where
  "DefaultPrefs userID =
     \<lparr>prUserID = userID, prAuctions = True, prDeals = True, prChat = True, prNewJobs = True, prMarketing = False,
      prQuietHours = True, prQuietFrom = 22, prQuietTo = 8, prOutbidAlways = False\<rparr>"

text \<open>A message to one device and what the provider says of it.\<close>

record PushMessage =
  pmToken :: string
  pmTitle :: runes
  pmBody :: runes
  pmData :: "(string \<times> string) list"

datatype push_result = Pushed | ErrTokenInvalid | PushFailed


section \<open>The store\<close>

record Center =
  devices :: "(string, Device) gomap"
  feed :: "(string, Notice) gomap"
  prefs :: "(string, Prefs) gomap"

definition NewCenter :: Center where
  "NewCenter = \<lparr>devices = [], feed = [], prefs = []\<rparr>"

definition UpsertDevice :: "Device \<Rightarrow> Center \<Rightarrow> Center" where
  "UpsertDevice d s =
     (let d = (case map_of (devices s) (deToken d) of None \<Rightarrow> d | Some p \<Rightarrow> d\<lparr>deCreatedAt := deCreatedAt p\<rparr>)
      in s\<lparr>devices := AList.update (deToken d) d (devices s)\<rparr>)"

definition DeleteDevice :: "string \<Rightarrow> Center \<Rightarrow> Center" where
  "DeleteDevice token s = s\<lparr>devices := AList.delete token (devices s)\<rparr>"

text \<open>Go compares strings byte by byte.\<close>

fun str_less :: "string \<Rightarrow> string \<Rightarrow> bool" where
  "str_less s [] = False"
| "str_less [] (d # ds) = True"
| "str_less (c # cs) (d # ds) = (if c = d then str_less cs ds else (of_char c :: nat) < of_char d)"

definition by_token :: "Device \<Rightarrow> Device \<Rightarrow> bool" where
  "by_token x y \<longleftrightarrow> str_less (deToken x) (deToken y)"

definition ListDevicesByUser :: "(string \<Rightarrow> nat) \<Rightarrow> string \<Rightarrow> Center \<Rightarrow> Device list" where
  "ListDevicesByUser rank userID s =
     sort_by by_token (filter (\<lambda>d. deUserID d = userID) (grange rank (devices s)))"

definition SaveNotification :: "Notice \<Rightarrow> Center \<Rightarrow> Center" where
  "SaveNotification n s = s\<lparr>feed := AList.update (noID n) n (feed s)\<rparr>"

definition newer_notice :: "Notice \<Rightarrow> Notice \<Rightarrow> bool" where
  "newer_notice x y \<longleftrightarrow> noCreatedAt x > noCreatedAt y"

definition ListNotifications :: "(string \<Rightarrow> nat) \<Rightarrow> string \<Rightarrow> int \<Rightarrow> int \<Rightarrow> Center \<Rightarrow> Notice list" where
  "ListNotifications rank userID limit offset s =
     gopage limit offset (sort_by newer_notice (filter (\<lambda>n. noUserID n = userID) (grange rank (feed s))))"

definition unread :: "string \<Rightarrow> Notice \<Rightarrow> bool" where
  "unread userID n \<longleftrightarrow> noUserID n = userID \<and> noReadAt n = None"

definition UnreadCount :: "string \<Rightarrow> Center \<Rightarrow> int" where
  "UnreadCount userID s = int (length (filter (unread userID) (gvals (feed s))))"

definition marks_notice :: "string \<Rightarrow> string list \<Rightarrow> string \<Rightarrow> Notice \<Rightarrow> bool" where
  "marks_notice userID ids i n \<longleftrightarrow> unread userID n \<and> (ids = [] \<or> i \<in> set ids)"

definition MarkNotificationsRead :: "string \<Rightarrow> string list \<Rightarrow> time \<Rightarrow> Center \<Rightarrow> Center" where
  "MarkNotificationsRead userID ids now s =
     s\<lparr>feed := map (\<lambda>(i, n). (i, if marks_notice userID ids i n then n\<lparr>noReadAt := Some now\<rparr> else n)) (feed s)\<rparr>"

definition DeleteOldNotifications :: "time \<Rightarrow> Center \<Rightarrow> int \<times> Center" where
  "DeleteOldNotifications before s =
     (int (length (filter (\<lambda>n. noCreatedAt n < before) (gvals (feed s)))),
      s\<lparr>feed := filter (\<lambda>(i, n). \<not> noCreatedAt n < before) (feed s)\<rparr>)"

definition PrefsOf :: "string \<Rightarrow> Center \<Rightarrow> Prefs" where
  "PrefsOf userID s = (case map_of (prefs s) userID of None \<Rightarrow> DefaultPrefs userID | Some p \<Rightarrow> p)"

definition store_SavePrefs :: "Prefs \<Rightarrow> Center \<Rightarrow> Center" where
  "store_SavePrefs p s = s\<lparr>prefs := AList.update (prUserID p) p (prefs s)\<rparr>"


section \<open>Settings and quiet hours\<close>

text \<open>The hour in Armenia, four hours ahead of UTC.\<close>

definition local_hour :: "time \<Rightarrow> int" where
  "local_hour now = ((now + 4 * Hour) div Hour) mod 24"

definition Prefs_of :: "string \<Rightarrow> Center \<Rightarrow> Prefs option" where
  "Prefs_of userID s = (if userID = '''' then None else Some (PrefsOf userID s))"

definition clampHour :: "int \<Rightarrow> int \<Rightarrow> int" where
  "clampHour h fallback = (if h < 0 \<or> h > 23 then fallback else h)"

definition SavePrefs :: "Prefs \<Rightarrow> Center \<Rightarrow> Center option" where
  "SavePrefs p s =
     (if prUserID p = '''' then None
      else Some (store_SavePrefs (p\<lparr>prQuietFrom := clampHour (prQuietFrom p) 22, prQuietTo := clampHour (prQuietTo p) 8\<rparr>) s))"

datatype group = GAuctions | GDeals | GMessage | GNewJobs | GMarketing | GSystem

definition group_of :: "string \<Rightarrow> group" where
  "group_of kind =
     (if kind = ''auction'' \<or> kind = ''outbid'' then GAuctions
      else if kind = ''deal'' \<or> kind = ''offer'' \<or> kind = ''review'' then GDeals
      else if kind = ''message'' then GMessage
      else if kind = ''job'' then GNewJobs
      else if kind = ''marketing'' then GMarketing
      else GSystem)"

fun group_on :: "Prefs \<Rightarrow> group \<Rightarrow> bool" where
  "group_on p GAuctions = prAuctions p"
| "group_on p GDeals = prDeals p"
| "group_on p GMessage = prChat p"
| "group_on p GNewJobs = prNewJobs p"
| "group_on p GMarketing = prMarketing p"
| "group_on p GSystem = True"

definition inQuietHours :: "Prefs \<Rightarrow> time \<Rightarrow> bool" where
  "inQuietHours p now =
     (let h = local_hour now
      in if prQuietFrom p = prQuietTo p then False
         else if prQuietFrom p < prQuietTo p then h \<ge> prQuietFrom p \<and> h < prQuietTo p
         else h \<ge> prQuietFrom p \<or> h < prQuietTo p)"

definition allowPush :: "Prefs \<Rightarrow> string \<Rightarrow> time \<Rightarrow> bool" where
  "allowPush p kind now =
     (if \<not> group_on p (group_of kind) then False
      else if \<not> prQuietHours p \<or> \<not> inQuietHours p now then True
      else kind = ''outbid'' \<and> prOutbidAlways p)"


section \<open>Delivery\<close>

text \<open>
  The clock at the two places \<^verbatim>\<open>Notify\<close> reads it, the identifier of the entry, the visiting order of the
  devices and the provider, whose answers are arbitrary.
\<close>

record nenv =
  nclock :: "nat \<Rightarrow> time"
  nfresh :: string
  niter :: "string \<Rightarrow> nat"
  provider :: "PushMessage \<Rightarrow> push_result"

record RegisterInput =
  riUserID :: string
  riToken :: string
  riPlatform :: string
  riLocale :: string
  riAppVersion :: string

definition RegisterDevice :: "nenv \<Rightarrow> RegisterInput \<Rightarrow> Center \<Rightarrow> Center option" where
  "RegisterDevice e r s =
     (if riUserID r = '''' \<or> riToken r = '''' then None
      else Some (UpsertDevice
        \<lparr>deToken = riToken r, deUserID = riUserID r,
         dePlatform = (if riPlatform r = '''' then PlatformAndroid else riPlatform r), deLocale = riLocale r,
         deAppVersion = riAppVersion r, deCreatedAt = nclock e 0, deLastSeenAt = nclock e 0\<rparr> s))"

definition UnregisterDevice :: "string \<Rightarrow> Center \<Rightarrow> Center option" where
  "UnregisterDevice token s = (if token = '''' then None else Some (DeleteDevice token s))"

record Notification =
  ntKind :: string
  ntTitle :: runes
  ntBody :: runes
  ntData :: "(string \<times> string) list"

definition saveToFeed :: "nenv \<Rightarrow> string \<Rightarrow> Notification \<Rightarrow> Center \<Rightarrow> Center" where
  "saveToFeed e userID msg =
     SaveNotification \<lparr>noID = nfresh e, noUserID = userID,
       noKind = (if ntKind msg = '''' then ''system'' else ntKind msg), noTitle = ntTitle msg, noBody = ntBody msg,
       noData = ntData msg, noReadAt = None, noCreatedAt = nclock e 0\<rparr>"

definition push_to :: "Notification \<Rightarrow> Device \<Rightarrow> PushMessage" where
  "push_to msg d = \<lparr>pmToken = deToken d, pmTitle = ntTitle msg, pmBody = ntBody msg, pmData = ntData msg\<rparr>"

text \<open>The loop over the devices, with the messages handed to the provider.\<close>

fun push_all :: "nenv \<Rightarrow> Notification \<Rightarrow> Device list \<Rightarrow> Center \<Rightarrow> int \<times> PushMessage list \<times> Center" where
  "push_all e msg [] s = (0, [], s)"
| "push_all e msg (d # ds) s =
     (case provider e (push_to msg d) of
        Pushed \<Rightarrow> (case push_all e msg ds s of (n, out, s') \<Rightarrow> (n + 1, push_to msg d # out, s'))
      | ErrTokenInvalid \<Rightarrow> (case push_all e msg ds (DeleteDevice (deToken d) s) of (n, out, s') \<Rightarrow> (n, push_to msg d # out, s'))
      | PushFailed \<Rightarrow> (case push_all e msg ds s of (n, out, s') \<Rightarrow> (n, push_to msg d # out, s')))"

definition Notify :: "nenv \<Rightarrow> string \<Rightarrow> Notification \<Rightarrow> Center \<Rightarrow> int \<times> PushMessage list \<times> Center" where
  "Notify e userID msg s =
     (let s = saveToFeed e userID msg s
      in if \<not> allowPush (PrefsOf userID s) (ntKind msg) (nclock e 1) then (0, [], s)
         else push_all e msg (ListDevicesByUser (niter e) userID s) s)"

definition Feed :: "nenv \<Rightarrow> string \<Rightarrow> int \<Rightarrow> int \<Rightarrow> Center \<Rightarrow> Notice list \<times> int" where
  "Feed e userID limit offset s =
     (let limit = (if limit \<le> 0 \<or> limit > 100 then 30 else limit);
          offset = (if offset < 0 then 0 else offset)
      in (ListNotifications (niter e) userID limit offset s, UnreadCount userID s))"

definition MarkRead_all :: "nenv \<Rightarrow> string \<Rightarrow> string list \<Rightarrow> Center \<Rightarrow> Center option" where
  "MarkRead_all e userID ids s =
     (if userID = '''' then None else Some (MarkNotificationsRead userID ids (nclock e 0) s))"

definition RetentionPeriod :: int where "RetentionPeriod = 90 * 24 * Hour"

definition Cleanup :: "nenv \<Rightarrow> Center \<Rightarrow> int \<times> Center" where
  "Cleanup e s = DeleteOldNotifications (nclock e 0 - RetentionPeriod) s"


section \<open>The handler of the settings\<close>

record prefsBody =
  pbAuctions :: "bool option"
  pbDeals :: "bool option"
  pbChat :: "bool option"
  pbNewJobs :: "bool option"
  pbMarketing :: "bool option"
  pbQuietHours :: "bool option"
  pbQuietFrom :: "int option"
  pbQuietTo :: "int option"
  pbOutbidAlways :: "bool option"

fun set_given :: "'a \<Rightarrow> 'a option \<Rightarrow> 'a" where
  "set_given x None = x"
| "set_given x (Some y) = y"

definition merged_prefs :: "Prefs \<Rightarrow> prefsBody \<Rightarrow> Prefs" where
  "merged_prefs p b = p\<lparr>
     prAuctions := set_given (prAuctions p) (pbAuctions b), prDeals := set_given (prDeals p) (pbDeals b),
     prChat := set_given (prChat p) (pbChat b), prNewJobs := set_given (prNewJobs p) (pbNewJobs b),
     prMarketing := set_given (prMarketing p) (pbMarketing b), prQuietHours := set_given (prQuietHours p) (pbQuietHours b),
     prOutbidAlways := set_given (prOutbidAlways p) (pbOutbidAlways b),
     prQuietFrom := set_given (prQuietFrom p) (pbQuietFrom b), prQuietTo := set_given (prQuietTo p) (pbQuietTo b)\<rparr>"

text \<open>A status, and on success the settings as they are stored now; the body is absent when decoding failed.\<close>

definition savePrefs :: "string \<Rightarrow> prefsBody option \<Rightarrow> Center \<Rightarrow> (int + int \<times> Prefs) \<times> Center" where
  "savePrefs userID body s =
     (if userID = '''' then (Inl 401, s)
      else case body of
        None \<Rightarrow> (Inl 400, s)
      | Some b \<Rightarrow>
          case Prefs_of userID s of
            None \<Rightarrow> (Inl 500, s)
          | Some p \<Rightarrow>
              case SavePrefs (merged_prefs p b) s of
                None \<Rightarrow> (Inl 500, s)
              | Some s' \<Rightarrow> (Inr (200, PrefsOf userID s'), s'))"

section \<open>The handlers\<close>

text \<open>
  A handler answers a status, with what it writes on success; \<^verbatim>\<open>userID\<close> is the header the gateway sets, and the
  body is absent when decoding failed.
\<close>

record deviceBody =
  dbToken :: string
  dbPlatform :: string
  dbLocale :: string
  dbAppVersion :: string

definition registerDevice :: "nenv \<Rightarrow> string \<Rightarrow> deviceBody option \<Rightarrow> Center \<Rightarrow> int \<times> Center" where
  "registerDevice e userID body s =
     (if userID = '''' then (401, s)
      else case body of
        None \<Rightarrow> (400, s)
      | Some b \<Rightarrow>
          if dbToken b = '''' then (400, s)
          else case RegisterDevice e \<lparr>riUserID = userID, riToken = dbToken b, riPlatform = dbPlatform b,
                   riLocale = dbLocale b, riAppVersion = dbAppVersion b\<rparr> s of
              None \<Rightarrow> (400, s)
            | Some s' \<Rightarrow> (204, s'))"

definition unregisterDevice :: "string \<Rightarrow> string \<Rightarrow> Center \<Rightarrow> int \<times> Center" where
  "unregisterDevice userID token s =
     (if userID = '''' then (401, s)
      else if token = '''' then (400, s)
      else case UnregisterDevice token s of None \<Rightarrow> (400, s) | Some s' \<Rightarrow> (204, s'))"

definition notify_handler :: "nenv \<Rightarrow> (string \<times> Notification) option \<Rightarrow> Center \<Rightarrow> (int + int) \<times> PushMessage list \<times> Center" where
  "notify_handler e body s =
     (case body of
        None \<Rightarrow> (Inl 400, [], s)
      | Some (userID, msg) \<Rightarrow>
          if userID = '''' then (Inl 400, [], s)
          else (case Notify e userID msg s of (delivered, out, s') \<Rightarrow> (Inr delivered, out, s')))"

text \<open>A page of the center, the entries newest first with the count of the unread ones.\<close>

definition feed_row :: "Notice \<Rightarrow> Notice \<times> bool" where
  "feed_row n = (n, noReadAt n \<noteq> None)"

definition feed_handler :: "nenv \<Rightarrow> string \<Rightarrow> string \<Rightarrow> string \<Rightarrow> Center \<Rightarrow> int + (Notice \<times> bool) list \<times> int" where
  "feed_handler e userID limit offset s =
     (if userID = '''' then Inl 401
      else (case Feed e userID (Atoi limit) (Atoi offset) s of (items, n) \<Rightarrow> Inr (map feed_row items, n)))"

text \<open>The body of \<^verbatim>\<open>markRead\<close>: no content at all, a content that does not decode, or identifiers.\<close>

definition markRead_handler :: "nenv \<Rightarrow> string \<Rightarrow> string list option option \<Rightarrow> Center \<Rightarrow> int \<times> Center" where
  "markRead_handler e userID body s =
     (if userID = '''' then (401, s)
      else case body of
        Some None \<Rightarrow> (400, s)
      | _ \<Rightarrow>
          case MarkRead_all e userID (case body of Some (Some ids) \<Rightarrow> ids | _ \<Rightarrow> []) s of
            None \<Rightarrow> (500, s)
          | Some s' \<Rightarrow> (200, s'))"

definition prefs_handler :: "string \<Rightarrow> Center \<Rightarrow> int + Prefs" where
  "prefs_handler userID s =
     (if userID = '''' then Inl 401 else case Prefs_of userID s of None \<Rightarrow> Inl 500 | Some p \<Rightarrow> Inr p)"



section \<open>What reaches a person\<close>

text \<open>The settings of everybody name hours of the day.\<close>

definition hours_ok :: "Center \<Rightarrow> bool" where
  "hours_ok s \<longleftrightarrow> (\<forall>u p. map_of (prefs s) u = Some p \<longrightarrow>
     prUserID p = u \<and> 0 \<le> prQuietFrom p \<and> prQuietFrom p < 24 \<and> 0 \<le> prQuietTo p \<and> prQuietTo p < 24)"

lemma hours_new: "hours_ok NewCenter"
  by (simp add: hours_ok_def NewCenter_def)

lemma hours_PrefsOf:
  assumes "hours_ok s"
  shows "0 \<le> prQuietFrom (PrefsOf u s) \<and> prQuietFrom (PrefsOf u s) < 24 \<and> 0 \<le> prQuietTo (PrefsOf u s) \<and> prQuietTo (PrefsOf u s) < 24"
  using assms by (auto simp: hours_ok_def PrefsOf_def DefaultPrefs_def split: option.split)

lemma hours_savePrefs: "hours_ok s \<Longrightarrow> hours_ok (snd (savePrefs u b s))"
  by (auto simp: savePrefs_def SavePrefs_def store_SavePrefs_def hours_ok_def update_conv' clampHour_def split: option.split)

lemma mod_24_diff:
  fixes a b :: int
  assumes "0 \<le> a" "a < 24" "0 \<le> b" "b < 24"
  shows "(a - b) mod 24 = (if b \<le> a then a - b else a - b + 24)"
proof (cases "b \<le> a")
  case True
  then show ?thesis using assms by simp
next
  case False
  have "(a - b) mod 24 = (a - b + 24) mod 24" by simp
  also have "\<dots> = a - b + 24" using False assms by (intro mod_pos_pos_trivial) auto
  finally show ?thesis using False by simp
qed

lemma local_hour_day: "0 \<le> local_hour now \<and> local_hour now < 24"
  by (simp add: local_hour_def)

text \<open>Whatever a person puts into the settings, the quiet hours are the hours of the circle of the day from
  the first one, included, to the last one, excluded, midnight crossed or not; equal ends mean no quiet.\<close>

theorem inQuietHours_circle:
  assumes "hours_ok s"
  shows "inQuietHours (PrefsOf u s) now \<longleftrightarrow>
    (local_hour now - prQuietFrom (PrefsOf u s)) mod 24 < (prQuietTo (PrefsOf u s) - prQuietFrom (PrefsOf u s)) mod 24"
  using hours_PrefsOf[OF assms, of u] local_hour_day[of now]
  by (auto simp: inQuietHours_def Let_def mod_24_diff)

definition night_owl :: Center where
  "night_owl = store_SavePrefs ((DefaultPrefs ''u'')\<lparr>prQuietFrom := 23, prQuietTo := 7\<rparr>) NewCenter"

lemma night_owl_hours: "hours_ok night_owl"
  by (auto simp: hours_ok_def night_owl_def store_SavePrefs_def NewCenter_def DefaultPrefs_def)

theorem inQuietHours_circle_witness:
  "inQuietHours (PrefsOf ''u'' night_owl) (22 * Hour) \<and> \<not> inQuietHours (PrefsOf ''u'' night_owl) (8 * Hour)"
  unfolding inQuietHours_circle[OF night_owl_hours]
  by (simp add: night_owl_def store_SavePrefs_def NewCenter_def DefaultPrefs_def PrefsOf_def local_hour_def Hour_def Minute_def Second_def)

lemma savePrefs_reads_back:
  assumes "fst (savePrefs u b s) = Inr (c, p)"
  shows "PrefsOf u (snd (savePrefs u b s)) = p"
  using assms by (auto simp: savePrefs_def split: option.splits if_splits)


subsection \<open>One notification\<close>

definition invalid_tokens :: "nenv \<Rightarrow> PushMessage list \<Rightarrow> string list" where
  "invalid_tokens e out = map pmToken (filter (\<lambda>m. provider e m = ErrTokenInvalid) out)"

lemma push_to_token [simp]: "pmToken (push_to msg d) = deToken d"
  by (simp add: push_to_def)

lemma push_all_messages: "fst (snd (push_all e msg ds s)) = map (push_to msg) ds"
  by (induction ds arbitrary: s) (auto split: push_result.split prod.split, (metis fst_conv snd_conv)+)

lemma push_all_delivered:
  "fst (push_all e msg ds s) = int (length (filter (\<lambda>m. provider e m = Pushed) (map (push_to msg) ds)))"
  by (induction ds arbitrary: s) (auto split: push_result.split prod.split, (metis fst_conv)+)

lemma DeleteDevice_filter: "DeleteDevice t s = s\<lparr>devices := filter (\<lambda>x. fst x \<noteq> t) (devices s)\<rparr>"
  by (simp add: DeleteDevice_def AList.delete_eq case_prod_unfold eq_commute[of t])

lemma push_all_center:
  "snd (snd (push_all e msg ds s)) =
     s\<lparr>devices := filter (\<lambda>x. fst x \<notin> set (invalid_tokens e (map (push_to msg) ds))) (devices s)\<rparr>"
proof (induction ds arbitrary: s)
  case Nil
  show ?case by (simp add: invalid_tokens_def)
next
  case (Cons d ds)
  show ?case
    using Cons[of s] Cons[of "DeleteDevice (deToken d) s"]
    by (auto simp: invalid_tokens_def DeleteDevice_filter case_prod_unfold split: push_result.split intro!: filter_cong)
qed

lemma devices_saveToFeed [simp]: "ListDevicesByUser r u (saveToFeed e u' msg s) = ListDevicesByUser r u s"
  by (simp add: ListDevicesByUser_def saveToFeed_def SaveNotification_def)

lemma PrefsOf_saveToFeed [simp]: "PrefsOf u (saveToFeed e u' msg s) = PrefsOf u s"
  by (simp add: PrefsOf_def saveToFeed_def SaveNotification_def)

lemma saveToFeed_rest:
  "devices (saveToFeed e u msg s) = devices s" "prefs (saveToFeed e u msg s) = prefs s"
  by (simp_all add: saveToFeed_def SaveNotification_def)

lemma saveToFeed_entry:
  "map_of (feed (saveToFeed e u msg s)) =
     (map_of (feed s))(nfresh e \<mapsto> \<lparr>noID = nfresh e, noUserID = u,
       noKind = (if ntKind msg = '''' then ''system'' else ntKind msg), noTitle = ntTitle msg, noBody = ntBody msg,
       noData = ntData msg, noReadAt = None, noCreatedAt = nclock e 0\<rparr>)"
  by (simp add: saveToFeed_def SaveNotification_def update_conv')

text \<open>Whatever the settings and the provider say, one call of \<^verbatim>\<open>Notify\<close> writes exactly one new unread entry of
  the person's feed. When the settings allow a push, one message goes to every device of that person, in the order of
  the tokens, and otherwise none goes out; the number returned counts the messages the provider took, exactly the
  devices whose token it called invalid are forgotten, and the settings stay as they were.\<close>

theorem Notify_result:
  "(case Notify e u msg s of (delivered, out, s') \<Rightarrow>
      map_of (feed s') = (map_of (feed s))(nfresh e \<mapsto> \<lparr>noID = nfresh e, noUserID = u,
        noKind = (if ntKind msg = '''' then ''system'' else ntKind msg), noTitle = ntTitle msg, noBody = ntBody msg,
        noData = ntData msg, noReadAt = None, noCreatedAt = nclock e 0\<rparr>) \<and>
      out = (if allowPush (PrefsOf u s) (ntKind msg) (nclock e 1)
             then map (push_to msg) (ListDevicesByUser (niter e) u s) else []) \<and>
      delivered = int (length (filter (\<lambda>m. provider e m = Pushed) out)) \<and>
      devices s' = filter (\<lambda>x. fst x \<notin> set (map pmToken (filter (\<lambda>m. provider e m = ErrTokenInvalid) out))) (devices s) \<and>
      prefs s' = prefs s)"
proof (cases "allowPush (PrefsOf u s) (ntKind msg) (nclock e 1)")
  case True
  let ?s = "saveToFeed e u msg s" and ?ds = "ListDevicesByUser (niter e) u s"
  obtain n out s' where r: "push_all e msg ?ds ?s = (n, out, s')"
    by (metis prod_cases3)
  have "Notify e u msg s = (n, out, s')"
    using True r by (simp add: Notify_def Let_def)
  moreover have "out = map (push_to msg) ?ds"
    using push_all_messages[of e msg ?ds ?s] r by simp
  moreover have "n = int (length (filter (\<lambda>m. provider e m = Pushed) (map (push_to msg) ?ds)))"
    using push_all_delivered[of e msg ?ds ?s] r by simp
  moreover have "s' = ?s\<lparr>devices := filter (\<lambda>x. fst x \<notin> set (invalid_tokens e (map (push_to msg) ?ds))) (devices s)\<rparr>"
    using push_all_center[of e msg ?ds ?s] r by (simp add: saveToFeed_rest)
  ultimately show ?thesis
    using True by (simp add: invalid_tokens_def saveToFeed_entry saveToFeed_rest)
next
  case False
  then show ?thesis
    by (simp add: Notify_def Let_def saveToFeed_entry saveToFeed_rest)
qed

subsection \<open>The center\<close>

lemma unread_marked [simp]:
  "unread u (if marks_notice u ids i n then n\<lparr>noReadAt := Some t\<rparr> else n) \<longleftrightarrow> unread u n \<and> ids \<noteq> [] \<and> i \<notin> set ids"
  by (auto simp: unread_def marks_notice_def)

lemma unread_after_marking:
  "UnreadCount u (MarkNotificationsRead u ids t s) =
     int (length (filter (\<lambda>(i, n). unread u n \<and> ids \<noteq> [] \<and> i \<notin> set ids) (feed s)))"
proof -
  have "length (filter (unread u) (map snd (map (\<lambda>(i, n). (i, if marks_notice u ids i n then n\<lparr>noReadAt := Some t\<rparr> else n)) xs)))
      = length (filter (\<lambda>(i, n). unread u n \<and> ids \<noteq> [] \<and> i \<notin> set ids) xs)" for xs
    by (induction xs) auto
  then show ?thesis by (simp add: UnreadCount_def MarkNotificationsRead_def gvals_def)
qed

text \<open>The button that reads everything leaves nothing unread, and never touches the entries of others.\<close>

lemma markRead_all_clears:
  assumes "u \<noteq> ''''"
  shows "fst (markRead_handler e u None s) = 200 \<and> UnreadCount u (snd (markRead_handler e u None s)) = 0"
  using assms by (simp add: markRead_handler_def MarkRead_all_def unread_after_marking)

lemma markRead_of_others:
  assumes "v \<noteq> u"
  shows "UnreadCount v (MarkNotificationsRead u ids t s) = UnreadCount v s"
proof -
  have m: "unread v (if marks_notice u ids i n then n\<lparr>noReadAt := Some t\<rparr> else n) = unread v n" for i n
    using assms by (auto simp: unread_def marks_notice_def)
  have "length (filter (unread v) (map snd (map (\<lambda>(i, n). (i, if marks_notice u ids i n then n\<lparr>noReadAt := Some t\<rparr> else n)) xs)))
      = length (filter (unread v) (map snd xs))" for xs
    by (induction xs) (auto simp: m)
  then show ?thesis by (simp add: UnreadCount_def MarkNotificationsRead_def gvals_def)
qed

lemma Cleanup_counts:
  "fst (Cleanup e s) = int (length (feed s)) - int (length (feed (snd (Cleanup e s))))"
proof -
  have "length (filter (\<lambda>n. noCreatedAt n < t) (map snd xs)) + length (filter (\<lambda>(i, n). \<not> noCreatedAt n < t) xs) = length xs" for t xs
    by (induction xs) auto
  from this[of "nclock e 0 - RetentionPeriod" "feed s"] show ?thesis
    by (simp add: Cleanup_def DeleteOldNotifications_def gvals_def)
qed

lemma Feed_page:
  "length (fst (Feed e u limit offset s)) \<le> 100"
  by (auto simp: Feed_def ListNotifications_def gopage_def Let_def)

end
