(* ===== verification/Gateway.thy ===== *)
theory Gateway
  imports Identity_Service "HOL-Library.Sublist"
begin

text \<open>
  The gateway, the only way in from outside (\<^verbatim>\<open>services/gateway\<close>): the check of access tokens
  (\<^verbatim>\<open>internal/jwks/jwks.go\<close>), the middleware that decides who a request comes from
  (\<^verbatim>\<open>internal/middleware/auth.go\<close>, \<^verbatim>\<open>common.go\<close>), the public paths and the routes
  (\<^verbatim>\<open>cmd/gateway/main.go\<close>, \<^verbatim>\<open>internal/proxy/proxy.go\<close>), and the guards of the orders service that read the
  headers it sets (\<^verbatim>\<open>orders/internal/httpapi/server.go\<close>). The library of tokens, the cache of keys and the
  clock are parameters; the header of a request and the clean-up of the reverse proxy are those of
  Go's \<^verbatim>\<open>net/http\<close>, \<^verbatim>\<open>net/textproto\<close> and \<^verbatim>\<open>net/http/httputil\<close>.
\<close>


section \<open>Headers\<close>

text \<open>\<^verbatim>\<open>http.Header\<close>: keys in canonical form, each with its values.\<close>

type_synonym headers = "(string, string list) gomap"

definition code_of :: "char \<Rightarrow> nat" where "code_of c = of_char c"

definition header_byte :: "char \<Rightarrow> bool" where
  "header_byte c \<longleftrightarrow> 48 \<le> code_of c \<and> code_of c \<le> 57 \<or> 65 \<le> code_of c \<and> code_of c \<le> 90 \<or> 97 \<le> code_of c \<and> code_of c \<le> 122
     \<or> code_of c \<in> {33, 35, 36, 37, 38, 39, 42, 43, 45, 46, 94, 95, 96, 124, 126}"

definition up_char :: "char \<Rightarrow> char" where
  "up_char c = (if 97 \<le> code_of c \<and> code_of c \<le> 122 then char_of (code_of c - 32) else c)"

definition low_char :: "char \<Rightarrow> char" where
  "low_char c = (if 65 \<le> code_of c \<and> code_of c \<le> 90 then char_of (code_of c + 32) else c)"

fun canon_from :: "bool \<Rightarrow> string \<Rightarrow> string" where
  "canon_from up [] = []"
| "canon_from up (c # cs) =
     (let c' = (if up then up_char c else low_char c) in c' # canon_from (c' = CHR ''-'') cs)"

text \<open>\<^verbatim>\<open>textproto.CanonicalMIMEHeaderKey\<close>.\<close>

definition canon :: "string \<Rightarrow> string" where
  "canon k = (if list_all header_byte k then canon_from True k else k)"

definition Header_Get :: "headers \<Rightarrow> string \<Rightarrow> string" where
  "Header_Get h k = (case map_of h (canon k) of Some (v # vs) \<Rightarrow> v | _ \<Rightarrow> '''')"

definition Header_Set :: "string \<Rightarrow> string \<Rightarrow> headers \<Rightarrow> headers" where
  "Header_Set k v h = AList.update (canon k) [v] h"

definition Header_Del :: "string \<Rightarrow> headers \<Rightarrow> headers" where
  "Header_Del k h = AList.delete (canon k) h"

record http_request =
  rqMethod :: string
  rqPath :: string
  rqHeader :: headers


section \<open>Words\<close>

text \<open>\<^verbatim>\<open>strings.TrimPrefix\<close>, \<^verbatim>\<open>strings.Join\<close>, \<^verbatim>\<open>strings.Split\<close> at one character; prefixes, suffixes and
  containment are those of the library.\<close>

definition TrimPrefix :: "string \<Rightarrow> string \<Rightarrow> string" where
  "TrimPrefix p s = (if prefix p s then drop (length p) s else s)"

fun join_with :: "string \<Rightarrow> string list \<Rightarrow> string" where
  "join_with sep [] = []"
| "join_with sep [w] = w"
| "join_with sep (w # ws) = w @ sep @ join_with sep ws"

fun split_at :: "char \<Rightarrow> string \<Rightarrow> string list" where
  "split_at sep [] = [[]]"
| "split_at sep (c # cs) =
     (if c = sep then [] # split_at sep cs
      else case split_at sep cs of [] \<Rightarrow> [[c]] | w # ws \<Rightarrow> (c # w) # ws)"

text \<open>\<^verbatim>\<open>textproto.TrimString\<close>.\<close>

definition ascii_space :: "char \<Rightarrow> bool" where
  "ascii_space c \<longleftrightarrow> code_of c \<in> {32, 9, 10, 13}"

definition TrimString :: "string \<Rightarrow> string" where
  "TrimString s = rev (dropWhile ascii_space (rev (dropWhile ascii_space s)))"


section \<open>Access tokens\<close>

datatype jwks_err = ErrMalformed | ErrSignature | ErrExpired | ErrNoKey

text \<open>What the library finds in a token it accepts, and which of the errors asked about it reports otherwise.\<close>

record wire =
  wiSubject :: string
  wiRoles :: "string list"
  wiActiveRole :: string
  wiStatus :: string
  wiExpiresAt :: "int option"

record jwt_failure =
  jfNoKey :: bool
  jfExpired :: bool
  jfNotYet :: bool
  jfSignature :: bool

record GateClaims =
  gcSub :: string
  gcRoles :: "string list"
  gcActiveRole :: string
  gcStatus :: string
  gcExp :: int

text \<open>
  A set of keys by their identifiers, \<open>Some None\<close> a key of another kind than the one asked for. The cache
  answers with the set it holds and, asked again, with a fresh one; either may fail.
\<close>

type_synonym 'k keyset = "string \<Rightarrow> 'k option option"

record 'k gate =
  gaParse :: "(string \<Rightarrow> jwks_err + 'k) \<Rightarrow> string \<Rightarrow> time \<Rightarrow> jwt_failure + wire"
  gaKeys :: "'k keyset option"
  gaFresh :: "'k keyset option"
  gaNow :: time

definition keyfunc :: "'k gate \<Rightarrow> string \<Rightarrow> jwks_err + 'k" where
  "keyfunc g kid =
     (case gaKeys g of
        None \<Rightarrow> Inl ErrNoKey
      | Some keys \<Rightarrow>
          case keys kid of
            Some raw \<Rightarrow> or_err raw ErrNoKey
          | None \<Rightarrow>
              case gaFresh g of
                None \<Rightarrow> Inl ErrNoKey
              | Some keys' \<Rightarrow> (case keys' kid of None \<Rightarrow> Inl ErrNoKey | Some raw \<Rightarrow> or_err raw ErrNoKey))"

definition Verify :: "'k gate \<Rightarrow> string \<Rightarrow> jwks_err + GateClaims" where
  "Verify g tok =
     (case gaParse g (keyfunc g) tok (gaNow g) of
        Inl f \<Rightarrow> Inl (if jfNoKey f then ErrNoKey
                      else if jfExpired f \<or> jfNotYet f then ErrExpired
                      else if jfSignature f then ErrSignature
                      else ErrMalformed)
      | Inr w \<Rightarrow> Inr \<lparr>gcSub = wiSubject w, gcRoles = wiRoles w, gcActiveRole = wiActiveRole w, gcStatus = wiStatus w,
                     gcExp = (case wiExpiresAt w of None \<Rightarrow> 0 | Some e \<Rightarrow> e)\<rparr>)"


section \<open>Who is asking\<close>

text \<open>A layer refuses with a status or hands the request on.\<close>

type_synonym verdict = "int + http_request"

definition strip_identity :: "http_request \<Rightarrow> http_request" where
  "strip_identity r = r\<lparr>rqHeader := Header_Del ''X-User-Status'' (Header_Del ''X-User-Roles''
     (Header_Del ''X-User-Role'' (Header_Del ''X-User-Id'' (rqHeader r))))\<rparr>"

definition put_identity :: "GateClaims \<Rightarrow> http_request \<Rightarrow> http_request" where
  "put_identity c r = r\<lparr>rqHeader := Header_Set ''X-User-Status'' (gcStatus c)
     (Header_Set ''X-User-Roles'' (join_with '','' (gcRoles c))
     (Header_Set ''X-User-Role'' (gcActiveRole c) (Header_Set ''X-User-Id'' (gcSub c) (rqHeader r))))\<rparr>"

definition bearer :: "http_request \<Rightarrow> string option" where
  "bearer r =
     (let h = Header_Get (rqHeader r) ''Authorization''
      in if \<not> prefix ''Bearer '' h then None else Some (TrimPrefix ''Bearer '' h))"

definition Auth_layer :: "'k gate \<Rightarrow> (string \<Rightarrow> bool) \<Rightarrow> http_request \<Rightarrow> verdict" where
  "Auth_layer g open_path r =
     (let r = strip_identity r
      in if open_path (rqPath r) then
           (case bearer r of
              None \<Rightarrow> Inr r
            | Some tok \<Rightarrow> (case Verify g tok of Inl _ \<Rightarrow> Inr r | Inr c \<Rightarrow> Inr (put_identity c r)))
         else
           (case bearer r of
              None \<Rightarrow> Inl 401
            | Some tok \<Rightarrow> (case Verify g tok of Inl _ \<Rightarrow> Inl 401 | Inr c \<Rightarrow> Inr (put_identity c r))))"

definition mutating :: "http_request \<Rightarrow> bool" where
  "mutating r \<longleftrightarrow> rqMethod r = ''POST'' \<or> rqMethod r = ''PATCH'' \<or> rqMethod r = ''PUT''"

definition Idempotency :: "(string \<Rightarrow> bool) \<Rightarrow> http_request \<Rightarrow> verdict" where
  "Idempotency exempt r =
     (if mutating r \<and> \<not> exempt (rqPath r) \<and> Header_Get (rqHeader r) ''Idempotency-Key'' = '''' then Inl 400 else Inr r)"


section \<open>Public paths and routes\<close>

definition publicJobsPath :: "string \<Rightarrow> bool" where
  "publicJobsPath path =
     (if \<not> prefix ''/v1/jobs'' path then False
      else let rest = TrimPrefix ''/v1/jobs'' path
           in if rest = '''' \<or> rest = ''/'' then True
              else if prefix ''/my'' rest then False
              else if prefix ''/drafts'' rest then False
              else if suffix ''/bids'' rest then True
              else if sublist ''/'' (TrimPrefix ''/'' rest) then False
              else True)"

definition public_path :: "string \<Rightarrow> bool" where
  "public_path path \<longleftrightarrow>
     path = ''/healthz'' \<or> prefix ''/v1/auth/'' path \<or> prefix ''/.well-known/'' path \<or> prefix ''/v1/categories'' path
     \<or> prefix ''/v1/users/'' path \<or> prefix ''/v1/equipment/users/'' path \<or> publicJobsPath path"

text \<open>The addresses of the services are those of the configuration.\<close>

record addresses =
  IdentityURL :: string
  NotificationsURL :: string
  CatalogURL :: string
  OrdersURL :: string
  MediaURL :: string

type_synonym route = "string \<times> string"

definition routes_of :: "addresses \<Rightarrow> route list" where
  "routes_of a =
    [(''/v1/auth/'', IdentityURL a), (''/v1/me'', IdentityURL a), (''/v1/users'', IdentityURL a),
     (''/v1/devices'', NotificationsURL a), (''/v1/notifications'', NotificationsURL a),
     (''/v1/categories'', CatalogURL a), (''/v1/equipment'', CatalogURL a),
     (''/v1/moderation/equipment'', CatalogURL a), (''/v1/moderation/categories'', CatalogURL a),
     (''/v1/moderation/users'', IdentityURL a), (''/v1/moderation/verifications'', IdentityURL a),
     (''/v1/moderation/disputes'', OrdersURL a), (''/v1/moderation/complaints'', OrdersURL a),
     (''/v1/moderation/dashboard'', OrdersURL a), (''/v1/media'', MediaURL a), (''/v1/jobs'', OrdersURL a),
     (''/v1/offers'', OrdersURL a), (''/v1/deals'', OrdersURL a), (''/v1/bids'', OrdersURL a), (''/v1/chats'', OrdersURL a),
     (''/v1/crm'', OrdersURL a), (''/v1/reviews'', OrdersURL a), (''/v1/complaints'', OrdersURL a),
     (''/.well-known/'', IdentityURL a)]"

definition longer_prefix :: "route \<Rightarrow> route \<Rightarrow> bool" where
  "longer_prefix x y \<longleftrightarrow> length (fst x) > length (fst y)"

definition Router :: "route list \<Rightarrow> string \<Rightarrow> string option" where
  "Router routes path = map_option snd (find (\<lambda>p. prefix (fst p) path) (sort_by longer_prefix routes))"

text \<open>
  What the reverse proxy takes out of a request before it sends it on: the headers the field \<^verbatim>\<open>Connection\<close>
  names, then the ones that belong to one connection, then the ones about forwarding, which it writes itself.
\<close>

definition named_by_connection :: "headers \<Rightarrow> string list" where
  "named_by_connection h =
     filter (\<lambda>w. w \<noteq> '''')
       (map TrimString (concat (map (split_at CHR '','') (case map_of h ''Connection'' of None \<Rightarrow> [] | Some vs \<Rightarrow> vs))))"

definition hopHeaders :: "string list" where
  "hopHeaders = [''Connection'', ''Proxy-Connection'', ''Keep-Alive'', ''Proxy-Authenticate'', ''Proxy-Authorization'',
     ''Te'', ''Trailer'', ''Transfer-Encoding'', ''Upgrade'']"

definition forwardHeaders :: "string list" where
  "forwardHeaders = [''Forwarded'', ''X-Forwarded-For'', ''X-Forwarded-Host'', ''X-Forwarded-Proto'']"

definition outgoing :: "http_request \<Rightarrow> http_request" where
  "outgoing r = r\<lparr>rqHeader :=
     fold Header_Del (named_by_connection (rqHeader r) @ hopHeaders @ forwardHeaders) (rqHeader r)\<rparr>"


section \<open>The ticket of the live channel\<close>

record ticket =
  tkSub :: string
  tkExp :: int
  tkIat :: int

definition realtimeToken :: "(string \<Rightarrow> ticket \<Rightarrow> string option) \<Rightarrow> string \<Rightarrow> time \<Rightarrow> time \<Rightarrow> http_request \<Rightarrow> int + string \<times> time" where
  "realtimeToken sign secret now now' r =
     (let userID = Header_Get (rqHeader r) ''X-User-Id''
      in if userID = '''' \<or> secret = '''' then Inl 503
         else case sign secret \<lparr>tkSub = userID, tkExp = Unix (now + Hour), tkIat = Unix now'\<rparr> of
                None \<Rightarrow> Inl 500
              | Some signed \<Rightarrow> Inr (signed, now + Hour))"


section \<open>A request at the gateway\<close>

text \<open>A request of the group behind the middleware that is not the ticket: refused, unrouted, or sent to a service.\<close>

datatype passage = Refused int | NotFound | Sent string http_request

definition enter_gate :: "'k gate \<Rightarrow> addresses \<Rightarrow> http_request \<Rightarrow> passage" where
  "enter_gate g a r =
     (case Auth_layer g public_path r of
        Inl code \<Rightarrow> Refused code
      | Inr r \<Rightarrow>
          case Idempotency public_path r of
            Inl code \<Rightarrow> Refused code
          | Inr r \<Rightarrow> (case Router (routes_of a) (rqPath r) of None \<Rightarrow> NotFound | Some up \<Rightarrow> Sent up (outgoing r)))"


section \<open>The guards of the orders service\<close>

definition requireUser :: "http_request \<Rightarrow> verdict" where
  "requireUser r = (if TrimSpace (runes_of (Header_Get (rqHeader r) ''X-User-Id'')) = [] then Inl 401 else Inr r)"

definition denyFrozen :: "http_request \<Rightarrow> verdict" where
  "denyFrozen r = (if Header_Get (rqHeader r) ''X-User-Status'' = ''frozen'' then Inl 403 else Inr r)"

text \<open>Both, in the order of the routes of offers and bids.\<close>

definition may_bid :: "http_request \<Rightarrow> bool" where
  "may_bid r \<longleftrightarrow> (case requireUser r of Inl _ \<Rightarrow> False | Inr r \<Rightarrow> \<not> isl (denyFrozen r))"

end
