(* ===== verification/Gateway_Properties.thy ===== *)
theory Gateway_Properties
  imports Gateway Identity_Properties
begin

text \<open>
  What the gateway guarantees: the headers that say who is asking come from a verified token or are empty, the
  route is the longest one, the sections of the moderators open to the people the configuration names, and
  two holes, a mutation that needs no key and a frozen account that bids.
\<close>


section \<open>Headers\<close>

lemma canon_known [simp]:
  "canon ''X-User-Id'' = ''X-User-Id''" "canon ''X-User-Role'' = ''X-User-Role''"
  "canon ''X-User-Roles'' = ''X-User-Roles''" "canon ''X-User-Status'' = ''X-User-Status''"
  "canon ''Authorization'' = ''Authorization''" "canon ''Idempotency-Key'' = ''Idempotency-Key''"
  "canon ''Connection'' = ''Connection''"
  by code_simp+

lemma canon_hop: "map canon (hopHeaders @ forwardHeaders) = hopHeaders @ forwardHeaders"
  by code_simp

lemma Get_Set: "Header_Get (Header_Set k v h) l = (if canon l = canon k then v else Header_Get h l)"
  by (simp add: Header_Get_def Header_Set_def update_conv')

lemma Get_Del: "Header_Get (Header_Del k h) l = (if canon l = canon k then '''' else Header_Get h l)"
  by (simp add: Header_Get_def Header_Del_def delete_conv')

lemma Get_fold_Del:
  "Header_Get (fold Header_Del ks h) l = (if canon l \<in> set (map canon ks) then '''' else Header_Get h l)"
  by (induction ks arbitrary: h) (auto simp: Get_Del)

lemma Get_outgoing:
  "Header_Get (rqHeader (outgoing r)) l =
     (if canon l \<in> set (map canon (named_by_connection (rqHeader r))) \<or> canon l \<in> set (hopHeaders @ forwardHeaders)
      then '''' else Header_Get (rqHeader r) l)"
  using canon_hop by (auto simp: outgoing_def Get_fold_Del)

lemma identity_kept [simp]:
  "''X-User-Id'' \<notin> set hopHeaders" "''X-User-Role'' \<notin> set hopHeaders"
  "''X-User-Roles'' \<notin> set hopHeaders" "''X-User-Status'' \<notin> set hopHeaders"
  "''X-User-Id'' \<notin> set forwardHeaders" "''X-User-Role'' \<notin> set forwardHeaders"
  "''X-User-Roles'' \<notin> set forwardHeaders" "''X-User-Status'' \<notin> set forwardHeaders"
  by code_simp+

lemma connection_kept [simp]:
  "map_of (rqHeader (strip_identity r)) ''Connection'' = map_of (rqHeader r) ''Connection''"
  "map_of (rqHeader (put_identity c r)) ''Connection'' = map_of (rqHeader r) ''Connection''"
  by (simp_all add: strip_identity_def put_identity_def Header_Del_def Header_Set_def delete_conv' update_conv')

lemma named_kept [simp]:
  "named_by_connection (rqHeader (strip_identity r)) = named_by_connection (rqHeader r)"
  "named_by_connection (rqHeader (put_identity c r)) = named_by_connection (rqHeader r)"
  by (simp_all add: named_by_connection_def)

lemma line_kept [simp]:
  "rqPath (strip_identity r) = rqPath r" "rqMethod (strip_identity r) = rqMethod r"
  "rqPath (put_identity c r) = rqPath r" "rqMethod (put_identity c r) = rqMethod r"
  "rqPath (outgoing r) = rqPath r" "rqMethod (outgoing r) = rqMethod r"
  by (simp_all add: strip_identity_def put_identity_def outgoing_def)

lemma other_headers [simp]:
  "Header_Get (rqHeader (strip_identity r)) ''Authorization'' = Header_Get (rqHeader r) ''Authorization''"
  "Header_Get (rqHeader (strip_identity r)) ''Idempotency-Key'' = Header_Get (rqHeader r) ''Idempotency-Key''"
  "Header_Get (rqHeader (put_identity c r)) ''Idempotency-Key'' = Header_Get (rqHeader r) ''Idempotency-Key''"
  by (simp_all add: strip_identity_def put_identity_def Get_Del Get_Set)

lemma bearer_strip [simp]: "bearer (strip_identity r) = bearer r"
  by (simp add: bearer_def)

text \<open>The four headers that say who is asking, and what a token says.\<close>

definition identity_of :: "http_request \<Rightarrow> string list" where
  "identity_of r = map (Header_Get (rqHeader r)) [''X-User-Id'', ''X-User-Role'', ''X-User-Roles'', ''X-User-Status'']"

definition claims_line :: "GateClaims \<Rightarrow> string list" where
  "claims_line c = [gcSub c, gcActiveRole c, join_with '','' (gcRoles c), gcStatus c]"

lemma identity_stripped: "identity_of (strip_identity r) = ['''', '''', '''', '''']"
  by (simp add: identity_of_def strip_identity_def Get_Del)

lemma identity_put: "identity_of (put_identity c r) = claims_line c"
  by (simp add: identity_of_def claims_line_def put_identity_def Get_Set)

lemma identity_outgoing: "list_all2 (\<lambda>x y. x = '''' \<or> x = y) (identity_of (outgoing r)) (identity_of r)"
  by (simp add: identity_of_def Get_outgoing)


section \<open>One request\<close>

lemma Auth_passed:
  assumes "Auth_layer g p r = Inr r'"
  shows "(r' = strip_identity r \<and> p (rqPath r))
    \<or> (\<exists>tok c. bearer r = Some tok \<and> Verify g tok = Inr c \<and> r' = put_identity c (strip_identity r))"
  using assms by (auto simp: Auth_layer_def Let_def split: if_split_asm option.splits sum.splits)

lemma Auth_verified:
  assumes "bearer r = Some tok" "Verify g tok = Inr c"
  shows "Auth_layer g p r = Inr (put_identity c (strip_identity r))"
  using assms by (simp add: Auth_layer_def Let_def)

lemma enter_gate_Sent:
  assumes "enter_gate g a r = Sent up r'"
  obtains q where "Auth_layer g public_path r = Inr q" "Idempotency public_path q = Inr q"
    "Router (routes_of a) (rqPath q) = Some up" "r' = outgoing q"
  using assms by (auto simp: enter_gate_def Idempotency_def split: sum.splits option.splits if_split_asm)

text \<open>
  What the library of tokens promises: it accepts a token only if the key it was given verifies the signature
  and the time of expiry, which must be there, has not come.
\<close>

definition sound_parser :: "((string \<Rightarrow> jwks_err + 'k) \<Rightarrow> string \<Rightarrow> time \<Rightarrow> jwt_failure + wire) \<Rightarrow> ('k \<Rightarrow> string \<Rightarrow> bool) \<Rightarrow> bool" where
  "sound_parser parse signed \<longleftrightarrow>
     (\<forall>keys tok now w. parse keys tok now = Inr w \<longrightarrow>
        (\<exists>kid k e. keys kid = Inr k \<and> signed k tok \<and> wiExpiresAt w = Some e \<and> Unix now < e))"

lemma Verify_sound:
  assumes "sound_parser (gaParse g) signed" "Verify g tok = Inr c"
  shows "\<exists>kid k. keyfunc g kid = Inr k \<and> signed k tok \<and> Unix (gaNow g) < gcExp c"
proof -
  obtain w where w: "gaParse g (keyfunc g) tok (gaNow g) = Inr w" and c: "gcExp c = (case wiExpiresAt w of None \<Rightarrow> 0 | Some e \<Rightarrow> e)"
    using assms(2) by (auto simp: Verify_def split: sum.splits)
  then show ?thesis using assms(1) unfolding sound_parser_def by fastforce
qed

text \<open>C27: Whatever headers a client sends, a service is told who is asking only by a token: in a request that
  leaves the gateway the four identity headers are all empty, which happens on public paths only, or each is
  empty or what the claims of the bearer token say, and that token is signed by a key of the published set and
  has not expired. Method and path are the client's.\<close>

theorem identity_from_token:
  assumes "sound_parser (gaParse g) signed" and "enter_gate g a r = Sent up r'"
  shows "(identity_of r' = ['''', '''', '''', ''''] \<and> public_path (rqPath r)
      \<or> (\<exists>tok kid k c. bearer r = Some tok \<and> keyfunc g kid = Inr k \<and> signed k tok \<and> Verify g tok = Inr c
           \<and> Unix (gaNow g) < gcExp c \<and> list_all2 (\<lambda>x y. x = '''' \<or> x = y) (identity_of r') (claims_line c)))
    \<and> rqPath r' = rqPath r \<and> rqMethod r' = rqMethod r"
proof -
  obtain q where q: "Auth_layer g public_path r = Inr q" "r' = outgoing q" using enter_gate_Sent [OF assms(2)] .
  have id: "list_all2 (\<lambda>x y. x = '''' \<or> x = y) (identity_of r') (identity_of q)" using identity_outgoing q(2) by simp
  from Auth_passed [OF q(1)] show ?thesis
  proof (elim disjE conjE exE)
    assume "q = strip_identity r" "public_path (rqPath r)"
    then show ?thesis using id q(2) identity_stripped [of r] by (auto simp: list_all2_Cons2)
  next
    fix tok c
    assume *: "bearer r = Some tok" "Verify g tok = Inr c" "q = put_identity c (strip_identity r)"
    then show ?thesis using id q(2) identity_put [of c "strip_identity r"] Verify_sound [OF assms(1) *(2)] by auto
  qed
qed


section \<open>The route\<close>

lemma find_first: "find P xs = Some x \<Longrightarrow> x \<in> set xs \<and> P x"
  by (auto simp: find_Some_iff)

lemma sorted_longest:
  assumes "sorted_wrt (\<lambda>x y. length (fst y) \<le> length (fst x)) xs" and "find P xs = Some x" and "y \<in> set xs" "P y"
  shows "length (fst y) \<le> length (fst x)"
  using assms by (induction xs) (auto split: if_split_asm)

interpretation by_length: comparator longer_prefix
  by unfold_locales (auto simp: longer_prefix_def)

lemma routes_sorted: "sorted_wrt (\<lambda>x y. length (fst y) \<le> length (fst x)) (sort_by longer_prefix routes)"
  using by_length.sort_by_sorted [of routes] by (simp add: longer_prefix_def not_less)

lemma same_prefix: "prefix p s \<Longrightarrow> prefix q s \<Longrightarrow> length p = length q \<Longrightarrow> p = q"
  by (metis append_eq_append_conv prefix_def)

lemma Router_Some:
  assumes "distinct (map fst routes)"
  shows "Router routes path = Some up \<longleftrightarrow>
      (\<exists>p. (p, up) \<in> set routes \<and> prefix p path \<and> (\<forall>q w. (q, w) \<in> set routes \<longrightarrow> prefix q path \<longrightarrow> length q \<le> length p))"
    (is "_ \<longleftrightarrow> ?R")
proof -
  let ?xs = "sort_by longer_prefix routes" and ?P = "\<lambda>p. prefix (fst p) path"
  have longest: "length (fst y) \<le> length (fst x)" if "find ?P ?xs = Some x" "y \<in> set routes" "?P y" for x y
    using sorted_longest [OF routes_sorted that(1)] that(2,3) by simp
  show ?thesis
  proof
    assume "Router routes path = Some up"
    then obtain p where p: "find ?P ?xs = Some (p, up)" by (auto simp: Router_def)
    then show ?R using find_first [OF p] longest [OF p] by fastforce
  next
    assume ?R
    then obtain p where p: "(p, up) \<in> set routes" "prefix p path"
      "\<And>q w. (q, w) \<in> set routes \<Longrightarrow> prefix q path \<Longrightarrow> length q \<le> length p" by blast
    then obtain x where x: "find ?P ?xs = Some x" by (cases "find ?P ?xs") (auto simp: find_None_iff)
    have "length p \<le> length (fst x)" using longest [OF x p(1)] p(2) by simp
    moreover have "length (fst x) \<le> length p" using find_first [OF x] p(3) by (cases x) auto
    ultimately have "fst x = p" using same_prefix find_first [OF x] p(2) by (metis le_antisym)
    then have "x = (p, up)" using find_first [OF x] p(1) assms by (cases x) (auto dest: eq_key_imp_eq_value)
    then show "Router routes path = Some up" using x by (simp add: Router_def)
  qed
qed

lemma Router_None: "Router routes path = None \<longleftrightarrow> (\<forall>(q, w) \<in> set routes. \<not> prefix q path)"
  by (auto simp: Router_def find_None_iff)

lemma distinct_routes: "distinct (map fst (routes_of a))"
  by (simp add: routes_of_def)

lemma no_internal_route: "prefix ''/internal'' path \<Longrightarrow> Router (routes_of a) path = None"
  unfolding Router_None prefix_def [of "''/internal''"] by (elim exE) (simp add: routes_of_def)

lemma jobs_route: "Router (routes_of a) (''/v1/jobs/'' @ x) = Some (OrdersURL a)"
proof -
  have "(''/v1/jobs'', OrdersURL a) \<in> set (routes_of a)" by (simp add: routes_of_def)
  moreover have "prefix ''/v1/jobs'' (''/v1/jobs/'' @ x)" by simp
  moreover have "\<forall>(q, w) \<in> set (routes_of a). prefix q (''/v1/jobs/'' @ x) \<longrightarrow> length q \<le> length ''/v1/jobs''"
    by (simp add: routes_of_def)
  ultimately show ?thesis unfolding Router_Some [OF distinct_routes] by blast
qed

text \<open>Whatever the order of the table, a path goes to the route with the longest prefix of it, and to none
  when no prefix fits; in particular nothing from outside reaches an internal path of a service.\<close>

theorem Router_longest:
  assumes "distinct (map fst routes)"
  shows "(Router routes path = Some up \<longleftrightarrow>
      (\<exists>p. (p, up) \<in> set routes \<and> prefix p path \<and> (\<forall>q w. (q, w) \<in> set routes \<longrightarrow> prefix q path \<longrightarrow> length q \<le> length p)))
    \<and> (Router routes path = None \<longleftrightarrow> (\<forall>(q, w) \<in> set routes. \<not> prefix q path))
    \<and> (prefix ''/internal'' path \<longrightarrow> Router (routes_of a) path = None)"
  using Router_Some [OF assms] Router_None no_internal_route by blast

text \<open>The table of the program, on a stand.\<close>

definition stand_urls :: addresses where
  "stand_urls = \<lparr>IdentityURL = ''identity'', NotificationsURL = ''notifications'', CatalogURL = ''catalog'',
     OrdersURL = ''orders'', MediaURL = ''media''\<rparr>"

theorem Router_longest_witness:
  "Router (routes_of stand_urls) ''/v1/equipment/users/b'' = Some ''catalog''
   \<and> Router (routes_of stand_urls) ''/internal/notify'' = None"
proof
  have "(''/v1/equipment'', ''catalog'') \<in> set (routes_of stand_urls)" by (simp add: routes_of_def stand_urls_def)
  moreover have "prefix ''/v1/equipment'' ''/v1/equipment/users/b''" by simp
  moreover have "\<forall>q w. (q, w) \<in> set (routes_of stand_urls) \<longrightarrow> prefix q ''/v1/equipment/users/b'' \<longrightarrow> length q \<le> length ''/v1/equipment''"
    unfolding routes_of_def by auto
  ultimately show "Router (routes_of stand_urls) ''/v1/equipment/users/b'' = Some ''catalog''"
    using Router_longest [OF distinct_routes, of stand_urls "''/v1/equipment/users/b''" "''catalog''"] by blast
  show "Router (routes_of stand_urls) ''/internal/notify'' = None"
    using Router_longest [OF distinct_routes, of stand_urls "''/internal/notify''"] by simp
qed


section \<open>Keys of mutations\<close>

lemma public_bids:
  assumes "\<not> prefix ''my'' i" "\<not> prefix ''drafts'' i"
  shows "public_path (''/v1/jobs/'' @ i @ ''/bids'')"
proof -
  have "TrimPrefix ''/v1/jobs'' (''/v1/jobs/'' @ i @ ''/bids'') = ''/'' @ i @ ''/bids''"
    by (simp add: TrimPrefix_def)
  moreover have "\<not> prefix ''my'' (i @ ''/bids'')" "\<not> prefix ''drafts'' (i @ ''/bids'')"
    using assms by (auto simp: prefix_append prefix_Cons)
  moreover have "suffix ''/bids'' (''/'' @ i @ ''/bids'')" by (simp add: suffix_def)
  ultimately show ?thesis unfolding public_path_def publicJobsPath_def Let_def by simp
qed

lemma verified_enters:
  assumes "bearer r = Some tok" "Verify g tok = Inr c" "public_path (rqPath r)" "Router (routes_of a) (rqPath r) = Some up"
  shows "enter_gate g a r = Sent up (outgoing (put_identity c (strip_identity r)))"
  using assms by (simp add: enter_gate_def Auth_verified [OF assms(1,2)] Idempotency_def)

text \<open>A change without a key is let through on public paths only, but those include the path where bids are
  placed: a bid reaches the orders service with the identity of its token and no key at all.\<close>

theorem key_required:
  assumes "mutating r" and "Header_Get (rqHeader r) ''Idempotency-Key'' = ''''"
  shows "(\<forall>up r'. enter_gate g a r = Sent up r' \<longrightarrow> public_path (rqPath r))
    \<and> (\<forall>i tok c. rqPath r = ''/v1/jobs/'' @ i @ ''/bids'' \<and> \<not> prefix ''my'' i \<and> \<not> prefix ''drafts'' i
         \<and> bearer r = Some tok \<and> Verify g tok = Inr c
         \<longrightarrow> enter_gate g a r = Sent (OrdersURL a) (outgoing (put_identity c (strip_identity r))))"
proof (intro conjI allI impI)
  fix up r'
  assume "enter_gate g a r = Sent up r'"
  then obtain q where q: "Auth_layer g public_path r = Inr q" "Idempotency public_path q = Inr q" using enter_gate_Sent by metis
  have "rqPath q = rqPath r \<and> mutating q \<and> Header_Get (rqHeader q) ''Idempotency-Key'' = ''''"
    using Auth_passed [OF q(1)] assms by (auto simp: mutating_def)
  then show "public_path (rqPath r)" using q(2) by (auto simp: Idempotency_def split: if_split_asm)
next
  fix i tok c
  assume a: "rqPath r = ''/v1/jobs/'' @ i @ ''/bids'' \<and> \<not> prefix ''my'' i \<and> \<not> prefix ''drafts'' i
         \<and> bearer r = Some tok \<and> Verify g tok = Inr c"
  then show "enter_gate g a r = Sent (OrdersURL a) (outgoing (put_identity c (strip_identity r)))"
    using public_bids jobs_route by (intro verified_enters) auto
qed


section \<open>A frozen account\<close>

text \<open>The request with a field \<^verbatim>\<open>Connection\<close> of its own.\<close>

definition connecting :: "string \<Rightarrow> http_request \<Rightarrow> http_request" where
  "connecting v r = r\<lparr>rqHeader := Header_Set ''Connection'' v (rqHeader r)\<rparr>"

lemma connecting_simps [simp]:
  "rqPath (connecting v r) = rqPath r" "bearer (connecting v r) = bearer r"
  by (simp_all add: connecting_def bearer_def Get_Set)

lemma named_connecting:
  "named_by_connection (rqHeader (connecting v r)) = filter (\<lambda>w. w \<noteq> '''') (map TrimString (split_at CHR '','' v))"
  by (simp add: named_by_connection_def connecting_def Header_Set_def update_conv')

lemma named_status: "map canon (named_by_connection (rqHeader (connecting ''x-user-status'' r))) = [''X-User-Status'']"
  unfolding named_connecting by code_simp

lemma named_keep_alive: "map canon (named_by_connection (rqHeader (connecting ''keep-alive'' r))) = [''Keep-Alive'']"
  unfolding named_connecting by code_simp

text \<open>C29: The freeze of bids does not hold against the client it is meant for: a bid of a frozen account is stopped
  by the orders service, but the same request with a field \<^verbatim>\<open>Connection\<close> that names the header of the status
  passes its guards under the person's own name, because the proxy takes the header out after the gateway has
  set it.\<close>

theorem frozen_slips_through:
  assumes "bearer r = Some tok" and "Verify g tok = Inr c" and "gcStatus c = ''frozen''"
    and "TrimSpace (runes_of (gcSub c)) \<noteq> []"
    and "rqPath r = ''/v1/jobs/'' @ i @ ''/bids''" and "\<not> prefix ''my'' i" and "\<not> prefix ''drafts'' i"
  shows "(\<exists>q. enter_gate g a (connecting ''keep-alive'' r) = Sent (OrdersURL a) q \<and> \<not> may_bid q)
    \<and> (\<exists>q. enter_gate g a (connecting ''x-user-status'' r) = Sent (OrdersURL a) q \<and> may_bid q
         \<and> Header_Get (rqHeader q) ''X-User-Id'' = gcSub c)"
proof -
  have sent: "enter_gate g a (connecting v r) = Sent (OrdersURL a) (outgoing (put_identity c (strip_identity (connecting v r))))" for v
    using assms public_bids jobs_route by (intro verified_enters) auto
  have k: "named_by_connection (rqHeader (put_identity c (strip_identity (connecting v r)))) = named_by_connection (rqHeader (connecting v r))" for v
    by simp
  let ?q = "\<lambda>v. outgoing (put_identity c (strip_identity (connecting v r)))"
  have "Header_Get (rqHeader (?q ''keep-alive'')) ''X-User-Status'' = ''frozen''"
    unfolding Get_outgoing k named_keep_alive using assms(3) by (simp add: put_identity_def Get_Set)
  moreover have "Header_Get (rqHeader (?q ''x-user-status'')) ''X-User-Status'' = ''''"
    "Header_Get (rqHeader (?q ''x-user-status'')) ''X-User-Id'' = gcSub c"
    unfolding Get_outgoing k named_status by (simp_all add: put_identity_def Get_Set)
  ultimately show ?thesis
    unfolding sent using assms(4) by (simp add: may_bid_def requireUser_def denyFrozen_def)
qed

section \<open>Moderators\<close>

lemma comma_rune: "(of_char c :: int) = 44 \<longleftrightarrow> c = CHR '',''"
proof -
  have "of_char CHR '','' = (44 :: int)" by simp
  then show ?thesis by (metis of_char_eq_iff)
qed

lemma split_plain: "CHR '','' \<notin> set w \<Longrightarrow> split_runes 44 (runes_of w) = [runes_of w]"
proof (induction w)
  case (Cons c w)
  then have "(of_char c :: int) \<noteq> 44" by (auto simp: comma_rune)
  then show ?case using Cons by (simp add: runes_of_def)
qed (simp add: runes_of_def)

lemma split_cons_plain:
  "CHR '','' \<notin> set w \<Longrightarrow> split_runes 44 (runes_of w @ 44 # rest) = runes_of w # split_runes 44 rest"
proof (induction w)
  case (Cons c w)
  then have "(of_char c :: int) \<noteq> 44" by (auto simp: comma_rune)
  then show ?case using Cons by (simp add: runes_of_def)
qed (simp add: runes_of_def)

text \<open>Joining with commas and splitting at them gives the words back.\<close>

lemma split_join:
  assumes "ws \<noteq> []" "\<forall>w \<in> set ws. CHR '','' \<notin> set w"
  shows "split_runes 44 (runes_of (join_with '','' ws)) = map runes_of ws"
  using assms
proof (induction "'',''" ws rule: join_with.induct)
  case (3 w v ws)
  have "runes_of (w @ '','' @ join_with '','' (v # ws)) = runes_of w @ 44 # runes_of (join_with '','' (v # ws))"
    by (simp add: runes_of_def)
  then show ?case using 3 split_cons_plain [of w] by simp
qed (simp_all add: split_plain)

lemma known_roles_trim:
  "w \<in> {''client'', ''owner'', roleModerator} \<Longrightarrow> TrimSpace (runes_of w) = runes_of w \<and> CHR '','' \<notin> set w"
proof -
  have "TrimSpace (runes_of ''client'') = runes_of ''client''" "TrimSpace (runes_of ''owner'') = runes_of ''owner''"
    "TrimSpace (runes_of roleModerator) = runes_of roleModerator" by code_simp+
  moreover assume "w \<in> {''client'', ''owner'', roleModerator}"
  ultimately show ?thesis by (auto simp: roleModerator_def)
qed

lemma moderator_roles_join:
  assumes "set ws \<subseteq> {''client'', ''owner'', roleModerator}"
  shows "moderator_roles (runes_of (join_with '','' ws)) \<longleftrightarrow> roleModerator \<in> set ws"
proof (cases "ws = []")
  case True
  have "\<not> moderator_roles (runes_of '''')" by code_simp
  then show ?thesis using True by simp
next
  case False
  have "split_runes 44 (runes_of (join_with '','' ws)) = map runes_of ws"
    using False assms known_roles_trim by (intro split_join) blast+
  then have "moderator_roles (runes_of (join_with '','' ws)) \<longleftrightarrow>
      (\<exists>w \<in> set ws. TrimSpace (runes_of w) \<in> {runes_of ''moderator'', runes_of ''admin''})"
    by (simp add: moderator_roles_def)
  also have "\<dots> \<longleftrightarrow> (\<exists>w \<in> set ws. w = ''moderator'' \<or> w = ''admin'')"
    using assms known_roles_trim by (intro bex_cong) auto
  also have "\<dots> \<longleftrightarrow> roleModerator \<in> set ws" using assms by (auto simp: roleModerator_def)
  finally show ?thesis .
qed

text \<open>C28: From the code to the section of the moderators: when a token of an account, issued in any reachable state
  of the accounts service, brings a request through the gateway, the catalog lets it into the section exactly
  if the account had the role of a moderator, and then, for a living account, its number is one of the
  configured ones. A client can only lose the roles on the way, never gain one.\<close>

theorem moderator_gate:
  assumes "account_states au s" and "map_of (usersByID s) i = Some u"
    and "bearer r = Some tok" and "Verify g tok = Inr c" and "gcRoles c = clRoles (session_claims u t)"
    and "enter_gate g a r = Sent up q"
  shows "(moderator_roles (runes_of (Header_Get (rqHeader q) ''X-User-Roles'')) \<longleftrightarrow>
      hasRole (usRoles u) roleModerator \<and> ''X-User-Roles'' \<notin> set (map canon (named_by_connection (rqHeader r))))
    \<and> (moderator_roles (runes_of (Header_Get (rqHeader q) ''X-User-Roles'')) \<and> live u \<longrightarrow> isModerator au (usPhone u))"
proof -
  have ok: "user_ok au u" using account_states_ok [OF assms(1)] accounts_okD(1) assms(2) by blast
  have q: "q = outgoing (put_identity c (strip_identity r))"
    using assms(6) Auth_verified [OF assms(3,4)] by (metis enter_gate_Sent sum.inject(2))
  have "\<not> moderator_roles (runes_of '''')" by code_simp
  moreover have "Header_Get (rqHeader (put_identity c (strip_identity r))) ''X-User-Roles'' = join_with '','' (usRoles u)"
    using assms(5) by (simp add: put_identity_def Get_Set session_claims_def)
  moreover have "moderator_roles (runes_of (join_with '','' (usRoles u))) \<longleftrightarrow> hasRole (usRoles u) roleModerator"
    using ok moderator_roles_join [of "usRoles u"] by (simp add: user_ok_def hasRole_def)
  ultimately have "moderator_roles (runes_of (Header_Get (rqHeader q) ''X-User-Roles'')) \<longleftrightarrow>
      hasRole (usRoles u) roleModerator \<and> ''X-User-Roles'' \<notin> set (map canon (named_by_connection (rqHeader r)))"
    unfolding q Get_outgoing by simp
  then show ?thesis using ok by (simp add: user_ok_def hasRole_def)
qed


section \<open>A stand\<close>

text \<open>One published key, which the cache learns on the second attempt, and two tokens it signed.\<close>

definition stand_signed :: "string \<Rightarrow> string \<Rightarrow> bool" where
  "stand_signed k tok \<longleftrightarrow> k = ''key'' \<and> tok \<in> {''a'', ''b''}"

definition stand_wire :: "string \<Rightarrow> wire" where
  "stand_wire tok = \<lparr>wiSubject = tok, wiRoles = (if tok = ''a'' then [''client'', ''moderator''] else [''client'', ''owner'']),
     wiActiveRole = ''client'', wiStatus = (if tok = ''b'' then ''frozen'' else ''active''), wiExpiresAt = Some 1705364100\<rparr>"

definition stand_parse :: "(string \<Rightarrow> jwks_err + string) \<Rightarrow> string \<Rightarrow> time \<Rightarrow> jwt_failure + wire" where
  "stand_parse keys tok now =
     (case keys ''k1'' of
        Inl _ \<Rightarrow> Inl \<lparr>jfNoKey = True, jfExpired = False, jfNotYet = False, jfSignature = False\<rparr>
      | Inr k \<Rightarrow>
          if stand_signed k tok \<and> Unix now < 1705364100 then Inr (stand_wire tok)
          else Inl \<lparr>jfNoKey = False, jfExpired = \<not> Unix now < 1705364100, jfNotYet = False, jfSignature = True\<rparr>)"

definition stand_gate :: "string gate" where
  "stand_gate = \<lparr>gaParse = stand_parse, gaKeys = Some (\<lambda>_. None),
     gaFresh = Some (\<lambda>kid. if kid = ''k1'' then Some (Some ''key'') else None), gaNow = 738900 * 24 * Hour\<rparr>"

lemma stand_parse_sound: "sound_parser (gaParse stand_gate) stand_signed"
  by (auto simp: sound_parser_def stand_gate_def stand_parse_def stand_wire_def split: sum.splits if_split_asm)

definition bid_of :: "string \<Rightarrow> http_request" where
  "bid_of tok = \<lparr>rqMethod = ''POST'', rqPath = ''/v1/jobs/7/bids'',
     rqHeader = [(''Authorization'', [''Bearer '' @ tok]), (''X-User-Id'', [''a'']), (''X-User-Roles'', [''admin''])]\<rparr>"

definition sent_identity :: "passage \<Rightarrow> (string \<times> string list) option" where
  "sent_identity p = (case p of Sent up q \<Rightarrow> Some (up, identity_of q) | _ \<Rightarrow> None)"

lemma sent_identity_Some: "sent_identity p = Some (up, l) \<Longrightarrow> \<exists>q. p = Sent up q \<and> identity_of q = l"
  by (auto simp: sent_identity_def split: passage.splits)

theorem identity_from_token_witness:
  "\<exists>q. enter_gate stand_gate stand_urls (bid_of ''b'') = Sent ''orders'' q \<and> rqPath q = ''/v1/jobs/7/bids''
     \<and> identity_of q = [''b'', ''client'', ''client,owner'', ''frozen'']"
proof -
  have "sent_identity (enter_gate stand_gate stand_urls (bid_of ''b''))
      = Some (''orders'', [''b'', ''client'', ''client,owner'', ''frozen''])" by code_simp
  from sent_identity_Some [OF this] obtain q where q: "enter_gate stand_gate stand_urls (bid_of ''b'') = Sent ''orders'' q"
    "identity_of q = [''b'', ''client'', ''client,owner'', ''frozen'']" by blast
  have "rqPath q = rqPath (bid_of ''b'')" using identity_from_token [OF stand_parse_sound q(1)] by blast
  then show ?thesis using q by (simp add: bid_of_def)
qed

definition boris :: GateClaims where
  "boris = \<lparr>gcSub = ''b'', gcRoles = [''client'', ''owner''], gcActiveRole = ''client'', gcStatus = ''frozen'', gcExp = 1705364100\<rparr>"

lemma boris_known: "bearer (bid_of ''b'') = Some ''b''" "Verify stand_gate ''b'' = Inr boris"
  by code_simp+

lemma bid_path: "rqPath (bid_of t) = ''/v1/jobs/'' @ ''7'' @ ''/bids''" "mutating (bid_of t)"
  "Header_Get (rqHeader (bid_of t)) ''Idempotency-Key'' = ''''"
  by (simp_all add: bid_of_def mutating_def Header_Get_def)

theorem key_required_witness:
  "enter_gate stand_gate stand_urls (bid_of ''b'')
     = Sent ''orders'' (outgoing (put_identity boris (strip_identity (bid_of ''b''))))"
proof -
  have "\<not> prefix ''my'' ''7''" "\<not> prefix ''drafts'' ''7''" by simp_all
  then have "enter_gate stand_gate stand_urls (bid_of ''b'')
     = Sent (OrdersURL stand_urls) (outgoing (put_identity boris (strip_identity (bid_of ''b''))))"
    using key_required [OF bid_path(2,3), where g = stand_gate and a = stand_urls] boris_known bid_path(1) by blast
  then show ?thesis by (simp only: stand_urls_def addresses.select_convs)
qed

theorem frozen_slips_through_witness:
  "(\<exists>q. enter_gate stand_gate stand_urls (connecting ''keep-alive'' (bid_of ''b'')) = Sent ''orders'' q \<and> \<not> may_bid q)
   \<and> (\<exists>q. enter_gate stand_gate stand_urls (connecting ''x-user-status'' (bid_of ''b'')) = Sent ''orders'' q \<and> may_bid q)"
proof -
  have "gcStatus boris = ''frozen''" "TrimSpace (runes_of (gcSub boris)) \<noteq> []" by code_simp+
  moreover have "\<not> prefix ''my'' ''7''" "\<not> prefix ''drafts'' ''7''" by simp_all
  ultimately show ?thesis
    using frozen_slips_through [OF boris_known _ _ bid_path(1), where a = stand_urls] by (auto simp: stand_urls_def)
qed

definition stand_accounts :: Accounts where
  "stand_accounts = fold (serve stand) stand_requests NewAccounts"

lemma stand_reached: "account_states stand stand_accounts"
  unfolding stand_accounts_def by (rule states_fold [OF states_new]) code_simp

definition queue_request :: http_request where
  "queue_request = \<lparr>rqMethod = ''GET'', rqPath = ''/v1/moderation/equipment'', rqHeader = [(''Authorization'', [''Bearer a''])]\<rparr>"

definition anna :: GateClaims where
  "anna = \<lparr>gcSub = ''a'', gcRoles = [''client'', ''moderator''], gcActiveRole = ''client'', gcStatus = ''active'', gcExp = 1705364100\<rparr>"

lemma anna_known: "bearer queue_request = Some ''a''" "Verify stand_gate ''a'' = Inr anna"
  by code_simp+

theorem moderator_gate_witness:
  "\<exists>u q. map_of (usersByID stand_accounts) ''a'' = Some u \<and> enter_gate stand_gate stand_urls queue_request = Sent ''catalog'' q
     \<and> moderator_roles (runes_of (Header_Get (rqHeader q) ''X-User-Roles'')) \<and> isModerator stand (usPhone u)"
proof -
  have "map_option (\<lambda>u. (usRoles u, live u)) (map_of (usersByID stand_accounts) ''a'') = Some ([''client'', ''moderator''], True)"
    by code_simp
  then obtain u where u: "map_of (usersByID stand_accounts) ''a'' = Some u" "usRoles u = [''client'', ''moderator'']" "live u"
    by (auto simp: map_option_case split: option.splits)
  have "map_option fst (sent_identity (enter_gate stand_gate stand_urls queue_request)) = Some ''catalog''" by code_simp
  then obtain q where q: "enter_gate stand_gate stand_urls queue_request = Sent ''catalog'' q"
    by (auto dest: sent_identity_Some)
  have "map canon (named_by_connection (rqHeader queue_request)) = []" "gcRoles anna = [''client'', ''moderator'']" by code_simp+
  then show ?thesis
    using moderator_gate [OF stand_reached u(1) anna_known _ q] u q by (simp add: session_claims_def hasRole_def roleModerator_def)
qed

end
