(* ===== verification/Media_Service.thy ===== *)
theory Media_Service
  imports Texts
begin

text \<open>
  Links for uploads (\<^verbatim>\<open>services/media/internal/storage/s3.go\<close>, \<^verbatim>\<open>internal/httpapi/server.go\<close>). The storage that
  signs a link, the generated names and Unicode's lower case are parameters.
\<close>


section \<open>Paths\<close>

text \<open>\<^verbatim>\<open>path.Clean\<close> on the parts between slashes, and \<^verbatim>\<open>path.Join\<close>.\<close>

fun clean_parts :: "bool \<Rightarrow> runes list \<Rightarrow> runes list \<Rightarrow> runes list" where
  "clean_parts rooted done [] = rev done"
| "clean_parts rooted done (w # ws) =
     (if w = [] \<or> w = [46] then clean_parts rooted done ws
      else if w = [46, 46] then
        (case done of
           [] \<Rightarrow> clean_parts rooted (if rooted then [] else [w]) ws
         | v # vs \<Rightarrow> if v = [46, 46] then clean_parts rooted (w # done) ws else clean_parts rooted vs ws)
      else clean_parts rooted (w # done) ws)"

fun slashed :: "runes list \<Rightarrow> runes" where
  "slashed [] = []"
| "slashed [w] = w"
| "slashed (w # ws) = w @ 47 # slashed ws"

definition path_Clean :: "runes \<Rightarrow> runes" where
  "path_Clean p =
     (if p = [] then [46]
      else let rooted = hd p = 47; out = slashed (clean_parts rooted [] (split_runes 47 p))
           in if rooted then 47 # out else if out = [] then [46] else out)"

definition path_Join :: "runes list \<Rightarrow> runes" where
  "path_Join ws = (let ws = filter (\<lambda>w. w \<noteq> []) ws in if ws = [] then [] else path_Clean (slashed ws))"


section \<open>One link\<close>

definition allowed_types :: "(runes \<times> runes) list" where
  "allowed_types = map (\<lambda>(t, x). (runes_of t, runes_of x))
     [(''image/jpeg'', ''.jpg''), (''image/png'', ''.png''), (''image/webp'', ''.webp''), (''image/heic'', ''.heic''),
      (''application/pdf'', ''.pdf'')]"

record UploadLink =
  ulKey :: runes
  ulUploadURL :: runes
  ulPublicURL :: runes
  ulExpiresIn :: int

datatype media_err = ErrUnsupportedType | StorageFailed

record S3 =
  s3Presign :: "runes \<Rightarrow> runes option"
  s3PublicURL :: runes
  s3TTL :: int

definition safe_rune :: "rune \<Rightarrow> bool" where
  "safe_rune r \<longleftrightarrow> 97 \<le> r \<and> r \<le> 122 \<or> 48 \<le> r \<and> r \<le> 57 \<or> r = 45 \<or> r = 95"

text \<open>\<^verbatim>\<open>url.PathEscape\<close> leaves the letters, digits and signs that are kept as they are.\<close>

definition cleanSegment :: "(rune \<Rightarrow> rune) \<Rightarrow> runes \<Rightarrow> runes" where
  "cleanSegment lower s =
     (let b = filter safe_rune (map lower (TrimSpace s)) in if b = [] then runes_of ''misc'' else b)"

definition Link :: "(rune \<Rightarrow> rune) \<Rightarrow> S3 \<Rightarrow> runes \<Rightarrow> runes \<Rightarrow> runes \<Rightarrow> runes \<Rightarrow> media_err + UploadLink" where
  "Link lower s uuid ownerID folder contentType =
     (case map_of allowed_types (map lower (TrimSpace contentType)) of
        None \<Rightarrow> Inl ErrUnsupportedType
      | Some ext \<Rightarrow>
          let folder = (if folder = [] then runes_of ''misc'' else folder);
              key = path_Join [cleanSegment lower folder, cleanSegment lower ownerID, uuid @ ext]
          in case s3Presign s key of
               None \<Rightarrow> Inl StorageFailed
             | Some url \<Rightarrow> Inr \<lparr>ulKey = key, ulUploadURL = url, ulPublicURL = s3PublicURL s @ 47 # key,
                               ulExpiresIn = s3TTL s div Second\<rparr>)"

text \<open>The storage of the program: links live fifteen minutes.\<close>

definition New_S3 :: "(runes \<Rightarrow> runes option) \<Rightarrow> runes \<Rightarrow> S3" where
  "New_S3 presign publicURL =
     \<lparr>s3Presign = presign, s3PublicURL = rev (dropWhile (\<lambda>r. r = 47) (rev publicURL)), s3TTL = 15 * Minute\<rparr>"


section \<open>The handler\<close>

record uploadBody =
  ubContentType :: runes
  ubFolder :: runes
  ubCount :: int

fun make_links :: "(rune \<Rightarrow> rune) \<Rightarrow> S3 \<Rightarrow> runes \<Rightarrow> runes \<Rightarrow> runes \<Rightarrow> runes list \<Rightarrow> media_err + UploadLink list" where
  "make_links lower s userID folder contentType [] = Inr []"
| "make_links lower s userID folder contentType (uuid # us) =
     (case Link lower s uuid userID folder contentType of
        Inl er \<Rightarrow> Inl er
      | Inr l \<Rightarrow>
          case make_links lower s userID folder contentType us of Inl er \<Rightarrow> Inl er | Inr ls \<Rightarrow> Inr (l # ls))"

definition clamp_count :: "int \<Rightarrow> int" where
  "clamp_count n = (let n = (if n \<le> 0 then 1 else n) in if n > 8 then 8 else n)"

text \<open>The names are drawn from a sequence; the body is absent when decoding failed.\<close>

definition createUpload :: "(rune \<Rightarrow> rune) \<Rightarrow> S3 \<Rightarrow> (nat \<Rightarrow> runes) \<Rightarrow> runes \<Rightarrow> uploadBody option \<Rightarrow> int + UploadLink list" where
  "createUpload lower s uuid userID body =
     (if userID = [] then Inl 401
      else case body of
        None \<Rightarrow> Inl 400
      | Some b \<Rightarrow>
          case make_links lower s userID (ubFolder b) (ubContentType b) (map uuid [0..<nat (clamp_count (ubCount b))]) of
            Inl ErrUnsupportedType \<Rightarrow> Inl 415
          | Inl StorageFailed \<Rightarrow> Inl 500
          | Inr links \<Rightarrow> Inr links)"


section \<open>Where a file may go\<close>

lemma cleanSegment_safe: "cleanSegment lower s \<noteq> [] \<and> list_all safe_rune (cleanSegment lower s)"
proof -
  have "list_all safe_rune (runes_of ''misc'')" "runes_of ''misc'' \<noteq> []" by code_simp+
  then show ?thesis by (simp add: cleanSegment_def Let_def list_all_iff)
qed

lemma split_no_slash: "47 \<notin> set w \<Longrightarrow> split_runes 47 w = [w]"
  by (induction w) auto

lemma split_at_slash: "47 \<notin> set w \<Longrightarrow> split_runes 47 (w @ 47 # rest) = w # split_runes 47 rest"
  by (induction w) auto

text \<open>A plain segment: not empty, without a slash, and neither of the two names with a meaning.\<close>

definition plain :: "runes \<Rightarrow> bool" where
  "plain w \<longleftrightarrow> w \<noteq> [] \<and> 47 \<notin> set w \<and> w \<noteq> [46] \<and> w \<noteq> [46, 46]"

lemma safe_plain: "w \<noteq> [] \<Longrightarrow> list_all safe_rune w \<Longrightarrow> plain w"
  by (auto simp: plain_def safe_rune_def list_all_iff)

lemma path_Join_plain:
  assumes "plain x" "plain y" "plain z"
  shows "path_Join [x, y, z] = x @ 47 # y @ 47 # z"
proof -
  have s: "split_runes 47 (x @ 47 # y @ 47 # z) = [x, y, z]"
    using assms by (simp add: split_at_slash split_no_slash plain_def)
  obtain c cs where x: "x = c # cs" "c \<noteq> 47" using assms(1) by (cases x) (auto simp: plain_def)
  show ?thesis
    using assms s x by (simp add: path_Join_def path_Clean_def plain_def Let_def)
qed

lemma ext_plain:
  assumes "map_of allowed_types t = Some ext" "47 \<notin> set u"
  shows "plain (u @ ext)"
proof -
  have "list_all (\<lambda>(t, x). length x > 3 \<and> 47 \<notin> set x) allowed_types" by code_simp
  then have "length ext > 3 \<and> 47 \<notin> set ext" using map_of_SomeD [OF assms(1)] by (auto simp: list_all_iff)
  then show ?thesis using assms(2) by (auto simp: plain_def append_eq_Cons_conv)
qed

lemma Link_key:
  assumes "Link lower s uuid ownerID folder contentType = Inr l" "47 \<notin> set uuid"
  shows "\<exists>ext. map_of allowed_types (map lower (TrimSpace contentType)) = Some ext
    \<and> ulKey l = cleanSegment lower (if folder = [] then runes_of ''misc'' else folder) @ 47 # cleanSegment lower ownerID @ 47 # uuid @ ext
    \<and> s3Presign s (ulKey l) = Some (ulUploadURL l)"
proof -
  obtain ext where e: "map_of allowed_types (map lower (TrimSpace contentType)) = Some ext"
    using assms(1) by (auto simp: Link_def split: option.splits)
  have "path_Join [cleanSegment lower f, cleanSegment lower ownerID, uuid @ ext]
      = cleanSegment lower f @ 47 # cleanSegment lower ownerID @ 47 # uuid @ ext" for f
    using cleanSegment_safe safe_plain ext_plain [OF e assms(2)] by (intro path_Join_plain) blast+
  then show ?thesis using assms(1) e by (auto simp: Link_def Let_def split: option.splits)
qed

lemma make_links_result:
  assumes "make_links lower s u f t us = Inr ls"
  shows "length ls = length us \<and> (\<forall>k < length us. Link lower s (us ! k) u f t = Inr (ls ! k))"
  using assms
proof (induction us arbitrary: ls)
  case (Cons x us)
  then obtain l ls' where l: "Link lower s x u f t = Inr l" "make_links lower s u f t us = Inr ls'" "ls = l # ls'"
    by (auto split: sum.splits)
  show ?case using Cons.IH [OF l(2)] l by (auto simp: nth_Cons split: nat.split)
qed simp


definition sly_body :: uploadBody where
  "sly_body = \<lparr>ubContentType = runes_of '' image/png'', ubFolder = runes_of ''../docs'', ubCount = 99\<rparr>"

definition stand_store :: S3 where
  "stand_store = New_S3 (\<lambda>key. Some (runes_of ''put:'' @ key)) (runes_of ''cdn/'')"


end
