(* ===== verification/Job_Feed.thy ===== *)
theory Job_Feed
  imports Bids_Service Texts
begin

text \<open>
  The feed of open jobs: the selection and order of \<^verbatim>\<open>store/memory.go\<close> (\<^verbatim>\<open>Feed\<close>), its paging in
  \<^verbatim>\<open>service/orders.go\<close> and the query of \<^verbatim>\<open>GET /v1/jobs\<close> in \<^verbatim>\<open>httpapi/server.go\<close>. The distance on the sphere and the
  lower case of a rune are parameters; coordinates are numbers, as \<^verbatim>\<open>strconv.ParseFloat\<close> leaves them when the text is
  one and not an infinity.
\<close>


section \<open>The store\<close>

definition SortNear :: string where "SortNear = ''near''"
definition SortPrice :: string where "SortPrice = ''price''"
definition SortEnding :: string where "SortEnding = ''ending''"

record Filter =
  fLat :: "float64 option"
  fLng :: "float64 option"
  fRadiusM :: "float64 option"
  fCategoryIDs :: "runes list"
  fMode :: "Mode option"
  fQuery :: runes
  fSort :: string
  fLimit :: int
  fOffset :: int

record lookout =
  loDistance :: "float64 \<Rightarrow> float64 \<Rightarrow> float64 \<Rightarrow> float64 \<Rightarrow> float64"
  loLower :: "rune \<Rightarrow> rune"

definition matchCategory :: "string option \<Rightarrow> runes list \<Rightarrow> bool" where
  "matchCategory i ids = (case i of None \<Rightarrow> False | Some c \<Rightarrow> runes_of c \<in> set ids)"

definition amount :: "Job \<Rightarrow> int" where
  "amount j = (case jBudgetAmount j of None \<Rightarrow> 0 | Some v \<Rightarrow> v)"

definition endsAt :: "Job \<Rightarrow> time option" where
  "endsAt j = (case jAuction j of None \<Rightarrow> None | Some a \<Rightarrow> aEndsAt a)"

definition lower :: "lookout \<Rightarrow> runes \<Rightarrow> runes" where
  "lower v s = map (loLower v) s"

text \<open>Whether a job passes the conditions of its state and text, and its place by distance: nothing outside the radius,
  else the job, with its distance when both points are known.\<close>

definition wanted :: "lookout \<Rightarrow> Filter \<Rightarrow> Job \<Rightarrow> bool" where
  "wanted v f j \<longleftrightarrow>
     (if \<not> IsOpen (jStatus j) then False
      else if fMode f \<noteq> None \<and> Some (jMode j) \<noteq> fMode f then False
      else if fCategoryIDs f \<noteq> [] \<and> \<not> matchCategory (jCategoryID j) (fCategoryIDs f) then False
      else let q = lower v (TrimSpace (fQuery f))
           in \<not> (q \<noteq> [] \<and> \<not> contains_runes (lower v (jTitle j)) q \<and> \<not> contains_runes (lower v (jDescription j)) q))"

definition located :: "lookout \<Rightarrow> Filter \<Rightarrow> Job \<Rightarrow> Job option" where
  "located v f j =
     (case (fLat f, fLng f, jGeo j) of
        (Some lat, Some lng, Some g) \<Rightarrow>
          let d = loDistance v lat lng (gLat g) (gLng g)
          in if (case fRadiusM f of None \<Rightarrow> False | Some r \<Rightarrow> d > r) then None else Some (j\<lparr>jDistanceM := Some d\<rparr>)
      | _ \<Rightarrow> if fRadiusM f \<noteq> None then None else Some j)"

definition listed :: "lookout \<Rightarrow> Filter \<Rightarrow> Job \<Rightarrow> Job option" where
  "listed v f j = (if wanted v f j then located v f j else None)"

text \<open>Absent values come last.\<close>

definition none_last :: "('a \<Rightarrow> 'a \<Rightarrow> bool) \<Rightarrow> 'a option \<Rightarrow> 'a option \<Rightarrow> bool" where
  "none_last lt x y =
     (case (x, y) of (Some a, Some b) \<Rightarrow> lt a b | _ \<Rightarrow> y = None \<and> x \<noteq> None)"

definition feed_before :: "string \<Rightarrow> Job \<Rightarrow> Job \<Rightarrow> bool" where
  "feed_before srt x y =
     (if srt = SortNear then none_last (<) (jDistanceM x) (jDistanceM y)
      else if srt = SortPrice then amount x > amount y
      else if srt = SortEnding then none_last (<) (endsAt x) (endsAt y)
      else jCreatedAt x > jCreatedAt y)"

definition Feed_rows :: "lookout \<Rightarrow> (string \<Rightarrow> nat) \<Rightarrow> Filter \<Rightarrow> Memory \<Rightarrow> Job list" where
  "Feed_rows v rank f m = sort_by (feed_before (fSort f)) (List.map_filter (listed v f) (grange rank (jobs m)))"

definition FeedStore :: "lookout \<Rightarrow> (string \<Rightarrow> nat) \<Rightarrow> Filter \<Rightarrow> Memory \<Rightarrow> err + Job list" where
  "FeedStore v rank f m = Inr (gopage (fLimit f) (fOffset f) (Feed_rows v rank f m))"


section \<open>The service and the request\<close>

definition JobFeed :: "lookout \<Rightarrow> env \<Rightarrow> Filter \<Rightarrow> Job list op" where
  "JobFeed v e f = get (FeedStore v (iter e 0) (f\<lparr>fLimit := clampLimit (fLimit f), fOffset := max0 (fOffset f)\<rparr>))"

text \<open>The values of the query: \<^verbatim>\<open>None\<close> for a number that is absent or is none, limit and offset after
  \<^verbatim>\<open>strconv.Atoi\<close>.\<close>

record feed_query =
  fqMode :: string
  fqText :: runes
  fqSort :: string
  fqLimit :: int
  fqOffset :: int
  fqLat :: "float64 option"
  fqLng :: "float64 option"
  fqRadiusKm :: "float64 option"
  fqCategoryIDs :: runes

definition feed_filter :: "feed_query \<Rightarrow> Mode option \<Rightarrow> Filter" where
  "feed_filter q mode =
     \<lparr>fLat = fqLat q, fLng = fqLng q, fRadiusM = map_option (\<lambda>km. fmul km 1000) (fqRadiusKm q),
      fCategoryIDs = (let cats = TrimSpace (fqCategoryIDs q) in if cats = [] then [] else split_runes 44 cats),
      fMode = mode, fQuery = fqText q, fSort = fqSort q, fLimit = fqLimit q, fOffset = fqOffset q\<rparr>"

definition feed_mode :: "string \<Rightarrow> Mode option option" where
  "feed_mode s =
     (if s = '''' then Some None else if s = ''fixed'' then Some (Some ModeFixed)
      else if s = ''auction'' then Some (Some ModeAuction) else None)"

text \<open>Nobody is asked who is reading: the feed has no user.\<close>

definition feed :: "lookout \<Rightarrow> env \<Rightarrow> feed_query \<Rightarrow> (int \<times> Job list) op" where
  "feed v e q =
     (case feed_mode (fqMode q) of
        None \<Rightarrow> ret (400, [])
      | Some mode \<Rightarrow> bnd (JobFeed v e (feed_filter q mode)) (\<lambda>js. ret (200, js)))"


section \<open>What the feed holds\<close>

lemma listed_keeps:
  assumes "listed v f j = Some x"
  shows "IsOpen (jStatus j) \<and> (\<exists>d. x = j\<lparr>jDistanceM := d\<rparr>)"
proof -
  have "\<exists>d. x = j\<lparr>jDistanceM := d\<rparr>"
  proof (cases "x = j")
    case True
    then show ?thesis by (intro exI [of _ "jDistanceM j"]) simp
  next
    case False
    then show ?thesis using assms
      by (auto simp: listed_def located_def Let_def split: option.splits if_split_asm)
  qed
  moreover have "wanted v f j" using assms by (auto simp: listed_def split: if_split_asm)
  ultimately show ?thesis by (simp add: wanted_def split: if_split_asm)
qed

lemma set_Feed_rows:
  "x \<in> set (Feed_rows v rank f m) \<longleftrightarrow> (\<exists>j \<in> set (gvals (jobs m)). listed v f j = Some x)"
  by (force simp: Feed_rows_def List.map_filter_def)

lemma listed_page [simp]: "listed v (f\<lparr>fLimit := l, fOffset := k\<rparr>) = listed v f"
proof -
  have page: "fMode (f\<lparr>fLimit := l, fOffset := k\<rparr>) = fMode f" "fCategoryIDs (f\<lparr>fLimit := l, fOffset := k\<rparr>) = fCategoryIDs f"
    "fQuery (f\<lparr>fLimit := l, fOffset := k\<rparr>) = fQuery f" "fLat (f\<lparr>fLimit := l, fOffset := k\<rparr>) = fLat f"
    "fLng (f\<lparr>fLimit := l, fOffset := k\<rparr>) = fLng f" "fRadiusM (f\<lparr>fLimit := l, fOffset := k\<rparr>) = fRadiusM f" by simp_all
  show ?thesis by (rule ext) (unfold listed_def wanted_def located_def page, rule refl)
qed

lemma Feed_rows_page [simp]: "Feed_rows v rank (f\<lparr>fLimit := l, fOffset := k\<rparr>) = Feed_rows v rank f"
  by (simp add: Feed_rows_def fun_eq_iff)

text \<open>Every element of a list is on some page.\<close>

lemma on_some_page:
  assumes "x \<in> set xs" "0 < l"
  shows "\<exists>k \<ge> 0. x \<in> set (gopage l k xs)"
proof -
  obtain i where i: "i < length xs" "xs ! i = x" using assms(1) by (metis in_set_conv_nth)
  then have d: "drop i xs = x # drop (Suc i) xs" by (metis Cons_nth_drop_Suc)
  obtain n where "nat l = Suc n" using assms(2) by (cases "nat l") auto
  then have "x \<in> set (gopage l (int i) xs)" using i(1) assms(2) by (auto simp: gopage_def Let_def d)
  then show ?thesis by (intro exI [of _ "int i"]) simp
qed

text \<open>The pages of the feed hold exactly the open jobs that pass the filter, changed in their distance only.\<close>

lemma JobFeed_page:
  assumes "JobFeed v e f w = (r, w')"
  shows "w' = w" and "r = Inr (gopage (clampLimit (fLimit f)) (max0 (fOffset f)) (Feed_rows v (iter e 0) f (mem w)))"
  using assms by (auto simp: JobFeed_def get_def FeedStore_def)

lemma feed_item:
  assumes "feed v e q w = (Inr (code, items), w')" and "x \<in> set items"
  shows "w' = w \<and> (\<exists>j \<in> set (gvals (jobs (mem w))). IsOpen (jStatus j) \<and> (\<exists>d. x = j\<lparr>jDistanceM := d\<rparr>))"
proof -
  obtain mode where "feed_mode (fqMode q) = Some mode"
    using assms by (auto simp: feed_def op_simps split: option.splits)
  then have run: "JobFeed v e (feed_filter q mode) w = (Inr items, w')" using assms(1) by (auto simp: feed_def op_simps)
  note page = JobFeed_page [OF run]
  then have "x \<in> set (Feed_rows v (iter e 0) (feed_filter q mode) (mem w))" using assms(2) set_gopage by fastforce
  then show ?thesis using page(1) listed_keeps unfolding set_Feed_rows by metis
qed

text \<open>The query without conditions.\<close>

definition everything :: "string \<Rightarrow> int \<Rightarrow> int \<Rightarrow> feed_query" where
  "everything srt l k = \<lparr>fqMode = '''', fqText = [], fqSort = srt, fqLimit = l, fqOffset = k, fqLat = None, fqLng = None,
     fqRadiusKm = None, fqCategoryIDs = []\<rparr>"

lemma feed_everything:
  "feed v e (everything srt l k) w =
     (Inr (200, gopage (clampLimit l) (max0 k) (Feed_rows v (iter e 0) (feed_filter (everything srt l 0) None) (mem w))), w)"
proof -
  have "feed_filter (everything srt l k) None = (feed_filter (everything srt l 0) None)\<lparr>fLimit := l, fOffset := k\<rparr>"
    by (simp add: feed_filter_def everything_def)
  then have "Feed_rows v (iter e 0) (feed_filter (everything srt l k) None) = Feed_rows v (iter e 0) (feed_filter (everything srt l 0) None)"
    by (metis Feed_rows_page)
  moreover have "fLimit (feed_filter (everything srt l k) None) = l" "fOffset (feed_filter (everything srt l k) None) = k"
    "fqMode (everything srt l k) = ''''"
    by (simp_all add: feed_filter_def everything_def)
  ultimately show ?thesis
    by (simp add: feed_def feed_mode_def bnd_def JobFeed_def get_def FeedStore_def ret_def)
qed

text \<open>C33: The feed shows the reserve price. Whatever auction is open, some page of the feed, which anybody may read
  without an account, carries it with its reserve price, while the card of the same job hides that price from
  everybody but the customer.\<close>

theorem feed_shows_reserve:
  assumes "map_of (jobs (mem w)) i = Some j" "IsOpen (jStatus j)" "reserveOf j = Some p"
  shows "(\<exists>k items x. feed v e (everything srt l k) w = (Inr (200, items), w)
            \<and> x \<in> set items \<and> jID x = jID j \<and> reserveOf x = Some p)
    \<and> (\<forall>viewer y w'. View viewer i w = (Inr y, w') \<longrightarrow> viewer \<noteq> jClientID y \<longrightarrow> reserveOf y = None)"
proof
  let ?f = "feed_filter (everything srt l 0) None"
  have "j \<in> set (gvals (jobs (mem w)))" using assms(1) map_of_SomeD by (force simp: gvals_def)
  moreover have "listed v ?f j = Some j" using assms(2)
    by (simp add: listed_def wanted_def located_def feed_filter_def everything_def lower_def TrimSpace_def)
  ultimately have row: "j \<in> set (Feed_rows v (iter e 0) ?f (mem w))" by (auto simp: set_Feed_rows)
  have "0 < clampLimit l" by (simp add: clampLimit_def defaultLimit_def maxLimit_def)
  from on_some_page [OF row this] obtain k where k: "k \<ge> 0" "j \<in> set (gopage (clampLimit l) k (Feed_rows v (iter e 0) ?f (mem w)))"
    by blast
  then have "feed v e (everything srt l k) w
      = (Inr (200, gopage (clampLimit l) k (Feed_rows v (iter e 0) ?f (mem w))), w)"
    by (simp add: feed_everything max0_def)
  then show "\<exists>k items x. feed v e (everything srt l k) w = (Inr (200, items), w)
      \<and> x \<in> set items \<and> jID x = jID j \<and> reserveOf x = Some p" using k(2) assms(3) by blast
  show "\<forall>viewer y w'. View viewer i w = (Inr y, w') \<longrightarrow> viewer \<noteq> jClientID y \<longrightarrow> reserveOf y = None"
  proof (intro allI impI)
    fix viewer y w' assume v: "View viewer i w = (Inr y, w')" and "viewer \<noteq> jClientID y"
    then obtain j' where "y = hide_reserve viewer j'" using View_hidden by blast
    then show "reserveOf y = None"
      using hide_reserve_hides [of viewer j'] \<open>viewer \<noteq> jClientID y\<close> by (auto simp: reserveOf_def split: option.split)
  qed
qed

text \<open>An auction with a reserve price of 90000, read by a guest.\<close>

definition open_auction :: Job where
  "open_auction = (blank_draft ''j'' ''client'' 0)\<lparr>jTitle := runes_of ''Trench'', jStatus := StatusBidding, jMode := ModeAuction,
     jBudgetAmount := Some 120000,
     jAuction := Some \<lparr>aDurationH = 24, aEndsAt = Some 1, aReserveAmount = Some 90000, aAutoExtend = True, aDecisionWindowH = 12\<rparr>\<rparr>"

definition stand_lookout :: lookout where
  "stand_lookout = \<lparr>loDistance = (\<lambda>a b c d. abs (a - c) + abs (b - d)), loLower = id\<rparr>"

theorem feed_shows_reserve_witness:
  "\<forall>e. \<exists>k items x. feed stand_lookout e (everything ''new'' 20 k) (new_world\<lparr>mem := NewMemory\<lparr>jobs := [(''j'', open_auction)]\<rparr>\<rparr>)
      = (Inr (200, items), new_world\<lparr>mem := NewMemory\<lparr>jobs := [(''j'', open_auction)]\<rparr>\<rparr>)
    \<and> x \<in> set items \<and> reserveOf x = Some 90000"
proof -
  have "map_of (jobs (mem (new_world\<lparr>mem := NewMemory\<lparr>jobs := [(''j'', open_auction)]\<rparr>\<rparr>))) ''j'' = Some open_auction" by simp
  moreover have "IsOpen (jStatus open_auction)" "reserveOf open_auction = Some 90000"
    by (simp_all add: open_auction_def IsOpen_def reserveOf_def)
  ultimately show ?thesis using feed_shows_reserve [of _ "''j''" open_auction 90000 stand_lookout] by blast
qed

end
