(* ===== verification/Profiles_Client.thy ===== *)
theory Profiles_Client
  imports Texts Float64
begin

text \<open>
  The cards of people as the orders service reads them (\<^verbatim>\<open>internal/profiles/profiles.go\<close>): a client of the accounts
  service with a cache of one minute. What a call over the network answers is a parameter, absent when the call, its
  status or the decoding failed.
\<close>


section \<open>The client\<close>

record Profile =
  pfID :: string
  pfName :: runes
  pfCity :: runes
  pfVerified :: bool
  pfRating :: float64
  pfRatingCount :: int

record cached =
  cdProfile :: Profile
  cdAt :: time

record profiles_client =
  pcBaseURL :: string
  pcCache :: "(string, cached) gomap"
  pcTTL :: int

definition NewHTTP :: "string \<Rightarrow> profiles_client" where
  "NewHTTP baseURL = \<lparr>pcBaseURL = baseURL, pcCache = [], pcTTL = Minute\<rparr>"

text \<open>The cards found in the cache and the identifiers to ask for.\<close>

fun from_cache :: "profiles_client \<Rightarrow> time \<Rightarrow> (string, Profile) gomap \<Rightarrow> string list \<Rightarrow> string list
    \<Rightarrow> (string, Profile) gomap \<times> string list" where
  "from_cache h now out missing [] = (out, missing)"
| "from_cache h now out missing (i # ids) =
     (case map_of (pcCache h) i of
        Some c \<Rightarrow>
          if now - cdAt c < pcTTL h then from_cache h now (AList.update i (cdProfile c) out) missing ids
          else from_cache h now out (if i \<noteq> '''' then missing @ [i] else missing) ids
      | None \<Rightarrow> from_cache h now out (if i \<noteq> '''' then missing @ [i] else missing) ids)"

fun remember_profiles :: "time \<Rightarrow> (string, Profile) gomap \<Rightarrow> (string, cached) gomap \<Rightarrow> Profile list
    \<Rightarrow> (string, Profile) gomap \<times> (string, cached) gomap" where
  "remember_profiles now out cache [] = (out, cache)"
| "remember_profiles now out cache (p # ps) =
     remember_profiles now (AList.update (pfID p) p out) (AList.update (pfID p) \<lparr>cdProfile = p, cdAt = now\<rparr> cache) ps"

definition ByIDs :: "(string list \<Rightarrow> Profile list option) \<Rightarrow> time \<Rightarrow> string list \<Rightarrow> profiles_client
    \<Rightarrow> (string, Profile) gomap \<times> profiles_client" where
  "ByIDs ask now ids h =
     (if pcBaseURL h = '''' \<or> ids = [] then ([], h)
      else case from_cache h now [] [] ids of
        (out, missing) \<Rightarrow>
          if missing = [] then (out, h)
          else case ask missing of
                 None \<Rightarrow> (out, h)
               | Some items \<Rightarrow>
                   (case remember_profiles now out (pcCache h) items of
                      (out, cache) \<Rightarrow> (out, h\<lparr>pcCache := cache\<rparr>)))"

definition DisplayName :: "Profile \<Rightarrow> runes \<Rightarrow> runes" where
  "DisplayName p other = (if TrimSpace (pfName p) \<noteq> [] then pfName p else other)"

text \<open>The registrations of a period, zero when the accounts service does not answer.\<close>

definition ClientUsers :: "string \<Rightarrow> (time \<Rightarrow> time \<Rightarrow> int option) \<Rightarrow> time \<Rightarrow> time \<Rightarrow> int" where
  "ClientUsers baseURL ask from till =
     (if baseURL = '''' then 0 else case ask from till of None \<Rightarrow> 0 | Some n \<Rightarrow> n)"

text \<open>What \<^verbatim>\<open>people[id]\<close> reads where a card is missing.\<close>

definition no_profile :: Profile where
  "no_profile = \<lparr>pfID = '''', pfName = [], pfCity = [], pfVerified = False, pfRating = 0, pfRatingCount = 0\<rparr>"

definition card :: "(string, Profile) gomap \<Rightarrow> string \<Rightarrow> Profile" where
  "card people i = (case map_of people i of None \<Rightarrow> no_profile | Some p \<Rightarrow> p)"


section \<open>No card is older than a minute\<close>

text \<open>A run of calls: the instant, the identifiers and the answer of the accounts service of each.\<close>

type_synonym lookup_step = "time \<times> string list \<times> (string list \<Rightarrow> Profile list option)"

fun lookups :: "lookup_step list \<Rightarrow> profiles_client \<Rightarrow> profiles_client" where
  "lookups [] h = h"
| "lookups ((now, ids, ask) # steps) h = lookups steps (snd (ByIDs ask now ids h))"

text \<open>\<open>told steps p t\<close>: at the instant \<open>t\<close> the accounts service answered with the card \<open>p\<close>.\<close>

definition told :: "lookup_step list \<Rightarrow> Profile \<Rightarrow> time \<Rightarrow> bool" where
  "told steps p t \<longleftrightarrow> (\<exists>ids ask missing items. (t, ids, ask) \<in> set steps \<and> ask missing = Some items \<and> p \<in> set items)"

definition cache_told :: "lookup_step list \<Rightarrow> profiles_client \<Rightarrow> bool" where
  "cache_told steps h \<longleftrightarrow>
     (\<forall>i c. map_of (pcCache h) i = Some c \<longrightarrow> pfID (cdProfile c) = i \<and> told steps (cdProfile c) (cdAt c))"

lemma from_cache_out:
  assumes "from_cache h now out missing ids = (out', missing')" "map_of out' i = Some p"
  shows "map_of out i = Some p \<or> (\<exists>c. map_of (pcCache h) i = Some c \<and> now - cdAt c < pcTTL h \<and> cdProfile c = p)"
  using assms
  by (induction h now out missing ids rule: from_cache.induct)
     (auto simp: update_conv' split: option.splits if_split_asm)

lemma remember_out:
  assumes "remember_profiles now out cache items = (out', cache')"
  shows "map_of out' i = Some p \<Longrightarrow> map_of out i = Some p \<or> p \<in> set items \<and> pfID p = i"
    and "map_of cache' i = Some c \<Longrightarrow>
      map_of cache i = Some c \<or> cdProfile c \<in> set items \<and> pfID (cdProfile c) = i \<and> cdAt c = now"
  using assms
  by (induction now out cache items rule: remember_profiles.induct) (auto simp: update_conv' split: if_split_asm)

lemma told_mono: "told steps p t \<Longrightarrow> set steps \<subseteq> set steps' \<Longrightarrow> told steps' p t"
  unfolding told_def by blast

lemma ByIDs_told:
  assumes "cache_told steps h" "(now, ids, ask) \<in> set steps"
  shows "cache_told steps (snd (ByIDs ask now ids h))" and "pcTTL (snd (ByIDs ask now ids h)) = pcTTL h"
    and "map_of (fst (ByIDs ask now ids h)) i = Some p \<Longrightarrow>
      pfID p = i \<and> (\<exists>t. told steps p t \<and> (t = now \<or> now - t < pcTTL h))"
proof -
  obtain out missing where fc: "from_cache h now [] [] ids = (out, missing)" by fastforce
  have old: "pfID p = i \<and> (\<exists>t. told steps p t \<and> (t = now \<or> now - t < pcTTL h))" if "map_of out i = Some p" for i p
    using from_cache_out [OF fc that] assms(1) by (auto simp: cache_told_def)
  have new: "told steps p now" if "ask missing = Some items" "p \<in> set items" for p items
    using assms(2) that unfolding told_def by blast
  show "cache_told steps (snd (ByIDs ask now ids h))"
    using assms(1) fc new unfolding cache_told_def ByIDs_def
    by (auto split: option.split prod.split dest!: remember_out(2))
  show "pcTTL (snd (ByIDs ask now ids h)) = pcTTL h"
    by (auto simp: ByIDs_def split: option.split prod.split)
  show "map_of (fst (ByIDs ask now ids h)) i = Some p \<Longrightarrow>
      pfID p = i \<and> (\<exists>t. told steps p t \<and> (t = now \<or> now - t < pcTTL h))"
    using fc old new unfolding ByIDs_def
    by (fastforce split: option.splits prod.splits if_split_asm dest!: remember_out(1))
qed

lemma lookups_told:
  assumes "cache_told all h" "set steps \<subseteq> set all" "pcTTL h = Minute"
  shows "cache_told all (lookups steps h) \<and> pcTTL (lookups steps h) = Minute"
  using assms
proof (induction steps arbitrary: h)
  case (Cons s steps)
  obtain now ids ask where s: "s = (now, ids, ask)" by (metis prod_cases3)
  have "cache_told all (snd (ByIDs ask now ids h))" "pcTTL (snd (ByIDs ask now ids h)) = Minute"
    using ByIDs_told [OF Cons.prems(1), of now ids ask] Cons.prems s by auto
  then show ?case using Cons.IH Cons.prems(2) s by simp
qed simp

text \<open>Whatever was looked up before, a card shown is the card of the person asked about, and the accounts service
  gave it less than a minute ago or just now.\<close>

theorem cards_are_fresh:
  assumes "map_of (fst (ByIDs ask now ids (lookups steps (NewHTTP url)))) i = Some p"
  shows "pfID p = i \<and> (\<exists>t. told (steps @ [(now, ids, ask)]) p t \<and> (t = now \<or> now - t < Minute))"
proof -
  let ?all = "steps @ [(now, ids, ask)]"
  have "cache_told ?all (NewHTTP url)" "pcTTL (NewHTTP url) = Minute" by (simp_all add: cache_told_def NewHTTP_def)
  then have "cache_told ?all (lookups steps (NewHTTP url)) \<and> pcTTL (lookups steps (NewHTTP url)) = Minute"
    by (intro lookups_told) auto
  then show ?thesis using ByIDs_told(3) [of ?all _ now ids ask, OF _ _ assms] by simp
qed

text \<open>A card asked for at noon and again half a minute later, when the accounts service is silent.\<close>

definition karen :: Profile where
  "karen = \<lparr>pfID = ''k'', pfName = runes_of ''Karen'', pfCity = [], pfVerified = True, pfRating = 0, pfRatingCount = 0\<rparr>"

theorem cards_are_fresh_witness:
  "\<exists>t. told [(0, [''k''], \<lambda>_. Some [karen]), (30 * Second, [''k''], \<lambda>_. None)] karen t \<and> (t = 30 * Second \<or> 30 * Second - t < Minute)"
proof -
  have "map_of (fst (ByIDs (\<lambda>_. None) (30 * Second) [''k''] (lookups [(0, [''k''], \<lambda>_. Some [karen])] (NewHTTP ''url'')))) ''k'' = Some karen"
    by code_simp
  from cards_are_fresh [OF this] show ?thesis by simp
qed

end
