(* ===== verification/Orders_Http.thy ===== *)
theory Orders_Http
  imports Job_Feed Profiles_Client Params Gateway Offers_Service Deals_Service Chats_Service Disputes_Service Reviews_Service Crm_Service
begin

text \<open>
  The requests of the orders service (\<^verbatim>\<open>internal/httpapi/*.go\<close>). A handler takes the user the gateway named, the
  decoded body (absent when decoding failed) and the words of the path and the query; it answers with a refusal or
  with a status and what it shows. The words of the interface are named in English. What the handlers ask
  of outside is in the desk: the cards of people, the count of registrations, the reading of dates and the
  signature of a ticket.
\<close>


section \<open>Refusals\<close>

datatype refusal_reply = Trouble int string | Incomplete fields

fun problem_status :: "refusal_reply \<Rightarrow> int" where
  "problem_status (Trouble status _) = status"
| "problem_status (Incomplete _) = 422"

definition fail_job :: "err \<Rightarrow> refusal_reply" where
  "fail_job er =
     (case er of
        ValidationError fs \<Rightarrow> Incomplete fs
      | ErrNotFound \<Rightarrow> Trouble 404 ''not_found''
      | ErrForbidden \<Rightarrow> Trouble 403 ''forbidden''
      | ErrNotDraft \<Rightarrow> Trouble 409 ''not_draft''
      | ErrBadTransition \<Rightarrow> Trouble 409 ''bad_transition''
      | _ \<Rightarrow> Trouble 500 ''internal'')"

definition failBid :: "err \<Rightarrow> refusal_reply" where
  "failBid er =
     (case er of
        ErrUnitForeign \<Rightarrow> Trouble 403 ''unit_foreign''
      | ErrUnitInactive \<Rightarrow> Trouble 409 ''unit_inactive''
      | ErrBidNotFound \<Rightarrow> Trouble 404 ''bid_not_found''
      | ErrNotAuction \<Rightarrow> Trouble 409 ''not_auction''
      | ErrAuctionClosed \<Rightarrow> Trouble 409 ''auction_closed''
      | ErrBidTooLate \<Rightarrow> Trouble 409 ''too_late''
      | ErrBidNotActive \<Rightarrow> Trouble 409 ''bid_not_active''
      | ErrOwnJob \<Rightarrow> Trouble 403 ''own_job''
      | _ \<Rightarrow> fail_job er)"

definition failOffer :: "err \<Rightarrow> refusal_reply" where
  "failOffer er =
     (case er of
        ErrUnitForeign \<Rightarrow> Trouble 403 ''unit_foreign''
      | ErrUnitInactive \<Rightarrow> Trouble 409 ''unit_inactive''
      | ErrOfferNotFound \<Rightarrow> Trouble 404 ''offer_not_found''
      | ErrOwnJob \<Rightarrow> Trouble 403 ''own_job''
      | ErrJobNotOpen \<Rightarrow> Trouble 409 ''job_not_open''
      | ErrAuctionMode \<Rightarrow> Trouble 409 ''auction_mode''
      | ErrOfferExists \<Rightarrow> Trouble 409 ''offer_exists''
      | ErrOfferNotActive \<Rightarrow> Trouble 409 ''offer_not_active''
      | ErrCounterUsed \<Rightarrow> Trouble 409 ''counter_used''
      | _ \<Rightarrow> fail_job er)"

definition failDeal :: "err \<Rightarrow> refusal_reply" where
  "failDeal er =
     (case er of
        ErrDealNotFound \<Rightarrow> Trouble 404 ''deal_not_found''
      | ErrDealNotParty \<Rightarrow> Trouble 403 ''not_party''
      | ErrDealWrongPerson \<Rightarrow> Trouble 409 ''wrong_person''
      | ErrDealClosed \<Rightarrow> Trouble 409 ''deal_closed''
      | ErrDealStep \<Rightarrow> Trouble 409 ''bad_step''
      | _ \<Rightarrow> fail_job er)"

definition failChat :: "err \<Rightarrow> refusal_reply" where
  "failChat er =
     (case er of
        ErrChatNotFound \<Rightarrow> Trouble 404 ''chat_not_found''
      | ErrChatForbidden \<Rightarrow> Trouble 403 ''chat_forbidden''
      | ErrChatClosed \<Rightarrow> Trouble 409 ''chat_closed''
      | ErrEmptyMessage \<Rightarrow> Trouble 400 ''empty_message''
      | _ \<Rightarrow> fail_job er)"

definition failDispute :: "err \<Rightarrow> refusal_reply" where
  "failDispute er =
     (case er of
        ErrDisputeNotFound \<Rightarrow> Trouble 404 ''dispute_not_found''
      | ErrDisputeForbidden \<Rightarrow> Trouble 403 ''dispute_forbidden''
      | ErrDealNotParty \<Rightarrow> Trouble 403 ''dispute_forbidden''
      | ErrDisputeExists \<Rightarrow> Trouble 409 ''dispute_exists''
      | ErrDisputeClosed \<Rightarrow> Trouble 409 ''dispute_closed''
      | ErrDisputeStage \<Rightarrow> Trouble 409 ''dispute_stage''
      | ErrDisputeReason \<Rightarrow> Trouble 400 ''dispute_reason''
      | ErrDisputeOutcome \<Rightarrow> Trouble 400 ''dispute_outcome''
      | ErrDisputeResolution \<Rightarrow> Trouble 400 ''dispute_resolution''
      | _ \<Rightarrow> fail_job er)"

definition failComplaint :: "err \<Rightarrow> refusal_reply" where
  "failComplaint er =
     (case er of
        ErrComplaintNotFound \<Rightarrow> Trouble 404 ''complaint_not_found''
      | ErrComplaintExists \<Rightarrow> Trouble 409 ''complaint_exists''
      | ErrComplaintClosed \<Rightarrow> Trouble 409 ''complaint_closed''
      | ErrComplaintReason \<Rightarrow> Trouble 400 ''complaint_reason''
      | ErrComplaintTarget \<Rightarrow> Trouble 400 ''complaint_target''
      | ErrComplaintSelf \<Rightarrow> Trouble 400 ''complaint_self''
      | ErrComplaintAction \<Rightarrow> Trouble 400 ''complaint_action''
      | _ \<Rightarrow> fail_job er)"

definition failReview :: "err \<Rightarrow> refusal_reply" where
  "failReview er =
     (case er of
        ErrReviewNotFound \<Rightarrow> Trouble 404 ''review_not_found''
      | ErrReviewForbidden \<Rightarrow> Trouble 403 ''review_forbidden''
      | ErrReplyForeign \<Rightarrow> Trouble 403 ''review_forbidden''
      | ErrReviewTooEarly \<Rightarrow> Trouble 409 ''review_too_early''
      | ErrReviewFrozen \<Rightarrow> Trouble 409 ''review_frozen''
      | ErrReviewTwice \<Rightarrow> Trouble 409 ''review_twice''
      | ErrReplyTwice \<Rightarrow> Trouble 409 ''reply_twice''
      | ErrReviewStars \<Rightarrow> Trouble 400 ''review_stars''
      | ErrReviewTag \<Rightarrow> Trouble 400 ''review_tag''
      | ErrReviewLong \<Rightarrow> Trouble 400 ''review_long''
      | _ \<Rightarrow> fail_job er)"


section \<open>Answers\<close>

text \<open>A handler: a refusal, or a status and what is shown, and the world left. A decoded body or 400.\<close>

type_synonym 'a handler = "world \<Rightarrow> (refusal_reply + int \<times> 'a) \<times> world"

definition respond :: "(err \<Rightarrow> refusal_reply) \<Rightarrow> int \<Rightarrow> 'a op \<Rightarrow> 'a handler" where
  "respond refusal code m w =
     (case m w of (Inl er, w') \<Rightarrow> (Inl (refusal er), w') | (Inr x, w') \<Rightarrow> (Inr (code, x), w'))"

definition turned_away :: "int \<Rightarrow> string \<Rightarrow> 'a handler" where
  "turned_away status code w = (Inl (Trouble status code), w)"

definition decoded :: "'b option \<Rightarrow> ('b \<Rightarrow> 'a handler) \<Rightarrow> 'a handler" where
  "decoded body h = (case body of None \<Rightarrow> turned_away 400 ''invalid_body'' | Some b \<Rightarrow> h b)"

record desk =
  dePeople :: "string list \<Rightarrow> (string, Profile) gomap"
  deUsers :: "(time \<Rightarrow> time \<Rightarrow> int) option"
  deTime :: "string \<Rightarrow> time option"
  deSecret :: string
  deSigned :: "string \<Rightarrow> string \<Rightarrow> string \<Rightarrow> time \<Rightarrow> string"
  deLookout :: lookout


section \<open>Jobs\<close>

text \<open>The fields of the wizard as they come; dates are texts.\<close>

record auctionBody =
  abDurationH :: int
  abReserveAmount :: "int option"
  abAutoExtend :: "bool option"
  abDecisionWindowH :: int

record draftBody =
  dbOrderType :: "string option"
  dbCategoryID :: "string option"
  dbOpenToAny :: "bool option"
  dbTitle :: "runes option"
  dbDescription :: "runes option"
  dbParams :: "(string \<times> json) list option"
  dbPhotos :: "string list option"
  dbGeo :: "Geo option"
  dbAddress :: "runes option"
  dbAccess :: "string option"
  dbDateMode :: "string option"
  dbDateStart :: "string option"
  dbDateEnd :: "string option"
  dbBudgetAmount :: "int option"
  dbCurrency :: "string option"
  dbMode :: "string option"
  dbAuction :: "auctionBody option"
  dbWorkersCount :: "int option"
  dbDraftStep :: "int option"

text \<open>An optional word that has to be one of the listed ones.\<close>

definition one_of :: "(string \<times> 'a) list \<Rightarrow> string option \<Rightarrow> 'a option option" where
  "one_of words v =
     (case v of None \<Rightarrow> Some None | Some s \<Rightarrow> (case map_of words s of None \<Rightarrow> None | Some x \<Rightarrow> Some (Some x)))"

definition parseTime :: "desk \<Rightarrow> string option \<Rightarrow> time option option" where
  "parseTime d v =
     (case v of None \<Rightarrow> Some None
      | Some s \<Rightarrow> if s = '''' then Some None else (case deTime d s of None \<Rightarrow> None | Some t \<Rightarrow> Some (Some t)))"

definition auction_of :: "auctionBody \<Rightarrow> Auction" where
  "auction_of b =
     \<lparr>aDurationH = abDurationH b, aEndsAt = None, aReserveAmount = abReserveAmount b,
      aAutoExtend = (case abAutoExtend b of None \<Rightarrow> True | Some v \<Rightarrow> v), aDecisionWindowH = abDecisionWindowH b\<rparr>"

definition toInput :: "desk \<Rightarrow> draftBody \<Rightarrow> DraftInput option" where
  "toInput d b =
     (case one_of [(''job'', TypeJob), (''rental'', TypeRental), (''transport'', TypeTransport), (''workers'', TypeWorkers)]
             (dbOrderType b) of None \<Rightarrow> None | Some orderType \<Rightarrow>
      case one_of [(''yes'', AccessYes), (''no'', AccessNo), (''unknown'', AccessUnknown)] (dbAccess b) of
        None \<Rightarrow> None | Some acc \<Rightarrow>
      case one_of [(''asap'', DateASAP), (''range'', DateRange), (''exact'', DateExact)] (dbDateMode b) of
        None \<Rightarrow> None | Some dateMode \<Rightarrow>
      case one_of [(''fixed'', ModeFixed), (''auction'', ModeAuction)] (dbMode b) of None \<Rightarrow> None | Some mode \<Rightarrow>
      case parseTime d (dbDateStart b) of None \<Rightarrow> None | Some from \<Rightarrow>
      case parseTime d (dbDateEnd b) of None \<Rightarrow> None | Some till \<Rightarrow>
      Some \<lparr>iOrderType = orderType, iCategoryID = dbCategoryID b, iOpenToAny = dbOpenToAny b, iTitle = dbTitle b,
        iDescription = dbDescription b, iParams = dbParams b, iPhotos = dbPhotos b, iGeo = dbGeo b,
        iAddress = dbAddress b, iAccess = acc, iDateMode = dateMode, iDateStart = from, iDateEnd = till,
        iBudgetAmount = dbBudgetAmount b, iCurrency = dbCurrency b, iMode = mode,
        iAuction = map_option auction_of (dbAuction b), iWorkersCount = dbWorkersCount b, iDraftStep = dbDraftStep b\<rparr>)"

text \<open>A repeated key answers before the body is read.\<close>

definition repeated :: "string \<Rightarrow> string \<Rightarrow> string \<Rightarrow> (unit \<Rightarrow> Job option handler) \<Rightarrow> Job option handler" where
  "repeated key user endpoint h w =
     (case Idempotent key user endpoint w of
        (Inr (existing, True), w') \<Rightarrow> (Inr (200, existing), w')
      | (_, w') \<Rightarrow> h () w')"

definition create_draft :: "desk \<Rightarrow> env \<Rightarrow> string \<Rightarrow> string \<Rightarrow> draftBody option \<Rightarrow> Job option handler" where
  "create_draft d e user key body =
     repeated key user ''POST /v1/jobs/drafts'' (\<lambda>_.
       decoded body (\<lambda>b.
       case toInput d b of
         None \<Rightarrow> turned_away 400 ''invalid_body''
       | Some inp \<Rightarrow> respond fail_job 201
           (bnd (CreateDraft e user inp) (\<lambda>j.
            bnd (ignore (RememberIdempotent key user ''POST /v1/jobs/drafts'' (jID j))) (\<lambda>_.
            ret (Some j))))))"

definition update_draft :: "desk \<Rightarrow> env \<Rightarrow> string \<Rightarrow> string \<Rightarrow> draftBody option \<Rightarrow> Job handler" where
  "update_draft d e user i body =
     decoded body (\<lambda>b.
     case toInput d b of
       None \<Rightarrow> turned_away 400 ''invalid_body''
     | Some inp \<Rightarrow> respond fail_job 200 (UpdateDraft e user i inp))"

definition publish_job :: "env \<Rightarrow> string \<Rightarrow> string \<Rightarrow> string \<Rightarrow> Job option handler" where
  "publish_job e user key i =
     repeated key user ''POST /v1/jobs/publish'' (\<lambda>_.
       respond fail_job 200
         (bnd (Publish e user i) (\<lambda>j.
          bnd (ignore (RememberIdempotent key user ''POST /v1/jobs/publish'' (jID j))) (\<lambda>_.
          ret (Some j)))))"

definition cancel_job :: "env \<Rightarrow> string \<Rightarrow> string \<Rightarrow> Job handler" where
  "cancel_job e user i = respond fail_job 200 (Cancel e user i)"

definition myJobs :: "env \<Rightarrow> string \<Rightarrow> string \<Rightarrow> string \<Rightarrow> Job list handler" where
  "myJobs e user limit offset = respond fail_job 200 (MyJobs e user (Atoi limit) (Atoi offset))"

definition feed_page :: "desk \<Rightarrow> env \<Rightarrow> feed_query \<Rightarrow> Job list handler" where
  "feed_page d e q =
     (case feed_mode (fqMode q) of
        None \<Rightarrow> turned_away 400 ''invalid_mode''
      | Some mode \<Rightarrow> respond fail_job 200 (JobFeed (deLookout d) e (feed_filter q mode)))"

text \<open>The card of a job, with the warning that the reader is busy on its day.\<close>

definition view_job :: "env \<Rightarrow> string \<Rightarrow> string \<Rightarrow> (Job \<times> bool) handler" where
  "view_job e viewer i =
     respond fail_job 200
       (bnd (View viewer i) (\<lambda>j.
        case jDateStart j of
          None \<Rightarrow> ret (j, False)
        | Some day \<Rightarrow>
            if viewer \<noteq> '''' \<and> viewer \<noteq> jClientID j
            then attempt (BusyOn e viewer day) (\<lambda>r. ret (j, r = Inr True))
            else ret (j, False)))"


section \<open>Bids\<close>

record bid_row =
  brID :: string
  brPrice :: int
  brCurrency :: string
  brStatus :: BidStatus
  brRank :: int
  brCreatedAt :: time
  brComment :: runes
  brMine :: bool
  brScore :: "float64 option"

definition bid_row_of :: "string \<Rightarrow> Bid \<Rightarrow> bid_row" where
  "bid_row_of viewer b =
     \<lparr>brID = bID b, brPrice = bPrice b, brCurrency = bCurrency b, brStatus = bStatus b, brRank = bRank b,
      brCreatedAt = bCreatedAt b, brComment = bComment b, brMine = (viewer \<noteq> '''' \<and> bOwnerID b = viewer),
      brScore = bScore b\<rparr>"

definition placeBid :: "env \<Rightarrow> string \<Rightarrow> string \<Rightarrow> BidInput option \<Rightarrow> Bid handler" where
  "placeBid e user i body = decoded body (\<lambda>b. respond failBid 201 (PlaceBid e user i b))"

definition jobBids :: "env \<Rightarrow> string \<Rightarrow> string \<Rightarrow> bid_row list handler" where
  "jobBids e viewer i =
     respond failBid 200 (bnd (JobBids e i) (\<lambda>bs. ret (map (bid_row_of viewer) bs)))"

text \<open>What is not there yet is no error.\<close>

definition maybe :: "err \<Rightarrow> 'a op \<Rightarrow> 'a option op" where
  "maybe absent m =
     attempt m (\<lambda>r. case r of Inr x \<Rightarrow> ret (Some x) | Inl er \<Rightarrow> if er = absent then ret None else fail er)"

definition myBidForJob :: "env \<Rightarrow> string \<Rightarrow> string \<Rightarrow> Bid option handler" where
  "myBidForJob e user i = respond failBid 200 (maybe ErrBidNotFound (get (MyBidForJob (iter e 0) i user)))"

definition myBids :: "env \<Rightarrow> string \<Rightarrow> string \<Rightarrow> string \<Rightarrow> Bid list handler" where
  "myBids e user limit offset = respond failBid 200 (MyBids e user (Atoi limit) (Atoi offset))"

definition withdrawBid :: "env \<Rightarrow> string \<Rightarrow> string \<Rightarrow> Bid handler" where
  "withdrawBid e user i = respond failBid 200 (WithdrawBid e user i)"

definition acceptBid :: "env \<Rightarrow> string \<Rightarrow> string \<Rightarrow> Bid handler" where
  "acceptBid e user i = respond failBid 200 (AcceptBid e user i)"

definition declineAllBids :: "env \<Rightarrow> string \<Rightarrow> string \<Rightarrow> Job handler" where
  "declineAllBids e user i = respond failBid 200 (DeclineAllBids e user i)"

definition finishAuction :: "env \<Rightarrow> string \<Rightarrow> Job handler" where
  "finishAuction e i = respond failBid 200 (FinishAuction e i)"

end
