(* ===== verification/Orders_Pages.thy ===== *)
theory Orders_Pages
  imports Orders_Http
begin

text \<open>
  The requests of the orders service about offers, deals, chats, disputes, complaints, reviews and the business of a
  person (\<^verbatim>\<open>internal/httpapi/offers.go, deals.go, chats.go, disputes.go, complaints.go, reviews.go, crm.go\<close>), and the
  table of routes (\<^verbatim>\<open>server.go\<close>). The words shown for a missing name are given in English.
\<close>


section \<open>Offers\<close>

record offerBody =
  obKind :: string
  obPrice :: int
  obComment :: runes
  obETA :: runes
  obUnitID :: "string option"

definition makeOffer :: "env \<Rightarrow> string \<Rightarrow> string \<Rightarrow> offerBody option \<Rightarrow> Offer handler" where
  "makeOffer e user i body =
     decoded body (\<lambda>b.
     case map_of [(''accept'', OfferAccept), (''counter'', OfferCounter)] (obKind b) of
       None \<Rightarrow> turned_away 400 ''invalid_kind''
     | Some kind \<Rightarrow> respond failOffer 201
         (MakeOffer e user i \<lparr>ofKind = kind, ofPrice = obPrice b, ofComment = obComment b, ofETA = obETA b,
            ofUnitID = obUnitID b\<rparr>))"

definition myOfferForJob :: "env \<Rightarrow> string \<Rightarrow> string \<Rightarrow> Offer option handler" where
  "myOfferForJob e user i = respond failOffer 200 (maybe ErrOfferNotFound (get (MyOfferForJob (iter e 0) i user)))"

definition myOffers :: "env \<Rightarrow> string \<Rightarrow> string \<Rightarrow> string \<Rightarrow> Offer list handler" where
  "myOffers e user limit offset = respond failOffer 200 (MyOffers e user (Atoi limit) (Atoi offset))"

text \<open>An offer with the card and the rating of the contractor, where they are known; the machine is not shown.\<close>

record offer_row =
  orID :: string
  orJobID :: string
  orOwnerID :: string
  orKind :: OfferKind
  orPrice :: int
  orCurrency :: string
  orComment :: runes
  orETA :: runes
  orStatus :: OfferStatus
  orDeclineReason :: message
  orCreatedAt :: time
  orUpdatedAt :: time
  orClientCounterPrice :: "int option"
  orClientCounterAt :: "time option"
  orOwner :: "(runes \<times> runes \<times> bool) option"
  orRating :: "(float64 \<times> int) option"

definition offerRow :: "Offer \<Rightarrow> offer_row" where
  "offerRow x =
     \<lparr>orID = oID x, orJobID = oJobID x, orOwnerID = oOwnerID x, orKind = oKind x, orPrice = oPrice x, orCurrency = oCurrency x,
      orComment = oComment x, orETA = oETA x, orStatus = oStatus x, orDeclineReason = oDeclineReason x,
      orCreatedAt = oCreatedAt x, orUpdatedAt = oUpdatedAt x, orClientCounterPrice = oClientCounterPrice x,
      orClientCounterAt = oClientCounterAt x, orOwner = None, orRating = None\<rparr>"

definition stars_of :: "(string, RatingSummary) gomap \<Rightarrow> string \<Rightarrow> (float64 \<times> int) option" where
  "stars_of ratings i = map_option (\<lambda>rt. (rsRating rt, rsCount rt)) (map_of ratings i)"

definition w_contractor_name :: runes where "w_contractor_name = runes_of ''contractor''"
definition w_customer_name :: runes where "w_customer_name = runes_of ''customer''"
definition w_peer_name :: runes where "w_peer_name = runes_of ''peer''"
definition w_person_name :: runes where "w_person_name = runes_of ''person''"

definition dressed_offer :: "(string, Profile) gomap \<Rightarrow> (string, RatingSummary) gomap \<Rightarrow> Offer \<Rightarrow> offer_row" where
  "dressed_offer people ratings x =
     (offerRow x)\<lparr>orOwner := map_option (\<lambda>p. (DisplayName p w_contractor_name, pfCity p, pfVerified p)) (map_of people (oOwnerID x)),
       orRating := stars_of ratings (oOwnerID x)\<rparr>"

definition jobOffers :: "desk \<Rightarrow> env \<Rightarrow> string \<Rightarrow> string \<Rightarrow> offer_row list handler" where
  "jobOffers d e user i =
     respond failOffer 200
       (bnd (JobOffers e user i) (\<lambda>items.
        let ids = map oOwnerID items
        in bnd (Ratings e ids) (\<lambda>ratings.
           ret (map (dressed_offer (dePeople d ids) ratings) items))))"

definition withdrawOffer :: "env \<Rightarrow> string \<Rightarrow> string \<Rightarrow> Offer handler" where
  "withdrawOffer e user i = respond failOffer 200 (WithdrawOffer e user i)"

definition acceptOffer :: "env \<Rightarrow> string \<Rightarrow> string \<Rightarrow> Offer handler" where
  "acceptOffer e user i = respond failOffer 200 (AcceptOffer e user i)"

text \<open>A body may be left out; \<open>Some None\<close> is one that could not be decoded.\<close>

definition optional_body :: "'b option option \<Rightarrow> 'b \<Rightarrow> 'b option" where
  "optional_body body blank = (case body of None \<Rightarrow> Some blank | Some b \<Rightarrow> b)"

definition declineOffer :: "env \<Rightarrow> string \<Rightarrow> string \<Rightarrow> runes option option \<Rightarrow> Offer handler" where
  "declineOffer e user i body =
     decoded (optional_body body []) (\<lambda>reason. respond failOffer 200 (DeclineOffer e user i reason))"

definition counterOffer :: "env \<Rightarrow> string \<Rightarrow> string \<Rightarrow> int option \<Rightarrow> Offer handler" where
  "counterOffer e user i body = decoded body (\<lambda>price. respond failOffer 200 (CounterOffer e user i price))"


section \<open>Deals\<close>

definition confirmDeal :: "env \<Rightarrow> string \<Rightarrow> string \<Rightarrow> Deal handler" where
  "confirmDeal e user i = respond failDeal 200 (ConfirmDeal e user i)"

definition dealByJob :: "env \<Rightarrow> string \<Rightarrow> string \<Rightarrow> Deal option handler" where
  "dealByJob e user i = respond failDeal 200 (maybe ErrDealNotFound (GetDealByJob e user i))"

record deal_view =
  dvDeal :: Deal
  dvClientName :: "runes option"
  dvOwnerName :: "runes option"
  dvOwnerRating :: "(float64 \<times> int) option"
  dvClientRating :: "(float64 \<times> int) option"

definition dealWithNames :: "desk \<Rightarrow> env \<Rightarrow> Deal \<Rightarrow> deal_view op" where
  "dealWithNames d e x =
     (let ids = [dClientID x, dOwnerID x]; people = dePeople d ids
      in bnd (Ratings e ids) (\<lambda>ratings.
         ret \<lparr>dvDeal = x,
           dvClientName = map_option (\<lambda>p. DisplayName p w_customer_name) (map_of people (dClientID x)),
           dvOwnerName = map_option (\<lambda>p. DisplayName p w_contractor_name) (map_of people (dOwnerID x)),
           dvOwnerRating = stars_of ratings (dOwnerID x), dvClientRating = stars_of ratings (dClientID x)\<rparr>))"

definition deal_page :: "desk \<Rightarrow> env \<Rightarrow> string \<Rightarrow> string \<Rightarrow> deal_view handler" where
  "deal_page d e user i = respond failDeal 200 (bnd (GetDeal user i) (dealWithNames d e))"

definition myDeals :: "env \<Rightarrow> string \<Rightarrow> string \<Rightarrow> string \<Rightarrow> Deal list handler" where
  "myDeals e user limit offset = respond failDeal 200 (MyDeals e user (Atoi limit) (Atoi offset))"

definition deal_words :: "(string \<times> DealStatus) list" where
  "deal_words = [(''on_the_way'', DealOnTheWay), (''in_progress'', DealInProgress), (''work_done'', DealWorkDone),
     (''completed'', DealCompleted), (''disputed'', DealDisputed)]"

definition advanceDeal :: "env \<Rightarrow> string \<Rightarrow> string \<Rightarrow> (string \<times> runes) option \<Rightarrow> Deal handler" where
  "advanceDeal e user i body =
     decoded body (\<lambda>(status, remark).
     case map_of deal_words status of
       None \<Rightarrow> turned_away 400 ''invalid_status''
     | Some to \<Rightarrow> respond failDeal 200 (AdvanceDeal e user i to [Txt remark]))"

definition cancelDeal :: "env \<Rightarrow> string \<Rightarrow> string \<Rightarrow> runes option \<Rightarrow> Deal handler" where
  "cancelDeal e user i body = decoded body (\<lambda>reason. respond failDeal 200 (CancelDeal e user i reason))"


section \<open>Chats\<close>

definition openChat :: "env \<Rightarrow> string \<Rightarrow> string \<Rightarrow> string option option \<Rightarrow> Chat handler" where
  "openChat e user i body =
     decoded (optional_body body '''') (\<lambda>ownerID. respond failChat 200 (OpenChat e user i ownerID))"

definition other_of :: "Chat \<Rightarrow> string \<Rightarrow> string" where
  "other_of c user = (if hClientID c = user then hOwnerID c else hClientID c)"

record chat_line =
  clnID :: string
  clnJobID :: string
  clnJobTitle :: runes
  clnKind :: ChatKind
  clnLastText :: message
  clnLastMessageAt :: "time option"
  clnUnread :: int
  clnCreatedAt :: time
  clnPeerName :: runes

definition chat_line_of :: "(string, Profile) gomap \<Rightarrow> string \<Rightarrow> Chat \<Rightarrow> chat_line" where
  "chat_line_of people user c =
     \<lparr>clnID = hID c, clnJobID = hJobID c, clnJobTitle = hJobTitle c, clnKind = hKind c, clnLastText = hLastText c,
      clnLastMessageAt = hLastMessageAt c, clnUnread = hUnread c, clnCreatedAt = hCreatedAt c,
      clnPeerName = (case map_of people (other_of c user) of Some p \<Rightarrow> DisplayName p w_peer_name | None \<Rightarrow> w_peer_name)\<rparr>"

definition myChats :: "desk \<Rightarrow> env \<Rightarrow> string \<Rightarrow> string \<Rightarrow> string \<Rightarrow> chat_line list handler" where
  "myChats d e user limit offset =
     respond failChat 200
       (bnd (MyChats e user (Atoi limit) (Atoi offset)) (\<lambda>items.
        ret (map (chat_line_of (dePeople d (map (\<lambda>c. other_of c user) items)) user) items)))"

record chat_card =
  ccID :: string
  ccJobID :: string
  ccKind :: ChatKind
  ccPeerName :: runes

definition chat_page :: "desk \<Rightarrow> string \<Rightarrow> string \<Rightarrow> chat_card handler" where
  "chat_page d user i =
     respond failChat 200
       (bnd (GetChat user i) (\<lambda>c.
        let peer = other_of c user
        in ret \<lparr>ccID = hID c, ccJobID = hJobID c, ccKind = hKind c,
                ccPeerName = DisplayName (card (dePeople d [peer]) peer) w_peer_name\<rparr>))"

definition chat_messages :: "env \<Rightarrow> string \<Rightarrow> string \<Rightarrow> string \<Rightarrow> string \<Rightarrow> Message list handler" where
  "chat_messages e user i limit offset = respond failChat 200 (ChatMessages e user i (Atoi limit) (Atoi offset))"

definition sendMessage :: "env \<Rightarrow> string \<Rightarrow> string \<Rightarrow> runes option \<Rightarrow> (Message \<times> bool) handler" where
  "sendMessage e user i body = decoded body (\<lambda>text. respond failChat 201 (SendMessage e user i text))"

text \<open>A ticket for the channel of a chat: the token, the channel and the end of its hour.\<close>

definition chatRealtimeToken :: "desk \<Rightarrow> env \<Rightarrow> string \<Rightarrow> string \<Rightarrow> (string \<times> string \<times> time) handler" where
  "chatRealtimeToken d e user i w =
     (case GetChat user i w of
        (Inl er, w') \<Rightarrow> (Inl (failChat er), w')
      | (Inr c, w') \<Rightarrow>
          if deSecret d = '''' then turned_away 503 ''realtime_off'' w'
          else let till = clock e 0 + Hour; channel = ''chat:'' @ hID c
               in (Inr (200, deSigned d (deSecret d) user channel till, channel, till), w'))"


section \<open>Disputes\<close>

definition openDispute :: "env \<Rightarrow> string \<Rightarrow> string \<Rightarrow> (runes \<times> string list) option \<Rightarrow> Dispute handler" where
  "openDispute e user i body =
     decoded body (\<lambda>(reason, photos). respond failDispute 201 (OpenDispute e user i reason photos))"

definition dispute_page :: "env \<Rightarrow> string \<Rightarrow> string \<Rightarrow> Dispute handler" where
  "dispute_page e user i = respond failDispute 200 (DisputeOfDeal e user i)"

record dispute_row =
  dqID :: string
  dqDealID :: string
  dqJobID :: string
  dqJobTitle :: runes
  dqReason :: runes
  dqPhotos :: "string list"
  dqOpenedBy :: string
  dqClientName :: runes
  dqOwnerName :: runes
  dqOpenedByClient :: bool
  dqCreatedAt :: time

definition dispute_row_of :: "(string, Profile) gomap \<Rightarrow> Dispute \<Rightarrow> dispute_row" where
  "dispute_row_of people x =
     \<lparr>dqID = pID x, dqDealID = pDealID x, dqJobID = pJobID x, dqJobTitle = pJobTitle x, dqReason = pReason x,
      dqPhotos = pPhotos x, dqOpenedBy = pOpenedBy x,
      dqClientName = DisplayName (card people (pClientID x)) w_customer_name,
      dqOwnerName = DisplayName (card people (pOwnerID x)) w_contractor_name,
      dqOpenedByClient = (pOpenedBy x = pClientID x), dqCreatedAt = pCreatedAt x\<rparr>"

definition disputeQueue :: "desk \<Rightarrow> env \<Rightarrow> string \<Rightarrow> dispute_row list handler" where
  "disputeQueue d e limit =
     respond failDispute 200
       (bnd (DisputeQueue e (Atoi limit)) (\<lambda>items.
        ret (map (dispute_row_of (dePeople d (concat (map (\<lambda>x. [pClientID x, pOwnerID x]) items)))) items)))"

definition outcome_of :: "string \<Rightarrow> DisputeOutcome" where
  "outcome_of s =
     (if s = ''client'' then OutcomeClient else if s = ''owner'' then OutcomeOwner
      else if s = ''compromise'' then OutcomeCompromise else OutcomeOther s)"

definition resolveDispute :: "env \<Rightarrow> string \<Rightarrow> string \<Rightarrow> (runes \<times> runes) option \<Rightarrow> Dispute handler" where
  "resolveDispute e user i body =
     decoded body (\<lambda>(outcome, resolution).
       respond failDispute 200 (ResolveDispute e user i (outcome_of (word_of (TrimSpace outcome))) resolution))"


section \<open>Complaints and the summary of the platform\<close>

definition complain :: "env \<Rightarrow> string \<Rightarrow> (runes \<times> runes \<times> runes) option \<Rightarrow> Complaint handler" where
  "complain e user body =
     decoded body (\<lambda>(kind, target, reason).
       respond failComplaint 201 (Complain e user (word_of (TrimSpace kind)) (word_of (TrimSpace target)) reason))"

record complaint_line =
  cqID :: string
  cqTargetKind :: string
  cqTargetID :: string
  cqReason :: runes
  cqAuthorName :: runes
  cqSameTarget :: int
  cqCreatedAt :: time
  cqTarget :: "(runes \<times> string) option"

definition complaint_line_of :: "(string, Profile) gomap \<Rightarrow> Complaint \<Rightarrow> complaint_line" where
  "complaint_line_of people c =
     \<lparr>cqID = cID c, cqTargetKind = cTargetKind c, cqTargetID = cTargetID c, cqReason = cReason c,
      cqAuthorName = DisplayName (card people (cAuthorID c)) w_person_name, cqSameTarget = cSameTarget c,
      cqCreatedAt = cCreatedAt c,
      cqTarget =
        (if cTargetKind c = TargetJob then Some (cTargetTitle c, ''/jobs/'' @ cTargetID c)
         else if cTargetKind c = TargetUser
         then Some (DisplayName (card people (cTargetID c)) w_person_name, ''/users/'' @ cTargetID c)
         else None)\<rparr>"

definition complaintQueue :: "desk \<Rightarrow> env \<Rightarrow> string \<Rightarrow> complaint_line list handler" where
  "complaintQueue d e limit =
     respond failComplaint 200
       (bnd (ComplaintQueue e (Atoi limit)) (\<lambda>items.
        let ids = concat (map (\<lambda>c. cAuthorID c # (if cTargetKind c = TargetUser then [cTargetID c] else [])) items)
        in ret (map (complaint_line_of (dePeople d ids)) items)))"

definition action_of :: "string \<Rightarrow> ComplaintAction" where
  "action_of s =
     (if s = ''dismissed'' then ActionDismissed else if s = ''removed'' then ActionRemoved
      else if s = ''warned'' then ActionWarned else ActionOther s)"

definition reviewComplaint :: "env \<Rightarrow> string \<Rightarrow> string \<Rightarrow> (runes \<times> runes) option \<Rightarrow> Complaint handler" where
  "reviewComplaint e user i body =
     decoded body (\<lambda>(action, remark).
       respond failComplaint 200 (ReviewComplaint e user i (action_of (word_of (TrimSpace action))) remark))"

definition dashboard_days :: "string \<Rightarrow> int" where
  "dashboard_days q = (let days = Atoi q in if days \<le> 0 \<or> days > 365 then 30 else days)"

text \<open>The figures of a period, and of the one before it, whose errors are passed over.\<close>

record figures =
  fgUsers :: int
  fgJobs :: int
  fgDeals :: int
  fgGMV :: int
  fgConversion :: int

record board = figures +
  boDays :: int
  boFrom :: time
  boTo :: time
  boCompleted :: int
  boAvgCheck :: int
  boOpenDisputes :: int
  boOpenComplaints :: int
  boPrev :: "figures option"

definition figures_of :: "PlatformStats \<Rightarrow> figures" where
  "figures_of s = \<lparr>fgUsers = psUsers s, fgJobs = psJobs s, fgDeals = psDeals s, fgGMV = psGMV s, fgConversion = Conversion s\<rparr>"

definition dashboard :: "desk \<Rightarrow> env \<Rightarrow> string \<Rightarrow> board handler" where
  "dashboard d e q =
     (let days = dashboard_days q; till = clock e 0; from = AddDate till 0 0 (- days);
          prev_till = from - Nanosecond; prev_from = AddDate prev_till 0 0 (- days)
      in respond fail_job 200
           (bnd (ServiceStats (deUsers d) from till) (\<lambda>s.
            attempt (ServiceStats (deUsers d) prev_from prev_till) (\<lambda>prev.
            ret \<lparr>fgUsers = psUsers s, fgJobs = psJobs s, fgDeals = psDeals s, fgGMV = psGMV s, fgConversion = Conversion s,
              boDays = days, boFrom = from, boTo = till, boCompleted = psCompleted s, boAvgCheck = AvgCheck s,
              boOpenDisputes = psOpenDisputes s, boOpenComplaints = psOpenComplaints s,
              boPrev = (case prev of Inl _ \<Rightarrow> None | Inr p \<Rightarrow> Some (figures_of p))\<rparr>))))"


section \<open>Reviews\<close>

text \<open>The review, whether it is open, and whether to ask what went wrong.\<close>

definition leave_review :: "env \<Rightarrow> string \<Rightarrow> string \<Rightarrow> (int \<times> runes list \<times> runes \<times> runes) option
    \<Rightarrow> (Review \<times> bool \<times> bool) handler" where
  "leave_review e user i body =
     decoded body (\<lambda>(stars, tags, text, issue).
       respond failReview 201
         (bnd (leaveReview e user i stars tags text issue) (\<lambda>r.
          ret (r, Published r, AsksWhatWentWrong (rStars r)))))"

record review_form =
  rfDealID :: string
  rfAuthorRole :: string
  rfAllowedTags :: "runes list"
  rfCanReview :: bool
  rfTargetName :: "runes option"
  rfReview :: "Review option"

definition myReviewForDeal :: "desk \<Rightarrow> env \<Rightarrow> string \<Rightarrow> string \<Rightarrow> review_form handler" where
  "myReviewForDeal d e user i =
     respond fail_job 200
       (bnd (GetDeal user i) (\<lambda>x.
        let (role, target) = (if user = dClientID x then (RoleClient, dOwnerID x) else (RoleOwner, dClientID x));
            people = dePeople d [target]
        in attempt (MyReviewForDeal e user i) (\<lambda>mine.
           ret \<lparr>rfDealID = i, rfAuthorRole = role, rfAllowedTags = AllowedTags role, rfCanReview = (CanReview x user = None),
             rfTargetName = (if people \<noteq> [] then Some (DisplayName (card people target) w_peer_name) else None),
             rfReview = (case mine of Inl _ \<Rightarrow> None | Inr r \<Rightarrow> Some r)\<rparr>)))"

record review_line =
  rlID :: string
  rlJobID :: string
  rlStars :: int
  rlTags :: "runes list"
  rlText :: runes
  rlReplyText :: runes
  rlReplyAt :: "time option"
  rlPublishedAt :: "time option"
  rlCreatedAt :: time
  rlAuthorName :: runes

definition review_line_of :: "(string, Profile) gomap \<Rightarrow> Review \<Rightarrow> review_line" where
  "review_line_of people r =
     \<lparr>rlID = rID r, rlJobID = rJobID r, rlStars = rStars r, rlTags = rTags r, rlText = rText r, rlReplyText = rReplyText r,
      rlReplyAt = rReplyAt r, rlPublishedAt = rPublishedAt r, rlCreatedAt = rCreatedAt r,
      rlAuthorName = DisplayName (card people (rAuthorID r)) w_person_name\<rparr>"

definition userReviews :: "desk \<Rightarrow> env \<Rightarrow> string \<Rightarrow> string \<Rightarrow> string \<Rightarrow> (review_line list \<times> float64 \<times> int) handler" where
  "userReviews d e i limit offset =
     respond failReview 200
       (bnd (UserReviews e i (Atoi limit) (Atoi offset)) (\<lambda>(items, summary).
        let people = dePeople d (map rAuthorID items)
        in ret (map (review_line_of people) items, rsRating summary, rsCount summary)))"

definition replyToReview :: "env \<Rightarrow> string \<Rightarrow> string \<Rightarrow> runes option \<Rightarrow> Review handler" where
  "replyToReview e user i body = decoded body (\<lambda>text. respond failReview 200 (ReplyToReview e user i text))"


section \<open>The business of a person\<close>

definition period_words :: "(string \<times> Period) list" where
  "period_words = [(''week'', PeriodWeek), (''month'', PeriodMonth), (''quarter'', PeriodQuarter), (''year'', PeriodYear),
     (''all'', PeriodAll)]"

definition period_or :: "Period \<Rightarrow> string \<Rightarrow> Period" where
  "period_or otherwise q = (case map_of period_words q of None \<Rightarrow> otherwise | Some p \<Rightarrow> p)"

record partner_row =
  pwUserID :: string
  pwName :: runes
  pwDeals :: int
  pwTotal :: int
  pwLast :: time
  pwRegular :: bool

definition partner_row_of :: "(string, Profile) gomap \<Rightarrow> runes \<Rightarrow> Client \<Rightarrow> partner_row" where
  "partner_row_of people other c =
     \<lparr>pwUserID = clUserID c, pwName = DisplayName (card people (clUserID c)) other, pwDeals = clDeals c, pwTotal = clTotal c,
      pwLast = clLast c, pwRegular = Regular c\<rparr>"

text \<open>The summary, its change against the period before with whether they compare, the rates of the funnel and the rows
  of partners with their names.\<close>

definition business :: "desk \<Rightarrow> env \<Rightarrow> string \<Rightarrow> string \<Rightarrow>
    (Business \<times> (int \<times> bool) \<times> (float64 \<times> float64) \<times> partner_row list) handler" where
  "business d e user q =
     respond fail_job 200
       (bnd (Business_of e user (period_or PeriodMonth q)) (\<lambda>b.
        let people = dePeople d (map clUserID (buClients b))
        in ret (b, BusinessDelta b, (WinRate (buFunnel b), FinishRate (buFunnel b)),
                map (partner_row_of people w_customer_name) (buClients b))))"

definition spending :: "desk \<Rightarrow> env \<Rightarrow> string \<Rightarrow> string \<Rightarrow> (Spending \<times> (int \<times> bool) \<times> partner_row list) handler" where
  "spending d e user q =
     respond fail_job 200
       (bnd (Spending_of e user (period_or PeriodMonth q)) (\<lambda>s.
        let people = dePeople d (map clUserID (spOwners s))
        in ret (s, SpendingDelta s, map (partner_row_of people w_contractor_name) (spOwners s))))"

record busy_row =
  byDay :: string
  bySource :: string
  byNote :: "message option"
  byDeal :: "(string \<times> runes) option"

definition busy_row_of :: "BusyDay \<Rightarrow> busy_row" where
  "busy_row_of b =
     \<lparr>byDay = FormatDay (bdDay b), bySource = bdSource b, byNote = (if bdNote b \<noteq> [] then Some (bdNote b) else None),
      byDeal = (if bdDealID b \<noteq> '''' then Some (bdDealID b, bdTitle b) else None)\<rparr>"

text \<open>A month is read as its first day; without one, it is the present month.\<close>

definition asked_month :: "env \<Rightarrow> string \<Rightarrow> time option" where
  "asked_month e raw = (if raw = '''' then Some (clock e 0) else ParseDay (raw @ ''-01''))"

definition calendar :: "env \<Rightarrow> string \<Rightarrow> string \<Rightarrow> (string \<times> busy_row list) handler" where
  "calendar e user raw =
     (case asked_month e raw of
        None \<Rightarrow> turned_away 400 ''bad_month''
      | Some month \<Rightarrow> respond fail_job 200
          (bnd (Calendar e user month) (\<lambda>ds.
           ret (take 7 (FormatDay month), map busy_row_of ds))))"

definition markBusy :: "string \<Rightarrow> (runes \<times> runes) option \<Rightarrow> runes handler" where
  "markBusy user body =
     decoded body (\<lambda>(day, remark).
     case ParseDay (word_of (TrimSpace day)) of
       None \<Rightarrow> turned_away 400 ''bad_day''
     | Some t \<Rightarrow> respond fail_job 200 (bnd (MarkBusy user t remark) (\<lambda>_. ret day)))"

definition unmarkBusy :: "string \<Rightarrow> string \<Rightarrow> unit handler" where
  "unmarkBusy user day =
     (case ParseDay day of
        None \<Rightarrow> turned_away 400 ''bad_day''
      | Some t \<Rightarrow> respond fail_job 204 (UnmarkBusy user t))"

end
