(* ===== verification/Deals_Export.thy ===== *)
theory Deals_Export
  imports Orders_Pages
begin

text \<open>
  The table of deals for the accountant (\<^verbatim>\<open>internal/httpapi/export.go\<close>): the rows and the text of the file, written by
  \<^verbatim>\<open>encoding/csv\<close> with a semicolon. The words of the table are named in English. A reader of such files, stated
  here, gets back the rows.
\<close>


section \<open>The writer of the standard library\<close>

definition semicolon :: rune where "semicolon = 59"
definition quote :: rune where "quote = 34"
definition newline :: rune where "newline = 10"

text \<open>\<^verbatim>\<open>csv.Writer.fieldNeedsQuotes\<close>\<close>

definition fieldNeedsQuotes :: "runes \<Rightarrow> bool" where
  "fieldNeedsQuotes s =
     (if s = [] then False
      else if s = [92, 46] then True
      else if \<exists>c \<in> set s. c = newline \<or> c = 13 \<or> c = quote \<or> c = semicolon then True
      else is_space (hd s))"

definition csv_field :: "runes \<Rightarrow> runes" where
  "csv_field s =
     (if \<not> fieldNeedsQuotes s then s
      else quote # concat (map (\<lambda>c. if c = quote then [quote, quote] else [c]) s) @ [quote])"

fun csv_fields :: "runes list \<Rightarrow> runes" where
  "csv_fields [] = []"
| "csv_fields [s] = csv_field s"
| "csv_fields (s # ss) = csv_field s @ semicolon # csv_fields ss"

definition csv_row :: "runes list \<Rightarrow> runes" where
  "csv_row ss = csv_fields ss @ [newline]"


section \<open>The file\<close>

fun deal_status_words :: "DealStatus \<Rightarrow> string" where
  "deal_status_words DealCompleted = ''completed''"
| "deal_status_words DealCancelled = ''cancelled''"
| "deal_status_words DealDisputed = ''dispute''"
| "deal_status_words DealWorkDone = ''waits for acceptance''"
| "deal_status_words DealInProgress = ''in work''"
| "deal_status_words DealOnTheWay = ''the contractor is on the way''"
| "deal_status_words _ = ''confirmed''"

text \<open>\<^verbatim>\<open>day.Format("02.01.2006")\<close>\<close>

definition dotted_day :: "time \<Rightarrow> string" where
  "dotted_day t = (case Date_of t of (y, m, d) \<Rightarrow> two d @ ''.'' @ two m @ ''.'' @ four y)"

definition export_side :: "bool \<Rightarrow> Deal \<Rightarrow> string" where
  "export_side asOwner x = (if asOwner then dClientID x else dOwnerID x)"

definition export_header :: "bool \<Rightarrow> runes list" where
  "export_header asOwner =
     map runes_of [''Date'', ''Job'', (if asOwner then ''Customer'' else ''Contractor''), ''Amount'', ''Currency'', ''Status'']"

definition export_row :: "(string, Profile) gomap \<Rightarrow> bool \<Rightarrow> Deal \<Rightarrow> runes list" where
  "export_row people asOwner x =
     (let day = (case dClosedAt x of None \<Rightarrow> dCreatedAt x | Some t \<Rightarrow> t)
      in [runes_of (dotted_day day), dJobTitle x, DisplayName (card people (export_side asOwner x)) [8212],
          runes_of (dec (dPrice x)), runes_of (dCurrency x), runes_of (deal_status_words (dStatus x))])"

text \<open>The file starts with the mark of byte order.\<close>

definition export_text :: "(string, Profile) gomap \<Rightarrow> bool \<Rightarrow> Deal list \<Rightarrow> runes" where
  "export_text people asOwner ds =
     65279 # csv_row (export_header asOwner) @ concat (map (csv_row \<circ> export_row people asOwner) ds)"

definition period_word :: "Period \<Rightarrow> string" where
  "period_word p =
     (case p of PeriodWeek \<Rightarrow> ''week'' | PeriodMonth \<Rightarrow> ''month'' | PeriodQuarter \<Rightarrow> ''quarter'' | PeriodYear \<Rightarrow> ''year''
      | PeriodAll \<Rightarrow> ''all'' | PeriodOther s \<Rightarrow> s)"

text \<open>The name of the file and its text; the period is the year unless another one is named, the role is the contractor's
  unless it is \<^verbatim>\<open>client\<close>.\<close>

definition exportDeals :: "desk \<Rightarrow> env \<Rightarrow> string \<Rightarrow> string \<Rightarrow> string \<Rightarrow> (string \<times> runes) handler" where
  "exportDeals d e user period role =
     (let p = period_or PeriodYear period; asOwner = (role \<noteq> ''client'')
      in respond fail_job 200
           (bnd (DealsForExport e user p asOwner) (\<lambda>ds.
            ret (''traktor-'' @ period_word p @ ''-'' @ FormatDay (clock e 1) @ ''.csv'',
                 export_text (dePeople d (map (export_side asOwner) ds)) asOwner ds))))"


section \<open>A reader\<close>

text \<open>The text of a quoted field up to its closing quote, and what follows; the text of a plain one up to a separator.\<close>

fun read_quoted :: "runes \<Rightarrow> runes \<times> runes" where
  "read_quoted [] = ([], [])"
| "read_quoted [c] = (if c = quote then ([], []) else ([c], []))"
| "read_quoted (c # c' # cs) =
     (if c = quote then (if c' = quote then (case read_quoted cs of (s, rest) \<Rightarrow> (quote # s, rest)) else ([], c' # cs))
      else (case read_quoted (c' # cs) of (s, rest) \<Rightarrow> (c # s, rest)))"

fun read_plain :: "runes \<Rightarrow> runes \<times> runes" where
  "read_plain [] = ([], [])"
| "read_plain (c # cs) =
     (if c = semicolon \<or> c = newline then ([], c # cs) else (case read_plain cs of (s, rest) \<Rightarrow> (c # s, rest)))"

definition read_field :: "runes \<Rightarrow> runes \<times> runes" where
  "read_field s = (case s of [] \<Rightarrow> ([], []) | c # cs \<Rightarrow> if c = quote then read_quoted cs else read_plain s)"

lemma read_quoted_shorter: "length (snd (read_quoted s)) \<le> length s"
  by (induction s rule: read_quoted.induct) (auto split: prod.splits)

lemma read_plain_shorter: "length (snd (read_plain s)) \<le> length s"
  by (induction s) (auto split: prod.splits)

lemma read_field_shorter: "read_field s = (f, rest) \<Longrightarrow> length rest \<le> length s"
  using read_quoted_shorter [of "tl s"] read_plain_shorter [of s]
  by (auto simp: read_field_def split: list.splits if_split_asm)

function read_row :: "runes \<Rightarrow> runes list \<times> runes" where
  "read_row s =
     (case read_field s of
        (f, []) \<Rightarrow> ([f], [])
      | (f, c # cs) \<Rightarrow> if c = semicolon then (case read_row cs of (fs, rest) \<Rightarrow> (f # fs, rest)) else ([f], cs))"
  by pat_completeness auto
termination
  by (relation "measure length") (fastforce dest!: read_field_shorter [OF sym])+

declare read_row.simps [simp del]

lemma read_row_shorter: "s \<noteq> [] \<Longrightarrow> length (snd (read_row s)) < length s"
proof (induction s rule: read_row.induct)
  case (1 s)
  obtain f rest where r: "read_field s = (f, rest)" by fastforce
  show ?case
  proof (cases rest)
    case Nil
    then show ?thesis using 1(2) r by (simp add: read_row.simps [of s])
  next
    case (Cons c cs)
    then have l: "length cs < length s" using read_field_shorter [OF r] by simp
    show ?thesis
    proof (cases "c = semicolon \<and> cs \<noteq> []")
      case True
      then have "length (snd (read_row cs)) < length cs" using 1(1) [OF r [symmetric] Cons] by blast
      then show ?thesis using r Cons True l by (cases "read_row cs") (simp add: read_row.simps [of s])
    next
      case False
      then show ?thesis using r Cons l
        by (auto simp: read_row.simps [of s] read_row.simps [of "[]"] read_field_def split: prod.split)
    qed
  qed
qed

function read_csv :: "runes \<Rightarrow> runes list list" where
  "read_csv s = (if s = [] then [] else (case read_row s of (fs, rest) \<Rightarrow> fs # read_csv rest))"
  by pat_completeness auto
termination
  by (relation "measure length") (auto, metis read_row_shorter snd_conv)

declare read_csv.simps [simp del]


section \<open>What is written is read\<close>

definition separator :: "rune \<Rightarrow> bool" where
  "separator c \<longleftrightarrow> c = semicolon \<or> c = newline"

lemma read_quoted_back:
  assumes "c \<noteq> quote"
  shows "read_quoted (concat (map (\<lambda>c. if c = quote then [quote, quote] else [c]) s) @ quote # c # rest) = (s, c # rest)"
proof (induction s)
  case (Cons a s)
  let ?t = "concat (map (\<lambda>c. if c = quote then [quote, quote] else [c]) s) @ quote # c # rest"
  obtain b t where t: "?t = b # t" by (cases ?t) auto
  have "read_quoted (a # b # t) = (a # s, c # rest)" if "a \<noteq> quote" using that Cons t by simp
  then show ?case using Cons t by (cases "a = quote") auto
qed (use assms in simp)

lemma read_plain_back:
  assumes "separator c" "\<forall>x \<in> set s. \<not> separator x"
  shows "read_plain (s @ c # rest) = (s, c # rest)"
  using assms by (induction s) (auto simp: separator_def)

lemma read_field_back:
  assumes "separator c"
  shows "read_field (csv_field s @ c # rest) = (s, c # rest)"
proof (cases "fieldNeedsQuotes s")
  case True
  have "c \<noteq> quote" using assms by (auto simp: separator_def quote_def semicolon_def newline_def)
  then show ?thesis using True read_quoted_back [of c s rest] by (simp add: csv_field_def read_field_def)
next
  case False
  then have plain: "\<forall>x \<in> set s. \<not> separator x \<and> x \<noteq> quote"
    by (auto simp: fieldNeedsQuotes_def separator_def split: if_split_asm)
  have "c \<noteq> quote" using assms by (auto simp: separator_def quote_def semicolon_def newline_def)
  then show ?thesis using False plain read_plain_back [OF assms, of s rest]
    by (cases s) (auto simp: csv_field_def read_field_def)
qed

lemma read_row_back: "ss \<noteq> [] \<Longrightarrow> read_row (csv_fields ss @ newline # rest) = (ss, rest)"
proof (induction ss rule: csv_fields.induct)
  case (2 s)
  have "newline \<noteq> semicolon" by (simp add: newline_def semicolon_def)
  then show ?case using read_field_back [of newline s rest] by (simp add: read_row.simps separator_def)
next
  case (3 s s' ss)
  then show ?case using read_field_back [of semicolon s "csv_fields (s' # ss) @ newline # rest"]
    by (simp add: read_row.simps [of "csv_field s @ _"] separator_def)
qed simp

lemma read_csv_back: "\<forall>ss \<in> set rows. ss \<noteq> [] \<Longrightarrow> read_csv (concat (map csv_row rows)) = rows"
  by (induction rows) (simp_all add: csv_row_def read_csv.simps read_row_back)


end
