(* ===== verification/Orders_Routes.thy ===== *)
theory Orders_Routes
  imports Deals_Export
begin

text \<open>
  The table of routes of the orders service with its guards (\<^verbatim>\<open>internal/httpapi/server.go\<close>) over all the handlers, and which
  refusals a handler can answer with.
\<close>


section \<open>The routes\<close>

datatype guest_call = GetFeed feed_query | GetBids string | GetJob string

datatype user_call =
    GetMyJobs string string | PostDraft string "draftBody option" | PatchDraft string "draftBody option"
  | PostPublish string string | PostCancel string
  | GetOffers string | GetMyOffer string | PostDeal string | GetJobDeal string | PostChat string "string option option"
  | GetMyBid string | PostDeclineAll string | PostFinish string
  | GetMyDeals string string | GetDealPage string | PostStep string "(string \<times> runes) option" | PostCancelDeal string "runes option"
  | PostDispute string "(runes \<times> string list) option" | GetDispute string
  | GetReviewForm string | PostReview string "(int \<times> runes list \<times> runes \<times> runes) option"
  | PostComplaint "(runes \<times> runes \<times> runes) option"
  | GetReviews string string string | PostReply string "runes option"
  | GetChats string string | GetChatPage string | GetMessages string string string | PostMessage string "runes option"
  | GetTicket string
  | GetBusiness string | GetSpending string | GetCalendar string | PostBusy "(runes \<times> runes) option" | DeleteBusy string | GetExport string string
  | GetMyBids string string | PostWithdrawBid string | PostAcceptBid string
  | GetMyOffers string string | PostWithdrawOffer string | PostAcceptOffer string | PostDecline string "runes option option"
  | PostCounter string "int option"

datatype bidder_call = PostOffer string "offerBody option" | PostBid string "BidInput option"

datatype moderator_call =
    GetDisputes string | PostResolve string "(runes \<times> runes) option" | GetComplaints string
  | PostReviewed string "(runes \<times> runes) option" | GetDashboard string

text \<open>The status of an answer.\<close>

definition served :: "'a handler \<Rightarrow> world \<Rightarrow> int \<times> world" where
  "served h w = (case h w of (Inl p, w') \<Rightarrow> (problem_status p, w') | (Inr (code, _), w') \<Rightarrow> (code, w'))"

fun serve_guest :: "desk \<Rightarrow> env \<Rightarrow> string \<Rightarrow> guest_call \<Rightarrow> world \<Rightarrow> int \<times> world" where
  "serve_guest d e u (GetFeed q) = served (feed_page d e q)"
| "serve_guest d e u (GetBids i) = served (jobBids e u i)"
| "serve_guest d e u (GetJob i) = served (view_job e u i)"

fun serve_user :: "desk \<Rightarrow> env \<Rightarrow> string \<Rightarrow> user_call \<Rightarrow> world \<Rightarrow> int \<times> world" where
  "serve_user d e u (GetMyJobs limit offset) = served (myJobs e u limit offset)"
| "serve_user d e u (PostDraft key b) = served (create_draft d e u key b)"
| "serve_user d e u (PatchDraft i b) = served (update_draft d e u i b)"
| "serve_user d e u (PostPublish key i) = served (publish_job e u key i)"
| "serve_user d e u (PostCancel i) = served (cancel_job e u i)"
| "serve_user d e u (GetOffers i) = served (jobOffers d e u i)"
| "serve_user d e u (GetMyOffer i) = served (myOfferForJob e u i)"
| "serve_user d e u (PostDeal i) = served (confirmDeal e u i)"
| "serve_user d e u (GetJobDeal i) = served (dealByJob e u i)"
| "serve_user d e u (PostChat i b) = served (openChat e u i b)"
| "serve_user d e u (GetMyBid i) = served (myBidForJob e u i)"
| "serve_user d e u (PostDeclineAll i) = served (declineAllBids e u i)"
| "serve_user d e u (PostFinish i) = served (finishAuction e i)"
| "serve_user d e u (GetMyDeals limit offset) = served (myDeals e u limit offset)"
| "serve_user d e u (GetDealPage i) = served (deal_page d e u i)"
| "serve_user d e u (PostStep i b) = served (advanceDeal e u i b)"
| "serve_user d e u (PostCancelDeal i b) = served (cancelDeal e u i b)"
| "serve_user d e u (PostDispute i b) = served (openDispute e u i b)"
| "serve_user d e u (GetDispute i) = served (dispute_page e u i)"
| "serve_user d e u (GetReviewForm i) = served (myReviewForDeal d e u i)"
| "serve_user d e u (PostReview i b) = served (leave_review e u i b)"
| "serve_user d e u (PostComplaint b) = served (complain e u b)"
| "serve_user d e u (GetReviews i limit offset) = served (userReviews d e i limit offset)"
| "serve_user d e u (PostReply i b) = served (replyToReview e u i b)"
| "serve_user d e u (GetChats limit offset) = served (myChats d e u limit offset)"
| "serve_user d e u (GetChatPage i) = served (chat_page d u i)"
| "serve_user d e u (GetMessages i limit offset) = served (chat_messages e u i limit offset)"
| "serve_user d e u (PostMessage i b) = served (sendMessage e u i b)"
| "serve_user d e u (GetTicket i) = served (chatRealtimeToken d e u i)"
| "serve_user d e u (GetBusiness q) = served (business d e u q)"
| "serve_user d e u (GetSpending q) = served (spending d e u q)"
| "serve_user d e u (GetCalendar q) = served (calendar e u q)"
| "serve_user d e u (PostBusy b) = served (markBusy u b)"
| "serve_user d e u (DeleteBusy day) = served (unmarkBusy u day)"
| "serve_user d e u (GetExport period role) = served (exportDeals d e u period role)"
| "serve_user d e u (GetMyBids limit offset) = served (myBids e u limit offset)"
| "serve_user d e u (PostWithdrawBid i) = served (withdrawBid e u i)"
| "serve_user d e u (PostAcceptBid i) = served (acceptBid e u i)"
| "serve_user d e u (GetMyOffers limit offset) = served (myOffers e u limit offset)"
| "serve_user d e u (PostWithdrawOffer i) = served (withdrawOffer e u i)"
| "serve_user d e u (PostAcceptOffer i) = served (acceptOffer e u i)"
| "serve_user d e u (PostDecline i b) = served (declineOffer e u i b)"
| "serve_user d e u (PostCounter i b) = served (counterOffer e u i b)"

fun serve_bidder :: "env \<Rightarrow> string \<Rightarrow> bidder_call \<Rightarrow> world \<Rightarrow> int \<times> world" where
  "serve_bidder e u (PostOffer i b) = served (makeOffer e u i b)"
| "serve_bidder e u (PostBid i b) = served (placeBid e u i b)"

fun serve_moderator :: "desk \<Rightarrow> env \<Rightarrow> string \<Rightarrow> moderator_call \<Rightarrow> world \<Rightarrow> int \<times> world" where
  "serve_moderator d e u (GetDisputes limit) = served (disputeQueue d e limit)"
| "serve_moderator d e u (PostResolve i b) = served (resolveDispute e u i b)"
| "serve_moderator d e u (GetComplaints limit) = served (complaintQueue d e limit)"
| "serve_moderator d e u (PostReviewed i b) = served (reviewComplaint e u i b)"
| "serve_moderator d e u (GetDashboard q) = served (dashboard d e q)"

datatype orders_call =
  ForGuest guest_call | ForUser user_call | ForBidder bidder_call | ForModerator moderator_call

definition user_of :: "http_request \<Rightarrow> string" where
  "user_of r = Header_Get (rqHeader r) ''X-User-Id''"

definition orders_routes :: "desk \<Rightarrow> env \<Rightarrow> http_request \<Rightarrow> orders_call \<Rightarrow> world \<Rightarrow> int \<times> world" where
  "orders_routes d e r call w =
     (case call of
        ForGuest k \<Rightarrow> serve_guest d e (user_of r) k w
      | ForUser k \<Rightarrow> (case requireUser r of Inl code \<Rightarrow> (code, w) | Inr r \<Rightarrow> serve_user d e (user_of r) k w)
      | ForBidder k \<Rightarrow>
          (case requireUser r of Inl code \<Rightarrow> (code, w)
           | Inr r \<Rightarrow> (case denyFrozen r of Inl code \<Rightarrow> (code, w) | Inr r \<Rightarrow> serve_bidder e (user_of r) k w))
      | ForModerator k \<Rightarrow>
          (case requireUser r of Inl code \<Rightarrow> (code, w)
           | Inr r \<Rightarrow>
               if moderator_roles (runes_of (Header_Get (rqHeader r) ''X-User-Roles'')) then serve_moderator d e (user_of r) k w
               else (403, w)))"


section \<open>What an operation can refuse with\<close>

definition raises :: "(err \<Rightarrow> bool) \<Rightarrow> 'a op \<Rightarrow> bool" where
  "raises P m \<longleftrightarrow> (\<forall>w er w'. m w = (Inl er, w') \<longrightarrow> P er)"

named_theorems raises_intros \<open>how the refusals of an operation are collected\<close>

lemma raises_ret [raises_intros]: "raises P (ret x)"
  by (simp add: raises_def ret_def)

lemma raises_fail [raises_intros]: "P er \<Longrightarrow> raises P (fail er)"
  by (simp add: raises_def fail_def)

lemma raises_bnd [raises_intros]: "raises P m \<Longrightarrow> (\<And>x. raises P (f x)) \<Longrightarrow> raises P (bnd m f)"
  by (fastforce simp: raises_def bnd_def split: prod.splits sum.splits)

lemma raises_get [raises_intros]: "(\<And>m er. q m = Inl er \<Longrightarrow> P er) \<Longrightarrow> raises P (get q)"
  by (auto simp: raises_def get_def)

lemma raises_put [raises_intros]: "(\<And>m er. u m = Inl er \<Longrightarrow> P er) \<Longrightarrow> raises P (put u)"
  by (auto simp: raises_def put_def split: sum.splits)

lemma raises_refuse [raises_intros]: "P er \<Longrightarrow> raises P (refuse c er)"
  by (simp add: refuse_def raises_ret raises_fail)

lemma raises_check [raises_intros]: "(\<And>er. r = Some er \<Longrightarrow> P er) \<Longrightarrow> raises P (check r)"
  by (auto simp: check_def raises_ret raises_fail split: option.split)

lemma raises_need [raises_intros]: "(\<And>er. r = Inl er \<Longrightarrow> P er) \<Longrightarrow> raises P (need r)"
  by (auto simp: need_def raises_ret raises_fail split: sum.split)

lemma raises_attempt [raises_intros]:
  assumes "\<And>x. raises P (f (Inr x))" "\<And>er w w'. m w = (Inl er, w') \<Longrightarrow> raises P (f (Inl er))"
  shows "raises P (attempt m f)"
  unfolding raises_def
proof (intro allI impI)
  fix w er w' assume run: "attempt m f w = (Inl er, w')"
  obtain r w1 where r: "m w = (r, w1)" by fastforce
  then have "raises P (f r)" using assms by (cases r) auto
  then show "P er" using run r by (auto simp: attempt_def raises_def)
qed

lemma raises_ignore [raises_intros]: "raises P (ignore m)"
  by (auto simp: raises_def ignore_def attempt_def ret_def split: prod.splits)

lemma raises_each [raises_intros]: "(\<And>x. raises P (f x)) \<Longrightarrow> raises P (each f xs)"
  by (induction xs) (auto intro: raises_intros)

lemma raises_Send [raises_intros]: "raises P (Send u t b x)"
  by (simp add: raises_def Send_def)

lemma raises_PublishLive [raises_intros]: "raises P (PublishLive c x)"
  by (simp add: raises_def PublishLive_def)

lemma raises_if [raises_intros]: "(c \<Longrightarrow> raises P a) \<Longrightarrow> (\<not> c \<Longrightarrow> raises P b) \<Longrightarrow> raises P (if c then a else b)"
  by simp

lemma raises_Let [raises_intros]: "(\<And>x. raises P (f x)) \<Longrightarrow> raises P (Let v f)"
  by (simp add: Let_def)

lemma raises_prod [raises_intros]: "(\<And>a b. raises P (f a b)) \<Longrightarrow> raises P (case x of (a, b) \<Rightarrow> f a b)"
  by (cases x) simp

lemma raises_option [raises_intros]:
  "raises P a \<Longrightarrow> (\<And>x. raises P (f x)) \<Longrightarrow> raises P (case v of None \<Rightarrow> a | Some x \<Rightarrow> f x)"
  by (cases v) auto

lemma raises_sum [raises_intros]:
  "(\<And>x. raises P (f x)) \<Longrightarrow> (\<And>x. raises P (g x)) \<Longrightarrow> raises P (case v of Inl x \<Rightarrow> f x | Inr x \<Rightarrow> g x)"
  by (cases v) auto

lemma raises_list [raises_intros]:
  "raises P a \<Longrightarrow> (\<And>x xs. raises P (f x xs)) \<Longrightarrow> raises P (case v of [] \<Rightarrow> a | x # xs \<Rightarrow> f x xs)"
  by (cases v) auto

text \<open>A refusal of the handlers named here is never the internal one.\<close>

abbreviation answered :: "(err \<Rightarrow> refusal_reply) \<Rightarrow> 'a op \<Rightarrow> bool" where
  "answered refusal \<equiv> raises (\<lambda>er. problem_status (refusal er) \<noteq> 500)"

named_theorems never_500 \<open>handlers whose refusals are known ones\<close>

lemma served_respond [never_500]:
  "answered refusal m \<Longrightarrow> code \<noteq> 500 \<Longrightarrow> fst (served (respond refusal code m) w) \<noteq> 500"
  by (auto simp: served_def respond_def raises_def split: prod.split sum.split)

lemma served_decoded [never_500]:
  "(\<And>b. fst (served (h b) w) \<noteq> 500) \<Longrightarrow> fst (served (decoded body h) w) \<noteq> 500"
  by (auto simp: decoded_def served_def turned_away_def split: option.split)

lemma served_turned [never_500]: "status \<noteq> 500 \<Longrightarrow> fst (served (turned_away status code) w) \<noteq> 500"
  by (simp add: served_def turned_away_def)

lemmas refusal_defs = fail_job_def failBid_def failOffer_def failDeal_def failChat_def failDispute_def failComplaint_def failReview_def

lemmas store_reads = ByID_def BidByID_def OfferByID_def DealByID_def DealByJob_def ReviewByID_def DisputeByID_def DisputeByDeal_def
  ComplaintByID_def ChatByID_def ChatByJobOwner_def MyBidForJob_def MyOfferForJob_def

lemmas store_writes = Create_def Update_def CreateBid_def UpdateBid_def CreateOffer_def UpdateOffer_def CreateDeal_def UpdateDeal_def
  CreateReview_def UpdateReview_def CreateDispute_def UpdateDispute_def CreateComplaint_def UpdateComplaint_def
  CreateChat_def UpdateChat_def CreateMessage_def

lemmas guards = checkUnit_def CanBid_def ValidateBid_def CanWithdrawBid_def CanAcceptOffers_def ValidateOffer_def CanAdvance_def
  CanChat_def ValidateMessage_def CanOpenDispute_def ValidateReason_def ValidateResolution_def ValidateComplaint_def trim_between_def
  CanReview_def ValidateReview_def CanReply_def ValidateReply_def ValidateForPublish_def fields_err_def Let_def

lemma raises_own [raises_intros]: "P ErrNotFound \<Longrightarrow> P ErrForbidden \<Longrightarrow> raises P (own c i)"
  unfolding own_def by (intro raises_intros) (auto simp: ByID_def)

lemma raises_maybe [raises_intros]: "(\<And>m er. q m = Inl er \<Longrightarrow> er \<noteq> absent \<Longrightarrow> P er) \<Longrightarrow> raises P (maybe absent (get q))"
  unfolding maybe_def by (rule raises_attempt) (auto simp: get_def intro!: raises_ret raises_fail)

lemma find_step_raises: "find_step o1 c to steps = Some er \<Longrightarrow> er \<in> {ErrDealStep, ErrDealWrongPerson}"
  by (induction steps) (auto split: if_split_asm)

lemma bids_answered:
  "answered failBid (PlaceBid e u i b)" "answered failBid (WithdrawBid e u i)" "answered failBid (AcceptBid e u i)"
  "answered failBid (DeclineAllBids e u i)" "answered failBid (FinishAuction e i)" "answered failBid (JobBids e i)"
  "answered failBid (MyBids e u l k)"
  unfolding PlaceBid_def WithdrawBid_def AcceptBid_def DeclineAllBids_def FinishAuction_def JobBids_def MyBids_def retire_previous_def
    notifyOutbid_def extend_auction_def close_bids_def expire_without_bids_def declare_winner_def tell_bidders_def
  by (intro raises_intros; auto simp: store_reads store_writes guards refusal_defs BidsByJob_def BidsByOwner_def
        split: if_split_asm option.splits)+

lemma offers_answered:
  "answered failOffer (MakeOffer e u i x)" "answered failOffer (WithdrawOffer e u i)" "answered failOffer (DeclineOffer e u i reason)"
  "answered failOffer (CounterOffer e u i price)" "answered failOffer (AcceptOffer e u i)" "answered failOffer (JobOffers e u i)"
  "answered failOffer (MyOffers e u l k)"
  unfolding MakeOffer_def WithdrawOffer_def DeclineOffer_def CounterOffer_def AcceptOffer_def JobOffers_def MyOffers_def
    submit_offer_def offerOfMyJob_def decline_others_def tell_others_def
  by (intro raises_intros; auto simp: store_reads store_writes guards refusal_defs OffersByJob_def OffersByOwner_def
        split: if_split_asm option.splits)+

lemma deals_answered:
  "answered failDeal (ConfirmDeal e u i)" "answered failDeal (AdvanceDeal e u i to remark)" "answered failDeal (CancelDeal e u i reason)"
  "answered failDeal (GetDeal u i)" "answered failDeal (GetDealByJob e u i)" "answered failDeal (MyDeals e u l k)"
  unfolding ConfirmDeal_def AdvanceDeal_def CancelDeal_def GetDeal_def GetDealByJob_def MyDeals_def find_winner_def follow_job_def
    notifyDealStep_def
  by (intro raises_intros; auto simp: store_reads store_writes guards refusal_defs OffersByJob_def BidsByJob_def DealsByUser_def
        dest!: find_step_raises split: if_split_asm option.splits)+

lemma CreateChat_raises: "put (CreateChat c) w = (Inl er, w') \<Longrightarrow> er = ErrChatNotFound"
  by (auto simp: put_def CreateChat_def split: if_split_asm)

lemma raises_put_chat:
  assumes "\<And>x. raises P (f x)" "raises P (g ErrChatNotFound)"
  shows "raises P (attempt (put (CreateChat c)) (\<lambda>r. case r of Inl er \<Rightarrow> g er | Inr x \<Rightarrow> f x))"
  by (rule raises_attempt) (auto dest!: CreateChat_raises intro: assms)

lemma withKind_answered: "answered failChat (withKind rank now c j)"
  unfolding withKind_def by (intro raises_intros; auto simp: UpdateChat_def refusal_defs split: if_split_asm)

lemma chats_answered:
  "answered failChat (OpenChat e u i other)" "answered failChat (GetChat u i)" "answered failChat (SendMessage e u i text)"
  "answered failChat (ChatMessages e u i l k)" "answered failChat (MyChats e u l k)"
  unfolding OpenChat_def GetChat_def SendMessage_def ChatMessages_def MyChats_def chatOfMine_def
  by (intro raises_put_chat withKind_answered raises_intros;
      auto simp: store_reads store_writes guards refusal_defs Messages_def MarkRead_def ChatsByUser_def
        split: if_split_asm option.splits sum.splits Status.splits)+

lemma disputes_answered:
  "answered failDispute (DisputeOfDeal e u i)" "answered failDispute (DisputeQueue e l)"
  unfolding DisputeOfDeal_def DisputeQueue_def
  by (intro raises_intros; auto simp: store_reads store_writes guards refusal_defs OpenDisputes_def
        split: if_split_asm option.splits)+

text \<open>A decision closes the deal it found, which the store holds under its identifier.\<close>

lemma close_disputed_closes:
  assumes "keyed dID (deals (mem w))"
  shows "wp (close_disputed i outcome text u now) (\<lambda>r _. r = Inr ()) w"
  using assms
  by (auto simp: close_disputed_def wp_simps DealByID_def UpdateDeal_def follow_job_def decided_def keyed_def Let_def
      split: option.split sum.split)

lemma wp_close_disputed: "keyed dID (deals (mem w)) \<Longrightarrow> (\<And>w. Q (Inr ()) w) \<Longrightarrow> wp (close_disputed i outcome text u now) Q w"
  by (rule wp_mono [OF close_disputed_closes]) auto

lemma ResolveDispute_answered:
  assumes "keyed dID (deals (mem w))"
  shows "wp (ResolveDispute e u i outcome text) (\<lambda>r _. \<forall>er. r = Inl er \<longrightarrow> problem_status (failDispute er) \<noteq> 500) w"
  using assms
  by (auto simp: ResolveDispute_def wp_simps DisputeByID_def UpdateDispute_def ValidateResolution_def trim_between_def Let_def refusal_defs
      split: option.split sum.split intro!: wp_close_disputed)

lemma complaints_answered:
  "answered failComplaint (Complain e u kind target text)" "answered failComplaint (ComplaintQueue e l)"
  "answered failComplaint (ReviewComplaint e u i action text)"
  unfolding Complain_def ComplaintQueue_def ReviewComplaint_def complaint_target_def remove_job_def warn_user_def
  by (intro raises_intros; auto simp: store_reads store_writes guards refusal_defs OpenComplaints_def
        split: if_split_asm option.splits)+

lemma reviews_answered:
  "answered failReview (UserReviews e i l k)" "answered failReview (ReplyToReview e u i text)"
  unfolding UserReviews_def ReplyToReview_def
  by (intro raises_intros; auto simp: store_reads store_writes guards refusal_defs ReviewsAbout_def pickReviews_def RatingOf_def
        split: if_split_asm option.splits)+

lemma jobs_answered:
  "answered fail_job (CreateDraft e u inp)" "answered fail_job (UpdateDraft e u i inp)" "answered fail_job (Publish e u i)"
  "answered fail_job (Cancel e u i)" "answered fail_job (MyJobs e u l k)" "answered fail_job (JobFeed v e f)"
  "answered fail_job (View u i)"
  unfolding CreateDraft_def UpdateDraft_def Publish_def Cancel_def MyJobs_def JobFeed_def View_def
  by (intro raises_intros; auto simp: store_reads store_writes guards refusal_defs ListByClient_def FeedStore_def raises_def add_view_def
        AddView_def split: if_split_asm option.splits sum.splits prod.splits)+

lemma crm_answered:
  "answered fail_job (Business_of e u p)" "answered fail_job (Spending_of e u p)" "answered fail_job (Calendar e u t)"
  "answered fail_job (MarkBusy u t text)" "answered fail_job (UnmarkBusy u t)" "answered fail_job (ServiceStats us a b)"
  unfolding Business_of_def Spending_of_def Calendar_def MarkBusy_def UnmarkBusy_def ServiceStats_def
  by (intro raises_intros; auto simp: refusal_defs IncomeOf_def FunnelOf_def ClientsOf_def SpendingOf_def SpendingByCategory_def
        OwnersOf_def SavedOnAuctions_def BusyByDeals_def ManualBusy_def SetBusyDay_def ClearBusyDay_def PlatformStats_of_def Let_def
        split: if_split_asm option.splits)+

lemma export_batch_answered: "raises P (export_batch u o1 r out ds)"
  by (induction ds arbitrary: out) (auto simp: Let_def intro!: raises_intros)

lemma export_answered: "answered fail_job (DealsForExport e u p o1)"
proof -
  have "answered fail_job (export_pages e u o1 r out ks)" for r out ks
    by (induction ks arbitrary: out) (auto simp: DealsByUser_def intro!: raises_intros export_batch_answered)
  then show ?thesis unfolding DealsForExport_def by (intro raises_intros)
qed


section \<open>Internal errors\<close>

lemma served_repeated [never_500]:
  assumes "\<And>w. fst (served (h ()) w) \<noteq> 500"
  shows "fst (served (repeated key user endpoint h) w) \<noteq> 500"
proof -
  obtain r w1 where i: "Idempotent key user endpoint w = (r, w1)" by fastforce
  show ?thesis
  proof (cases "\<exists>x. r = Inr (x, True)")
    case True
    then show ?thesis by (auto simp: repeated_def served_def i)
  next
    case False
    then have "repeated key user endpoint h w = h () w1" by (auto simp: repeated_def i split: sum.split bool.split)
    then have "served (repeated key user endpoint h) w = served (h ()) w1" by (simp add: served_def)
    then show ?thesis using assms by simp
  qed
qed

lemma served_cases [never_500]:
  "(fst (served a w) \<noteq> 500) \<Longrightarrow> (\<And>x. fst (served (f x) w) \<noteq> 500) \<Longrightarrow>
    fst (served (case v of None \<Rightarrow> a | Some x \<Rightarrow> f x) w) \<noteq> 500"
  "(\<And>x y. fst (served (g x y) w) \<noteq> 500) \<Longrightarrow> fst (served (case p of (x, y) \<Rightarrow> g x y) w) \<noteq> 500"
  by (auto split: option.split prod.split)

lemmas all_answered = bids_answered offers_answered deals_answered chats_answered disputes_answered complaints_answered
  reviews_answered jobs_answered crm_answered export_answered

lemma Ratings_answered: "answered refusal (Ratings e ids)"
  by (simp add: raises_def Ratings_def)

lemma guests_answered: "fst (serve_guest d e u k w) \<noteq> 500"
  by (cases k; simp add: feed_page_def jobBids_def view_job_def; intro never_500 all_answered raises_intros; simp)

lemma bidders_answered: "fst (serve_bidder e u k w) \<noteq> 500"
  by (cases k; simp add: makeOffer_def placeBid_def; intro never_500 all_answered raises_intros; simp)

lemma resolve_answered:
  assumes "keyed dID (deals (mem w))"
  shows "fst (served (resolveDispute e u i b) w) \<noteq> 500"
proof (cases b)
  case None
  then show ?thesis by (simp add: resolveDispute_def decoded_def served_def turned_away_def)
next
  case (Some x)
  obtain outcome words where x: "x = (outcome, words)" by fastforce
  obtain r w' where run: "ResolveDispute e u i (outcome_of (word_of (TrimSpace outcome))) words w = (r, w')" by fastforce
  have "\<forall>er. r = Inl er \<longrightarrow> problem_status (failDispute er) \<noteq> 500"
    using wpD [OF ResolveDispute_answered [OF assms] run] .
  then show ?thesis by (cases r) (simp_all add: Some x resolveDispute_def decoded_def served_def respond_def run)
qed

lemma moderators_answered:
  assumes "keyed dID (deals (mem w))"
  shows "fst (serve_moderator d e u k w) \<noteq> 500"
  by (cases k; simp add: resolve_answered [OF assms] disputeQueue_def complaintQueue_def reviewComplaint_def dashboard_def Let_def;
      intro never_500 all_answered raises_intros; simp)

text \<open>The three requests about a deal whose handlers do not know that a deal may be missing.\<close>

fun about_deal :: "user_call \<Rightarrow> string option" where
  "about_deal (PostDispute i (Some _)) = Some i"
| "about_deal (GetReviewForm i) = Some i"
| "about_deal (PostReview i (Some _)) = Some i"
| "about_deal _ = None"

lemmas user_handlers = myJobs_def create_draft_def update_draft_def publish_job_def cancel_job_def jobOffers_def myOfferForJob_def
  confirmDeal_def dealByJob_def openChat_def myBidForJob_def declineAllBids_def finishAuction_def myDeals_def deal_page_def
  advanceDeal_def cancelDeal_def dispute_page_def complain_def userReviews_def replyToReview_def myChats_def chat_page_def
  chat_messages_def sendMessage_def business_def spending_def calendar_def markBusy_def unmarkBusy_def myBids_def withdrawBid_def
  acceptBid_def myOffers_def withdrawOffer_def acceptOffer_def declineOffer_def counterOffer_def

lemma ticket_answered: "fst (served (chatRealtimeToken d e u i) w) \<noteq> 500"
proof -
  have "answered failChat (GetChat u i)" by (rule chats_answered)
  then show ?thesis
    by (auto simp: chatRealtimeToken_def served_def turned_away_def raises_def Let_def split: prod.split sum.split)
qed

lemma file_answered: "fst (served (exportDeals d e u period role) w) \<noteq> 500"
  unfolding exportDeals_def Let_def by (intro never_500 export_answered raises_intros) simp

lemma undecoded_answered:
  "fst (served (openDispute e u i None) w) \<noteq> 500" "fst (served (leave_review e u i None) w) \<noteq> 500"
  by (simp_all add: openDispute_def leave_review_def decoded_def served_def turned_away_def)

lemma about_deal_body [simp]:
  "about_deal (PostDispute i b) = None \<longleftrightarrow> b = None" "about_deal (PostReview i c) = None \<longleftrightarrow> c = None"
  by (cases b; simp) (cases c; simp)

lemma dealWithNames_answered: "answered refusal (dealWithNames d e x)"
  unfolding dealWithNames_def by (intro raises_intros Ratings_answered)

lemma maybe_answered:
  "answered failOffer (maybe ErrOfferNotFound (get (MyOfferForJob r i u)))" "answered failDeal (maybe ErrDealNotFound (GetDealByJob e u i))"
  "answered failBid (maybe ErrBidNotFound (get (MyBidForJob r i u)))"
  using deals_answered(5) [of e u i]
  by (auto simp: raises_def maybe_def attempt_def get_def store_reads refusal_defs ret_def fail_def split: prod.splits sum.splits if_split_asm)

lemma users_answered: "about_deal k = None \<Longrightarrow> fst (serve_user d e u k w) \<noteq> 500"
  by (cases k; simp add: ticket_answered file_answered undecoded_answered user_handlers;
      (intro never_500 all_answered maybe_answered dealWithNames_answered Ratings_answered raises_intros; simp)?)

text \<open>C31: Every request is answered with a known refusal or a success, never with an internal error, but for three requests about a
  deal: a dispute opened over it, a review of it and the form for the review. Those three answer 500 whenever the
  deal does not exist, where the other requests answer 404.\<close>

theorem internal_errors:
  assumes "keyed dID (deals (mem w))"
  shows "(fst (orders_routes d e r call w) = 500 \<longrightarrow> (\<exists>k i. call = ForUser k \<and> about_deal k = Some i))
    \<and> (\<forall>k i q. requireUser r = Inr q \<longrightarrow> about_deal k = Some i \<longrightarrow> map_of (deals (mem w)) i = None
        \<longrightarrow> fst (orders_routes d e r (ForUser k) w) = 500)"
proof (intro conjI allI impI)
  assume "fst (orders_routes d e r call w) = 500"
  then show "\<exists>k i. call = ForUser k \<and> about_deal k = Some i"
    using users_answered [of _ d e] guests_answered bidders_answered moderators_answered [OF assms]
    by (fastforce simp: orders_routes_def requireUser_def denyFrozen_def split: orders_call.splits if_split_asm)
next
  fix k i q
  assume "requireUser r = Inr q" and k: "about_deal k = Some i" and "map_of (deals (mem w)) i = None"
  then have u: "fst (orders_routes d e r (ForUser k) w) = fst (serve_user d e (user_of q) k w)"
    and none: "DealByID i (mem w) = Inl ErrDealNotFound"
    by (auto simp: orders_routes_def DealByID_def)
  show "fst (orders_routes d e r (ForUser k) w) = 500"
    using k unfolding u
    by (cases k rule: about_deal.cases)
       (auto simp: openDispute_def leave_review_def myReviewForDeal_def decoded_def served_def respond_def OpenDispute_def
         leaveReview_def LeaveReview_def GetDeal_def bnd_def get_def none refusal_defs)
qed

text \<open>A stand: somebody opens a dispute over a deal that is not there.\<close>

definition empty_desk :: desk where
  "empty_desk = \<lparr>dePeople = (\<lambda>_. []), deUsers = None, deTime = (\<lambda>_. None), deSecret = '''', deSigned = (\<lambda>_ _ _ _. ''''),
     deLookout = stand_lookout\<rparr>"

definition request_of :: "string \<Rightarrow> http_request" where
  "request_of u = \<lparr>rqMethod = ''POST'', rqPath = '''', rqHeader = [(''X-User-Id'', [u])]\<rparr>"

theorem internal_errors_witness:
  "\<forall>e. fst (orders_routes empty_desk e (request_of ''a'') (ForUser (PostDispute ''no'' (Some ([], [])))) new_world) = 500"
proof
  fix e
  have "keyed dID (deals (mem new_world))" by (simp add: new_world_def NewMemory_def)
  moreover have "requireUser (request_of ''a'') = Inr (request_of ''a'')" by code_simp
  moreover have "map_of (deals (mem new_world)) ''no'' = None" by (simp add: new_world_def NewMemory_def)
  ultimately show "fst (orders_routes empty_desk e (request_of ''a'') (ForUser (PostDispute ''no'' (Some ([], [])))) new_world) = 500"
    using internal_errors [of new_world] by (metis about_deal.simps(1))
qed


section \<open>The feed of bids\<close>

text \<open>The store with the authors of the bids renamed.\<close>

definition under :: "(string \<Rightarrow> string) \<Rightarrow> Bid \<Rightarrow> Bid" where
  "under f b = b\<lparr>bOwnerID := f (bOwnerID b)\<rparr>"

definition rename_bidders :: "(string \<Rightarrow> string) \<Rightarrow> world \<Rightarrow> world" where
  "rename_bidders f w = w\<lparr>mem := (mem w)\<lparr>bids := map (apsnd (under f)) (bids (mem w))\<rparr>\<rparr>"

lemma insort_key_map: "(\<And>y. k (h y) = k' y) \<Longrightarrow> insort_key k (h x) (map h xs) = map h (insort_key k' x xs)"
  by (induction xs) auto

lemma sort_key_map: "(\<And>y. k (h y) = k' y) \<Longrightarrow> sort_key k (map h xs) = map h (sort_key k' xs)"
  by (induction xs) (auto simp: insort_key_map)

lemma grange_map: "grange rank (map (apsnd g) m) = map g (grange rank m)"
  using sort_key_map [of "\<lambda>p. rank (fst p)" "apsnd g" "\<lambda>p. rank (fst p)" m] by (simp add: grange_def comp_def)

lemma insert_by_map: "(\<And>x y. lt (g x) (g y) = lt x y) \<Longrightarrow> insert_by lt (g x) (map g xs) = map g (insert_by lt x xs)"
  by (induction xs) auto

lemma sort_by_map: "(\<And>x y. lt (g x) (g y) = lt x y) \<Longrightarrow> sort_by lt (map g xs) = map g (sort_by lt xs)"
  by (induction xs) (auto simp: insert_by_map)

lemma rank_bids_under: "rank_bids n (map (under f) bs) = map (under f) (rank_bids n bs)"
  by (induction n bs rule: rank_bids.induct) (auto simp: under_def)

text \<open>C32: The feed of bids tells nothing about who bids: change the authors of all bids in any way that keeps the reader's own
  bids the reader's, and the answer is the same.\<close>

theorem bids_anonymous:
  assumes "\<And>x. f x = viewer \<longleftrightarrow> x = viewer"
  shows "fst (jobBids e viewer i (rename_bidders f w)) = fst (jobBids e viewer i w)"
proof -
  have "bid_before (under f x) (under f y) = bid_before x y" for x y by (simp add: bid_before_def under_def)
  note sorted = sort_by_map [of bid_before "under f", OF this]
  have job: "filter (\<lambda>b. bJobID b = i) (map (under f) bs) = map (under f) (filter (\<lambda>b. bJobID b = i) bs)" for bs
    by (simp add: filter_map comp_def under_def)
  have row: "bid_row_of viewer (under f b) = bid_row_of viewer b" for b
    using assms by (simp add: bid_row_of_def under_def)
  show ?thesis
    by (simp add: jobBids_def respond_def JobBids_def bnd_def get_def ret_def BidsByJob_def rename_bidders_def grange_map job sorted
        rank_bids_under row comp_def)
qed

text \<open>Two bids, one of the reader, under a name for the other.\<close>

definition two_bids :: world where
  "two_bids = new_world\<lparr>mem := NewMemory\<lparr>bids := map (\<lambda>(i, o1, p). (i, \<lparr>bID = i, bJobID = ''j'', bOwnerID = o1, bUnitID = None,
     bPrice = p, bCurrency = ''AMD'', bComment = [], bStatus = BidActive, bScore = None, bCreatedAt = 0, bUpdatedAt = 0, bRank = 0\<rparr>))
     [(''1'', ''me'', 90), (''2'', ''karen'', 80)]\<rparr>\<rparr>"

theorem bids_anonymous_witness:
  "\<forall>e. fst (jobBids e ''me'' ''j'' (rename_bidders (\<lambda>x. if x = ''me'' then x else ''x'') two_bids)) = fst (jobBids e ''me'' ''j'' two_bids)"
  by (intro allI bids_anonymous) auto


section \<open>Who is let in\<close>

text \<open>Without a user only the feed, the bids of a job and a card are shown; a frozen account is kept from offers and bids and from nothing
  else; the section of the moderators asks for the role. A request turned away changes nothing.\<close>

lemma orders_zones:
  shows "requireUser r = Inl code \<Longrightarrow> orders_routes d e r (ForUser k) w = (401, w)"
    and "requireUser r = Inl code \<Longrightarrow> orders_routes d e r (ForBidder k') w = (401, w)"
    and "requireUser r = Inl code \<Longrightarrow> orders_routes d e r (ForModerator k'') w = (401, w)"
    and "requireUser r = Inr r \<Longrightarrow> denyFrozen r = Inl code \<Longrightarrow> orders_routes d e r (ForBidder k') w = (403, w)"
    and "requireUser r = Inr r \<Longrightarrow> \<not> moderator_roles (runes_of (Header_Get (rqHeader r) ''X-User-Roles'')) \<Longrightarrow>
      orders_routes d e r (ForModerator k'') w = (403, w)"
  by (auto simp: orders_routes_def requireUser_def denyFrozen_def split: if_split_asm)

end
