(* ===== verification/Share_Pages.thy ===== *)
theory Share_Pages
  imports Texts Orders_Service
begin

text \<open>
  The pages messengers show for a shared link (\<^verbatim>\<open>services/gateway/internal/share/share.go\<close>). The cards come from
  the other services over the network and are parameters, absent when the call or the decoding failed; a page is a
  text of markup around escaped fields.
\<close>


section \<open>Escaping\<close>

text \<open>\<^verbatim>\<open>html.EscapeString\<close>.\<close>

definition escape_rune :: "rune \<Rightarrow> runes" where
  "escape_rune r =
     (if r = 38 then runes_of ''&amp;'' else if r = 39 then runes_of ''&#39;'' else if r = 60 then runes_of ''&lt;''
      else if r = 62 then runes_of ''&gt;'' else if r = 34 then runes_of ''&#34;'' else [r])"

definition EscapeString :: "runes \<Rightarrow> runes" where
  "EscapeString s = concat (map escape_rune s)"


section \<open>The page\<close>

record page =
  pgTitle :: runes
  pgDescription :: runes
  pgImage :: runes
  pgURL :: runes

definition property_tag :: "string \<Rightarrow> string \<Rightarrow> runes \<Rightarrow> runes" where
  "property_tag kind name v =
     runes_of (''<meta '' @ kind @ ''=\"'' @ name @ ''\" content=\"'') @ EscapeString v @ runes_of ''\">''"

text \<open>The words of the link to the application, \<^verbatim>\<open>Open in\<close> in Russian, by code points.\<close>

definition open_in :: runes where
  "open_in = [1054, 1090, 1082, 1088, 1099, 1090, 1100, 32, 1074, 32] @ runes_of ''Traktor''"

definition writePage :: "page \<Rightarrow> runes" where
  "writePage p =
     runes_of ''<!doctype html><html lang=\"ru\"><head><meta charset=\"utf-8\">''
     @ runes_of ''<meta name=\"viewport\" content=\"width=device-width,initial-scale=1\">''
     @ runes_of ''<title>'' @ EscapeString (pgTitle p) @ runes_of ''</title>''
     @ property_tag ''name'' ''description'' (pgDescription p)
     @ runes_of ''<meta property=\"og:type\" content=\"website\">''
     @ runes_of ''<meta property=\"og:site_name\" content=\"Traktor\">''
     @ property_tag ''property'' ''og:title'' (pgTitle p)
     @ property_tag ''property'' ''og:description'' (pgDescription p)
     @ property_tag ''property'' ''og:url'' (pgURL p)
     @ property_tag ''property'' ''og:image'' (pgImage p)
     @ runes_of ''<meta name=\"twitter:card\" content=\"summary_large_image\">''
     @ property_tag ''name'' ''twitter:title'' (pgTitle p)
     @ property_tag ''name'' ''twitter:description'' (pgDescription p)
     @ property_tag ''name'' ''twitter:image'' (pgImage p)
     @ runes_of ''<link rel=\"canonical\" href=\"'' @ EscapeString (pgURL p) @ runes_of ''\">''
     @ runes_of ''<meta http-equiv=\"refresh\" content=\"0; url='' @ EscapeString (pgURL p) @ runes_of ''\">''
     @ runes_of ''</head><body>''
     @ runes_of ''<h1>'' @ EscapeString (pgTitle p) @ runes_of ''</h1><p>'' @ EscapeString (pgDescription p)
     @ runes_of ''</p><p><a href=\"'' @ EscapeString (pgURL p) @ runes_of ''\">'' @ open_in @ runes_of ''</a></p>''
     @ runes_of ''</body></html>''"


section \<open>Texts of the cards\<close>

text \<open>\<^verbatim>\<open>strings.Fields\<close>, the words between runs of white space, and \<^verbatim>\<open>strings.Join\<close>.\<close>

fun fields_from :: "runes \<Rightarrow> runes \<Rightarrow> runes list" where
  "fields_from cur [] = (if cur = [] then [] else [cur])"
| "fields_from cur (c # cs) =
     (if is_space c then (if cur = [] then fields_from [] cs else cur # fields_from [] cs)
      else fields_from (cur @ [c]) cs)"

definition Fields :: "runes \<Rightarrow> runes list" where
  "Fields = fields_from []"

fun Join_texts :: "runes \<Rightarrow> runes list \<Rightarrow> runes" where
  "Join_texts sep [] = []"
| "Join_texts sep [w] = w"
| "Join_texts sep (w # ws) = w @ sep @ Join_texts sep ws"

text \<open>\<^verbatim>\<open>strings.LastIndex\<close> counts bytes of UTF-8: the place of the last space and what stands before it.\<close>

fun utf8_len :: "rune \<Rightarrow> nat" where
  "utf8_len r = (if r < 128 then 1 else if r < 2048 then 2 else if r < 65536 then 3 else 4)"

definition byte_len :: "runes \<Rightarrow> nat" where
  "byte_len s = sum_list (map utf8_len s)"

fun before_last_space :: "runes \<Rightarrow> runes option" where
  "before_last_space [] = None"
| "before_last_space (c # cs) =
     (case before_last_space cs of
        Some s \<Rightarrow> Some (c # s)
      | None \<Rightarrow> if c = 32 then Some [] else None)"

definition cut :: "runes \<Rightarrow> nat \<Rightarrow> runes" where
  "cut s limit =
     (let s = Join_texts [32] (Fields s)
      in if length s \<le> limit then s
         else let trimmed = take limit s;
                  trimmed = (case before_last_space trimmed of
                               None \<Rightarrow> trimmed
                             | Some t \<Rightarrow> if byte_len t > limit div 2 then t else trimmed)
              in trimmed @ [8230])"

definition money :: "int \<Rightarrow> runes" where
  "money v = runes_of (group_digits 0 (dec v)) @ [32, 1423]"

text \<open>\<^verbatim>\<open>%.1f\<close>: the exact value rounded to tenths, halves to even.\<close>

definition tenths :: "float64 \<Rightarrow> string" where
  "tenths x = (let n = rnd_even (\<bar>x\<bar> * 10) in (if x < 0 then ''-'' else '''') @ dec (n div 10) @ ''.'' @ dec (n mod 10))"


section \<open>The handlers\<close>

record share =
  shAppURL :: runes
  shDefaultImage :: runes

text \<open>\<^verbatim>\<open>strings.TrimRight(s, "/")\<close>\<close>

definition trim_slashes :: "runes \<Rightarrow> runes" where
  "trim_slashes s = rev (dropWhile (\<lambda>r. r = 47) (rev s))"

definition New_share :: "runes \<Rightarrow> share" where
  "New_share appURL =
     \<lparr>shAppURL = trim_slashes appURL, shDefaultImage = trim_slashes appURL @ runes_of ''/icons/og-default.png''\<rparr>"

record job_card =
  jcTitle :: runes
  jcDescription :: runes
  jcAddress :: runes
  jcBudget :: "int option"
  jcPhotos :: "runes list"

definition dot :: runes where "dot = [32, 183, 32]"

text \<open>Russian words of the cards by code points: the budget, the neutral titles, the rating, the works, a checked
  profile and a contractor.\<close>

definition w_budget :: runes where "w_budget = [1073, 1102, 1076, 1078, 1077, 1090, 32]"

definition w_neutral :: runes where
  "w_neutral = runes_of ''Traktor '' @ [8212, 32, 1090, 1077, 1093, 1085, 1080, 1082, 1072, 32, 1080, 32, 1088, 1072, 1073, 1086, 1090, 1099, 32, 1074, 32,
     1040, 1088, 1084, 1077, 1085, 1080, 1080]"

definition w_no_job :: runes where
  "w_no_job = [1047, 1072, 1076, 1072, 1085, 1080, 1077, 32, 1085, 1077, 32, 1085, 1072, 1081, 1076, 1077, 1085, 1086, 46, 32,
     1042, 1086, 1079, 1084, 1086, 1078, 1085, 1086, 44, 32, 1077, 1075, 1086, 32, 1091, 1078, 1077, 32, 1089, 1085, 1103, 1083, 1080, 46]"

definition w_no_user :: runes where
  "w_no_user = [1055, 1088, 1086, 1092, 1080, 1083, 1100, 32, 1085, 1077, 32, 1085, 1072, 1081, 1076, 1077, 1085, 46]"

definition w_rating :: runes where "w_rating = [1088, 1077, 1081, 1090, 1080, 1085, 1075, 32]"
definition w_works :: runes where "w_works = [1088, 1072, 1073, 1086, 1090, 58, 32]"

definition w_checked :: runes where
  "w_checked = [1087, 1088, 1086, 1092, 1080, 1083, 1100, 32, 1087, 1088, 1086, 1074, 1077, 1088, 1077, 1085]"

definition w_contractor :: runes where
  "w_contractor = [1080, 1089, 1087, 1086, 1083, 1085, 1080, 1090, 1077, 1083, 1100, 32, 1085, 1072, 32] @ runes_of ''Traktor''"

definition job_text :: "job_card \<Rightarrow> runes" where
  "job_text j =
     (let desc = TrimSpace (jcDescription j);
          desc = (if jcAddress j \<noteq> [] then jcAddress j @ dot @ desc else desc)
      in case jcBudget j of None \<Rightarrow> desc | Some b \<Rightarrow> if b > 0 then desc @ dot @ w_budget @ money b else desc)"

definition share_job :: "share \<Rightarrow> runes \<Rightarrow> job_card option \<Rightarrow> page" where
  "share_job h i got =
     (let target = shAppURL h @ runes_of ''/jobs/'' @ i;
          none = \<lparr>pgTitle = w_neutral, pgDescription = w_no_job, pgImage = shDefaultImage h, pgURL = target\<rparr>
      in case got of
           None \<Rightarrow> none
         | Some j \<Rightarrow>
             if jcTitle j = [] then none
             else \<lparr>pgTitle = jcTitle j, pgDescription = cut (job_text j) 200,
                   pgImage = (case jcPhotos j of [] \<Rightarrow> shDefaultImage h | photo # _ \<Rightarrow> photo), pgURL = target\<rparr>)"

record user_card =
  ucName :: runes
  ucCity :: runes
  ucVerified :: bool
  ucRating :: float64
  ucRatingCount :: int

definition user_parts :: "user_card \<Rightarrow> runes list" where
  "user_parts u =
     (let parts = (if ucCity u \<noteq> [] then [ucCity u] else [])
        @ (if ucRatingCount u > 0 then [w_rating @ runes_of (tenths (ucRating u)) @ dot @ w_works @ runes_of (dec (ucRatingCount u))] else [])
        @ (if ucVerified u then [w_checked] else [])
      in if parts = [] then [w_contractor] else parts)"

definition share_user :: "share \<Rightarrow> runes \<Rightarrow> user_card option \<Rightarrow> page" where
  "share_user h i got =
     (let target = shAppURL h @ runes_of ''/users/'' @ i;
          none = \<lparr>pgTitle = w_neutral, pgDescription = w_no_user, pgImage = shDefaultImage h, pgURL = target\<rparr>
      in case got of
           None \<Rightarrow> none
         | Some u \<Rightarrow>
             if ucName u = [] then none
             else \<lparr>pgTitle = ucName u, pgDescription = Join_texts dot (user_parts u), pgImage = shDefaultImage h, pgURL = target\<rparr>)"


section \<open>No text reaches the markup\<close>

text \<open>The characters that open or close a tag or an attribute.\<close>

definition markup :: "rune \<Rightarrow> bool" where
  "markup r \<longleftrightarrow> r = 60 \<or> r = 62 \<or> r = 34 \<or> r = 39"

lemma escape_rune_plain: "filter markup (escape_rune r) = []"
proof -
  have "filter markup (runes_of ''&amp;'') = []" "filter markup (runes_of ''&#39;'') = []" "filter markup (runes_of ''&lt;'') = []"
    "filter markup (runes_of ''&gt;'') = []" "filter markup (runes_of ''&#34;'') = []" by code_simp+
  then show ?thesis by (simp add: escape_rune_def markup_def)
qed

lemma escaped_plain [simp]: "filter markup (EscapeString s) = []"
  by (induction s) (simp_all add: EscapeString_def escape_rune_plain)

text \<open>C36: Nobody can write markup into a page: the signs that open and close tags and attributes stand in every page
  in the same number and order, whatever the title, the description, the picture and the address.\<close>

theorem writePage_markup_fixed: "filter markup (writePage p) = filter markup (writePage q)"
  by (simp add: writePage_def property_tag_def)

text \<open>What a browser reads back from an escaped field is the field.\<close>

function unescape :: "runes \<Rightarrow> runes" where
  "unescape [] = []"
| "unescape (r # s) =
     (if has_prefix (r # s) (runes_of ''&amp;'') then 38 # unescape (drop 4 s)
      else if has_prefix (r # s) (runes_of ''&#39;'') then 39 # unescape (drop 4 s)
      else if has_prefix (r # s) (runes_of ''&lt;'') then 60 # unescape (drop 3 s)
      else if has_prefix (r # s) (runes_of ''&gt;'') then 62 # unescape (drop 3 s)
      else if has_prefix (r # s) (runes_of ''&#34;'') then 34 # unescape (drop 4 s)
      else r # unescape s)"
  by pat_completeness auto
termination
  by (relation "measure length") auto

lemma unescape_escape: "unescape (EscapeString s) = s"
proof (induction s)
  case (Cons r s)
  have "EscapeString (r # s) = escape_rune r @ EscapeString s" by (simp add: EscapeString_def)
  then show ?case using Cons by (simp add: escape_rune_def runes_of_def)
qed (simp add: EscapeString_def)


section \<open>The cut\<close>

lemma before_last_space_split: "before_last_space s = Some t \<Longrightarrow> \<exists>u. s = t @ 32 # u"
  by (induction s arbitrary: t) (auto split: option.splits if_split_asm)

text \<open>A cut text has at most one character more than the limit; a short text is kept with its white space
  narrowed, a longer one becomes a beginning of it with an ellipsis, which ends with a whole word unless the
  last space lies in the first half.\<close>

theorem cut_bounds:
  "length (cut s n) \<le> Suc n
   \<and> (let t = Join_texts [32] (Fields s)
      in if length t \<le> n then cut s n = t
         else \<exists>u rest. cut s n = u @ [8230] \<and> t = u @ rest \<and> rest \<noteq> []
                \<and> (hd rest = 32 \<or> (case before_last_space (take n t) of None \<Rightarrow> True | Some v \<Rightarrow> byte_len v \<le> n div 2)))"
proof -
  define t where "t = Join_texts [32] (Fields s)"
  define b where "b = before_last_space (take n t)"
  show ?thesis
  proof (cases "length t \<le> n")
    case True
    then show ?thesis by (simp add: cut_def t_def)
  next
    case False
    then have c: "cut s n = (case b of None \<Rightarrow> take n t | Some v \<Rightarrow> if byte_len v > n div 2 then v else take n t) @ [8230]"
      by (simp add: cut_def b_def Let_def flip: t_def)
    have whole: ?thesis if "cut s n = take n t @ [8230]" "case b of None \<Rightarrow> True | Some v \<Rightarrow> byte_len v \<le> n div 2"
      using that False unfolding t_def [symmetric] Let_def b_def
      by (auto intro!: exI [of _ "take n t"] exI [of _ "drop n t"])
    show ?thesis
    proof (cases b)
      case None
      then show ?thesis using whole c by simp
    next
      case (Some v)
      then obtain u where u: "take n t = v @ 32 # u" unfolding b_def using before_last_space_split by blast
      then have l: "length v \<le> n" by (metis length_append le_add1 length_take min.cobounded2 order_trans)
      have "t = v @ 32 # (u @ drop n t)" using u append_take_drop_id [of n t] by simp
      then show ?thesis
        using whole c Some False l unfolding t_def [symmetric] Let_def b_def [symmetric]
        by (cases "byte_len v > n div 2") (auto intro!: exI [of _ v] exI [of _ "32 # (u @ drop n t)"])
    qed
  qed
qed

lemma fields_space: "is_space x \<Longrightarrow> fields_from cur (a @ x # b) = fields_from cur a @ fields_from [] b"
  by (induction cur a rule: fields_from.induct) auto

lemma Join_texts_append:
  "xs \<noteq> [] \<Longrightarrow> ys \<noteq> [] \<Longrightarrow> Join_texts sep (xs @ ys) = Join_texts sep xs @ sep @ Join_texts sep ys"
  by (induction sep xs rule: Join_texts.induct) (auto simp: neq_Nil_conv)

lemma cut_same:
  assumes "length (Join_texts [32] (Fields s)) > n" "Join_texts [32] (Fields s') = Join_texts [32] (Fields s) @ u"
  shows "cut s' n = cut s n"
  using assms by (simp add: cut_def)

text \<open>The price is the first thing a long description loses: when the address and the description fill the card,
  the page of a job with a budget is the page of the same job without one.\<close>

theorem long_description_hides_price:
  assumes "length (Join_texts [32] (Fields (job_text (j\<lparr>jcBudget := None\<rparr>)))) > 200"
  shows "share_job h i (Some (j\<lparr>jcBudget := Some b\<rparr>)) = share_job h i (Some (j\<lparr>jcBudget := None\<rparr>))"
proof (cases "b > 0")
  case True
  let ?s = "job_text (j\<lparr>jcBudget := None\<rparr>)" and ?r = "[183, 32] @ w_budget @ money b"
  have "job_text (j\<lparr>jcBudget := Some b\<rparr>) = ?s @ 32 # ?r" using True by (simp add: job_text_def dot_def Let_def)
  moreover have "is_space 32" by (simp add: is_space_def)
  ultimately have f: "Fields (job_text (j\<lparr>jcBudget := Some b\<rparr>)) = Fields ?s @ Fields ?r"
    by (simp add: Fields_def fields_space)
  have "Fields ?s \<noteq> []" using assms by auto
  moreover have "Fields ?r \<noteq> []" by (simp add: Fields_def is_space_def)
  ultimately have "cut (job_text (j\<lparr>jcBudget := Some b\<rparr>)) 200 = cut ?s 200"
    using assms Join_texts_append [of "Fields ?s" "Fields ?r" "[32]"] by (intro cut_same) (auto simp: f)
  then show ?thesis by (simp add: share_job_def Let_def)
next
  case False
  then have "job_text (j\<lparr>jcBudget := Some b\<rparr>) = job_text (j\<lparr>jcBudget := None\<rparr>)" by (simp add: job_text_def Let_def)
  then show ?thesis by (simp add: share_job_def Let_def)
qed

definition wordy_job :: job_card where
  "wordy_job = \<lparr>jcTitle = runes_of ''Trench'', jcDescription = concat (replicate 60 (runes_of ''clay '')), jcAddress = [],
     jcBudget = None, jcPhotos = []\<rparr>"

theorem long_description_hides_price_witness:
  "share_job (New_share (runes_of ''app'')) (runes_of ''7'') (Some (wordy_job\<lparr>jcBudget := Some 42000\<rparr>))
     = share_job (New_share (runes_of ''app'')) (runes_of ''7'') (Some wordy_job)"
proof -
  have "length (Join_texts [32] (Fields (job_text (wordy_job\<lparr>jcBudget := None\<rparr>)))) > 200" by code_simp
  from long_description_hides_price [OF this, where b = 42000] show ?thesis by (simp add: wordy_job_def)
qed

end
