(* ===== verification/Identity_Http.thy ===== *)
theory Identity_Http
  imports Gateway Params Identity_Properties
begin

text \<open>
  The requests of the accounts service (\<^verbatim>\<open>identity/internal/httpapi/*.go\<close>, \<^verbatim>\<open>internal/token/jwt.go\<close>): the zones of
  its routes, the handlers, and what each answer shows of whom. A handler receives the decoded body, absent when
  decoding failed; instants in answers and queries are the instants their texts stand for.
\<close>


section \<open>Access tokens\<close>

datatype token_err = TokMalformed | TokSignature | TokExpired

record id_wire = wire +
  iwTyp :: string
  iwIssuedAt :: "int option"

record id_server =
  isAuth :: Auth
  isLibrary :: "string \<Rightarrow> time \<Rightarrow> jwt_failure + id_wire"
  isLower :: "rune \<Rightarrow> rune"

definition Parse :: "id_server \<Rightarrow> string \<Rightarrow> time \<Rightarrow> token_err + Claims" where
  "Parse v tok now =
     (case isLibrary v tok now of
        Inl f \<Rightarrow> Inl (if jfExpired f \<or> jfNotYet f then TokExpired else if jfSignature f then TokSignature else TokMalformed)
      | Inr w \<Rightarrow> Inr \<lparr>clSub = wiSubject w, clRoles = wiRoles w, clActiveRole = wiActiveRole w, clStatus = wiStatus w,
                     clTyp = iwTyp w, clIat = (case iwIssuedAt w of None \<Rightarrow> 0 | Some t \<Rightarrow> t),
                     clExp = (case wiExpiresAt w of None \<Rightarrow> 0 | Some t \<Rightarrow> t)\<rparr>)"

definition requireAuth :: "id_server \<Rightarrow> time \<Rightarrow> http_request \<Rightarrow> int + Claims" where
  "requireAuth v now r =
     (let h = Header_Get (rqHeader r) ''Authorization''
      in if \<not> prefix ''Bearer '' h then Inl 401
         else case Parse v (TrimPrefix ''Bearer '' h) now of Inl _ \<Rightarrow> Inl 401 | Inr c \<Rightarrow> Inr c)"

definition staff_claims :: "Claims \<Rightarrow> bool" where
  "staff_claims c \<longleftrightarrow> (\<exists>role \<in> set (clRoles c). role = ''moderator'' \<or> role = ''admin'')"


section \<open>Answers\<close>

text \<open>The profile of oneself, of another, and of a person in the eyes of the moderators.\<close>

record own_profile =
  opID :: string
  opPhone :: runes
  opName :: runes
  opCity :: runes
  opRoles :: "string list"
  opActiveRole :: string
  opVerified :: bool
  opDeleteAfter :: "time option"

definition userJSON :: "User \<Rightarrow> own_profile" where
  "userJSON u = \<lparr>opID = usID u, opPhone = usPhone u, opName = usName u, opCity = usCity u, opRoles = usRoles u,
     opActiveRole = usActiveRole u, opVerified = usVerified u, opDeleteAfter = usDeleteAfter u\<rparr>"

record session_view =
  svAccessToken :: string
  svRefreshToken :: string
  svExpiresInSec :: int
  svUser :: own_profile

definition sessionJSON :: "Session \<Rightarrow> session_view" where
  "sessionJSON se = \<lparr>svAccessToken = seAccessToken se, svRefreshToken = seRefreshToken se,
     svExpiresInSec = seExpiresInSec se, svUser = userJSON (seUser se)\<rparr>"

record public_profile =
  ppfID :: string
  ppfName :: runes
  ppfCity :: runes
  ppfVerified :: bool
  ppfCreatedAt :: time

definition publicJSON :: "User \<Rightarrow> public_profile" where
  "publicJSON u = \<lparr>ppfID = usID u, ppfName = usName u, ppfCity = usCity u, ppfVerified = usVerified u, ppfCreatedAt = usCreatedAt u\<rparr>"

record admin_profile =
  apID :: string
  apPhone :: runes
  apName :: runes
  apCity :: runes
  apRoles :: "string list"
  apVerified :: bool
  apStatus :: string
  apStatusRU :: string
  apReason :: runes
  apCreatedAt :: time
  apStatusAt :: "time option"

text \<open>The Russian words of a status and of a decision, named in English.\<close>

definition statusRU :: "string \<Rightarrow> string" where
  "statusRU st = (if st = UserFrozen then ''bids and offers frozen'' else if st = UserBanned then ''access closed'' else ''working'')"

definition actionRU :: "string \<Rightarrow> string" where
  "actionRU a =
     (if a = ''status:active'' then ''restrictions lifted''
      else if a = ''status:frozen'' then ''bids and offers frozen''
      else if a = ''status:banned'' then ''access closed''
      else a)"

definition userAdminJSON :: "User \<Rightarrow> admin_profile" where
  "userAdminJSON u =
     (let status = (if usStatus u = '''' then UserActive else usStatus u)
      in \<lparr>apID = usID u, apPhone = usPhone u, apName = usName u, apCity = usCity u, apRoles = usRoles u,
          apVerified = usVerified u, apStatus = status, apStatusRU = statusRU status, apReason = usStatusReason u,
          apCreatedAt = usCreatedAt u, apStatusAt = usStatusAt u\<rparr>)"

record history_row =
  hrID :: string
  hrAction :: string
  hrActionRU :: string
  hrReason :: runes
  hrActorID :: string
  hrCreatedAt :: time

definition history_of :: "AdminAction \<Rightarrow> history_row" where
  "history_of a = \<lparr>hrID = aaID a, hrAction = aaAction a, hrActionRU = actionRU (aaAction a), hrReason = aaReason a,
     hrActorID = aaActorID a, hrCreatedAt = aaCreatedAt a\<rparr>"

record application =
  anID :: string
  anDocKind :: runes
  anDocuments :: "runes list"
  anStatus :: VerifyStatus
  anStatusRU :: string
  anReason :: runes
  anCreatedAt :: time
  anReviewedAt :: "time option"

fun verifyStatusRU :: "VerifyStatus \<Rightarrow> string" where
  "verifyStatusRU VerifyPending = ''being checked''"
| "verifyStatusRU VerifyApproved = ''checked''"
| "verifyStatusRU VerifyRejected = ''refused''"

definition verificationJSON :: "Verification \<Rightarrow> application" where
  "verificationJSON v = \<lparr>anID = vfID v, anDocKind = vfDocKind v, anDocuments = vfDocuments v, anStatus = vfStatus v,
     anStatusRU = verifyStatusRU (vfStatus v), anReason = vfReason v, anCreatedAt = vfCreatedAt v, anReviewedAt = vfReviewedAt v\<rparr>"

record queue_entry = application +
  qeUserID :: string
  qeUserName :: runes
  qeUserPhone :: runes

definition queue_entry_of :: "Verification \<Rightarrow> queue_entry" where
  "queue_entry_of v = \<lparr>anID = vfID v, anDocKind = vfDocKind v, anDocuments = vfDocuments v, anStatus = vfStatus v,
     anStatusRU = verifyStatusRU (vfStatus v), anReason = vfReason v, anCreatedAt = vfCreatedAt v, anReviewedAt = vfReviewedAt v,
     qeUserID = vfUserID v, qeUserName = vfUserName v, qeUserPhone = vfUserPhone v\<rparr>"

datatype id_answer =
    Refusal int | CodeSent int string | Opened session_view | OwnProfile own_profile
  | Leaving time int | Staying | Application int application | NoApplication
  | Stranger public_profile | Strangers "public_profile list" | Registered int
  | People "admin_profile list" | Person admin_profile "history_row list" | Sanctioned admin_profile
  | Applications "queue_entry list"


section \<open>Open to everybody\<close>

definition otpStart :: "id_server \<Rightarrow> aenv \<Rightarrow> runes option \<Rightarrow> Accounts \<Rightarrow> id_answer \<times> Accounts" where
  "otpStart v e body s =
     (case body of
        None \<Rightarrow> (Refusal 400, s)
      | Some phone \<Rightarrow>
          if phone = [] then (Refusal 400, s)
          else case StartOTP (isAuth v) e phone s of
                 (Inl _, s') \<Rightarrow> (Refusal 502, s')
               | (Inr (retry, channel), s') \<Rightarrow> (CodeSent retry channel, s'))"

fun otp_refusal :: "auth_err \<Rightarrow> int" where
  "otp_refusal ErrTooManyAttempts = 423"
| "otp_refusal ErrBanned = 403"
| "otp_refusal _ = 401"

definition otpVerify :: "id_server \<Rightarrow> aenv \<Rightarrow> (runes \<times> string) option \<Rightarrow> Accounts \<Rightarrow> id_answer \<times> Accounts" where
  "otpVerify v e body s =
     (case body of
        None \<Rightarrow> (Refusal 400, s)
      | Some (phone, code) \<Rightarrow>
          case VerifyOTP (isAuth v) e phone code s of
            (Inl er, s') \<Rightarrow> (Refusal (otp_refusal er), s')
          | (Inr se, s') \<Rightarrow> (Opened (sessionJSON se), s'))"

definition refresh_session :: "id_server \<Rightarrow> aenv \<Rightarrow> string option \<Rightarrow> Accounts \<Rightarrow> id_answer \<times> Accounts" where
  "refresh_session v e body s =
     (case body of
        None \<Rightarrow> (Refusal 400, s)
      | Some tok \<Rightarrow>
          if tok = '''' then (Refusal 400, s)
          else case Refresh (isAuth v) e tok s of
                 (Inl _, s') \<Rightarrow> (Refusal 401, s')
               | (Inr se, s') \<Rightarrow> (Opened (sessionJSON se), s'))"

definition publicProfile :: "string \<Rightarrow> Accounts \<Rightarrow> id_answer" where
  "publicProfile i s = (case GetUserByID i s of Inl _ \<Rightarrow> Refusal 404 | Inr u \<Rightarrow> Stranger (publicJSON u))"

text \<open>The two internal routes.\<close>

definition publicProfiles :: "runes \<Rightarrow> Accounts \<Rightarrow> id_answer" where
  "publicProfiles q s =
     (let raw = TrimSpace q
      in if raw = [] then Strangers []
         else Strangers (List.map_filter (\<lambda>i.
                if i = [] then None else case GetUserByID (word_of i) s of Inl _ \<Rightarrow> None | Inr u \<Rightarrow> Some (publicJSON u))
              (map TrimSpace (take 100 (split_runes 44 raw)))))"

definition userStats :: "time option \<Rightarrow> time option \<Rightarrow> Accounts \<Rightarrow> id_answer" where
  "userStats from till s =
     (case (from, till) of (Some a, Some b) \<Rightarrow> Registered (CountUsers a b s) | _ \<Rightarrow> Refusal 400)"


section \<open>One's own account\<close>

definition me :: "Claims \<Rightarrow> Accounts \<Rightarrow> id_answer" where
  "me c s = (case Me (clSub c) s of Inl _ \<Rightarrow> Refusal 404 | Inr u \<Rightarrow> OwnProfile (userJSON u))"

definition updateMe :: "Claims \<Rightarrow> ProfilePatch option \<Rightarrow> Accounts \<Rightarrow> id_answer \<times> Accounts" where
  "updateMe c body s =
     (case body of
        None \<Rightarrow> (Refusal 400, s)
      | Some p \<Rightarrow>
          case UpdateProfile (clSub c) p s of
            (Inl er, s') \<Rightarrow> (Refusal (if er = ErrInvalidRole then 400 else 404), s')
          | (Inr u, s') \<Rightarrow> (OwnProfile (userJSON u), s'))"

fun failVerification :: "auth_err \<Rightarrow> int" where
  "failVerification ErrNoDocuments = 400"
| "failVerification ErrManyDocs = 400"
| "failVerification ErrBadDocKind = 400"
| "failVerification ErrNeedNameCity = 400"
| "failVerification ErrVerifyPending = 409"
| "failVerification ErrVerifyClosed = 409"
| "failVerification ErrNeedReason = 400"
| "failVerification ErrAccountNotFound = 404"
| "failVerification _ = 500"

definition submitVerification :: "aenv \<Rightarrow> Claims \<Rightarrow> (runes \<times> runes list) option \<Rightarrow> Accounts \<Rightarrow> id_answer \<times> Accounts" where
  "submitVerification e c body s =
     (case body of
        None \<Rightarrow> (Refusal 400, s)
      | Some (kind, docs) \<Rightarrow>
          case SubmitVerification e (clSub c) kind docs s of
            (Inl er, s') \<Rightarrow> (Refusal (failVerification er), s')
          | (Inr x, s') \<Rightarrow> (Application 201 (verificationJSON x), s'))"

definition myVerification :: "Claims \<Rightarrow> Accounts \<Rightarrow> id_answer" where
  "myVerification c s =
     (case MyVerification_of (clSub c) s of Inl _ \<Rightarrow> NoApplication | Inr x \<Rightarrow> Application 200 (verificationJSON x))"

text \<open>A repeated request is no error: it answers with the instant already set.\<close>

definition requestDeletion :: "aenv \<Rightarrow> Claims \<Rightarrow> Accounts \<Rightarrow> id_answer \<times> Accounts" where
  "requestDeletion e c s =
     (let days = DeleteGrace div (24 * Hour)
      in case RequestDeletion e (clSub c) s of
           (Inr till, s') \<Rightarrow> (Leaving till days, s')
         | (Inl (ErrAlreadyDeleting till), s') \<Rightarrow> (Leaving till days, s')
         | (Inl _, s') \<Rightarrow> (Refusal 500, s'))"

definition cancelDeletion :: "Claims \<Rightarrow> Accounts \<Rightarrow> id_answer \<times> Accounts" where
  "cancelDeletion c s = (case CancelDeletion (clSub c) s of (Inl _, s') \<Rightarrow> (Refusal 500, s') | (Inr _, s') \<Rightarrow> (Staying, s'))"


section \<open>The moderators\<close>

definition searchUsers :: "id_server \<Rightarrow> aenv \<Rightarrow> runes \<Rightarrow> string \<Rightarrow> Accounts \<Rightarrow> id_answer" where
  "searchUsers v e q limit s = People (map userAdminJSON (SearchUsers (aiter e) (isLower v) q (Atoi limit) s))"

definition userCard :: "string \<Rightarrow> Accounts \<Rightarrow> id_answer" where
  "userCard i s =
     (case UserCard_of i s of
        Inl _ \<Rightarrow> Refusal 404
      | Inr x \<Rightarrow> Person (userAdminJSON (ucUser x)) (map history_of (ucHistory x)))"

fun sanction_refusal :: "auth_err \<Rightarrow> int" where
  "sanction_refusal ErrBadStatus = 400"
| "sanction_refusal ErrNeedReason = 400"
| "sanction_refusal ErrSelfSanction = 400"
| "sanction_refusal ErrAccountNotFound = 404"
| "sanction_refusal _ = 500"

definition setUserStatus :: "aenv \<Rightarrow> Claims \<Rightarrow> string \<Rightarrow> (runes \<times> runes) option \<Rightarrow> Accounts \<Rightarrow> id_answer \<times> Accounts" where
  "setUserStatus e c i body s =
     (case body of
        None \<Rightarrow> (Refusal 400, s)
      | Some (status, reason) \<Rightarrow>
          case SetStatus e (clSub c) i (word_of (TrimSpace status)) reason s of
            (Inl er, s') \<Rightarrow> (Refusal (sanction_refusal er), s')
          | (Inr u, s') \<Rightarrow> (Sanctioned (userAdminJSON u), s'))"

definition verificationQueue :: "string \<Rightarrow> Accounts \<Rightarrow> id_answer" where
  "verificationQueue limit s = Applications (map queue_entry_of (PendingVerifications (Atoi limit) s))"

definition reviewVerification :: "aenv \<Rightarrow> Claims \<Rightarrow> string \<Rightarrow> (bool \<times> runes) option \<Rightarrow> Accounts \<Rightarrow> id_answer \<times> Accounts" where
  "reviewVerification e c i body s =
     (case body of
        None \<Rightarrow> (Refusal 400, s)
      | Some (approve, reason) \<Rightarrow>
          case ReviewVerification e (clSub c) i approve reason s of
            (Inl er, s') \<Rightarrow> (Refusal (failVerification er), s')
          | (Inr x, s') \<Rightarrow> (Application 200 (verificationJSON x), s'))"


section \<open>The routes\<close>

text \<open>The routes in their three zones: open, of the person, of the moderators.\<close>

datatype open_call =
    OtpStart "runes option" | OtpVerify "(runes \<times> string) option" | RefreshCall "string option" | PublicProfile string
  | PublicProfiles runes | UserStats "time option" "time option"

datatype own_call =
    GetMe | PatchMe "ProfilePatch option" | PostVerification "(runes \<times> runes list) option" | GetVerification
  | DeleteMe | RestoreMe

datatype staff_call =
    GetUsers runes string | GetUser string | PostStatus string "(runes \<times> runes) option" | GetApplications string
  | PostReview string "(bool \<times> runes) option"

datatype id_call = Open open_call | Own own_call | Staff staff_call

fun serve_open :: "id_server \<Rightarrow> aenv \<Rightarrow> open_call \<Rightarrow> Accounts \<Rightarrow> id_answer \<times> Accounts" where
  "serve_open v e (OtpStart b) s = otpStart v e b s"
| "serve_open v e (OtpVerify b) s = otpVerify v e b s"
| "serve_open v e (RefreshCall b) s = refresh_session v e b s"
| "serve_open v e (PublicProfile i) s = (publicProfile i s, s)"
| "serve_open v e (PublicProfiles q) s = (publicProfiles q s, s)"
| "serve_open v e (UserStats a b) s = (userStats a b s, s)"

fun serve_own :: "aenv \<Rightarrow> Claims \<Rightarrow> own_call \<Rightarrow> Accounts \<Rightarrow> id_answer \<times> Accounts" where
  "serve_own e c GetMe s = (me c s, s)"
| "serve_own e c (PatchMe b) s = updateMe c b s"
| "serve_own e c (PostVerification b) s = submitVerification e c b s"
| "serve_own e c GetVerification s = (myVerification c s, s)"
| "serve_own e c DeleteMe s = requestDeletion e c s"
| "serve_own e c RestoreMe s = cancelDeletion c s"

fun serve_staff :: "id_server \<Rightarrow> aenv \<Rightarrow> Claims \<Rightarrow> staff_call \<Rightarrow> Accounts \<Rightarrow> id_answer \<times> Accounts" where
  "serve_staff v e c (GetUsers q limit) s = (searchUsers v e q limit s, s)"
| "serve_staff v e c (GetUser i) s = (userCard i s, s)"
| "serve_staff v e c (PostStatus i b) s = setUserStatus e c i b s"
| "serve_staff v e c (GetApplications limit) s = (verificationQueue limit s, s)"
| "serve_staff v e c (PostReview i b) s = reviewVerification e c i b s"

definition identity_routes :: "id_server \<Rightarrow> aenv \<Rightarrow> time \<Rightarrow> http_request \<Rightarrow> id_call \<Rightarrow> Accounts \<Rightarrow> id_answer \<times> Accounts" where
  "identity_routes v e now r call s =
     (case call of
        Open k \<Rightarrow> serve_open v e k s
      | Own k \<Rightarrow> (case requireAuth v now r of Inl code \<Rightarrow> (Refusal code, s) | Inr c \<Rightarrow> serve_own e c k s)
      | Staff k \<Rightarrow>
          (case requireAuth v now r of
             Inl code \<Rightarrow> (Refusal code, s)
           | Inr c \<Rightarrow> if staff_claims c then serve_staff v e c k s else (Refusal 403, s)))"


section \<open>Who sees whose number\<close>

text \<open>The numbers an answer shows, each with the person it is said to belong to.\<close>

fun shown :: "id_answer \<Rightarrow> (string \<times> runes) list" where
  "shown (Opened x) = [(opID (svUser x), opPhone (svUser x))]"
| "shown (OwnProfile p) = [(opID p, opPhone p)]"
| "shown (People ps) = map (\<lambda>p. (apID p, apPhone p)) ps"
| "shown (Person p h) = [(apID p, apPhone p)]"
| "shown (Sanctioned p) = [(apID p, apPhone p)]"
| "shown (Applications qs) = map (\<lambda>q. (qeUserID q, qeUserPhone q)) qs"
| "shown _ = []"

lemma open_shows:
  assumes "serve_open v e k s = (ans, s')"
  shows "shown ans = [] \<or> (\<exists>se. ans = Opened (sessionJSON se)
    \<and> ((\<exists>phone code. k = OtpVerify (Some (phone, code)) \<and> VerifyOTP (isAuth v) e phone code s = (Inr se, s'))
       \<or> (\<exists>tok. k = RefreshCall (Some tok) \<and> Refresh (isAuth v) e tok s = (Inr se, s'))))"
  using assms
  by (cases k) (auto simp: otpStart_def otpVerify_def refresh_session_def publicProfile_def publicProfiles_def userStats_def Let_def
      split: option.splits sum.splits prod.splits if_split_asm)

lemma own_shows:
  assumes ok: "accounts_ok au s" and "serve_own e c k s = (ans, s')" and "(i, p) \<in> set (shown ans)"
  shows "i = clSub c"
proof -
  have id: "usID u = clSub c" if "GetUserByID (clSub c) s = Inr u" for u
    using that accounts_okD(1) [OF ok] by (auto simp: GetUserByID_def)
  have patch: "usID u = clSub c" if u: "UpdateProfile (clSub c) b s = (Inr u, t)" for u b t
  proof -
    obtain w where "GetUserByID (clSub c) s = Inr w" "patched b w = Inr u"
      using u by (auto simp: UpdateProfile_def split: sum.splits)
    then show ?thesis using id [of w] by (auto simp: patched_def set_role_def split: option.splits if_split_asm)
  qed
  show ?thesis
    using assms(2,3)
    by (cases k) (auto simp: me_def Me_def userJSON_def updateMe_def submitVerification_def myVerification_def requestDeletion_def
        cancelDeletion_def id patch Let_def split: option.splits sum.splits prod.splits auth_err.splits)
qed

text \<open>C30: A telephone number leaves the accounts service in three ways only: to the person it belongs to, under a
  valid token of that person; to a moderator, under a valid token with the role; or in the session its owner
  opens with a right code or a working refresh token. The public and the internal cards show none.\<close>

theorem numbers_stay_private:
  assumes "account_states (isAuth v) s" and "identity_routes v e now r call s = (ans, s')"
    and "(i, p) \<in> set (shown ans)"
  shows "(\<exists>c. requireAuth v now r = Inr c \<and> (clSub c = i \<or> staff_claims c))
    \<or> (\<exists>se. usID (seUser se) = i \<and> usPhone (seUser se) = p
         \<and> ((\<exists>phone code. call = Open (OtpVerify (Some (phone, code))) \<and> VerifyOTP (isAuth v) e phone code s = (Inr se, s'))
            \<or> (\<exists>tok. call = Open (RefreshCall (Some tok)) \<and> Refresh (isAuth v) e tok s = (Inr se, s'))))"
proof (cases call)
  case (Open k)
  then have "serve_open v e k s = (ans, s')" using assms(2) by (simp add: identity_routes_def)
  from open_shows [OF this] show ?thesis
    using assms(3) Open by (auto simp: sessionJSON_def userJSON_def)
next
  case (Own k)
  then obtain c where c: "requireAuth v now r = Inr c" "serve_own e c k s = (ans, s')"
    using assms(2,3) by (auto simp: identity_routes_def split: sum.splits)
  then show ?thesis using own_shows [OF account_states_ok [OF assms(1)] c(2) assms(3)] by blast
next
  case (Staff k)
  then show ?thesis using assms(2,3) by (auto simp: identity_routes_def split: sum.splits if_split_asm)
qed

text \<open>Without a valid token the private zones answer 401, without the role the section of the moderators answers 403, and
  neither changes anything.\<close>

lemma closed_zones:
  shows "requireAuth v now r = Inl code \<Longrightarrow> identity_routes v e now r (Own k) s = (Refusal 401, s)"
    and "requireAuth v now r = Inl code \<Longrightarrow> identity_routes v e now r (Staff k') s = (Refusal 401, s)"
    and "requireAuth v now r = Inr c \<Longrightarrow> \<not> staff_claims c \<Longrightarrow> identity_routes v e now r (Staff k') s = (Refusal 403, s)"
  by (auto simp: identity_routes_def requireAuth_def Let_def split: if_split_asm sum.splits)

text \<open>A checked person keeps the badge under another name: the profile is edited without a new check.\<close>

lemma renamed_keeps_badge:
  assumes "account_states (isAuth v) s" "requireAuth v now r = Inr c" "map_of (usersByID s) (clSub c) = Some u"
  shows "\<exists>s' pr. identity_routes v e now r (Own (PatchMe (Some \<lparr>ppName = Some n, ppCity = None, ppActiveRole = None\<rparr>))) s = (OwnProfile pr, s')
    \<and> opName pr = n \<and> opVerified pr = usVerified u"
  using assms by (simp add: identity_routes_def updateMe_def UpdateProfile_def GetUserByID_def patched_def set_role_def userJSON_def)

text \<open>A stand: the moderator looks at the card of the second person.\<close>

definition stand_server :: id_server where
  "stand_server = \<lparr>isAuth = stand,
     isLibrary = (\<lambda>tok now. if tok \<in> {''a'', ''b''} then Inr \<lparr>wiSubject = tok,
         wiRoles = (if tok = ''a'' then [''client'', ''moderator''] else [''client'', ''owner'']), wiActiveRole = ''client'',
         wiStatus = ''active'', wiExpiresAt = Some 1705364100, iwTyp = ''access'', iwIssuedAt = Some 1705363200\<rparr>
       else Inl \<lparr>jfNoKey = False, jfExpired = False, jfNotYet = False, jfSignature = True\<rparr>), isLower = id\<rparr>"

definition with_token :: "string \<Rightarrow> http_request" where
  "with_token tok = \<lparr>rqMethod = ''GET'', rqPath = ''/v1/moderation/users/b'', rqHeader = [(''Authorization'', [''Bearer '' @ tok])]\<rparr>"

theorem numbers_stay_private_witness:
  "(''b'', runes_of ''+2'') \<in> set (shown (fst (identity_routes stand_server (at_minute 9 ''q'') 0 (with_token ''a'') (Staff (GetUser ''b''))
       (fold (serve stand) stand_requests NewAccounts))))
   \<and> (\<exists>c. requireAuth stand_server 0 (with_token ''a'') = Inr c \<and> (clSub c = ''b'' \<or> staff_claims c))"
proof -
  let ?s = "fold (serve stand) stand_requests NewAccounts"
  let ?r = "identity_routes stand_server (at_minute 9 ''q'') 0 (with_token ''a'') (Staff (GetUser ''b'')) ?s"
  have "account_states stand ?s" by (rule states_fold [OF states_new]) code_simp
  then have st: "account_states (isAuth stand_server) ?s" by (simp add: stand_server_def)
  have sh: "(''b'', runes_of ''+2'') \<in> set (shown (fst ?r))" by code_simp
  then show ?thesis using numbers_stay_private [OF st, of _ _ _ _ "fst ?r" "snd ?r"] by fastforce
qed

end
