(* ===== verification/Shared_Links.thy ===== *)
theory Shared_Links
  imports Share_Pages Identity_Http Orders_Pages
begin

text \<open>
  The page of a shared link over the services it asks (\<^verbatim>\<open>gateway/internal/share/share.go\<close> with \<^verbatim>\<open>GET /v1/jobs/{id}\<close> of orders
  and \<^verbatim>\<open>GET /v1/users/{id}\<close> of identity): what \<^verbatim>\<open>encoding/json\<close> makes of their answers, and the page that results.
\<close>


section \<open>Reading the answers\<close>

text \<open>The orders service writes the photos of a job as texts, \<^verbatim>\<open>"photos": ["https://..."]\<close>; the page reads objects with a field
  \<^verbatim>\<open>url\<close>, and the decoder answers a text in the place of an object with an error.\<close>

definition read_job :: "Job \<Rightarrow> job_card option" where
  "read_job j =
     (if jPhotos j \<noteq> [] then None
      else Some \<lparr>jcTitle = jTitle j, jcDescription = jDescription j, jcAddress = jAddress j, jcBudget = jBudgetAmount j,
        jcPhotos = []\<rparr>)"

text \<open>The public card of a person has no rating: the fields keep their zeros.\<close>

definition read_person :: "public_profile \<Rightarrow> user_card" where
  "read_person p = \<lparr>ucName = ppfName p, ucCity = ppfCity p, ucVerified = ppfVerified p, ucRating = 0, ucRatingCount = 0\<rparr>"

definition asked_job :: "env \<Rightarrow> string \<Rightarrow> world \<Rightarrow> job_card option" where
  "asked_job e i w = (case fst (view_job e '''' i w) of Inr (code, j, _) \<Rightarrow> if code \<ge> 300 then None else read_job j | _ \<Rightarrow> None)"

definition asked_person :: "string \<Rightarrow> Accounts \<Rightarrow> user_card option" where
  "asked_person i s = (case publicProfile i s of Stranger p \<Rightarrow> Some (read_person p) | _ \<Rightarrow> None)"

definition job_link :: "share \<Rightarrow> env \<Rightarrow> string \<Rightarrow> world \<Rightarrow> page" where
  "job_link h e i w = share_job h (runes_of i) (asked_job e i w)"

definition user_link :: "share \<Rightarrow> string \<Rightarrow> Accounts \<Rightarrow> page" where
  "user_link h i s = share_user h (runes_of i) (asked_person i s)"


section \<open>What the links show\<close>

lemma guest_view:
  assumes "map_of (jobs (mem w)) i = Some j"
  shows "view_job e '''' i w = (Inr (200, hide_reserve '''' j, False), w)"
  using assms
  by (simp add: view_job_def respond_def bnd_def View_def get_def ByID_def counts_view_def ret_def split: option.split)

lemma hide_reserve_card: "read_job (hide_reserve v j) = read_job j"
  by (simp add: read_job_def hide_reserve_def split: option.split)

text \<open>The link to a job shows it only when it has no photos: with one, the messenger is told that the job was not found, and in no
  case does the picture of the page come from the job.\<close>

theorem photos_hide_job:
  assumes "map_of (jobs (mem w)) i = Some j"
  shows "(jPhotos j \<noteq> [] \<longrightarrow> pgTitle (job_link h e i w) = w_neutral \<and> pgDescription (job_link h e i w) = w_no_job)
    \<and> (jPhotos j = [] \<longrightarrow> jTitle j \<noteq> [] \<longrightarrow> pgTitle (job_link h e i w) = jTitle j)
    \<and> pgImage (job_link h e i w) = shDefaultImage h"
proof -
  have "asked_job e i w = read_job j"
    by (simp add: asked_job_def guest_view [OF assms] hide_reserve_card)
  then show ?thesis by (simp add: job_link_def share_job_def read_job_def Let_def)
qed

text \<open>The link to a person never shows a rating.\<close>

lemma link_without_rating:
  assumes "map_of (usersByID s) i = Some u" "usName u \<noteq> []"
  shows "pgTitle (user_link h i s) = usName u"
    and "pgDescription (user_link h i s) = Join_texts dot
      (let parts = (if usCity u \<noteq> [] then [usCity u] else []) @ (if usVerified u then [w_checked] else [])
       in if parts = [] then [w_contractor] else parts)"
  using assms
  by (simp_all add: user_link_def asked_person_def publicProfile_def GetUserByID_def publicJSON_def read_person_def share_user_def
      user_parts_def Let_def)

text \<open>Two published jobs, one with a photo.\<close>

definition dig :: "string list \<Rightarrow> Job" where
  "dig photos = (blank_draft ''7'' ''client'' 0)\<lparr>jTitle := runes_of ''Trench'', jPhotos := photos, jStatus := StatusPublished\<rparr>"

theorem photos_hide_job_witness:
  "\<forall>e. pgTitle (job_link (New_share (runes_of ''app'')) e ''7'' (new_world\<lparr>mem := NewMemory\<lparr>jobs := [(''7'', dig [''url''])]\<rparr>\<rparr>)) = w_neutral
     \<and> pgTitle (job_link (New_share (runes_of ''app'')) e ''7'' (new_world\<lparr>mem := NewMemory\<lparr>jobs := [(''7'', dig [])]\<rparr>\<rparr>)) = runes_of ''Trench''"
proof -
  have "map_of (jobs (mem (new_world\<lparr>mem := NewMemory\<lparr>jobs := [(''7'', dig ps)]\<rparr>\<rparr>))) ''7'' = Some (dig ps)" for ps by simp
  moreover have "jPhotos (dig ps) = ps" "jTitle (dig ps) = runes_of ''Trench''" "runes_of ''Trench'' \<noteq> []" for ps
    by (simp_all add: dig_def runes_of_def)
  ultimately show ?thesis using photos_hide_job [of _ "''7''"] by (metis list.distinct(1))
qed

end
