(* ===== verification/Sql.thy ===== *)
theory Sql
  imports Texts
begin

text \<open>
  What the Postgres stores ask of SQL: the statements written in \<^verbatim>\<open>store/*_postgres.go\<close> and the tables of
  \<^verbatim>\<open>migrations/*.sql\<close> under the standard meaning of INSERT, UPDATE and SELECT. A table holds its rows by primary key.
  A unique index is a relation \<open>clash\<close> that no two rows may be in, each seen from the other, since the condition of a
  partial index must hold of both; a row that a type, a CHECK or a foreign key refuses is \<open>Rejected\<close>. Rows come from a
  table in any order (a ranking of the keys, as for Go maps) and ties of an ORDER BY stay in that order.
\<close>

type_synonym 'r sql_table = "(string, 'r) gomap"

text \<open>Error 23505, and every other error of a statement.\<close>

datatype sql_fault = Duplicate | Rejected

text \<open>What a method of the store returns: an error of the domain, or one it only wraps.\<close>

datatype 'e pg_fault = Known 'e | Broken

definition touches :: "('r \<Rightarrow> 'r \<Rightarrow> bool) \<Rightarrow> 'r \<Rightarrow> ('k, 'r) gomap \<Rightarrow> bool" where
  "touches clash r t \<longleftrightarrow> (\<exists>x \<in> set (gvals t). clash x r \<and> clash r x)"

text \<open>\<^verbatim>\<open>INSERT INTO t VALUES (...)\<close>: no values when an argument does not fit its column.\<close>

definition insert_into :: "('r \<Rightarrow> 'k) \<Rightarrow> ('r \<Rightarrow> 'r \<Rightarrow> bool) \<Rightarrow> ('r \<Rightarrow> bool) \<Rightarrow> 'r option \<Rightarrow> ('k, 'r) gomap
    \<Rightarrow> sql_fault + ('k, 'r) gomap" where
  "insert_into key clash ok new t =
     (case new of
        None \<Rightarrow> Inl Rejected
      | Some r \<Rightarrow>
          if \<not> ok r then Inl Rejected
          else if map_of t (key r) \<noteq> None \<or> touches clash r t then Inl Duplicate
          else Inr (AList.update (key r) r t))"

text \<open>\<^verbatim>\<open>UPDATE t SET ... WHERE id = $1\<close>: the number of rows, and the table.\<close>

definition update_where_id :: "('r \<Rightarrow> 'r \<Rightarrow> bool) \<Rightarrow> ('r \<Rightarrow> bool) \<Rightarrow> 'k \<Rightarrow> ('r \<Rightarrow> 'r) option \<Rightarrow> ('k, 'r) gomap
    \<Rightarrow> sql_fault + nat \<times> ('k, 'r) gomap" where
  "update_where_id clash ok i sets t =
     (case sets of
        None \<Rightarrow> Inl Rejected
      | Some f \<Rightarrow>
          (case map_of t i of
             None \<Rightarrow> Inr (0, t)
           | Some r \<Rightarrow>
               if \<not> ok (f r) then Inl Rejected
               else if touches clash (f r) (AList.delete i t) then Inl Duplicate
               else Inr (1, AList.update i (f r) t)))"

text \<open>\<^verbatim>\<open>SELECT ... WHERE p ORDER BY lt\<close>, \<^verbatim>\<open>LIMIT n OFFSET k\<close> (no rows for \<^verbatim>\<open>LIMIT 0\<close>, an error for a negative one).\<close>

definition select_from :: "('k \<Rightarrow> nat) \<Rightarrow> ('r \<Rightarrow> bool) \<Rightarrow> ('r \<Rightarrow> 'r \<Rightarrow> bool) \<Rightarrow> ('k, 'r) gomap \<Rightarrow> 'r list" where
  "select_from rank p lt t = sort_by lt (filter p (grange rank t))"

definition limit_offset :: "int \<Rightarrow> int \<Rightarrow> 'r list \<Rightarrow> 'e pg_fault + 'r list" where
  "limit_offset n k rs = (if n < 0 \<or> k < 0 then Inl Broken else Inr (take (nat n) (drop (nat k) rs)))"

text \<open>How a method reads the outcome of a statement.\<close>

definition unhandled :: "sql_fault + 'a \<Rightarrow> 'e pg_fault + 'a" where
  "unhandled r = (case r of Inl _ \<Rightarrow> Inl Broken | Inr x \<Rightarrow> Inr x)"

definition unique_as :: "'e \<Rightarrow> sql_fault + 'a \<Rightarrow> 'e pg_fault + 'a" where
  "unique_as e r = (case r of Inl Duplicate \<Rightarrow> Inl (Known e) | Inl Rejected \<Rightarrow> Inl Broken | Inr x \<Rightarrow> Inr x)"

definition affected :: "'e \<Rightarrow> sql_fault + nat \<times> 'a \<Rightarrow> 'e pg_fault + 'a" where
  "affected e r = (case r of Inl _ \<Rightarrow> Inl Broken | Inr (n, x) \<Rightarrow> if n = 0 then Inl (Known e) else Inr x)"

definition first_row :: "'e \<Rightarrow> 'r list \<Rightarrow> 'e pg_fault + 'r" where
  "first_row e rs = (case rs of [] \<Rightarrow> Inl (Known e) | r # _ \<Rightarrow> Inr r)"

definition known :: "'e + 'a \<Rightarrow> 'e pg_fault + 'a" where
  "known r = (case r of Inl e \<Rightarrow> Inl (Known e) | Inr x \<Rightarrow> Inr x)"


section \<open>Columns\<close>

text \<open>The type \<^verbatim>\<open>uuid\<close> reads a text to its canonical form or refuses it; which texts it reads is a parameter.\<close>

type_synonym uuids = "string \<Rightarrow> string option"

definition with_uuid :: "('k \<Rightarrow> 'k option) \<Rightarrow> 'k \<Rightarrow> ('k \<Rightarrow> 'e pg_fault + 'a) \<Rightarrow> 'e pg_fault + 'a" where
  "with_uuid u i k = (case u i of None \<Rightarrow> Inl Broken | Some c \<Rightarrow> k c)"

definition nullable_uuid :: "('k \<Rightarrow> 'k option) \<Rightarrow> 'k option \<Rightarrow> 'k option option" where
  "nullable_uuid u x = (case x of None \<Rightarrow> Some None | Some i \<Rightarrow> map_option Some (u i))"

text \<open>\<^verbatim>\<open>timestamptz\<close> keeps whole microseconds; the driver cuts the rest off.\<close>

definition stamp :: "time \<Rightarrow> time" where "stamp t = t - t mod 1000"

text \<open>\<^verbatim>\<open>text\<close> and \<^verbatim>\<open>jsonb\<close> hold every character but the one of code zero; \<^verbatim>\<open>smallint\<close> has 16 bits, \<^verbatim>\<open>int\<close> 32.\<close>

definition plain_text :: "runes \<Rightarrow> bool" where "plain_text s \<longleftrightarrow> 0 \<notin> set s"

definition plain_string :: "string \<Rightarrow> bool" where "plain_string s \<longleftrightarrow> CHR 0x00 \<notin> set s"

definition plain_message :: "message \<Rightarrow> bool" where
  "plain_message m \<longleftrightarrow> list_all (\<lambda>p. case p of Lit s \<Rightarrow> True | Txt s \<Rightarrow> plain_text s | Str s \<Rightarrow> plain_string s) m"

definition int2 :: "int \<Rightarrow> bool" where "int2 n \<longleftrightarrow> - (2 ^ 15) \<le> n \<and> n < 2 ^ 15"

definition int4 :: "int \<Rightarrow> bool" where "int4 n \<longleftrightarrow> - (2 ^ 31) \<le> n \<and> n < 2 ^ 31"


text \<open>The driver reads the rows one by one, and the first bad one ends it.\<close>

fun read_rows :: "('a \<Rightarrow> 'e pg_fault + 'b) \<Rightarrow> 'a list \<Rightarrow> 'e pg_fault + 'b list" where
  "read_rows f [] = Inr []"
| "read_rows f (x # xs) =
     (case f x of Inl e \<Rightarrow> Inl e | Inr y \<Rightarrow> map_sum id (Cons y) (read_rows f xs))"

section \<open>Search patterns\<close>

text \<open>\<^verbatim>\<open>text LIKE pattern\<close>: a percent sign for any text, an underscore for any character, a backslash before the
  character meant literally.\<close>

fun like :: "runes \<Rightarrow> runes \<Rightarrow> bool" where
  "like [] t = (t = [])"
| "like (c # p) [] = (c = 37 \<and> like p [])"
| "like (c # p) (d # t) =
     (if c = 37 then like p (d # t) \<or> like (c # p) t
      else if c = 95 then like p t
      else if c = 92 then (case p of [] \<Rightarrow> False | e # p' \<Rightarrow> d = e \<and> like p' t)
      else d = c \<and> like p t)"

definition no_signs :: "runes \<Rightarrow> bool" where
  "no_signs q \<longleftrightarrow> 37 \<notin> set q \<and> 95 \<notin> set q \<and> 92 \<notin> set q"

lemma like_any: "like [37] t"
  by (induction t) simp_all

lemma like_prefix: "no_signs q \<Longrightarrow> like (q @ [37]) t \<longleftrightarrow> has_prefix t q"
proof (induction q arbitrary: t)
  case Nil
  then show ?case by (simp add: like_any)
next
  case (Cons c q)
  then show ?case by (cases t) (auto simp: no_signs_def)
qed

lemma like_contains: "no_signs q \<Longrightarrow> like (37 # q @ [37]) t \<longleftrightarrow> contains_runes t q"
proof (induction t)
  case Nil
  then show ?case by (cases q) (auto simp: no_signs_def)
next
  case (Cons c t)
  then show ?case using like_prefix [of q "c # t"] by simp
qed

lemma like_sign: "c = 37 \<or> c = 95 \<Longrightarrow> t \<noteq> [] \<Longrightarrow> like [37, c, 37] t"
  by (cases t) (auto simp: like_any)


section \<open>What the statements do\<close>

lemma stamp_idem [simp]: "stamp (stamp t) = stamp t"
proof -
  have "t - t mod 1000 = t div 1000 * 1000" by (metis minus_mod_eq_div_mult)
  then show ?thesis by (simp add: stamp_def)
qed

lemma stamp_le: "stamp t \<le> t" "t < stamp t + 1000"
  using pos_mod_bound [of 1000 t] pos_mod_sign [of 1000 t] by (simp_all add: stamp_def)

lemma unique_as_simps [simp]:
  "unique_as e (Inl Duplicate) = Inl (Known e)" "unique_as e (Inl Rejected) = Inl Broken" "unique_as e (Inr x) = Inr x"
  by (simp_all add: unique_as_def)

lemma unhandled_simps [simp]: "unhandled (Inl f) = Inl Broken" "unhandled (Inr x) = Inr x"
  by (simp_all add: unhandled_def)

lemma affected_simps [simp]:
  "affected e (Inl f) = Inl Broken" "affected e (Inr (0, x)) = Inl (Known e)" "affected e (Inr (Suc n, x)) = Inr x"
  "affected e (Inr (1, x)) = Inr x"
  by (simp_all add: affected_def)

lemma known_simps [simp]: "known (Inl e) = Inl (Known e)" "known (Inr x) = Inr x"
  by (simp_all add: known_def)

lemma with_uuid_simps [simp]: "u i = Some c \<Longrightarrow> with_uuid u i k = k c" "u i = None \<Longrightarrow> with_uuid u i k = Inl Broken"
  by (simp_all add: with_uuid_def)

text \<open>A statement on a table keeps its rows under their keys and its unique index.\<close>

lemma insert_into_Inr:
  "insert_into key clash ok new t = Inr t' \<longleftrightarrow>
     (\<exists>r. new = Some r \<and> ok r \<and> map_of t (key r) = None \<and> \<not> touches clash r t \<and> t' = AList.update (key r) r t)"
  by (auto simp: insert_into_def split: option.split)

lemma update_where_id_Inr:
  "update_where_id clash ok i sets t = Inr (n, t') \<longleftrightarrow>
     (\<exists>f. sets = Some f \<and> (if map_of t i = None then n = 0 \<and> t' = t
        else n = 1 \<and> (\<exists>r. map_of t i = Some r \<and> ok (f r) \<and> \<not> touches clash (f r) (AList.delete i t)
               \<and> t' = AList.update i (f r) t)))"
  by (auto simp: update_where_id_def split: option.split)

lemma gopage_limit:
  assumes "0 < n" and "0 \<le> k"
  shows "limit_offset n k rs = Inr (gopage n k rs)"
  using assms by (auto simp: limit_offset_def gopage_def Let_def)

end
