(* ===== verification/Postgres_Jobs.thy ===== *)
theory Postgres_Jobs
  imports Sql Job_Feed
begin

text \<open>
  The Postgres store of jobs (\<^verbatim>\<open>services/orders/internal/store/postgres.go\<close>, tables of
  \<^verbatim>\<open>migrations/000001_init.up.sql\<close>): how a job becomes the columns of \<^verbatim>\<open>orders.jobs\<close> and is read back, the statements of
  every method, counted views and idempotency keys. What the database computes by itself is a parameter: the reading of
  a \<^verbatim>\<open>uuid\<close>, a point put on the sphere, distances, lower case and averages.
\<close>

record database =
  dbUuid :: uuids
  dbPoint :: "Geo \<Rightarrow> Geo"
  dbDistance :: "Geo \<Rightarrow> Geo \<Rightarrow> float64"
  dbLower :: "runes \<Rightarrow> runes"
  dbAvg :: "int list \<Rightarrow> float64"


section \<open>The columns of a job\<close>

text \<open>A row has the fields of a job but for the auction, which is five columns of its own.\<close>

record job_row =
  jrJob :: Job
  jrDurationH :: "int option"
  jrEndsAt :: "time option"
  jrReserve :: "int option"
  jrAutoExtend :: bool
  jrDecisionH :: int

definition jr_id :: "job_row \<Rightarrow> string" where "jr_id r = jID (jrJob r)"

definition auctionParts :: "Auction option \<Rightarrow> int option \<times> time option \<times> int option \<times> bool \<times> int" where
  "auctionParts a =
     (case a of
        None \<Rightarrow> (None, None, None, True, 12)
      | Some a \<Rightarrow> (Some (aDurationH a), aEndsAt a, aReserveAmount a, aAutoExtend a, aDecisionWindowH a))"

text \<open>The CHECK constraints of the table.\<close>

definition job_check :: "job_row \<Rightarrow> bool" where
  "job_check r =
     (let j = jrJob r
      in (case jOrderType j of OrderTypeOther _ \<Rightarrow> False | _ \<Rightarrow> True)
       \<and> (case jAccess j of AccessOther _ \<Rightarrow> False | _ \<Rightarrow> True)
       \<and> (case jDateMode j of DateModeOther _ \<Rightarrow> False | _ \<Rightarrow> True)
       \<and> (case jMode j of ModeOther _ \<Rightarrow> False | _ \<Rightarrow> True)
       \<and> jWorkersCount j \<ge> 0 \<and> 1 \<le> jDraftStep j \<and> jDraftStep j \<le> 5)"

text \<open>\<^verbatim>\<open>jsonb\<close> refuses the character of code zero wherever it stands.\<close>

fun plain_json :: "json \<Rightarrow> bool" where
  "plain_json (JStr s) \<longleftrightarrow> plain_text s"
| "plain_json (JArr xs) \<longleftrightarrow> (\<forall>x \<in> set xs. plain_json x)"
| "plain_json (JObj fs) \<longleftrightarrow> (\<forall>f \<in> set fs. plain_text (fst f) \<and> plain_json (snd f))"
| "plain_json _ \<longleftrightarrow> True"

definition job_types :: "Job \<Rightarrow> bool" where
  "job_types j \<longleftrightarrow>
     plain_text (jTitle j) \<and> plain_text (jDescription j) \<and> plain_text (jAddress j) \<and> plain_string (jCurrency j)
   \<and> list_all plain_string (jPhotos j) \<and> list_all (\<lambda>f. plain_string (fst f) \<and> plain_json (snd f)) (jParams j)
   \<and> int4 (jWorkersCount j) \<and> int4 (jDraftStep j)
   \<and> (case jAuction j of None \<Rightarrow> True | Some a \<Rightarrow> int4 (aDurationH a) \<and> int4 (aDecisionWindowH a))"

text \<open>The values of the columns that both INSERT and UPDATE write, put over the row as it was.\<close>

definition set_columns :: "database \<Rightarrow> Job \<Rightarrow> string option \<Rightarrow> job_row \<Rightarrow> job_row" where
  "set_columns v j category r =
     (case auctionParts (jAuction j) of (dur, ends, reserve, ext, decision) \<Rightarrow>
        r\<lparr>jrJob := (jrJob r)\<lparr>jOrderType := jOrderType j, jCategoryID := category, jOpenToAny := jOpenToAny j,
              jTitle := jTitle j, jDescription := jDescription j, jParams := jParams j, jPhotos := jPhotos j,
              jGeo := map_option (dbPoint v) (jGeo j), jAddress := jAddress j, jAccess := jAccess j,
              jDateMode := jDateMode j, jDateStart := map_option stamp (jDateStart j),
              jDateEnd := map_option stamp (jDateEnd j), jBudgetAmount := jBudgetAmount j, jCurrency := jCurrency j,
              jMode := jMode j, jWorkersCount := jWorkersCount j, jStatus := jStatus j, jDraftStep := jDraftStep j,
              jPublishedAt := map_option stamp (jPublishedAt j), jUpdatedAt := stamp (jUpdatedAt j)\<rparr>,
          jrDurationH := dur, jrEndsAt := map_option stamp ends, jrReserve := reserve, jrAutoExtend := ext,
          jrDecisionH := decision\<rparr>)"

text \<open>What the columns that INSERT leaves out hold: the defaults of the table.\<close>

definition blank_row :: "Job \<Rightarrow> string \<Rightarrow> string \<Rightarrow> job_row" where
  "blank_row j i client =
     \<lparr>jrJob = j\<lparr>jID := i, jClientID := client, jAuction := None, jViewsCount := 0, jOffersCount := 0,
        jWinnerBidID := None, jDecisionDeadline := None, jCreatedAt := stamp (jCreatedAt j), jDistanceM := None\<rparr>,
      jrDurationH = None, jrEndsAt = None, jrReserve = None, jrAutoExtend = True, jrDecisionH = 12\<rparr>"

definition insert_values :: "database \<Rightarrow> Job \<Rightarrow> job_row option" where
  "insert_values v j =
     (case (dbUuid v (jID j), dbUuid v (jClientID j), nullable_uuid (dbUuid v) (jCategoryID j)) of
        (Some i, Some client, Some category) \<Rightarrow>
          if job_types j then Some (set_columns v j category (blank_row j i client)) else None
      | _ \<Rightarrow> None)"

definition update_values :: "database \<Rightarrow> Job \<Rightarrow> (job_row \<Rightarrow> job_row) option" where
  "update_values v j =
     (case (nullable_uuid (dbUuid v) (jCategoryID j), nullable_uuid (dbUuid v) (jWinnerBidID j)) of
        (Some category, Some winner) \<Rightarrow>
          if job_types j
          then Some (\<lambda>r. let r = set_columns v j category r
                 in r\<lparr>jrJob := (jrJob r)\<lparr>jWinnerBidID := winner,
                        jDecisionDeadline := map_option stamp (jDecisionDeadline j)\<rparr>\<rparr>)
          else None
      | _ \<Rightarrow> None)"

text \<open>The row read back: an auction when one of three columns says so.\<close>

definition scan_job :: "job_row \<Rightarrow> Job" where
  "scan_job r =
     (jrJob r)\<lparr>jAuction :=
        (if jrDurationH r \<noteq> None \<or> jrReserve r \<noteq> None \<or> jrEndsAt r \<noteq> None
         then Some \<lparr>aDurationH = (case jrDurationH r of None \<Rightarrow> 0 | Some n \<Rightarrow> n), aEndsAt = jrEndsAt r,
                aReserveAmount = jrReserve r, aAutoExtend = jrAutoExtend r, aDecisionWindowH = jrDecisionH r\<rparr>
         else None)\<rparr>"


section \<open>The state\<close>

record idemp_row =
  irKey :: string
  irUser :: string
  irEndpoint :: string
  irJob :: "string option"

text \<open>The tables of the service. Marks of busy days are kept by owner and day; messages, disputes and complaints by
  identifier, without the order of arrival.\<close>

record Pg =
  t_jobs :: "job_row sql_table"
  t_offers :: "Offer sql_table"
  t_deals :: "Deal sql_table"
  t_bids :: "Bid sql_table"
  t_chats :: "Chat sql_table"
  t_messages :: "Message sql_table"
  t_reviews :: "Review sql_table"
  t_disputes :: "Dispute sql_table"
  t_complaints :: "Complaint sql_table"
  t_views :: "(string \<times> string) list"
  t_idemp :: "idemp_row sql_table"
  t_busy :: "((string \<times> int) \<times> message) list"

definition has_job :: "Pg \<Rightarrow> string \<Rightarrow> bool" where
  "has_job s i \<longleftrightarrow> map_of (t_jobs s) i \<noteq> None"


section \<open>The methods\<close>

definition pg_Create :: "database \<Rightarrow> Job \<Rightarrow> Pg \<Rightarrow> err pg_fault + Pg" where
  "pg_Create v j s =
     unhandled (map_sum id (\<lambda>t. s\<lparr>t_jobs := t\<rparr>)
       (insert_into jr_id (\<lambda>_ _. False) job_check (insert_values v j) (t_jobs s)))"

definition pg_Update :: "database \<Rightarrow> Job \<Rightarrow> Pg \<Rightarrow> err pg_fault + Pg" where
  "pg_Update v j s =
     with_uuid (dbUuid v) (jID j) (\<lambda>i.
       affected ErrNotFound (map_sum id (\<lambda>(n, t). (n, s\<lparr>t_jobs := t\<rparr>))
         (update_where_id (\<lambda>_ _. False) job_check i (update_values v j) (t_jobs s))))"

definition pg_ByID :: "database \<Rightarrow> string \<Rightarrow> Pg \<Rightarrow> err pg_fault + Job" where
  "pg_ByID v i s =
     with_uuid (dbUuid v) i (\<lambda>i. known (or_err (map_option scan_job (map_of (t_jobs s) i)) ErrNotFound))"

text \<open>Rows of jobs, read one by one.\<close>

definition jobs_where :: "(string \<Rightarrow> nat) \<Rightarrow> (Job \<Rightarrow> bool) \<Rightarrow> (Job \<Rightarrow> Job \<Rightarrow> bool) \<Rightarrow> Pg \<Rightarrow> Job list" where
  "jobs_where rank p lt s =
     map scan_job (select_from rank (\<lambda>r. p (scan_job r)) (\<lambda>x y. lt (scan_job x) (scan_job y)) (t_jobs s))"

definition pg_ListByClient :: "database \<Rightarrow> (string \<Rightarrow> nat) \<Rightarrow> string \<Rightarrow> int \<Rightarrow> int \<Rightarrow> Pg \<Rightarrow> err pg_fault + Job list" where
  "pg_ListByClient v rank clientID limit offset s =
     with_uuid (dbUuid v) clientID (\<lambda>c.
       limit_offset limit offset (jobs_where rank (\<lambda>j. jClientID j = c) newer_job s))"

definition pg_DueJobs :: "(string \<Rightarrow> nat) \<Rightarrow> time \<Rightarrow> Pg \<Rightarrow> err pg_fault + Job list" where
  "pg_DueJobs rank now s =
     (let now = stamp now;
          late = (\<lambda>x. case x of None \<Rightarrow> False | Some t \<Rightarrow> t \<le> now);
          due = (\<lambda>j. jStatus j = StatusBidding \<and> late (endsAt j)
                   \<or> jStatus j = StatusDeciding \<and> late (jDecisionDeadline j)
                   \<or> jStatus j = StatusWorkDone
                     \<and> (\<exists>d \<in> set (gvals (t_deals s)). dJobID d = jID j \<and> dStatus d = DealWorkDone
                          \<and> late (dAcceptanceDeadline d)))
      in limit_offset 100 0 (jobs_where rank due older_job s))"

text \<open>A view is inserted once; the counter is a second statement.\<close>

definition pg_AddView :: "database \<Rightarrow> string \<Rightarrow> string \<Rightarrow> Pg \<Rightarrow> err pg_fault + bool \<times> Pg" where
  "pg_AddView v jobID viewerID s =
     with_uuid (dbUuid v) jobID (\<lambda>i. with_uuid (dbUuid v) viewerID (\<lambda>w.
       case map_of (t_jobs s) i of
         None \<Rightarrow> Inl Broken
       | Some r \<Rightarrow>
           if (i, w) \<in> set (t_views s) then Inr (False, s)
           else let n = jViewsCount (jrJob r) + 1
                in if \<not> int4 n then Inl Broken
                   else Inr (True, s\<lparr>t_views := t_views s @ [(i, w)],
                          t_jobs := AList.update i (r\<lparr>jrJob := (jrJob r)\<lparr>jViewsCount := n\<rparr>\<rparr>) (t_jobs s)\<rparr>)))"

definition pg_FindIdempotent :: "database \<Rightarrow> string \<Rightarrow> string \<Rightarrow> string \<Rightarrow> Pg \<Rightarrow> err pg_fault + string option" where
  "pg_FindIdempotent v key userID endpoint s =
     with_uuid (dbUuid v) userID (\<lambda>w.
       if \<not> plain_string key \<or> \<not> plain_string endpoint then Inl Broken
       else Inr (case map_of (t_idemp s) key of
              None \<Rightarrow> None
            | Some r \<Rightarrow> if irUser r = w \<and> irEndpoint r = endpoint
                        then Some (case irJob r of None \<Rightarrow> '''' | Some j \<Rightarrow> j) else None))"

text \<open>\<^verbatim>\<open>ON CONFLICT (key) DO NOTHING\<close>: the first row under a key stays, whoever wrote it.\<close>

definition pg_SaveIdempotent :: "database \<Rightarrow> string \<Rightarrow> string \<Rightarrow> string \<Rightarrow> string \<Rightarrow> Pg \<Rightarrow> err pg_fault + Pg" where
  "pg_SaveIdempotent v key userID endpoint jobID s =
     with_uuid (dbUuid v) userID (\<lambda>w. with_uuid (dbUuid v) jobID (\<lambda>j.
       if \<not> plain_string key \<or> \<not> plain_string endpoint then Inl Broken
       else if map_of (t_idemp s) key \<noteq> None then Inr s
       else Inr (s\<lparr>t_idemp := AList.update key \<lparr>irKey = key, irUser = w, irEndpoint = endpoint, irJob = Some j\<rparr>
              (t_idemp s)\<rparr>)))"

end
