(* ===== verification/Postgres_Deals.thy ===== *)
theory Postgres_Deals
  imports Postgres_Jobs
begin

text \<open>
  The Postgres tables of bids, offers, deals and reviews (\<^verbatim>\<open>bids_postgres.go\<close>, \<^verbatim>\<open>offers_postgres.go\<close>,
  \<^verbatim>\<open>deals_postgres.go\<close>, \<^verbatim>\<open>reviews_postgres.go\<close>; migrations 000002, 000003, 000004, 000006). A row is the Go record
  without the fields that no column holds, which read as their zero values.
\<close>

section \<open>Bids\<close>

definition bid_check :: "Pg \<Rightarrow> Bid \<Rightarrow> bool" where
  "bid_check s b \<longleftrightarrow> bPrice b > 0 \<and> has_job s (bJobID b)"

definition bid_values :: "database \<Rightarrow> Bid \<Rightarrow> Bid option" where
  "bid_values v b =
     (case (dbUuid v (bID b), dbUuid v (bJobID b), dbUuid v (bOwnerID b), nullable_uuid (dbUuid v) (bUnitID b)) of
        (Some i, Some j, Some w, Some u) \<Rightarrow>
          if plain_text (bComment b) \<and> plain_string (bCurrency b)
          then Some (b\<lparr>bID := i, bJobID := j, bOwnerID := w, bUnitID := u, bScore := None,
                 bCreatedAt := stamp (bCreatedAt b), bUpdatedAt := stamp (bUpdatedAt b), bRank := 0\<rparr>)
          else None
      | _ \<Rightarrow> None)"

definition bid_sets :: "database \<Rightarrow> Bid \<Rightarrow> (Bid \<Rightarrow> Bid) option" where
  "bid_sets v b =
     (case nullable_uuid (dbUuid v) (bUnitID b) of
        None \<Rightarrow> None
      | Some u \<Rightarrow>
          if plain_text (bComment b)
          then Some (\<lambda>r. r\<lparr>bPrice := bPrice b, bComment := bComment b, bUnitID := u, bStatus := bStatus b,
                 bScore := bScore b, bUpdatedAt := stamp (bUpdatedAt b)\<rparr>)
          else None)"

definition pg_CreateBid :: "database \<Rightarrow> Bid \<Rightarrow> Pg \<Rightarrow> err pg_fault + Pg" where
  "pg_CreateBid v b s =
     unique_as ErrBidNotActive (map_sum id (\<lambda>t. s\<lparr>t_bids := t\<rparr>)
       (insert_into bID bid_clash (bid_check s) (bid_values v b) (t_bids s)))"

definition pg_UpdateBid :: "database \<Rightarrow> Bid \<Rightarrow> Pg \<Rightarrow> err pg_fault + Pg" where
  "pg_UpdateBid v b s =
     with_uuid (dbUuid v) (bID b) (\<lambda>i.
       affected ErrBidNotFound (map_sum id (\<lambda>(n, t). (n, s\<lparr>t_bids := t\<rparr>))
         (update_where_id bid_clash (bid_check s) i (bid_sets v b) (t_bids s))))"

definition pg_BidByID :: "database \<Rightarrow> string \<Rightarrow> Pg \<Rightarrow> err pg_fault + Bid" where
  "pg_BidByID v i s = with_uuid (dbUuid v) i (\<lambda>i. known (or_err (map_of (t_bids s) i) ErrBidNotFound))"

definition pg_BidsByJob :: "database \<Rightarrow> (string \<Rightarrow> nat) \<Rightarrow> string \<Rightarrow> Pg \<Rightarrow> err pg_fault + Bid list" where
  "pg_BidsByJob v rank jobID s =
     with_uuid (dbUuid v) jobID (\<lambda>j. Inr (select_from rank (\<lambda>b. bJobID b = j) bid_before (t_bids s)))"

definition pg_BidsByOwner :: "database \<Rightarrow> (string \<Rightarrow> nat) \<Rightarrow> string \<Rightarrow> int \<Rightarrow> int \<Rightarrow> Pg \<Rightarrow> err pg_fault + Bid list" where
  "pg_BidsByOwner v rank ownerID limit offset s =
     with_uuid (dbUuid v) ownerID (\<lambda>w.
       limit_offset limit offset (select_from rank (\<lambda>b. bOwnerID b = w) newer_bid (t_bids s)))"

text \<open>\<^verbatim>\<open>ORDER BY price ASC, created_at ASC LIMIT 1\<close>\<close>

definition pg_BestBid :: "database \<Rightarrow> (string \<Rightarrow> nat) \<Rightarrow> string \<Rightarrow> Pg \<Rightarrow> err pg_fault + Bid" where
  "pg_BestBid v rank jobID s =
     with_uuid (dbUuid v) jobID (\<lambda>j. first_row ErrBidNotFound
       (select_from rank (\<lambda>b. bJobID b = j \<and> bStatus b = BidActive) cheaper_bid (t_bids s)))"

definition pg_MyBidForJob :: "database \<Rightarrow> (string \<Rightarrow> nat) \<Rightarrow> string \<Rightarrow> string \<Rightarrow> Pg \<Rightarrow> err pg_fault + Bid" where
  "pg_MyBidForJob v rank jobID ownerID s =
     with_uuid (dbUuid v) jobID (\<lambda>j. with_uuid (dbUuid v) ownerID (\<lambda>w. first_row ErrBidNotFound
       (select_from rank (\<lambda>b. bJobID b = j \<and> bOwnerID b = w) newer_bid (t_bids s))))"


section \<open>Offers\<close>

definition offer_check :: "Pg \<Rightarrow> Offer \<Rightarrow> bool" where
  "offer_check s x \<longleftrightarrow> (oKind x = OfferAccept \<or> oKind x = OfferCounter) \<and> oPrice x > 0 \<and> has_job s (oJobID x)
     \<and> (case oClientCounterPrice x of None \<Rightarrow> True | Some p \<Rightarrow> p > 0)"

definition offer_values :: "database \<Rightarrow> Offer \<Rightarrow> Offer option" where
  "offer_values v x =
     (case (dbUuid v (oID x), dbUuid v (oJobID x), dbUuid v (oOwnerID x), nullable_uuid (dbUuid v) (oUnitID x)) of
        (Some i, Some j, Some w, Some u) \<Rightarrow>
          if plain_text (oComment x) \<and> plain_text (oETA x) \<and> plain_string (oCurrency x)
          then Some (x\<lparr>oID := i, oJobID := j, oOwnerID := w, oUnitID := u, oDeclineReason := [],
                 oClientCounterPrice := None, oClientCounterAt := None,
                 oCreatedAt := stamp (oCreatedAt x), oUpdatedAt := stamp (oUpdatedAt x)\<rparr>)
          else None
      | _ \<Rightarrow> None)"

definition offer_sets :: "database \<Rightarrow> Offer \<Rightarrow> (Offer \<Rightarrow> Offer) option" where
  "offer_sets v x =
     (case nullable_uuid (dbUuid v) (oUnitID x) of
        None \<Rightarrow> None
      | Some u \<Rightarrow>
          if plain_text (oComment x) \<and> plain_text (oETA x) \<and> plain_message (oDeclineReason x)
          then Some (\<lambda>r. r\<lparr>oKind := oKind x, oPrice := oPrice x, oComment := oComment x, oETA := oETA x, oUnitID := u,
                 oStatus := oStatus x, oDeclineReason := oDeclineReason x,
                 oClientCounterPrice := oClientCounterPrice x,
                 oClientCounterAt := map_option stamp (oClientCounterAt x), oUpdatedAt := stamp (oUpdatedAt x)\<rparr>)
          else None)"

text \<open>The counter of the job, counted anew from the rows.\<close>

definition recountOffers :: "database \<Rightarrow> string \<Rightarrow> Pg \<Rightarrow> err pg_fault + Pg" where
  "recountOffers v jobID s =
     with_uuid (dbUuid v) jobID (\<lambda>j.
       Inr (case map_of (t_jobs s) j of
              None \<Rightarrow> s
            | Some r \<Rightarrow>
                let n = int (length (filter (\<lambda>x. oJobID x = j \<and> isCountable (oStatus x)) (gvals (t_offers s))))
                in s\<lparr>t_jobs := AList.update j (r\<lparr>jrJob := (jrJob r)\<lparr>jOffersCount := n\<rparr>\<rparr>) (t_jobs s)\<rparr>))"

definition pg_CreateOffer :: "database \<Rightarrow> Offer \<Rightarrow> Pg \<Rightarrow> err pg_fault + Pg" where
  "pg_CreateOffer v x s =
     (case unique_as ErrOfferExists (map_sum id (\<lambda>t. s\<lparr>t_offers := t\<rparr>)
             (insert_into oID offer_clash (offer_check s) (offer_values v x) (t_offers s))) of
        Inl f \<Rightarrow> Inl f
      | Inr s \<Rightarrow> recountOffers v (oJobID x) s)"

definition pg_UpdateOffer :: "database \<Rightarrow> Offer \<Rightarrow> Pg \<Rightarrow> err pg_fault + Pg" where
  "pg_UpdateOffer v x s =
     with_uuid (dbUuid v) (oID x) (\<lambda>i.
       case affected ErrOfferNotFound (map_sum id (\<lambda>(n, t). (n, s\<lparr>t_offers := t\<rparr>))
              (update_where_id offer_clash (offer_check s) i (offer_sets v x) (t_offers s))) of
         Inl f \<Rightarrow> Inl f
       | Inr s \<Rightarrow> recountOffers v (oJobID x) s)"

definition pg_OfferByID :: "database \<Rightarrow> string \<Rightarrow> Pg \<Rightarrow> err pg_fault + Offer" where
  "pg_OfferByID v i s = with_uuid (dbUuid v) i (\<lambda>i. known (or_err (map_of (t_offers s) i) ErrOfferNotFound))"

definition pg_OffersByJob :: "database \<Rightarrow> (string \<Rightarrow> nat) \<Rightarrow> string \<Rightarrow> Pg \<Rightarrow> err pg_fault + Offer list" where
  "pg_OffersByJob v rank jobID s =
     with_uuid (dbUuid v) jobID (\<lambda>j. Inr (select_from rank (\<lambda>x. oJobID x = j) offer_before (t_offers s)))"

definition pg_OffersByOwner :: "database \<Rightarrow> (string \<Rightarrow> nat) \<Rightarrow> string \<Rightarrow> int \<Rightarrow> int \<Rightarrow> Pg \<Rightarrow> err pg_fault + Offer list" where
  "pg_OffersByOwner v rank ownerID limit offset s =
     with_uuid (dbUuid v) ownerID (\<lambda>w.
       limit_offset limit offset (select_from rank (\<lambda>x. oOwnerID x = w) newer_offer (t_offers s)))"

definition pg_MyOfferForJob :: "database \<Rightarrow> (string \<Rightarrow> nat) \<Rightarrow> string \<Rightarrow> string \<Rightarrow> Pg \<Rightarrow> err pg_fault + Offer" where
  "pg_MyOfferForJob v rank jobID ownerID s =
     with_uuid (dbUuid v) jobID (\<lambda>j. with_uuid (dbUuid v) ownerID (\<lambda>w. first_row ErrOfferNotFound
       (select_from rank (\<lambda>x. oJobID x = j \<and> oOwnerID x = w) newer_offer (t_offers s))))"


section \<open>Deals\<close>

text \<open>The timeline is \<^verbatim>\<open>jsonb\<close>, its instants texts with nanoseconds.\<close>

definition deal_check :: "Pg \<Rightarrow> Deal \<Rightarrow> bool" where
  "deal_check s d \<longleftrightarrow> dPrice d > 0 \<and> has_job s (dJobID d) \<and> (case dStatus d of DealStatusOther _ \<Rightarrow> False | _ \<Rightarrow> True)"

definition timeline_fits :: "TimelineEvent list \<Rightarrow> bool" where
  "timeline_fits es \<longleftrightarrow> list_all (\<lambda>x. plain_string (tByID x) \<and> plain_message (tNote x)) es"

definition deal_values :: "database \<Rightarrow> Deal \<Rightarrow> Deal option" where
  "deal_values v d =
     (case (dbUuid v (dID d), dbUuid v (dJobID d), nullable_uuid (dbUuid v) (dOfferID d), dbUuid v (dClientID d),
            dbUuid v (dOwnerID d)) of
        (Some i, Some j, Some x, Some c, Some w) \<Rightarrow>
          if timeline_fits (dTimeline d) \<and> plain_string (dCurrency d)
          then Some (d\<lparr>dID := i, dJobID := j, dOfferID := x, dClientID := c, dOwnerID := w,
                 dAcceptanceDeadline := map_option stamp (dAcceptanceDeadline d), dCancelReason := [],
                 dCancelledBy := None, dCreatedAt := stamp (dCreatedAt d), dUpdatedAt := stamp (dUpdatedAt d),
                 dClosedAt := None, dJobTitle := []\<rparr>)
          else None
      | _ \<Rightarrow> None)"

definition deal_sets :: "database \<Rightarrow> Deal \<Rightarrow> (Deal \<Rightarrow> Deal) option" where
  "deal_sets v d =
     (case nullable_uuid (dbUuid v) (dCancelledBy d) of
        None \<Rightarrow> None
      | Some w \<Rightarrow>
          if timeline_fits (dTimeline d) \<and> plain_message (dCancelReason d)
          then Some (\<lambda>r. r\<lparr>dStatus := dStatus d, dTimeline := dTimeline d,
                 dAcceptanceDeadline := map_option stamp (dAcceptanceDeadline d), dCancelReason := dCancelReason d,
                 dCancelledBy := w, dUpdatedAt := stamp (dUpdatedAt d), dClosedAt := map_option stamp (dClosedAt d)\<rparr>)
          else None)"

definition pg_CreateDeal :: "database \<Rightarrow> Deal \<Rightarrow> Pg \<Rightarrow> err pg_fault + Pg" where
  "pg_CreateDeal v d s =
     unique_as ErrDealStep (map_sum id (\<lambda>t. s\<lparr>t_deals := t\<rparr>)
       (insert_into dID deal_clash (deal_check s) (deal_values v d) (t_deals s)))"

definition pg_UpdateDeal :: "database \<Rightarrow> Deal \<Rightarrow> Pg \<Rightarrow> err pg_fault + Pg" where
  "pg_UpdateDeal v d s =
     with_uuid (dbUuid v) (dID d) (\<lambda>i.
       affected ErrDealNotFound (map_sum id (\<lambda>(n, t). (n, s\<lparr>t_deals := t\<rparr>))
         (update_where_id deal_clash (deal_check s) i (deal_sets v d) (t_deals s))))"

definition pg_DealByID :: "database \<Rightarrow> string \<Rightarrow> Pg \<Rightarrow> err pg_fault + Deal" where
  "pg_DealByID v i s = with_uuid (dbUuid v) i (\<lambda>i. known (or_err (map_of (t_deals s) i) ErrDealNotFound))"

definition pg_DealByJob :: "database \<Rightarrow> (string \<Rightarrow> nat) \<Rightarrow> string \<Rightarrow> Pg \<Rightarrow> err pg_fault + Deal" where
  "pg_DealByJob v rank jobID s =
     with_uuid (dbUuid v) jobID (\<lambda>j. first_row ErrDealNotFound (filter (\<lambda>d. dJobID d = j) (grange rank (t_deals s))))"

definition pg_DealsByUser :: "database \<Rightarrow> (string \<Rightarrow> nat) \<Rightarrow> string \<Rightarrow> int \<Rightarrow> int \<Rightarrow> Pg \<Rightarrow> err pg_fault + Deal list" where
  "pg_DealsByUser v rank userID limit offset s =
     with_uuid (dbUuid v) userID (\<lambda>w.
       limit_offset limit offset
         (select_from rank (\<lambda>d. dClientID d = w \<or> dOwnerID d = w) newer_deal (t_deals s)))"


section \<open>Reviews\<close>

definition review_check :: "Pg \<Rightarrow> Review \<Rightarrow> bool" where
  "review_check s r \<longleftrightarrow> rAuthorRole r \<in> {''client'', ''owner''} \<and> 1 \<le> rStars r \<and> rStars r \<le> 5
     \<and> map_of (t_deals s) (rDealID r) \<noteq> None \<and> has_job s (rJobID r)"

definition review_values :: "database \<Rightarrow> Review \<Rightarrow> Review option" where
  "review_values v r =
     (case (dbUuid v (rID r), dbUuid v (rDealID r), dbUuid v (rJobID r), dbUuid v (rAuthorID r), dbUuid v (rTargetID r)) of
        (Some i, Some d, Some j, Some a, Some t) \<Rightarrow>
          if list_all plain_text (rTags r) \<and> plain_text (rText r) \<and> plain_text (rIssue r)
          then Some (r\<lparr>rID := i, rDealID := d, rJobID := j, rAuthorID := a, rTargetID := t, rReplyText := [],
                 rReplyAt := None, rPublishedAt := map_option stamp (rPublishedAt r), rCreatedAt := stamp (rCreatedAt r)\<rparr>)
          else None
      | _ \<Rightarrow> None)"

definition review_sets :: "Review \<Rightarrow> (Review \<Rightarrow> Review) option" where
  "review_sets r =
     (if plain_text (rReplyText r)
      then Some (\<lambda>x. x\<lparr>rReplyText := rReplyText r, rReplyAt := map_option stamp (rReplyAt r),
             rPublishedAt := map_option stamp (rPublishedAt r)\<rparr>)
      else None)"

definition pg_CreateReview :: "database \<Rightarrow> Review \<Rightarrow> Pg \<Rightarrow> err pg_fault + Pg" where
  "pg_CreateReview v r s =
     unique_as ErrReviewTwice (map_sum id (\<lambda>t. s\<lparr>t_reviews := t\<rparr>)
       (insert_into rID review_clash (review_check s) (review_values v r) (t_reviews s)))"

definition pg_UpdateReview :: "database \<Rightarrow> Review \<Rightarrow> Pg \<Rightarrow> err pg_fault + Pg" where
  "pg_UpdateReview v r s =
     with_uuid (dbUuid v) (rID r) (\<lambda>i.
       affected ErrReviewNotFound (map_sum id (\<lambda>(n, t). (n, s\<lparr>t_reviews := t\<rparr>))
         (update_where_id review_clash (review_check s) i (review_sets r) (t_reviews s))))"

definition pg_ReviewByID :: "database \<Rightarrow> string \<Rightarrow> Pg \<Rightarrow> err pg_fault + Review" where
  "pg_ReviewByID v i s = with_uuid (dbUuid v) i (\<lambda>i. known (or_err (map_of (t_reviews s) i) ErrReviewNotFound))"

definition pg_ReviewsByDeal :: "database \<Rightarrow> (string \<Rightarrow> nat) \<Rightarrow> string \<Rightarrow> Pg \<Rightarrow> err pg_fault + Review list" where
  "pg_ReviewsByDeal v rank dealID s =
     with_uuid (dbUuid v) dealID (\<lambda>d. Inr (select_from rank (\<lambda>r. rDealID r = d) byCreated (t_reviews s)))"

text \<open>Published reviews by the time of their publication; the in-memory store takes the time they were written.\<close>

definition later_published :: "Review \<Rightarrow> Review \<Rightarrow> bool" where
  "later_published x y \<longleftrightarrow>
     (case (rPublishedAt x, rPublishedAt y) of (Some a, Some b) \<Rightarrow> a > b | _ \<Rightarrow> False)"

definition pg_ReviewsAbout :: "database \<Rightarrow> (string \<Rightarrow> nat) \<Rightarrow> string \<Rightarrow> int \<Rightarrow> int \<Rightarrow> Pg \<Rightarrow> err pg_fault + Review list" where
  "pg_ReviewsAbout v rank userID limit offset s =
     with_uuid (dbUuid v) userID (\<lambda>w.
       limit_offset limit offset
         (select_from rank (\<lambda>r. rTargetID r = w \<and> rPublishedAt r \<noteq> None) later_published (t_reviews s)))"

definition pg_ReviewsByAuthor :: "database \<Rightarrow> (string \<Rightarrow> nat) \<Rightarrow> string \<Rightarrow> int \<Rightarrow> int \<Rightarrow> Pg \<Rightarrow> err pg_fault + Review list" where
  "pg_ReviewsByAuthor v rank userID limit offset s =
     with_uuid (dbUuid v) userID (\<lambda>w.
       limit_offset limit offset (select_from rank (\<lambda>r. rAuthorID r = w) byCreatedDesc (t_reviews s)))"

text \<open>\<^verbatim>\<open>AVG(stars)\<close> is the parameter \<open>dbAvg\<close>, of no rows zero by COALESCE; Go rounds it to a tenth.\<close>

definition pg_RatingOf :: "database \<Rightarrow> string \<Rightarrow> time \<Rightarrow> Pg \<Rightarrow> err pg_fault + RatingSummary" where
  "pg_RatingOf v userID since s =
     with_uuid (dbUuid v) userID (\<lambda>w.
       let rs = filter (\<lambda>r. rTargetID r = w \<and> rPublishedAt r \<noteq> None \<and> rCreatedAt r \<ge> stamp since) (gvals (t_reviews s));
           avg = (if rs = [] then 0 else dbAvg v (map rStars rs))
       in Inr \<lparr>rsUserID = userID, rsRating = fdiv (f64 (trunc (fadd (fmul avg (f64 10)) (1/2)))) (f64 10),
            rsCount = int (length rs)\<rparr>)"

definition pg_DueReviews :: "(string \<Rightarrow> nat) \<Rightarrow> time \<Rightarrow> Pg \<Rightarrow> err pg_fault + Review list" where
  "pg_DueReviews rank before s =
     limit_offset 200 0
       (select_from rank (\<lambda>r. rPublishedAt r = None \<and> rCreatedAt r \<le> stamp before) byCreated (t_reviews s))"

end
