(* ===== verification/Postgres_Queues.thy ===== *)
theory Postgres_Queues
  imports Postgres_Deals
begin

text \<open>
  The Postgres tables of disputes, complaints and chats (\<^verbatim>\<open>disputes_postgres.go\<close>, \<^verbatim>\<open>complaints_postgres.go\<close> with the
  summary of the platform, \<^verbatim>\<open>chats_postgres.go\<close>; migrations 000005, 000008, 000009). The queues have no column for the
  order of arrival: rows of one instant come in any order.
\<close>

section \<open>Disputes\<close>

text \<open>An empty text becomes NULL, which is read back as the empty text; \<^verbatim>\<open>nullable\<close>, \<^verbatim>\<open>nullableOutcome\<close>,
  \<^verbatim>\<open>nullableAction\<close>.\<close>

definition nullable :: "uuids \<Rightarrow> string \<Rightarrow> string option" where
  "nullable u s = (if s = '''' then Some '''' else u s)"

definition dispute_check :: "Pg \<Rightarrow> Dispute \<Rightarrow> bool" where
  "dispute_check s d \<longleftrightarrow> map_of (t_deals s) (pDealID d) \<noteq> None \<and> has_job s (pJobID d)
     \<and> (case pOutcome d of OutcomeOther x \<Rightarrow> x = '''' | _ \<Rightarrow> True)"

definition dispute_values :: "database \<Rightarrow> Dispute \<Rightarrow> Dispute option" where
  "dispute_values v d =
     (case (dbUuid v (pID d), dbUuid v (pDealID d), dbUuid v (pJobID d), dbUuid v (pOpenedBy d), dbUuid v (pClientID d),
            dbUuid v (pOwnerID d)) of
        (Some i, Some k, Some j, Some b, Some c, Some w) \<Rightarrow>
          if plain_text (pReason d) \<and> list_all plain_string (pPhotos d)
          then Some (d\<lparr>pID := i, pDealID := k, pJobID := j, pOpenedBy := b, pClientID := c, pOwnerID := w,
                 pOutcome := OutcomeOther '''', pResolution := [], pResolvedBy := '''', pResolvedAt := None,
                 pCreatedAt := stamp (pCreatedAt d), pJobTitle := []\<rparr>)
          else None
      | _ \<Rightarrow> None)"

definition dispute_sets :: "database \<Rightarrow> Dispute \<Rightarrow> (Dispute \<Rightarrow> Dispute) option" where
  "dispute_sets v d =
     (case nullable (dbUuid v) (pResolvedBy d) of
        None \<Rightarrow> None
      | Some w \<Rightarrow>
          if plain_text (pResolution d)
          then Some (\<lambda>r. r\<lparr>pStatus := pStatus d, pOutcome := pOutcome d, pResolution := pResolution d, pResolvedBy := w,
                 pResolvedAt := map_option stamp (pResolvedAt d)\<rparr>)
          else None)"

definition pg_CreateDispute :: "database \<Rightarrow> Dispute \<Rightarrow> Pg \<Rightarrow> err pg_fault + Pg" where
  "pg_CreateDispute v d s =
     unique_as ErrDisputeExists (map_sum id (\<lambda>t. s\<lparr>t_disputes := t\<rparr>)
       (insert_into pID dispute_clash (dispute_check s) (dispute_values v d) (t_disputes s)))"

definition pg_UpdateDispute :: "database \<Rightarrow> Dispute \<Rightarrow> Pg \<Rightarrow> err pg_fault + Pg" where
  "pg_UpdateDispute v d s =
     with_uuid (dbUuid v) (pID d) (\<lambda>i.
       affected ErrDisputeNotFound (map_sum id (\<lambda>(n, t). (n, s\<lparr>t_disputes := t\<rparr>))
         (update_where_id dispute_clash (dispute_check s) i (dispute_sets v d) (t_disputes s))))"

definition pg_DisputeByID :: "database \<Rightarrow> string \<Rightarrow> Pg \<Rightarrow> err pg_fault + Dispute" where
  "pg_DisputeByID v i s = with_uuid (dbUuid v) i (\<lambda>i. known (or_err (map_of (t_disputes s) i) ErrDisputeNotFound))"

definition pg_DisputeByDeal :: "database \<Rightarrow> (string \<Rightarrow> nat) \<Rightarrow> string \<Rightarrow> Pg \<Rightarrow> err pg_fault + Dispute" where
  "pg_DisputeByDeal v rank dealID s =
     with_uuid (dbUuid v) dealID (\<lambda>k.
       first_row ErrDisputeNotFound (select_from rank (\<lambda>d. pDealID d = k) newer_dispute (t_disputes s)))"

text \<open>\<^verbatim>\<open>JOIN orders.jobs\<close>: the title of a job that is there.\<close>

definition job_title :: "Pg \<Rightarrow> string \<Rightarrow> runes" where
  "job_title s i = (case map_of (t_jobs s) i of None \<Rightarrow> [] | Some r \<Rightarrow> jTitle (jrJob r))"

definition pg_OpenDisputes :: "(string \<Rightarrow> nat) \<Rightarrow> int \<Rightarrow> Pg \<Rightarrow> err pg_fault + Dispute list" where
  "pg_OpenDisputes rank limit s =
     limit_offset limit 0
       (map (\<lambda>d. d\<lparr>pJobTitle := job_title s (pJobID d)\<rparr>)
         (select_from rank (\<lambda>d. pStatus d = DisputeOpen \<and> has_job s (pJobID d))
            (\<lambda>x y. pCreatedAt x < pCreatedAt y) (t_disputes s)))"


section \<open>Complaints\<close>

definition complaint_check :: "Complaint \<Rightarrow> bool" where
  "complaint_check c \<longleftrightarrow> cTargetKind c \<in> {''job'', ''user''}
     \<and> (case cAction c of ActionOther x \<Rightarrow> x = '''' | _ \<Rightarrow> True)"

definition complaint_values :: "database \<Rightarrow> Complaint \<Rightarrow> Complaint option" where
  "complaint_values v c =
     (case (dbUuid v (cID c), dbUuid v (cTargetID c), dbUuid v (cAuthorID c)) of
        (Some i, Some t, Some a) \<Rightarrow>
          if plain_text (cReason c)
          then Some (c\<lparr>cID := i, cTargetID := t, cAuthorID := a, cAction := ActionOther '''', cNote := [],
                 cReviewedBy := '''', cReviewedAt := None, cCreatedAt := stamp (cCreatedAt c), cTargetTitle := [],
                 cSameTarget := 0\<rparr>)
          else None
      | _ \<Rightarrow> None)"

definition complaint_sets :: "database \<Rightarrow> Complaint \<Rightarrow> (Complaint \<Rightarrow> Complaint) option" where
  "complaint_sets v c =
     (case nullable (dbUuid v) (cReviewedBy c) of
        None \<Rightarrow> None
      | Some w \<Rightarrow>
          if plain_text (cNote c)
          then Some (\<lambda>r. r\<lparr>cStatus := cStatus c, cAction := cAction c, cNote := cNote c, cReviewedBy := w,
                 cReviewedAt := map_option stamp (cReviewedAt c)\<rparr>)
          else None)"

definition pg_CreateComplaint :: "database \<Rightarrow> Complaint \<Rightarrow> Pg \<Rightarrow> err pg_fault + Pg" where
  "pg_CreateComplaint v c s =
     unique_as ErrComplaintExists (map_sum id (\<lambda>t. s\<lparr>t_complaints := t\<rparr>)
       (insert_into cID complaint_clash complaint_check (complaint_values v c) (t_complaints s)))"

definition pg_UpdateComplaint :: "database \<Rightarrow> Complaint \<Rightarrow> Pg \<Rightarrow> err pg_fault + Pg" where
  "pg_UpdateComplaint v c s =
     with_uuid (dbUuid v) (cID c) (\<lambda>i.
       affected ErrComplaintNotFound (map_sum id (\<lambda>(n, t). (n, s\<lparr>t_complaints := t\<rparr>))
         (update_where_id complaint_clash complaint_check i (complaint_sets v c) (t_complaints s))))"

definition pg_ComplaintByID :: "database \<Rightarrow> string \<Rightarrow> Pg \<Rightarrow> err pg_fault + Complaint" where
  "pg_ComplaintByID v i s =
     with_uuid (dbUuid v) i (\<lambda>i. known (or_err (map_of (t_complaints s) i) ErrComplaintNotFound))"

text \<open>The queue counts the complaints about the same object; no column of the statement is a title.\<close>

definition pg_OpenComplaints :: "(string \<Rightarrow> nat) \<Rightarrow> int \<Rightarrow> Pg \<Rightarrow> err pg_fault + Complaint list" where
  "pg_OpenComplaints rank limit s =
     limit_offset limit 0
       (map (\<lambda>c. c\<lparr>cSameTarget :=
               int (length (filter (\<lambda>x. cTargetKind x = cTargetKind c \<and> cTargetID x = cTargetID c)
                      (gvals (t_complaints s))))\<rparr>)
         (select_from rank (\<lambda>c. cStatus c = ComplaintOpen) (\<lambda>x y. cCreatedAt x < cCreatedAt y) (t_complaints s)))"

text \<open>A sum of \<^verbatim>\<open>bigint\<close> is exact; the driver refuses one that does not fit 64 bits.\<close>

definition int8 :: "int \<Rightarrow> 'e pg_fault + int" where
  "int8 n = (if in64 n then Inr n else Inl Broken)"

definition pg_between :: "time \<Rightarrow> time \<Rightarrow> time \<Rightarrow> bool" where
  "pg_between from till t \<longleftrightarrow> stamp from \<le> t \<and> t \<le> stamp till"

definition pg_closed :: "time \<Rightarrow> time \<Rightarrow> Deal \<Rightarrow> bool" where
  "pg_closed from till d \<longleftrightarrow> dStatus d = DealCompleted
     \<and> (case dClosedAt d of None \<Rightarrow> False | Some t \<Rightarrow> pg_between from till t)"

definition pg_PlatformStats :: "time \<Rightarrow> time \<Rightarrow> Pg \<Rightarrow> err pg_fault + PlatformStats" where
  "pg_PlatformStats from till s =
     (let done_deals = filter (pg_closed from till) (gvals (t_deals s))
      in case int8 (sum_list (map dPrice done_deals)) of
           Inl f \<Rightarrow> Inl f
         | Inr gmv \<Rightarrow> Inr \<lparr>psFrom = 0, psTo = 0,
             psJobs = int (length (filter (\<lambda>r. pg_between from till (jCreatedAt (jrJob r)) \<and> jStatus (jrJob r) \<noteq> StatusDraft)
               (gvals (t_jobs s)))),
             psDeals = int (length (filter (\<lambda>d. pg_between from till (dCreatedAt d)) (gvals (t_deals s)))),
             psCompleted = int (length done_deals), psGMV = gmv,
             psOpenDisputes = int (length (filter (\<lambda>d. pStatus d = DisputeOpen) (gvals (t_disputes s)))),
             psOpenComplaints = int (length (filter (\<lambda>c. cStatus c = ComplaintOpen) (gvals (t_complaints s)))),
             psUsers = 0\<rparr>)"


section \<open>Chats\<close>

definition chat_values :: "database \<Rightarrow> Chat \<Rightarrow> Chat option" where
  "chat_values v c =
     (case (dbUuid v (hID c), dbUuid v (hJobID c), dbUuid v (hClientID c), dbUuid v (hOwnerID c)) of
        (Some i, Some j, Some k, Some w) \<Rightarrow>
          Some (c\<lparr>hID := i, hJobID := j, hClientID := k, hOwnerID := w, hLastMessageAt := None,
            hCreatedAt := stamp (hCreatedAt c), hUpdatedAt := stamp (hUpdatedAt c), hLastText := [], hUnread := 0,
            hJobTitle := []\<rparr>)
      | _ \<Rightarrow> None)"

definition chat_sets :: "Chat \<Rightarrow> Chat \<Rightarrow> Chat" where
  "chat_sets c r = r\<lparr>hKind := hKind c, hLastMessageAt := map_option stamp (hLastMessageAt c), hUpdatedAt := stamp (hUpdatedAt c)\<rparr>"

definition pg_CreateChat :: "database \<Rightarrow> Chat \<Rightarrow> Pg \<Rightarrow> err pg_fault + Pg" where
  "pg_CreateChat v c s =
     unique_as ErrChatNotFound (map_sum id (\<lambda>t. s\<lparr>t_chats := t\<rparr>)
       (insert_into hID chat_clash (\<lambda>c. has_job s (hJobID c)) (chat_values v c) (t_chats s)))"

definition pg_UpdateChat :: "database \<Rightarrow> Chat \<Rightarrow> Pg \<Rightarrow> err pg_fault + Pg" where
  "pg_UpdateChat v c s =
     with_uuid (dbUuid v) (hID c) (\<lambda>i.
       affected ErrChatNotFound (map_sum id (\<lambda>(n, t). (n, s\<lparr>t_chats := t\<rparr>))
         (update_where_id chat_clash (\<lambda>c. has_job s (hJobID c)) i (Some (chat_sets c)) (t_chats s))))"

definition pg_ChatByID :: "database \<Rightarrow> string \<Rightarrow> Pg \<Rightarrow> err pg_fault + Chat" where
  "pg_ChatByID v i s = with_uuid (dbUuid v) i (\<lambda>i. known (or_err (map_of (t_chats s) i) ErrChatNotFound))"

definition pg_ChatByJobOwner :: "database \<Rightarrow> (string \<Rightarrow> nat) \<Rightarrow> string \<Rightarrow> string \<Rightarrow> Pg \<Rightarrow> err pg_fault + Chat" where
  "pg_ChatByJobOwner v rank jobID ownerID s =
     with_uuid (dbUuid v) jobID (\<lambda>j. with_uuid (dbUuid v) ownerID (\<lambda>w. first_row ErrChatNotFound
       (filter (\<lambda>c. hJobID c = j \<and> hOwnerID c = w) (grange rank (t_chats s)))))"

definition message_values :: "database \<Rightarrow> Message \<Rightarrow> Message option" where
  "message_values v m =
     (case (dbUuid v (mID m), dbUuid v (mChatID m), nullable_uuid (dbUuid v) (mSenderID m)) of
        (Some i, Some c, Some w) \<Rightarrow>
          if list_all (\<lambda>r. dbUuid v r \<noteq> None) (mReadBy m) \<and> plain_message (mText m)
             \<and> (case mMediaURL m of None \<Rightarrow> True | Some x \<Rightarrow> plain_string x)
          then Some (m\<lparr>mID := i, mChatID := c, mSenderID := w, mReadBy := List.map_filter (dbUuid v) (mReadBy m),
                 mCreatedAt := stamp (mCreatedAt m)\<rparr>)
          else None
      | _ \<Rightarrow> None)"

definition pg_CreateMessage :: "database \<Rightarrow> Message \<Rightarrow> Pg \<Rightarrow> err pg_fault + Pg" where
  "pg_CreateMessage v m s =
     unhandled (map_sum id (\<lambda>t. s\<lparr>t_messages := t\<rparr>)
       (insert_into mID (\<lambda>_ _. False) (\<lambda>m. map_of (t_chats s) (mChatID m) \<noteq> None) (message_values v m) (t_messages s)))"

definition newest_message :: "Message \<Rightarrow> Message \<Rightarrow> bool" where
  "newest_message x y \<longleftrightarrow> mCreatedAt x > mCreatedAt y"

definition pg_Messages :: "database \<Rightarrow> (string \<Rightarrow> nat) \<Rightarrow> string \<Rightarrow> int \<Rightarrow> int \<Rightarrow> Pg \<Rightarrow> err pg_fault + Message list" where
  "pg_Messages v rank chatID limit offset s =
     with_uuid (dbUuid v) chatID (\<lambda>c.
       limit_offset limit offset (select_from rank (\<lambda>m. mChatID m = c) newest_message (t_messages s)))"

definition unread_row :: "string \<Rightarrow> string \<Rightarrow> Message \<Rightarrow> bool" where
  "unread_row c w m \<longleftrightarrow> mChatID m = c \<and> w \<notin> set (mReadBy m)
     \<and> (case mSenderID m of None \<Rightarrow> True | Some x \<Rightarrow> x \<noteq> w)"

definition pg_MarkRead :: "database \<Rightarrow> string \<Rightarrow> string \<Rightarrow> Pg \<Rightarrow> err pg_fault + Pg" where
  "pg_MarkRead v chatID userID s =
     with_uuid (dbUuid v) chatID (\<lambda>c. with_uuid (dbUuid v) userID (\<lambda>w.
       Inr (s\<lparr>t_messages :=
         map (\<lambda>(i, m). (i, if unread_row c w m then m\<lparr>mReadBy := mReadBy m @ [w]\<rparr> else m)) (t_messages s)\<rparr>)))"

text \<open>The list of chats with the title of the job, the last text and the count of the unread.\<close>

definition chat_line_row :: "(string \<Rightarrow> nat) \<Rightarrow> string \<Rightarrow> Pg \<Rightarrow> Chat \<Rightarrow> Chat" where
  "chat_line_row rank w s c =
     c\<lparr>hJobTitle := job_title s (hJobID c),
       hLastText := (case select_from rank (\<lambda>m. mChatID m = hID c) newest_message (t_messages s) of
                       [] \<Rightarrow> [] | m # _ \<Rightarrow> mText m),
       hUnread := int (length (filter (unread_row (hID c) w) (gvals (t_messages s))))\<rparr>"

definition livelier_row :: "Chat \<Rightarrow> Chat \<Rightarrow> bool" where
  "livelier_row x y \<longleftrightarrow> livelier_chat x y \<or> (hLastMessageAt x = hLastMessageAt y \<and> hCreatedAt x > hCreatedAt y)"

definition pg_ChatsByUser :: "database \<Rightarrow> (string \<Rightarrow> nat) \<Rightarrow> string \<Rightarrow> int \<Rightarrow> int \<Rightarrow> Pg \<Rightarrow> err pg_fault + Chat list" where
  "pg_ChatsByUser v rank userID limit offset s =
     with_uuid (dbUuid v) userID (\<lambda>w.
       limit_offset limit offset (map (chat_line_row rank w s)
         (select_from rank (\<lambda>c. hClientID c = w \<or> hOwnerID c = w) livelier_row (t_chats s))))"

end
