(* ===== verification/Postgres_Crm.thy ===== *)
theory Postgres_Crm
  imports Postgres_Queues Crm_Model
begin

text \<open>
  The calendar and the sums of the business in SQL (\<^verbatim>\<open>calendar_postgres.go\<close>, \<^verbatim>\<open>crm_postgres.go\<close>). Days are those of
  UTC, the time zone of the sessions; sums are exact and refused by the driver when they do not fit 64 bits, where the
  in-memory store wraps around.
\<close>

section \<open>The calendar\<close>

text \<open>\<^verbatim>\<open>t::date\<close>, and the midnight a date is read as.\<close>

definition date_of :: "time \<Rightarrow> int" where "date_of t = t div Day"

definition midnight_of :: "int \<Rightarrow> time" where "midnight_of d = d * Day"

text \<open>\<^verbatim>\<open>ON CONFLICT (owner_id, day) DO UPDATE\<close>\<close>

definition pg_SetBusyDay :: "database \<Rightarrow> string \<Rightarrow> time \<Rightarrow> message \<Rightarrow> Pg \<Rightarrow> err pg_fault + Pg" where
  "pg_SetBusyDay v ownerID day remark s =
     with_uuid (dbUuid v) ownerID (\<lambda>w.
       if \<not> plain_message remark then Inl Broken
       else Inr (s\<lparr>t_busy := AList.update (w, date_of day) remark (t_busy s)\<rparr>))"

definition pg_ClearBusyDay :: "database \<Rightarrow> string \<Rightarrow> time \<Rightarrow> Pg \<Rightarrow> err pg_fault + Pg" where
  "pg_ClearBusyDay v ownerID day s =
     with_uuid (dbUuid v) ownerID (\<lambda>w. Inr (s\<lparr>t_busy := AList.delete (w, date_of day) (t_busy s)\<rparr>))"

definition busy_mark :: "(string \<times> int) \<times> message \<Rightarrow> BusyDay" where
  "busy_mark x = \<lparr>bdDay = midnight_of (snd (fst x)), bdSource = BusySourceManual, bdNote = snd x, bdDealID = '''', bdTitle = []\<rparr>"

definition pg_ManualBusy :: "database \<Rightarrow> string \<Rightarrow> time \<Rightarrow> time \<Rightarrow> Pg \<Rightarrow> err pg_fault + BusyDay list" where
  "pg_ManualBusy v ownerID from till s =
     with_uuid (dbUuid v) ownerID (\<lambda>w.
       Inr (sort_by earlier_day (map busy_mark
         (filter (\<lambda>x. fst (fst x) = w \<and> date_of from \<le> snd (fst x) \<and> snd (fst x) \<le> date_of till) (t_busy s)))))"

text \<open>The days of a deal: those of its job, or the day it was made.\<close>

definition first_of :: "'a option list \<Rightarrow> 'a \<Rightarrow> 'a" where
  "first_of xs d = (case List.map_filter id xs of [] \<Rightarrow> d | x # _ \<Rightarrow> x)"

definition busy_rows :: "(string \<Rightarrow> nat) \<Rightarrow> string \<Rightarrow> time \<Rightarrow> time \<Rightarrow> Pg \<Rightarrow> (string \<times> runes \<times> int \<times> int) list" where
  "busy_rows rank w from till s =
     List.map_filter (\<lambda>d.
       case map_of (t_jobs s) (dJobID d) of
         None \<Rightarrow> None
       | Some r \<Rightarrow>
           let j = jrJob r;
               day1 = date_of (first_of [jDateStart j] (dCreatedAt d));
               day2 = date_of (first_of [jDateEnd j, jDateStart j] (dCreatedAt d))
           in if dOwnerID d = w \<and> dStatus d \<noteq> DealCancelled \<and> day2 \<ge> date_of from \<and> day1 \<le> date_of till
              then Some (dID d, jTitle j, day1, day2) else None)
       (grange rank (t_deals s))"

definition busy_days :: "time \<Rightarrow> time \<Rightarrow> string \<times> runes \<times> int \<times> int \<Rightarrow> BusyDay list" where
  "busy_days from till x =
     (case x of (i, title, day1, day2) \<Rightarrow>
        map (\<lambda>day. \<lparr>bdDay = day, bdSource = BusySourceDeal, bdNote = [], bdDealID = i, bdTitle = title\<rparr>)
          (filter (\<lambda>day. \<not> (day < from \<or> day > till)) (days_from (midnight_of day1) (midnight_of day2))))"

definition pg_BusyByDeals :: "database \<Rightarrow> (string \<Rightarrow> nat) \<Rightarrow> string \<Rightarrow> time \<Rightarrow> time \<Rightarrow> Pg \<Rightarrow> err pg_fault + BusyDay list" where
  "pg_BusyByDeals v rank ownerID from till s =
     with_uuid (dbUuid v) ownerID (\<lambda>w. Inr (concat (map (busy_days from till) (busy_rows rank w from till s))))"


section \<open>Sums over completed deals\<close>

definition closed_by :: "(Deal \<Rightarrow> string) \<Rightarrow> string \<Rightarrow> time \<Rightarrow> time \<Rightarrow> Pg \<Rightarrow> Deal list" where
  "closed_by who w from till s = filter (\<lambda>d. who d = w \<and> pg_closed from till d) (gvals (t_deals s))"

definition total_of :: "Deal list \<Rightarrow> int" where "total_of ds = sum_list (map dPrice ds)"

definition sum_and_count :: "Deal list \<Rightarrow> err pg_fault + int \<times> int" where
  "sum_and_count ds = map_sum id (\<lambda>n. (n, int (length ds))) (int8 (total_of ds))"

definition pg_IncomeOf :: "database \<Rightarrow> string \<Rightarrow> time \<Rightarrow> time \<Rightarrow> Pg \<Rightarrow> err pg_fault + int \<times> int" where
  "pg_IncomeOf v ownerID from till s =
     with_uuid (dbUuid v) ownerID (\<lambda>w. sum_and_count (closed_by dOwnerID w from till s))"

definition pg_SpendingOf :: "database \<Rightarrow> string \<Rightarrow> time \<Rightarrow> time \<Rightarrow> Pg \<Rightarrow> err pg_fault + int \<times> int" where
  "pg_SpendingOf v clientID from till s =
     with_uuid (dbUuid v) clientID (\<lambda>w. sum_and_count (closed_by dClientID w from till s))"

definition pg_FunnelOf :: "database \<Rightarrow> string \<Rightarrow> time \<Rightarrow> time \<Rightarrow> Pg \<Rightarrow> err pg_fault + Funnel" where
  "pg_FunnelOf v ownerID from till s =
     with_uuid (dbUuid v) ownerID (\<lambda>w.
       let os = filter (\<lambda>x. oOwnerID x = w \<and> pg_between from till (oCreatedAt x)) (gvals (t_offers s));
           bs = filter (\<lambda>b. bOwnerID b = w \<and> pg_between from till (bCreatedAt b)) (gvals (t_bids s));
           ds = filter (\<lambda>d. dOwnerID d = w \<and> pg_between from till (dCreatedAt d)) (gvals (t_deals s))
       in Inr \<lparr>fnOffers = int (length os) + int (length bs), fnWon = int (length ds),
            fnCompleted = int (length (filter (\<lambda>d. dStatus d = DealCompleted) ds))\<rparr>)"

text \<open>\<^verbatim>\<open>GROUP BY\<close>: one row for each value, in any order.\<close>

definition groups_of :: "('a \<Rightarrow> nat) \<Rightarrow> (Deal \<Rightarrow> 'a) \<Rightarrow> Deal list \<Rightarrow> ('a \<times> Deal list) list" where
  "groups_of rank who ds =
     map (\<lambda>w. (w, filter (\<lambda>d. who d = w) ds)) (sort_key rank (remdups (map who ds)))"

definition dearer_group :: "'a \<times> Deal list \<Rightarrow> 'a \<times> Deal list \<Rightarrow> bool" where
  "dearer_group x y \<longleftrightarrow> total_of (snd x) > total_of (snd y)"

definition settled_at :: "Deal \<Rightarrow> time" where
  "settled_at d = first_of [dClosedAt d] (dCreatedAt d)"

definition client_row :: "string \<times> Deal list \<Rightarrow> err pg_fault + Client" where
  "client_row x =
     map_sum id (\<lambda>n. \<lparr>clUserID = fst x, clDeals = int (length (snd x)), clTotal = n,
        clLast = Max (set (map settled_at (snd x)))\<rparr>) (int8 (total_of (snd x)))"

definition people_of :: "(Deal \<Rightarrow> string) \<Rightarrow> (string \<Rightarrow> nat) \<Rightarrow> int \<Rightarrow> Deal list \<Rightarrow> err pg_fault + Client list" where
  "people_of who rank limit ds =
     (case limit_offset limit 0 (sort_by dearer_group (groups_of rank who ds)) of
        Inl f \<Rightarrow> Inl f
      | Inr rows \<Rightarrow> read_rows client_row rows)"

definition pg_ClientsOf :: "database \<Rightarrow> (string \<Rightarrow> nat) \<Rightarrow> string \<Rightarrow> time \<Rightarrow> time \<Rightarrow> int \<Rightarrow> Pg \<Rightarrow> err pg_fault + Client list" where
  "pg_ClientsOf v rank ownerID from till limit s =
     with_uuid (dbUuid v) ownerID (\<lambda>w. people_of dClientID rank limit (closed_by dOwnerID w from till s))"

definition pg_OwnersOf :: "database \<Rightarrow> (string \<Rightarrow> nat) \<Rightarrow> string \<Rightarrow> time \<Rightarrow> time \<Rightarrow> int \<Rightarrow> Pg \<Rightarrow> err pg_fault + Client list" where
  "pg_OwnersOf v rank clientID from till limit s =
     with_uuid (dbUuid v) clientID (\<lambda>w. people_of dOwnerID rank limit (closed_by dClientID w from till s))"

text \<open>Only deals whose job is there (JOIN); a job without a category counts under the empty text.\<close>

definition category_column :: "Pg \<Rightarrow> Deal \<Rightarrow> string" where
  "category_column s d =
     (case map_of (t_jobs s) (dJobID d) of
        None \<Rightarrow> '''' | Some r \<Rightarrow> (case jCategoryID (jrJob r) of None \<Rightarrow> '''' | Some c \<Rightarrow> c))"

definition category_row :: "string \<times> Deal list \<Rightarrow> err pg_fault + CategorySpend" where
  "category_row x =
     map_sum id (\<lambda>n. \<lparr>csCategoryID = fst x, csTotal = n, csDeals = int (length (snd x))\<rparr>) (int8 (total_of (snd x)))"

definition pg_SpendingByCategory :: "database \<Rightarrow> (string \<Rightarrow> nat) \<Rightarrow> string \<Rightarrow> time \<Rightarrow> time \<Rightarrow> Pg
    \<Rightarrow> err pg_fault + CategorySpend list" where
  "pg_SpendingByCategory v rank clientID from till s =
     with_uuid (dbUuid v) clientID (\<lambda>w.
       read_rows category_row (sort_by dearer_group (groups_of rank (category_column s)
         (filter (\<lambda>d. has_job s (dJobID d)) (closed_by dClientID w from till s)))))"

text \<open>\<^verbatim>\<open>GREATEST\<close> skips NULL, so a job without a budget saves nothing; the difference is \<^verbatim>\<open>bigint\<close>, an error outside.\<close>

definition saved_column :: "Job \<Rightarrow> Deal \<Rightarrow> err pg_fault + int" where
  "saved_column j d =
     (case jBudgetAmount j of
        None \<Rightarrow> Inr 0
      | Some b \<Rightarrow> map_sum id (max 0) (int8 (b - dPrice d)))"

definition pg_SavedOnAuctions :: "database \<Rightarrow> string \<Rightarrow> time \<Rightarrow> time \<Rightarrow> Pg \<Rightarrow> err pg_fault + int" where
  "pg_SavedOnAuctions v clientID from till s =
     with_uuid (dbUuid v) clientID (\<lambda>w.
       case read_rows (\<lambda>(j, d). saved_column j d)
              (List.map_filter (\<lambda>d. case map_of (t_jobs s) (dJobID d) of
                   None \<Rightarrow> None
                 | Some r \<Rightarrow> if jMode (jrJob r) = ModeAuction then Some (jrJob r, d) else None)
                 (closed_by dClientID w from till s)) of
         Inl f \<Rightarrow> Inl f
       | Inr ns \<Rightarrow> int8 (sum_list ns))"

end
