(* ===== verification/Postgres_Feed.thy ===== *)
theory Postgres_Feed
  imports Postgres_Jobs
begin

text \<open>
  The feed of open jobs in SQL (\<^verbatim>\<open>postgres.go\<close>, \<^verbatim>\<open>Feed\<close>): the conditions joined by AND, the search with LIKE, and
  the four orders.
\<close>

definition ascii_of :: "runes \<Rightarrow> string option" where
  "ascii_of s = (if list_all (\<lambda>r. 0 \<le> r \<and> r < 128) s then Some (map char_of s) else None)"

definition point_of :: "Filter \<Rightarrow> Geo option" where
  "point_of f = (case (fLat f, fLng f) of (Some lat, Some lng) \<Rightarrow> Some \<lparr>gLat = lat, gLng = lng\<rparr> | _ \<Rightarrow> None)"

text \<open>The list of categories is cast to \<^verbatim>\<open>uuid[]\<close>: one bad element refuses the statement.\<close>

fun uuid_array :: "database \<Rightarrow> runes list \<Rightarrow> string list option" where
  "uuid_array v [] = Some []"
| "uuid_array v (c # cs) =
     (case (Option.bind (ascii_of c) (dbUuid v), uuid_array v cs) of
        (Some i, Some is) \<Rightarrow> Some (i # is) | _ \<Rightarrow> None)"

definition search_pattern :: "lookout \<Rightarrow> Filter \<Rightarrow> runes" where
  "search_pattern look f = 37 # lower look (TrimSpace (fQuery f)) @ [37]"

definition found_by :: "database \<Rightarrow> lookout \<Rightarrow> Filter \<Rightarrow> Job \<Rightarrow> bool" where
  "found_by v look f j \<longleftrightarrow>
     TrimSpace (fQuery f) = [] \<or> like (search_pattern look f) (dbLower v (jTitle j))
     \<or> like (search_pattern look f) (dbLower v (jDescription j))"

text \<open>The column of distances: NULL without a point of search or without a place.\<close>

definition distance_m :: "database \<Rightarrow> Filter \<Rightarrow> Job \<Rightarrow> float64 option" where
  "distance_m v f j =
     (case (point_of f, jGeo j) of (Some p, Some g) \<Rightarrow> Some (dbDistance v g (dbPoint v p)) | _ \<Rightarrow> None)"

definition feed_where :: "database \<Rightarrow> lookout \<Rightarrow> Filter \<Rightarrow> string list \<Rightarrow> Job \<Rightarrow> bool" where
  "feed_where v look f cats j \<longleftrightarrow>
     IsOpen (jStatus j)
   \<and> (point_of f \<noteq> None \<longrightarrow> (case fRadiusM f of
        None \<Rightarrow> True
      | Some r \<Rightarrow> (case distance_m v f j of None \<Rightarrow> False | Some d \<Rightarrow> d \<le> r)))
   \<and> (fCategoryIDs f \<noteq> [] \<longrightarrow> (case jCategoryID j of None \<Rightarrow> False | Some c \<Rightarrow> c \<in> set cats))
   \<and> (case fMode f of None \<Rightarrow> True | Some md \<Rightarrow> jMode j = md)
   \<and> found_by v look f j"

definition feed_order :: "Filter \<Rightarrow> Job \<Rightarrow> Job \<Rightarrow> bool" where
  "feed_order f x y =
     (if fSort f = SortNear \<and> point_of f \<noteq> None then none_last (<) (jDistanceM x) (jDistanceM y)
      else if fSort f = SortPrice then none_last (>) (jBudgetAmount x) (jBudgetAmount y)
      else if fSort f = SortEnding then none_last (<) (endsAt x) (endsAt y)
      else none_last (>) (jPublishedAt x) (jPublishedAt y))"

definition pg_Feed :: "database \<Rightarrow> lookout \<Rightarrow> (string \<Rightarrow> nat) \<Rightarrow> Filter \<Rightarrow> Pg \<Rightarrow> err pg_fault + Job list" where
  "pg_Feed v look rank f s =
     (case uuid_array v (fCategoryIDs f) of
        None \<Rightarrow> Inl Broken
      | Some cats \<Rightarrow>
          if \<not> plain_text (fQuery f) then Inl Broken
          else limit_offset (fLimit f) (fOffset f)
            (sort_by (feed_order f) (map (\<lambda>j. j\<lparr>jDistanceM := distance_m v f j\<rparr>)
              (filter (feed_where v look f cats) (map scan_job (grange rank (t_jobs s)))))))"


end
