(* ===== verification/Postgres_Refinement.thy ===== *)
theory Postgres_Refinement
  imports Postgres_Crm Postgres_Feed Samples
begin

text \<open>
  The two stores of orders compared. \<open>mirrors\<close> says that the tables hold what the maps hold. Writes whose values
  fit the columns, with identifiers in canonical form, new identifiers fresh and updates that keep what the statement leaves out
  (\<open>fits\<close>), get the same verdict from both and keep the correspondence, and so the reads agree.
\<close>

section \<open>Tables and maps\<close>

lemma map_of_rows: "map_of (map (\<lambda>(i, r). (i, f r)) t) i = map_option f (map_of t i)"
  by (induction t) auto

lemma update_rows: "AList.update i (f r) (map (\<lambda>(i, r). (i, f r)) t) = map (\<lambda>(i, r). (i, f r)) (AList.update i r t)"
  by (induction t) auto

lemma gvals_rows: "gvals (map (\<lambda>(i, r). (i, f r)) t) = map f (gvals t)"
  by (induction t) auto

lemma insort_rows: "insort_key (\<lambda>e. rank (fst e)) (i, f r) (map (\<lambda>(i, r). (i, f r)) t)
    = map (\<lambda>(i, r). (i, f r)) (insort_key (\<lambda>e. rank (fst e)) (i, r) t)"
  by (induction t) auto

lemma grange_rows: "grange rank (map (\<lambda>(i, r). (i, f r)) t) = map f (grange rank t)"
proof -
  have "sort_key (\<lambda>e. rank (fst e)) (map (\<lambda>(i, r). (i, f r)) t) = map (\<lambda>(i, r). (i, f r)) (sort_key (\<lambda>e. rank (fst e)) t)"
    by (induction t) (auto simp: insort_rows)
  then show ?thesis by (simp add: grange_def comp_def case_prod_unfold)
qed

text \<open>The row chosen by a loop is the first of the rows in order.\<close>

definition least_of :: "('a \<Rightarrow> 'a \<Rightarrow> bool) \<Rightarrow> 'a \<Rightarrow> 'a option \<Rightarrow> 'a option" where
  "least_of lt x b = (case b of None \<Rightarrow> Some x | Some y \<Rightarrow> Some (if lt y x then y else x))"

definition head_row :: "'a list \<Rightarrow> 'a option" where
  "head_row xs = (case xs of [] \<Rightarrow> None | y # _ \<Rightarrow> Some y)"

lemma head_insert: "head_row (insert_by lt x ys) = least_of lt x (head_row ys)"
  by (cases ys) (auto simp: head_row_def least_of_def)

context comparator
begin

lemma trans: "lt x y \<Longrightarrow> lt y z \<Longrightarrow> lt x z"
  using asym neg_trans by blast

lemma least_of_twice: "least_of lt b (least_of lt x y) = least_of lt (if lt x b then x else b) y"
proof (cases y)
  case (Some z)
  show ?thesis
  proof (cases "lt z x")
    case True
    then show ?thesis using Some trans [of z x b] by (cases "lt x b") (simp_all add: least_of_def)
  next
    case False
    then show ?thesis using Some neg_trans [of z x b] by (cases "lt x b") (simp_all add: least_of_def)
  qed
qed (simp add: least_of_def)

lemma fold_head: "fold (keep_better lt) xs (Some b) = least_of lt b (head_row (sort_by lt xs))"
proof (induction xs arbitrary: b)
  case Nil
  then show ?case by (simp add: head_row_def least_of_def)
next
  case (Cons x xs)
  have "fold (keep_better lt) (x # xs) (Some b) = fold (keep_better lt) xs (Some (if lt x b then x else b))"
    by (simp add: keep_better_def)
  then show ?case by (simp add: Cons.IH head_insert least_of_twice)
qed

lemma scan_head: "fold (keep_better lt) xs None = head_row (sort_by lt xs)"
  by (cases xs) (simp add: head_row_def, simp add: keep_better_def fold_head head_insert)

lemma first_row_scan: "first_row e (sort_by lt xs) = known (or_err (fold (keep_better lt) xs None) e)"
  by (simp add: scan_head head_row_def first_row_def split: list.split)

end

text \<open>The first row that fits is what a search finds.\<close>

lemma first_row_find: "first_row e (filter p xs) = known (or_err (find p xs) e)"
  by (induction xs) (auto simp: first_row_def)


section \<open>Writes that fit\<close>

datatype store_call =
    SaveJob Job | ChangeJob Job | SeeJob string string | SaveBid Bid | ChangeBid Bid | SaveOffer Offer | ChangeOffer Offer
  | SaveDeal Deal | ChangeDeal Deal | SaveReview Review | ChangeReview Review | SaveDispute Dispute
  | ChangeDispute Dispute | SaveComplaint Complaint | ChangeComplaint Complaint | SaveChat Chat | ChangeChat Chat
  | SaveMessage Message | ReadChat string string

definition mem_do :: "store_call \<Rightarrow> Memory \<Rightarrow> err + Memory" where
  "mem_do call m =
     (case call of
        SaveJob j \<Rightarrow> Create j m | ChangeJob j \<Rightarrow> Update j m | SeeJob i w \<Rightarrow> map_sum id snd (AddView i w m)
      | SaveBid b \<Rightarrow> CreateBid b m | ChangeBid b \<Rightarrow> UpdateBid b m
      | SaveOffer x \<Rightarrow> CreateOffer x m | ChangeOffer x \<Rightarrow> UpdateOffer x m
      | SaveDeal d \<Rightarrow> CreateDeal d m | ChangeDeal d \<Rightarrow> UpdateDeal d m
      | SaveReview r \<Rightarrow> CreateReview r m | ChangeReview r \<Rightarrow> UpdateReview r m
      | SaveDispute d \<Rightarrow> CreateDispute d m | ChangeDispute d \<Rightarrow> UpdateDispute d m
      | SaveComplaint c \<Rightarrow> CreateComplaint c m | ChangeComplaint c \<Rightarrow> UpdateComplaint c m
      | SaveChat c \<Rightarrow> CreateChat c m | ChangeChat c \<Rightarrow> UpdateChat c m
      | SaveMessage x \<Rightarrow> CreateMessage x m | ReadChat c w \<Rightarrow> MarkRead c w m)"

definition pg_do :: "database \<Rightarrow> store_call \<Rightarrow> Pg \<Rightarrow> err pg_fault + Pg" where
  "pg_do v call s =
     (case call of
        SaveJob j \<Rightarrow> pg_Create v j s | ChangeJob j \<Rightarrow> pg_Update v j s | SeeJob i w \<Rightarrow> map_sum id snd (pg_AddView v i w s)
      | SaveBid b \<Rightarrow> pg_CreateBid v b s | ChangeBid b \<Rightarrow> pg_UpdateBid v b s
      | SaveOffer x \<Rightarrow> pg_CreateOffer v x s | ChangeOffer x \<Rightarrow> pg_UpdateOffer v x s
      | SaveDeal d \<Rightarrow> pg_CreateDeal v d s | ChangeDeal d \<Rightarrow> pg_UpdateDeal v d s
      | SaveReview r \<Rightarrow> pg_CreateReview v r s | ChangeReview r \<Rightarrow> pg_UpdateReview v r s
      | SaveDispute d \<Rightarrow> pg_CreateDispute v d s | ChangeDispute d \<Rightarrow> pg_UpdateDispute v d s
      | SaveComplaint c \<Rightarrow> pg_CreateComplaint v c s | ChangeComplaint c \<Rightarrow> pg_UpdateComplaint v c s
      | SaveChat c \<Rightarrow> pg_CreateChat v c s | ChangeChat c \<Rightarrow> pg_UpdateChat v c s
      | SaveMessage x \<Rightarrow> pg_CreateMessage v x s | ReadChat c w \<Rightarrow> pg_MarkRead v c w s)"

text \<open>The columns give back what was written, the identifier is new, and a clash with the new row is one of the index.\<close>

definition new_fits :: "('r \<Rightarrow> string) \<Rightarrow> ('r \<Rightarrow> 'r \<Rightarrow> bool) \<Rightarrow> ('r \<Rightarrow> bool) \<Rightarrow> 'r option \<Rightarrow> 'r \<Rightarrow> 'r sql_table \<Rightarrow> bool" where
  "new_fits key clash ok vals r t \<longleftrightarrow>
     vals = Some r \<and> ok r \<and> map_of t (key r) = None \<and> (\<forall>x \<in> set (gvals t). clash x r \<longrightarrow> clash r x)"

text \<open>The update turns the stored row, if there is one, into the given one, and that row may stand in the table.\<close>

definition change_fits :: "uuids \<Rightarrow> ('r \<Rightarrow> 'r \<Rightarrow> bool) \<Rightarrow> ('r \<Rightarrow> bool) \<Rightarrow> ('r \<Rightarrow> 'r) option \<Rightarrow> string \<Rightarrow> 'r \<Rightarrow> 'r sql_table \<Rightarrow> bool" where
  "change_fits u clash ok sets i r t \<longleftrightarrow> u i = Some i \<and>
     (case sets of
        None \<Rightarrow> False
      | Some f \<Rightarrow> (case map_of t i of None \<Rightarrow> True | Some x \<Rightarrow> f x = r \<and> ok r \<and> \<not> touches clash r (AList.delete i t)))"

definition canonical :: "database \<Rightarrow> string \<Rightarrow> bool" where
  "canonical v i \<longleftrightarrow> dbUuid v i = Some i"

definition fits :: "database \<Rightarrow> Pg \<Rightarrow> store_call \<Rightarrow> bool" where
  "fits v s call =
     (case call of
        SaveJob j \<Rightarrow> (case insert_values v j of
            None \<Rightarrow> False
          | Some r \<Rightarrow> job_check r \<and> map_of (t_jobs s) (jr_id r) = None \<and> scan_job r = j)
      | ChangeJob j \<Rightarrow> canonical v (jID j) \<and> (case update_values v j of
            None \<Rightarrow> False
          | Some f \<Rightarrow> (case map_of (t_jobs s) (jID j) of None \<Rightarrow> True | Some r \<Rightarrow> job_check (f r) \<and> scan_job (f r) = j))
      | SeeJob i w \<Rightarrow> canonical v i \<and> canonical v w \<and> (case map_of (t_jobs s) i of
            None \<Rightarrow> False | Some r \<Rightarrow> int4 (jViewsCount (jrJob r) + 1))
      | SaveBid b \<Rightarrow> new_fits bID bid_clash (bid_check s) (bid_values v b) b (t_bids s)
      | ChangeBid b \<Rightarrow> change_fits (dbUuid v) bid_clash (bid_check s) (bid_sets v b) (bID b) b (t_bids s)
      | SaveOffer x \<Rightarrow> new_fits oID offer_clash (offer_check s) (offer_values v x) x (t_offers s)
      | ChangeOffer x \<Rightarrow> canonical v (oJobID x)
          \<and> change_fits (dbUuid v) offer_clash (offer_check s) (offer_sets v x) (oID x) x (t_offers s)
      | SaveDeal d \<Rightarrow> new_fits dID deal_clash (deal_check s) (deal_values v d) d (t_deals s)
      | ChangeDeal d \<Rightarrow> change_fits (dbUuid v) deal_clash (deal_check s) (deal_sets v d) (dID d) d (t_deals s)
      | SaveReview r \<Rightarrow> new_fits rID review_clash (review_check s) (review_values v r) r (t_reviews s)
      | ChangeReview r \<Rightarrow> change_fits (dbUuid v) review_clash (review_check s) (review_sets r) (rID r) r (t_reviews s)
      | SaveDispute d \<Rightarrow> new_fits pID dispute_clash (dispute_check s) (dispute_values v d) d (t_disputes s)
      | ChangeDispute d \<Rightarrow> change_fits (dbUuid v) dispute_clash (dispute_check s) (dispute_sets v d) (pID d) d (t_disputes s)
      | SaveComplaint c \<Rightarrow> new_fits cID complaint_clash complaint_check (complaint_values v c) c (t_complaints s)
      | ChangeComplaint c \<Rightarrow>
          change_fits (dbUuid v) complaint_clash complaint_check (complaint_sets v c) (cID c) c (t_complaints s)
      | SaveChat c \<Rightarrow> new_fits hID chat_clash (\<lambda>c. has_job s (hJobID c)) (chat_values v c) c (t_chats s)
      | ChangeChat c \<Rightarrow>
          change_fits (dbUuid v) chat_clash (\<lambda>c. has_job s (hJobID c)) (Some (chat_sets c)) (hID c) c (t_chats s)
      | SaveMessage x \<Rightarrow> new_fits mID (\<lambda>_ _. False) (\<lambda>x. map_of (t_chats s) (mChatID x) \<noteq> None) (message_values v x) x
          (t_messages s)
      | ReadChat c w \<Rightarrow> canonical v c \<and> canonical v w)"

definition seen_by :: "Memory \<Rightarrow> string \<Rightarrow> string \<Rightarrow> bool" where
  "seen_by m i w \<longleftrightarrow> (case map_of (views m) i of None \<Rightarrow> False | Some vs \<Rightarrow> map_of vs w = Some True)"

definition mirrors :: "Pg \<Rightarrow> Memory \<Rightarrow> bool" where
  "mirrors s m \<longleftrightarrow>
     jobs m = map (\<lambda>(i, r). (i, scan_job r)) (t_jobs s) \<and> offers m = t_offers s \<and> deals m = t_deals s
   \<and> bids m = t_bids s \<and> chats m = t_chats s \<and> messages m = t_messages s \<and> reviews m = t_reviews s
   \<and> disputes m = t_disputes s \<and> complaints m = t_complaints s
   \<and> (\<forall>i w. (i, w) \<in> set (t_views s) \<longleftrightarrow> seen_by m i w)"


section \<open>One write\<close>

lemma insert_fits:
  "new_fits key clash ok vals r t \<Longrightarrow>
     insert_into key clash ok vals t =
       (if \<exists>x \<in> set (gvals t). clash x r then Inl Duplicate else Inr (AList.update (key r) r t))"
  by (auto simp: insert_into_def touches_def new_fits_def)

lemma update_fits:
  "change_fits u clash ok sets i r t \<Longrightarrow>
     u i = Some i \<and> update_where_id clash ok i sets t = (if map_of t i = None then Inr (0, t) else Inr (1, AList.update i r t))"
  by (auto simp: update_where_id_def change_fits_def split: option.splits)

lemmas mirror_simps = mirrors_def seen_by_def map_of_rows update_rows gvals_rows

lemma scan_frame [simp]:
  "jID (scan_job r) = jr_id r" "jViewsCount (scan_job r) = jViewsCount (jrJob r)"
  by (simp_all add: scan_job_def jr_id_def)

lemma scan_counters:
  "scan_job (r\<lparr>jrJob := (jrJob r)\<lparr>jViewsCount := n\<rparr>\<rparr>) = (scan_job r)\<lparr>jViewsCount := n\<rparr>"
  "scan_job (r\<lparr>jrJob := (jrJob r)\<lparr>jOffersCount := n\<rparr>\<rparr>) = (scan_job r)\<lparr>jOffersCount := n\<rparr>"
  by (simp_all add: scan_job_def)

definition agrees :: "err + Memory \<Rightarrow> err pg_fault + Pg \<Rightarrow> bool" where
  "agrees r r' \<longleftrightarrow>
     (case r of Inl e \<Rightarrow> r' = Inl (Known e)
      | Inr m \<Rightarrow> (case r' of Inl _ \<Rightarrow> False | Inr s \<Rightarrow> mirrors s m))"

lemma agrees_simps [simp]:
  "agrees (Inl e) r' \<longleftrightarrow> r' = Inl (Known e)" "agrees (Inr m) (Inr s) \<longleftrightarrow> mirrors s m" "\<not> agrees (Inr m) (Inl f)"
  by (simp_all add: agrees_def)

lemmas do_defs = mem_do_def pg_do_def fits_def

lemma bids_agree:
  assumes "mirrors s m"
  shows "fits v s (SaveBid b) \<Longrightarrow> agrees (CreateBid b m) (pg_CreateBid v b s)"
    "fits v s (ChangeBid b) \<Longrightarrow> agrees (UpdateBid b m) (pg_UpdateBid v b s)"
  using assms
  by (auto simp: fits_def CreateBid_def UpdateBid_def pg_CreateBid_def pg_UpdateBid_def mirror_simps
      dest!: insert_fits update_fits)

lemma deals_agree:
  assumes "mirrors s m"
  shows "fits v s (SaveDeal d) \<Longrightarrow> agrees (CreateDeal d m) (pg_CreateDeal v d s)"
    "fits v s (ChangeDeal d) \<Longrightarrow> agrees (UpdateDeal d m) (pg_UpdateDeal v d s)"
  using assms
  by (auto simp: fits_def CreateDeal_def UpdateDeal_def pg_CreateDeal_def pg_UpdateDeal_def mirror_simps
      dest!: insert_fits update_fits)

lemma reviews_agree:
  assumes "mirrors s m"
  shows "fits v s (SaveReview r) \<Longrightarrow> agrees (CreateReview r m) (pg_CreateReview v r s)"
    "fits v s (ChangeReview r) \<Longrightarrow> agrees (UpdateReview r m) (pg_UpdateReview v r s)"
  using assms
  by (auto simp: fits_def CreateReview_def UpdateReview_def pg_CreateReview_def pg_UpdateReview_def mirror_simps
      dest!: insert_fits update_fits)

lemma disputes_agree:
  assumes "mirrors s m"
  shows "fits v s (SaveDispute d) \<Longrightarrow> agrees (CreateDispute d m) (pg_CreateDispute v d s)"
    "fits v s (ChangeDispute d) \<Longrightarrow> agrees (UpdateDispute d m) (pg_UpdateDispute v d s)"
  using assms
  by (auto simp: fits_def CreateDispute_def UpdateDispute_def pg_CreateDispute_def pg_UpdateDispute_def mirror_simps
      rememberOrder_def dest!: insert_fits update_fits)

lemma complaints_agree:
  assumes "mirrors s m"
  shows "fits v s (SaveComplaint c) \<Longrightarrow> agrees (CreateComplaint c m) (pg_CreateComplaint v c s)"
    "fits v s (ChangeComplaint c) \<Longrightarrow> agrees (UpdateComplaint c m) (pg_UpdateComplaint v c s)"
  using assms
  by (auto simp: fits_def CreateComplaint_def UpdateComplaint_def pg_CreateComplaint_def pg_UpdateComplaint_def mirror_simps
      rememberOrder_def dest!: insert_fits update_fits)

lemma chats_agree:
  assumes "mirrors s m"
  shows "fits v s (SaveChat c) \<Longrightarrow> agrees (CreateChat c m) (pg_CreateChat v c s)"
    "fits v s (ChangeChat c) \<Longrightarrow> agrees (UpdateChat c m) (pg_UpdateChat v c s)"
  using assms
  by (auto simp: fits_def CreateChat_def UpdateChat_def pg_CreateChat_def pg_UpdateChat_def mirror_simps
      dest!: insert_fits update_fits)

lemma mark_read_row: "(if unread_row c w x then x\<lparr>mReadBy := mReadBy x @ [w]\<rparr> else x) = mark_read c w x"
  by (auto simp: unread_row_def mark_read_def readBy_def split: option.split)

lemma messages_agree:
  assumes "mirrors s m"
  shows "fits v s (SaveMessage x) \<Longrightarrow> agrees (CreateMessage x m) (pg_CreateMessage v x s)"
    "fits v s (ReadChat c w) \<Longrightarrow> agrees (MarkRead c w m) (pg_MarkRead v c w s)"
  using assms
  by (auto simp: fits_def CreateMessage_def MarkRead_def pg_CreateMessage_def pg_MarkRead_def mirror_simps canonical_def
      mark_read_row dest!: insert_fits)

lemma jobs_agree:
  assumes "mirrors s m"
  shows "fits v s (SaveJob j) \<Longrightarrow> agrees (Create j m) (pg_Create v j s)"
    "fits v s (ChangeJob j) \<Longrightarrow> agrees (Update j m) (pg_Update v j s)"
  subgoal using assms
    by (auto simp: fits_def Create_def pg_Create_def mirror_simps insert_into_def touches_def split: option.splits)
  subgoal using assms
    by (auto simp: fits_def Update_def pg_Update_def mirror_simps update_where_id_def touches_def canonical_def split: option.splits)
  done

lemma recount_agrees:
  assumes "mirrors s m" "canonical v i"
  shows "agrees (Inr (recount i m)) (recountOffers v i s)"
  using assms
  by (auto simp: recount_def recountOffers_def mirrors_def seen_by_def map_of_rows update_rows [of _ scan_job, symmetric]
      canonical_def Let_def scan_counters split: option.splits)

lemma offers_agree:
  assumes "mirrors s m"
  shows "fits v s (SaveOffer x) \<Longrightarrow> agrees (CreateOffer x m) (pg_CreateOffer v x s)"
    "fits v s (ChangeOffer x) \<Longrightarrow> agrees (UpdateOffer x m) (pg_UpdateOffer v x s)"
proof -
  have put: "mirrors (s\<lparr>t_offers := t\<rparr>) (m\<lparr>offers := t\<rparr>)" for t
    using assms by (simp add: mirrors_def seen_by_def)
  have o: "offers m = t_offers s" using assms by (simp add: mirrors_def)
  { assume f: "fits v s (SaveOffer x)"
    then have "canonical v (oJobID x)"
      by (auto simp: fits_def new_fits_def offer_values_def canonical_def split: option.splits if_split_asm
          dest: arg_cong [of _ _ oJobID])
    then show "agrees (CreateOffer x m) (pg_CreateOffer v x s)"
      using recount_agrees [OF put] f o
      by (auto simp: fits_def CreateOffer_def pg_CreateOffer_def dest!: insert_fits) }
  assume f: "fits v s (ChangeOffer x)"
  then show "agrees (UpdateOffer x m) (pg_UpdateOffer v x s)"
    using recount_agrees [OF put] o
    by (auto simp: fits_def UpdateOffer_def pg_UpdateOffer_def dest!: update_fits)
qed

lemma view_agrees:
  assumes "mirrors s m" "fits v s (SeeJob i w)"
  shows "agrees (map_sum id snd (AddView i w m)) (map_sum id snd (pg_AddView v i w s))"
proof -
  obtain r where r: "map_of (t_jobs s) i = Some r" and u: "dbUuid v i = Some i" "dbUuid v w = Some w"
    and n: "int4 (jViewsCount (jrJob r) + 1)"
    using assms(2) by (auto simp: fits_def canonical_def split: option.splits)
  have j: "jobs m = map (\<lambda>(i, r). (i, scan_job r)) (t_jobs s)" and m: "map_of (jobs m) i = Some (scan_job r)"
    and seen: "\<And>i w. (i, w) \<in> set (t_views s) \<longleftrightarrow> seen_by m i w"
    using assms(1) r by (simp_all add: mirrors_def map_of_rows)
  show ?thesis
  proof (cases "seen_by m i w")
    case True
    then show ?thesis using assms(1) seen [of i w]
      by (auto simp: AddView_def pg_AddView_def r u m n Let_def mirrors_def seen_by_def map_of_rows update_conv' split: option.splits)
  next
    case False
    then show ?thesis using assms(1) seen [of i w]
      by (auto simp: AddView_def pg_AddView_def r u m n Let_def mirrors_def seen_by_def map_of_rows update_conv'
          update_rows [of _ scan_job, symmetric] scan_counters split: option.splits)
  qed
qed

lemma write_simulates:
  assumes "mirrors s m" "fits v s call"
  shows "agrees (mem_do call m) (pg_do v call s)"
  using assms bids_agree deals_agree reviews_agree disputes_agree complaints_agree chats_agree messages_agree jobs_agree
    offers_agree view_agrees
  by (cases call) (simp_all add: mem_do_def pg_do_def)


section \<open>Reads\<close>

lemma rows_select:
  "select_from rank (\<lambda>r. p (f r)) (\<lambda>x y. lt (f x) (f y)) t = xs \<Longrightarrow>
     map f xs = sort_by lt (filter p (grange rank (map (\<lambda>(i, r). (i, f r)) t)))"
proof -
  have ins: "map f (insert_by (\<lambda>x y. lt (f x) (f y)) x ys) = insert_by lt (f x) (map f ys)" for x ys
    by (induction ys) auto
  have "map f (sort_by (\<lambda>x y. lt (f x) (f y)) ys) = sort_by lt (map f ys)" for ys
    by (induction ys) (simp_all add: ins)
  then show "select_from rank (\<lambda>r. p (f r)) (\<lambda>x y. lt (f x) (f y)) t = xs \<Longrightarrow> ?thesis"
    by (auto simp: select_from_def grange_rows filter_map comp_def)
qed

lemma jobs_where_rows:
  "mirrors s m \<Longrightarrow> jobs_where rank p lt s = sort_by lt (filter p (grange rank (jobs m)))"
  by (simp add: jobs_where_def rows_select [OF refl] mirrors_def)

definition same_reads :: "database \<Rightarrow> Pg \<Rightarrow> Memory \<Rightarrow> bool" where
  "same_reads v s m \<longleftrightarrow> (\<forall>rank i j n k. canonical v i \<longrightarrow> canonical v j \<longrightarrow> 0 < n \<longrightarrow> 0 \<le> k \<longrightarrow>
       pg_ByID v i s = known (ByID i m)
     \<and> pg_ListByClient v rank i n k s = known (ListByClient rank i n k m)
     \<and> pg_BidByID v i s = known (BidByID i m)
     \<and> pg_BidsByJob v rank i s = known (BidsByJob rank i m)
     \<and> pg_BidsByOwner v rank i n k s = known (BidsByOwner rank i n k m)
     \<and> pg_BestBid v rank i s = known (BestBid rank i m)
     \<and> pg_MyBidForJob v rank i j s = known (MyBidForJob rank i j m)
     \<and> pg_OfferByID v i s = known (OfferByID i m)
     \<and> pg_OffersByJob v rank i s = known (OffersByJob rank i m)
     \<and> pg_OffersByOwner v rank i n k s = known (OffersByOwner rank i n k m)
     \<and> pg_MyOfferForJob v rank i j s = known (MyOfferForJob rank i j m)
     \<and> pg_DealByID v i s = known (DealByID i m)
     \<and> pg_DealByJob v rank i s = known (DealByJob rank i m)
     \<and> pg_DealsByUser v rank i n k s = known (DealsByUser rank i n k m)
     \<and> pg_ReviewByID v i s = known (ReviewByID i m)
     \<and> pg_ReviewsByDeal v rank i s = known (ReviewsByDeal rank i m)
     \<and> pg_ReviewsByAuthor v rank i n k s = known (ReviewsByAuthor rank i n k m)
     \<and> pg_DisputeByID v i s = known (DisputeByID i m)
     \<and> pg_DisputeByDeal v rank i s = known (DisputeByDeal rank i m)
     \<and> pg_ComplaintByID v i s = known (ComplaintByID i m)
     \<and> pg_ChatByID v i s = known (ChatByID i m)
     \<and> pg_ChatByJobOwner v rank i j s = known (ChatByJobOwner rank i j m))"

lemma reads_agree:
  assumes m: "mirrors s m"
  shows "same_reads v s m"
proof -
  have t: "offers m = t_offers s" "deals m = t_deals s" "bids m = t_bids s" "chats m = t_chats s"
    "reviews m = t_reviews s" "disputes m = t_disputes s" "complaints m = t_complaints s"
    using m by (simp_all add: mirrors_def)
  have j: "map_of (jobs m) i = map_option scan_job (map_of (t_jobs s) i)" for i
    using m by (simp add: mirrors_def map_of_rows)
  note finds = first_row_find cheap_order.first_row_scan bid_age.first_row_scan offer_age.first_row_scan dispute_age.first_row_scan
  show ?thesis
    unfolding same_reads_def canonical_def
    by (intro allI impI conjI)
      (simp_all add: t j jobs_where_rows [OF m] gopage_limit select_from_def finds pickReviews_def
        pg_ByID_def ByID_def pg_ListByClient_def ListByClient_def pg_BidByID_def BidByID_def pg_BidsByJob_def BidsByJob_def
        pg_BidsByOwner_def BidsByOwner_def pg_BestBid_def BestBid_def pg_MyBidForJob_def MyBidForJob_def pg_OfferByID_def
        OfferByID_def pg_OffersByJob_def OffersByJob_def pg_OffersByOwner_def OffersByOwner_def pg_MyOfferForJob_def
        MyOfferForJob_def pg_DealByID_def DealByID_def pg_DealByJob_def DealByJob_def pg_DealsByUser_def DealsByUser_def
        pg_ReviewByID_def ReviewByID_def pg_ReviewsByDeal_def ReviewsByDeal_def pg_ReviewsByAuthor_def
        ReviewsByAuthor_def pg_DisputeByID_def DisputeByID_def pg_DisputeByDeal_def DisputeByDeal_def
        pg_ComplaintByID_def ComplaintByID_def pg_ChatByID_def ChatByID_def pg_ChatByJobOwner_def ChatByJobOwner_def)
qed

text \<open>The worker gets the oldest hundred of what is due, and the weekly publication the oldest two hundred reviews.\<close>

lemma due_jobs_cut:
  assumes "mirrors s m" "stamp now = now" "DueJobs rank now m = Inr js"
  shows "pg_DueJobs rank now s = Inr (take 100 js)"
proof -
  have "due now m = (\<lambda>j. jStatus j = StatusBidding \<and> (case endsAt j of None \<Rightarrow> False | Some t \<Rightarrow> t \<le> now)
      \<or> jStatus j = StatusDeciding \<and> (case jDecisionDeadline j of None \<Rightarrow> False | Some t \<Rightarrow> t \<le> now)
      \<or> jStatus j = StatusWorkDone \<and> (\<exists>d \<in> set (gvals (t_deals s)). dJobID d = jID j \<and> dStatus d = DealWorkDone
          \<and> (case dAcceptanceDeadline d of None \<Rightarrow> False | Some t \<Rightarrow> t \<le> now)))"
    using assms(1)
    by (rule_tac ext) (auto simp: due_def endsAt_def deal_overdue_def mirrors_def not_less split: Status.split option.split)
  then show ?thesis
    using assms(3) by (simp add: pg_DueJobs_def DueJobs_def assms(2) jobs_where_rows [OF assms(1)] limit_offset_def)
qed

lemma due_reviews_cut:
  assumes "mirrors s m" "stamp now = now" "DueReviews rank now m = Inr rs"
  shows "pg_DueReviews rank now s = Inr (take 200 rs)"
  using assms
  by (simp add: pg_DueReviews_def DueReviews_def pickReviews_def Published_def select_from_def limit_offset_def mirrors_def
      not_less)


section \<open>Any sequence of writes\<close>

text \<open>A refused write leaves the store as it was; the verdicts are the errors.\<close>

fun mem_runs :: "store_call list \<Rightarrow> Memory \<Rightarrow> err option list \<times> Memory" where
  "mem_runs [] m = ([], m)"
| "mem_runs (c # cs) m =
     (case mem_do c m of
        Inl e \<Rightarrow> map_prod (Cons (Some e)) id (mem_runs cs m)
      | Inr m \<Rightarrow> map_prod (Cons None) id (mem_runs cs m))"

fun pg_runs :: "database \<Rightarrow> store_call list \<Rightarrow> Pg \<Rightarrow> err pg_fault option list \<times> Pg" where
  "pg_runs v [] s = ([], s)"
| "pg_runs v (c # cs) s =
     (case pg_do v c s of
        Inl e \<Rightarrow> map_prod (Cons (Some e)) id (pg_runs v cs s)
      | Inr s \<Rightarrow> map_prod (Cons None) id (pg_runs v cs s))"

fun all_fit :: "database \<Rightarrow> store_call list \<Rightarrow> Pg \<Rightarrow> bool" where
  "all_fit v [] s \<longleftrightarrow> True"
| "all_fit v (c # cs) s \<longleftrightarrow> fits v s c \<and> all_fit v cs (case pg_do v c s of Inl _ \<Rightarrow> s | Inr s \<Rightarrow> s)"

definition NewPg :: Pg where
  "NewPg = \<lparr>t_jobs = [], t_offers = [], t_deals = [], t_bids = [], t_chats = [], t_messages = [], t_reviews = [],
     t_disputes = [], t_complaints = [], t_views = [], t_idemp = [], t_busy = []\<rparr>"

lemma mirrors_New: "mirrors NewPg NewMemory"
  by (simp add: mirrors_def NewPg_def NewMemory_def seen_by_def)



text \<open>A job, a bid on it, a second bid of the same person and a view, by a database that reads every text but the empty one.\<close>

definition sample_db :: database where
  "sample_db = \<lparr>dbUuid = (\<lambda>i. if i = '''' then None else Some i), dbPoint = id, dbDistance = (\<lambda>_ _. 0), dbLower = id,
     dbAvg = (\<lambda>_. 0)\<rparr>"

definition sample_calls :: "store_call list" where
  "sample_calls =
     [SaveJob auction_job, SaveBid (a_bid ''b1'' ''boris'' 90000 1000), SaveBid (a_bid ''b2'' ''boris'' 80000 2000),
      SeeJob ''j1'' ''boris'']"

lemmas pg_values = insert_values_def set_columns_def blank_row_def auctionParts_def job_types_def job_check_def scan_job_def
  jr_id_def plain_text_def plain_string_def int4_def stamp_def nullable_uuid_def bid_values_def bid_check_def has_job_def

lemma sample_job_row:
  "insert_values sample_db auction_job =
     Some \<lparr>jrJob = auction_job\<lparr>jAuction := None\<rparr>, jrDurationH = Some 24, jrEndsAt = Some (24 * Hour), jrReserve = Some 40000,
       jrAutoExtend = True, jrDecisionH = 12\<rparr>"
  by (simp add: pg_values sample_defs sample_db_def duration_defs)

lemma sample_fits: "all_fit sample_db sample_calls NewPg"
  by (simp add: sample_calls_def NewPg_def fits_def pg_do_def sample_job_row pg_Create_def insert_into_def touches_def
      pg_CreateBid_def new_fits_def pg_values sample_defs sample_db_def bid_clash_def duration_defs canonical_def)



section \<open>A job and its columns\<close>

text \<open>What the columns keep of a job: instants in whole microseconds, the point as the database puts it.\<close>

definition as_kept :: "database \<Rightarrow> Job \<Rightarrow> Job" where
  "as_kept v j =
     j\<lparr>jGeo := map_option (dbPoint v) (jGeo j), jDateStart := map_option stamp (jDateStart j),
       jDateEnd := map_option stamp (jDateEnd j), jPublishedAt := map_option stamp (jPublishedAt j),
       jCreatedAt := stamp (jCreatedAt j), jUpdatedAt := stamp (jUpdatedAt j),
       jDecisionDeadline := map_option stamp (jDecisionDeadline j), jDistanceM := None,
       jAuction := map_option (\<lambda>a. a\<lparr>aEndsAt := map_option stamp (aEndsAt a)\<rparr>) (jAuction j)\<rparr>"

definition job_fits :: "database \<Rightarrow> Job \<Rightarrow> bool" where
  "job_fits v j \<longleftrightarrow> canonical v (jID j) \<and> canonical v (jClientID j)
     \<and> nullable_uuid (dbUuid v) (jCategoryID j) = Some (jCategoryID j)
     \<and> nullable_uuid (dbUuid v) (jWinnerBidID j) = Some (jWinnerBidID j)
     \<and> job_types j \<and> job_check (blank_row j (jID j) (jClientID j))"



end
