(* ===== verification/Postgres_Gaps.thy ===== *)
theory Postgres_Gaps
  imports Postgres_Refinement
begin

text \<open>
  Where the two stores of orders part: keys of repeated requests, titles in the queue of complaints, the order of reviews,
  texts that are no identifiers, and the signs of a search.
\<close>

section \<open>Keys of repeated requests\<close>




section \<open>The queue of complaints\<close>

definition untitled :: "Pg \<Rightarrow> bool" where
  "untitled s \<longleftrightarrow> list_all (\<lambda>c. cTargetTitle c = []) (gvals (t_complaints s))"

lemma gvals_update_subset: "set (gvals (AList.update k r t)) \<subseteq> insert r (set (gvals t))"
  by (induction t) auto

lemma untitled_put: "untitled s \<Longrightarrow> cTargetTitle c = [] \<Longrightarrow> untitled (s\<lparr>t_complaints := AList.update k c (t_complaints s)\<rparr>)"
  using gvals_update_subset [of k c "t_complaints s"] by (auto simp: untitled_def list_all_iff)

lemma untitled_new:
  assumes "untitled s" "pg_CreateComplaint v c s = Inr s'"
  shows "untitled s'"
proof -
  obtain r where r: "complaint_values v c = Some r" "s' = s\<lparr>t_complaints := AList.update (cID r) r (t_complaints s)\<rparr>"
    using assms(2) by (auto simp: pg_CreateComplaint_def insert_into_def unique_as_def split: option.splits if_split_asm)
  have "cTargetTitle r = []" using r(1) by (auto simp: complaint_values_def split: option.splits if_split_asm)
  then show ?thesis using r(2) assms(1) untitled_put by simp
qed

lemma untitled_change:
  assumes "untitled s" "pg_UpdateComplaint v c s = Inr s'"
  shows "untitled s'"
proof -
  obtain i f r where r: "complaint_sets v c = Some f" "map_of (t_complaints s) i = Some r"
    "s' = s\<lparr>t_complaints := AList.update i (f r) (t_complaints s)\<rparr>"
    using assms(2)
    by (auto simp: pg_UpdateComplaint_def with_uuid_def update_where_id_def affected_def split: option.splits if_split_asm)
  have "cTargetTitle (f r) = cTargetTitle r" using r(1) by (auto simp: complaint_sets_def split: option.splits if_split_asm)
  moreover have "cTargetTitle r = []" using assms(1) r(2) by (force simp: untitled_def list_all_iff gvals_def dest: map_of_SomeD)
  ultimately show ?thesis using r(3) assms(1) untitled_put by simp
qed

text \<open>Only the writes of complaints touch their table.\<close>

lemma put_affected: "affected e (map_sum id (\<lambda>(n, t). (n, g t)) r) = Inr s' \<Longrightarrow> \<exists>t. s' = g t"
  by (auto simp: affected_def map_sum_def split: sum.splits prod.splits if_split_asm)

lemma put_unique: "unique_as e (map_sum id g r) = Inr s' \<Longrightarrow> \<exists>t. s' = g t"
  by (auto simp: unique_as_def map_sum_def split: sum.splits sql_fault.splits)

lemma put_unhandled: "unhandled (map_sum id g r) = Inr s' \<Longrightarrow> \<exists>t. s' = g t"
  by (auto simp: unhandled_def map_sum_def split: sum.splits)

lemma with_uuid_Inr: "with_uuid u i k = Inr x \<Longrightarrow> \<exists>c. k c = Inr x"
  by (auto simp: with_uuid_def split: option.splits)

lemma recount_complaints: "recountOffers v j s = Inr s' \<Longrightarrow> t_complaints s' = t_complaints s"
  by (auto simp: recountOffers_def with_uuid_def Let_def split: option.splits)

lemma offer_complaints:
  "pg_CreateOffer v x s = Inr s' \<Longrightarrow> t_complaints s' = t_complaints s"
  "pg_UpdateOffer v x s = Inr s' \<Longrightarrow> t_complaints s' = t_complaints s"
  by (auto simp: pg_CreateOffer_def pg_UpdateOffer_def split: sum.splits
      dest!: with_uuid_Inr recount_complaints put_unique put_affected)

lemma view_complaints: "pg_AddView v i w s = Inr (b, s') \<Longrightarrow> t_complaints s' = t_complaints s"
  by (auto simp: pg_AddView_def Let_def split: option.splits if_split_asm dest!: with_uuid_Inr)

lemma other_complaints:
  "pg_Create v j s = Inr s' \<Longrightarrow> t_complaints s' = t_complaints s"
  "pg_Update v j s = Inr s' \<Longrightarrow> t_complaints s' = t_complaints s"
  "pg_CreateBid v b s = Inr s' \<Longrightarrow> t_complaints s' = t_complaints s"
  "pg_UpdateBid v b s = Inr s' \<Longrightarrow> t_complaints s' = t_complaints s"
  "pg_CreateDeal v d s = Inr s' \<Longrightarrow> t_complaints s' = t_complaints s"
  "pg_UpdateDeal v d s = Inr s' \<Longrightarrow> t_complaints s' = t_complaints s"
  "pg_CreateReview v r s = Inr s' \<Longrightarrow> t_complaints s' = t_complaints s"
  "pg_UpdateReview v r s = Inr s' \<Longrightarrow> t_complaints s' = t_complaints s"
  "pg_CreateDispute v p s = Inr s' \<Longrightarrow> t_complaints s' = t_complaints s"
  "pg_UpdateDispute v p s = Inr s' \<Longrightarrow> t_complaints s' = t_complaints s"
  "pg_CreateChat v c s = Inr s' \<Longrightarrow> t_complaints s' = t_complaints s"
  "pg_UpdateChat v c s = Inr s' \<Longrightarrow> t_complaints s' = t_complaints s"
  "pg_CreateMessage v x s = Inr s' \<Longrightarrow> t_complaints s' = t_complaints s"
  unfolding pg_Create_def pg_Update_def pg_CreateBid_def pg_UpdateBid_def pg_CreateDeal_def pg_UpdateDeal_def
    pg_CreateReview_def pg_UpdateReview_def pg_CreateDispute_def pg_UpdateDispute_def pg_CreateChat_def pg_UpdateChat_def
    pg_CreateMessage_def
  by ((drule with_uuid_Inr, elim exE)?, (drule put_unique put_affected put_unhandled)?, force)+

lemma read_complaints: "pg_MarkRead v i w s = Inr s' \<Longrightarrow> t_complaints s' = t_complaints s"
  by (simp add: pg_MarkRead_def with_uuid_def split: option.splits) auto

lemma do_complaints:
  assumes "pg_do v call s = Inr s'"
  shows "t_complaints s' = t_complaints s \<or> (\<exists>c. pg_CreateComplaint v c s = Inr s' \<or> pg_UpdateComplaint v c s = Inr s')"
proof (cases call)
  case (SeeJob i w)
  then have m: "map_sum id snd (pg_AddView v i w s) = Inr s'" using assms by (simp add: pg_do_def)
  show ?thesis
  proof (cases "pg_AddView v i w s")
    case (Inr x)
    then have "pg_AddView v i w s = Inr (fst x, s')" using m by (simp add: prod_eq_iff)
    then show ?thesis by (intro disjI1 view_complaints)
  qed (use m in simp)
qed (insert assms, simp_all add: pg_do_def,
    (rule disjI1, (erule other_complaints | erule offer_complaints | erule read_complaints) | rule disjI2, blast)+)

lemma untitled_runs: "untitled s \<Longrightarrow> untitled (snd (pg_runs v calls s))"
proof (induction calls arbitrary: s)
  case (Cons c cs)
  have "untitled s'" if "pg_do v c s = Inr s'" for s'
    using do_complaints [OF that]
  proof
    assume "t_complaints s' = t_complaints s"
    then show ?thesis using Cons.prems by (simp add: untitled_def)
  qed (use Cons.prems untitled_new untitled_change in blast)
  then show ?case using Cons by (cases "pg_do v c s") auto
qed simp

text \<open>With Postgres the queue of the moderators never shows what a complaint is about: after any history every line has an
  empty title. The in-memory store, on which the queue is tested, puts the title of the job there.\<close>

theorem complaints_untitled:
  "(\<forall>cs. pg_OpenComplaints rank limit (snd (pg_runs v calls NewPg)) = Inr cs \<longrightarrow> (\<forall>c \<in> set cs. cTargetTitle c = []))
   \<and> (\<forall>cs. OpenComplaints rank limit m = Inr cs \<longrightarrow>
        (\<forall>c \<in> set cs. \<forall>j. cTargetKind c = TargetJob \<longrightarrow> map_of (jobs m) (cTargetID c) = Some j \<longrightarrow> cTargetTitle c = jTitle j))"
proof (intro conjI allI impI)
  fix cs assume q: "pg_OpenComplaints rank limit (snd (pg_runs v calls NewPg)) = Inr cs"
  have "untitled NewPg" by (simp add: untitled_def NewPg_def)
  then have "untitled (snd (pg_runs v calls NewPg))" by (rule untitled_runs)
  then show "\<forall>c \<in> set cs. cTargetTitle c = []"
    using q by (auto simp: pg_OpenComplaints_def limit_offset_def untitled_def list_all_iff select_from_def
        split: if_split_asm dest!: in_set_takeD in_set_dropD)
next
  fix cs assume "OpenComplaints rank limit m = Inr cs"
  then show "\<forall>c \<in> set cs. \<forall>j. cTargetKind c = TargetJob \<longrightarrow> map_of (jobs m) (cTargetID c) = Some j \<longrightarrow> cTargetTitle c = jTitle j"
    using set_gopage by (fastforce simp: OpenComplaints_def complaint_row_def Let_def split: option.splits if_split_asm)
qed

text \<open>A complaint about the job of the samples.\<close>

definition the_complaint :: Complaint where
  "the_complaint = \<lparr>cID = ''c1'', cTargetKind = TargetJob, cTargetID = ''j1'', cAuthorID = ''boris'', cReason = text_of 12,
     cStatus = ComplaintOpen, cAction = ActionOther '''', cNote = [], cReviewedBy = '''', cReviewedAt = None,
     cCreatedAt = 0, cTargetTitle = [], cSameTarget = 0\<rparr>"

theorem complaints_untitled_witness:
  "pg_OpenComplaints (\<lambda>_. 0) 50 (snd (pg_runs sample_db [SaveComplaint the_complaint] NewPg)) = Inr [the_complaint\<lparr>cSameTarget := 1\<rparr>]
   \<and> cTargetTitle (the_complaint\<lparr>cSameTarget := 1\<rparr>) = []"
proof -
  have q: "pg_OpenComplaints (\<lambda>_. 0) 50 (snd (pg_runs sample_db [SaveComplaint the_complaint] NewPg)) = Inr [the_complaint\<lparr>cSameTarget := 1\<rparr>]"
    by (simp add: pg_OpenComplaints_def pg_do_def pg_CreateComplaint_def insert_into_def complaint_values_def complaint_check_def
        touches_def the_complaint_def NewPg_def sample_db_def select_from_def limit_offset_def grange_def plain_text_def text_of_def
        stamp_def TargetJob_def)
  then show ?thesis using complaints_untitled [of "\<lambda>_. 0" 50 sample_db "[SaveComplaint the_complaint]" NewMemory] by simp
qed


section \<open>Texts that are no identifiers\<close>

text \<open>A text that the type \<^verbatim>\<open>uuid\<close> refuses breaks every read by it, where the in-memory store finds nothing.\<close>

lemma unreadable_identifier:
  assumes "dbUuid v i = None"
  shows "pg_ByID v i s = Inl Broken" "pg_BidsByJob v rank i s = Inl Broken" "pg_OffersByJob v rank i s = Inl Broken"
    "pg_DealByID v i s = Inl Broken" "pg_ChatByID v i s = Inl Broken" "pg_ReviewsAbout v rank i n k s = Inl Broken"
  using assms
  by (simp_all add: pg_ByID_def pg_BidsByJob_def pg_OffersByJob_def pg_DealByID_def pg_ChatByID_def pg_ReviewsAbout_def)

text \<open>The empty text for a machine is let through by the check of the machine, and breaks the insertion of a bid or an offer.\<close>

lemma empty_machine_breaks:
  assumes "dbUuid v '''' = None"
  shows "checkUnit e w (Some '''') = None"
    "bUnitID b = Some '''' \<Longrightarrow> pg_CreateBid v b s = Inl Broken"
    "oUnitID x = Some '''' \<Longrightarrow> pg_CreateOffer v x s = Inl Broken"
  using assms
  by (auto simp: checkUnit_def pg_CreateBid_def bid_values_def pg_CreateOffer_def offer_values_def insert_into_def
      nullable_uuid_def split: option.split)


section \<open>The search\<close>

text \<open>Without the signs of LIKE the two searches select the same jobs; a lone percent sign or underscore finds in Postgres
  everything that has a title.\<close>

lemma feed_search:
  assumes "\<And>t. dbLower v t = lower look t" "fCategoryIDs f = []" "point_of f = None"
    and q: "q = lower look (TrimSpace (fQuery f))"
  shows "no_signs q \<Longrightarrow> feed_where v look f cats j \<longleftrightarrow> wanted look f j"
    "q \<in> {[37], [95]} \<Longrightarrow> jTitle j \<noteq> [] \<Longrightarrow> found_by v look f j"
proof -
  have e: "TrimSpace (fQuery f) = [] \<longleftrightarrow> q = []" by (simp add: q lower_def)
  have pat: "search_pattern look f = 37 # q @ [37]" by (simp add: search_pattern_def q)
  show "no_signs q \<Longrightarrow> feed_where v look f cats j \<longleftrightarrow> wanted look f j"
    by (auto simp: feed_where_def wanted_def found_by_def assms(1-3) pat e like_contains Let_def q [symmetric]
        split: option.splits)
  show "q \<in> {[37], [95]} \<Longrightarrow> jTitle j \<noteq> [] \<Longrightarrow> found_by v look f j"
    by (auto simp: found_by_def pat assms(1) lower_def intro!: like_sign)
qed

end
