(* ===== verification/Postgres_Catalog.thy ===== *)
theory Postgres_Catalog
  imports Sql Catalog_Equipment Catalog_Rules
begin

text \<open>
  The Postgres store of the directory and of the machines (\<^verbatim>\<open>services/catalog/internal/store/*_postgres.go\<close>,
  \<^verbatim>\<open>postgres.go\<close>, \<^verbatim>\<open>migrations/*.sql\<close>). The identifiers that the column type \<^verbatim>\<open>uuid\<close> reads and the order of
  names in the collation of the database are parameters. A template and the characteristics are \<^verbatim>\<open>jsonb\<close>: a value that
  holds no character of code zero comes back as it was written.
\<close>

record shelf =
  shUuid :: uuids
  shCollates :: "runes \<Rightarrow> runes \<Rightarrow> bool"

record Shelves =
  k_categories :: "(runes, Category) gomap"
  k_machines :: "Equipment sql_table"

text \<open>Categories carry texts as identifiers; only an ASCII text can be one.\<close>

definition uuid_text :: "uuids \<Rightarrow> runes \<Rightarrow> runes option" where
  "uuid_text u r = (if list_all (\<lambda>c. c < 128) r then map_option runes_of (u (map char_of r)) else None)"

definition category_uuid :: "shelf \<Rightarrow> runes \<Rightarrow> runes option" where
  "category_uuid v = uuid_text (shUuid v)"


section \<open>Rows of the directory\<close>

definition plain_field :: "SpecField \<Rightarrow> bool" where
  "plain_field f \<longleftrightarrow> plain_text (sfKey f) \<and> plain_text (sfType f) \<and> plain_text (sfUnit f) \<and> list_all plain_text (sfOptions f)
     \<and> plain_text (sfLabelHy f) \<and> plain_text (sfLabelRu f) \<and> plain_text (sfLabelEn f)"

definition plain_names :: "Names \<Rightarrow> bool" where
  "plain_names n \<longleftrightarrow> plain_text (nHy n) \<and> plain_text (nRu n) \<and> plain_text (nEn n)"

text \<open>What both writes send: names, icon, template and place.\<close>

definition category_fits :: "Category \<Rightarrow> bool" where
  "category_fits c \<longleftrightarrow> plain_names (caName c) \<and> plain_text (caIcon c) \<and> list_all plain_field (caSpecTemplate c)
     \<and> int4 (caSortOrder c)"

definition category_values :: "shelf \<Rightarrow> Category \<Rightarrow> Category option" where
  "category_values v c =
     (case (category_uuid v (caID c), nullable_uuid (category_uuid v) (caParentID c)) of
        (Some i, Some p) \<Rightarrow>
          if category_fits c \<and> plain_text (caKind c) \<and> plain_text (caSlug c)
          then Some (c\<lparr>caID := i, caParentID := p, caActive := True\<rparr>) else None
      | _ \<Rightarrow> None)"

definition category_sets :: "shelf \<Rightarrow> Category \<Rightarrow> (Category \<Rightarrow> Category) option" where
  "category_sets v c =
     (case nullable_uuid (category_uuid v) (caParentID c) of
        None \<Rightarrow> None
      | Some p \<Rightarrow>
          if category_fits c
          then Some (\<lambda>r. r\<lparr>caParentID := p, caName := caName c, caIcon := caIcon c, caSpecTemplate := caSpecTemplate c,
                 caSortOrder := caSortOrder c\<rparr>)
          else None)"

definition same_slug :: "Category \<Rightarrow> Category \<Rightarrow> bool" where
  "same_slug x y \<longleftrightarrow> caSlug x = caSlug y"

text \<open>A kind is one of two, and a parent is a row of the table, the row itself included.\<close>

definition category_check :: "(runes, Category) gomap \<Rightarrow> Category \<Rightarrow> bool" where
  "category_check t c \<longleftrightarrow> ValidKind (caKind c)
     \<and> (case caParentID c of None \<Rightarrow> True | Some p \<Rightarrow> p = caID c \<or> map_of t p \<noteq> None)"


section \<open>The directory\<close>

text \<open>\<^verbatim>\<open>ORDER BY (parent_id IS NOT NULL), sort_order, name_ru\<close>\<close>

definition shown_before :: "shelf \<Rightarrow> Category \<Rightarrow> Category \<Rightarrow> bool" where
  "shown_before v x y \<longleftrightarrow>
     (if caParentID x = None \<longleftrightarrow> caParentID y = None
      then caSortOrder x < caSortOrder y
           \<or> caSortOrder x = caSortOrder y \<and> shCollates v (nRu (caName x)) (nRu (caName y))
      else caParentID x = None)"

definition of_kind :: "Kind \<Rightarrow> Category \<Rightarrow> bool" where
  "of_kind kind c \<longleftrightarrow> kind = [] \<or> caKind c = kind"

definition k_List :: "shelf \<Rightarrow> (runes \<Rightarrow> nat) \<Rightarrow> Kind \<Rightarrow> Shelves \<Rightarrow> cat_err pg_fault + Category list" where
  "k_List v rank kind s =
     (if \<not> plain_text kind then Inl Broken
      else Inr (select_from rank (\<lambda>c. caActive c \<and> of_kind kind c) (shown_before v) (k_categories s)))"

definition k_ListAll :: "shelf \<Rightarrow> (runes \<Rightarrow> nat) \<Rightarrow> Kind \<Rightarrow> Shelves \<Rightarrow> cat_err pg_fault + Category list" where
  "k_ListAll v rank kind s =
     (if \<not> plain_text kind then Inl Broken
      else Inr (select_from rank (of_kind kind) (shown_before v) (k_categories s)))"

text \<open>\<^verbatim>\<open>scan\<close> takes the row for a visible one, as the condition of its queries says.\<close>

definition scan_category :: "Category \<Rightarrow> Category" where "scan_category c = c\<lparr>caActive := True\<rparr>"

definition k_ByID :: "shelf \<Rightarrow> runes \<Rightarrow> Shelves \<Rightarrow> cat_err pg_fault + Category" where
  "k_ByID v i s =
     with_uuid (category_uuid v) i (\<lambda>i.
       case map_of (k_categories s) i of
         None \<Rightarrow> Inl (Known ErrCatNotFound)
       | Some c \<Rightarrow> if caActive c then Inr (scan_category c) else Inl (Known ErrCatNotFound))"

definition k_AnyByID :: "shelf \<Rightarrow> runes \<Rightarrow> Shelves \<Rightarrow> cat_err pg_fault + Category" where
  "k_AnyByID v i s =
     with_uuid (category_uuid v) i (\<lambda>i. known (or_err (map_of (k_categories s) i) ErrCatNotFound))"

definition k_CreateCategory :: "shelf \<Rightarrow> Category \<Rightarrow> Shelves \<Rightarrow> cat_err pg_fault + Shelves" where
  "k_CreateCategory v c s =
     unhandled (map_sum id (\<lambda>t. s\<lparr>k_categories := t\<rparr>)
       (insert_into caID same_slug (category_check (k_categories s)) (category_values v c) (k_categories s)))"

definition change_category :: "shelf \<Rightarrow> runes \<Rightarrow> (Category \<Rightarrow> Category) option \<Rightarrow> Shelves \<Rightarrow> cat_err pg_fault + Shelves" where
  "change_category v i sets s =
     with_uuid (category_uuid v) i (\<lambda>i.
       affected ErrCatNotFound (map_sum id (\<lambda>(n, t). (n, s\<lparr>k_categories := t\<rparr>))
         (update_where_id same_slug (category_check (k_categories s)) i sets (k_categories s))))"

definition k_UpdateCategory :: "shelf \<Rightarrow> Category \<Rightarrow> Shelves \<Rightarrow> cat_err pg_fault + Shelves" where
  "k_UpdateCategory v c = change_category v (caID c) (category_sets v c)"

definition k_SetCategoryActive :: "shelf \<Rightarrow> runes \<Rightarrow> bool \<Rightarrow> Shelves \<Rightarrow> cat_err pg_fault + Shelves" where
  "k_SetCategoryActive v i b = change_category v i (Some (\<lambda>c. c\<lparr>caActive := b\<rparr>))"

definition k_HasChildren :: "shelf \<Rightarrow> runes \<Rightarrow> Shelves \<Rightarrow> cat_err pg_fault + bool" where
  "k_HasChildren v i s =
     with_uuid (category_uuid v) i (\<lambda>i. Inr (length (filter (\<lambda>c. caParentID c = Some i) (gvals (k_categories s))) > 0))"

definition k_SlugTaken :: "shelf \<Rightarrow> runes \<Rightarrow> runes \<Rightarrow> Shelves \<Rightarrow> cat_err pg_fault + bool" where
  "k_SlugTaken v slug exceptID s =
     (let others = (\<lambda>p. length (filter (\<lambda>c. caSlug c = slug \<and> p c) (gvals (k_categories s))) > 0)
      in if \<not> plain_text slug then Inl Broken
         else if exceptID = [] then Inr (others (\<lambda>_. True))
         else with_uuid (category_uuid v) exceptID (\<lambda>i. Inr (others (\<lambda>c. caID c \<noteq> i))))"


section \<open>The machines\<close>

fun plain_spec :: "spec_json \<Rightarrow> bool" where
  "plain_spec JNull = True"
| "plain_spec (JBool b) = True"
| "plain_spec (JNum x) = True"
| "plain_spec (JStr s) = plain_text s"
| "plain_spec (JArr xs) = list_all plain_spec xs"
| "plain_spec (JObj fs) = list_all (\<lambda>f. plain_text (fst f) \<and> plain_spec (snd f)) fs"

definition small :: "int option \<Rightarrow> bool" where
  "small x = (case x of None \<Rightarrow> True | Some n \<Rightarrow> int2 n)"

text \<open>What both writes send; an empty category goes to the database as NULL.\<close>

definition machine_fits :: "Equipment \<Rightarrow> bool" where
  "machine_fits e \<longleftrightarrow> plain_text (eqBrand e) \<and> plain_text (eqModel e) \<and> small (eqYear e) \<and> small (eqMinHours e)
     \<and> list_all (\<lambda>f. plain_text (fst f) \<and> plain_spec (snd f)) (eqSpecs e) \<and> int2 (eqCrewSize e) \<and> int2 (eqDraftStep e)
     \<and> list_all plain_text (eqPhotos e) \<and> list_all plain_text (eqDocs e)"

definition machine_category :: "shelf \<Rightarrow> Equipment \<Rightarrow> runes option" where
  "machine_category v e = (if eqCategoryID e = [] then Some [] else category_uuid v (eqCategoryID e))"

definition machine_values :: "shelf \<Rightarrow> Equipment \<Rightarrow> Equipment option" where
  "machine_values v e =
     (case (shUuid v (eqID e), shUuid v (eqOwnerID e), machine_category v e) of
        (Some i, Some w, Some c) \<Rightarrow>
          if machine_fits e
          then Some (e\<lparr>eqID := i, eqOwnerID := w, eqCategoryID := c, eqRejectReason := [], eqWins := 0,
                 eqCreatedAt := stamp (eqCreatedAt e), eqUpdatedAt := stamp (eqUpdatedAt e), eqCategoryName := None\<rparr>)
          else None
      | _ \<Rightarrow> None)"

definition machine_sets :: "shelf \<Rightarrow> Equipment \<Rightarrow> (Equipment \<Rightarrow> Equipment) option" where
  "machine_sets v e =
     (case machine_category v e of
        None \<Rightarrow> None
      | Some c \<Rightarrow>
          if machine_fits e \<and> plain_text (eqRejectReason e)
          then Some (\<lambda>r. r\<lparr>eqCategoryID := c, eqBrand := eqBrand e, eqModel := eqModel e, eqYear := eqYear e,
                 eqSpecs := eqSpecs e, eqPriceHour := eqPriceHour e, eqPriceShift := eqPriceShift e,
                 eqPriceDay := eqPriceDay e, eqMinHours := eqMinHours e, eqDelivery := eqDelivery e,
                 eqCrewSize := eqCrewSize e, eqCrewPrice := eqCrewPrice e, eqPhotos := eqPhotos e, eqDocs := eqDocs e,
                 eqStatus := eqStatus e, eqRejectReason := eqRejectReason e, eqDraftStep := eqDraftStep e,
                 eqUpdatedAt := stamp (eqUpdatedAt e)\<rparr>)
          else None)"

text \<open>The category of a machine is a row of the directory, hidden or not.\<close>

definition machine_check :: "Shelves \<Rightarrow> Equipment \<Rightarrow> bool" where
  "machine_check s e \<longleftrightarrow> eqCategoryID e = [] \<or> map_of (k_categories s) (eqCategoryID e) \<noteq> None"

definition k_CreateEquipment :: "shelf \<Rightarrow> Equipment \<Rightarrow> Shelves \<Rightarrow> eq_err pg_fault + Shelves" where
  "k_CreateEquipment v e s =
     unhandled (map_sum id (\<lambda>t. s\<lparr>k_machines := t\<rparr>)
       (insert_into eqID (\<lambda>_ _. False) (machine_check s) (machine_values v e) (k_machines s)))"

definition k_UpdateEquipment :: "shelf \<Rightarrow> Equipment \<Rightarrow> Shelves \<Rightarrow> eq_err pg_fault + Shelves" where
  "k_UpdateEquipment v e s =
     with_uuid (shUuid v) (eqID e) (\<lambda>i.
       affected ErrEquipmentNotFound (map_sum id (\<lambda>(n, t). (n, s\<lparr>k_machines := t\<rparr>))
         (update_where_id (\<lambda>_ _. False) (machine_check s) i (machine_sets v e) (k_machines s))))"

definition k_EquipmentByID :: "shelf \<Rightarrow> string \<Rightarrow> Shelves \<Rightarrow> eq_err pg_fault + Equipment" where
  "k_EquipmentByID v i s =
     with_uuid (shUuid v) i (\<lambda>i. known (or_err (map_of (k_machines s) i) ErrEquipmentNotFound))"

definition k_EquipmentByOwner :: "shelf \<Rightarrow> (string \<Rightarrow> nat) \<Rightarrow> string \<Rightarrow> Shelves \<Rightarrow> eq_err pg_fault + Equipment list" where
  "k_EquipmentByOwner v rank ownerID s =
     with_uuid (shUuid v) ownerID (\<lambda>w.
       Inr (select_from rank (\<lambda>e. eqOwnerID e = w \<and> eqStatus e \<noteq> EqArchived) newer_machine (k_machines s)))"

text \<open>\<^verbatim>\<open>ORDER BY status, created_at DESC\<close>: the word \<^verbatim>\<open>unverified\<close> comes before \<^verbatim>\<open>verified\<close>.\<close>

definition public_before :: "Equipment \<Rightarrow> Equipment \<Rightarrow> bool" where
  "public_before x y \<longleftrightarrow>
     (if eqStatus x = eqStatus y then newer_machine x y else eqStatus x = EqUnverified)"

definition k_PublicEquipment :: "shelf \<Rightarrow> (string \<Rightarrow> nat) \<Rightarrow> string \<Rightarrow> Shelves \<Rightarrow> eq_err pg_fault + Equipment list" where
  "k_PublicEquipment v rank ownerID s =
     with_uuid (shUuid v) ownerID (\<lambda>w.
       Inr (select_from rank (\<lambda>e. eqOwnerID e = w \<and> eqStatus e \<in> {EqVerified, EqUnverified}) public_before
         (k_machines s)))"

definition k_PendingEquipment :: "(string \<Rightarrow> nat) \<Rightarrow> int \<Rightarrow> Shelves \<Rightarrow> eq_err pg_fault + Equipment list" where
  "k_PendingEquipment rank limit s =
     limit_offset limit 0 (select_from rank (\<lambda>e. eqStatus e = EqPending) older_update (k_machines s))"


text \<open>The columns of small numbers refuse a draft of the year 40000, which the service itself lets through.\<close>

lemma large_year_breaks: "eqYear e = Some y \<Longrightarrow> 2 ^ 15 \<le> y \<Longrightarrow> k_CreateEquipment v e s = Inl Broken"
  by (auto simp: k_CreateEquipment_def machine_values_def machine_fits_def small_def int2_def insert_into_def split: option.split)


section \<open>The same directory as in memory\<close>

lemma map_of_find: "keyed caID t \<Longrightarrow> find (\<lambda>c. caID c = i) (gvals t) = map_of t i"
  by (induction t) (auto simp: keyed_def)

lemma change_first_update:
  "keyed caID t \<Longrightarrow> map_of t i = Some r \<Longrightarrow> change_first i f (gvals t) = Inr (gvals (AList.update i (f r) t))"
  by (induction t) (auto simp: keyed_def)

lemma change_first_none: "keyed caID t \<Longrightarrow> map_of t i = None \<Longrightarrow> change_first i f (gvals t) = Inl ErrCatNotFound"
  by (induction t) (auto simp: keyed_def)

lemma change_first_cong:
  "(\<And>c. c \<in> set cs \<Longrightarrow> caID c = i \<Longrightarrow> f c = g c) \<Longrightarrow> change_first i f cs = change_first i g cs"
  by (induction cs) auto

lemma gvals_new: "map_of t k = None \<Longrightarrow> gvals (AList.update k r t) = gvals t @ [r]"
  by (induction t) (auto split: if_splits)

lemma change_category_Inr:
  assumes "keyed caID (k_categories s)" "category_uuid v i = Some i" "change_category v i (Some f) s = Inr s'"
    "\<And>c. caID (f c) = caID c"
  shows "change_first i f (gvals (k_categories s)) = Inr (gvals (k_categories s')) \<and> keyed caID (k_categories s')"
proof -
  obtain r where r: "map_of (k_categories s) i = Some r" "s' = s\<lparr>k_categories := AList.update i (f r) (k_categories s)\<rparr>"
    using assms(2,3) by (auto simp: change_category_def update_where_id_def map_sum_def split: option.splits if_split_asm)
  have "caID (f r) = i" using assms(1,4) r(1) by (auto simp: keyed_def dest: map_of_SomeD)
  then show ?thesis using change_first_update [OF assms(1) r(1), of f] keyed_update_key [OF assms(1)] r(2) by auto
qed

text \<open>
  Over identifiers in canonical form, the form in which the service generates them, the rows of the table are those of
  the store in memory: an accepted write does to the rows what it does to the list, and the reads answer the same.
\<close>

definition canonical_row :: "shelf \<Rightarrow> Category \<Rightarrow> bool" where
  "canonical_row v c \<longleftrightarrow> category_uuid v (caID c) = Some (caID c) \<and> nullable_uuid (category_uuid v) (caParentID c) = Some (caParentID c)"

theorem directory_refines_memory:
  assumes "keyed caID (k_categories s)" and "canonical_row v c"
  shows "k_CreateCategory v c s = Inr s' \<Longrightarrow> gvals (k_categories s') = CreateCategory c (gvals (k_categories s)) \<and> keyed caID (k_categories s')"
    and "k_UpdateCategory v c s = Inr s' \<Longrightarrow>
      UpdateCategory c (gvals (k_categories s)) = Inr (gvals (k_categories s')) \<and> keyed caID (k_categories s')"
    and "k_SetCategoryActive v (caID c) b s = Inr s' \<Longrightarrow>
      SetCategoryActive (caID c) b (gvals (k_categories s)) = Inr (gvals (k_categories s')) \<and> keyed caID (k_categories s')"
    and "k_AnyByID v (caID c) s = known (AnyByID (caID c) (gvals (k_categories s)))"
    and "k_HasChildren v (caID c) s = Inr (HasChildren (caID c) (gvals (k_categories s)))"
proof -
  have i: "category_uuid v (caID c) = Some (caID c)" using assms(2) by (simp add: canonical_row_def)
  show "gvals (k_categories s') = CreateCategory c (gvals (k_categories s)) \<and> keyed caID (k_categories s')"
    if "k_CreateCategory v c s = Inr s'"
    using that assms keyed_update [OF assms(1), of "c\<lparr>caActive := True\<rparr>"]
    by (auto simp: k_CreateCategory_def canonical_row_def insert_into_def category_values_def unhandled_def map_sum_def
        CreateCategory_def gvals_new split: option.splits if_split_asm)
  show "UpdateCategory c (gvals (k_categories s)) = Inr (gvals (k_categories s')) \<and> keyed caID (k_categories s')"
    if u: "k_UpdateCategory v c s = Inr s'"
  proof -
    obtain f where f: "category_sets v c = Some f"
      using u i by (auto simp: k_UpdateCategory_def change_category_def update_where_id_def split: option.splits)
    then have row: "f r = r\<lparr>caParentID := caParentID c, caName := caName c, caIcon := caIcon c,
        caSpecTemplate := caSpecTemplate c, caSortOrder := caSortOrder c\<rparr>" for r
      using assms(2) by (auto simp: category_sets_def canonical_row_def split: if_split_asm)
    have "change_first (caID c) f (gvals (k_categories s)) = Inr (gvals (k_categories s')) \<and> keyed caID (k_categories s')"
      using change_category_Inr [OF assms(1) i _ , of f s'] u f row by (simp add: k_UpdateCategory_def)
    moreover have "UpdateCategory c (gvals (k_categories s)) = change_first (caID c) f (gvals (k_categories s))"
      unfolding UpdateCategory_def by (rule change_first_cong) (simp add: row)
    ultimately show ?thesis by simp
  qed
  show "SetCategoryActive (caID c) b (gvals (k_categories s)) = Inr (gvals (k_categories s')) \<and> keyed caID (k_categories s')"
    if "k_SetCategoryActive v (caID c) b s = Inr s'"
    using change_category_Inr [OF assms(1) i _ , of "\<lambda>c. c\<lparr>caActive := b\<rparr>"] that
    by (simp add: k_SetCategoryActive_def SetCategoryActive_def)
  show "k_AnyByID v (caID c) s = known (AnyByID (caID c) (gvals (k_categories s)))"
    using i assms(1) by (simp add: k_AnyByID_def AnyByID_def map_of_find)
  show "k_HasChildren v (caID c) s = Inr (HasChildren (caID c) (gvals (k_categories s)))"
    using i by (auto simp: k_HasChildren_def HasChildren_def filter_empty_conv)
qed


section \<open>A category under itself\<close>

text \<open>The handler of editions over this store: it compares identifiers as texts, the database as identifiers.\<close>

definition k_checkParent :: "shelf \<Rightarrow> runes option \<Rightarrow> Kind \<Rightarrow> runes \<Rightarrow> Shelves \<Rightarrow> cat_err pg_fault + runes option" where
  "k_checkParent v parentID kind selfID s =
     (case parentID of
        None \<Rightarrow> Inr None
      | Some p \<Rightarrow>
          if TrimSpace p = [] then Inr None
          else if TrimSpace p = selfID then Inl (Known ErrOwnParent)
          else case k_AnyByID v (TrimSpace p) s of
                 Inl e \<Rightarrow> Inl e
               | Inr parent \<Rightarrow> if caKind parent \<noteq> kind then Inl (Known ErrParentKind) else Inr (Some (TrimSpace p)))"

definition k_failCategory :: "cat_err pg_fault \<Rightarrow> int \<times> string" where
  "k_failCategory f = (case f of Known e \<Rightarrow> failCategory e | Broken \<Rightarrow> (500, ''internal''))"

definition k_edited :: "shelf \<Rightarrow> categoryBody \<Rightarrow> Category \<Rightarrow> runes \<Rightarrow> Shelves \<Rightarrow> cat_err pg_fault + Category" where
  "k_edited v body current i s =
     (case ValidateName (cbName body) of Inl e \<Rightarrow> Inl (Known e) | Inr name \<Rightarrow>
      case ValidateSpec (cbSpecs body) of Inl e \<Rightarrow> Inl (Known e) | Inr specs \<Rightarrow>
      case k_checkParent v (cbParentID body) (caKind current) i s of Inl e \<Rightarrow> Inl e | Inr parent \<Rightarrow>
      Inr (current\<lparr>caParentID := parent, caName := name, caIcon := iconOr (cbIcon body), caSpecTemplate := specs,
             caSortOrder := sortOr (cbSort body)\<rparr>))"

definition k_updateCategory :: "shelf \<Rightarrow> runes \<Rightarrow> categoryBody option \<Rightarrow> Shelves \<Rightarrow> Category answer \<times> Shelves" where
  "k_updateCategory v i body s =
     (case body of
        None \<Rightarrow> (Inl (400, ''bad_request''), s)
      | Some b \<Rightarrow>
          case k_AnyByID v i s of
            Inl _ \<Rightarrow> (Inl (404, ''not_found''), s)
          | Inr current \<Rightarrow>
              case k_edited v b current i s of
                Inl e \<Rightarrow> (Inl (k_failCategory e), s)
              | Inr c \<Rightarrow>
                  case k_UpdateCategory v c s of
                    Inl _ \<Rightarrow> (Inl (500, ''internal''), s)
                  | Inr s' \<Rightarrow> (Inr (200, c), s'))"

lemma slug_alone:
  assumes "keyed caID t" "distinct (map caSlug (gvals t))" "map_of t i = Some c" "same_slug r c"
  shows "\<not> touches same_slug r (AList.delete i t)"
proof -
  have "caSlug x \<noteq> caSlug c" if x: "x \<in> set (gvals (AList.delete i t))" for x
  proof
    assume e: "caSlug x = caSlug c"
    obtain k where k: "(k, x) \<in> set t" "k \<noteq> i"
    proof -
      have "x \<in> snd ` set (filter (\<lambda>(k, _). i \<noteq> k) t)" using x by (simp add: gvals_def AList.delete_eq)
      then show thesis using that by auto
    qed
    have "x \<in> set (gvals t)" "c \<in> set (gvals t)" using k(1) assms(3) by (force simp: gvals_def dest: map_of_SomeD)+
    then have "x = c" using assms(2) e by (metis distinct_map inj_onD)
    moreover have "caID x = k" "caID c = i" using assms(1) k(1) map_of_SomeD [OF assms(3)] by (force simp: keyed_def)+
    ultimately show False using k(2) by simp
  qed
  then show ?thesis using assms(4) by (auto simp: touches_def same_slug_def)
qed

text \<open>
  An edition whose parent is the category itself in another spelling (upper case, or braces around it) is accepted: the
  row becomes its own parent, and the tree loses it with everything below it.
\<close>

lemma own_parent_by_spelling:
  assumes "keyed caID (k_categories s)" "distinct (map caSlug (gvals (k_categories s)))"
    "map_of (k_categories s) (caID c) = Some c" "category_uuid v (caID c) = Some (caID c)"
    and "cbParentID body = Some p" "TrimSpace p \<noteq> []" "TrimSpace p \<noteq> caID c" "category_uuid v (TrimSpace p) = Some (caID c)"
    and "ValidateName (cbName body) = Inr nm" "ValidateSpec (cbSpecs body) = Inr sp" "ValidKind (caKind c)"
    and "category_fits (c\<lparr>caName := nm, caIcon := iconOr (cbIcon body), caSpecTemplate := sp, caSortOrder := sortOr (cbSort body)\<rparr>)"
  shows "\<exists>d s'. k_updateCategory v (caID c) (Some body) s = (Inr (200, d), s')
    \<and> (\<exists>r. map_of (k_categories s') (caID c) = Some r \<and> caParentID r = Some (caID c))
    \<and> (\<forall>n ts. BuildTree n (gvals (k_categories s')) = Some ts \<longrightarrow> (\<forall>x \<in> set (forest ts). caID x \<noteq> caID c))"
proof -
  let ?d = "c\<lparr>caParentID := Some (TrimSpace p), caName := nm, caIcon := iconOr (cbIcon body), caSpecTemplate := sp,
     caSortOrder := sortOr (cbSort body)\<rparr>"
  let ?r = "c\<lparr>caParentID := Some (caID c), caName := nm, caIcon := iconOr (cbIcon body), caSpecTemplate := sp,
     caSortOrder := sortOr (cbSort body)\<rparr>"
  let ?s = "s\<lparr>k_categories := AList.update (caID c) ?r (k_categories s)\<rparr>"
  have sets: "\<exists>f. category_sets v ?d = Some f \<and> f c = ?r"
    using assms(8,12) by (auto simp: category_sets_def nullable_uuid_def category_fits_def)
  have slug: "\<not> touches same_slug ?r (AList.delete (caID c) (k_categories s))"
    using assms(1-3) by (rule slug_alone) (simp add: same_slug_def)
  have "k_UpdateCategory v ?d s = Inr ?s"
    using sets slug assms(3,4,11)
    by (auto simp: k_UpdateCategory_def change_category_def update_where_id_def category_check_def)
  then have up: "k_updateCategory v (caID c) (Some body) s = (Inr (200, ?d), ?s)"
    using assms(3-10) by (simp add: k_updateCategory_def k_edited_def k_checkParent_def k_AnyByID_def)
  have k: "keyed caID (k_categories ?s)" using keyed_update_key [OF assms(1), of ?r] by simp
  have m: "map_of (k_categories ?s) (caID c) = Some ?r" by (simp add: update_conv')
  have d: "distinct (map caID (gvals (k_categories ?s)))" using keyed_distinct_vals [OF k] .
  have r: "?r \<in> set (gvals (k_categories ?s))" using keyed_get_mem [OF k m] .
  have none: "\<not> hangs (gvals (k_categories ?s)) ?r" using two_cycle [OF d r r] by simp
  have "caID x \<noteq> caID c" if t: "BuildTree n (gvals (k_categories ?s)) = Some ts" and x: "x \<in> set (forest ts)" for n ts x
  proof
    assume "caID x = caID c"
    moreover have h: "hangs (gvals (k_categories ?s)) x" using forest_hangs [OF d t] x by blast
    ultimately have "x = ?r" using same_row [OF d _ r] by (auto simp: hangs_def dest: depth_mem)
    then show False using none h by simp
  qed
  then show ?thesis using up m by auto
qed

end
