(* ===== verification/Postgres_Notices.thy ===== *)
theory Postgres_Notices
  imports Sql Notifications_Service
begin

text \<open>
  The Postgres store of notifications (\<^verbatim>\<open>services/notifications/internal/store/postgres.go\<close>,
  \<^verbatim>\<open>feed_postgres.go\<close>, \<^verbatim>\<open>prefs_postgres.go\<close>, \<^verbatim>\<open>migrations/*.sql\<close>). Its three tables are those of the store in
  memory, with people under the identifiers that the column type \<^verbatim>\<open>uuid\<close> gives back. The error of a method is always
  one it only passes on.
\<close>

type_synonym 'a outcome = "unit pg_fault + 'a"


section \<open>Devices\<close>

definition platforms :: "string list" where
  "platforms = [''android'', ''ios'', ''web'']"

text \<open>The locale and the platform have defaults, an empty version goes as NULL and comes back empty.\<close>

definition device_values :: "uuids \<Rightarrow> Device \<Rightarrow> Device option" where
  "device_values u d =
     (let platform = (if dePlatform d = '''' then PlatformAndroid else dePlatform d)
      in case u (deUserID d) of
           None \<Rightarrow> None
         | Some w \<Rightarrow>
             if platform \<in> set platforms \<and> plain_string (deToken d) \<and> plain_string (deLocale d) \<and> plain_string (deAppVersion d)
             then Some (d\<lparr>deUserID := w, dePlatform := platform, deLocale := if deLocale d = '''' then ''ru'' else deLocale d,
                    deCreatedAt := stamp (deCreatedAt d), deLastSeenAt := stamp (deLastSeenAt d)\<rparr>)
             else None)"

text \<open>\<^verbatim>\<open>INSERT ... ON CONFLICT (token) DO UPDATE\<close>, where the time of creation is not among the columns set.\<close>

definition n_UpsertDevice :: "uuids \<Rightarrow> Device \<Rightarrow> Center \<Rightarrow> Center outcome" where
  "n_UpsertDevice u d s =
     (case device_values u d of
        None \<Rightarrow> Inl Broken
      | Some r \<Rightarrow>
          Inr (s\<lparr>devices := AList.update (deToken r)
            (case map_of (devices s) (deToken r) of None \<Rightarrow> r | Some old \<Rightarrow> r\<lparr>deCreatedAt := deCreatedAt old\<rparr>) (devices s)\<rparr>))"

definition n_DeleteDevice :: "string \<Rightarrow> Center \<Rightarrow> Center outcome" where
  "n_DeleteDevice token s =
     (if plain_string token then Inr (s\<lparr>devices := AList.delete token (devices s)\<rparr>) else Inl Broken)"

definition seen_later :: "Device \<Rightarrow> Device \<Rightarrow> bool" where
  "seen_later x y \<longleftrightarrow> deLastSeenAt x > deLastSeenAt y"

definition n_ListDevicesByUser :: "uuids \<Rightarrow> (string \<Rightarrow> nat) \<Rightarrow> string \<Rightarrow> Center \<Rightarrow> Device list outcome" where
  "n_ListDevicesByUser u rank userID s =
     with_uuid u userID (\<lambda>w. Inr (select_from rank (\<lambda>d. deUserID d = w) seen_later (devices s)))"


section \<open>The center of notifications\<close>

definition notice_values :: "uuids \<Rightarrow> Notice \<Rightarrow> Notice option" where
  "notice_values u n =
     (case (u (noID n), u (noUserID n)) of
        (Some i, Some w) \<Rightarrow>
          if plain_string (noKind n) \<and> plain_text (noTitle n) \<and> plain_text (noBody n)
             \<and> list_all (\<lambda>f. plain_string (fst f) \<and> plain_string (snd f)) (noData n)
          then Some (n\<lparr>noID := i, noUserID := w, noReadAt := None, noCreatedAt := stamp (noCreatedAt n)\<rparr>)
          else None
      | _ \<Rightarrow> None)"

definition n_SaveNotification :: "uuids \<Rightarrow> Notice \<Rightarrow> Center \<Rightarrow> Center outcome" where
  "n_SaveNotification u n s =
     unhandled (map_sum id (\<lambda>t. s\<lparr>feed := t\<rparr>)
       (insert_into noID (\<lambda>_ _. False) (\<lambda>_. True) (notice_values u n) (feed s)))"

definition n_ListNotifications :: "uuids \<Rightarrow> (string \<Rightarrow> nat) \<Rightarrow> string \<Rightarrow> int \<Rightarrow> int \<Rightarrow> Center \<Rightarrow> Notice list outcome" where
  "n_ListNotifications u rank userID limit offset s =
     with_uuid u userID (\<lambda>w.
       limit_offset limit offset (select_from rank (\<lambda>n. noUserID n = w) newer_notice (feed s)))"

definition n_UnreadCount :: "uuids \<Rightarrow> string \<Rightarrow> Center \<Rightarrow> int outcome" where
  "n_UnreadCount u userID s =
     with_uuid u userID (\<lambda>w. Inr (int (length (filter (unread w) (gvals (feed s))))))"

text \<open>\<^verbatim>\<open>$2::uuid[]\<close>: one text that is no identifier refuses the whole list.\<close>

fun uuid_list :: "uuids \<Rightarrow> string list \<Rightarrow> string list option" where
  "uuid_list u [] = Some []"
| "uuid_list u (x # xs) = (case (u x, uuid_list u xs) of (Some i, Some is) \<Rightarrow> Some (i # is) | _ \<Rightarrow> None)"

definition read_where :: "(string \<Rightarrow> Notice \<Rightarrow> bool) \<Rightarrow> time \<Rightarrow> Center \<Rightarrow> Center" where
  "read_where p now s =
     s\<lparr>feed := map (\<lambda>(i, n). (i, if p i n then n\<lparr>noReadAt := Some (stamp now)\<rparr> else n)) (feed s)\<rparr>"

definition n_MarkNotificationsRead :: "uuids \<Rightarrow> string \<Rightarrow> string list \<Rightarrow> time \<Rightarrow> Center \<Rightarrow> Center outcome" where
  "n_MarkNotificationsRead u userID ids now s =
     with_uuid u userID (\<lambda>w.
       if ids = [] then Inr (read_where (\<lambda>_ n. unread w n) now s)
       else case uuid_list u ids of
              None \<Rightarrow> Inl Broken
            | Some is \<Rightarrow> Inr (read_where (\<lambda>i n. unread w n \<and> i \<in> set is) now s))"

definition n_DeleteOldNotifications :: "time \<Rightarrow> Center \<Rightarrow> (int \<times> Center) outcome" where
  "n_DeleteOldNotifications before s =
     (let old = (\<lambda>n. noCreatedAt n < stamp before)
      in Inr (int (length (filter old (gvals (feed s)))), s\<lparr>feed := filter (\<lambda>(i, n). \<not> old n) (feed s)\<rparr>))"


section \<open>Settings\<close>

definition hour_check :: "int \<Rightarrow> bool" where "hour_check h \<longleftrightarrow> 0 \<le> h \<and> h \<le> 23"

definition n_PrefsOf :: "uuids \<Rightarrow> string \<Rightarrow> Center \<Rightarrow> Prefs outcome" where
  "n_PrefsOf u userID s =
     with_uuid u userID (\<lambda>w.
       Inr (case map_of (prefs s) w of None \<Rightarrow> DefaultPrefs userID | Some p \<Rightarrow> p\<lparr>prUserID := userID\<rparr>))"

definition n_SavePrefs :: "uuids \<Rightarrow> Prefs \<Rightarrow> Center \<Rightarrow> Center outcome" where
  "n_SavePrefs u p s =
     with_uuid u (prUserID p) (\<lambda>w.
       if hour_check (prQuietFrom p) \<and> hour_check (prQuietTo p)
       then Inr (s\<lparr>prefs := AList.update w (p\<lparr>prUserID := w\<rparr>) (prefs s)\<rparr>) else Inl Broken)"


section \<open>The same center as in memory\<close>

lemma uuid_list_canonical: "list_all (\<lambda>i. u i = Some i) is \<Longrightarrow> uuid_list u is = Some is"
  by (induction "is") auto

text \<open>
  For people and entries in canonical form and clocks of whole microseconds the methods answer what the store in memory
  answers; the devices of a person are the same up to their order.
\<close>

theorem notices_refine_memory:
  assumes w: "u w = Some w"
  shows "device_values u d = Some d \<Longrightarrow> n_UpsertDevice u d s = Inr (UpsertDevice d s)"
    and "plain_string t \<Longrightarrow> n_DeleteDevice t s = Inr (DeleteDevice t s)"
    and "\<exists>ds. n_ListDevicesByUser u rank w s = Inr ds \<and> mset ds = mset (ListDevicesByUser rank w s)"
    and "notice_values u n = Some n \<Longrightarrow> map_of (feed s) (noID n) = None \<Longrightarrow> n_SaveNotification u n s = Inr (SaveNotification n s)"
    and "0 < limit \<Longrightarrow> 0 \<le> offset \<Longrightarrow> n_ListNotifications u rank w limit offset s = Inr (ListNotifications rank w limit offset s)"
    and "n_UnreadCount u w s = Inr (UnreadCount w s)"
    and "list_all (\<lambda>i. u i = Some i) is \<Longrightarrow> stamp now = now \<Longrightarrow>
      n_MarkNotificationsRead u w is now s = Inr (MarkNotificationsRead w is now s)"
    and "stamp now = now \<Longrightarrow> n_DeleteOldNotifications now s = Inr (DeleteOldNotifications now s)"
    and "keyed prUserID (prefs s) \<Longrightarrow> n_PrefsOf u w s = Inr (PrefsOf w s)"
    and "prUserID p = w \<Longrightarrow> hour_check (prQuietFrom p) \<Longrightarrow> hour_check (prQuietTo p) \<Longrightarrow> n_SavePrefs u p s = Inr (store_SavePrefs p s)"
proof -
  show "device_values u d = Some d \<Longrightarrow> n_UpsertDevice u d s = Inr (UpsertDevice d s)"
    by (simp add: n_UpsertDevice_def UpsertDevice_def Let_def split: option.split)
  show "plain_string t \<Longrightarrow> n_DeleteDevice t s = Inr (DeleteDevice t s)"
    by (simp add: n_DeleteDevice_def DeleteDevice_def)
  show "\<exists>ds. n_ListDevicesByUser u rank w s = Inr ds \<and> mset ds = mset (ListDevicesByUser rank w s)"
    using w by (simp add: n_ListDevicesByUser_def ListDevicesByUser_def select_from_def)
  show "notice_values u n = Some n \<Longrightarrow> map_of (feed s) (noID n) = None \<Longrightarrow> n_SaveNotification u n s = Inr (SaveNotification n s)"
    by (simp add: n_SaveNotification_def SaveNotification_def insert_into_def touches_def)
  show "0 < limit \<Longrightarrow> 0 \<le> offset \<Longrightarrow> n_ListNotifications u rank w limit offset s = Inr (ListNotifications rank w limit offset s)"
    using w by (simp add: n_ListNotifications_def ListNotifications_def gopage_limit select_from_def)
  show "n_UnreadCount u w s = Inr (UnreadCount w s)"
    using w by (simp add: n_UnreadCount_def UnreadCount_def)
  show "n_MarkNotificationsRead u w is now s = Inr (MarkNotificationsRead w is now s)"
    if "list_all (\<lambda>i. u i = Some i) is" "stamp now = now"
    using w that uuid_list_canonical [OF that(1)]
    by (simp add: n_MarkNotificationsRead_def MarkNotificationsRead_def read_where_def marks_notice_def cong: if_cong)
  show "stamp now = now \<Longrightarrow> n_DeleteOldNotifications now s = Inr (DeleteOldNotifications now s)"
    by (simp add: n_DeleteOldNotifications_def DeleteOldNotifications_def)
  show "n_PrefsOf u w s = Inr (PrefsOf w s)" if "keyed prUserID (prefs s)"
    using w that by (auto simp: n_PrefsOf_def PrefsOf_def keyed_def dest!: map_of_SomeD split: option.split)
  show "prUserID p = w \<Longrightarrow> hour_check (prQuietFrom p) \<Longrightarrow> hour_check (prQuietTo p) \<Longrightarrow> n_SavePrefs u p s = Inr (store_SavePrefs p s)"
    using w by (auto simp: n_SavePrefs_def store_SavePrefs_def)
qed


section \<open>A token has one owner\<close>

text \<open>When a telephone changes hands its token moves: the new person is told, the former one no more.\<close>

lemma token_moves:
  assumes "n_UpsertDevice u d s = Inr s'" "u (deUserID d) = Some w" "u x = Some x" "x \<noteq> w" "keyed deToken (devices s)"
    "n_ListDevicesByUser u rank x s' = Inr ds"
  shows "\<forall>e \<in> set ds. deToken e \<noteq> deToken d"
proof -
  obtain r where r: "deToken r = deToken d" "deUserID r = w" "s' = s\<lparr>devices := AList.update (deToken r) r (devices s)\<rparr>"
  proof -
    obtain r0 where "device_values u d = Some r0" using assms(1) by (auto simp: n_UpsertDevice_def split: option.splits)
    moreover from this have "deToken r0 = deToken d" "deUserID r0 = w"
      using assms(2) by (auto simp: device_values_def Let_def split: if_split_asm)
    ultimately show thesis
      using assms(1) that [of "case map_of (devices s) (deToken r0) of None \<Rightarrow> r0 | Some old \<Rightarrow> r0\<lparr>deCreatedAt := deCreatedAt old\<rparr>"]
      by (simp add: n_UpsertDevice_def split: option.split)
  qed
  have "set (gvals (devices s')) = insert r {e \<in> set (gvals (devices s)). deToken e \<noteq> deToken r}"
    using keyed_gvals_update [OF assms(5), of r] r(3) by simp
  moreover have "set ds = {e \<in> set (gvals (devices s')). deUserID e = x}"
    using assms(3,6) by (auto simp: n_ListDevicesByUser_def select_from_def)
  ultimately show ?thesis using r assms(4) by auto
qed

text \<open>What the table refuses and the store in memory keeps: a platform of another name, an identifier that is no
  \<^verbatim>\<open>uuid\<close>. The handlers answer the first with 400 and one bad identifier among the entries read with 500.\<close>

lemma refused_notices:
  "dePlatform d \<noteq> '''' \<Longrightarrow> dePlatform d \<notin> set platforms \<Longrightarrow> n_UpsertDevice u d s = Inl Broken"
  "i \<in> set is \<Longrightarrow> u i = None \<Longrightarrow> n_MarkNotificationsRead u w is now s = Inl Broken"
proof -
  show "dePlatform d \<noteq> '''' \<Longrightarrow> dePlatform d \<notin> set platforms \<Longrightarrow> n_UpsertDevice u d s = Inl Broken"
    by (simp add: n_UpsertDevice_def device_values_def Let_def split: option.split)
  have none: "i \<in> set is \<Longrightarrow> u i = None \<Longrightarrow> uuid_list u is = None" for i "is"
    by (induction "is") (auto split: option.split)
  show "i \<in> set is \<Longrightarrow> u i = None \<Longrightarrow> n_MarkNotificationsRead u w is now s = Inl Broken"
    using none [of i "is"] by (auto simp: n_MarkNotificationsRead_def with_uuid_def split: option.split)
qed

end
