(* ===== verification/Spec2Isabelle.thy ===== *)
theory Spec2Isabelle
  imports Orders_Properties Offers_Properties Chats_Properties Disputes_Properties Scheduler_Properties
    Refinement Crm_Service Identity_Properties Catalog_Rules Catalog_Properties Notifications_Service Gateway_Properties
    Media_Service Orders_Routes Deals_Export Shared_Links Postgres_Gaps Postgres_Accounts Postgres_Catalog Postgres_Notices
begin

text \<open>
  Traktor: a marketplace of construction machines. This library models the Go services of the
  repository (\<^verbatim>\<open>src/services\<close>): orders, identity, catalog, notifications, gateway and media. Clients
  reach the services through the gateway only; it checks the access token that identity issued and tells the
  services in headers who is asking; orders asks catalog for machines and sends notifications; a background worker
  of orders closes what has run out.

  \<^bold>\<open>How the code is modelled.\<close> A Go struct is a record with one field per field of the struct, an
  enumeration a datatype, an error a constructor of a datatype of errors, and a pair (value, error) a sum with
  the error on the left. A service is a record of tables; a table is a map kept as a list of pairs (Prelude, Tables), and
  every loop over a Go map takes the order in which the runtime visits the rows as an argument, so that a
  theorem holds for every order. An operation takes its environment (clock readings in the order the code takes
  them, generated identifiers, visiting orders) and the state, and gives a result and the next state; World holds the
  small state monad of the orders service. Identifiers and words of the protocol are strings, texts typed by people
  lists of Unicode code points (runes). Amounts and counters are 64-bit: where the code can wrap,
  \<open>wrap64\<close> is written out; \<^verbatim>\<open>float64\<close> is exact rational arithmetic rounded to 53 bits after every operation
  (Float64). Instants are nanoseconds since the year 1 in UTC (Civil has Go's calendar).
  Messages to people are lists of phrases, fixed ones named by an English key.

  \<^bold>\<open>Orders\<close> (\<^verbatim>\<open>services/orders/internal\<close>).
  \<^verbatim>\<open>job/*.go\<close>: Job_Model, Bid_Model, Offer_Model, Deal_Model, Dispute_Model, Review_Model, Chat_Model (with
  Regexp for the patterns of contacts), Crm_Model: the records, the status machines and the rules without state.
  \<^verbatim>\<open>store/*_memory.go\<close>: Memory_Store and Crm_Model: every table operation; the eight tables are interpretations
  of the locale \<open>store_table\<close> of Tables, whose laws say what a read returns after a write and that an
  insertion guarded by a clash keeps rows unique.
  \<^verbatim>\<open>service/*.go\<close>: Orders_Service, Bids_Service, Offers_Service, Deals_Service, Disputes_Service,
  Reviews_Service, Chats_Service, Crm_Service, Scheduler: every handler with its guards, notifications and events.
  The theories called \<open>..._Properties\<close> hold the theorems of each, with instances on the rows of Samples.
  Soundness and System: the invariant of the whole store, kept by every request and every pass of the worker, for every
  reachable state. Refinement: requests and passes simulate an abstract machine of agreements, from which the terms of
  a deal are final. Scheduler_Properties: one pass ends and leaves nothing overdue.

  \<^verbatim>\<open>store/*_postgres.go\<close> with \<^verbatim>\<open>migrations/*.sql\<close>: Sql (tables, INSERT, UPDATE, SELECT, unique indexes, types of columns),
  Postgres_Jobs, Postgres_Feed, Postgres_Deals, Postgres_Queues, Postgres_Crm: every method as its statements.
  Postgres_Refinement: over any writes that fit the columns the two stores give the same verdicts and answers; a job and its
  columns. Postgres_Gaps: where the two stores part. Reading of \<^verbatim>\<open>uuid\<close> texts, points on the sphere, distances,
  lower case and averages of the database are parameters (\<open>database\<close>).
  \<^verbatim>\<open>httpapi/*.go\<close>, \<^verbatim>\<open>profiles\<close>: Job_Feed (the feed, with the query of the request), Profiles_Client (the cards of
  people with their cache of a minute), Orders_Http (answers and refusals, handlers of jobs, bids, offers and deals),
  Orders_Pages (handlers of chats, disputes, complaints, reviews and business), Deals_Export (the file of deals, as
  \<^verbatim>\<open>encoding/csv\<close> writes it), Orders_Routes (guards and table of routes; which requests can end as an internal error).

  \<^bold>\<open>Identity\<close> (\<^verbatim>\<open>services/identity/internal\<close>): Identity_Store (\<^verbatim>\<open>store\<close>), Identity_Service
  (\<^verbatim>\<open>service/auth.go\<close>, \<^verbatim>\<open>moderation.go\<close>, \<^verbatim>\<open>verification.go\<close>, \<^verbatim>\<open>deletion.go\<close>, \<^verbatim>\<open>token/jwt.go\<close>), Identity_Soundness
  (reachable states), Identity_Properties (codes, sessions, sanctions, erasure), Identity_Http (\<^verbatim>\<open>httpapi\<close>: every handler,
  the check of the token, who gets to see a telephone number). The hash, the provider of messages and the signature
  are parameters; Params has the values of a request's query. Postgres_Accounts: the store of \<^verbatim>\<open>store/*_postgres.go\<close>, where
  numbers are ciphers and hashes, and what is left of an erased person.

  \<^bold>\<open>Catalog\<close> (\<^verbatim>\<open>services/catalog/internal\<close>): Catalog_Categories and Catalog_Tree (the directory and its tree),
  Catalog_Rules (its order under every edition), Catalog_Equipment (machine cards of owners and
  moderators), Catalog_Properties. The recursion of \<^verbatim>\<open>BuildTree\<close> follows links between rows; its fuel is the depth
  allowed, and \<open>BuildTree_total\<close> shows that the number of rows is always enough. Postgres_Catalog: the store of
  \<^verbatim>\<open>store/*_postgres.go\<close>; on canonical identifiers its rows are those of the list in memory, on others a category can
  become its own parent.

  \<^bold>\<open>Notifications\<close> (\<^verbatim>\<open>services/notifications/internal\<close>): Notifications_Service: devices, the center, settings and
  quiet hours, delivery, handlers. The push provider is a parameter with arbitrary answers. Postgres_Notices: the store of
  \<^verbatim>\<open>store/*_postgres.go\<close>, which answers as the one in memory.

  \<^bold>\<open>Gateway\<close> (\<^verbatim>\<open>services/gateway\<close>): Gateway and Gateway_Properties: tokens, identity headers, public paths,
  routes, and what Go's reverse proxy strips; composed with identity (the roles a token carries), with catalog
  (the section of the moderators) and with the guards of orders. The library of tokens is a parameter with its documented
  promise \<open>sound_parser\<close> as a hypothesis.

  Share_Pages and Shared_Links (\<^verbatim>\<open>internal/share\<close>): the pages behind shared links, with cutting and escaping of texts,
  and their composition with the answers of orders and identity.

  \<^bold>\<open>Media\<close> (\<^verbatim>\<open>services/media/internal\<close>): Media_Service: the links for uploads, with their folders, names and types.
  The random name and the signature of a link are parameters.

  \<^bold>\<open>Bounds.\<close> Fuel appears only in the tree of categories (above). Masking of contacts, search patterns and loops over
  days are recursions with termination proofs; the export reads at most its 25 pages of deals; tickers and workers are
  the number of their passes, which theorems quantify over.

  \<^bold>\<open>Not modelled.\<close> Connections to databases and the running of migrations, the clients of SMS, push and live channels
  (network calls whose results are parameters or recorded as messages sent), decoding and encoding of JSON (a handler
  takes the decoded body, or none when decoding failed, and returns the answer as a value) but for the two records that
  shared links read, the wiring of the programs, configuration and logs, and the Dart
  applications. Locks are not modelled: each store operation holds the mutex of the store, so an
  operation is one step; a service operation made of several store operations is taken as one
  step too, so races between two requests inside it are outside the model.
\<close>

end
